(* ===== verification/Py_Prelude.thy ===== *)
theory Py_Prelude
  imports Main "HOL-Library.Word" "HOL-Library.Char_ord" "HOL-Library.List_Lexorder"
begin

text \<open>
  The shared vocabulary of the development: results of fallible code, Python values (UUIDs,
  datetimes, text patterns), the guards every validated dataclass is made of, PostgreSQL integer
  ranges, and the generic lemmas on guards, rows and counting that the component proofs rest on.

  \<^item> Code that raises returns a sum: \<open>Inl\<close> is the exception, \<open>Inr\<close> the value.
    \<open>result_bind\<close> is sequential composition: the first exception ends the computation.
  \<^item> Text is a \<^typ>\<open>string\<close>; a character is a code point below 256. Every format the
    program checks (tokens, keys, codes, digests) accepts ASCII only.
  \<^item> A \<open>datetime\<close> is an instant in microseconds with its UTC offset, or none when naive.
    A \<open>timedelta\<close> is a number of microseconds.
\<close>

named_theorems result_simps \<open>equations of sequential composition and guards\<close>
named_theorems result_elims \<open>inversion of successful computations\<close>

section \<open>Results\<close>

datatype value_error = ValueError string

type_synonym 'a checked = "value_error + 'a"

definition result_bind :: "'e + 'a \<Rightarrow> ('a \<Rightarrow> 'e + 'b) \<Rightarrow> 'e + 'b" where
  "result_bind r f = (case r of Inl e \<Rightarrow> Inl e | Inr x \<Rightarrow> f x)"

definition map_error :: "('e \<Rightarrow> 'f) \<Rightarrow> 'e + 'a \<Rightarrow> 'f + 'a" where
  "map_error g r = (case r of Inl e \<Rightarrow> Inl (g e) | Inr x \<Rightarrow> Inr x)"

definition guard :: "bool \<Rightarrow> 'e \<Rightarrow> 'e + unit" where
  "guard c e = (if c then Inr () else Inl e)"

text \<open>The checks of a \<open>__post_init__\<close> in their order: the first one that fails is raised.\<close>

fun checks :: "('e + unit) list \<Rightarrow> 'e + unit" where
  "checks [] = Inr ()"
| "checks (c # cs) = (case c of Inl e \<Rightarrow> Inl e | Inr _ \<Rightarrow> checks cs)"

lemma result_bind_simps [simp, result_simps]:
  "result_bind (Inl e) f = Inl e"
  "result_bind (Inr x) f = f x"
  by (simp_all add: result_bind_def)

lemma result_bind_eq_Inr [result_simps]:
  "result_bind r f = Inr y \<longleftrightarrow> (\<exists>x. r = Inr x \<and> f x = Inr y)"
  by (cases r) auto

lemma result_bind_eq_Inl [result_simps]:
  "result_bind r f = Inl e \<longleftrightarrow> r = Inl e \<or> (\<exists>x. r = Inr x \<and> f x = Inl e)"
  by (cases r) auto

lemma result_bind_InrE [result_elims]:
  assumes "result_bind r f = Inr y"
  obtains x where "r = Inr x" and "f x = Inr y"
  using assms by (auto simp: result_bind_eq_Inr)

lemma map_error_simps [simp, result_simps]:
  "map_error g (Inl e) = Inl (g e)"
  "map_error g (Inr x) = Inr x"
  by (simp_all add: map_error_def)

lemma map_error_eq_Inr [simp, result_simps]: "map_error g r = Inr x \<longleftrightarrow> r = Inr x"
  by (cases r) auto

lemma map_error_eq_Inl [result_simps]: "map_error g r = Inl e \<longleftrightarrow> (\<exists>e'. r = Inl e' \<and> e = g e')"
  by (cases r) auto

lemma guard_simps [simp, result_simps]:
  "guard True e = Inr ()"
  "guard False e = Inl e"
  by (simp_all add: guard_def)

lemma guard_eq_Inr [simp, result_simps]: "guard c e = Inr u \<longleftrightarrow> c"
  by (simp add: guard_def)

lemma guard_eq_Inl [simp, result_simps]: "guard c e = Inl e' \<longleftrightarrow> \<not> c \<and> e' = e"
  by (auto simp: guard_def)

lemma checks_Cons_eq_Inr [simp, result_simps]:
  "checks (c # cs) = Inr u \<longleftrightarrow> c = Inr () \<and> checks cs = Inr ()"
  by (cases c) auto

declare checks.simps(2) [simp del]

lemma checks_Cons_simps [simp, result_simps]:
  "checks (Inr u # cs) = checks cs"
  "checks (Inl e # cs) = Inl e"
  by (simp_all add: checks.simps)

lemma checks_eq_Inr: "checks cs = Inr u \<longleftrightarrow> (\<forall>c \<in> set cs. c = Inr ())"
  by (induction cs) auto

lemma checks_append: "checks (cs @ ds) = Inr u \<longleftrightarrow> checks cs = Inr () \<and> checks ds = Inr ()"
  by (auto simp: checks_eq_Inr)

lemma checks_map: "checks (map f xs) = Inr u \<longleftrightarrow> (\<forall>x \<in> set xs. f x = Inr ())"
  by (auto simp: checks_eq_Inr)

text \<open>\<open>tuple(f(x) for x in xs)\<close> where \<open>f\<close> may raise.\<close>

fun traverse :: "('a \<Rightarrow> 'e + 'b) \<Rightarrow> 'a list \<Rightarrow> 'e + 'b list" where
  "traverse f [] = Inr []"
| "traverse f (x # xs) = result_bind (f x) (\<lambda>y. result_bind (traverse f xs) (\<lambda>ys. Inr (y # ys)))"

lemma traverse_Inr: "(\<And>x. x \<in> set xs \<Longrightarrow> f x = Inr (g x)) \<Longrightarrow> traverse f xs = Inr (map g xs)"
  by (induction xs) auto

lemma traverse_cong: "(\<And>x. x \<in> set xs \<Longrightarrow> f x = g x) \<Longrightarrow> traverse f xs = traverse g xs"
  by (induction xs) auto

section \<open>UUIDs\<close>

text \<open>
  A UUID is a 128-bit number; \<open>value.hex\<close> and PostgreSQL's \<open>uuid\<close> order both compare the
  bytes from the most significant one, which is the order of the numbers.
\<close>

datatype uuid = UUID (uuid_int: "128 word")

instantiation uuid :: linorder
begin

definition less_eq_uuid :: "uuid \<Rightarrow> uuid \<Rightarrow> bool" where
  "less_eq_uuid a b \<longleftrightarrow> uuid_int a \<le> uuid_int b"

definition less_uuid :: "uuid \<Rightarrow> uuid \<Rightarrow> bool" where
  "less_uuid a b \<longleftrightarrow> uuid_int a < uuid_int b"

instance
  by intro_classes (auto simp: less_eq_uuid_def less_uuid_def uuid.expand)

end

section \<open>Datetimes\<close>

datatype datetime = Datetime (instant: int) (utcoffset: "int option")

type_synonym timedelta = int

definition utc :: "int \<Rightarrow> datetime" where
  "utc t = Datetime t (Some 0)"

definition datetime_add :: "datetime \<Rightarrow> timedelta \<Rightarrow> datetime" where
  "datetime_add d delta = Datetime (instant d + delta) (utcoffset d)"

definition seconds :: "int \<Rightarrow> timedelta" where
  "seconds n = n * 1000000"

definition milliseconds :: "int \<Rightarrow> timedelta" where
  "milliseconds n = n * 1000"

text \<open>The check every module repeats: \<open>value.tzinfo is None or value.utcoffset() != timedelta(0)\<close>.\<close>

definition is_aware_utc :: "datetime \<Rightarrow> bool" where
  "is_aware_utc d \<longleftrightarrow> utcoffset d = Some 0"

lemma utc_simps [simp]:
  "instant (utc t) = t" "utcoffset (utc t) = Some 0" "is_aware_utc (utc t)"
  "utc s = utc t \<longleftrightarrow> s = t"
  by (simp_all add: utc_def is_aware_utc_def)

lemma datetime_add_simps [simp]:
  "instant (datetime_add d x) = instant d + x"
  "is_aware_utc (datetime_add d x) = is_aware_utc d"
  by (simp_all add: datetime_add_def is_aware_utc_def)

lemma aware_utc_iff: "is_aware_utc d \<longleftrightarrow> d = utc (instant d)"
  by (cases d) (auto simp: is_aware_utc_def utc_def)

lemma seconds_mono [simp]:
  "seconds a < seconds b \<longleftrightarrow> a < b" "seconds a \<le> seconds b \<longleftrightarrow> a \<le> b"
  "0 < seconds a \<longleftrightarrow> 0 < a" "0 \<le> seconds a \<longleftrightarrow> 0 \<le> a"
  by (simp_all add: seconds_def)

section \<open>Text patterns\<close>

definition char_between :: "char \<Rightarrow> char \<Rightarrow> char \<Rightarrow> bool" where
  "char_between lo hi c \<longleftrightarrow> (of_char lo :: nat) \<le> of_char c \<and> (of_char c :: nat) \<le> of_char hi"

definition is_digit :: "char \<Rightarrow> bool" where
  "is_digit = char_between (CHR ''0'') (CHR ''9'')"

definition is_lower :: "char \<Rightarrow> bool" where
  "is_lower = char_between (CHR ''a'') (CHR ''z'')"

definition is_upper :: "char \<Rightarrow> bool" where
  "is_upper = char_between (CHR ''A'') (CHR ''Z'')"

definition is_alnum :: "char \<Rightarrow> bool" where
  "is_alnum c \<longleftrightarrow> is_upper c \<or> is_lower c \<or> is_digit c"

definition is_lower_hex :: "char \<Rightarrow> bool" where
  "is_lower_hex c \<longleftrightarrow> is_digit c \<or> char_between (CHR ''a'') (CHR ''f'') c"

text \<open>The character classes as lists, which is how the kernel evaluates them.\<close>

lemma char_between_code:
  assumes "map of_char cs = [of_char lo..<Suc (of_char hi)]"
  shows "char_between lo hi c \<longleftrightarrow> c \<in> set cs"
proof -
  have "of_char ` set cs = {of_char lo..(of_char hi :: nat)}"
    using arg_cong [OF assms, of set] by auto
  then have "(of_char c :: nat) \<in> of_char ` set cs \<longleftrightarrow> char_between lo hi c"
    by (simp add: char_between_def)
  moreover have "(of_char c :: nat) \<in> of_char ` set cs \<longleftrightarrow> c \<in> set cs"
    by (auto simp: image_iff)
  ultimately show ?thesis by simp
qed

lemma char_class_code [code]:
  "is_digit c \<longleftrightarrow> c \<in> set ''0123456789''"
  "is_lower c \<longleftrightarrow> c \<in> set ''abcdefghijklmnopqrstuvwxyz''"
  "is_upper c \<longleftrightarrow> c \<in> set ''ABCDEFGHIJKLMNOPQRSTUVWXYZ''"
  "is_lower_hex c \<longleftrightarrow> c \<in> set ''0123456789abcdef''"
proof -
  show dig: "is_digit c \<longleftrightarrow> c \<in> set ''0123456789''"
    unfolding is_digit_def by (rule char_between_code) (simp add: upt_rec)
  show "is_lower c \<longleftrightarrow> c \<in> set ''abcdefghijklmnopqrstuvwxyz''"
    unfolding is_lower_def by (rule char_between_code) (simp add: upt_rec)
  show "is_upper c \<longleftrightarrow> c \<in> set ''ABCDEFGHIJKLMNOPQRSTUVWXYZ''"
    unfolding is_upper_def by (rule char_between_code) (simp add: upt_rec)
  have "char_between (CHR ''a'') (CHR ''f'') c \<longleftrightarrow> c \<in> set ''abcdef''"
    by (rule char_between_code) (simp add: upt_rec)
  then show "is_lower_hex c \<longleftrightarrow> c \<in> set ''0123456789abcdef''"
    unfolding is_lower_hex_def dig by simp
qed
text \<open>\<open>[first][rest]{0,n}\<close> under \<open>fullmatch\<close>.\<close>

definition head_tail_pattern :: "(char \<Rightarrow> bool) \<Rightarrow> (char \<Rightarrow> bool) \<Rightarrow> nat \<Rightarrow> string \<Rightarrow> bool" where
  "head_tail_pattern first rest n s =
     (case s of [] \<Rightarrow> False | c # cs \<Rightarrow> first c \<and> length cs \<le> n \<and> list_all rest cs)"

text \<open>\<open>^sha256:[0-9a-f]{64}$\<close>\<close>

definition sha256_pattern :: "string \<Rightarrow> bool" where
  "sha256_pattern s \<longleftrightarrow>
     take 7 s = ''sha256:'' \<and> length s = 71 \<and> list_all is_lower_hex (drop 7 s)"

text \<open>\<open>^[a-z][a-z0-9_]{0,79}$\<close>\<close>

definition key_pattern :: "string \<Rightarrow> bool" where
  "key_pattern = head_tail_pattern is_lower
     (\<lambda>c. is_lower c \<or> is_digit c \<or> c = CHR ''_'') 79"

text \<open>\<open>^[A-Z][A-Z0-9_]{0,99}$\<close>\<close>

definition code_pattern :: "string \<Rightarrow> bool" where
  "code_pattern = head_tail_pattern is_upper
     (\<lambda>c. is_upper c \<or> is_digit c \<or> c = CHR ''_'') 99"

text \<open>\<open>^[A-Za-z0-9][A-Za-z0-9._:@+-]{0,n}$\<close>, with the length bound of the module that uses it.\<close>

definition token_char :: "char \<Rightarrow> bool" where
  "token_char c \<longleftrightarrow> is_alnum c \<or> c \<in> set ''._:@+-''"

definition token_pattern :: "nat \<Rightarrow> string \<Rightarrow> bool" where
  "token_pattern n = head_tail_pattern is_alnum token_char n"

lemma token_pattern_mono: "token_pattern m s \<Longrightarrow> m \<le> n \<Longrightarrow> token_pattern n s"
  by (auto simp: token_pattern_def head_tail_pattern_def split: list.splits)

lemma token_pattern_length: "token_pattern n s \<Longrightarrow> s \<noteq> [] \<and> length s \<le> Suc n"
  by (auto simp: token_pattern_def head_tail_pattern_def split: list.splits)

lemma token_pattern_narrow: "token_pattern n s \<Longrightarrow> length s \<le> Suc m \<Longrightarrow> token_pattern m s"
  by (auto simp: token_pattern_def head_tail_pattern_def split: list.splits)

text \<open>The white space \<open>str.strip()\<close> removes, among the code points below 256.\<close>

definition py_isspace :: "char \<Rightarrow> bool" where
  "py_isspace c \<longleftrightarrow> (of_char c :: nat) \<in> {9, 10, 11, 12, 13, 28, 29, 30, 31, 32, 133, 160}"

definition py_strip :: "string \<Rightarrow> string" where
  "py_strip s = rev (dropWhile py_isspace (rev (dropWhile py_isspace s)))"

section \<open>PostgreSQL columns\<close>

definition int4 :: "int \<Rightarrow> bool" where
  "int4 n \<longleftrightarrow> - (2 ^ 31) \<le> n \<and> n < 2 ^ 31"

definition int8 :: "int \<Rightarrow> bool" where
  "int8 n \<longleftrightarrow> - (2 ^ 63) \<le> n \<and> n < 2 ^ 63"

text \<open>A text column holds every character but NUL.\<close>

definition storable :: "string \<Rightarrow> bool" where
  "storable s \<longleftrightarrow> list_all (\<lambda>c. (of_char c :: nat) \<noteq> 0) s"

lemma storable_append [simp]: "storable (s @ t) \<longleftrightarrow> storable s \<and> storable t"
  by (simp add: storable_def)

lemma sha256_storable: "sha256_pattern s \<Longrightarrow> storable s"
proof -
  assume s: "sha256_pattern s"
  have hex: "list_all (\<lambda>c. (of_char c :: nat) \<noteq> 0) t" if "list_all is_lower_hex t" for t
    using that by (auto simp: list_all_iff is_lower_hex_def is_digit_def char_between_def)
  have "storable (''sha256:'' @ drop 7 s)" using s hex by (simp add: sha256_pattern_def storable_def)
  moreover have "''sha256:'' @ drop 7 s = s" using s unfolding sha256_pattern_def by (metis append_take_drop_id)
  ultimately show ?thesis by simp
qed

section \<open>Counting rows\<close>

definition count_rows :: "('r \<Rightarrow> bool) \<Rightarrow> 'r list \<Rightarrow> int" where
  "count_rows P rs = int (length (filter P rs))"

lemma count_rows_simps [simp]:
  "count_rows P [] = 0"
  "count_rows P (r # rs) = (if P r then 1 else 0) + count_rows P rs"
  "count_rows P (rs @ ss) = count_rows P rs + count_rows P ss"
  by (simp_all add: count_rows_def)

lemma count_rows_nonneg [simp]: "0 \<le> count_rows P rs"
  by (simp add: count_rows_def)

lemma count_rows_pos: "r \<in> set rs \<Longrightarrow> P r \<Longrightarrow> 0 < count_rows P rs"
  by (auto simp: count_rows_def filter_empty_conv)

lemma count_rows_cong: "(\<And>r. r \<in> set rs \<Longrightarrow> P r = Q r) \<Longrightarrow> count_rows P rs = count_rows Q rs"
  by (simp add: count_rows_def cong: filter_cong)

end
