(* ===== verification/Lifecycles.thy ===== *)
theory Lifecycles
  imports Py_Prelude
begin

text \<open>
  The contract the three lifecycle classes of \<^verbatim>\<open>collection_domain\<close> share (work unit,
  collection run, stage run): an immutable value with a state and a revision, whose
  \<open>transition\<close> accepts exactly the states its table allows, moves there and counts the
  revision up by one. What follows from the contract is proved once here and reaches each class
  through an interpretation.
\<close>

text \<open>Requesting a list of states one after the other; the first refusal ends the run.\<close>

fun run_transitions :: "('l \<Rightarrow> 's \<Rightarrow> 'e + 'l) \<Rightarrow> 'l \<Rightarrow> 's list \<Rightarrow> 'e + 'l" where
  "run_transitions step l [] = Inr l"
| "run_transitions step l (s # ss) = result_bind (step l s) (\<lambda>l'. run_transitions step l' ss)"

text \<open>The path of states a table allows from a state on.\<close>

fun allowed_path :: "('s \<Rightarrow> 's set) \<Rightarrow> 's \<Rightarrow> 's list \<Rightarrow> bool" where
  "allowed_path allowed s [] \<longleftrightarrow> True"
| "allowed_path allowed s (t # ts) \<longleftrightarrow> t \<in> allowed s \<and> allowed_path allowed t ts"

locale lifecycle_machine =
  fixes allowed :: "'s \<Rightarrow> 's set"
    and lstate :: "'l \<Rightarrow> 's"
    and lrevision :: "'l \<Rightarrow> int"
    and ltransition :: "'l \<Rightarrow> 's \<Rightarrow> 'e + 'l"
  assumes transition_allowed:
      "0 \<le> lrevision l \<Longrightarrow> s \<in> allowed (lstate l) \<Longrightarrow>
       \<exists>l'. ltransition l s = Inr l' \<and> lstate l' = s \<and> lrevision l' = lrevision l + 1"
    and transition_refused: "s \<notin> allowed (lstate l) \<Longrightarrow> \<exists>e. ltransition l s = Inl e"
begin

lemma transition_InrD:
  assumes "0 \<le> lrevision l" and "ltransition l s = Inr l'"
  shows "s \<in> allowed (lstate l)" and "lstate l' = s" and "lrevision l' = lrevision l + 1"
  using assms transition_refused [of s l] transition_allowed [of l s] by auto

lemma transition_iff:
  "0 \<le> lrevision l \<Longrightarrow> (\<exists>l'. ltransition l s = Inr l') \<longleftrightarrow> s \<in> allowed (lstate l)"
  using transition_refused [of s l] transition_allowed [of l s] by fastforce

lemma run_accepts_iff:
  "0 \<le> lrevision l \<Longrightarrow>
   (\<exists>l'. run_transitions ltransition l ss = Inr l') \<longleftrightarrow> allowed_path allowed (lstate l) ss"
proof (induction ss arbitrary: l)
  case (Cons s ss)
  show ?case
  proof (cases "s \<in> allowed (lstate l)")
    case True
    then obtain l1 where "ltransition l s = Inr l1" "lstate l1 = s" "lrevision l1 = lrevision l + 1"
      using transition_allowed Cons.prems by blast
    then show ?thesis using True Cons.IH [of l1] Cons.prems by simp
  next
    case False
    then show ?thesis using transition_refused [of s l] by auto
  qed
qed simp

lemma run_revision:
  "0 \<le> lrevision l \<Longrightarrow> run_transitions ltransition l ss = Inr l' \<Longrightarrow>
   lrevision l' = lrevision l + int (length ss) \<and> lstate l' = last (lstate l # ss)"
proof (induction ss arbitrary: l)
  case (Cons s ss)
  then obtain l1 where l1: "ltransition l s = Inr l1" "run_transitions ltransition l1 ss = Inr l'"
    by (auto simp: result_bind_eq_Inr)
  have "lstate l1 = s" "lrevision l1 = lrevision l + 1"
    using transition_InrD [OF Cons.prems(1) l1(1)] by auto
  with Cons.IH [of l1] l1(2) Cons.prems(1) show ?case by auto
qed simp

lemma terminal_absorbs:
  assumes "allowed (lstate l) = {}" and "run_transitions ltransition l ss = Inr l'"
  shows "l' = l \<and> ss = []"
proof (cases ss)
  case (Cons s r)
  then show ?thesis using assms transition_refused [of s l] by (auto simp: result_bind_eq_Inr)
qed (use assms in simp)

end

end
