(* ===== verification/Work_Units.thy ===== *)
theory Work_Units
  imports Lifecycles
begin

text \<open>
  \<^verbatim>\<open>collection_domain/work_units.py\<close>: stages, capabilities and the work-unit lifecycle, with
  the tables that bind them. The lifecycle table is what the documentation of the domain promises;
  the engine's own moves are compared with it in the theory of the engine's properties.
\<close>

section \<open>Stages and capabilities\<close>

datatype work_stage =
    Stage_DISCOVERY | Stage_ACQUISITION | Stage_EXTRACTION | Stage_NORMALIZATION
  | Stage_GEOGRAPHY | Stage_ENTITY_RESOLUTION | Stage_QUALITY | Stage_EXPORT

datatype work_capability =
    Cap_MANUAL_IMPORT | Cap_MANUAL_RECORD | Cap_OSM_QUERY | Cap_HTTP_FETCH | Cap_BROWSER_FETCH
  | Cap_EXTRACTION | Cap_NORMALIZATION | Cap_GEOGRAPHY | Cap_ENTITY_RESOLUTION
  | Cap_QUALITY | Cap_EXPORT

fun work_stage_value :: "work_stage \<Rightarrow> string" where
  "work_stage_value Stage_DISCOVERY = ''discovery''"
| "work_stage_value Stage_ACQUISITION = ''acquisition''"
| "work_stage_value Stage_EXTRACTION = ''extraction''"
| "work_stage_value Stage_NORMALIZATION = ''normalization''"
| "work_stage_value Stage_GEOGRAPHY = ''geography''"
| "work_stage_value Stage_ENTITY_RESOLUTION = ''entity_resolution''"
| "work_stage_value Stage_QUALITY = ''quality''"
| "work_stage_value Stage_EXPORT = ''export''"

fun work_capability_value :: "work_capability \<Rightarrow> string" where
  "work_capability_value Cap_MANUAL_IMPORT = ''manual_import''"
| "work_capability_value Cap_MANUAL_RECORD = ''manual_record''"
| "work_capability_value Cap_OSM_QUERY = ''osm_query''"
| "work_capability_value Cap_HTTP_FETCH = ''http_fetch''"
| "work_capability_value Cap_BROWSER_FETCH = ''browser_fetch''"
| "work_capability_value Cap_EXTRACTION = ''extraction''"
| "work_capability_value Cap_NORMALIZATION = ''normalization''"
| "work_capability_value Cap_GEOGRAPHY = ''geography''"
| "work_capability_value Cap_ENTITY_RESOLUTION = ''entity_resolution''"
| "work_capability_value Cap_QUALITY = ''quality''"
| "work_capability_value Cap_EXPORT = ''export''"

fun stage_capabilities :: "work_stage \<Rightarrow> work_capability set" where
  "stage_capabilities Stage_DISCOVERY = {Cap_MANUAL_IMPORT, Cap_MANUAL_RECORD, Cap_OSM_QUERY}"
| "stage_capabilities Stage_ACQUISITION = {Cap_HTTP_FETCH, Cap_BROWSER_FETCH}"
| "stage_capabilities Stage_EXTRACTION = {Cap_EXTRACTION}"
| "stage_capabilities Stage_NORMALIZATION = {Cap_NORMALIZATION}"
| "stage_capabilities Stage_GEOGRAPHY = {Cap_GEOGRAPHY}"
| "stage_capabilities Stage_ENTITY_RESOLUTION = {Cap_ENTITY_RESOLUTION}"
| "stage_capabilities Stage_QUALITY = {Cap_QUALITY}"
| "stage_capabilities Stage_EXPORT = {Cap_EXPORT}"

definition source_bound_capabilities :: "work_capability set" where
  "source_bound_capabilities =
     {Cap_MANUAL_IMPORT, Cap_OSM_QUERY, Cap_HTTP_FETCH, Cap_BROWSER_FETCH}"

definition capability_belongs_to_stage :: "work_stage \<Rightarrow> work_capability \<Rightarrow> bool" where
  "capability_belongs_to_stage stage capability \<longleftrightarrow> capability \<in> stage_capabilities stage"

definition capability_requires_source_permit :: "work_capability \<Rightarrow> bool" where
  "capability_requires_source_permit capability \<longleftrightarrow> capability \<in> source_bound_capabilities"

section \<open>The work-unit lifecycle\<close>

datatype work_unit_state =
    Unit_PENDING | Unit_LEASED | Unit_RETRY_WAIT | Unit_SUCCEEDED | Unit_DEAD_LETTER
  | Unit_BLOCKED_BY_POLICY | Unit_CANCELLED | Unit_SUPERSEDED

fun work_unit_state_value :: "work_unit_state \<Rightarrow> string" where
  "work_unit_state_value Unit_PENDING = ''pending''"
| "work_unit_state_value Unit_LEASED = ''leased''"
| "work_unit_state_value Unit_RETRY_WAIT = ''retry_wait''"
| "work_unit_state_value Unit_SUCCEEDED = ''succeeded''"
| "work_unit_state_value Unit_DEAD_LETTER = ''dead_letter''"
| "work_unit_state_value Unit_BLOCKED_BY_POLICY = ''blocked_by_policy''"
| "work_unit_state_value Unit_CANCELLED = ''cancelled''"
| "work_unit_state_value Unit_SUPERSEDED = ''superseded''"

fun allowed_transitions :: "work_unit_state \<Rightarrow> work_unit_state set" where
  "allowed_transitions Unit_PENDING =
     {Unit_LEASED, Unit_BLOCKED_BY_POLICY, Unit_CANCELLED, Unit_SUPERSEDED}"
| "allowed_transitions Unit_LEASED =
     {Unit_PENDING, Unit_RETRY_WAIT, Unit_SUCCEEDED, Unit_DEAD_LETTER, Unit_BLOCKED_BY_POLICY}"
| "allowed_transitions Unit_RETRY_WAIT =
     {Unit_PENDING, Unit_BLOCKED_BY_POLICY, Unit_CANCELLED, Unit_SUPERSEDED}"
| "allowed_transitions Unit_SUCCEEDED = {}"
| "allowed_transitions Unit_DEAD_LETTER = {}"
| "allowed_transitions Unit_BLOCKED_BY_POLICY = {}"
| "allowed_transitions Unit_CANCELLED = {}"
| "allowed_transitions Unit_SUPERSEDED = {}"

datatype lifecycle_error =
    InvalidWorkUnitTransition work_unit_state work_unit_state
  | LifecycleValueError value_error

record work_unit_lifecycle =
  wul_state :: work_unit_state
  wul_revision :: int

definition make_work_unit_lifecycle :: "work_unit_state \<Rightarrow> int \<Rightarrow> work_unit_lifecycle checked" where
  "make_work_unit_lifecycle state revision =
     result_bind (guard (\<not> revision < 0) (ValueError ''work unit revision cannot be negative''))
       (\<lambda>_. Inr \<lparr>wul_state = state, wul_revision = revision\<rparr>)"

definition work_unit_transition ::
    "work_unit_lifecycle \<Rightarrow> work_unit_state \<Rightarrow> lifecycle_error + work_unit_lifecycle" where
  "work_unit_transition self requested =
     (if requested \<notin> allowed_transitions (wul_state self)
      then Inl (InvalidWorkUnitTransition (wul_state self) requested)
      else map_error LifecycleValueError
             (make_work_unit_lifecycle requested (wul_revision self + 1)))"

interpretation work_unit_machine:
  lifecycle_machine allowed_transitions wul_state wul_revision work_unit_transition
  by unfold_locales
    (simp_all add: work_unit_transition_def make_work_unit_lifecycle_def)

text \<open>A state no transition leaves.\<close>

definition terminal_unit_state :: "work_unit_state \<Rightarrow> bool" where
  "terminal_unit_state s \<longleftrightarrow> allowed_transitions s = {}"

lemma terminal_unit_state_simps [simp]:
  "terminal_unit_state Unit_SUCCEEDED" "terminal_unit_state Unit_DEAD_LETTER"
  "terminal_unit_state Unit_BLOCKED_BY_POLICY" "terminal_unit_state Unit_CANCELLED"
  "terminal_unit_state Unit_SUPERSEDED"
  "\<not> terminal_unit_state Unit_PENDING" "\<not> terminal_unit_state Unit_LEASED"
  "\<not> terminal_unit_state Unit_RETRY_WAIT"
  by (simp_all add: terminal_unit_state_def)

end
