(* ===== verification/Source_Capacity.thy ===== *)
theory Source_Capacity
  imports Py_Prelude
begin

text \<open>
  \<^verbatim>\<open>collection_domain/source_capacity.py\<close>: the capacity of an external source, the permit
  a reservation yields, and the reserve/release pair. A capacity value is well formed when its
  dataclass checks pass; both operations keep that, and a release undoes the count of a reserve.
\<close>

datatype source_operational_state = Source_ACTIVE | Source_SUSPENDED | Source_CIRCUIT_OPEN

record source_permit =
  sp_source_key :: string
  sp_policy_digest :: string
  sp_permit_not_before_utc :: datetime

record source_capacity =
  cap_source_key :: string
  cap_state :: source_operational_state
  cap_policy_digest :: string
  cap_max_active_requests :: int
  cap_active_requests :: int
  cap_next_allowed_request_at_utc :: datetime
  cap_retry_after_utc :: "datetime option"
  cap_revision :: int

datatype reserve_error = SourcePermitUnavailable string | CapacityValueError value_error

definition require_source_key :: "string \<Rightarrow> unit checked" where
  "require_source_key v = guard (key_pattern v) (ValueError ''source key has an invalid format'')"

definition require_policy_digest :: "string \<Rightarrow> unit checked" where
  "require_policy_digest v =
     guard (sha256_pattern v) (ValueError ''source policy digest must be canonical SHA-256'')"

definition require_aware_utc :: "string \<Rightarrow> datetime \<Rightarrow> unit checked" where
  "require_aware_utc name v =
     guard (is_aware_utc v) (ValueError (name @ '' must be timezone-aware UTC''))"

lemma require_aware_utc_Inr [simp]: "require_aware_utc name v = Inr u \<longleftrightarrow> is_aware_utc v"
  by (simp add: require_aware_utc_def)

lemma require_aware_utc_ok [simp]: "is_aware_utc v \<Longrightarrow> require_aware_utc name v = Inr ()"
  by simp

definition make_source_permit :: "string \<Rightarrow> string \<Rightarrow> datetime \<Rightarrow> source_permit checked" where
  "make_source_permit source_key policy_digest not_before =
     result_bind (checks
       [require_source_key source_key,
        require_policy_digest policy_digest,
        require_aware_utc ''permit_not_before_utc'' not_before])
     (\<lambda>_. Inr \<lparr>sp_source_key = source_key, sp_policy_digest = policy_digest,
               sp_permit_not_before_utc = not_before\<rparr>)"

definition validate_source_capacity :: "source_capacity \<Rightarrow> unit checked" where
  "validate_source_capacity c = checks
     [require_source_key (cap_source_key c),
      require_policy_digest (cap_policy_digest c),
      guard (1 \<le> cap_max_active_requests c \<and> cap_max_active_requests c \<le> 10000)
        (ValueError ''source max active requests must be between 1 and 10000''),
      guard (0 \<le> cap_active_requests c \<and> cap_active_requests c \<le> cap_max_active_requests c)
        (ValueError ''source active requests are outside capacity''),
      require_aware_utc ''next_allowed_request_at_utc'' (cap_next_allowed_request_at_utc c),
      (case cap_retry_after_utc c of None \<Rightarrow> Inr ()
        | Some t \<Rightarrow> require_aware_utc ''retry_after_utc'' t),
      guard (\<not> cap_revision c < 0)
        (ValueError ''source capacity revision cannot be negative'')]"

definition make_source_capacity :: "source_capacity \<Rightarrow> source_capacity checked" where
  "make_source_capacity c = result_bind (validate_source_capacity c) (\<lambda>_. Inr c)"

definition source_reserve ::
    "source_capacity \<Rightarrow> datetime \<Rightarrow> timedelta \<Rightarrow> reserve_error + (source_capacity \<times> source_permit)" where
  "source_reserve self now_utc minimum_interval =
     result_bind (checks
       [map_error CapacityValueError (require_aware_utc ''now_utc'' now_utc),
        guard (\<not> minimum_interval < 0)
          (CapacityValueError (ValueError ''source minimum interval cannot be negative'')),
        guard (cap_state self \<noteq> Source_SUSPENDED) (SourcePermitUnavailable ''source_suspended''),
        guard (cap_state self \<noteq> Source_CIRCUIT_OPEN) (SourcePermitUnavailable ''source_circuit_open''),
        guard (\<not> (\<exists>t \<in> set_option (cap_retry_after_utc self). instant now_utc < instant t))
          (SourcePermitUnavailable ''source_retry_after''),
        guard (\<not> instant now_utc < instant (cap_next_allowed_request_at_utc self))
          (SourcePermitUnavailable ''source_rate_limited''),
        guard (\<not> cap_max_active_requests self \<le> cap_active_requests self)
          (SourcePermitUnavailable ''source_capacity_exhausted'')])
     (\<lambda>_. map_error CapacityValueError
        (result_bind
          (make_source_capacity
             (self\<lparr>cap_active_requests := cap_active_requests self + 1,
                   cap_next_allowed_request_at_utc := datetime_add now_utc minimum_interval,
                   cap_revision := cap_revision self + 1\<rparr>))
          (\<lambda>capacity. result_bind
             (make_source_permit (cap_source_key self) (cap_policy_digest self) now_utc)
             (\<lambda>permit. Inr (capacity, permit)))))"

definition source_release :: "source_capacity \<Rightarrow> source_capacity checked" where
  "source_release self =
     (if cap_active_requests self = 0
      then Inl (ValueError ''source capacity cannot release an unreserved request'')
      else make_source_capacity
             (self\<lparr>cap_active_requests := cap_active_requests self - 1,
                   cap_revision := cap_revision self + 1\<rparr>))"

abbreviation valid_source_capacity :: "source_capacity \<Rightarrow> bool" where
  "valid_source_capacity c \<equiv> validate_source_capacity c = Inr ()"

lemmas source_capacity_defs =
  validate_source_capacity_def make_source_capacity_def make_source_permit_def
  require_source_key_def require_policy_digest_def

text \<open>When a reservation is granted: the source is active, out of every waiting period and below
  its capacity.\<close>

definition can_reserve :: "source_capacity \<Rightarrow> int \<Rightarrow> bool" where
  "can_reserve c now \<longleftrightarrow> cap_state c = Source_ACTIVE
     \<and> (\<forall>t \<in> set_option (cap_retry_after_utc c). instant t \<le> now)
     \<and> instant (cap_next_allowed_request_at_utc c) \<le> now
     \<and> cap_active_requests c < cap_max_active_requests c"

lemma source_reserve_eq:
  assumes "valid_source_capacity c" and "0 \<le> interval" and "can_reserve c now"
  shows "source_reserve c (utc now) interval =
    Inr (c\<lparr>cap_active_requests := cap_active_requests c + 1,
            cap_next_allowed_request_at_utc := utc (now + interval),
            cap_revision := cap_revision c + 1\<rparr>,
         \<lparr>sp_source_key = cap_source_key c, sp_policy_digest = cap_policy_digest c,
          sp_permit_not_before_utc = utc now\<rparr>)"
proof -
  have add: "datetime_add (utc now) interval = utc (now + interval)"
    by (simp add: datetime_add_def utc_def)
  have later: "\<not> (\<exists>t \<in> set_option (cap_retry_after_utc c). now < instant t)"
    using assms(3) by (force simp: can_reserve_def)
  show ?thesis using assms later
    by (simp add: source_reserve_def add source_capacity_defs can_reserve_def)
qed

lemma source_reserve_InrD:
  assumes "source_reserve c now interval = Inr (c', p)"
  shows "can_reserve c (instant now)" and "valid_source_capacity c'"
    and "cap_active_requests c' = cap_active_requests c + 1"
    and "cap_max_active_requests c' = cap_max_active_requests c"
    and "cap_revision c' = cap_revision c + 1"
    and "p = \<lparr>sp_source_key = cap_source_key c, sp_policy_digest = cap_policy_digest c,
              sp_permit_not_before_utc = now\<rparr>"
proof -
  from assms have guards: "cap_state c \<noteq> Source_SUSPENDED" "cap_state c \<noteq> Source_CIRCUIT_OPEN"
      "\<not> (\<exists>t \<in> set_option (cap_retry_after_utc c). instant now < instant t)"
      "\<not> instant now < instant (cap_next_allowed_request_at_utc c)"
      "\<not> cap_max_active_requests c \<le> cap_active_requests c"
    and c': "make_source_capacity
             (c\<lparr>cap_active_requests := cap_active_requests c + 1,
                   cap_next_allowed_request_at_utc := datetime_add now interval,
                   cap_revision := cap_revision c + 1\<rparr>) = Inr c'"
    and p: "make_source_permit (cap_source_key c) (cap_policy_digest c) now = Inr p"
    by (auto simp: source_reserve_def result_bind_eq_Inr)
  from guards show "can_reserve c (instant now)"
    by (cases "cap_state c") (auto simp: can_reserve_def not_less not_le)
  from c' show "valid_source_capacity c'" "cap_active_requests c' = cap_active_requests c + 1"
    "cap_max_active_requests c' = cap_max_active_requests c" "cap_revision c' = cap_revision c + 1"
    by (auto simp: make_source_capacity_def result_bind_eq_Inr)
  from p show "p = \<lparr>sp_source_key = cap_source_key c, sp_policy_digest = cap_policy_digest c,
              sp_permit_not_before_utc = now\<rparr>"
    by (auto simp: make_source_permit_def result_bind_eq_Inr)
qed

lemma source_release_InrD:
  assumes "source_release c = Inr c'"
  shows "valid_source_capacity c'" and "cap_active_requests c' = cap_active_requests c - 1"
    and "cap_max_active_requests c' = cap_max_active_requests c"
    and "cap_revision c' = cap_revision c + 1"
  using assms by (auto simp: source_release_def make_source_capacity_def result_bind_eq_Inr
      split: if_splits)

lemma source_release_total:
  "valid_source_capacity c \<Longrightarrow> 0 < cap_active_requests c \<Longrightarrow> \<exists>c'. source_release c = Inr c'"
  by (simp add: source_release_def source_capacity_defs)

end
