(* ===== verification/Work_Leases.thy ===== *)
theory Work_Leases
  imports Work_Units Source_Capacity
begin

text \<open>
  \<^verbatim>\<open>collection_domain/work_artifacts.py\<close> and \<^verbatim>\<open>collection_domain/work_leases.py\<close>: the
  artifact bindings of a lease, the lease itself with the checks of its dataclass, the ownership
  check and the renewal.
\<close>

section \<open>Artifact bindings\<close>

definition require_artifact_role :: "string \<Rightarrow> unit checked" where
  "require_artifact_role v =
     guard (token_pattern 63 v) (ValueError ''work artifact role has an invalid format'')"

record work_input_artifact =
  ia_artifact_id :: uuid
  ia_role :: string

definition make_work_input_artifact :: "uuid \<Rightarrow> string \<Rightarrow> work_input_artifact checked" where
  "make_work_input_artifact artifact_id role =
     result_bind (require_artifact_role role)
       (\<lambda>_. Inr \<lparr>ia_artifact_id = artifact_id, ia_role = role\<rparr>)"

definition max_artifact_bindings :: nat where
  "max_artifact_bindings = 32"

definition validate_artifact_binding_identity ::
    "uuid list \<Rightarrow> string list \<Rightarrow> string \<Rightarrow> unit checked" where
  "validate_artifact_binding_identity identities roles owner_name = checks
     [guard (length identities = length roles)
        (ValueError (owner_name @ '' artifact identities and roles must have equal length'')),
      guard (\<not> max_artifact_bindings < length identities)
        (ValueError (owner_name @ '' cannot contain more than 32 artifact bindings'')),
      guard (length (remdups identities) = length identities)
        (ValueError (owner_name @ '' artifact identities must be unique'')),
      guard (length (remdups roles) = length roles)
        (ValueError (owner_name @ '' artifact roles must be unique''))]"

lemma length_remdups_eq: "length (remdups xs) = length xs \<longleftrightarrow> distinct xs"
  by (metis distinct_remdups length_remdups_eq remdups_id_iff_distinct)

lemma validate_artifact_binding_identity_Inr [simp]:
  "validate_artifact_binding_identity ids roles owner = Inr u \<longleftrightarrow>
     length ids = length roles \<and> length ids \<le> 32 \<and> distinct ids \<and> distinct roles"
  by (auto simp: validate_artifact_binding_identity_def length_remdups_eq max_artifact_bindings_def)

section \<open>The lease\<close>

record work_lease =
  wl_lease_id :: uuid
  wl_work_id :: uuid
  wl_lease_token :: uuid
  wl_worker_id :: string
  wl_stage :: work_stage
  wl_capability :: work_capability
  wl_input_digest :: string
  wl_expected_output_contract :: string
  wl_issued_at_utc :: datetime
  wl_expires_at_utc :: datetime
  wl_heartbeat_deadline_utc :: datetime
  wl_source_permit :: "source_permit option"
  wl_correlation_id :: string
  wl_input_artifacts :: "work_input_artifact list"

datatype lease_error = StaleWorkLease string | LeaseValueError value_error

definition lease_require_token :: "string \<Rightarrow> string \<Rightarrow> unit checked" where
  "lease_require_token name v =
     guard (token_pattern 127 v) (ValueError (name @ '' has an invalid token format''))"

definition lease_require_positive_duration :: "string \<Rightarrow> timedelta \<Rightarrow> unit checked" where
  "lease_require_positive_duration name v =
     guard (\<not> v \<le> 0) (ValueError (name @ '' must be positive''))"

definition validate_work_lease :: "work_lease \<Rightarrow> unit checked" where
  "validate_work_lease l = checks
     [lease_require_token ''worker_id'' (wl_worker_id l),
      guard (capability_belongs_to_stage (wl_stage l) (wl_capability l))
        (ValueError ''work capability is not valid for the lease stage''),
      guard (capability_requires_source_permit (wl_capability l) = (wl_source_permit l \<noteq> None))
        (ValueError ''work lease source permit does not match its capability''),
      lease_require_token ''expected_output_contract'' (wl_expected_output_contract l),
      lease_require_token ''correlation_id'' (wl_correlation_id l),
      validate_artifact_binding_identity
        (map ia_artifact_id (wl_input_artifacts l)) (map ia_role (wl_input_artifacts l))
        ''work lease input'',
      guard (sha256_pattern (wl_input_digest l))
        (ValueError ''work lease input digest must be canonical SHA-256''),
      require_aware_utc ''issued_at_utc'' (wl_issued_at_utc l),
      require_aware_utc ''expires_at_utc'' (wl_expires_at_utc l),
      require_aware_utc ''heartbeat_deadline_utc'' (wl_heartbeat_deadline_utc l),
      guard (\<not> instant (wl_expires_at_utc l) \<le> instant (wl_issued_at_utc l))
        (ValueError ''work lease expiry must be after issuance''),
      guard (instant (wl_issued_at_utc l) < instant (wl_heartbeat_deadline_utc l)
             \<and> instant (wl_heartbeat_deadline_utc l) \<le> instant (wl_expires_at_utc l))
        (ValueError ''heartbeat deadline must be inside the lease interval'')]"

definition make_work_lease :: "work_lease \<Rightarrow> work_lease checked" where
  "make_work_lease l = result_bind (validate_work_lease l) (\<lambda>_. Inr l)"

definition lease_require_active ::
    "work_lease \<Rightarrow> uuid \<Rightarrow> uuid \<Rightarrow> string \<Rightarrow> string \<Rightarrow> datetime \<Rightarrow> lease_error + unit" where
  "lease_require_active self lease_id lease_token worker_id input_digest now_utc = checks
     [map_error LeaseValueError (require_aware_utc ''now_utc'' now_utc),
      guard (lease_id = wl_lease_id self) (StaleWorkLease ''lease_id_mismatch''),
      guard (lease_token = wl_lease_token self) (StaleWorkLease ''lease_token_mismatch''),
      guard (worker_id = wl_worker_id self) (StaleWorkLease ''worker_id_mismatch''),
      guard (input_digest = wl_input_digest self) (StaleWorkLease ''input_digest_mismatch''),
      guard (\<not> instant (wl_expires_at_utc self) \<le> instant now_utc) (StaleWorkLease ''lease_expired''),
      guard (\<not> instant (wl_heartbeat_deadline_utc self) \<le> instant now_utc)
        (StaleWorkLease ''heartbeat_overdue'')]"

definition lease_renew ::
    "work_lease \<Rightarrow> datetime \<Rightarrow> timedelta \<Rightarrow> timedelta \<Rightarrow> lease_error + work_lease" where
  "lease_renew self now_utc lease_duration heartbeat_interval =
     result_bind (checks
       [lease_require_active self (wl_lease_id self) (wl_lease_token self) (wl_worker_id self)
          (wl_input_digest self) now_utc,
        map_error LeaseValueError (lease_require_positive_duration ''lease_duration'' lease_duration),
        map_error LeaseValueError
          (lease_require_positive_duration ''heartbeat_interval'' heartbeat_interval),
        guard (\<not> lease_duration < heartbeat_interval)
          (LeaseValueError (ValueError ''heartbeat interval cannot exceed lease duration''))])
     (\<lambda>_. map_error LeaseValueError (make_work_lease
        (self\<lparr>wl_expires_at_utc := datetime_add now_utc lease_duration,
              wl_heartbeat_deadline_utc := datetime_add now_utc heartbeat_interval\<rparr>)))"

abbreviation valid_work_lease :: "work_lease \<Rightarrow> bool" where
  "valid_work_lease l \<equiv> validate_work_lease l = Inr ()"

text \<open>A lease is live at an instant when neither its expiry nor its heartbeat deadline is reached.\<close>

definition lease_live_at :: "work_lease \<Rightarrow> int \<Rightarrow> bool" where
  "lease_live_at l now \<longleftrightarrow>
     now < instant (wl_expires_at_utc l) \<and> now < instant (wl_heartbeat_deadline_utc l)"

lemmas lease_defs = validate_work_lease_def make_work_lease_def lease_require_token_def

lemma lease_require_active_Inr [simp]:
  "lease_require_active l lid tok w d now = Inr u \<longleftrightarrow>
     is_aware_utc now \<and> lid = wl_lease_id l \<and> tok = wl_lease_token l \<and> w = wl_worker_id l
     \<and> d = wl_input_digest l \<and> lease_live_at l (instant now)"
  by (auto simp: lease_require_active_def lease_live_at_def)

lemma lease_require_active_ok [simp]:
  "lease_live_at l now \<Longrightarrow> lease_require_active l (wl_lease_id l) (wl_lease_token l)
     (wl_worker_id l) (wl_input_digest l) (utc now) = Inr ()"
  by simp

lemma make_work_lease_Inr [simp]: "make_work_lease l = Inr l' \<longleftrightarrow> valid_work_lease l \<and> l' = l"
  by (auto simp: make_work_lease_def result_bind_eq_Inr)

lemma lease_renew_eq:
  assumes "valid_work_lease l" and "lease_live_at l now" and "0 < beat" and "beat \<le> duration"
    and "instant (wl_issued_at_utc l) \<le> now"
  shows "lease_renew l (utc now) duration beat =
    Inr (l\<lparr>wl_expires_at_utc := utc (now + duration), wl_heartbeat_deadline_utc := utc (now + beat)\<rparr>)"
proof -
  have "datetime_add (utc now) x = utc (now + x)" for x by (simp add: datetime_add_def utc_def)
  moreover have "valid_work_lease
    (l\<lparr>wl_expires_at_utc := utc (now + duration), wl_heartbeat_deadline_utc := utc (now + beat)\<rparr>)"
    using assms by (simp add: validate_work_lease_def lease_require_token_def)
  ultimately show ?thesis
    using assms
    by (simp add: lease_renew_def lease_require_positive_duration_def make_work_lease_def)
qed

lemma lease_renew_InrD:
  assumes "lease_renew l now duration beat = Inr l'"
  shows "valid_work_lease l'" and "lease_live_at l (instant now)"
    and "l' = l\<lparr>wl_expires_at_utc := datetime_add now duration,
                wl_heartbeat_deadline_utc := datetime_add now beat\<rparr>"
  using assms by (auto simp: lease_renew_def result_bind_eq_Inr)

end
