(* ===== verification/Work_Retry.thy ===== *)
theory Work_Retry
  imports Work_Units
begin

text \<open>
  \<^verbatim>\<open>collection_domain/work_retry.py\<close>: failure kinds, attempt outcomes and the retry policy
  with its capped exponential delay. The loop of the code is shown equal to the closed form
  \<open>min (initial * multiplier ^ (n - 1)) maximum\<close>.
\<close>

datatype work_failure_kind =
    Failure_TRANSIENT | Failure_PERMANENT | Failure_POLICY_BLOCKED | Failure_CONTRACT_INVALID

datatype work_attempt_outcome =
    Outcome_LEASED | Outcome_SUCCEEDED | Outcome_RETRY_SCHEDULED | Outcome_DEAD_LETTERED
  | Outcome_BLOCKED_BY_POLICY | Outcome_RELEASED | Outcome_EXPIRED

record work_failure_decision =
  fd_target_state :: work_unit_state
  fd_attempt_outcome :: work_attempt_outcome
  fd_retry_delay_seconds :: "int option"

record retry_policy =
  rp_max_attempts :: int
  rp_initial_delay_seconds :: int
  rp_multiplier :: int
  rp_max_delay_seconds :: int

definition validate_retry_policy :: "retry_policy \<Rightarrow> unit checked" where
  "validate_retry_policy p = checks
     [guard (1 \<le> rp_max_attempts p \<and> rp_max_attempts p \<le> 100)
        (ValueError ''retry policy max attempts must be between 1 and 100''),
      guard (\<not> rp_initial_delay_seconds p < 1)
        (ValueError ''retry policy initial delay must be positive''),
      guard (\<not> rp_multiplier p < 1)
        (ValueError ''retry policy multiplier must be positive''),
      guard (\<not> rp_max_delay_seconds p < rp_initial_delay_seconds p)
        (ValueError ''retry policy max delay cannot be below initial delay'')]"

definition make_retry_policy :: "int \<Rightarrow> int \<Rightarrow> int \<Rightarrow> int \<Rightarrow> retry_policy checked" where
  "make_retry_policy max_attempts initial multiplier max_delay =
     (let p = \<lparr>rp_max_attempts = max_attempts, rp_initial_delay_seconds = initial,
               rp_multiplier = multiplier, rp_max_delay_seconds = max_delay\<rparr>
      in result_bind (validate_retry_policy p) (\<lambda>_. Inr p))"

fun retry_delay_loop :: "retry_policy \<Rightarrow> nat \<Rightarrow> int \<Rightarrow> int" where
  "retry_delay_loop p 0 delay = delay"
| "retry_delay_loop p (Suc n) delay =
     (if rp_max_delay_seconds p \<le> delay then delay
      else retry_delay_loop p n (min (delay * rp_multiplier p) (rp_max_delay_seconds p)))"

definition retry_delay :: "retry_policy \<Rightarrow> int \<Rightarrow> int" where
  "retry_delay p failure_number =
     retry_delay_loop p (nat (failure_number - 1)) (rp_initial_delay_seconds p)"

definition retry_decide ::
    "retry_policy \<Rightarrow> work_failure_kind \<Rightarrow> int \<Rightarrow> work_failure_decision checked" where
  "retry_decide p failure_kind failure_number =
     (if failure_number < 1 \<or> rp_max_attempts p < failure_number
      then Inl (ValueError ''failure number is outside the retry policy'')
      else if failure_kind = Failure_POLICY_BLOCKED
      then Inr \<lparr>fd_target_state = Unit_BLOCKED_BY_POLICY,
                fd_attempt_outcome = Outcome_BLOCKED_BY_POLICY,
                fd_retry_delay_seconds = None\<rparr>
      else if failure_kind \<noteq> Failure_TRANSIENT \<or> failure_number = rp_max_attempts p
      then Inr \<lparr>fd_target_state = Unit_DEAD_LETTER,
                fd_attempt_outcome = Outcome_DEAD_LETTERED,
                fd_retry_delay_seconds = None\<rparr>
      else Inr \<lparr>fd_target_state = Unit_RETRY_WAIT,
                fd_attempt_outcome = Outcome_RETRY_SCHEDULED,
                fd_retry_delay_seconds = Some (retry_delay p failure_number)\<rparr>)"

abbreviation valid_retry_policy :: "retry_policy \<Rightarrow> bool" where
  "valid_retry_policy p \<equiv> validate_retry_policy p = Inr ()"

lemma valid_retry_policyD:
  assumes "valid_retry_policy p"
  shows "1 \<le> rp_max_attempts p" "rp_max_attempts p \<le> 100" "1 \<le> rp_initial_delay_seconds p"
    "1 \<le> rp_multiplier p" "rp_initial_delay_seconds p \<le> rp_max_delay_seconds p"
  using assms by (auto simp: validate_retry_policy_def)

section \<open>The delay\<close>

lemma retry_delay_loop_closed:
  assumes "1 \<le> rp_multiplier p" and "1 \<le> delay" and "delay \<le> rp_max_delay_seconds p"
  shows "retry_delay_loop p n delay = min (delay * rp_multiplier p ^ n) (rp_max_delay_seconds p)"
  using assms
proof (induction n arbitrary: delay)
  case (Suc n)
  let ?m = "rp_multiplier p" and ?M = "rp_max_delay_seconds p"
  have pow: "1 \<le> ?m ^ n" using Suc.prems(1) by simp
  have grow: "x \<le> x * ?m ^ n" if "1 \<le> x" for x
    using mult_left_mono [OF pow, of x] that by simp
  show ?case
  proof (cases "?M \<le> delay")
    case True
    moreover have "delay * 1 \<le> delay * ?m ^ Suc n"
      using Suc.prems one_le_power [of ?m "Suc n"] by (intro mult_left_mono) auto
    ultimately show ?thesis using Suc.prems by simp
  next
    case False
    have "1 \<le> min (delay * ?m) ?M"
      using Suc.prems mult_mono [of 1 delay 1 ?m] by auto
    then have IH: "retry_delay_loop p n (min (delay * ?m) ?M) = min (min (delay * ?m) ?M * ?m ^ n) ?M"
      using Suc.IH [of "min (delay * ?m) ?M"] Suc.prems(1) by simp
    show ?thesis
    proof (cases "delay * ?m \<le> ?M")
      case True
      then show ?thesis using IH False by (simp add: mult.assoc)
    next
      case big: False
      have "?M \<le> ?M * ?m ^ n" using grow [of ?M] Suc.prems by simp
      moreover have "?M \<le> delay * ?m * ?m ^ n"
        using big grow [of "delay * ?m"] Suc.prems mult_mono [of 1 delay 1 ?m] by linarith
      then have "?M \<le> delay * (?m * ?m ^ n)" by (simp only: mult.assoc)
      ultimately show ?thesis using IH False big by simp
    qed
  qed
qed simp

lemma retry_delay_eq:
  assumes "valid_retry_policy p"
  shows "retry_delay p n =
    min (rp_initial_delay_seconds p * rp_multiplier p ^ nat (n - 1)) (rp_max_delay_seconds p)"
  using retry_delay_loop_closed valid_retry_policyD [OF assms] by (simp add: retry_delay_def)

lemma retry_delay_bounds:
  assumes "valid_retry_policy p"
  shows "rp_initial_delay_seconds p \<le> retry_delay p n" "retry_delay p n \<le> rp_max_delay_seconds p"
proof -
  have "1 \<le> rp_multiplier p ^ nat (n - 1)" using valid_retry_policyD [OF assms] by simp
  then have "rp_initial_delay_seconds p * 1 \<le> rp_initial_delay_seconds p * rp_multiplier p ^ nat (n - 1)"
    using valid_retry_policyD [OF assms] by (intro mult_left_mono) auto
  then show "rp_initial_delay_seconds p \<le> retry_delay p n"
    using valid_retry_policyD [OF assms] by (simp add: retry_delay_eq [OF assms])
  show "retry_delay p n \<le> rp_max_delay_seconds p"
    by (simp add: retry_delay_eq [OF assms])
qed

lemma retry_delay_mono:
  assumes "valid_retry_policy p" and "m \<le> n"
  shows "retry_delay p m \<le> retry_delay p n"
proof -
  have "rp_multiplier p ^ nat (m - 1) \<le> rp_multiplier p ^ nat (n - 1)"
    using valid_retry_policyD [OF assms(1)] assms(2) by (intro power_increasing) auto
  then have "rp_initial_delay_seconds p * rp_multiplier p ^ nat (m - 1)
      \<le> rp_initial_delay_seconds p * rp_multiplier p ^ nat (n - 1)"
    using valid_retry_policyD [OF assms(1)] by (intro mult_left_mono) auto
  then show ?thesis by (simp add: retry_delay_eq [OF assms(1)])
qed

section \<open>The decision\<close>

lemma retry_decide_total:
  "1 \<le> n \<Longrightarrow> n \<le> rp_max_attempts p \<Longrightarrow> \<exists>d. retry_decide p kind n = Inr d"
  by (simp add: retry_decide_def)

lemma retry_decide_target:
  assumes "retry_decide p kind n = Inr d"
  shows "fd_target_state d \<in> {Unit_BLOCKED_BY_POLICY, Unit_DEAD_LETTER, Unit_RETRY_WAIT}"
    and "fd_target_state d = Unit_RETRY_WAIT \<longleftrightarrow> kind = Failure_TRANSIENT \<and> n < rp_max_attempts p"
    and "fd_target_state d = Unit_DEAD_LETTER \<longrightarrow> kind \<noteq> Failure_POLICY_BLOCKED"
    and "fd_attempt_outcome d \<in>
           {Outcome_BLOCKED_BY_POLICY, Outcome_DEAD_LETTERED, Outcome_RETRY_SCHEDULED}"
    and "1 \<le> n" "n \<le> rp_max_attempts p"
  using assms by (auto simp: retry_decide_def split: if_splits)

end
