(* ===== verification/Runs.thy ===== *)
theory Runs
  imports Lifecycles
begin

text \<open>
  \<^verbatim>\<open>collection_domain/runs.py\<close>: the lifecycles of collection runs and of their stages.
\<close>

datatype collection_run_state =
    Run_CREATED | Run_RUNNING | Run_PAUSED | Run_CANCELLED | Run_COMPLETED | Run_BLOCKED

datatype stage_run_state =
    StageRun_PENDING | StageRun_RUNNING | StageRun_SUCCEEDED | StageRun_FAILED
  | StageRun_BLOCKED | StageRun_CANCELLED

fun collection_run_state_value :: "collection_run_state \<Rightarrow> string" where
  "collection_run_state_value Run_CREATED = ''created''"
| "collection_run_state_value Run_RUNNING = ''running''"
| "collection_run_state_value Run_PAUSED = ''paused''"
| "collection_run_state_value Run_CANCELLED = ''cancelled''"
| "collection_run_state_value Run_COMPLETED = ''completed''"
| "collection_run_state_value Run_BLOCKED = ''blocked''"

fun stage_run_state_value :: "stage_run_state \<Rightarrow> string" where
  "stage_run_state_value StageRun_PENDING = ''pending''"
| "stage_run_state_value StageRun_RUNNING = ''running''"
| "stage_run_state_value StageRun_SUCCEEDED = ''succeeded''"
| "stage_run_state_value StageRun_FAILED = ''failed''"
| "stage_run_state_value StageRun_BLOCKED = ''blocked''"
| "stage_run_state_value StageRun_CANCELLED = ''cancelled''"

fun run_transitions_table :: "collection_run_state \<Rightarrow> collection_run_state set" where
  "run_transitions_table Run_CREATED = {Run_RUNNING, Run_CANCELLED, Run_BLOCKED}"
| "run_transitions_table Run_RUNNING = {Run_PAUSED, Run_CANCELLED, Run_COMPLETED, Run_BLOCKED}"
| "run_transitions_table Run_PAUSED = {Run_RUNNING, Run_CANCELLED, Run_BLOCKED}"
| "run_transitions_table Run_CANCELLED = {}"
| "run_transitions_table Run_COMPLETED = {}"
| "run_transitions_table Run_BLOCKED = {}"

fun stage_transitions_table :: "stage_run_state \<Rightarrow> stage_run_state set" where
  "stage_transitions_table StageRun_PENDING = {StageRun_RUNNING, StageRun_BLOCKED, StageRun_CANCELLED}"
| "stage_transitions_table StageRun_RUNNING =
     {StageRun_SUCCEEDED, StageRun_FAILED, StageRun_BLOCKED, StageRun_CANCELLED}"
| "stage_transitions_table StageRun_SUCCEEDED = {}"
| "stage_transitions_table StageRun_FAILED = {}"
| "stage_transitions_table StageRun_BLOCKED = {}"
| "stage_transitions_table StageRun_CANCELLED = {}"

datatype 's run_lifecycle_error =
    InvalidRunTransition 's 's
  | RunLifecycleValueError value_error

record collection_run_lifecycle =
  crl_state :: collection_run_state
  crl_revision :: int

record stage_run_lifecycle =
  srl_state :: stage_run_state
  srl_revision :: int

definition make_collection_run_lifecycle ::
    "collection_run_state \<Rightarrow> int \<Rightarrow> collection_run_lifecycle checked" where
  "make_collection_run_lifecycle state revision =
     result_bind (guard (\<not> revision < 0) (ValueError ''collection run revision cannot be negative''))
       (\<lambda>_. Inr \<lparr>crl_state = state, crl_revision = revision\<rparr>)"

definition collection_run_transition ::
    "collection_run_lifecycle \<Rightarrow> collection_run_state
      \<Rightarrow> collection_run_state run_lifecycle_error + collection_run_lifecycle" where
  "collection_run_transition self requested =
     (if requested \<notin> run_transitions_table (crl_state self)
      then Inl (InvalidRunTransition (crl_state self) requested)
      else map_error RunLifecycleValueError
             (make_collection_run_lifecycle requested (crl_revision self + 1)))"

definition make_stage_run_lifecycle ::
    "stage_run_state \<Rightarrow> int \<Rightarrow> stage_run_lifecycle checked" where
  "make_stage_run_lifecycle state revision =
     result_bind (guard (\<not> revision < 0) (ValueError ''stage run revision cannot be negative''))
       (\<lambda>_. Inr \<lparr>srl_state = state, srl_revision = revision\<rparr>)"

definition stage_run_transition ::
    "stage_run_lifecycle \<Rightarrow> stage_run_state
      \<Rightarrow> stage_run_state run_lifecycle_error + stage_run_lifecycle" where
  "stage_run_transition self requested =
     (if requested \<notin> stage_transitions_table (srl_state self)
      then Inl (InvalidRunTransition (srl_state self) requested)
      else map_error RunLifecycleValueError
             (make_stage_run_lifecycle requested (srl_revision self + 1)))"

interpretation collection_run_machine:
  lifecycle_machine run_transitions_table crl_state crl_revision collection_run_transition
  by unfold_locales
    (simp_all add: collection_run_transition_def make_collection_run_lifecycle_def)

interpretation stage_run_machine:
  lifecycle_machine stage_transitions_table srl_state srl_revision stage_run_transition
  by unfold_locales
    (simp_all add: stage_run_transition_def make_stage_run_lifecycle_def)

end
