(* ===== verification/Engine_Commands.thy ===== *)
theory Engine_Commands
  imports Work_Leases Work_Retry Runs Canonical_Digest
begin

text \<open>
  \<^verbatim>\<open>collection_application/work_engine.py\<close> and the error envelope of
  \<^verbatim>\<open>collection_contracts/errors.py\<close>: the commands of the Work Engine with the checks of
  their dataclasses, the results, and the service wrapper that turns an engine conflict into an
  owner error. A command value of the program is one whose \<open>validate_\<close> function accepts it.
\<close>

section \<open>Shared checks\<close>

definition app_require_key :: "string \<Rightarrow> string \<Rightarrow> unit checked" where
  "app_require_key name v = guard (key_pattern v) (ValueError (name @ '' has an invalid key format''))"

definition app_require_digest :: "string \<Rightarrow> string \<Rightarrow> unit checked" where
  "app_require_digest name v =
     guard (sha256_pattern v) (ValueError (name @ '' must be canonical SHA-256''))"

definition app_require_token :: "string \<Rightarrow> string \<Rightarrow> unit checked" where
  "app_require_token name v =
     guard (token_pattern 199 v) (ValueError (name @ '' has an invalid token format''))"

definition app_require_text :: "string \<Rightarrow> string \<Rightarrow> nat \<Rightarrow> unit checked" where
  "app_require_text name v maximum_length =
     guard (\<not> (py_strip v = [] \<or> maximum_length < length v))
       (ValueError (name @ '' must be non-empty and at most ''
                    @ nat_decimal maximum_length @ '' characters''))"

definition app_require_lease_timing :: "int \<Rightarrow> int \<Rightarrow> unit checked" where
  "app_require_lease_timing lease_duration_seconds heartbeat_interval_seconds = checks
     [guard (5 \<le> lease_duration_seconds \<and> lease_duration_seconds \<le> 86400)
        (ValueError ''lease duration must be between 5 and 86400 seconds''),
      guard (1 \<le> heartbeat_interval_seconds \<and> heartbeat_interval_seconds < lease_duration_seconds)
        (ValueError ''heartbeat interval must be positive and below lease duration'')]"

lemma app_require_Inr [simp]:
  "app_require_key n v = Inr u \<longleftrightarrow> key_pattern v"
  "app_require_digest n v = Inr u \<longleftrightarrow> sha256_pattern v"
  "app_require_token n v = Inr u \<longleftrightarrow> token_pattern 199 v"
  "app_require_lease_timing d h = Inr u \<longleftrightarrow> 5 \<le> d \<and> d \<le> 86400 \<and> 1 \<le> h \<and> h < d"
  by (auto simp: app_require_key_def app_require_digest_def app_require_token_def
      app_require_lease_timing_def)

section \<open>Commands\<close>

text \<open>A \<open>frozenset\<close> is a list whose order and repetitions are immaterial: it is only tested for
  emptiness and membership, compared through \<open>set\<close> and iterated in sorted order.\<close>

record worker_registration =
  reg_worker_id :: string
  reg_build_identity :: string
  reg_capabilities :: "work_capability list"
  reg_supported_output_contracts :: "string list"
  reg_max_concurrency :: int
  reg_resource_profile :: string
  reg_correlation_id :: string

definition validate_worker_registration :: "worker_registration \<Rightarrow> unit checked" where
  "validate_worker_registration c = checks
     ([app_require_token ''worker_id'' (reg_worker_id c),
       app_require_token ''build_identity'' (reg_build_identity c),
       app_require_token ''resource_profile'' (reg_resource_profile c),
       app_require_token ''correlation_id'' (reg_correlation_id c),
       guard (reg_capabilities c \<noteq> [])
         (ValueError ''worker registration requires at least one capability''),
       guard (reg_supported_output_contracts c \<noteq> [])
         (ValueError ''worker registration requires at least one output contract'')]
      @ map (app_require_token ''supported_output_contract'') (reg_supported_output_contracts c)
      @ [guard (1 \<le> reg_max_concurrency c \<and> reg_max_concurrency c \<le> 10000)
           (ValueError ''worker max concurrency must be between 1 and 10000'')])"

record source_capacity_spec =
  scs_source_key :: string
  scs_policy_digest :: string
  scs_state :: source_operational_state
  scs_max_active_requests :: int
  scs_minimum_interval_milliseconds :: int
  scs_correlation_id :: string

definition validate_source_capacity_spec :: "source_capacity_spec \<Rightarrow> unit checked" where
  "validate_source_capacity_spec c = checks
     [app_require_key ''source_key'' (scs_source_key c),
      app_require_digest ''policy_digest'' (scs_policy_digest c),
      app_require_token ''correlation_id'' (scs_correlation_id c),
      guard (1 \<le> scs_max_active_requests c \<and> scs_max_active_requests c \<le> 10000)
        (ValueError ''source max active requests must be between 1 and 10000''),
      guard (0 \<le> scs_minimum_interval_milliseconds c
             \<and> scs_minimum_interval_milliseconds c \<le> 86400000)
        (ValueError ''source minimum interval is outside the supported range'')]"

record collection_run_spec =
  crs_run_id :: uuid
  crs_campaign_key :: string
  crs_config_bundle_digest :: string
  crs_initial_state :: collection_run_state
  crs_correlation_id :: string

definition validate_collection_run_spec :: "collection_run_spec \<Rightarrow> unit checked" where
  "validate_collection_run_spec c = checks
     [app_require_key ''campaign_key'' (crs_campaign_key c),
      app_require_digest ''config_bundle_digest'' (crs_config_bundle_digest c),
      app_require_token ''correlation_id'' (crs_correlation_id c),
      guard (crs_initial_state c \<in> {Run_CREATED, Run_RUNNING})
        (ValueError ''new collection run must start as created or running'')]"

record stage_run_spec =
  srs_stage_run_id :: uuid
  srs_run_id :: uuid
  srs_stage :: work_stage
  srs_initial_state :: stage_run_state
  srs_correlation_id :: string

definition validate_stage_run_spec :: "stage_run_spec \<Rightarrow> unit checked" where
  "validate_stage_run_spec c = checks
     [app_require_token ''correlation_id'' (srs_correlation_id c),
      guard (srs_initial_state c \<in> {StageRun_PENDING, StageRun_RUNNING})
        (ValueError ''new stage run must start as pending or running'')]"

record work_unit_spec =
  wus_work_id :: uuid
  wus_run_id :: uuid
  wus_stage_run_id :: uuid
  wus_stage :: work_stage
  wus_capability :: work_capability
  wus_source_key :: "string option"
  wus_semantic_key :: string
  wus_input_digest :: string
  wus_expected_output_contract :: string
  wus_priority :: int
  wus_retry_policy :: retry_policy
  wus_available_at_utc :: datetime
  wus_correlation_id :: string
  wus_input_artifacts :: "work_input_artifact list"

definition validate_artifact_bindings :: "uuid list \<Rightarrow> string list \<Rightarrow> string \<Rightarrow> unit checked" where
  "validate_artifact_bindings identities roles owner_name =
     validate_artifact_binding_identity identities roles owner_name"

definition validate_work_unit_spec :: "work_unit_spec \<Rightarrow> unit checked" where
  "validate_work_unit_spec c = checks
     [guard (capability_belongs_to_stage (wus_stage c) (wus_capability c))
        (ValueError ''work capability is not valid for the stage''),
      guard (capability_requires_source_permit (wus_capability c) = (wus_source_key c \<noteq> None))
        (ValueError ''work source key does not match its capability''),
      (case wus_source_key c of None \<Rightarrow> Inr () | Some k \<Rightarrow> app_require_key ''source_key'' k),
      app_require_digest ''semantic_key'' (wus_semantic_key c),
      app_require_digest ''input_digest'' (wus_input_digest c),
      app_require_token ''expected_output_contract'' (wus_expected_output_contract c),
      require_aware_utc ''available_at_utc'' (wus_available_at_utc c),
      app_require_token ''correlation_id'' (wus_correlation_id c),
      guard (- 1000000 \<le> wus_priority c \<and> wus_priority c \<le> 1000000)
        (ValueError ''work priority is outside the supported range''),
      validate_artifact_bindings (map ia_artifact_id (wus_input_artifacts c))
        (map ia_role (wus_input_artifacts c)) ''work unit input'']"

record lease_request =
  lr_worker_id :: string
  lr_capability :: work_capability
  lr_lease_duration_seconds :: int
  lr_heartbeat_interval_seconds :: int
  lr_correlation_id :: string

definition validate_lease_request :: "lease_request \<Rightarrow> unit checked" where
  "validate_lease_request c = checks
     [app_require_token ''worker_id'' (lr_worker_id c),
      app_require_token ''correlation_id'' (lr_correlation_id c),
      app_require_lease_timing (lr_lease_duration_seconds c) (lr_heartbeat_interval_seconds c)]"

record lease_heartbeat =
  hb_work_id :: uuid
  hb_lease_id :: uuid
  hb_lease_token :: uuid
  hb_worker_id :: string
  hb_input_digest :: string
  hb_lease_duration_seconds :: int
  hb_heartbeat_interval_seconds :: int
  hb_correlation_id :: string

definition validate_lease_heartbeat :: "lease_heartbeat \<Rightarrow> unit checked" where
  "validate_lease_heartbeat c = checks
     [app_require_token ''worker_id'' (hb_worker_id c),
      app_require_digest ''input_digest'' (hb_input_digest c),
      app_require_token ''correlation_id'' (hb_correlation_id c),
      app_require_lease_timing (hb_lease_duration_seconds c) (hb_heartbeat_interval_seconds c)]"

record work_output_artifact =
  oa_upload_id :: uuid
  oa_role :: string

definition make_work_output_artifact :: "uuid \<Rightarrow> string \<Rightarrow> work_output_artifact checked" where
  "make_work_output_artifact upload_id role =
     result_bind (require_artifact_role role)
       (\<lambda>_. Inr \<lparr>oa_upload_id = upload_id, oa_role = role\<rparr>)"

record work_completion =
  wc_work_id :: uuid
  wc_lease_id :: uuid
  wc_lease_token :: uuid
  wc_worker_id :: string
  wc_input_digest :: string
  wc_output_contract :: string
  wc_output_digest :: string
  wc_worker_build_identity :: string
  wc_correlation_id :: string
  wc_output_artifacts :: "work_output_artifact list"

definition validate_work_completion :: "work_completion \<Rightarrow> unit checked" where
  "validate_work_completion c = checks
     [app_require_token ''worker_id'' (wc_worker_id c),
      app_require_digest ''input_digest'' (wc_input_digest c),
      app_require_token ''output_contract'' (wc_output_contract c),
      app_require_digest ''output_digest'' (wc_output_digest c),
      app_require_token ''worker_build_identity'' (wc_worker_build_identity c),
      app_require_token ''correlation_id'' (wc_correlation_id c),
      validate_artifact_bindings (map oa_upload_id (wc_output_artifacts c))
        (map oa_role (wc_output_artifacts c)) ''work completion output'']"

record work_failure =
  wf_work_id :: uuid
  wf_lease_id :: uuid
  wf_lease_token :: uuid
  wf_worker_id :: string
  wf_input_digest :: string
  wf_failure_kind :: work_failure_kind
  wf_code :: string
  wf_owner :: string
  wf_message :: string
  wf_required_action :: string
  wf_worker_build_identity :: string
  wf_correlation_id :: string

definition validate_work_failure :: "work_failure \<Rightarrow> unit checked" where
  "validate_work_failure c = checks
     [app_require_token ''worker_id'' (wf_worker_id c),
      app_require_digest ''input_digest'' (wf_input_digest c),
      guard (code_pattern (wf_code c)) (ValueError ''work failure code has an invalid format''),
      app_require_text ''owner'' (wf_owner c) 100,
      app_require_text ''message'' (wf_message c) 500,
      app_require_text ''required_action'' (wf_required_action c) 500,
      app_require_token ''worker_build_identity'' (wf_worker_build_identity c),
      app_require_token ''correlation_id'' (wf_correlation_id c)]"

record work_release =
  wrl_work_id :: uuid
  wrl_lease_id :: uuid
  wrl_lease_token :: uuid
  wrl_worker_id :: string
  wrl_input_digest :: string
  wrl_reason_code :: string
  wrl_worker_build_identity :: string
  wrl_correlation_id :: string

definition validate_work_release :: "work_release \<Rightarrow> unit checked" where
  "validate_work_release c = checks
     [app_require_token ''worker_id'' (wrl_worker_id c),
      app_require_digest ''input_digest'' (wrl_input_digest c),
      guard (code_pattern (wrl_reason_code c))
        (ValueError ''work release reason code has an invalid format''),
      app_require_token ''worker_build_identity'' (wrl_worker_build_identity c),
      app_require_token ''correlation_id'' (wrl_correlation_id c)]"

record lease_expiry_sweep =
  les_limit :: int
  les_correlation_id :: string

definition validate_lease_expiry_sweep :: "lease_expiry_sweep \<Rightarrow> unit checked" where
  "validate_lease_expiry_sweep c = checks
     [guard (1 \<le> les_limit c \<and> les_limit c \<le> 1000)
        (ValueError ''lease expiry sweep limit must be between 1 and 1000''),
      app_require_token ''correlation_id'' (les_correlation_id c)]"

section \<open>Results\<close>

datatype worker_registration_status = REGISTERED | ALREADY_REGISTERED

datatype work_completion_status = APPLIED | ALREADY_APPLIED

record worker_registration_result =
  rr_worker_id :: string
  rr_status :: worker_registration_status

record work_completion_result =
  cres_work_id :: uuid
  cres_status :: work_completion_status
  cres_output_digest :: string
  cres_revision :: int

record work_mutation_result =
  mres_work_id :: uuid
  mres_state :: work_unit_state
  mres_revision :: int
  mres_available_at_utc :: "int option"

record lease_expiry_sweep_result =
  sres_expired_count :: int
  sres_retry_wait_count :: int
  sres_dead_letter_count :: int

definition make_lease_expiry_sweep_result :: "int \<Rightarrow> int \<Rightarrow> int \<Rightarrow> lease_expiry_sweep_result checked" where
  "make_lease_expiry_sweep_result expired retry_wait dead_letter =
     result_bind (checks
       [guard (\<not> min (min expired retry_wait) dead_letter < 0)
          (ValueError ''lease expiry counts cannot be negative''),
        guard (expired = retry_wait + dead_letter)
          (ValueError ''expired lease count must equal retry and dead-letter outcomes'')])
     (\<lambda>_. Inr \<lparr>sres_expired_count = expired, sres_retry_wait_count = retry_wait,
               sres_dead_letter_count = dead_letter\<rparr>)"

section \<open>Conflicts and the service wrapper\<close>

record work_engine_conflict =
  wec_code :: string
  wec_message :: string
  wec_context :: "(string \<times> json) list"
  wec_required_action :: string

record error_envelope =
  ee_type :: string
  ee_owner :: string
  ee_code :: string
  ee_message :: string
  ee_context :: "(string \<times> json) list"
  ee_required_action :: string
  ee_correlation_id :: string

definition length_between :: "nat \<Rightarrow> nat \<Rightarrow> string \<Rightarrow> bool" where
  "length_between lo hi s \<longleftrightarrow> lo \<le> length s \<and> length s \<le> hi"

text \<open>The field constraints of the envelope; a violation is the model's validation error.\<close>

definition valid_error_envelope :: "error_envelope \<Rightarrow> bool" where
  "valid_error_envelope e \<longleftrightarrow>
     take 11 (ee_type e) = ''collection/'' \<and> drop 11 (ee_type e) \<noteq> []
       \<and> list_all (\<lambda>c. is_lower c \<or> is_digit c \<or> c = CHR ''-'') (drop 11 (ee_type e))
     \<and> length_between 1 100 (ee_owner e)
     \<and> (case ee_code e of [] \<Rightarrow> False | c # cs \<Rightarrow> is_upper c \<and> cs \<noteq> []
          \<and> list_all (\<lambda>c. is_upper c \<or> is_digit c \<or> c = CHR ''_'') cs)
     \<and> length_between 1 500 (ee_message e)
     \<and> length_between 1 500 (ee_required_action e)
     \<and> length_between 1 100 (ee_correlation_id e)"

datatype service_error = OwnerContextError error_envelope | ValidationError

definition owner_error ::
    "string \<Rightarrow> string \<Rightarrow> string \<Rightarrow> string \<Rightarrow> (string \<times> json) list \<Rightarrow> string \<Rightarrow> string \<Rightarrow> service_error" where
  "owner_error error_type owner code message context required_action correlation_id =
     (let e = \<lparr>ee_type = error_type, ee_owner = owner, ee_code = code, ee_message = message,
               ee_context = context, ee_required_action = required_action,
               ee_correlation_id = correlation_id\<rparr>
      in if valid_error_envelope e then OwnerContextError e else ValidationError)"

definition lower_char :: "char \<Rightarrow> char" where
  "lower_char c = (if is_upper c then char_of ((of_char c :: nat) + 32) else c)"

text \<open>\<open>f"collection/{exc.code.lower().replace('_', '-')}"\<close>\<close>

definition conflict_error_type :: "string \<Rightarrow> string" where
  "conflict_error_type code =
     ''collection/'' @ map (\<lambda>c. if c = CHR ''_'' then CHR ''-'' else c) (map lower_char code)"

definition work_engine_service_invoke ::
    "string \<Rightarrow> work_engine_conflict + 'a \<Rightarrow> service_error + 'a" where
  "work_engine_service_invoke correlation_id outcome =
     (case outcome of
        Inr r \<Rightarrow> Inr r
      | Inl c \<Rightarrow> Inl (owner_error (conflict_error_type (wec_code c)) ''WorkEngine'' (wec_code c)
                        (wec_message c) (wec_context c) (wec_required_action c) correlation_id))"

end
