(* ===== verification/Artifacts.thy ===== *)
theory Artifacts
  imports Engine_Commands
begin

text \<open>
  \<^verbatim>\<open>collection_application/artifacts.py\<close>: artifact kinds, the commands and results of
  artifact transfer with the checks of their dataclasses, and the service wrapper.
\<close>

datatype artifact_kind =
    RAW_ARTIFACT | DIAGNOSTIC_ARTIFACT | DERIVED_ARTIFACT | CONFIG_BUNDLE | EXPORT_ARTIFACT

fun artifact_kind_value :: "artifact_kind \<Rightarrow> string" where
  "artifact_kind_value RAW_ARTIFACT = ''raw_artifact''"
| "artifact_kind_value DIAGNOSTIC_ARTIFACT = ''diagnostic_artifact''"
| "artifact_kind_value DERIVED_ARTIFACT = ''derived_artifact''"
| "artifact_kind_value CONFIG_BUNDLE = ''config_bundle''"
| "artifact_kind_value EXPORT_ARTIFACT = ''export_artifact''"

definition worker_writable_artifact_kinds :: "artifact_kind set" where
  "worker_writable_artifact_kinds = {RAW_ARTIFACT, DIAGNOSTIC_ARTIFACT, DERIVED_ARTIFACT}"

definition max_single_upload_bytes :: int where
  "max_single_upload_bytes = 5 * 1024 * 1024 * 1024"

section \<open>Formats\<close>

definition content_type_char :: "char \<Rightarrow> bool" where
  "content_type_char c \<longleftrightarrow> is_alnum c \<or> c \<in> set ''!#$&^_.+-''"

text \<open>\<open>^[A-Za-z0-9][A-Za-z0-9!#$&^_.+-]{0,63}/[A-Za-z0-9][A-Za-z0-9!#$&^_.+-]{0,63}$\<close>: the slash is
  in neither class, so it is the only one of the text.\<close>

definition content_type_pattern :: "string \<Rightarrow> bool" where
  "content_type_pattern s =
     (let major = takeWhile (\<lambda>c. c \<noteq> CHR ''/'') s; rest = dropWhile (\<lambda>c. c \<noteq> CHR ''/'') s
      in head_tail_pattern is_alnum content_type_char 63 major \<and> rest \<noteq> []
         \<and> head_tail_pattern is_alnum content_type_char 63 (tl rest))"

text \<open>\<open>^[A-Za-z0-9][A-Za-z0-9._/@+-]{0,511}$\<close>\<close>

definition storage_reference_pattern :: "string \<Rightarrow> bool" where
  "storage_reference_pattern =
     head_tail_pattern is_alnum (\<lambda>c. is_alnum c \<or> c \<in> set ''._/@+-'') 511"

definition require_content_type :: "string \<Rightarrow> unit checked" where
  "require_content_type v =
     guard (content_type_pattern v) (ValueError ''artifact content type has an invalid format'')"

definition require_size :: "int \<Rightarrow> unit checked" where
  "require_size v = guard (1 \<le> v \<and> v \<le> max_single_upload_bytes)
     (ValueError ''artifact size is outside the supported single-upload range'')"

definition require_expiry :: "int \<Rightarrow> unit checked" where
  "require_expiry v = guard (60 \<le> v \<and> v \<le> 3600)
     (ValueError ''artifact transfer expiry must be between 60 and 3600 seconds'')"

definition require_url :: "string \<Rightarrow> unit checked" where
  "require_url v =
     guard ((take 7 v = ''http://'' \<or> take 8 v = ''https://'') \<and> \<not> 8192 < length v)
       (ValueError ''prepared artifact URL has an invalid format'')"

text \<open>\<open>name.lower() != name\<close>: a character that lower-casing changes, among the code points below 256
  (the ASCII capitals and those of Latin-1).\<close>

definition lowers_to_itself :: "char \<Rightarrow> bool" where
  "lowers_to_itself c \<longleftrightarrow> \<not> (is_upper c
     \<or> (192 \<le> (of_char c :: nat) \<and> (of_char c :: nat) \<le> 222 \<and> (of_char c :: nat) \<noteq> 215))"

definition require_headers :: "(string \<times> string) list \<Rightarrow> unit checked" where
  "require_headers headers = checks (map (\<lambda>(name, v).
     guard (name \<noteq> [] \<and> list_all lowers_to_itself name \<and> v \<noteq> [] \<and> length name \<le> 128 \<and> length v \<le> 1024)
       (ValueError ''prepared artifact upload headers have an invalid format'')) headers)"

section \<open>Commands and results\<close>

record prepare_artifact_upload =
  pu_upload_id :: uuid
  pu_work_id :: uuid
  pu_lease_id :: uuid
  pu_lease_token :: uuid
  pu_worker_id :: string
  pu_input_digest :: string
  pu_artifact_kind :: artifact_kind
  pu_expected_digest :: string
  pu_expected_size_bytes :: int
  pu_content_type :: string
  pu_expires_in_seconds :: int
  pu_correlation_id :: string

definition validate_prepare_artifact_upload :: "prepare_artifact_upload \<Rightarrow> unit checked" where
  "validate_prepare_artifact_upload c = checks
     [app_require_token ''worker_id'' (pu_worker_id c),
      app_require_digest ''input_digest'' (pu_input_digest c),
      guard (pu_artifact_kind c \<in> worker_writable_artifact_kinds)
        (ValueError ''worker cannot publish owner-controlled artifact kind''),
      app_require_digest ''expected_digest'' (pu_expected_digest c),
      require_size (pu_expected_size_bytes c),
      require_content_type (pu_content_type c),
      require_expiry (pu_expires_in_seconds c),
      app_require_token ''correlation_id'' (pu_correlation_id c)]"

record verify_artifact_upload =
  vu_upload_id :: uuid
  vu_work_id :: uuid
  vu_lease_id :: uuid
  vu_lease_token :: uuid
  vu_worker_id :: string
  vu_input_digest :: string
  vu_correlation_id :: string

definition validate_verify_artifact_upload :: "verify_artifact_upload \<Rightarrow> unit checked" where
  "validate_verify_artifact_upload c = checks
     [app_require_token ''worker_id'' (vu_worker_id c),
      app_require_digest ''input_digest'' (vu_input_digest c),
      app_require_token ''correlation_id'' (vu_correlation_id c)]"

record prepare_artifact_read =
  pr_artifact_id :: uuid
  pr_work_id :: uuid
  pr_lease_id :: uuid
  pr_lease_token :: uuid
  pr_worker_id :: string
  pr_input_digest :: string
  pr_expires_in_seconds :: int
  pr_correlation_id :: string

definition validate_prepare_artifact_read :: "prepare_artifact_read \<Rightarrow> unit checked" where
  "validate_prepare_artifact_read c = checks
     [app_require_token ''worker_id'' (pr_worker_id c),
      app_require_digest ''input_digest'' (pr_input_digest c),
      require_expiry (pr_expires_in_seconds c),
      app_require_token ''correlation_id'' (pr_correlation_id c)]"

record prepared_artifact_upload =
  pdu_upload_id :: uuid
  pdu_method :: string
  pdu_url :: string
  pdu_required_headers :: "(string \<times> string) list"
  pdu_expires_at_utc :: datetime

definition make_prepared_artifact_upload :: "prepared_artifact_upload \<Rightarrow> prepared_artifact_upload checked" where
  "make_prepared_artifact_upload p = result_bind (checks
     [guard (pdu_method p = ''PUT'') (ValueError ''prepared artifact upload method must be PUT''),
      require_url (pdu_url p),
      require_headers (pdu_required_headers p),
      require_aware_utc ''expires_at_utc'' (pdu_expires_at_utc p)]) (\<lambda>_. Inr p)"

record verified_artifact_upload =
  vdu_upload_id :: uuid
  vdu_work_id :: uuid
  vdu_artifact_kind :: artifact_kind
  vdu_content_digest :: string
  vdu_size_bytes :: int
  vdu_content_type :: string
  vdu_storage_reference :: string
  vdu_verified_at_utc :: datetime

definition make_verified_artifact_upload :: "verified_artifact_upload \<Rightarrow> verified_artifact_upload checked" where
  "make_verified_artifact_upload v = result_bind (checks
     [app_require_digest ''content_digest'' (vdu_content_digest v),
      require_size (vdu_size_bytes v),
      require_content_type (vdu_content_type v),
      guard (storage_reference_pattern (vdu_storage_reference v))
        (ValueError ''artifact storage reference has an invalid format''),
      require_aware_utc ''verified_at_utc'' (vdu_verified_at_utc v)]) (\<lambda>_. Inr v)"

record prepared_artifact_read =
  pdr_artifact_id :: uuid
  pdr_method :: string
  pdr_url :: string
  pdr_expires_at_utc :: datetime

definition make_prepared_artifact_read :: "prepared_artifact_read \<Rightarrow> prepared_artifact_read checked" where
  "make_prepared_artifact_read p = result_bind (checks
     [guard (pdr_method p = ''GET'') (ValueError ''prepared artifact read method must be GET''),
      require_url (pdr_url p),
      require_aware_utc ''expires_at_utc'' (pdr_expires_at_utc p)]) (\<lambda>_. Inr p)"

end
