(* ===== verification/Work_Schema.thy ===== *)
theory Work_Schema
  imports Artifacts
begin

text \<open>
  The PostgreSQL schema behind the engine: \<^verbatim>\<open>postgres/work_metadata.py\<close>,
  \<^verbatim>\<open>postgres/work_source_constraints.py\<close>, \<^verbatim>\<open>postgres/artifact_metadata.py\<close> and the
  tables of \<^verbatim>\<open>postgres/metadata.py\<close> the engine reads. A table is the list of its rows in
  insertion order, a row a record with one field per column; a nullable column is an option and a
  column with an \<open>IN (...)\<close> check over an enumeration has that enumeration as its type. A
  \<open>timestamptz\<close> is its instant in microseconds. \<open>schema_ok\<close> holds of a database state exactly
  when every CHECK, UNIQUE and FOREIGN KEY constraint of these tables holds.
\<close>

section \<open>Rows of the run tables\<close>

record collection_run_row =
  cr_run_id :: uuid
  cr_campaign_key :: string
  cr_config_bundle_digest :: string
  cr_state :: collection_run_state
  cr_revision :: int
  cr_created_at_utc :: int
  cr_updated_at_utc :: int
  cr_correlation_id :: string

definition collection_run_check :: "collection_run_row \<Rightarrow> bool" where
  "collection_run_check r \<longleftrightarrow>
     key_pattern (cr_campaign_key r)
     \<and> sha256_pattern (cr_config_bundle_digest r)
     \<and> 0 \<le> cr_revision r
     \<and> cr_created_at_utc r \<le> cr_updated_at_utc r"

record stage_run_row =
  sr_stage_run_id :: uuid
  sr_run_id :: uuid
  sr_stage :: work_stage
  sr_state :: stage_run_state
  sr_revision :: int
  sr_created_at_utc :: int
  sr_updated_at_utc :: int
  sr_correlation_id :: string

definition stage_run_check :: "stage_run_row \<Rightarrow> bool" where
  "stage_run_check r \<longleftrightarrow> 0 \<le> sr_revision r \<and> sr_created_at_utc r \<le> sr_updated_at_utc r"

record run_transition_row =
  rt_transition_id :: uuid
  rt_run_id :: uuid
  rt_from_state :: collection_run_state
  rt_to_state :: collection_run_state
  rt_from_revision :: int
  rt_to_revision :: int
  rt_actor_id :: string
  rt_reason :: string
  rt_changed_at_utc :: int
  rt_correlation_id :: string

definition run_transition_check :: "run_transition_row \<Rightarrow> bool" where
  "run_transition_check r \<longleftrightarrow>
     0 \<le> rt_from_revision r \<and> rt_to_revision r = rt_from_revision r + 1
     \<and> length_between 1 200 (rt_actor_id r)
     \<and> length_between 1 1000 (rt_reason r)"

section \<open>Rows of the source and worker tables\<close>

record source_capacity_row =
  sc_source_key :: string
  sc_policy_digest :: string
  sc_operational_state :: source_operational_state
  sc_max_active_requests :: int
  sc_active_requests :: int
  sc_minimum_interval_milliseconds :: int
  sc_next_allowed_request_at_utc :: int
  sc_retry_after_utc :: "int option"
  sc_revision :: int
  sc_updated_at_utc :: int
  sc_correlation_id :: string

definition source_capacity_check :: "source_capacity_row \<Rightarrow> bool" where
  "source_capacity_check r \<longleftrightarrow>
     key_pattern (sc_source_key r)
     \<and> sha256_pattern (sc_policy_digest r)
     \<and> 1 \<le> sc_max_active_requests r \<and> sc_max_active_requests r \<le> 10000
     \<and> 0 \<le> sc_active_requests r \<and> sc_active_requests r \<le> sc_max_active_requests r
     \<and> 0 \<le> sc_minimum_interval_milliseconds r \<and> sc_minimum_interval_milliseconds r \<le> 86400000
     \<and> 0 \<le> sc_revision r"

record worker_registration_row =
  wr_worker_id :: string
  wr_registration_digest :: string
  wr_build_identity :: string
  wr_max_concurrency :: int
  wr_resource_profile :: string
  wr_registered_at_utc :: int
  wr_correlation_id :: string

definition worker_registration_check :: "worker_registration_row \<Rightarrow> bool" where
  "worker_registration_check r \<longleftrightarrow>
     token_pattern 127 (wr_worker_id r)
     \<and> sha256_pattern (wr_registration_digest r)
     \<and> 1 \<le> wr_max_concurrency r \<and> wr_max_concurrency r \<le> 10000"

record worker_heartbeat_row =
  wh_worker_id :: string
  wh_last_seen_at_utc :: int
  wh_active_lease_count :: int
  wh_correlation_id :: string

definition worker_heartbeat_check :: "worker_heartbeat_row \<Rightarrow> bool" where
  "worker_heartbeat_check r \<longleftrightarrow> 0 \<le> wh_active_lease_count r \<and> wh_active_lease_count r \<le> 10000"

section \<open>Rows of the work tables\<close>

record work_unit_row =
  wu_work_id :: uuid
  wu_run_id :: uuid
  wu_stage_run_id :: uuid
  wu_stage :: work_stage
  wu_capability :: work_capability
  wu_source_key :: "string option"
  wu_semantic_key :: string
  wu_input_digest :: string
  wu_expected_output_contract :: string
  wu_priority :: int
  wu_state :: work_unit_state
  wu_attempt_count :: int
  wu_failure_count :: int
  wu_max_attempts :: int
  wu_retry_initial_delay_seconds :: int
  wu_retry_multiplier :: int
  wu_retry_max_delay_seconds :: int
  wu_available_at_utc :: int
  wu_active_lease_id :: "uuid option"
  wu_active_lease_token :: "uuid option"
  wu_active_worker_id :: "string option"
  wu_lease_issued_at_utc :: "int option"
  wu_lease_expires_at_utc :: "int option"
  wu_heartbeat_deadline_utc :: "int option"
  wu_source_policy_digest :: "string option"
  wu_source_permit_not_before_utc :: "int option"
  wu_output_contract :: "string option"
  wu_output_digest :: "string option"
  wu_completed_at_utc :: "int option"
  wu_revision :: int
  wu_created_at_utc :: int
  wu_updated_at_utc :: int
  wu_correlation_id :: string

definition optional :: "('a \<Rightarrow> bool) \<Rightarrow> 'a option \<Rightarrow> bool" where
  "optional P x = (case x of None \<Rightarrow> True | Some v \<Rightarrow> P v)"

text \<open>\<open>ck_work_units_active_lease\<close>: the lease columns are all set exactly in the leased state.\<close>

definition work_unit_lease_shape :: "work_unit_row \<Rightarrow> bool" where
  "work_unit_lease_shape r =
     (if wu_state r = Unit_LEASED
      then wu_active_lease_id r \<noteq> None \<and> wu_active_lease_token r \<noteq> None
           \<and> wu_active_worker_id r \<noteq> None \<and> 1 \<le> wu_attempt_count r
           \<and> (case (wu_lease_issued_at_utc r, wu_heartbeat_deadline_utc r, wu_lease_expires_at_utc r) of
                (Some issued, Some deadline, Some expires) \<Rightarrow> issued < deadline \<and> deadline \<le> expires
              | _ \<Rightarrow> False)
      else wu_active_lease_id r = None \<and> wu_active_lease_token r = None
           \<and> wu_active_worker_id r = None \<and> wu_lease_issued_at_utc r = None
           \<and> wu_lease_expires_at_utc r = None \<and> wu_heartbeat_deadline_utc r = None)"

text \<open>\<open>ck_work_units_source_permit\<close>\<close>

definition work_unit_permit_shape :: "work_unit_row \<Rightarrow> bool" where
  "work_unit_permit_shape r =
     (if wu_source_key r \<noteq> None \<and> wu_state r = Unit_LEASED
      then wu_source_policy_digest r \<noteq> None \<and> wu_source_permit_not_before_utc r \<noteq> None
      else wu_source_policy_digest r = None \<and> wu_source_permit_not_before_utc r = None)"

text \<open>\<open>ck_work_units_output\<close>\<close>

definition work_unit_output_shape :: "work_unit_row \<Rightarrow> bool" where
  "work_unit_output_shape r =
     (if wu_state r = Unit_SUCCEEDED
      then wu_output_contract r \<noteq> None \<and> wu_output_digest r \<noteq> None \<and> wu_completed_at_utc r \<noteq> None
      else wu_output_contract r = None \<and> wu_output_digest r = None \<and> wu_completed_at_utc r = None)"

definition work_unit_check :: "work_unit_row \<Rightarrow> bool" where
  "work_unit_check r \<longleftrightarrow>
     capability_belongs_to_stage (wu_stage r) (wu_capability r)
     \<and> sha256_pattern (wu_semantic_key r)
     \<and> sha256_pattern (wu_input_digest r)
     \<and> token_pattern 199 (wu_expected_output_contract r)
     \<and> optional sha256_pattern (wu_source_policy_digest r)
     \<and> optional sha256_pattern (wu_output_digest r)
     \<and> - 1000000 \<le> wu_priority r \<and> wu_priority r \<le> 1000000
     \<and> 0 \<le> wu_attempt_count r \<and> 0 \<le> wu_failure_count r \<and> wu_failure_count r \<le> wu_max_attempts r
     \<and> wu_failure_count r \<le> wu_attempt_count r \<and> 1 \<le> wu_max_attempts r \<and> wu_max_attempts r \<le> 100
     \<and> 1 \<le> wu_retry_initial_delay_seconds r \<and> 1 \<le> wu_retry_multiplier r
     \<and> wu_retry_initial_delay_seconds r \<le> wu_retry_max_delay_seconds r
     \<and> work_unit_lease_shape r
     \<and> work_unit_permit_shape r
     \<and> work_unit_output_shape r
     \<and> 0 \<le> wu_revision r
     \<and> wu_created_at_utc r \<le> wu_updated_at_utc r
     \<and> capability_requires_source_permit (wu_capability r) = (wu_source_key r \<noteq> None)"

record work_attempt_row =
  wa_attempt_id :: uuid
  wa_work_id :: uuid
  wa_attempt_number :: int
  wa_lease_id :: uuid
  wa_lease_token :: uuid
  wa_worker_id :: string
  wa_worker_build_identity :: string
  wa_capability :: work_capability
  wa_input_digest :: string
  wa_source_key :: "string option"
  wa_source_policy_digest :: "string option"
  wa_source_permit_not_before_utc :: "int option"
  wa_issued_at_utc :: int
  wa_expires_at_utc :: int
  wa_heartbeat_deadline_utc :: int
  wa_finished_at_utc :: "int option"
  wa_outcome :: work_attempt_outcome
  wa_failure_kind :: "work_failure_kind option"
  wa_result_code :: "string option"
  wa_failure_owner :: "string option"
  wa_failure_message :: "string option"
  wa_required_action :: "string option"
  wa_output_contract :: "string option"
  wa_output_digest :: "string option"
  wa_correlation_id :: string

text \<open>\<open>ck_work_attempts_result_shape\<close>: which result columns each outcome carries.\<close>

definition work_attempt_result_shape :: "work_attempt_row \<Rightarrow> bool" where
  "work_attempt_result_shape r =
     (let no_failure = (wa_failure_kind r = None \<and> wa_failure_owner r = None
                        \<and> wa_failure_message r = None \<and> wa_required_action r = None);
          no_output = (wa_output_contract r = None \<and> wa_output_digest r = None)
      in case wa_outcome r of
           Outcome_LEASED \<Rightarrow>
             wa_finished_at_utc r = None \<and> no_failure \<and> wa_result_code r = None \<and> no_output
         | Outcome_SUCCEEDED \<Rightarrow>
             wa_finished_at_utc r \<noteq> None \<and> no_failure \<and> wa_result_code r = None
             \<and> wa_output_contract r \<noteq> None \<and> wa_output_digest r \<noteq> None
         | Outcome_RELEASED \<Rightarrow>
             wa_finished_at_utc r \<noteq> None \<and> no_failure \<and> wa_result_code r \<noteq> None \<and> no_output
         | Outcome_EXPIRED \<Rightarrow>
             wa_finished_at_utc r \<noteq> None \<and> no_failure \<and> wa_result_code r \<noteq> None \<and> no_output
         | _ \<Rightarrow>
             wa_finished_at_utc r \<noteq> None \<and> wa_failure_kind r \<noteq> None \<and> wa_result_code r \<noteq> None
             \<and> wa_failure_owner r \<noteq> None \<and> wa_failure_message r \<noteq> None
             \<and> wa_required_action r \<noteq> None \<and> no_output)"

definition work_attempt_check :: "work_attempt_row \<Rightarrow> bool" where
  "work_attempt_check r \<longleftrightarrow>
     1 \<le> wa_attempt_number r
     \<and> sha256_pattern (wa_input_digest r)
     \<and> optional sha256_pattern (wa_source_policy_digest r)
     \<and> optional sha256_pattern (wa_output_digest r)
     \<and> optional code_pattern (wa_result_code r)
     \<and> wa_issued_at_utc r < wa_heartbeat_deadline_utc r
     \<and> wa_heartbeat_deadline_utc r \<le> wa_expires_at_utc r
     \<and> (if wa_source_key r = None
        then wa_source_policy_digest r = None \<and> wa_source_permit_not_before_utc r = None
        else wa_source_policy_digest r \<noteq> None \<and> wa_source_permit_not_before_utc r \<noteq> None)
     \<and> work_attempt_result_shape r
     \<and> capability_requires_source_permit (wa_capability r) = (wa_source_key r \<noteq> None)"

record dead_letter_row =
  dl_work_id :: uuid
  dl_attempt_id :: uuid
  dl_failure_kind :: work_failure_kind
  dl_code :: string
  dl_owner :: string
  dl_message :: string
  dl_required_action :: string
  dl_created_at_utc :: int
  dl_correlation_id :: string

definition dead_letter_check :: "dead_letter_row \<Rightarrow> bool" where
  "dead_letter_check r \<longleftrightarrow>
     dl_failure_kind r \<in> {Failure_TRANSIENT, Failure_PERMANENT, Failure_CONTRACT_INVALID}
     \<and> code_pattern (dl_code r)"

section \<open>Rows of the artifact tables\<close>

datatype upload_state = Upload_PREPARED | Upload_VERIFIED | Upload_CONSUMED

record artifact_upload_row =
  up_upload_id :: uuid
  up_work_id :: uuid
  up_lease_id :: uuid
  up_lease_token :: uuid
  up_worker_id :: string
  up_input_digest :: string
  up_artifact_kind :: artifact_kind
  up_expected_digest :: string
  up_expected_size_bytes :: int
  up_content_type :: string
  up_staging_reference :: string
  up_final_reference :: "string option"
  up_state :: upload_state
  up_prepared_at_utc :: int
  up_expires_at_utc :: int
  up_verified_at_utc :: "int option"
  up_consumed_at_utc :: "int option"
  up_revision :: int
  up_correlation_id :: string

definition artifact_upload_check :: "artifact_upload_row \<Rightarrow> bool" where
  "artifact_upload_check r \<longleftrightarrow>
     sha256_pattern (up_input_digest r)
     \<and> sha256_pattern (up_expected_digest r)
     \<and> up_artifact_kind r \<in> {RAW_ARTIFACT, DIAGNOSTIC_ARTIFACT, DERIVED_ARTIFACT}
     \<and> 1 \<le> up_expected_size_bytes r \<and> up_expected_size_bytes r \<le> 5368709120
     \<and> content_type_pattern (up_content_type r)
     \<and> storage_reference_pattern (up_staging_reference r)
     \<and> optional storage_reference_pattern (up_final_reference r)
     \<and> up_prepared_at_utc r < up_expires_at_utc r
     \<and> (case up_state r of
          Upload_PREPARED \<Rightarrow>
            up_final_reference r = None \<and> up_verified_at_utc r = None \<and> up_consumed_at_utc r = None
        | Upload_VERIFIED \<Rightarrow>
            up_final_reference r \<noteq> None \<and> up_verified_at_utc r \<noteq> None \<and> up_consumed_at_utc r = None
        | Upload_CONSUMED \<Rightarrow>
            up_final_reference r \<noteq> None
            \<and> (case (up_verified_at_utc r, up_consumed_at_utc r) of
                 (Some verified, Some consumed) \<Rightarrow> verified \<le> consumed
               | _ \<Rightarrow> False))
     \<and> 0 \<le> up_revision r"

record artifact_object_row =
  ao_object_id :: uuid
  ao_artifact_kind :: artifact_kind
  ao_content_digest :: string
  ao_size_bytes :: int
  ao_storage_reference :: string
  ao_verified_at_utc :: int
  ao_recorded_at_utc :: int
  ao_correlation_id :: string

definition artifact_object_check :: "artifact_object_row \<Rightarrow> bool" where
  "artifact_object_check r \<longleftrightarrow>
     sha256_pattern (ao_content_digest r)
     \<and> 1 \<le> ao_size_bytes r \<and> ao_size_bytes r \<le> 5368709120
     \<and> storage_reference_pattern (ao_storage_reference r)
     \<and> ao_verified_at_utc r \<le> ao_recorded_at_utc r"

datatype producer_kind = Producer_WORKER | Producer_CONTROL_PLANE

record artifact_record_row =
  ar_artifact_id :: uuid
  ar_object_id :: uuid
  ar_upload_id :: "uuid option"
  ar_work_id :: "uuid option"
  ar_attempt_id :: "uuid option"
  ar_worker_id :: "string option"
  ar_producer_kind :: producer_kind
  ar_producer_identity :: string
  ar_owner_operation_id :: "uuid option"
  ar_content_type :: string
  ar_source_policy_digest :: "string option"
  ar_recorded_at_utc :: int
  ar_correlation_id :: string

definition artifact_record_check :: "artifact_record_row \<Rightarrow> bool" where
  "artifact_record_check r \<longleftrightarrow>
     token_pattern 199 (ar_producer_identity r)
     \<and> (case ar_producer_kind r of
          Producer_WORKER \<Rightarrow>
            ar_upload_id r \<noteq> None \<and> ar_work_id r \<noteq> None \<and> ar_attempt_id r \<noteq> None
            \<and> ar_worker_id r = Some (ar_producer_identity r) \<and> ar_owner_operation_id r = None
        | Producer_CONTROL_PLANE \<Rightarrow>
            ar_upload_id r = None \<and> ar_work_id r = None \<and> ar_attempt_id r = None
            \<and> ar_worker_id r = None \<and> ar_owner_operation_id r \<noteq> None)
     \<and> content_type_pattern (ar_content_type r)
     \<and> optional sha256_pattern (ar_source_policy_digest r)"

record work_artifact_binding_row =
  wb_work_id :: uuid
  wb_position :: int
  wb_artifact_id :: uuid
  wb_role :: string

definition work_artifact_binding_check :: "work_artifact_binding_row \<Rightarrow> bool" where
  "work_artifact_binding_check r \<longleftrightarrow>
     0 \<le> wb_position r \<and> wb_position r \<le> 31 \<and> token_pattern 63 (wb_role r)"

section \<open>Rows of the configuration tables\<close>

datatype bundle_readiness = Bundle_READY | Bundle_BLOCKED

record config_bundle_row =
  cb_bundle_digest :: string
  cb_campaign_key :: string
  cb_readiness :: bundle_readiness

record config_bundle_artifact_row =
  cba_bundle_digest :: string
  cba_artifact_id :: uuid

record config_bundle_blocker_row =
  cbb_bundle_digest :: string
  cbb_position :: int
  cbb_code :: string

section \<open>The database\<close>

record db =
  config_bundles :: "config_bundle_row list"
  config_bundle_artifacts :: "config_bundle_artifact_row list"
  config_bundle_blockers :: "config_bundle_blocker_row list"
  collection_runs :: "collection_run_row list"
  stage_runs :: "stage_run_row list"
  collection_run_transitions :: "run_transition_row list"
  source_capacity_states :: "source_capacity_row list"
  worker_registrations :: "worker_registration_row list"
  worker_capabilities :: "(string \<times> work_capability) list"
  worker_output_contracts :: "(string \<times> string) list"
  worker_heartbeats :: "worker_heartbeat_row list"
  work_units :: "work_unit_row list"
  work_attempts :: "work_attempt_row list"
  dead_letters :: "dead_letter_row list"
  artifact_uploads :: "artifact_upload_row list"
  artifact_objects :: "artifact_object_row list"
  artifact_records :: "artifact_record_row list"
  work_input_artifacts :: "work_artifact_binding_row list"
  work_output_artifacts :: "work_artifact_binding_row list"

section \<open>Column ranges\<close>

text \<open>\<open>Integer\<close> columns hold 32-bit and \<open>BigInteger\<close> columns 64-bit signed values; a statement that
  would store another value is a \<open>DataError\<close>.\<close>

definition work_unit_range :: "work_unit_row \<Rightarrow> bool" where
  "work_unit_range r \<longleftrightarrow>
     int4 (wu_priority r) \<and> int4 (wu_attempt_count r) \<and> int4 (wu_failure_count r)
     \<and> int4 (wu_max_attempts r) \<and> int4 (wu_retry_initial_delay_seconds r)
     \<and> int4 (wu_retry_multiplier r) \<and> int4 (wu_retry_max_delay_seconds r) \<and> int8 (wu_revision r)"

definition columns_in_range :: "db \<Rightarrow> bool" where
  "columns_in_range d \<longleftrightarrow>
     list_all (\<lambda>r. int8 (cr_revision r)) (collection_runs d)
     \<and> list_all (\<lambda>r. int8 (sr_revision r)) (stage_runs d)
     \<and> list_all (\<lambda>r. int8 (rt_from_revision r) \<and> int8 (rt_to_revision r)) (collection_run_transitions d)
     \<and> list_all (\<lambda>r. int4 (sc_max_active_requests r) \<and> int4 (sc_active_requests r)
          \<and> int4 (sc_minimum_interval_milliseconds r) \<and> int8 (sc_revision r)) (source_capacity_states d)
     \<and> list_all (\<lambda>r. int4 (wr_max_concurrency r)) (worker_registrations d)
     \<and> list_all (\<lambda>r. int4 (wh_active_lease_count r)) (worker_heartbeats d)
     \<and> list_all work_unit_range (work_units d)
     \<and> list_all (\<lambda>r. int4 (wa_attempt_number r)) (work_attempts d)
     \<and> list_all (\<lambda>r. int8 (up_expected_size_bytes r) \<and> int8 (up_revision r)) (artifact_uploads d)
     \<and> list_all (\<lambda>r. int8 (ao_size_bytes r)) (artifact_objects d)
     \<and> list_all (\<lambda>r. int4 (wb_position r)) (work_input_artifacts d)
     \<and> list_all (\<lambda>r. int4 (wb_position r)) (work_output_artifacts d)"

section \<open>Uniqueness\<close>

definition somes :: "'a option list \<Rightarrow> 'a list" where
  "somes xs = map the (filter (\<lambda>x. x \<noteq> None) xs)"

abbreviation leased :: "work_unit_row \<Rightarrow> bool" where
  "leased w \<equiv> wu_state w = Unit_LEASED"

definition run_tables_unique :: "db \<Rightarrow> bool" where
  "run_tables_unique d \<longleftrightarrow>
     distinct (map cr_run_id (collection_runs d))
     \<and> distinct (map sr_stage_run_id (stage_runs d))
     \<and> distinct (map (\<lambda>r. (sr_run_id r, sr_stage r)) (stage_runs d))
     \<and> distinct (map rt_transition_id (collection_run_transitions d))
     \<and> distinct (map (\<lambda>r. (rt_run_id r, rt_to_revision r)) (collection_run_transitions d))"

definition worker_tables_unique :: "db \<Rightarrow> bool" where
  "worker_tables_unique d \<longleftrightarrow>
     distinct (map sc_source_key (source_capacity_states d))
     \<and> distinct (map wr_worker_id (worker_registrations d))
     \<and> distinct (map wr_registration_digest (worker_registrations d))
     \<and> distinct (worker_capabilities d)
     \<and> distinct (worker_output_contracts d)
     \<and> distinct (map wh_worker_id (worker_heartbeats d))"

definition work_tables_unique :: "db \<Rightarrow> bool" where
  "work_tables_unique d \<longleftrightarrow>
     distinct (map wu_work_id (work_units d))
     \<and> distinct (map (\<lambda>r. (wu_run_id r, wu_semantic_key r)) (work_units d))
     \<and> distinct (map wu_active_lease_id (filter leased (work_units d)))
     \<and> distinct (map wu_active_lease_token (filter leased (work_units d)))
     \<and> distinct (map wa_attempt_id (work_attempts d))
     \<and> distinct (map (\<lambda>r. (wa_work_id r, wa_attempt_number r)) (work_attempts d))
     \<and> distinct (map wa_lease_id (work_attempts d))
     \<and> distinct (map wa_lease_token (work_attempts d))
     \<and> distinct (map dl_work_id (dead_letters d))
     \<and> distinct (map dl_attempt_id (dead_letters d))"

definition artifact_tables_unique :: "db \<Rightarrow> bool" where
  "artifact_tables_unique d \<longleftrightarrow>
     distinct (map up_upload_id (artifact_uploads d))
     \<and> distinct (map up_staging_reference (artifact_uploads d))
     \<and> distinct (map ao_object_id (artifact_objects d))
     \<and> distinct (map (\<lambda>r. (ao_artifact_kind r, ao_content_digest r)) (artifact_objects d))
     \<and> distinct (map ao_storage_reference (artifact_objects d))
     \<and> distinct (map ar_artifact_id (artifact_records d))
     \<and> distinct (somes (map ar_upload_id (artifact_records d)))
     \<and> distinct (map (\<lambda>r. (ar_producer_kind r, ar_producer_identity r, ar_owner_operation_id r))
          (filter (\<lambda>r. ar_owner_operation_id r \<noteq> None) (artifact_records d)))
     \<and> distinct (map (\<lambda>r. (wb_work_id r, wb_position r)) (work_input_artifacts d))
     \<and> distinct (map (\<lambda>r. (wb_work_id r, wb_artifact_id r)) (work_input_artifacts d))
     \<and> distinct (map (\<lambda>r. (wb_work_id r, wb_role r)) (work_input_artifacts d))
     \<and> distinct (map (\<lambda>r. (wb_work_id r, wb_position r)) (work_output_artifacts d))
     \<and> distinct (map wb_artifact_id (work_output_artifacts d))
     \<and> distinct (map (\<lambda>r. (wb_work_id r, wb_role r)) (work_output_artifacts d))"

definition config_tables_unique :: "db \<Rightarrow> bool" where
  "config_tables_unique d \<longleftrightarrow>
     distinct (map cb_bundle_digest (config_bundles d))
     \<and> distinct (map cba_bundle_digest (config_bundle_artifacts d))
     \<and> distinct (map cba_artifact_id (config_bundle_artifacts d))
     \<and> distinct (map (\<lambda>r. (cbb_bundle_digest r, cbb_position r)) (config_bundle_blockers d))"

section \<open>Row checks and references\<close>

definition rows_checked :: "db \<Rightarrow> bool" where
  "rows_checked d \<longleftrightarrow>
     list_all collection_run_check (collection_runs d)
     \<and> list_all stage_run_check (stage_runs d)
     \<and> list_all run_transition_check (collection_run_transitions d)
     \<and> list_all source_capacity_check (source_capacity_states d)
     \<and> list_all worker_registration_check (worker_registrations d)
     \<and> list_all (\<lambda>(_, contract). token_pattern 199 contract) (worker_output_contracts d)
     \<and> list_all worker_heartbeat_check (worker_heartbeats d)
     \<and> list_all work_unit_check (work_units d)
     \<and> list_all work_attempt_check (work_attempts d)
     \<and> list_all dead_letter_check (dead_letters d)
     \<and> list_all artifact_upload_check (artifact_uploads d)
     \<and> list_all artifact_object_check (artifact_objects d)
     \<and> list_all artifact_record_check (artifact_records d)
     \<and> list_all work_artifact_binding_check (work_input_artifacts d)
     \<and> list_all work_artifact_binding_check (work_output_artifacts d)"

definition run_references :: "db \<Rightarrow> bool" where
  "run_references d \<longleftrightarrow>
     list_all (\<lambda>r. cr_config_bundle_digest r \<in> set (map cb_bundle_digest (config_bundles d)))
       (collection_runs d)
     \<and> list_all (\<lambda>r. sr_run_id r \<in> set (map cr_run_id (collection_runs d))) (stage_runs d)
     \<and> list_all (\<lambda>r. rt_run_id r \<in> set (map cr_run_id (collection_runs d)))
         (collection_run_transitions d)"

definition work_references :: "db \<Rightarrow> bool" where
  "work_references d \<longleftrightarrow>
     (let workers = set (map wr_worker_id (worker_registrations d));
          sources = set (map sc_source_key (source_capacity_states d));
          units = set (map wu_work_id (work_units d));
          attempts = set (map wa_attempt_id (work_attempts d))
      in list_all (\<lambda>(worker, _). worker \<in> workers) (worker_capabilities d)
         \<and> list_all (\<lambda>(worker, _). worker \<in> workers) (worker_output_contracts d)
         \<and> list_all (\<lambda>r. wh_worker_id r \<in> workers) (worker_heartbeats d)
         \<and> list_all (\<lambda>r. optional (\<lambda>k. k \<in> sources) (wu_source_key r)) (work_units d)
         \<and> list_all (\<lambda>r. optional (\<lambda>w. w \<in> workers) (wu_active_worker_id r)) (work_units d)
         \<and> list_all (\<lambda>r. (wu_stage_run_id r, wu_run_id r, wu_stage r)
               \<in> set (map (\<lambda>s. (sr_stage_run_id s, sr_run_id s, sr_stage s)) (stage_runs d))) (work_units d)
         \<and> list_all (\<lambda>r. wa_work_id r \<in> units \<and> wa_worker_id r \<in> workers
               \<and> optional (\<lambda>k. k \<in> sources) (wa_source_key r)) (work_attempts d)
         \<and> list_all (\<lambda>r. dl_work_id r \<in> units \<and> dl_attempt_id r \<in> attempts) (dead_letters d))"

definition artifact_references :: "db \<Rightarrow> bool" where
  "artifact_references d \<longleftrightarrow>
     (let workers = set (map wr_worker_id (worker_registrations d));
          units = set (map wu_work_id (work_units d));
          attempts = set (map wa_attempt_id (work_attempts d));
          uploads = set (map up_upload_id (artifact_uploads d));
          objects = set (map ao_object_id (artifact_objects d));
          artifacts = set (map ar_artifact_id (artifact_records d))
      in list_all (\<lambda>r. up_work_id r \<in> units \<and> up_worker_id r \<in> workers) (artifact_uploads d)
         \<and> list_all (\<lambda>r. ar_object_id r \<in> objects
               \<and> optional (\<lambda>u. u \<in> uploads) (ar_upload_id r)
               \<and> optional (\<lambda>w. w \<in> units) (ar_work_id r)
               \<and> optional (\<lambda>a. a \<in> attempts) (ar_attempt_id r)
               \<and> optional (\<lambda>w. w \<in> workers) (ar_worker_id r)) (artifact_records d)
         \<and> list_all (\<lambda>r. wb_work_id r \<in> units \<and> wb_artifact_id r \<in> artifacts) (work_input_artifacts d)
         \<and> list_all (\<lambda>r. wb_work_id r \<in> units \<and> wb_artifact_id r \<in> artifacts) (work_output_artifacts d)
         \<and> list_all (\<lambda>r. cba_artifact_id r \<in> artifacts
               \<and> cba_bundle_digest r \<in> set (map cb_bundle_digest (config_bundles d)))
             (config_bundle_artifacts d))"

definition schema_ok :: "db \<Rightarrow> bool" where
  "schema_ok d \<longleftrightarrow>
     rows_checked d
     \<and> run_tables_unique d \<and> worker_tables_unique d \<and> work_tables_unique d
     \<and> artifact_tables_unique d \<and> config_tables_unique d
     \<and> run_references d \<and> work_references d \<and> artifact_references d"

end
