(* ===== verification/Store_Tables.thy ===== *)
theory Store_Tables
  imports Work_Schema "HOL-Library.Product_Lexorder"
begin

text \<open>
  The statements the PostgreSQL modules send and what a connection does with them. A table with a
  unique key is the interface \<open>store_table\<close>: what a keyed \<open>SELECT\<close> returns, what a keyed
  \<open>UPDATE\<close> leaves in the table and how it changes the number of rows with a property are proved
  once in the locale and reach the tables of the schema through its interpretations.

  A statement that would leave the schema is refused with the exception SQLAlchemy raises
  (\<open>DataError\<close> for a value outside its column, \<open>IntegrityError\<close> for a violated constraint), and
  the transaction around it rolls back.
\<close>

section \<open>Rows\<close>

definition update_rows :: "('r \<Rightarrow> bool) \<Rightarrow> ('r \<Rightarrow> 'r) \<Rightarrow> 'r list \<Rightarrow> 'r list" where
  "update_rows p f rs = map (\<lambda>r. if p r then f r else r) rs"

definition insert_rows :: "'r list \<Rightarrow> 'r list \<Rightarrow> 'r list" where
  "insert_rows new rs = rs @ new"

lemma update_rows_simps [simp]:
  "update_rows p f [] = []"
  "update_rows p f (r # rs) = (if p r then f r else r) # update_rows p f rs"
  by (simp_all add: update_rows_def)

lemma insert_rows_simps [simp]:
  "set (insert_rows new rs) = set rs \<union> set new"
  "count_rows P (insert_rows new rs) = count_rows P rs + count_rows P new"
  "map f (insert_rows new rs) = map f rs @ map f new"
  by (simp_all add: insert_rows_def)

lemma in_set_update_rows:
  "x \<in> set (update_rows p f rs) \<longleftrightarrow> (\<exists>r \<in> set rs. x = (if p r then f r else r))"
  by (auto simp: update_rows_def)

lemma update_rows_none: "(\<And>r. r \<in> set rs \<Longrightarrow> \<not> p r) \<Longrightarrow> update_rows p f rs = rs"
  by (induction rs) auto

lemma update_rows_cong:
  "(\<And>r. r \<in> set rs \<Longrightarrow> p r = q r) \<Longrightarrow> update_rows p f rs = update_rows q f rs"
  by (induction rs) auto

lemma map_update_rows:
  "(\<And>r. r \<in> set rs \<Longrightarrow> p r \<Longrightarrow> g (f r) = g r) \<Longrightarrow> map g (update_rows p f rs) = map g rs"
  by (induction rs) auto

lemma distinct_key_unique:
  "distinct (map key rs) \<Longrightarrow> r \<in> set rs \<Longrightarrow> s \<in> set rs \<Longrightarrow> key r = key s \<Longrightarrow> r = s"
  by (auto simp: distinct_map inj_on_def)

lemma filter_key_eq:
  assumes "distinct (map key rs)" and "r \<in> set rs"
  shows "filter (\<lambda>x. key x = key r) rs = [r]"
  using assms
proof (induction rs)
  case (Cons a rs)
  show ?case
  proof (cases "key a = key r")
    case True
    then have "a = r" using distinct_key_unique [OF Cons.prems(1), of a r] Cons.prems(2) by simp
    moreover have "filter (\<lambda>x. key x = key r) rs = []"
      using Cons.prems(1) True by (auto simp: filter_empty_conv image_iff)
    ultimately show ?thesis by simp
  next
    case False
    then show ?thesis using Cons by auto
  qed
qed simp

lemma count_key_eq:
  "distinct (map key rs) \<Longrightarrow> r \<in> set rs \<Longrightarrow> count_rows (\<lambda>x. key x = key r) rs = 1"
  by (simp add: count_rows_def filter_key_eq)

lemma update_key_set:
  assumes "distinct (map key rs)" and "r \<in> set rs"
  shows "set (update_rows (\<lambda>x. key x = key r) f rs) = insert (f r) (set rs - {r})"
  using assms distinct_key_unique [OF assms(1)] by (auto simp: in_set_update_rows) metis+

lemma update_key_count:
  assumes "distinct (map key rs)" and "r \<in> set rs"
  shows "count_rows P (update_rows (\<lambda>x. key x = key r) f rs) =
    count_rows P rs - of_bool (P r) + of_bool (P (f r))"
  using assms
proof (induction rs)
  case (Cons a rs)
  show ?case
  proof (cases "a = r")
    case True
    moreover have "update_rows (\<lambda>x. key x = key r) f rs = rs"
      using Cons.prems(1) True by (intro update_rows_none) (auto simp: image_iff)
    ultimately show ?thesis by simp
  next
    case False
    then have "r \<in> set rs" "key a \<noteq> key r"
      using Cons.prems distinct_key_unique [OF Cons.prems(1), of a r] by auto
    then show ?thesis using Cons by simp
  qed
qed simp

lemma update_key_guarded:
  assumes "distinct (map key rs)" and "r \<in> set rs" and "Q r"
  shows "update_rows (\<lambda>x. key x = key r \<and> Q x) f rs = update_rows (\<lambda>x. key x = key r) f rs"
    and "count_rows (\<lambda>x. key x = key r \<and> Q x) rs = 1"
proof -
  have eq: "(key x = key r \<and> Q x) = (key x = key r)" if "x \<in> set rs" for x
    using that assms distinct_key_unique by metis
  show "update_rows (\<lambda>x. key x = key r \<and> Q x) f rs = update_rows (\<lambda>x. key x = key r) f rs"
    using eq by (intro update_rows_cong) auto
  show "count_rows (\<lambda>x. key x = key r \<and> Q x) rs = 1"
    using eq count_key_eq [OF assms(1,2)]
      count_rows_cong [of rs "\<lambda>x. key x = key r \<and> Q x" "\<lambda>x. key x = key r"] by simp
qed

lemma update_key_const:
  assumes "distinct (map key rs)" and "r \<in> set rs"
  shows "update_rows (\<lambda>x. key x = key r) f rs = update_rows (\<lambda>x. key x = key r) (\<lambda>_. f r) rs"
  unfolding update_rows_def
proof (rule map_cong)
  fix x assume "x \<in> set rs"
  then show "(if key x = key r then f x else x) = (if key x = key r then f r else x)"
    using distinct_key_unique [OF assms(1) _ assms(2)] by auto
qed simp

section \<open>Statements\<close>

datatype 'c store_exn =
    Conflict 'c
  | SQLAlchemyError string
  | StoreValueError value_error
  | UncaughtError string

definition one_or_none :: "'r list \<Rightarrow> 'c store_exn + 'r option" where
  "one_or_none rs = (case rs of [] \<Rightarrow> Inr None | [r] \<Rightarrow> Inr (Some r)
     | _ \<Rightarrow> Inl (SQLAlchemyError ''MultipleResultsFound''))"

definition select_one :: "('r \<Rightarrow> 'k) \<Rightarrow> 'k \<Rightarrow> 'r list \<Rightarrow> 'c store_exn + 'r option" where
  "select_one key k rs = one_or_none (filter (\<lambda>r. key r = k) rs)"

definition execute :: "(db \<Rightarrow> db) \<Rightarrow> db \<Rightarrow> 'c store_exn + db" where
  "execute statement d =
     (let d' = statement d
      in if \<not> columns_in_range d' then Inl (SQLAlchemyError ''DataError'')
         else if \<not> schema_ok d' then Inl (SQLAlchemyError ''IntegrityError'')
         else Inr d')"

definition of_checked :: "'a checked \<Rightarrow> 'c store_exn + 'a" where
  "of_checked r = map_error StoreValueError r"

definition raise_conflict :: "'c \<Rightarrow> 'c store_exn + 'a" where
  "raise_conflict c = Inl (Conflict c)"

text \<open>The states a committed transaction leaves: every column in range, every constraint kept.\<close>

definition store_ok :: "db \<Rightarrow> bool" where
  "store_ok d \<longleftrightarrow> columns_in_range d \<and> schema_ok d"

lemma store_ok_schema [simp]: "store_ok d \<Longrightarrow> schema_ok d"
  by (simp add: store_ok_def)

lemma execute_eq_Inr [simp, result_simps]:
  "execute f d = Inr d' \<longleftrightarrow> d' = f d \<and> store_ok (f d)"
  by (auto simp: execute_def Let_def store_ok_def)

lemma execute_eq_Inl [result_simps]:
  "execute f d = Inl e \<longleftrightarrow>
     \<not> store_ok (f d) \<and> e = SQLAlchemyError (if columns_in_range (f d) then ''IntegrityError'' else ''DataError'')"
  by (auto simp: execute_def Let_def store_ok_def)

lemma execute_ok: "store_ok (f d) \<Longrightarrow> execute f d = Inr (f d)"
  by simp

lemma of_checked_simps [simp, result_simps]:
  "of_checked r = Inr x \<longleftrightarrow> r = Inr x"
  "of_checked (Inr x) = Inr x"
  "of_checked (Inl e) = Inl (StoreValueError e)"
  by (simp_all add: of_checked_def)

lemma raise_conflict_simps [simp, result_simps]:
  "raise_conflict c \<noteq> Inr x"
  "raise_conflict c = Inl e \<longleftrightarrow> e = Conflict c"
  by (auto simp: raise_conflict_def)

lemma one_or_none_simps [simp]:
  "one_or_none [] = Inr None" "one_or_none [r] = Inr (Some r)"
  by (simp_all add: one_or_none_def)

lemma one_or_none_SomeD: "one_or_none rs = Inr (Some r) \<Longrightarrow> rs = [r]"
  by (auto simp: one_or_none_def split: list.splits)

lemma one_or_none_NoneD: "one_or_none rs = Inr None \<Longrightarrow> rs = []"
  by (auto simp: one_or_none_def split: list.splits)

lemma select_one_SomeD:
  assumes "select_one key k rs = Inr (Some r)"
  shows "r \<in> set rs" and "key r = k"
proof -
  have "r \<in> set (filter (\<lambda>r. key r = k) rs)"
    using assms one_or_none_SomeD unfolding select_one_def by fastforce
  then show "r \<in> set rs" "key r = k" by auto
qed

lemma select_one_NoneD: "select_one key k rs = Inr None \<Longrightarrow> r \<in> set rs \<Longrightarrow> key r \<noteq> k"
  unfolding select_one_def by (drule one_or_none_NoneD) (auto simp: filter_empty_conv)

lemma select_one_key:
  "distinct (map key rs) \<Longrightarrow> r \<in> set rs \<Longrightarrow> select_one key (key r) rs = Inr (Some r)"
  by (simp add: select_one_def filter_key_eq)

lemma select_one_absent:
  "(\<And>r. r \<in> set rs \<Longrightarrow> key r \<noteq> k) \<Longrightarrow> select_one key k rs = Inr None"
  by (simp add: select_one_def filter_empty_conv)

section \<open>Tables with a unique key\<close>

locale store_table =
  fixes rows :: "db \<Rightarrow> 'r list"
    and put :: "('r list \<Rightarrow> 'r list) \<Rightarrow> db \<Rightarrow> db"
    and key :: "'r \<Rightarrow> 'k"
  assumes rows_put: "rows (put f d) = f (rows d)"
    and put_cong: "f (rows d) = g (rows d) \<Longrightarrow> put f d = put g d"
    and key_distinct: "schema_ok d \<Longrightarrow> distinct (map key (rows d))"
begin

lemma key_unique:
  "schema_ok d \<Longrightarrow> r \<in> set (rows d) \<Longrightarrow> s \<in> set (rows d) \<Longrightarrow> key r = key s \<Longrightarrow> r = s"
  using distinct_key_unique key_distinct by metis

lemma select_iff:
  "schema_ok d \<Longrightarrow> select_one key k (rows d) = Inr (Some r) \<longleftrightarrow> r \<in> set (rows d) \<and> key r = k"
  using select_one_SomeD [of key k "rows d" r] select_one_key key_distinct by metis

lemma select_cases:
  assumes "schema_ok d"
  obtains (Absent) "select_one key k (rows d) = Inr None" "\<And>r. r \<in> set (rows d) \<Longrightarrow> key r \<noteq> k"
    | (Found) r where "select_one key k (rows d) = Inr (Some r)" "r \<in> set (rows d)" "key r = k"
proof (cases "\<exists>r \<in> set (rows d). key r = k")
  case True
  then show ?thesis using Found select_iff [OF assms] by blast
next
  case False
  then show ?thesis using Absent select_one_absent [of "rows d" key k] by blast
qed

lemma rows_update:
  "schema_ok d \<Longrightarrow> r \<in> set (rows d) \<Longrightarrow>
   set (rows (put (update_rows (\<lambda>x. key x = key r) f) d)) = insert (f r) (set (rows d) - {r})"
  using update_key_set key_distinct by (metis rows_put)

lemma count_update:
  "schema_ok d \<Longrightarrow> r \<in> set (rows d) \<Longrightarrow>
   count_rows P (rows (put (update_rows (\<lambda>x. key x = key r) f) d)) =
   count_rows P (rows d) - of_bool (P r) + of_bool (P (f r))"
  using update_key_count key_distinct by (metis rows_put)

lemma update_const:
  "schema_ok d \<Longrightarrow> r \<in> set (rows d) \<Longrightarrow>
   put (update_rows (\<lambda>x. key x = key r) f) d = put (update_rows (\<lambda>x. key x = key r) (\<lambda>_. f r)) d"
  using update_key_const key_distinct by (metis put_cong)

lemma count_one:
  "schema_ok d \<Longrightarrow> r \<in> set (rows d) \<Longrightarrow> count_rows (\<lambda>x. key x = key r) (rows d) = 1"
  using count_key_eq key_distinct by metis

lemma guarded_update:
  assumes "schema_ok d" and "r \<in> set (rows d)" and "Q r"
  shows "update_rows (\<lambda>x. key x = key r \<and> Q x) f (rows d) =
         update_rows (\<lambda>x. key x = key r) f (rows d)"
    and "count_rows (\<lambda>x. key x = key r \<and> Q x) (rows d) = 1"
  using update_key_guarded [where key = key, OF _ assms(2), of Q] key_distinct [OF assms(1)] assms(3)
  by auto

end

lemmas schema_unique_defs =
  schema_ok_def run_tables_unique_def worker_tables_unique_def work_tables_unique_def
  artifact_tables_unique_def config_tables_unique_def

interpretation bundles: store_table config_bundles config_bundles_update cb_bundle_digest
  by unfold_locales (simp_all add: schema_unique_defs cong: db.fold_congs)

interpretation bundle_artifacts:
  store_table config_bundle_artifacts config_bundle_artifacts_update cba_bundle_digest
  by unfold_locales (simp_all add: schema_unique_defs cong: db.fold_congs)

interpretation runs: store_table collection_runs collection_runs_update cr_run_id
  by unfold_locales (simp_all add: schema_unique_defs cong: db.fold_congs)

interpretation stages: store_table stage_runs stage_runs_update sr_stage_run_id
  by unfold_locales (simp_all add: schema_unique_defs cong: db.fold_congs)

interpretation sources: store_table source_capacity_states source_capacity_states_update sc_source_key
  by unfold_locales (simp_all add: schema_unique_defs cong: db.fold_congs)

interpretation registrations:
  store_table worker_registrations worker_registrations_update wr_worker_id
  by unfold_locales (simp_all add: schema_unique_defs cong: db.fold_congs)

interpretation heartbeats: store_table worker_heartbeats worker_heartbeats_update wh_worker_id
  by unfold_locales (simp_all add: schema_unique_defs cong: db.fold_congs)

interpretation units: store_table work_units work_units_update wu_work_id
  by unfold_locales (simp_all add: schema_unique_defs cong: db.fold_congs)

interpretation attempts: store_table work_attempts work_attempts_update wa_attempt_id
  by unfold_locales (simp_all add: schema_unique_defs cong: db.fold_congs)

interpretation attempt_leases: store_table work_attempts work_attempts_update wa_lease_id
  by unfold_locales (simp_all add: schema_unique_defs cong: db.fold_congs)

interpretation letters: store_table dead_letters dead_letters_update dl_work_id
  by unfold_locales (simp_all add: schema_unique_defs cong: db.fold_congs)

interpretation uploads: store_table artifact_uploads artifact_uploads_update up_upload_id
  by unfold_locales (simp_all add: schema_unique_defs cong: db.fold_congs)

interpretation objects:
  store_table artifact_objects artifact_objects_update "\<lambda>r. (ao_artifact_kind r, ao_content_digest r)"
  by unfold_locales (simp_all add: schema_unique_defs cong: db.fold_congs)

end
