(* ===== verification/Engine_Conflicts.thy ===== *)
theory Engine_Conflicts
  imports Store_Tables
begin

text \<open>
  The conflicts \<^verbatim>\<open>postgres/work_engine.py\<close> raises: one constructor for each error code, with
  the values its context carries, and \<open>conflict_details\<close>, the code, message, context and required
  action of the exception. \<open>transaction\<close> is the wrapper every command of the engine runs in.
\<close>

datatype conflict =
    WORKER_REGISTRATION_CONFLICT string
  | WORKER_HEARTBEAT_MISSING string
  | SOURCE_CAPACITY_CONFLICT string int int
  | RUN_CONFIG_NOT_FOUND string
  | RUN_CONFIG_CAMPAIGN_MISMATCH string string string
  | RUN_CONFIG_ARTIFACT_MISSING string
  | RUN_CONFIG_BLOCKED string string "string list"
  | RUN_IDENTITY_CONFLICT uuid
  | STAGE_RUN_OWNER_NOT_FOUND uuid work_stage
  | STAGE_RUN_OWNER_STATE_INVALID uuid collection_run_state
  | STAGE_RUN_CANNOT_START uuid collection_run_state
  | STAGE_RUN_IDENTITY_CONFLICT uuid uuid work_stage
  | WORK_OWNER_MISMATCH uuid uuid uuid work_stage
  | WORK_OWNER_STATE_INVALID collection_run_state stage_run_state
  | WORK_SOURCE_NOT_CONFIGURED string uuid
  | WORK_INPUT_ARTIFACT_NOT_FOUND uuid "string list"
  | WORK_SEMANTIC_IDENTITY_CONFLICT uuid uuid string
  | WORKER_NOT_REGISTERED string
  | WORKER_CAPABILITY_UNSUPPORTED string work_capability
  | SOURCE_CAPACITY_MISSING string uuid
  | WORK_COMPLETION_CONFLICT uuid
  | WORK_OUTPUT_CONTRACT_MISMATCH uuid string string
  | WORK_OUTPUT_ARTIFACT_NOT_FOUND uuid "string list"
  | WORK_OUTPUT_ARTIFACT_NOT_VERIFIED uuid uuid upload_state
  | ARTIFACT_VERIFICATION_STATE_INVALID uuid
  | WORK_OUTPUT_ARTIFACT_STALE uuid uuid string
  | ARTIFACT_OBJECT_IDENTITY_CONFLICT artifact_kind string
  | WORK_ATTEMPT_MISSING uuid
  | WORK_NOT_FOUND uuid
  | WORK_LEASE_STALE uuid string
  | WORKER_CAPACITY_CORRUPT uuid "string option"
  | SOURCE_CAPACITY_CORRUPT uuid string
  | WORK_ENGINE_STORAGE_FAILED string
  | WORK_ENGINE_STATE_INVALID string string

type_synonym engine_exn = "conflict store_exn"

section \<open>Texts\<close>

fun upload_state_value :: "upload_state \<Rightarrow> string" where
  "upload_state_value Upload_PREPARED = ''prepared''"
| "upload_state_value Upload_VERIFIED = ''verified''"
| "upload_state_value Upload_CONSUMED = ''consumed''"

definition engine_conflict :: "string \<Rightarrow> string \<Rightarrow> (string \<times> json) list \<Rightarrow> string \<Rightarrow> work_engine_conflict" where
  "engine_conflict code message context required_action =
     \<lparr>wec_code = code, wec_message = message, wec_context = context,
      wec_required_action = required_action\<rparr>"

definition state_conflict :: "string \<Rightarrow> string \<Rightarrow> (string \<times> json) list \<Rightarrow> work_engine_conflict" where
  "state_conflict code message context = engine_conflict code message context
     (''Inspect the affected Work Engine rows and correct them only through an owner ''
      @ ''migration or recovery command.'')"

definition stale_conflict :: "uuid \<Rightarrow> string \<Rightarrow> work_engine_conflict" where
  "stale_conflict work_id reason = engine_conflict ''WORK_LEASE_STALE''
     ''The worker no longer owns this work lease.''
     [(''workId'', JStr (uuid_str work_id)), (''reason'', JStr reason)]
     ''Discard the result and acquire a new lease.''"

definition conflict_details :: "conflict \<Rightarrow> work_engine_conflict" where
  "conflict_details c = (case c of
    WORKER_REGISTRATION_CONFLICT worker \<Rightarrow>
     engine_conflict ''WORKER_REGISTRATION_CONFLICT''
       ''The worker identity is already bound to another registration.''
       [(''workerId'', JStr worker)]
       (''Use a new worker instance ID for a different build, capability set, ''
        @ ''output contract set, concurrency, or resource profile.'')
  | WORKER_HEARTBEAT_MISSING worker \<Rightarrow>
     state_conflict ''WORKER_HEARTBEAT_MISSING''
       ''The registered worker has no heartbeat state.'' [(''workerId'', JStr worker)]
  | SOURCE_CAPACITY_CONFLICT source active requested \<Rightarrow>
     engine_conflict ''SOURCE_CAPACITY_CONFLICT''
       ''Source capacity cannot be reduced below active reservations.''
       [(''sourceKey'', JStr source), (''activeRequests'', JInt active),
        (''requestedMaximum'', JInt requested)]
       ''Allow active source work to finish or expire before reducing capacity.''
  | RUN_CONFIG_NOT_FOUND digest \<Rightarrow>
     engine_conflict ''RUN_CONFIG_NOT_FOUND'' ''The requested campaign snapshot is not published.''
       [(''configBundleDigest'', JStr digest)]
       ''Publish the exact validated campaign snapshot before creating the run.''
  | RUN_CONFIG_CAMPAIGN_MISMATCH campaign snapshot digest \<Rightarrow>
     engine_conflict ''RUN_CONFIG_CAMPAIGN_MISMATCH''
       ''The campaign key does not match the published snapshot.''
       [(''campaignKey'', JStr campaign), (''snapshotCampaignKey'', JStr snapshot),
        (''configBundleDigest'', JStr digest)]
       ''Create the run with the campaign key owned by the snapshot.''
  | RUN_CONFIG_ARTIFACT_MISSING digest \<Rightarrow>
     engine_conflict ''RUN_CONFIG_ARTIFACT_MISSING''
       ''The published campaign snapshot has no verified object artifact.''
       [(''configBundleDigest'', JStr digest)]
       (''Publish and bind the exact canonical campaign bundle artifact before ''
        @ ''creating the run.'')
  | RUN_CONFIG_BLOCKED campaign digest blockers \<Rightarrow>
     engine_conflict ''RUN_CONFIG_BLOCKED''
       ''The published campaign snapshot is blocked from runtime use.''
       [(''campaignKey'', JStr campaign), (''configBundleDigest'', JStr digest),
        (''blockerCodes'', JList (map JStr blockers))]
       ''Resolve every snapshot blocker and publish a different ready snapshot.''
  | RUN_IDENTITY_CONFLICT run \<Rightarrow>
     engine_conflict ''RUN_IDENTITY_CONFLICT''
       ''The run ID is already bound to another campaign snapshot.''
       [(''runId'', JStr (uuid_str run))] ''Use the existing run or create a new run ID.''
  | STAGE_RUN_OWNER_NOT_FOUND run stage \<Rightarrow>
     engine_conflict ''STAGE_RUN_OWNER_NOT_FOUND'' ''The stage run has no owning collection run.''
       [(''runId'', JStr (uuid_str run)), (''stage'', JStr (work_stage_value stage))]
       ''Create the owning collection run first.''
  | STAGE_RUN_OWNER_STATE_INVALID run state \<Rightarrow>
     engine_conflict ''STAGE_RUN_OWNER_STATE_INVALID''
       ''The collection run cannot accept a new stage.''
       [(''runId'', JStr (uuid_str run)), (''runState'', JStr (collection_run_state_value state))]
       ''Use a created or running collection run.''
  | STAGE_RUN_CANNOT_START run state \<Rightarrow>
     engine_conflict ''STAGE_RUN_CANNOT_START''
       ''A stage cannot start before its collection run is running.''
       [(''runId'', JStr (uuid_str run)), (''runState'', JStr (collection_run_state_value state))]
       ''Start the collection run or create the stage as pending.''
  | STAGE_RUN_IDENTITY_CONFLICT run stage_run stage \<Rightarrow>
     engine_conflict ''STAGE_RUN_IDENTITY_CONFLICT''
       ''The stage identity is already bound to another owner or stage.''
       [(''runId'', JStr (uuid_str run)), (''stageRunId'', JStr (uuid_str stage_run)),
        (''stage'', JStr (work_stage_value stage))]
       ''Use the existing stage identity or create a new compatible ID.''
  | WORK_OWNER_MISMATCH work run stage_run stage \<Rightarrow>
     engine_conflict ''WORK_OWNER_MISMATCH''
       ''The work unit does not belong to the requested run and stage.''
       [(''workId'', JStr (uuid_str work)), (''runId'', JStr (uuid_str run)),
        (''stageRunId'', JStr (uuid_str stage_run)), (''stage'', JStr (work_stage_value stage))]
       ''Use the exact owning run, stage run, and stage identity.''
  | WORK_OWNER_STATE_INVALID run_state stage_state \<Rightarrow>
     engine_conflict ''WORK_OWNER_STATE_INVALID''
       ''The owning run or stage cannot accept new work.''
       [(''runState'', JStr (collection_run_state_value run_state)),
        (''stageState'', JStr (stage_run_state_value stage_state))]
       ''Schedule work only for a created/running run and pending/running stage.''
  | WORK_SOURCE_NOT_CONFIGURED source work \<Rightarrow>
     engine_conflict ''WORK_SOURCE_NOT_CONFIGURED''
       ''Source-bound work references an unconfigured source.''
       [(''sourceKey'', JStr source), (''workId'', JStr (uuid_str work))]
       ''Configure the source before scheduling its work.''
  | WORK_INPUT_ARTIFACT_NOT_FOUND work missing \<Rightarrow>
     engine_conflict ''WORK_INPUT_ARTIFACT_NOT_FOUND''
       ''The work unit references artifact inputs that do not exist.''
       [(''workId'', JStr (uuid_str work)), (''artifactIds'', JList (map JStr missing))]
       ''Schedule the work only after every exact input artifact has been committed.''
  | WORK_SEMANTIC_IDENTITY_CONFLICT work canonical semantic_key \<Rightarrow>
     engine_conflict ''WORK_SEMANTIC_IDENTITY_CONFLICT''
       ''The work ID or semantic key is already bound to different immutable input.''
       [(''workId'', JStr (uuid_str work)), (''canonicalWorkId'', JStr (uuid_str canonical)),
        (''semanticKey'', JStr semantic_key)]
       (''Reuse the canonical work identity for the exact input or publish a different ''
        @ ''semantic key for changed input.'')
  | WORKER_NOT_REGISTERED worker \<Rightarrow>
     engine_conflict ''WORKER_NOT_REGISTERED''
       ''The worker is not registered with the Work Engine.''
       [(''workerId'', JStr worker)] ''Register the worker before requesting a lease.''
  | WORKER_CAPABILITY_UNSUPPORTED worker capability \<Rightarrow>
     engine_conflict ''WORKER_CAPABILITY_UNSUPPORTED''
       ''The worker did not register the requested capability.''
       [(''workerId'', JStr worker), (''capability'', JStr (work_capability_value capability))]
       ''Register a worker build that declares this capability.''
  | SOURCE_CAPACITY_MISSING source work \<Rightarrow>
     state_conflict ''SOURCE_CAPACITY_MISSING''
       ''Source-bound work has no source capacity state.''
       [(''sourceKey'', JStr source), (''workId'', JStr (uuid_str work))]
  | WORK_COMPLETION_CONFLICT work \<Rightarrow>
     engine_conflict ''WORK_COMPLETION_CONFLICT''
       ''The completed work already has a different immutable result.''
       [(''workId'', JStr (uuid_str work))] ''Use the previously applied completion result.''
  | WORK_OUTPUT_CONTRACT_MISMATCH work expected actual \<Rightarrow>
     engine_conflict ''WORK_OUTPUT_CONTRACT_MISMATCH''
       ''The completion output contract does not match the leased work contract.''
       [(''workId'', JStr (uuid_str work)), (''expectedOutputContract'', JStr expected),
        (''actualOutputContract'', JStr actual)]
       ''Produce the exact output contract declared by the lease.''
  | WORK_OUTPUT_ARTIFACT_NOT_FOUND work missing \<Rightarrow>
     engine_conflict ''WORK_OUTPUT_ARTIFACT_NOT_FOUND''
       ''The completion references uploads that were not prepared.''
       [(''workId'', JStr (uuid_str work)), (''uploadIds'', JList (map JStr missing))]
       (''Prepare and verify every output upload under the active lease ''
        @ ''before completion.'')
  | WORK_OUTPUT_ARTIFACT_NOT_VERIFIED work upload state \<Rightarrow>
     engine_conflict ''WORK_OUTPUT_ARTIFACT_NOT_VERIFIED''
       ''The completion references an upload that is not verified.''
       [(''workId'', JStr (uuid_str work)), (''uploadId'', JStr (uuid_str upload)),
        (''state'', JStr (upload_state_value state))]
       ''Verify the exact upload through Worker Gateway before completing work.''
  | ARTIFACT_VERIFICATION_STATE_INVALID upload \<Rightarrow>
     state_conflict ''ARTIFACT_VERIFICATION_STATE_INVALID''
       ''A verified upload has incomplete persisted object identity.''
       [(''uploadId'', JStr (uuid_str upload))]
  | WORK_OUTPUT_ARTIFACT_STALE work upload reason \<Rightarrow>
     engine_conflict ''WORK_OUTPUT_ARTIFACT_STALE''
       ''The output upload is not owned by this active work lease.''
       [(''workId'', JStr (uuid_str work)), (''uploadId'', JStr (uuid_str upload)),
        (''reason'', JStr reason)]
       ''Discard the upload and prepare a new one under the active lease.''
  | ARTIFACT_OBJECT_IDENTITY_CONFLICT kind digest \<Rightarrow>
     state_conflict ''ARTIFACT_OBJECT_IDENTITY_CONFLICT''
       ''A content-addressed object has conflicting persisted identity.''
       [(''artifactKind'', JStr (artifact_kind_value kind)), (''contentDigest'', JStr digest)]
  | WORK_ATTEMPT_MISSING work \<Rightarrow>
     state_conflict ''WORK_ATTEMPT_MISSING'' ''A leased work unit has no active attempt.''
       [(''workId'', JStr (uuid_str work))]
  | WORK_NOT_FOUND work \<Rightarrow>
     engine_conflict ''WORK_NOT_FOUND'' ''The requested work unit does not exist.''
       [(''workId'', JStr (uuid_str work))]
       ''Discard the result and acquire an existing work unit.''
  | WORK_LEASE_STALE work reason \<Rightarrow>
     stale_conflict work reason
  | WORKER_CAPACITY_CORRUPT work worker \<Rightarrow>
     state_conflict ''WORKER_CAPACITY_CORRUPT''
       ''The active lease is not represented in worker capacity state.''
       [(''workId'', JStr (uuid_str work)),
        (''workerId'', (case worker of None \<Rightarrow> JNull | Some w \<Rightarrow> JStr w))]
  | SOURCE_CAPACITY_CORRUPT work source \<Rightarrow>
     state_conflict ''SOURCE_CAPACITY_CORRUPT''
       ''The active lease is not represented in source capacity state.''
       [(''workId'', JStr (uuid_str work)), (''sourceKey'', JStr source)]
  | WORK_ENGINE_STORAGE_FAILED cause \<Rightarrow>
     engine_conflict ''WORK_ENGINE_STORAGE_FAILED''
       ''The Work Engine database operation did not complete.'' [(''causeType'', JStr cause)]
       (''Inspect the PostgreSQL error and Work Engine state, correct the owning ''
        @ ''schema or operation, and retry the exact command.'')
  | WORK_ENGINE_STATE_INVALID cause detail \<Rightarrow>
     engine_conflict ''WORK_ENGINE_STATE_INVALID''
       ''Persisted Work Engine state violates the application contract.''
       [(''causeType'', JStr cause), (''detail'', JStr detail)]
       (''Inspect the affected run, work unit, attempt, worker, and source rows; ''
        @ ''repair them only through an owner migration or recovery command.''))"

section \<open>The transaction wrapper\<close>

text \<open>The result of an operation that is committed even where it ends in a conflict.\<close>

datatype 'a committed = Committed 'a | CommittedConflict conflict

definition engine_now_utc :: "datetime \<Rightarrow> engine_exn + int" where
  "engine_now_utc clock =
     (if is_aware_utc clock then Inr (instant clock)
      else Inl (StoreValueError (ValueError ''Work Engine clock must return timezone-aware UTC'')))"

definition map_exception :: "engine_exn \<Rightarrow> engine_exn" where
  "map_exception e =
     (case e of
        SQLAlchemyError cause \<Rightarrow> Conflict (WORK_ENGINE_STORAGE_FAILED cause)
      | StoreValueError (ValueError detail) \<Rightarrow> Conflict (WORK_ENGINE_STATE_INVALID ''ValueError'' detail)
      | _ \<Rightarrow> e)"

definition transaction ::
    "datetime \<Rightarrow> (int \<Rightarrow> db \<Rightarrow> engine_exn + ('a committed \<times> db)) \<Rightarrow> db \<Rightarrow> (engine_exn + 'a) \<times> db" where
  "transaction clock operation d =
     (case engine_now_utc clock of
        Inl e \<Rightarrow> (Inl e, d)
      | Inr now \<Rightarrow>
          (case operation now d of
             Inl e \<Rightarrow> (Inl (map_exception e), d)
           | Inr (CommittedConflict c, d') \<Rightarrow> (Inl (Conflict c), d')
           | Inr (Committed r, d') \<Rightarrow> (Inr r, d')))"

lemma transaction_snd:
  "snd (transaction clock operation d) = d \<or>
   (\<exists>now r. clock = utc now \<and> operation now d = Inr (r, snd (transaction clock operation d)))"
  by (auto simp: transaction_def engine_now_utc_def aware_utc_iff
      split: sum.splits committed.splits)

lemma transaction_utc:
  "transaction (utc now) operation d =
     (case operation now d of
        Inl e \<Rightarrow> (Inl (map_exception e), d)
      | Inr (CommittedConflict c, d') \<Rightarrow> (Inl (Conflict c), d')
      | Inr (Committed r, d') \<Rightarrow> (Inr r, d'))"
  by (simp add: transaction_def engine_now_utc_def)

end
