(* ===== verification/Work_Engine.thy ===== *)
theory Work_Engine
  imports Engine_Conflicts
begin

text \<open>
  \<^verbatim>\<open>postgres/work_engine.py\<close>, operation by operation in the order of the code. An operation
  takes the instant of its transaction, its command and the database; \<open>Inl\<close> is an exception that
  rolls the transaction back, \<open>Inr\<close> the result with the database to commit.

  \<^item> \<open>self._uuid_factory()\<close> is the stream \<open>uuids\<close>, read at increasing positions within a command.
  \<^item> \<open>FOR UPDATE ... SKIP LOCKED\<close> passes over the units that concurrent transactions hold: they are
    the parameter \<open>locked\<close>. Every other lock only delays, so a transaction sees one database state.
  \<^item> \<open>_advisory_lock\<close> has no effect on the tables.
\<close>

section \<open>Worker registration\<close>

definition registration_digest :: "worker_registration \<Rightarrow> string" where
  "registration_digest c = json_digest (JObj
     [(''buildIdentity'', JStr (reg_build_identity c)),
      (''capabilities'', JList (map JStr (sort (map work_capability_value (remdups (reg_capabilities c)))))),
      (''maxConcurrency'', JInt (reg_max_concurrency c)),
      (''resourceProfile'', JStr (reg_resource_profile c)),
      (''supportedOutputContracts'',
         JList (map JStr (sort (remdups (reg_supported_output_contracts c))))),
      (''workerId'', JStr (reg_worker_id c))])"

definition same_registration :: "worker_registration \<Rightarrow> worker_registration_row \<Rightarrow> db \<Rightarrow> bool" where
  "same_registration c existing d \<longleftrightarrow>
     wr_registration_digest existing = registration_digest c
     \<and> wr_build_identity existing = reg_build_identity c
     \<and> wr_max_concurrency existing = reg_max_concurrency c
     \<and> wr_resource_profile existing = reg_resource_profile c
     \<and> set (map snd (filter (\<lambda>p. fst p = reg_worker_id c) (worker_capabilities d)))
         = set (reg_capabilities c)
     \<and> set (map snd (filter (\<lambda>p. fst p = reg_worker_id c) (worker_output_contracts d)))
         = set (reg_supported_output_contracts c)"

definition register_worker_again ::
    "int \<Rightarrow> worker_registration \<Rightarrow> worker_registration_row \<Rightarrow> db
      \<Rightarrow> engine_exn + (worker_registration_result committed \<times> db)" where
  "register_worker_again now c existing d =
     (if \<not> same_registration c existing d
      then raise_conflict (WORKER_REGISTRATION_CONFLICT (reg_worker_id c))
      else result_bind
        (execute (worker_heartbeats_update (update_rows (\<lambda>h. wh_worker_id h = reg_worker_id c)
           (\<lambda>h. h\<lparr>wh_last_seen_at_utc := now, wh_correlation_id := reg_correlation_id c\<rparr>))) d)
        (\<lambda>d'. if count_rows (\<lambda>h. wh_worker_id h = reg_worker_id c) (worker_heartbeats d) \<noteq> 1
              then raise_conflict (WORKER_HEARTBEAT_MISSING (reg_worker_id c))
              else Inr (Committed \<lparr>rr_worker_id = reg_worker_id c, rr_status = ALREADY_REGISTERED\<rparr>, d')))"

definition register_worker_new ::
    "int \<Rightarrow> worker_registration \<Rightarrow> db \<Rightarrow> engine_exn + (worker_registration_result committed \<times> db)" where
  "register_worker_new now c d =
     result_bind (execute (worker_registrations_update (insert_rows
        [\<lparr>wr_worker_id = reg_worker_id c, wr_registration_digest = registration_digest c,
          wr_build_identity = reg_build_identity c, wr_max_concurrency = reg_max_concurrency c,
          wr_resource_profile = reg_resource_profile c, wr_registered_at_utc = now,
          wr_correlation_id = reg_correlation_id c\<rparr>])) d) (\<lambda>d1.
     result_bind (execute (worker_capabilities_update (insert_rows
        (map (\<lambda>capability. (reg_worker_id c, capability))
          (sort_key work_capability_value (remdups (reg_capabilities c)))))) d1) (\<lambda>d2.
     result_bind (execute (worker_output_contracts_update (insert_rows
        (map (\<lambda>contract. (reg_worker_id c, contract))
          (sort (remdups (reg_supported_output_contracts c)))))) d2) (\<lambda>d3.
     result_bind (execute (worker_heartbeats_update (insert_rows
        [\<lparr>wh_worker_id = reg_worker_id c, wh_last_seen_at_utc = now, wh_active_lease_count = 0,
          wh_correlation_id = reg_correlation_id c\<rparr>])) d3) (\<lambda>d4.
     Inr (Committed \<lparr>rr_worker_id = reg_worker_id c, rr_status = REGISTERED\<rparr>, d4)))))"

definition register_worker_tx ::
    "worker_registration \<Rightarrow> int \<Rightarrow> db \<Rightarrow> engine_exn + (worker_registration_result committed \<times> db)" where
  "register_worker_tx c now d =
     result_bind (select_one wr_worker_id (reg_worker_id c) (worker_registrations d)) (\<lambda>existing.
       case existing of
         Some row \<Rightarrow> register_worker_again now c row d
       | None \<Rightarrow> register_worker_new now c d)"

section \<open>Source configuration\<close>

definition configure_source_tx :: "source_capacity_spec \<Rightarrow> int \<Rightarrow> db \<Rightarrow> engine_exn + (unit committed \<times> db)" where
  "configure_source_tx c now d =
     result_bind (select_one sc_source_key (scs_source_key c) (source_capacity_states d)) (\<lambda>existing.
       case existing of
         None \<Rightarrow>
           result_bind (execute (source_capacity_states_update (insert_rows
             [\<lparr>sc_source_key = scs_source_key c, sc_policy_digest = scs_policy_digest c,
               sc_operational_state = scs_state c,
               sc_max_active_requests = scs_max_active_requests c, sc_active_requests = 0,
               sc_minimum_interval_milliseconds = scs_minimum_interval_milliseconds c,
               sc_next_allowed_request_at_utc = now, sc_retry_after_utc = None, sc_revision = 0,
               sc_updated_at_utc = now, sc_correlation_id = scs_correlation_id c\<rparr>])) d)
           (\<lambda>d'. Inr (Committed (), d'))
       | Some row \<Rightarrow>
           if scs_max_active_requests c < sc_active_requests row
           then raise_conflict (SOURCE_CAPACITY_CONFLICT (scs_source_key c) (sc_active_requests row)
                  (scs_max_active_requests c))
           else if sc_policy_digest row = scs_policy_digest c
                \<and> sc_operational_state row = scs_state c
                \<and> sc_max_active_requests row = scs_max_active_requests c
                \<and> sc_minimum_interval_milliseconds row = scs_minimum_interval_milliseconds c
           then Inr (Committed (), d)
           else result_bind (execute (source_capacity_states_update (update_rows
                  (\<lambda>r. sc_source_key r = scs_source_key c)
                  (\<lambda>r. r\<lparr>sc_policy_digest := scs_policy_digest c,
                         sc_operational_state := scs_state c,
                         sc_max_active_requests := scs_max_active_requests c,
                         sc_minimum_interval_milliseconds := scs_minimum_interval_milliseconds c,
                         sc_revision := sc_revision r + 1,
                         sc_updated_at_utc := now,
                         sc_correlation_id := scs_correlation_id c\<rparr>))) d)
                (\<lambda>d'. Inr (Committed (), d')))"

section \<open>Runs and stages\<close>

definition create_run_tx :: "collection_run_spec \<Rightarrow> int \<Rightarrow> db \<Rightarrow> engine_exn + (unit committed \<times> db)" where
  "create_run_tx c now d =
     (let digest = crs_config_bundle_digest c in
      result_bind (select_one cb_bundle_digest digest (config_bundles d)) (\<lambda>found.
        case found of
          None \<Rightarrow> raise_conflict (RUN_CONFIG_NOT_FOUND digest)
        | Some bundle \<Rightarrow>
            if cb_campaign_key bundle \<noteq> crs_campaign_key c
            then raise_conflict (RUN_CONFIG_CAMPAIGN_MISMATCH (crs_campaign_key c)
                   (cb_campaign_key bundle) digest)
            else result_bind (select_one cba_bundle_digest digest (config_bundle_artifacts d)) (\<lambda>artifact.
              if artifact = None then raise_conflict (RUN_CONFIG_ARTIFACT_MISSING digest)
              else if cb_readiness bundle \<noteq> Bundle_READY
              then raise_conflict (RUN_CONFIG_BLOCKED (crs_campaign_key c) digest
                     (map cbb_code (sort_key cbb_position
                        (filter (\<lambda>b. cbb_bundle_digest b = digest) (config_bundle_blockers d)))))
              else result_bind (select_one cr_run_id (crs_run_id c) (collection_runs d)) (\<lambda>existing.
                case existing of
                  Some run \<Rightarrow>
                    if cr_campaign_key run = crs_campaign_key c \<and> cr_config_bundle_digest run = digest
                    then Inr (Committed (), d)
                    else raise_conflict (RUN_IDENTITY_CONFLICT (crs_run_id c))
                | None \<Rightarrow>
                    result_bind (execute (collection_runs_update (insert_rows
                      [\<lparr>cr_run_id = crs_run_id c, cr_campaign_key = crs_campaign_key c,
                        cr_config_bundle_digest = digest, cr_state = crs_initial_state c,
                        cr_revision = 0, cr_created_at_utc = now, cr_updated_at_utc = now,
                        cr_correlation_id = crs_correlation_id c\<rparr>])) d)
                    (\<lambda>d'. Inr (Committed (), d'))))))"

definition create_stage_tx :: "stage_run_spec \<Rightarrow> int \<Rightarrow> db \<Rightarrow> engine_exn + (unit committed \<times> db)" where
  "create_stage_tx c now d =
     result_bind (select_one cr_run_id (srs_run_id c) (collection_runs d)) (\<lambda>found.
       case found of
         None \<Rightarrow> raise_conflict (STAGE_RUN_OWNER_NOT_FOUND (srs_run_id c) (srs_stage c))
       | Some run \<Rightarrow>
           if cr_state run \<notin> {Run_CREATED, Run_RUNNING}
           then raise_conflict (STAGE_RUN_OWNER_STATE_INVALID (srs_run_id c) (cr_state run))
           else if srs_initial_state c = StageRun_RUNNING \<and> cr_state run \<noteq> Run_RUNNING
           then raise_conflict (STAGE_RUN_CANNOT_START (srs_run_id c) (cr_state run))
           else
             (case filter (\<lambda>s. sr_stage_run_id s = srs_stage_run_id c
                                \<or> sr_run_id s = srs_run_id c \<and> sr_stage s = srs_stage c) (stage_runs d) of
                [] \<Rightarrow>
                  result_bind (execute (stage_runs_update (insert_rows
                    [\<lparr>sr_stage_run_id = srs_stage_run_id c, sr_run_id = srs_run_id c,
                      sr_stage = srs_stage c, sr_state = srs_initial_state c, sr_revision = 0,
                      sr_created_at_utc = now, sr_updated_at_utc = now,
                      sr_correlation_id = srs_correlation_id c\<rparr>])) d)
                  (\<lambda>d'. Inr (Committed (), d'))
              | existing # others \<Rightarrow>
                  if others = [] \<and> sr_stage_run_id existing = srs_stage_run_id c
                     \<and> sr_run_id existing = srs_run_id c \<and> sr_stage existing = srs_stage c
                  then Inr (Committed (), d)
                  else raise_conflict (STAGE_RUN_IDENTITY_CONFLICT (srs_run_id c)
                         (srs_stage_run_id c) (srs_stage c))))"

section \<open>Enqueueing work\<close>

definition require_input_artifacts_exist :: "work_unit_spec \<Rightarrow> db \<Rightarrow> engine_exn + unit" where
  "require_input_artifacts_exist c d =
     (let requested = remdups (map ia_artifact_id (wus_input_artifacts c));
          existing = set (map ar_artifact_id (artifact_records d));
          missing = sort (map uuid_str (filter (\<lambda>a. a \<notin> existing) requested))
      in if missing \<noteq> [] then raise_conflict (WORK_INPUT_ARTIFACT_NOT_FOUND (wus_work_id c) missing)
         else Inr ())"

definition load_work_input_artifacts :: "uuid \<Rightarrow> db \<Rightarrow> work_input_artifact list checked" where
  "load_work_input_artifacts work_id d =
     traverse (\<lambda>b. make_work_input_artifact (wb_artifact_id b) (wb_role b))
       (sort_key wb_position (filter (\<lambda>b. wb_work_id b = work_id) (work_input_artifacts d)))"

definition same_work_identity ::
    "work_unit_row \<Rightarrow> work_unit_spec \<Rightarrow> work_input_artifact list \<Rightarrow> bool" where
  "same_work_identity existing c existing_inputs \<longleftrightarrow>
     wu_work_id existing = wus_work_id c
     \<and> wu_run_id existing = wus_run_id c
     \<and> wu_stage_run_id existing = wus_stage_run_id c
     \<and> wu_stage existing = wus_stage c
     \<and> wu_capability existing = wus_capability c
     \<and> wu_source_key existing = wus_source_key c
     \<and> wu_semantic_key existing = wus_semantic_key c
     \<and> wu_input_digest existing = wus_input_digest c
     \<and> wu_expected_output_contract existing = wus_expected_output_contract c
     \<and> wu_priority existing = wus_priority c
     \<and> wu_max_attempts existing = rp_max_attempts (wus_retry_policy c)
     \<and> wu_retry_initial_delay_seconds existing = rp_initial_delay_seconds (wus_retry_policy c)
     \<and> wu_retry_multiplier existing = rp_multiplier (wus_retry_policy c)
     \<and> wu_retry_max_delay_seconds existing = rp_max_delay_seconds (wus_retry_policy c)
     \<and> wu_available_at_utc existing = instant (wus_available_at_utc c)
     \<and> existing_inputs = wus_input_artifacts c"

text \<open>The row \<open>_enqueue_work\<close> inserts.\<close>

definition new_work_unit :: "work_unit_spec \<Rightarrow> int \<Rightarrow> work_unit_row" where
  "new_work_unit c now =
     \<lparr>wu_work_id = wus_work_id c, wu_run_id = wus_run_id c, wu_stage_run_id = wus_stage_run_id c,
      wu_stage = wus_stage c, wu_capability = wus_capability c, wu_source_key = wus_source_key c,
      wu_semantic_key = wus_semantic_key c, wu_input_digest = wus_input_digest c,
      wu_expected_output_contract = wus_expected_output_contract c, wu_priority = wus_priority c,
      wu_state = Unit_PENDING, wu_attempt_count = 0, wu_failure_count = 0,
      wu_max_attempts = rp_max_attempts (wus_retry_policy c),
      wu_retry_initial_delay_seconds = rp_initial_delay_seconds (wus_retry_policy c),
      wu_retry_multiplier = rp_multiplier (wus_retry_policy c),
      wu_retry_max_delay_seconds = rp_max_delay_seconds (wus_retry_policy c),
      wu_available_at_utc = instant (wus_available_at_utc c),
      wu_active_lease_id = None, wu_active_lease_token = None, wu_active_worker_id = None,
      wu_lease_issued_at_utc = None, wu_lease_expires_at_utc = None,
      wu_heartbeat_deadline_utc = None, wu_source_policy_digest = None,
      wu_source_permit_not_before_utc = None, wu_output_contract = None, wu_output_digest = None,
      wu_completed_at_utc = None, wu_revision = 0, wu_created_at_utc = now,
      wu_updated_at_utc = now, wu_correlation_id = wus_correlation_id c\<rparr>"

text \<open>The join of a stage run with its collection run: the states of the owner of new work.\<close>

definition work_owner :: "work_unit_spec \<Rightarrow> db \<Rightarrow> (collection_run_row \<times> stage_run_row) list" where
  "work_owner c d = concat (map (\<lambda>s. map (\<lambda>r. (r, s))
       (filter (\<lambda>r. cr_run_id r = sr_run_id s) (collection_runs d)))
     (filter (\<lambda>s. sr_stage_run_id s = wus_stage_run_id c \<and> sr_run_id s = wus_run_id c) (stage_runs d)))"

definition require_work_owner :: "work_unit_spec \<Rightarrow> db \<Rightarrow> engine_exn + unit" where
  "require_work_owner c d =
     result_bind (one_or_none (work_owner c d)) (\<lambda>owner.
       case owner of
         None \<Rightarrow> raise_conflict (WORK_OWNER_MISMATCH (wus_work_id c) (wus_run_id c)
                  (wus_stage_run_id c) (wus_stage c))
       | Some (run, stage) \<Rightarrow>
           if sr_stage stage \<noteq> wus_stage c
           then raise_conflict (WORK_OWNER_MISMATCH (wus_work_id c) (wus_run_id c)
                  (wus_stage_run_id c) (wus_stage c))
           else if cr_state run \<notin> {Run_CREATED, Run_RUNNING}
                \<or> sr_state stage \<notin> {StageRun_PENDING, StageRun_RUNNING}
           then raise_conflict (WORK_OWNER_STATE_INVALID (cr_state run) (sr_state stage))
           else Inr ())"

definition require_source_configured :: "work_unit_spec \<Rightarrow> db \<Rightarrow> engine_exn + unit" where
  "require_source_configured c d =
     (case wus_source_key c of
        None \<Rightarrow> Inr ()
      | Some source \<Rightarrow>
          result_bind (select_one sc_source_key source (source_capacity_states d)) (\<lambda>found.
            if found = None then raise_conflict (WORK_SOURCE_NOT_CONFIGURED source (wus_work_id c))
            else Inr ()))"

definition input_bindings :: "uuid \<Rightarrow> work_input_artifact list \<Rightarrow> work_artifact_binding_row list" where
  "input_bindings work_id bindings =
     map (\<lambda>(position, b). \<lparr>wb_work_id = work_id, wb_position = int position,
            wb_artifact_id = ia_artifact_id b, wb_role = ia_role b\<rparr>)
       (enumerate 0 bindings)"

definition enqueue_work_tx :: "work_unit_spec \<Rightarrow> int \<Rightarrow> db \<Rightarrow> engine_exn + (unit committed \<times> db)" where
  "enqueue_work_tx c now d =
     result_bind (require_work_owner c d) (\<lambda>_.
     result_bind (require_source_configured c d) (\<lambda>_.
     result_bind (require_input_artifacts_exist c d) (\<lambda>_.
       case filter (\<lambda>u. wu_work_id u = wus_work_id c
                      \<or> wu_run_id u = wus_run_id c \<and> wu_semantic_key u = wus_semantic_key c)
              (work_units d) of
         existing # others \<Rightarrow>
           result_bind (of_checked (load_work_input_artifacts (wu_work_id existing) d)) (\<lambda>inputs.
             if others = [] \<and> same_work_identity existing c inputs
             then Inr (Committed (), d)
             else raise_conflict (WORK_SEMANTIC_IDENTITY_CONFLICT (wus_work_id c)
                    (wu_work_id existing) (wus_semantic_key c)))
       | [] \<Rightarrow>
           result_bind (execute (work_units_update (insert_rows [new_work_unit c now])) d) (\<lambda>d1.
             if wus_input_artifacts c = [] then Inr (Committed (), d1)
             else result_bind (execute (work_input_artifacts_update (insert_rows
                    (input_bindings (wus_work_id c) (wus_input_artifacts c)))) d1)
                  (\<lambda>d2. Inr (Committed (), d2))))))"

end
