(* ===== verification/Engine_Leases.thy ===== *)
theory Engine_Leases
  imports Work_Engine
begin

text \<open>
  The lease operations of \<^verbatim>\<open>postgres/work_engine.py\<close>: \<open>_acquire_lease\<close>, \<open>_heartbeat\<close>,
  \<open>_complete\<close>, \<open>_fail\<close>, \<open>_release\<close> and \<open>_expire_leases\<close> with the helpers they share, and the
  public commands of \<open>PostgresWorkEngine\<close>, each its operation in a transaction.
\<close>

section \<open>Rows as domain values\<close>

definition source_can_reserve :: "source_capacity_row \<Rightarrow> int \<Rightarrow> bool" where
  "source_can_reserve source now \<longleftrightarrow>
     sc_operational_state source = Source_ACTIVE
     \<and> sc_active_requests source < sc_max_active_requests source
     \<and> sc_next_allowed_request_at_utc source \<le> now
     \<and> optional (\<lambda>t. t \<le> now) (sc_retry_after_utc source)"

definition retry_policy_of :: "work_unit_row \<Rightarrow> retry_policy checked" where
  "retry_policy_of work = make_retry_policy (wu_max_attempts work)
     (wu_retry_initial_delay_seconds work) (wu_retry_multiplier work) (wu_retry_max_delay_seconds work)"

definition permit_from_work :: "work_unit_row \<Rightarrow> source_permit option checked" where
  "permit_from_work work =
     (case wu_source_key work of
        None \<Rightarrow> Inr None
      | Some source \<Rightarrow>
          (case (wu_source_policy_digest work, wu_source_permit_not_before_utc work) of
             (Some digest, Some not_before) \<Rightarrow>
               result_bind (make_source_permit source digest (utc not_before)) (\<lambda>p. Inr (Some p))
           | _ \<Rightarrow> Inl (ValueError ''source-bound lease has incomplete permit state'')))"

text \<open>The lease of a leased row. A row without lease columns has no lease: \<open>UUID(str(None))\<close> raises.\<close>

definition lease_from_work ::
    "work_unit_row \<Rightarrow> source_permit option \<Rightarrow> string \<Rightarrow> work_input_artifact list \<Rightarrow> work_lease checked" where
  "lease_from_work work permit correlation_id inputs =
     (case (wu_active_lease_id work, wu_active_lease_token work, wu_active_worker_id work,
            wu_lease_issued_at_utc work, wu_lease_expires_at_utc work, wu_heartbeat_deadline_utc work) of
        (Some lease_id, Some token, Some worker, Some issued, Some expires, Some deadline) \<Rightarrow>
          make_work_lease
            \<lparr>wl_lease_id = lease_id, wl_work_id = wu_work_id work, wl_lease_token = token,
             wl_worker_id = worker, wl_stage = wu_stage work, wl_capability = wu_capability work,
             wl_input_digest = wu_input_digest work,
             wl_expected_output_contract = wu_expected_output_contract work,
             wl_issued_at_utc = utc issued, wl_expires_at_utc = utc expires,
             wl_heartbeat_deadline_utc = utc deadline, wl_source_permit = permit,
             wl_correlation_id = correlation_id, wl_input_artifacts = inputs\<rparr>
      | _ \<Rightarrow> Inl (ValueError ''badly formed hexadecimal UUID string''))"

section \<open>Acquiring a lease\<close>

text \<open>The worker row of the first query with the capability check of the second.\<close>

definition select_lease_worker ::
    "lease_request \<Rightarrow> db \<Rightarrow> engine_exn + (worker_registration_row \<times> worker_heartbeat_row)" where
  "select_lease_worker c d =
     result_bind (one_or_none (concat (map (\<lambda>r. map (\<lambda>h. (r, h))
         (filter (\<lambda>h. wh_worker_id h = wr_worker_id r) (worker_heartbeats d)))
       (filter (\<lambda>r. wr_worker_id r = lr_worker_id c) (worker_registrations d))))) (\<lambda>found.
       case found of
         None \<Rightarrow> raise_conflict (WORKER_NOT_REGISTERED (lr_worker_id c))
       | Some worker \<Rightarrow>
           if (lr_worker_id c, lr_capability c) \<notin> set (worker_capabilities d)
           then raise_conflict (WORKER_CAPABILITY_UNSUPPORTED (lr_worker_id c) (lr_capability c))
           else Inr worker)"

text \<open>The \<open>WHERE\<close> clause and the \<open>ORDER BY\<close> key of the work query.\<close>

definition lease_candidate :: "lease_request \<Rightarrow> int \<Rightarrow> db \<Rightarrow> work_unit_row \<Rightarrow> bool" where
  "lease_candidate c now d unit \<longleftrightarrow>
     wu_capability unit = lr_capability c
     \<and> wu_state unit \<in> {Unit_PENDING, Unit_RETRY_WAIT}
     \<and> wu_available_at_utc unit \<le> now
     \<and> wu_failure_count unit < wu_max_attempts unit
     \<and> list_ex (\<lambda>run. cr_run_id run = wu_run_id unit \<and> cr_state run = Run_RUNNING) (collection_runs d)
     \<and> list_ex (\<lambda>stage. sr_stage_run_id stage = wu_stage_run_id unit \<and> sr_run_id stage = wu_run_id unit
          \<and> sr_stage stage = wu_stage unit \<and> sr_state stage = StageRun_RUNNING) (stage_runs d)
     \<and> (lr_worker_id c, wu_expected_output_contract unit) \<in> set (worker_output_contracts d)
     \<and> (case wu_source_key unit of
          None \<Rightarrow> True
        | Some source \<Rightarrow>
            list_ex (\<lambda>capacity. sc_source_key capacity = source
              \<and> sc_operational_state capacity = Source_ACTIVE
              \<and> sc_active_requests capacity < sc_max_active_requests capacity
              \<and> sc_next_allowed_request_at_utc capacity \<le> now
              \<and> optional (\<lambda>t. t \<le> now) (sc_retry_after_utc capacity)) (source_capacity_states d))"

definition lease_order :: "work_unit_row \<Rightarrow> int \<times> int \<times> int \<times> uuid" where
  "lease_order unit =
     (- wu_priority unit, wu_available_at_utc unit, wu_created_at_utc unit, wu_work_id unit)"

definition select_lease_work ::
    "(uuid \<Rightarrow> bool) \<Rightarrow> lease_request \<Rightarrow> int \<Rightarrow> db \<Rightarrow> work_unit_row option" where
  "select_lease_work locked c now d =
     (case sort_key lease_order
             (filter (\<lambda>u. lease_candidate c now d u \<and> \<not> locked (wu_work_id u)) (work_units d)) of
        [] \<Rightarrow> None
      | unit # _ \<Rightarrow> Some unit)"

text \<open>The reservation of the source of the selected work: no permit for work without a source, no
  result when the source cannot be reserved now.\<close>

definition reserve_source ::
    "lease_request \<Rightarrow> int \<Rightarrow> work_unit_row \<Rightarrow> db \<Rightarrow> engine_exn + (source_permit option \<times> db) option" where
  "reserve_source c now work d =
     (case wu_source_key work of
        None \<Rightarrow> Inr (Some (None, d))
      | Some key \<Rightarrow>
          result_bind (select_one sc_source_key key (source_capacity_states d)) (\<lambda>found.
            case found of
              None \<Rightarrow> raise_conflict (SOURCE_CAPACITY_MISSING key (wu_work_id work))
            | Some source \<Rightarrow>
                if \<not> source_can_reserve source now then Inr None
                else result_bind (execute (source_capacity_states_update (update_rows
                       (\<lambda>r. sc_source_key r = key)
                       (\<lambda>r. r\<lparr>sc_active_requests := sc_active_requests r + 1,
                              sc_next_allowed_request_at_utc :=
                                now + milliseconds (sc_minimum_interval_milliseconds source),
                              sc_revision := sc_revision r + 1,
                              sc_updated_at_utc := now,
                              sc_correlation_id := lr_correlation_id c\<rparr>))) d) (\<lambda>d'.
                     result_bind (of_checked (make_source_permit key (sc_policy_digest source) (utc now)))
                       (\<lambda>permit. Inr (Some (Some permit, d'))))))"

definition lease_work_row ::
    "(nat \<Rightarrow> uuid) \<Rightarrow> lease_request \<Rightarrow> int \<Rightarrow> source_permit option \<Rightarrow> work_unit_row \<Rightarrow> work_unit_row" where
  "lease_work_row uuids c now permit u =
     u\<lparr>wu_state := Unit_LEASED,
       wu_attempt_count := wu_attempt_count u + 1,
       wu_active_lease_id := Some (uuids 1),
       wu_active_lease_token := Some (uuids 2),
       wu_active_worker_id := Some (lr_worker_id c),
       wu_lease_issued_at_utc := Some now,
       wu_lease_expires_at_utc := Some (now + seconds (lr_lease_duration_seconds c)),
       wu_heartbeat_deadline_utc := Some (now + seconds (lr_heartbeat_interval_seconds c)),
       wu_source_policy_digest := map_option sp_policy_digest permit,
       wu_source_permit_not_before_utc := map_option (\<lambda>p. instant (sp_permit_not_before_utc p)) permit,
       wu_revision := wu_revision u + 1,
       wu_updated_at_utc := now,
       wu_correlation_id := lr_correlation_id c\<rparr>"

definition new_work_attempt ::
    "(nat \<Rightarrow> uuid) \<Rightarrow> lease_request \<Rightarrow> int \<Rightarrow> string \<Rightarrow> source_permit option \<Rightarrow> work_unit_row \<Rightarrow> work_attempt_row" where
  "new_work_attempt uuids c now build permit work =
     \<lparr>wa_attempt_id = uuids 0, wa_work_id = wu_work_id work,
      wa_attempt_number = wu_attempt_count work + 1, wa_lease_id = uuids 1,
      wa_lease_token = uuids 2, wa_worker_id = lr_worker_id c, wa_worker_build_identity = build,
      wa_capability = wu_capability work, wa_input_digest = wu_input_digest work,
      wa_source_key = wu_source_key work, wa_source_policy_digest = map_option sp_policy_digest permit,
      wa_source_permit_not_before_utc = map_option (\<lambda>p. instant (sp_permit_not_before_utc p)) permit,
      wa_issued_at_utc = now, wa_expires_at_utc = now + seconds (lr_lease_duration_seconds c),
      wa_heartbeat_deadline_utc = now + seconds (lr_heartbeat_interval_seconds c),
      wa_finished_at_utc = None, wa_outcome = Outcome_LEASED, wa_failure_kind = None,
      wa_result_code = None, wa_failure_owner = None, wa_failure_message = None,
      wa_required_action = None, wa_output_contract = None, wa_output_digest = None,
      wa_correlation_id = lr_correlation_id c\<rparr>"

definition issue_lease ::
    "(nat \<Rightarrow> uuid) \<Rightarrow> lease_request \<Rightarrow> int \<Rightarrow> string \<Rightarrow> work_unit_row \<Rightarrow> source_permit option \<Rightarrow> db
      \<Rightarrow> engine_exn + (work_lease \<times> db)" where
  "issue_lease uuids c now build work permit d =
     result_bind (execute (work_units_update (update_rows (\<lambda>u. wu_work_id u = wu_work_id work)
        (lease_work_row uuids c now permit))) d) (\<lambda>d1.
     result_bind (execute (work_attempts_update
        (insert_rows [new_work_attempt uuids c now build permit work])) d1) (\<lambda>d2.
     result_bind (execute (worker_heartbeats_update (update_rows (\<lambda>h. wh_worker_id h = lr_worker_id c)
        (\<lambda>h. h\<lparr>wh_last_seen_at_utc := now, wh_active_lease_count := wh_active_lease_count h + 1,
               wh_correlation_id := lr_correlation_id c\<rparr>))) d2) (\<lambda>d3.
     result_bind (of_checked (load_work_input_artifacts (wu_work_id work) d3)) (\<lambda>inputs.
     result_bind (of_checked (lease_from_work (lease_work_row uuids c now permit work) permit
        (lr_correlation_id c) inputs)) (\<lambda>lease. Inr (lease, d3))))))"

text \<open>
  The transaction reads the worker and selects the work, and then waits for the row of the work's source.
  What other transactions commit in between is visible to the statements that follow, so the source is
  checked again: \<open>others\<close> is the effect of those commits.
\<close>

definition acquire_lease_between ::
    "(db \<Rightarrow> db) \<Rightarrow> (uuid \<Rightarrow> bool) \<Rightarrow> (nat \<Rightarrow> uuid) \<Rightarrow> lease_request \<Rightarrow> int \<Rightarrow> db
      \<Rightarrow> engine_exn + (work_lease option committed \<times> db)" where
  "acquire_lease_between others locked uuids c now d =
     result_bind (select_lease_worker c d) (\<lambda>(registration, heartbeat).
       if wr_max_concurrency registration \<le> wh_active_lease_count heartbeat
       then Inr (Committed None, d)
       else
         (case select_lease_work locked c now d of
            None \<Rightarrow> Inr (Committed None, d)
          | Some work \<Rightarrow>
              result_bind (reserve_source c now work (others d)) (\<lambda>reserved.
                case reserved of
                  None \<Rightarrow> Inr (Committed None, others d)
                | Some (permit, d1) \<Rightarrow>
                    result_bind (issue_lease uuids c now (wr_build_identity registration) work permit d1)
                      (\<lambda>(lease, d2). Inr (Committed (Some lease), d2)))))"

text \<open>The transaction when no other one commits between its statements.\<close>

definition acquire_lease_tx ::
    "(uuid \<Rightarrow> bool) \<Rightarrow> (nat \<Rightarrow> uuid) \<Rightarrow> lease_request \<Rightarrow> int \<Rightarrow> db
      \<Rightarrow> engine_exn + (work_lease option committed \<times> db)" where
  "acquire_lease_tx locked uuids c now d = acquire_lease_between (\<lambda>d. d) locked uuids c now d"

lemmas acquire_lease_tx_body = acquire_lease_tx_def acquire_lease_between_def

section \<open>Ending a lease\<close>

definition release_worker_reservation ::
    "work_unit_row \<Rightarrow> string \<Rightarrow> db \<Rightarrow> engine_exn + db" where
  "release_worker_reservation work correlation_id d =
     (let held = (\<lambda>h. Some (wh_worker_id h) = wu_active_worker_id work \<and> 0 < wh_active_lease_count h) in
      result_bind (execute (worker_heartbeats_update (update_rows held
         (\<lambda>h. h\<lparr>wh_active_lease_count := wh_active_lease_count h - 1,
                wh_correlation_id := correlation_id\<rparr>))) d) (\<lambda>d'.
        if count_rows held (worker_heartbeats d) \<noteq> 1
        then raise_conflict (WORKER_CAPACITY_CORRUPT (wu_work_id work) (wu_active_worker_id work))
        else Inr d'))"

definition release_source_reservation ::
    "work_unit_row \<Rightarrow> int \<Rightarrow> string \<Rightarrow> db \<Rightarrow> engine_exn + db" where
  "release_source_reservation work now correlation_id d =
     (case wu_source_key work of
        None \<Rightarrow> Inr d
      | Some key \<Rightarrow>
          (let held = (\<lambda>r. sc_source_key r = key \<and> 0 < sc_active_requests r) in
           result_bind (execute (source_capacity_states_update (update_rows held
              (\<lambda>r. r\<lparr>sc_active_requests := sc_active_requests r - 1,
                     sc_revision := sc_revision r + 1,
                     sc_updated_at_utc := now,
                     sc_correlation_id := correlation_id\<rparr>))) d) (\<lambda>d'.
             if count_rows held (source_capacity_states d) \<noteq> 1
             then raise_conflict (SOURCE_CAPACITY_CORRUPT (wu_work_id work) key)
             else Inr d')))"

definition release_reservations :: "work_unit_row \<Rightarrow> int \<Rightarrow> string \<Rightarrow> db \<Rightarrow> engine_exn + db" where
  "release_reservations work now correlation_id d =
     result_bind (release_worker_reservation work correlation_id d)
       (release_source_reservation work now correlation_id)"

definition insert_dead_letter :: "dead_letter_row \<Rightarrow> db \<Rightarrow> engine_exn + db" where
  "insert_dead_letter letter d = execute (dead_letters_update (insert_rows [letter])) d"

text \<open>The columns every end of a lease resets, with the revision it counts.\<close>

definition clear_lease :: "int \<Rightarrow> string \<Rightarrow> work_unit_row \<Rightarrow> work_unit_row" where
  "clear_lease now correlation_id u =
     u\<lparr>wu_active_lease_id := None,
       wu_active_lease_token := None,
       wu_active_worker_id := None,
       wu_lease_issued_at_utc := None,
       wu_lease_expires_at_utc := None,
       wu_heartbeat_deadline_utc := None,
       wu_source_policy_digest := None,
       wu_source_permit_not_before_utc := None,
       wu_revision := wu_revision u + 1,
       wu_updated_at_utc := now,
       wu_correlation_id := correlation_id\<rparr>"

definition update_attempt :: "uuid \<Rightarrow> (work_attempt_row \<Rightarrow> work_attempt_row) \<Rightarrow> db \<Rightarrow> engine_exn + db" where
  "update_attempt attempt_id f d =
     execute (work_attempts_update (update_rows (\<lambda>a. wa_attempt_id a = attempt_id) f)) d"

definition update_unit :: "uuid \<Rightarrow> (work_unit_row \<Rightarrow> work_unit_row) \<Rightarrow> db \<Rightarrow> engine_exn + db" where
  "update_unit work_id f d =
     execute (work_units_update (update_rows (\<lambda>u. wu_work_id u = work_id) f)) d"

definition retry_available_at :: "int \<Rightarrow> work_failure_decision \<Rightarrow> int" where
  "retry_available_at now decision =
     (case fd_retry_delay_seconds decision of Some delay \<Rightarrow> now + seconds delay | None \<Rightarrow> now)"

text \<open>The update of a unit whose attempt failed, shared by failures and expiries.\<close>

definition failed_work_row ::
    "work_failure_decision \<Rightarrow> int \<Rightarrow> int \<Rightarrow> string \<Rightarrow> work_unit_row \<Rightarrow> work_unit_row" where
  "failed_work_row decision failure_number now correlation_id u =
     (clear_lease now correlation_id u)
       \<lparr>wu_state := fd_target_state decision, wu_failure_count := failure_number,
        wu_available_at_utc := retry_available_at now decision\<rparr>"

definition expired_attempt_row :: "int \<Rightarrow> string \<Rightarrow> work_attempt_row \<Rightarrow> work_attempt_row" where
  "expired_attempt_row now correlation_id a =
     a\<lparr>wa_finished_at_utc := Some now, wa_outcome := Outcome_EXPIRED,
       wa_result_code := Some ''WORK_LEASE_EXPIRED'', wa_correlation_id := correlation_id\<rparr>"

definition expiry_dead_letter ::
    "work_unit_row \<Rightarrow> work_attempt_row \<Rightarrow> int \<Rightarrow> string \<Rightarrow> dead_letter_row" where
  "expiry_dead_letter work attempt now correlation_id =
     \<lparr>dl_work_id = wu_work_id work, dl_attempt_id = wa_attempt_id attempt,
      dl_failure_kind = Failure_TRANSIENT, dl_code = ''WORK_LEASE_EXPIRED'',
      dl_owner = ''WorkEngine'',
      dl_message = ''The worker lease expired before a valid completion.'',
      dl_required_action =
        ''Inspect worker health and either correct the worker or explicitly schedule ''
        @ ''replacement work from the retained input.'',
      dl_created_at_utc = now, dl_correlation_id = correlation_id\<rparr>"

definition expire_locked ::
    "work_unit_row \<Rightarrow> work_attempt_row \<Rightarrow> int \<Rightarrow> string \<Rightarrow> db \<Rightarrow> engine_exn + (work_unit_state \<times> db)" where
  "expire_locked work attempt now correlation_id d =
     (let failure_number = wu_failure_count work + 1 in
      result_bind (of_checked (retry_policy_of work)) (\<lambda>policy.
      result_bind (of_checked (retry_decide policy Failure_TRANSIENT failure_number)) (\<lambda>decision.
      result_bind (update_attempt (wa_attempt_id attempt) (expired_attempt_row now correlation_id) d) (\<lambda>d1.
      result_bind (update_unit (wu_work_id work)
        (failed_work_row decision failure_number now correlation_id) d1) (\<lambda>d2.
      result_bind (release_reservations work now correlation_id d2) (\<lambda>d3.
      result_bind
        (if fd_target_state decision = Unit_DEAD_LETTER
         then insert_dead_letter (expiry_dead_letter work attempt now correlation_id) d3
         else Inr d3)
        (\<lambda>d4. Inr (fd_target_state decision, d4))))))))"

section \<open>Owning a lease\<close>

definition lock_work_and_attempt ::
    "uuid \<Rightarrow> uuid \<Rightarrow> db \<Rightarrow> engine_exn + (work_unit_row \<times> work_attempt_row)" where
  "lock_work_and_attempt work_id lease_id d =
     result_bind (select_one wu_work_id work_id (work_units d)) (\<lambda>found.
       case found of
         None \<Rightarrow> raise_conflict (WORK_NOT_FOUND work_id)
       | Some work \<Rightarrow>
           result_bind (select_one wa_lease_id lease_id (work_attempts d)) (\<lambda>found_attempt.
             case found_attempt of
               None \<Rightarrow> raise_conflict (WORK_LEASE_STALE work_id ''lease_id_unknown'')
             | Some attempt \<Rightarrow> Inr (work, attempt)))"

definition require_attempt_identity ::
    "work_attempt_row \<Rightarrow> uuid \<Rightarrow> uuid \<Rightarrow> uuid \<Rightarrow> string \<Rightarrow> string \<Rightarrow> engine_exn + unit" where
  "require_attempt_identity attempt work_id lease_id lease_token worker_id input_digest = checks
     [guard (wa_work_id attempt = work_id) (Conflict (WORK_LEASE_STALE work_id ''work_id_mismatch'')),
      guard (wa_lease_id attempt = lease_id) (Conflict (WORK_LEASE_STALE work_id ''lease_id_mismatch'')),
      guard (wa_lease_token attempt = lease_token)
        (Conflict (WORK_LEASE_STALE work_id ''lease_token_mismatch'')),
      guard (wa_worker_id attempt = worker_id) (Conflict (WORK_LEASE_STALE work_id ''worker_id_mismatch'')),
      guard (wa_input_digest attempt = input_digest)
        (Conflict (WORK_LEASE_STALE work_id ''input_digest_mismatch''))]"

definition require_worker_build :: "work_attempt_row \<Rightarrow> string \<Rightarrow> engine_exn + unit" where
  "require_worker_build attempt build =
     guard (wa_worker_build_identity attempt = build)
       (Conflict (WORK_LEASE_STALE (wa_work_id attempt) ''worker_build_mismatch''))"

definition require_active_rows ::
    "int \<Rightarrow> work_unit_row \<Rightarrow> work_attempt_row \<Rightarrow> string \<Rightarrow> db
      \<Rightarrow> engine_exn + ((work_unit_row \<times> work_attempt_row) committed \<times> db)" where
  "require_active_rows now work attempt correlation_id d =
     (if wu_state work \<noteq> Unit_LEASED
         \<or> wu_active_lease_id work \<noteq> Some (wa_lease_id attempt)
         \<or> wu_active_lease_token work \<noteq> Some (wa_lease_token attempt)
         \<or> wu_active_worker_id work \<noteq> Some (wa_worker_id attempt)
         \<or> wa_outcome attempt \<noteq> Outcome_LEASED
      then raise_conflict (WORK_LEASE_STALE (wu_work_id work) ''lease_not_active'')
      else
        (case (wu_lease_expires_at_utc work, wu_heartbeat_deadline_utc work) of
           (Some expires, Some deadline) \<Rightarrow>
             if expires \<le> now \<or> deadline \<le> now
             then result_bind (expire_locked work attempt now correlation_id d)
               (\<lambda>(_, d'). Inr (CommittedConflict (WORK_LEASE_STALE (wu_work_id work) ''lease_expired''), d'))
             else Inr (Committed (work, attempt), d)
         | _ \<Rightarrow> Inl (UncaughtError ''TypeError'')))"

definition lock_active_lease ::
    "int \<Rightarrow> uuid \<Rightarrow> uuid \<Rightarrow> uuid \<Rightarrow> string \<Rightarrow> string \<Rightarrow> string \<Rightarrow> db
      \<Rightarrow> engine_exn + ((work_unit_row \<times> work_attempt_row) committed \<times> db)" where
  "lock_active_lease now work_id lease_id lease_token worker_id input_digest correlation_id d =
     result_bind (lock_work_and_attempt work_id lease_id d) (\<lambda>(work, attempt).
     result_bind (require_attempt_identity attempt work_id lease_id lease_token worker_id input_digest) (\<lambda>_.
     require_active_rows now work attempt correlation_id d))"

text \<open>\<open>if isinstance(active, _CommittedConflict): return active\<close>, and otherwise the rest of the
  operation on the active rows.\<close>

definition when_active ::
    "engine_exn + ('a committed \<times> db) \<Rightarrow> ('a \<Rightarrow> db \<Rightarrow> engine_exn + ('b committed \<times> db))
      \<Rightarrow> engine_exn + ('b committed \<times> db)" where
  "when_active active rest =
     result_bind active (\<lambda>(outcome, d).
       case outcome of CommittedConflict c \<Rightarrow> Inr (CommittedConflict c, d) | Committed x \<Rightarrow> rest x d)"

section \<open>Heartbeat\<close>

definition renew_work_row :: "lease_heartbeat \<Rightarrow> int \<Rightarrow> work_unit_row \<Rightarrow> work_unit_row" where
  "renew_work_row c now u =
     u\<lparr>wu_lease_expires_at_utc := Some (now + seconds (hb_lease_duration_seconds c)),
       wu_heartbeat_deadline_utc := Some (now + seconds (hb_heartbeat_interval_seconds c)),
       wu_revision := wu_revision u + 1,
       wu_updated_at_utc := now,
       wu_correlation_id := hb_correlation_id c\<rparr>"

definition renew_attempt_row :: "lease_heartbeat \<Rightarrow> int \<Rightarrow> work_attempt_row \<Rightarrow> work_attempt_row" where
  "renew_attempt_row c now a =
     a\<lparr>wa_expires_at_utc := now + seconds (hb_lease_duration_seconds c),
       wa_heartbeat_deadline_utc := now + seconds (hb_heartbeat_interval_seconds c),
       wa_correlation_id := hb_correlation_id c\<rparr>"

definition heartbeat_tx :: "lease_heartbeat \<Rightarrow> int \<Rightarrow> db \<Rightarrow> engine_exn + (work_lease committed \<times> db)" where
  "heartbeat_tx c now d =
     when_active (lock_active_lease now (hb_work_id c) (hb_lease_id c) (hb_lease_token c)
        (hb_worker_id c) (hb_input_digest c) (hb_correlation_id c) d) (\<lambda>(work, attempt) d0.
     result_bind (update_unit (hb_work_id c) (renew_work_row c now) d0) (\<lambda>d1.
     result_bind (update_attempt (wa_attempt_id attempt) (renew_attempt_row c now) d1) (\<lambda>d2.
     result_bind (execute (worker_heartbeats_update (update_rows (\<lambda>h. wh_worker_id h = hb_worker_id c)
        (\<lambda>h. h\<lparr>wh_last_seen_at_utc := now, wh_correlation_id := hb_correlation_id c\<rparr>))) d2) (\<lambda>d3.
     result_bind (of_checked (permit_from_work (renew_work_row c now work))) (\<lambda>permit.
     result_bind (of_checked (load_work_input_artifacts (wu_work_id work) d3)) (\<lambda>inputs.
     result_bind (of_checked (lease_from_work (renew_work_row c now work) permit
        (hb_correlation_id c) inputs)) (\<lambda>lease. Inr (Committed lease, d3))))))))"

section \<open>Completion\<close>

definition load_work_output_identity :: "uuid \<Rightarrow> db \<Rightarrow> (uuid \<times> string) list checked" where
  "load_work_output_identity work_id d =
     traverse (\<lambda>(upload_id, role).
         case upload_id of
           Some u \<Rightarrow> Inr (u, role)
         | None \<Rightarrow> Inl (ValueError ''badly formed hexadecimal UUID string''))
       (concat (map (\<lambda>b. map (\<lambda>r. (ar_upload_id r, wb_role b))
           (filter (\<lambda>r. ar_artifact_id r = wb_artifact_id b) (artifact_records d)))
         (sort_key wb_position (filter (\<lambda>b. wb_work_id b = work_id) (work_output_artifacts d)))))"

definition require_completion_upload_identity ::
    "artifact_upload_row \<Rightarrow> work_completion \<Rightarrow> engine_exn + unit" where
  "require_completion_upload_identity upload c =
     (let stale = (\<lambda>reason. Conflict (WORK_OUTPUT_ARTIFACT_STALE (wc_work_id c) (up_upload_id upload) reason))
      in checks
        [guard (up_work_id upload = wc_work_id c) (stale ''work_id_mismatch''),
         guard (up_lease_id upload = wc_lease_id c) (stale ''lease_id_mismatch''),
         guard (up_lease_token upload = wc_lease_token c) (stale ''lease_token_mismatch''),
         guard (up_worker_id upload = wc_worker_id c) (stale ''worker_id_mismatch''),
         guard (up_input_digest upload = wc_input_digest c) (stale ''input_digest_mismatch'')])"

definition get_or_create_artifact_object ::
    "(nat \<Rightarrow> uuid) \<Rightarrow> nat \<Rightarrow> artifact_upload_row \<Rightarrow> string \<Rightarrow> int \<Rightarrow> int \<Rightarrow> string \<Rightarrow> db
      \<Rightarrow> engine_exn + (uuid \<times> nat \<times> db)" where
  "get_or_create_artifact_object uuids i upload final_reference verified_at now correlation_id d =
     result_bind (select_one (\<lambda>r. (ao_artifact_kind r, ao_content_digest r))
         (up_artifact_kind upload, up_expected_digest upload) (artifact_objects d)) (\<lambda>found.
       case found of
         Some existing \<Rightarrow>
           if ao_size_bytes existing \<noteq> up_expected_size_bytes upload
              \<or> ao_storage_reference existing \<noteq> final_reference
           then raise_conflict (ARTIFACT_OBJECT_IDENTITY_CONFLICT (up_artifact_kind upload)
                  (up_expected_digest upload))
           else Inr (ao_object_id existing, i, d)
       | None \<Rightarrow>
           result_bind (execute (artifact_objects_update (insert_rows
             [\<lparr>ao_object_id = uuids i, ao_artifact_kind = up_artifact_kind upload,
               ao_content_digest = up_expected_digest upload,
               ao_size_bytes = up_expected_size_bytes upload,
               ao_storage_reference = final_reference, ao_verified_at_utc = verified_at,
               ao_recorded_at_utc = now, ao_correlation_id = correlation_id\<rparr>])) d)
           (\<lambda>d'. Inr (uuids i, Suc i, d')))"

definition consume_upload ::
    "(nat \<Rightarrow> uuid) \<Rightarrow> nat \<Rightarrow> work_unit_row \<Rightarrow> work_attempt_row \<Rightarrow> work_completion \<Rightarrow> int
      \<Rightarrow> nat \<Rightarrow> artifact_upload_row \<Rightarrow> string \<Rightarrow> db \<Rightarrow> engine_exn + (nat \<times> db)" where
  "consume_upload uuids i work attempt c now position upload role d =
     result_bind (require_completion_upload_identity upload c) (\<lambda>_.
     if up_state upload \<noteq> Upload_VERIFIED
     then raise_conflict (WORK_OUTPUT_ARTIFACT_NOT_VERIFIED (wc_work_id c) (up_upload_id upload) (up_state upload))
     else
       (case (up_final_reference upload, up_verified_at_utc upload) of
          (Some final_reference, Some verified_at) \<Rightarrow>
            result_bind (get_or_create_artifact_object uuids i upload final_reference verified_at now
               (wc_correlation_id c) d) (\<lambda>(object_id, j, d1).
            result_bind (execute (artifact_records_update (insert_rows
               [\<lparr>ar_artifact_id = uuids j, ar_object_id = object_id,
                 ar_upload_id = Some (up_upload_id upload), ar_work_id = Some (wc_work_id c),
                 ar_attempt_id = Some (wa_attempt_id attempt), ar_worker_id = Some (wc_worker_id c),
                 ar_producer_kind = Producer_WORKER, ar_producer_identity = wc_worker_id c,
                 ar_owner_operation_id = None, ar_content_type = up_content_type upload,
                 ar_source_policy_digest = wu_source_policy_digest work, ar_recorded_at_utc = now,
                 ar_correlation_id = wc_correlation_id c\<rparr>])) d1) (\<lambda>d2.
            result_bind (execute (work_output_artifacts_update (insert_rows
               [\<lparr>wb_work_id = wc_work_id c, wb_position = int position, wb_artifact_id = uuids j,
                 wb_role = role\<rparr>])) d2) (\<lambda>d3.
            result_bind (execute (artifact_uploads_update (update_rows
               (\<lambda>r. up_upload_id r = up_upload_id upload)
               (\<lambda>r. r\<lparr>up_state := Upload_CONSUMED, up_consumed_at_utc := Some now,
                      up_revision := up_revision r + 1, up_correlation_id := wc_correlation_id c\<rparr>))) d3)
            (\<lambda>d4. Inr (Suc j, d4)))))
        | _ \<Rightarrow> raise_conflict (ARTIFACT_VERIFICATION_STATE_INVALID (up_upload_id upload))))"

text \<open>The loop over \<open>enumerate(command.output_artifacts)\<close>; the uploads were read before it.\<close>

fun consume_uploads ::
    "(nat \<Rightarrow> uuid) \<Rightarrow> work_unit_row \<Rightarrow> work_attempt_row \<Rightarrow> work_completion \<Rightarrow> int
      \<Rightarrow> (uuid \<Rightarrow> artifact_upload_row option) \<Rightarrow> nat \<Rightarrow> nat \<Rightarrow> work_output_artifact list \<Rightarrow> db
      \<Rightarrow> engine_exn + db" where
  "consume_uploads uuids work attempt c now uploads i position [] d = Inr d"
| "consume_uploads uuids work attempt c now uploads i position (b # bs) d =
     (case uploads (oa_upload_id b) of
        None \<Rightarrow> Inl (UncaughtError ''KeyError'')
      | Some upload \<Rightarrow>
          result_bind (consume_upload uuids i work attempt c now position upload (oa_role b) d)
            (\<lambda>(j, d'). consume_uploads uuids work attempt c now uploads j (Suc position) bs d'))"

definition uploads_by_id :: "work_completion \<Rightarrow> db \<Rightarrow> uuid \<Rightarrow> artifact_upload_row option" where
  "uploads_by_id c d = map_of (map (\<lambda>r. (up_upload_id r, r))
     (filter (\<lambda>r. up_upload_id r \<in> set (map oa_upload_id (wc_output_artifacts c))) (artifact_uploads d)))"

definition consume_output_artifacts ::
    "(nat \<Rightarrow> uuid) \<Rightarrow> work_unit_row \<Rightarrow> work_attempt_row \<Rightarrow> work_completion \<Rightarrow> int \<Rightarrow> db \<Rightarrow> engine_exn + db" where
  "consume_output_artifacts uuids work attempt c now d =
     (let uploads = uploads_by_id c d;
          missing = filter (\<lambda>u. uploads u = None) (map oa_upload_id (wc_output_artifacts c))
      in if missing \<noteq> []
         then raise_conflict (WORK_OUTPUT_ARTIFACT_NOT_FOUND (wc_work_id c) (map uuid_str missing))
         else consume_uploads uuids work attempt c now uploads 0 0 (wc_output_artifacts c) d)"

definition complete_again ::
    "work_completion \<Rightarrow> work_unit_row \<Rightarrow> work_attempt_row \<Rightarrow> db
      \<Rightarrow> engine_exn + (work_completion_result committed \<times> db)" where
  "complete_again c work attempt d =
     result_bind (of_checked (load_work_output_identity (wc_work_id c) d)) (\<lambda>persisted.
      if wa_outcome attempt = Outcome_SUCCEEDED
         \<and> wa_output_contract attempt = Some (wc_output_contract c)
         \<and> wa_output_digest attempt = Some (wc_output_digest c)
         \<and> wu_output_contract work = Some (wc_output_contract c)
         \<and> wu_output_digest work = Some (wc_output_digest c)
         \<and> persisted = map (\<lambda>b. (oa_upload_id b, oa_role b)) (wc_output_artifacts c)
      then Inr (Committed \<lparr>cres_work_id = wc_work_id c, cres_status = ALREADY_APPLIED,
                           cres_output_digest = wc_output_digest c, cres_revision = wu_revision work\<rparr>, d)
      else raise_conflict (WORK_COMPLETION_CONFLICT (wc_work_id c)))"

definition completed_attempt_row :: "work_completion \<Rightarrow> int \<Rightarrow> work_attempt_row \<Rightarrow> work_attempt_row" where
  "completed_attempt_row c now a =
     a\<lparr>wa_finished_at_utc := Some now, wa_outcome := Outcome_SUCCEEDED,
       wa_output_contract := Some (wc_output_contract c),
       wa_output_digest := Some (wc_output_digest c),
       wa_correlation_id := wc_correlation_id c\<rparr>"

definition completed_work_row :: "work_completion \<Rightarrow> int \<Rightarrow> work_unit_row \<Rightarrow> work_unit_row" where
  "completed_work_row c now u =
     (clear_lease now (wc_correlation_id c) u)
       \<lparr>wu_state := Unit_SUCCEEDED, wu_output_contract := Some (wc_output_contract c),
        wu_output_digest := Some (wc_output_digest c), wu_completed_at_utc := Some now\<rparr>"

definition complete_active ::
    "(nat \<Rightarrow> uuid) \<Rightarrow> work_completion \<Rightarrow> int \<Rightarrow> work_unit_row \<Rightarrow> work_attempt_row \<Rightarrow> db
      \<Rightarrow> engine_exn + (work_completion_result committed \<times> db)" where
  "complete_active uuids c now work attempt d =
     (if wc_output_contract c \<noteq> wu_expected_output_contract work
      then raise_conflict (WORK_OUTPUT_CONTRACT_MISMATCH (wc_work_id c)
             (wu_expected_output_contract work) (wc_output_contract c))
      else
        result_bind (consume_output_artifacts uuids work attempt c now d) (\<lambda>d1.
        result_bind (update_attempt (wa_attempt_id attempt) (completed_attempt_row c now) d1) (\<lambda>d2.
        result_bind (update_unit (wc_work_id c) (completed_work_row c now) d2) (\<lambda>d3.
        result_bind (release_reservations work now (wc_correlation_id c) d3) (\<lambda>d4.
        Inr (Committed \<lparr>cres_work_id = wc_work_id c, cres_status = APPLIED,
                        cres_output_digest = wc_output_digest c,
                        cres_revision = wu_revision work + 1\<rparr>, d4))))))"

definition complete_tx ::
    "(nat \<Rightarrow> uuid) \<Rightarrow> work_completion \<Rightarrow> int \<Rightarrow> db
      \<Rightarrow> engine_exn + (work_completion_result committed \<times> db)" where
  "complete_tx uuids c now d =
     result_bind (lock_work_and_attempt (wc_work_id c) (wc_lease_id c) d) (\<lambda>(work, attempt).
     result_bind (require_attempt_identity attempt (wc_work_id c) (wc_lease_id c) (wc_lease_token c)
        (wc_worker_id c) (wc_input_digest c)) (\<lambda>_.
     result_bind (require_worker_build attempt (wc_worker_build_identity c)) (\<lambda>_.
     if wu_state work = Unit_SUCCEEDED then complete_again c work attempt d
     else when_active (require_active_rows now work attempt (wc_correlation_id c) d)
       (\<lambda>_ d'. complete_active uuids c now work attempt d'))))"

section \<open>Failure and release\<close>

definition failed_attempt_row ::
    "work_failure \<Rightarrow> work_failure_decision \<Rightarrow> int \<Rightarrow> work_attempt_row \<Rightarrow> work_attempt_row" where
  "failed_attempt_row c decision now a =
     a\<lparr>wa_finished_at_utc := Some now, wa_outcome := fd_attempt_outcome decision,
       wa_failure_kind := Some (wf_failure_kind c), wa_result_code := Some (wf_code c),
       wa_failure_owner := Some (wf_owner c), wa_failure_message := Some (wf_message c),
       wa_required_action := Some (wf_required_action c),
       wa_correlation_id := wf_correlation_id c\<rparr>"

definition failure_dead_letter :: "work_failure \<Rightarrow> work_attempt_row \<Rightarrow> int \<Rightarrow> dead_letter_row" where
  "failure_dead_letter c attempt now =
     \<lparr>dl_work_id = wf_work_id c, dl_attempt_id = wa_attempt_id attempt,
      dl_failure_kind = wf_failure_kind c, dl_code = wf_code c, dl_owner = wf_owner c,
      dl_message = wf_message c, dl_required_action = wf_required_action c,
      dl_created_at_utc = now, dl_correlation_id = wf_correlation_id c\<rparr>"

definition fail_active ::
    "work_failure \<Rightarrow> int \<Rightarrow> work_unit_row \<Rightarrow> work_attempt_row \<Rightarrow> db
      \<Rightarrow> engine_exn + (work_mutation_result committed \<times> db)" where
  "fail_active c now work attempt d =
     (let failure_number = wu_failure_count work + 1 in
      result_bind (require_worker_build attempt (wf_worker_build_identity c)) (\<lambda>_.
      result_bind (of_checked (retry_policy_of work)) (\<lambda>policy.
      result_bind (of_checked (retry_decide policy (wf_failure_kind c) failure_number)) (\<lambda>decision.
      result_bind (update_attempt (wa_attempt_id attempt) (failed_attempt_row c decision now) d) (\<lambda>d1.
      result_bind (update_unit (wf_work_id c)
        (failed_work_row decision failure_number now (wf_correlation_id c)) d1) (\<lambda>d2.
      result_bind (release_reservations work now (wf_correlation_id c) d2) (\<lambda>d3.
      result_bind
        (if fd_target_state decision = Unit_DEAD_LETTER
         then insert_dead_letter (failure_dead_letter c attempt now) d3
         else Inr d3)
        (\<lambda>d4. Inr (Committed \<lparr>mres_work_id = wf_work_id c, mres_state = fd_target_state decision,
                mres_revision = wu_revision work + 1,
                mres_available_at_utc = (if fd_target_state decision = Unit_RETRY_WAIT
                                         then Some (retry_available_at now decision) else None)\<rparr>,
              d4)))))))))"

definition fail_tx :: "work_failure \<Rightarrow> int \<Rightarrow> db \<Rightarrow> engine_exn + (work_mutation_result committed \<times> db)" where
  "fail_tx c now d =
     when_active (lock_active_lease now (wf_work_id c) (wf_lease_id c) (wf_lease_token c)
        (wf_worker_id c) (wf_input_digest c) (wf_correlation_id c) d)
       (\<lambda>(work, attempt). fail_active c now work attempt)"

definition released_attempt_row :: "work_release \<Rightarrow> int \<Rightarrow> work_attempt_row \<Rightarrow> work_attempt_row" where
  "released_attempt_row c now a =
     a\<lparr>wa_finished_at_utc := Some now, wa_outcome := Outcome_RELEASED,
       wa_result_code := Some (wrl_reason_code c), wa_correlation_id := wrl_correlation_id c\<rparr>"

definition released_work_row :: "work_release \<Rightarrow> int \<Rightarrow> work_unit_row \<Rightarrow> work_unit_row" where
  "released_work_row c now u =
     (clear_lease now (wrl_correlation_id c) u)\<lparr>wu_state := Unit_PENDING, wu_available_at_utc := now\<rparr>"

definition release_active ::
    "work_release \<Rightarrow> int \<Rightarrow> work_unit_row \<Rightarrow> work_attempt_row \<Rightarrow> db
      \<Rightarrow> engine_exn + (work_mutation_result committed \<times> db)" where
  "release_active c now work attempt d =
     result_bind (require_worker_build attempt (wrl_worker_build_identity c)) (\<lambda>_.
     result_bind (update_attempt (wa_attempt_id attempt) (released_attempt_row c now) d) (\<lambda>d1.
     result_bind (update_unit (wrl_work_id c) (released_work_row c now) d1) (\<lambda>d2.
     result_bind (release_reservations work now (wrl_correlation_id c) d2) (\<lambda>d3.
     Inr (Committed \<lparr>mres_work_id = wrl_work_id c, mres_state = Unit_PENDING,
                     mres_revision = wu_revision work + 1, mres_available_at_utc = Some now\<rparr>, d3)))))"

definition release_tx :: "work_release \<Rightarrow> int \<Rightarrow> db \<Rightarrow> engine_exn + (work_mutation_result committed \<times> db)" where
  "release_tx c now d =
     when_active (lock_active_lease now (wrl_work_id c) (wrl_lease_id c) (wrl_lease_token c)
        (wrl_worker_id c) (wrl_input_digest c) (wrl_correlation_id c) d)
       (\<lambda>(work, attempt). release_active c now work attempt)"

section \<open>The expiry sweep\<close>

definition lease_due :: "int \<Rightarrow> work_unit_row \<Rightarrow> bool" where
  "lease_due now unit \<longleftrightarrow>
     wu_state unit = Unit_LEASED
     \<and> ((\<exists>t \<in> set_option (wu_lease_expires_at_utc unit). t \<le> now)
        \<or> (\<exists>t \<in> set_option (wu_heartbeat_deadline_utc unit). t \<le> now))"

definition due_order :: "work_unit_row \<Rightarrow> int \<times> uuid" where
  "due_order unit =
     (case (wu_lease_expires_at_utc unit, wu_heartbeat_deadline_utc unit) of
        (Some expires, Some deadline) \<Rightarrow> min expires deadline
      | (Some expires, None) \<Rightarrow> expires
      | (None, Some deadline) \<Rightarrow> deadline
      | (None, None) \<Rightarrow> 0, wu_work_id unit)"

definition select_due_leases :: "(uuid \<Rightarrow> bool) \<Rightarrow> int \<Rightarrow> int \<Rightarrow> db \<Rightarrow> work_unit_row list" where
  "select_due_leases locked limit now d =
     take (nat limit) (sort_key due_order
       (filter (\<lambda>u. lease_due now u \<and> \<not> locked (wu_work_id u)) (work_units d)))"

fun expire_due ::
    "work_unit_row list \<Rightarrow> int \<Rightarrow> string \<Rightarrow> int \<Rightarrow> int \<Rightarrow> db \<Rightarrow> engine_exn + (int \<times> int \<times> db)" where
  "expire_due [] now correlation_id retries dead d = Inr (retries, dead, d)"
| "expire_due (work # due) now correlation_id retries dead d =
     result_bind (select_one (\<lambda>a. Some (wa_lease_id a)) (wu_active_lease_id work) (work_attempts d)) (\<lambda>found.
       case found of
         None \<Rightarrow> raise_conflict (WORK_ATTEMPT_MISSING (wu_work_id work))
       | Some attempt \<Rightarrow>
           result_bind (expire_locked work attempt now correlation_id d) (\<lambda>(target, d').
             if target = Unit_RETRY_WAIT
             then expire_due due now correlation_id (retries + 1) dead d'
             else expire_due due now correlation_id retries (dead + 1) d'))"

definition expire_leases_tx ::
    "(uuid \<Rightarrow> bool) \<Rightarrow> lease_expiry_sweep \<Rightarrow> int \<Rightarrow> db
      \<Rightarrow> engine_exn + (lease_expiry_sweep_result committed \<times> db)" where
  "expire_leases_tx locked c now d =
     (let due = select_due_leases locked (les_limit c) now d in
      result_bind (expire_due due now (les_correlation_id c) 0 0 d) (\<lambda>(retries, dead, d').
      result_bind (of_checked (make_lease_expiry_sweep_result (int (length due)) retries dead)) (\<lambda>r.
      Inr (Committed r, d'))))"

section \<open>The commands\<close>

definition register_worker ::
    "datetime \<Rightarrow> worker_registration \<Rightarrow> db \<Rightarrow> (engine_exn + worker_registration_result) \<times> db" where
  "register_worker clock c = transaction clock (register_worker_tx c)"

definition configure_source :: "datetime \<Rightarrow> source_capacity_spec \<Rightarrow> db \<Rightarrow> (engine_exn + unit) \<times> db" where
  "configure_source clock c = transaction clock (configure_source_tx c)"

definition create_run :: "datetime \<Rightarrow> collection_run_spec \<Rightarrow> db \<Rightarrow> (engine_exn + unit) \<times> db" where
  "create_run clock c = transaction clock (create_run_tx c)"

definition create_stage :: "datetime \<Rightarrow> stage_run_spec \<Rightarrow> db \<Rightarrow> (engine_exn + unit) \<times> db" where
  "create_stage clock c = transaction clock (create_stage_tx c)"

definition enqueue_work :: "datetime \<Rightarrow> work_unit_spec \<Rightarrow> db \<Rightarrow> (engine_exn + unit) \<times> db" where
  "enqueue_work clock c = transaction clock (enqueue_work_tx c)"

definition acquire_lease ::
    "datetime \<Rightarrow> (uuid \<Rightarrow> bool) \<Rightarrow> (nat \<Rightarrow> uuid) \<Rightarrow> lease_request \<Rightarrow> db
      \<Rightarrow> (engine_exn + work_lease option) \<times> db" where
  "acquire_lease clock locked uuids c = transaction clock (acquire_lease_tx locked uuids c)"

definition heartbeat :: "datetime \<Rightarrow> lease_heartbeat \<Rightarrow> db \<Rightarrow> (engine_exn + work_lease) \<times> db" where
  "heartbeat clock c = transaction clock (heartbeat_tx c)"

definition complete ::
    "datetime \<Rightarrow> (nat \<Rightarrow> uuid) \<Rightarrow> work_completion \<Rightarrow> db \<Rightarrow> (engine_exn + work_completion_result) \<times> db" where
  "complete clock uuids c = transaction clock (complete_tx uuids c)"

definition fail :: "datetime \<Rightarrow> work_failure \<Rightarrow> db \<Rightarrow> (engine_exn + work_mutation_result) \<times> db" where
  "fail clock c = transaction clock (fail_tx c)"

definition release :: "datetime \<Rightarrow> work_release \<Rightarrow> db \<Rightarrow> (engine_exn + work_mutation_result) \<times> db" where
  "release clock c = transaction clock (release_tx c)"

definition expire_leases ::
    "datetime \<Rightarrow> (uuid \<Rightarrow> bool) \<Rightarrow> lease_expiry_sweep \<Rightarrow> db
      \<Rightarrow> (engine_exn + lease_expiry_sweep_result) \<times> db" where
  "expire_leases clock locked c = transaction clock (expire_leases_tx locked c)"

text \<open>The same operations inside a transaction that a larger use case owns.\<close>

definition in_transaction ::
    "datetime \<Rightarrow> (int \<Rightarrow> db \<Rightarrow> engine_exn + (unit committed \<times> db)) \<Rightarrow> db \<Rightarrow> engine_exn + db" where
  "in_transaction clock operation d =
     result_bind (engine_now_utc clock) (\<lambda>now. result_bind (operation now d) (\<lambda>(_, d'). Inr d'))"

definition configure_source_in_transaction :: "datetime \<Rightarrow> source_capacity_spec \<Rightarrow> db \<Rightarrow> engine_exn + db" where
  "configure_source_in_transaction clock c = in_transaction clock (configure_source_tx c)"

definition create_run_in_transaction :: "datetime \<Rightarrow> collection_run_spec \<Rightarrow> db \<Rightarrow> engine_exn + db" where
  "create_run_in_transaction clock c = in_transaction clock (create_run_tx c)"

definition create_stage_in_transaction :: "datetime \<Rightarrow> stage_run_spec \<Rightarrow> db \<Rightarrow> engine_exn + db" where
  "create_stage_in_transaction clock c = in_transaction clock (create_stage_tx c)"

definition enqueue_work_in_transaction :: "datetime \<Rightarrow> work_unit_spec \<Rightarrow> db \<Rightarrow> engine_exn + db" where
  "enqueue_work_in_transaction clock c = in_transaction clock (enqueue_work_tx c)"

end
