(* ===== verification/Engine_Invariant.thy ===== *)
theory Engine_Invariant
  imports Engine_Leases
begin

text \<open>
  The invariant of the engine's tables and its preservation. \<open>engine_inv\<close> says that leases and
  attempts correspond one to one, that the counters of workers and sources are the numbers of
  leases they stand for and stay within their limits, that work which can still be leased has
  failures left, and that exactly the dead work has a dead letter. Completion, failure, release
  and expiry all end a lease the same way (\<open>lease_ended\<close>), so one lemma carries the four.
\<close>

section \<open>The invariant\<close>

definition holds_lease :: "work_unit_row \<Rightarrow> work_attempt_row \<Rightarrow> bool" where
  "holds_lease u a \<longleftrightarrow>
     wa_work_id a = wu_work_id u
     \<and> wu_active_lease_id u = Some (wa_lease_id a)
     \<and> wu_active_lease_token u = Some (wa_lease_token a)
     \<and> wu_active_worker_id u = Some (wa_worker_id a)
     \<and> wa_outcome a = Outcome_LEASED"

definition lease_inv :: "db \<Rightarrow> bool" where
  "lease_inv d \<longleftrightarrow>
     (\<forall>u \<in> set (work_units d). leased u \<longrightarrow> (\<exists>a \<in> set (work_attempts d). holds_lease u a))
     \<and> (\<forall>a \<in> set (work_attempts d). wa_outcome a = Outcome_LEASED \<longrightarrow>
          (\<exists>u \<in> set (work_units d). leased u \<and> holds_lease u a))"

definition attempt_inv :: "db \<Rightarrow> bool" where
  "attempt_inv d \<longleftrightarrow>
     (\<forall>u \<in> set (work_units d).
        count_rows (\<lambda>a. wa_work_id a = wu_work_id u) (work_attempts d) = wu_attempt_count u)
     \<and> (\<forall>u \<in> set (work_units d). \<forall>a \<in> set (work_attempts d). wa_work_id a = wu_work_id u \<longrightarrow>
          wa_attempt_number a \<le> wu_attempt_count u \<and> wa_input_digest a = wu_input_digest u)"

definition worker_load :: "db \<Rightarrow> string \<Rightarrow> int" where
  "worker_load d worker = count_rows (\<lambda>u. leased u \<and> wu_active_worker_id u = Some worker) (work_units d)"

definition source_load :: "db \<Rightarrow> string \<Rightarrow> int" where
  "source_load d source = count_rows (\<lambda>u. leased u \<and> wu_source_key u = Some source) (work_units d)"

definition worker_inv :: "db \<Rightarrow> bool" where
  "worker_inv d \<longleftrightarrow>
     (\<forall>h \<in> set (worker_heartbeats d). wh_active_lease_count h = worker_load d (wh_worker_id h))
     \<and> (\<forall>r \<in> set (worker_registrations d).
          \<exists>h \<in> set (worker_heartbeats d). wh_worker_id h = wr_worker_id r)
     \<and> (\<forall>r \<in> set (worker_registrations d). worker_load d (wr_worker_id r) \<le> wr_max_concurrency r)"

definition source_inv :: "db \<Rightarrow> bool" where
  "source_inv d \<longleftrightarrow>
     (\<forall>s \<in> set (source_capacity_states d). sc_active_requests s = source_load d (sc_source_key s))"

definition budget_inv :: "db \<Rightarrow> bool" where
  "budget_inv d \<longleftrightarrow>
     (\<forall>u \<in> set (work_units d). wu_state u \<in> {Unit_PENDING, Unit_LEASED, Unit_RETRY_WAIT} \<longrightarrow>
        wu_failure_count u < wu_max_attempts u)"

definition letter_inv :: "db \<Rightarrow> bool" where
  "letter_inv d \<longleftrightarrow>
     (\<forall>u \<in> set (work_units d). wu_state u = Unit_DEAD_LETTER \<longleftrightarrow>
        wu_work_id u \<in> set (map dl_work_id (dead_letters d)))"

definition engine_inv :: "db \<Rightarrow> bool" where
  "engine_inv d \<longleftrightarrow> store_ok d \<and> lease_inv d \<and> attempt_inv d \<and> worker_inv d \<and> source_inv d
     \<and> budget_inv d \<and> letter_inv d"

lemmas engine_inv_defs = engine_inv_def lease_inv_def attempt_inv_def worker_inv_def source_inv_def
  budget_inv_def letter_inv_def worker_load_def source_load_def

lemma engine_inv_store [simp]: "engine_inv d \<Longrightarrow> store_ok d"
  by (simp add: engine_inv_def)

text \<open>Only six tables carry the invariant, and of their rows only these columns.\<close>

definition unit_core ::
    "work_unit_row \<Rightarrow> uuid \<times> work_unit_state \<times> uuid option \<times> uuid option \<times> string option
      \<times> string option \<times> string \<times> int \<times> int \<times> int" where
  "unit_core u = (wu_work_id u, wu_state u, wu_active_lease_id u, wu_active_lease_token u,
     wu_active_worker_id u, wu_source_key u, wu_input_digest u, wu_attempt_count u,
     wu_failure_count u, wu_max_attempts u)"

definition attempt_core ::
    "work_attempt_row \<Rightarrow> uuid \<times> uuid \<times> uuid \<times> string \<times> work_attempt_outcome \<times> int \<times> string" where
  "attempt_core a = (wa_work_id a, wa_lease_id a, wa_lease_token a, wa_worker_id a, wa_outcome a,
     wa_attempt_number a, wa_input_digest a)"

lemma map_eq_member: "map f xs = map f ys \<Longrightarrow> x \<in> set xs \<Longrightarrow> \<exists>y \<in> set ys. f y = f x"
  by (metis (no_types, lifting) image_iff set_map)

lemma map_eq_count:
  assumes "map f xs = map f ys" and "\<And>x y. f x = f y \<Longrightarrow> P x = P y"
  shows "count_rows P xs = count_rows P ys"
  using map_eq_imp_length_eq [OF assms(1)] assms(1)
  by (induction xs ys rule: list_induct2) (auto dest: assms(2))

lemma lease_inv_core:
  assumes "lease_inv d" and u: "map unit_core (work_units d') = map unit_core (work_units d)"
    and a: "map attempt_core (work_attempts d') = map attempt_core (work_attempts d)"
  shows "lease_inv d'"
proof -
  have hl: "holds_lease x b = holds_lease y c" if "unit_core x = unit_core y" "attempt_core b = attempt_core c"
    for x y b c using that by (simp add: holds_lease_def unit_core_def attempt_core_def)
  have "\<exists>b \<in> set (work_attempts d'). holds_lease x b" if x: "x \<in> set (work_units d')" "leased x" for x
  proof -
    obtain y where y: "y \<in> set (work_units d)" "unit_core y = unit_core x"
      using map_eq_member [OF u x(1)] by blast
    then obtain b where b: "b \<in> set (work_attempts d)" "holds_lease y b"
      using assms(1) x(2) unfolding lease_inv_def unit_core_def by auto
    then obtain c where "c \<in> set (work_attempts d')" "attempt_core c = attempt_core b"
      using map_eq_member [OF a [symmetric]] by blast
    then show ?thesis using hl [of x y c b] y b by auto
  qed
  moreover have "\<exists>x \<in> set (work_units d'). leased x \<and> holds_lease x b"
    if b: "b \<in> set (work_attempts d')" "wa_outcome b = Outcome_LEASED" for b
  proof -
    obtain c where c: "c \<in> set (work_attempts d)" "attempt_core c = attempt_core b"
      using map_eq_member [OF a b(1)] by blast
    then obtain y where y: "y \<in> set (work_units d)" "leased y" "holds_lease y c"
      using assms(1) b(2) unfolding lease_inv_def attempt_core_def by auto
    then obtain x where "x \<in> set (work_units d')" "unit_core x = unit_core y"
      using map_eq_member [OF u [symmetric]] by blast
    then show ?thesis using hl [of x y b c] y c by (auto simp: unit_core_def)
  qed
  ultimately show ?thesis by (simp add: lease_inv_def)
qed

lemma attempt_inv_core:
  assumes "attempt_inv d" and u: "map unit_core (work_units d') = map unit_core (work_units d)"
    and a: "map attempt_core (work_attempts d') = map attempt_core (work_attempts d)"
  shows "attempt_inv d'"
proof -
  have count: "count_rows (\<lambda>b. wa_work_id b = w) (work_attempts d') =
      count_rows (\<lambda>b. wa_work_id b = w) (work_attempts d)" for w
    by (rule map_eq_count [OF a]) (simp add: attempt_core_def)
  have "count_rows (\<lambda>b. wa_work_id b = wu_work_id x) (work_attempts d') = wu_attempt_count x
      \<and> (\<forall>b \<in> set (work_attempts d'). wa_work_id b = wu_work_id x \<longrightarrow>
          wa_attempt_number b \<le> wu_attempt_count x \<and> wa_input_digest b = wu_input_digest x)"
    if x: "x \<in> set (work_units d')" for x
  proof -
    obtain y where y: "y \<in> set (work_units d)" "unit_core y = unit_core x"
      using map_eq_member [OF u x] by blast
    have "wa_attempt_number b \<le> wu_attempt_count x \<and> wa_input_digest b = wu_input_digest x"
      if b: "b \<in> set (work_attempts d')" "wa_work_id b = wu_work_id x" for b
    proof -
      obtain c where c: "c \<in> set (work_attempts d)" "attempt_core c = attempt_core b"
        using map_eq_member [OF a b(1)] by blast
      have "wa_work_id c = wu_work_id y" using y c b(2) by (simp add: unit_core_def attempt_core_def)
      then have "wa_attempt_number c \<le> wu_attempt_count y \<and> wa_input_digest c = wu_input_digest y"
        using assms(1) y(1) c(1) unfolding attempt_inv_def by blast
      then show ?thesis using y c by (simp add: unit_core_def attempt_core_def)
    qed
    moreover have "count_rows (\<lambda>b. wa_work_id b = wu_work_id x) (work_attempts d') = wu_attempt_count x"
      using count assms(1) y by (auto simp: attempt_inv_def unit_core_def)
    ultimately show ?thesis by blast
  qed
  then show ?thesis by (simp add: attempt_inv_def)
qed

lemma loads_core:
  assumes "map unit_core (work_units d') = map unit_core (work_units d)"
  shows "worker_load d' w = worker_load d w" and "source_load d' k = source_load d k"
  unfolding worker_load_def source_load_def
  by (rule map_eq_count [OF assms], simp add: unit_core_def)+

lemma engine_inv_core:
  assumes inv: "engine_inv d" and ok: "store_ok d'"
    and u: "map unit_core (work_units d') = map unit_core (work_units d)"
    and a: "map attempt_core (work_attempts d') = map attempt_core (work_attempts d)"
    and h: "map (\<lambda>h. (wh_worker_id h, wh_active_lease_count h)) (worker_heartbeats d') =
            map (\<lambda>h. (wh_worker_id h, wh_active_lease_count h)) (worker_heartbeats d)"
    and r: "worker_registrations d' = worker_registrations d"
    and s: "map (\<lambda>s. (sc_source_key s, sc_active_requests s)) (source_capacity_states d') =
            map (\<lambda>s. (sc_source_key s, sc_active_requests s)) (source_capacity_states d)"
    and l: "map dl_work_id (dead_letters d') = map dl_work_id (dead_letters d)"
  shows "engine_inv d'"
proof -
  note load = loads_core [OF u]
  have "worker_inv d'"
    using inv r load(1) map_eq_member [OF h] map_eq_member [OF h [symmetric]]
    unfolding engine_inv_def worker_inv_def by (metis (no_types, lifting) prod.inject)
  moreover have "source_inv d'"
    using inv load(2) map_eq_member [OF s] unfolding engine_inv_def source_inv_def
    by (metis (no_types, lifting) prod.inject)
  moreover have "budget_inv d'"
    using inv map_eq_member [OF u] unfolding engine_inv_def budget_inv_def unit_core_def by fastforce
  moreover have "letter_inv d'"
  proof -
    have "wu_state x = Unit_DEAD_LETTER \<longleftrightarrow> wu_work_id x \<in> set (map dl_work_id (dead_letters d'))"
      if x: "x \<in> set (work_units d')" for x
    proof -
      obtain y where "y \<in> set (work_units d)" "unit_core y = unit_core x"
        using map_eq_member [OF u x] by blast
      then show ?thesis using inv unfolding l engine_inv_def letter_inv_def unit_core_def by auto
    qed
    then show ?thesis by (simp add: letter_inv_def)
  qed
  ultimately show ?thesis
    using inv ok lease_inv_core [OF _ u a] attempt_inv_core [OF _ u a] by (simp add: engine_inv_def)
qed

lemma engine_inv_frame:
  assumes "engine_inv d" and "store_ok d'"
    and "work_units d' = work_units d" and "work_attempts d' = work_attempts d"
    and "worker_heartbeats d' = worker_heartbeats d"
    and "worker_registrations d' = worker_registrations d"
    and "source_capacity_states d' = source_capacity_states d" and "dead_letters d' = dead_letters d"
  shows "engine_inv d'"
  by (rule engine_inv_core [OF assms(1,2)]) (simp_all add: assms)

section \<open>What the schema says of a row\<close>

lemma schema_rowD:
  assumes "schema_ok d"
  shows "u \<in> set (work_units d) \<Longrightarrow> work_unit_check u"
    and "a \<in> set (work_attempts d) \<Longrightarrow> work_attempt_check a"
    and "s \<in> set (source_capacity_states d) \<Longrightarrow> source_capacity_check s"
    and "r \<in> set (worker_registrations d) \<Longrightarrow> worker_registration_check r"
    and "h \<in> set (worker_heartbeats d) \<Longrightarrow> worker_heartbeat_check h"
    and "b \<in> set (work_input_artifacts d) \<Longrightarrow> work_artifact_binding_check b"
  using assms by (simp_all add: schema_ok_def rows_checked_def list_all_iff)

lemma schema_referenceD:
  assumes "schema_ok d"
  shows "h \<in> set (worker_heartbeats d) \<Longrightarrow>
           \<exists>r \<in> set (worker_registrations d). wr_worker_id r = wh_worker_id h"
    and "u \<in> set (work_units d) \<Longrightarrow> wu_active_worker_id u = Some w \<Longrightarrow>
           \<exists>r \<in> set (worker_registrations d). wr_worker_id r = w"
    and "u \<in> set (work_units d) \<Longrightarrow> wu_source_key u = Some k \<Longrightarrow>
           \<exists>s \<in> set (source_capacity_states d). sc_source_key s = k"
    and "a \<in> set (work_attempts d) \<Longrightarrow> \<exists>u \<in> set (work_units d). wu_work_id u = wa_work_id a"
    and "l \<in> set (dead_letters d) \<Longrightarrow> \<exists>u \<in> set (work_units d). wu_work_id u = dl_work_id l"
proof -
  have refs: "work_references d" using assms by (simp add: schema_ok_def)
  show "h \<in> set (worker_heartbeats d) \<Longrightarrow>
      \<exists>r \<in> set (worker_registrations d). wr_worker_id r = wh_worker_id h"
    using refs by (fastforce simp: work_references_def list_all_iff image_iff)
  have unit_refs: "list_all (\<lambda>r. optional (\<lambda>w. w \<in> set (map wr_worker_id (worker_registrations d)))
        (wu_active_worker_id r)) (work_units d)
    \<and> list_all (\<lambda>r. optional (\<lambda>k. k \<in> set (map sc_source_key (source_capacity_states d)))
        (wu_source_key r)) (work_units d)"
    using refs unfolding work_references_def Let_def by (elim conjE) (rule conjI)
  show "u \<in> set (work_units d) \<Longrightarrow> wu_active_worker_id u = Some w \<Longrightarrow>
      \<exists>r \<in> set (worker_registrations d). wr_worker_id r = w"
    using conjunct1 [OF unit_refs] by (force simp: list_all_iff optional_def)
  show "u \<in> set (work_units d) \<Longrightarrow> wu_source_key u = Some k \<Longrightarrow>
      \<exists>s \<in> set (source_capacity_states d). sc_source_key s = k"
    using conjunct2 [OF unit_refs] by (force simp: list_all_iff optional_def)
  show "a \<in> set (work_attempts d) \<Longrightarrow> \<exists>u \<in> set (work_units d). wu_work_id u = wa_work_id a"
    using refs by (fastforce simp: work_references_def list_all_iff image_iff)
  show "l \<in> set (dead_letters d) \<Longrightarrow> \<exists>u \<in> set (work_units d). wu_work_id u = dl_work_id l"
    using refs by (fastforce simp: work_references_def list_all_iff image_iff)
qed

lemma unleased_no_worker:
  "schema_ok d \<Longrightarrow> u \<in> set (work_units d) \<Longrightarrow> \<not> leased u \<Longrightarrow>
   wu_active_lease_id u = None \<and> wu_active_worker_id u = None"
  using schema_rowD(1) by (fastforce simp: work_unit_check_def work_unit_lease_shape_def)

lemma leased_times:
  assumes "schema_ok d" and "u \<in> set (work_units d)" and "leased u"
  obtains issued expires deadline where
    "wu_lease_issued_at_utc u = Some issued" "wu_lease_expires_at_utc u = Some expires"
    "wu_heartbeat_deadline_utc u = Some deadline" "issued < deadline" "deadline \<le> expires"
  using schema_rowD(1) [OF assms(1,2)] assms(3)
  by (auto simp: work_unit_check_def work_unit_lease_shape_def split: option.splits)

lemma holds_lease_unique:
  assumes "schema_ok d" and "a \<in> set (work_attempts d)" and "b \<in> set (work_attempts d)"
    and "holds_lease u a" and "holds_lease u b"
  shows "a = b"
  using attempt_leases.key_unique [OF assms(1-3)] assms(4,5) by (simp add: holds_lease_def)

section \<open>Ending a lease\<close>

text \<open>The databases before and after the end of the lease of \<open>u\<close> and \<open>a\<close>: the two rows are
  replaced, one reservation of the worker and of the source is returned, and a dead letter is added
  exactly when the work is dead.\<close>

definition reservation_returned :: "work_unit_row \<Rightarrow> db \<Rightarrow> db \<Rightarrow> bool" where
  "reservation_returned u d d' \<longleftrightarrow>
     (\<forall>h' \<in> set (worker_heartbeats d'). \<exists>h \<in> set (worker_heartbeats d).
        wh_worker_id h' = wh_worker_id h \<and>
        wh_active_lease_count h' = wh_active_lease_count h
          - of_bool (wu_active_worker_id u = Some (wh_worker_id h)))
     \<and> map wh_worker_id (worker_heartbeats d') = map wh_worker_id (worker_heartbeats d)
     \<and> (\<forall>s' \<in> set (source_capacity_states d'). \<exists>s \<in> set (source_capacity_states d).
        sc_source_key s' = sc_source_key s \<and>
        sc_active_requests s' = sc_active_requests s - of_bool (wu_source_key u = Some (sc_source_key s)))"

lemma returned_heartbeat:
  assumes "reservation_returned u d d'" and "h' \<in> set (worker_heartbeats d')"
  obtains h where "h \<in> set (worker_heartbeats d)" "wh_worker_id h' = wh_worker_id h"
    "wh_active_lease_count h' = wh_active_lease_count h
      - of_bool (wu_active_worker_id u = Some (wh_worker_id h))"
  using bspec [OF conjunct1 [OF assms(1) [unfolded reservation_returned_def]] assms(2)] that by blast

lemma returned_source:
  assumes "reservation_returned u d d'" and "s' \<in> set (source_capacity_states d')"
  obtains s where "s \<in> set (source_capacity_states d)" "sc_source_key s' = sc_source_key s"
    "sc_active_requests s' = sc_active_requests s - of_bool (wu_source_key u = Some (sc_source_key s))"
  using bspec [OF conjunct2 [OF conjunct2 [OF assms(1) [unfolded reservation_returned_def]]] assms(2)]
    that by blast

definition lease_ended ::
    "work_unit_row \<Rightarrow> work_unit_row \<Rightarrow> work_attempt_row \<Rightarrow> work_attempt_row \<Rightarrow> db \<Rightarrow> db \<Rightarrow> bool" where
  "lease_ended u u' a a' d d' \<longleftrightarrow>
     work_units d' = update_rows (\<lambda>x. wu_work_id x = wu_work_id u) (\<lambda>_. u') (work_units d)
     \<and> work_attempts d' = update_rows (\<lambda>x. wa_attempt_id x = wa_attempt_id a) (\<lambda>_. a') (work_attempts d)
     \<and> reservation_returned u d d'
     \<and> worker_registrations d' = worker_registrations d
     \<and> map dl_work_id (dead_letters d') = map dl_work_id (dead_letters d)
         @ (if wu_state u' = Unit_DEAD_LETTER then [wu_work_id u] else [])
     \<and> store_ok d'"

text \<open>What the ending operations keep of the two rows.\<close>

definition unit_released :: "work_unit_row \<Rightarrow> work_unit_row \<Rightarrow> bool" where
  "unit_released u u' \<longleftrightarrow>
     wu_work_id u' = wu_work_id u \<and> wu_source_key u' = wu_source_key u
     \<and> wu_input_digest u' = wu_input_digest u \<and> wu_attempt_count u' = wu_attempt_count u
     \<and> wu_max_attempts u' = wu_max_attempts u \<and> \<not> leased u'
     \<and> (wu_state u' \<in> {Unit_PENDING, Unit_RETRY_WAIT} \<longrightarrow> wu_failure_count u' < wu_max_attempts u')"

definition attempt_finished :: "work_attempt_row \<Rightarrow> work_attempt_row \<Rightarrow> bool" where
  "attempt_finished a a' \<longleftrightarrow>
     wa_attempt_id a' = wa_attempt_id a \<and> wa_work_id a' = wa_work_id a
     \<and> wa_lease_id a' = wa_lease_id a \<and> wa_attempt_number a' = wa_attempt_number a
     \<and> wa_input_digest a' = wa_input_digest a \<and> wa_outcome a' \<noteq> Outcome_LEASED"

lemma lease_ended_sets:
  assumes "lease_ended u u' a a' d d'" and "schema_ok d"
    and "u \<in> set (work_units d)" and "a \<in> set (work_attempts d)"
  shows "set (work_units d') = insert u' (set (work_units d) - {u})"
    and "set (work_attempts d') = insert a' (set (work_attempts d) - {a})"
    and "count_rows P (work_units d') = count_rows P (work_units d) - of_bool (P u) + of_bool (P u')"
    and "count_rows Q (work_attempts d') = count_rows Q (work_attempts d) - of_bool (Q a) + of_bool (Q a')"
  using assms(1) units.rows_update [OF assms(2,3), of "\<lambda>_. u'"]
    attempts.rows_update [OF assms(2,4), of "\<lambda>_. a'"]
    units.count_update [OF assms(2,3), of P "\<lambda>_. u'"]
    attempts.count_update [OF assms(2,4), of Q "\<lambda>_. a'"]
  by (simp_all add: lease_ended_def)

lemma lease_ended_lease_inv:
  assumes inv: "engine_inv d" and u: "u \<in> set (work_units d)" "leased u"
    and a: "a \<in> set (work_attempts d)" "holds_lease u a"
    and ended: "lease_ended u u' a a' d d'" and u': "unit_released u u'" and a': "attempt_finished a a'"
  shows "lease_inv d'"
proof -
  note sets = lease_ended_sets [OF ended _ u(1) a(1)]
  have sd: "schema_ok d" using inv by simp
  have other: "b = a" if "b \<in> set (work_attempts d)" "holds_lease u b" for b
    using holds_lease_unique [OF sd that(1) a(1)] that a by blast
  have same: "v = u" if "v \<in> set (work_units d)" "holds_lease v a" for v
    using units.key_unique [OF sd that(1) u(1)] that a by (simp add: holds_lease_def)
  have "\<exists>b \<in> set (work_attempts d'). holds_lease v b" if v: "v \<in> set (work_units d')" "leased v" for v
  proof -
    have "v \<noteq> u'" "v \<in> set (work_units d)" "v \<noteq> u"
      using v sets(1) [OF sd] u' by (auto simp: unit_released_def)
    moreover obtain b where "b \<in> set (work_attempts d)" "holds_lease v b"
      using calculation v inv unfolding engine_inv_def lease_inv_def by blast
    moreover have "b \<noteq> a" using calculation same by blast
    ultimately show ?thesis using sets(2) [OF sd] by blast
  qed
  moreover have "\<exists>v \<in> set (work_units d'). leased v \<and> holds_lease v b"
    if b: "b \<in> set (work_attempts d')" "wa_outcome b = Outcome_LEASED" for b
  proof -
    have "b \<in> set (work_attempts d)" "b \<noteq> a"
      using b sets(2) [OF sd] a' by (auto simp: attempt_finished_def)
    moreover obtain v where "v \<in> set (work_units d)" "leased v" "holds_lease v b"
      using calculation b inv unfolding engine_inv_def lease_inv_def by blast
    moreover have "v \<noteq> u" using calculation other by blast
    ultimately show ?thesis using sets(1) [OF sd] by blast
  qed
  ultimately show ?thesis by (simp add: lease_inv_def)
qed

lemma lease_ended_attempt_inv:
  assumes inv: "engine_inv d" and u: "u \<in> set (work_units d)" "leased u"
    and a: "a \<in> set (work_attempts d)" "holds_lease u a"
    and ended: "lease_ended u u' a a' d d'" and u': "unit_released u u'" and a': "attempt_finished a a'"
  shows "attempt_inv d'"
proof -
  have sd: "schema_ok d" using inv by simp
  note sets = lease_ended_sets [OF ended sd u(1) a(1)]
  have count: "count_rows (\<lambda>b. wa_work_id b = w) (work_attempts d') =
      count_rows (\<lambda>b. wa_work_id b = w) (work_attempts d)" for w
    using sets(4) a' by (simp add: attempt_finished_def)
  have old: "count_rows (\<lambda>b. wa_work_id b = wu_work_id v) (work_attempts d) = wu_attempt_count v"
      "b \<in> set (work_attempts d) \<Longrightarrow> wa_work_id b = wu_work_id v \<Longrightarrow>
        wa_attempt_number b \<le> wu_attempt_count v \<and> wa_input_digest b = wu_input_digest v"
    if "v \<in> set (work_units d)" for v b
    using that inv by (simp_all add: engine_inv_def attempt_inv_def)
  have "count_rows (\<lambda>b. wa_work_id b = wu_work_id v) (work_attempts d') = wu_attempt_count v"
    if "v \<in> set (work_units d')" for v
    using that sets(1) u' old(1) [of v] old(1) [OF u(1)] by (auto simp: count unit_released_def)
  moreover have "wa_attempt_number b \<le> wu_attempt_count v \<and> wa_input_digest b = wu_input_digest v"
    if vb: "v \<in> set (work_units d')" "b \<in> set (work_attempts d')" "wa_work_id b = wu_work_id v" for v b
  proof -
    define v0 where "v0 = (if v = u' then u else v)"
    define b0 where "b0 = (if b = a' then a else b)"
    have "v0 \<in> set (work_units d)" "wu_work_id v = wu_work_id v0"
      "wu_attempt_count v = wu_attempt_count v0" "wu_input_digest v = wu_input_digest v0"
      using vb(1) sets(1) u' u(1) by (auto simp: v0_def unit_released_def)
    moreover have "b0 \<in> set (work_attempts d)" "wa_work_id b = wa_work_id b0"
      "wa_attempt_number b = wa_attempt_number b0" "wa_input_digest b = wa_input_digest b0"
      using vb(2) sets(2) a' a(1) by (auto simp: b0_def attempt_finished_def)
    ultimately show ?thesis using old(2) [of v0 b0] vb(3) by simp
  qed
  ultimately show ?thesis by (simp add: attempt_inv_def)
qed

lemma lease_ended_loads:
  assumes inv: "engine_inv d" and u: "u \<in> set (work_units d)" "leased u"
    and a: "a \<in> set (work_attempts d)"
    and ended: "lease_ended u u' a a' d d'" and u': "unit_released u u'"
  shows "worker_load d' w = worker_load d w - of_bool (wu_active_worker_id u = Some w)"
    and "source_load d' k = source_load d k - of_bool (wu_source_key u = Some k)"
  using lease_ended_sets(3) [OF ended _ u(1) a] inv u(2) u'
  by (simp_all add: worker_load_def source_load_def unit_released_def)

lemma lease_ended_capacity:
  assumes inv: "engine_inv d" and u: "u \<in> set (work_units d)" "leased u"
    and a: "a \<in> set (work_attempts d)"
    and ended: "lease_ended u u' a a' d d'" and u': "unit_released u u'"
  shows "worker_inv d'" and "source_inv d'"
proof -
  note load = lease_ended_loads [OF assms]
  have ids: "map wh_worker_id (worker_heartbeats d') = map wh_worker_id (worker_heartbeats d)"
    and regs: "worker_registrations d' = worker_registrations d"
    and returned: "reservation_returned u d d'"
    using ended by (simp_all add: lease_ended_def reservation_returned_def)
  have "wh_active_lease_count h' = worker_load d' (wh_worker_id h')"
    if h': "h' \<in> set (worker_heartbeats d')" for h'
  proof -
    obtain h where "h \<in> set (worker_heartbeats d)" "wh_worker_id h' = wh_worker_id h"
      "wh_active_lease_count h' = wh_active_lease_count h
        - of_bool (wu_active_worker_id u = Some (wh_worker_id h))"
      using returned_heartbeat [OF returned h'] by blast
    then show ?thesis using inv load(1) by (simp add: engine_inv_def worker_inv_def)
  qed
  moreover have "\<exists>h \<in> set (worker_heartbeats d'). wh_worker_id h = wr_worker_id r"
    if "r \<in> set (worker_registrations d)" for r
  proof -
    have "wr_worker_id r \<in> set (map wh_worker_id (worker_heartbeats d))"
      using that inv unfolding engine_inv_def worker_inv_def by force
    then show ?thesis using ids by (metis (no_types, lifting) image_iff set_map)
  qed
  moreover have "worker_load d' w \<le> worker_load d w" for w
    using load(1) by simp
  then have "worker_load d' (wr_worker_id r) \<le> wr_max_concurrency r"
    if "r \<in> set (worker_registrations d)" for r
    using that inv by (meson engine_inv_def order_trans worker_inv_def)
  ultimately show "worker_inv d'" by (simp add: worker_inv_def regs)
  have "sc_active_requests s' = source_load d' (sc_source_key s')"
    if s': "s' \<in> set (source_capacity_states d')" for s'
  proof -
    obtain s where "s \<in> set (source_capacity_states d)" "sc_source_key s' = sc_source_key s"
      "sc_active_requests s' = sc_active_requests s - of_bool (wu_source_key u = Some (sc_source_key s))"
      using returned_source [OF returned s'] by blast
    then show ?thesis using inv load(2) by (simp add: engine_inv_def source_inv_def)
  qed
  then show "source_inv d'" by (simp add: source_inv_def)
qed

lemma lease_ended_letters:
  assumes inv: "engine_inv d" and u: "u \<in> set (work_units d)" "leased u"
    and a: "a \<in> set (work_attempts d)"
    and ended: "lease_ended u u' a a' d d'" and u': "unit_released u u'"
  shows "budget_inv d'" and "letter_inv d'"
proof -
  have sd: "schema_ok d" using inv by simp
  note sets = lease_ended_sets(1) [OF ended sd u(1) a]
  show "budget_inv d'" using inv sets u'
    unfolding engine_inv_def budget_inv_def unit_released_def by auto
  define D where "D = set (map dl_work_id (dead_letters d))"
  define D' where "D' = set (map dl_work_id (dead_letters d'))"
  have letters: "D' = D \<union> (if wu_state u' = Unit_DEAD_LETTER then {wu_work_id u} else {})"
  proof -
    have "D' = set (map dl_work_id (dead_letters d)
        @ (if wu_state u' = Unit_DEAD_LETTER then [wu_work_id u] else []))"
      using ended unfolding D'_def lease_ended_def by presburger
    then show ?thesis by (simp add: D_def)
  qed
  have old: "wu_state v = Unit_DEAD_LETTER \<longleftrightarrow> wu_work_id v \<in> D" if "v \<in> set (work_units d)" for v
    using inv that by (simp add: engine_inv_def letter_inv_def D_def)
  have "wu_state v = Unit_DEAD_LETTER \<longleftrightarrow> wu_work_id v \<in> D'" if "v \<in> set (work_units d')" for v
  proof (cases "v = u'")
    case True
    then show ?thesis using letters old [OF u(1)] u(2) u' by (simp add: unit_released_def)
  next
    case False
    then have v: "v \<in> set (work_units d)" "v \<noteq> u" using that sets by auto
    then have "wu_work_id v \<noteq> wu_work_id u" using units.key_unique [OF sd] u(1) by blast
    then show ?thesis using letters old [OF v(1)] by simp
  qed
  then show "letter_inv d'" by (simp add: letter_inv_def D'_def)
qed

lemma lease_ended_inv:
  assumes "engine_inv d" "u \<in> set (work_units d)" "leased u" "a \<in> set (work_attempts d)"
    "holds_lease u a" "lease_ended u u' a a' d d'" "unit_released u u'" "attempt_finished a a'"
  shows "engine_inv d'"
  using lease_ended_lease_inv [OF assms] lease_ended_attempt_inv [OF assms]
    lease_ended_capacity [OF assms(1-4,6,7)] lease_ended_letters [OF assms(1-4,6,7)] assms(6)
  by (simp add: engine_inv_def lease_ended_def)

section \<open>Returning the reservations\<close>

lemma count_rows_oneD: "count_rows P rs = 1 \<Longrightarrow> \<exists>r \<in> set rs. P r"
proof (rule ccontr)
  assume "count_rows P rs = 1" "\<not> (\<exists>r \<in> set rs. P r)"
  then show False by (simp add: count_rows_def filter_False)
qed

lemma release_worker_InrD:
  assumes rel: "release_worker_reservation work corr d = Inr d'" and sd: "schema_ok d"
  shows "store_ok d'" and "\<exists>hs. d' = worker_heartbeats_update (\<lambda>_. hs) d"
    and "map wh_worker_id (worker_heartbeats d') = map wh_worker_id (worker_heartbeats d)"
    and "\<forall>h' \<in> set (worker_heartbeats d'). \<exists>h \<in> set (worker_heartbeats d).
        wh_worker_id h' = wh_worker_id h \<and>
        wh_active_lease_count h' = wh_active_lease_count h
          - of_bool (wu_active_worker_id work = Some (wh_worker_id h))"
proof -
  let ?held = "\<lambda>h. Some (wh_worker_id h) = wu_active_worker_id work \<and> 0 < wh_active_lease_count h"
  let ?dec = "\<lambda>h. h\<lparr>wh_active_lease_count := wh_active_lease_count h - 1, wh_correlation_id := corr\<rparr>"
  have d': "d' = worker_heartbeats_update (update_rows ?held ?dec) d" "store_ok d'"
    and one: "count_rows ?held (worker_heartbeats d) = 1"
    using rel by (auto simp: release_worker_reservation_def Let_def result_bind_eq_Inr split: if_splits)
  have held: "?held h \<longleftrightarrow> wu_active_worker_id work = Some (wh_worker_id h)"
    if "h \<in> set (worker_heartbeats d)" for h
    using count_rows_oneD [OF one] heartbeats.key_unique [OF sd that] by fastforce
  show "store_ok d'" by (rule d'(2))
  show "\<exists>hs. d' = worker_heartbeats_update (\<lambda>_. hs) d"
    by (rule exI [of _ "update_rows ?held ?dec (worker_heartbeats d)"]) (simp add: d'(1))
  show "map wh_worker_id (worker_heartbeats d') = map wh_worker_id (worker_heartbeats d)"
    by (simp add: d'(1) map_update_rows)
  show "\<forall>h' \<in> set (worker_heartbeats d'). \<exists>h \<in> set (worker_heartbeats d).
        wh_worker_id h' = wh_worker_id h \<and>
        wh_active_lease_count h' = wh_active_lease_count h
          - of_bool (wu_active_worker_id work = Some (wh_worker_id h))"
  proof
    fix h' assume "h' \<in> set (worker_heartbeats d')"
    then obtain h where h: "h \<in> set (worker_heartbeats d)" "h' = (if ?held h then ?dec h else h)"
      by (auto simp: d'(1) in_set_update_rows)
    then show "\<exists>h \<in> set (worker_heartbeats d). wh_worker_id h' = wh_worker_id h \<and>
        wh_active_lease_count h' = wh_active_lease_count h
          - of_bool (wu_active_worker_id work = Some (wh_worker_id h))"
      using held [OF h(1)] by (intro bexI [of _ h]) auto
  qed
qed

lemma release_source_InrD:
  assumes rel: "release_source_reservation work now corr d = Inr d'" and sd: "store_ok d"
  shows "store_ok d'" and "\<exists>ss. d' = source_capacity_states_update (\<lambda>_. ss) d"
    and "\<forall>s' \<in> set (source_capacity_states d'). \<exists>s \<in> set (source_capacity_states d).
        sc_source_key s' = sc_source_key s \<and>
        sc_active_requests s' = sc_active_requests s
          - of_bool (wu_source_key work = Some (sc_source_key s))"
proof -
  have "store_ok d' \<and> (\<exists>ss. d' = source_capacity_states_update (\<lambda>_. ss) d) \<and>
    (\<forall>s' \<in> set (source_capacity_states d'). \<exists>s \<in> set (source_capacity_states d).
        sc_source_key s' = sc_source_key s \<and>
        sc_active_requests s' = sc_active_requests s
          - of_bool (wu_source_key work = Some (sc_source_key s)))" (is "?ok \<and> ?frame \<and> ?rows")
  proof (cases "wu_source_key work")
    case None
    then have eq: "d' = d" using rel by (simp add: release_source_reservation_def)
    have ?frame by (rule exI [of _ "source_capacity_states d"]) (simp add: eq)
    moreover have ?rows using None by (auto simp: eq)
    moreover have ?ok using sd eq by simp
    ultimately show ?thesis by (intro conjI)
  next
    case (Some key)
    let ?held = "\<lambda>r. sc_source_key r = key \<and> 0 < sc_active_requests r"
    let ?dec = "\<lambda>r. r\<lparr>sc_active_requests := sc_active_requests r - 1, sc_revision := sc_revision r + 1,
                     sc_updated_at_utc := now, sc_correlation_id := corr\<rparr>"
    have d': "d' = source_capacity_states_update (update_rows ?held ?dec) d" "store_ok d'"
      and one: "count_rows ?held (source_capacity_states d) = 1"
      using rel Some by (auto simp: release_source_reservation_def Let_def result_bind_eq_Inr split: if_splits)
    have held: "?held s \<longleftrightarrow> sc_source_key s = key" if "s \<in> set (source_capacity_states d)" for s
      using count_rows_oneD [OF one] sources.key_unique [OF _ that] sd by fastforce
    have ?frame
      by (rule exI [of _ "update_rows ?held ?dec (source_capacity_states d)"]) (simp add: d'(1))
    moreover have ?rows
    proof
      fix s' assume "s' \<in> set (source_capacity_states d')"
      then obtain s where s: "s \<in> set (source_capacity_states d)" "s' = (if ?held s then ?dec s else s)"
        by (auto simp: d'(1) in_set_update_rows)
      then show "\<exists>s \<in> set (source_capacity_states d). sc_source_key s' = sc_source_key s \<and>
          sc_active_requests s' = sc_active_requests s
            - of_bool (wu_source_key work = Some (sc_source_key s))"
        using held [OF s(1)] Some by (intro bexI [of _ s]) auto
    qed
    ultimately show ?thesis using d'(2) by simp
  qed
  then show "store_ok d'" "\<exists>ss. d' = source_capacity_states_update (\<lambda>_. ss) d"
    "\<forall>s' \<in> set (source_capacity_states d'). \<exists>s \<in> set (source_capacity_states d).
        sc_source_key s' = sc_source_key s \<and>
        sc_active_requests s' = sc_active_requests s
          - of_bool (wu_source_key work = Some (sc_source_key s))" by blast+
qed

lemma release_reservations_InrD:
  assumes rel: "release_reservations work now corr d = Inr d'" and sd: "store_ok d"
  shows "store_ok d'" and "reservation_returned work d d'"
    and "\<exists>hs ss. d' = source_capacity_states_update (\<lambda>_. ss) (worker_heartbeats_update (\<lambda>_. hs) d)"
proof -
  obtain d1 where w: "release_worker_reservation work corr d = Inr d1"
    and s: "release_source_reservation work now corr d1 = Inr d'"
    using rel by (auto simp: release_reservations_def result_bind_eq_Inr)
  note worker = release_worker_InrD [OF w store_ok_schema [OF sd]]
  note source = release_source_InrD [OF s worker(1)]
  obtain hs ss where hs: "d1 = worker_heartbeats_update (\<lambda>_. hs) d"
    and ss: "d' = source_capacity_states_update (\<lambda>_. ss) d1"
    using worker(2) source(2) by blast
  show "store_ok d'" by (rule source(1))
  show "\<exists>hs ss. d' = source_capacity_states_update (\<lambda>_. ss) (worker_heartbeats_update (\<lambda>_. hs) d)"
    using hs ss by blast
  have "worker_heartbeats d' = worker_heartbeats d1"
    "source_capacity_states d1 = source_capacity_states d"
    by (simp_all add: hs ss)
  then show "reservation_returned work d d'"
    using worker(3,4) source(3) unfolding reservation_returned_def by presburger
qed

section \<open>The steps that end a lease\<close>

lemma end_lease_ended:
  assumes sd: "store_ok d" and u: "u \<in> set (work_units d)" and a: "a \<in> set (work_attempts d)"
    and steps: "update_attempt (wa_attempt_id a) fa d = Inr d1"
      "update_unit (wu_work_id u) fu d1 = Inr d2"
      "release_reservations u now corr d2 = Inr d3"
      "(if wu_state (fu u) = Unit_DEAD_LETTER then insert_dead_letter l d3 else Inr d3) = Inr d4"
    and l: "dl_work_id l = wu_work_id u"
  shows "lease_ended u (fu u) a (fa a) d d4"
proof -
  have d1: "d1 = work_attempts_update (update_rows (\<lambda>x. wa_attempt_id x = wa_attempt_id a) fa) d"
    using steps(1) by (simp add: update_attempt_def)
  have d2: "d2 = work_units_update (update_rows (\<lambda>x. wu_work_id x = wu_work_id u) fu) d1" "store_ok d2"
    using steps(2) by (simp_all add: update_unit_def)
  note rel = release_reservations_InrD [OF steps(3) d2(2)]
  obtain hs ss where d3: "d3 = source_capacity_states_update (\<lambda>_. ss) (worker_heartbeats_update (\<lambda>_. hs) d2)"
    using rel(3) by blast
  have d4: "d4 = dead_letters_update (\<lambda>ls. ls @ (if wu_state (fu u) = Unit_DEAD_LETTER then [l] else [])) d3"
      "store_ok d4"
    using steps(4) rel(1)
    by (auto simp: insert_dead_letter_def insert_rows_def split: if_splits)
  have units: "work_units d4 = update_rows (\<lambda>x. wu_work_id x = wu_work_id u) (\<lambda>_. fu u) (work_units d)"
    using update_key_const [OF units.key_distinct [of d] u, of fu] sd by (simp add: d4(1) d3 d2(1) d1)
  have attempts: "work_attempts d4 =
      update_rows (\<lambda>x. wa_attempt_id x = wa_attempt_id a) (\<lambda>_. fa a) (work_attempts d)"
    using update_key_const [OF attempts.key_distinct [of d] a, of fa] sd by (simp add: d4(1) d3 d2(1) d1)
  have returned: "reservation_returned u d d4"
  proof -
    have "worker_heartbeats d4 = worker_heartbeats d3" "worker_heartbeats d2 = worker_heartbeats d"
      "source_capacity_states d4 = source_capacity_states d3"
      "source_capacity_states d2 = source_capacity_states d"
      by (simp_all add: d4(1) d2(1) d1)
    then have "reservation_returned u d d4 = reservation_returned u d2 d3"
      by (simp only: reservation_returned_def)
    then show ?thesis using rel(2) by simp
  qed
  have "worker_registrations d4 = worker_registrations d" "dead_letters d3 = dead_letters d"
    by (simp_all add: d4(1) d3 d2(1) d1)
  then show ?thesis
    using units attempts returned d4(2) l by (simp add: lease_ended_def d4(1))
qed

lemma clear_lease_simps [simp]:
  "wu_work_id (clear_lease now corr u) = wu_work_id u"
  "wu_source_key (clear_lease now corr u) = wu_source_key u"
  "wu_input_digest (clear_lease now corr u) = wu_input_digest u"
  "wu_attempt_count (clear_lease now corr u) = wu_attempt_count u"
  "wu_max_attempts (clear_lease now corr u) = wu_max_attempts u"
  "wu_failure_count (clear_lease now corr u) = wu_failure_count u"
  "wu_state (clear_lease now corr u) = wu_state u"
  "wu_revision (clear_lease now corr u) = wu_revision u + 1"
  by (simp_all add: clear_lease_def)

lemma failed_work_row_simps [simp]:
  "wu_work_id (failed_work_row decision n now corr u) = wu_work_id u"
  "wu_source_key (failed_work_row decision n now corr u) = wu_source_key u"
  "wu_input_digest (failed_work_row decision n now corr u) = wu_input_digest u"
  "wu_attempt_count (failed_work_row decision n now corr u) = wu_attempt_count u"
  "wu_max_attempts (failed_work_row decision n now corr u) = wu_max_attempts u"
  "wu_failure_count (failed_work_row decision n now corr u) = n"
  "wu_state (failed_work_row decision n now corr u) = fd_target_state decision"
  "wu_revision (failed_work_row decision n now corr u) = wu_revision u + 1"
  by (simp_all add: failed_work_row_def)

lemma retry_policy_of_Inr:
  "retry_policy_of u = Inr p \<Longrightarrow> rp_max_attempts p = wu_max_attempts u"
  by (auto simp: retry_policy_of_def make_retry_policy_def Let_def result_bind_eq_Inr)

lemma decision_released:
  assumes "retry_policy_of u = Inr p" and "retry_decide p kind (wu_failure_count u + 1) = Inr decision"
  shows "unit_released u (failed_work_row decision (wu_failure_count u + 1) now corr u)"
  using retry_decide_target [OF assms(2)] retry_policy_of_Inr [OF assms(1)]
  by (auto simp: unit_released_def)

lemma expire_locked_InrD:
  assumes run: "expire_locked u a now corr d = Inr (target, d')" and sd: "store_ok d"
    and u: "u \<in> set (work_units d)" and a: "a \<in> set (work_attempts d)"
  obtains policy decision where
    "retry_policy_of u = Inr policy"
    "retry_decide policy Failure_TRANSIENT (wu_failure_count u + 1) = Inr decision"
    "target = fd_target_state decision"
    "lease_ended u (failed_work_row decision (wu_failure_count u + 1) now corr u)
       a (expired_attempt_row now corr a) d d'"
    "unit_released u (failed_work_row decision (wu_failure_count u + 1) now corr u)"
    "attempt_finished a (expired_attempt_row now corr a)"
proof -
  let ?f = "\<lambda>decision. failed_work_row decision (wu_failure_count u + 1) now corr"
  let ?l = "expiry_dead_letter u a now corr"
  obtain policy decision d1 d2 d3 where
    p: "retry_policy_of u = Inr policy"
      "retry_decide policy Failure_TRANSIENT (wu_failure_count u + 1) = Inr decision"
    and steps: "update_attempt (wa_attempt_id a) (expired_attempt_row now corr) d = Inr d1"
      "update_unit (wu_work_id u) (?f decision) d1 = Inr d2"
      "release_reservations u now corr d2 = Inr d3"
      "(if wu_state (?f decision u) = Unit_DEAD_LETTER then insert_dead_letter ?l d3 else Inr d3) = Inr d'"
    and target: "target = fd_target_state decision"
    using run by (auto simp: expire_locked_def Let_def result_bind_eq_Inr)
  have "lease_ended u (?f decision u) a (expired_attempt_row now corr a) d d'"
    by (rule end_lease_ended [OF sd u a steps]) (simp add: expiry_dead_letter_def)
  moreover have "attempt_finished a (expired_attempt_row now corr a)"
    by (simp add: attempt_finished_def expired_attempt_row_def)
  ultimately show thesis using that p target decision_released [OF p] by blast
qed

end
