(* ===== verification/Engine_Preservation.thy ===== *)
theory Engine_Preservation
  imports Engine_Invariant
begin

text \<open>
  Every operation of the engine preserves \<open>engine_inv\<close>: the inversion lemmas of the lease
  operations, the preservation of the invariant by each operation, and the step relation of the
  engine with the invariant of its reachable states.
\<close>

section \<open>Inversion of the lease operations\<close>

lemma completed_rows:
  "attempt_finished a (completed_attempt_row c now a)"
  "unit_released u (completed_work_row c now u)"
  "wu_state (completed_work_row c now u) = Unit_SUCCEEDED"
  by (simp_all add: attempt_finished_def completed_attempt_row_def unit_released_def completed_work_row_def)

lemma released_rows:
  "attempt_finished a (released_attempt_row c now a)"
  "wu_failure_count u < wu_max_attempts u \<Longrightarrow> unit_released u (released_work_row c now u)"
  "wu_state (released_work_row c now u) = Unit_PENDING"
  by (simp_all add: attempt_finished_def released_attempt_row_def unit_released_def released_work_row_def)

lemma lock_work_and_attempt_InrD:
  assumes "lock_work_and_attempt work_id lease_id d = Inr (u, a)"
  shows "u \<in> set (work_units d)" and "wu_work_id u = work_id"
    and "a \<in> set (work_attempts d)" and "wa_lease_id a = lease_id"
  using assms select_one_SomeD [of wu_work_id work_id "work_units d" u]
    select_one_SomeD [of wa_lease_id lease_id "work_attempts d" a]
  by (auto simp: lock_work_and_attempt_def result_bind_eq_Inr split: option.splits)

lemma require_attempt_identity_Inr [simp]:
  "require_attempt_identity a work_id lease_id token worker digest = Inr x \<longleftrightarrow>
     wa_work_id a = work_id \<and> wa_lease_id a = lease_id \<and> wa_lease_token a = token
     \<and> wa_worker_id a = worker \<and> wa_input_digest a = digest"
  by (auto simp: require_attempt_identity_def)

lemma require_worker_build_Inr [simp]:
  "require_worker_build a build = Inr x \<longleftrightarrow> wa_worker_build_identity a = build"
  by (simp add: require_worker_build_def)

text \<open>The lease of a unit is live at an instant: neither its expiry nor its deadline is reached.\<close>

definition unit_live :: "int \<Rightarrow> work_unit_row \<Rightarrow> bool" where
  "unit_live now u \<longleftrightarrow>
     (case (wu_lease_expires_at_utc u, wu_heartbeat_deadline_utc u) of
        (Some expires, Some deadline) \<Rightarrow> now < expires \<and> now < deadline
      | _ \<Rightarrow> False)"

lemma require_active_rows_cases:
  assumes run: "require_active_rows now u a corr d = Inr (outcome, d')"
    and id: "wa_work_id a = wu_work_id u"
  shows "leased u" and "holds_lease u a"
    and "(outcome = Committed (u, a) \<and> d' = d \<and> unit_live now u) \<or>
         (outcome = CommittedConflict (WORK_LEASE_STALE (wu_work_id u) ''lease_expired'')
          \<and> \<not> unit_live now u \<and> (\<exists>target. expire_locked u a now corr d = Inr (target, d')))"
proof -
  have act: "leased u" "holds_lease u a"
    using run id by (simp_all add: require_active_rows_def holds_lease_def split: if_splits)
  then show "leased u" "holds_lease u a" by simp_all
  show "(outcome = Committed (u, a) \<and> d' = d \<and> unit_live now u) \<or>
         (outcome = CommittedConflict (WORK_LEASE_STALE (wu_work_id u) ''lease_expired'')
          \<and> \<not> unit_live now u \<and> (\<exists>target. expire_locked u a now corr d = Inr (target, d')))"
    using run act
    by (auto simp: require_active_rows_def holds_lease_def unit_live_def result_bind_eq_Inr
        split: option.splits if_splits)
qed

lemma lock_active_lease_cases:
  assumes run: "lock_active_lease now work_id lease_id token worker digest corr d = Inr (outcome, d')"
  obtains u a where "u \<in> set (work_units d)" "wu_work_id u = work_id" "leased u"
    "a \<in> set (work_attempts d)" "holds_lease u a"
    "wa_lease_id a = lease_id" "wa_lease_token a = token" "wa_worker_id a = worker"
    "wa_input_digest a = digest"
    "(outcome = Committed (u, a) \<and> d' = d \<and> unit_live now u) \<or>
     (outcome = CommittedConflict (WORK_LEASE_STALE (wu_work_id u) ''lease_expired'')
      \<and> \<not> unit_live now u \<and> (\<exists>target. expire_locked u a now corr d = Inr (target, d')))"
proof -
  obtain u a where locked: "lock_work_and_attempt work_id lease_id d = Inr (u, a)"
    and identity: "require_attempt_identity a work_id lease_id token worker digest = Inr ()"
    and active: "require_active_rows now u a corr d = Inr (outcome, d')"
    using run by (auto simp: lock_active_lease_def result_bind_eq_Inr)
  note rows = lock_work_and_attempt_InrD [OF locked]
  have id: "wa_work_id a = wu_work_id u" using identity rows(2) by simp
  show thesis
    using that [OF rows(1,2) _ rows(3)] require_active_rows_cases [OF active id] identity by simp
qed

lemma complete_active_InrD:
  assumes run: "complete_active uuids c now u a d = Inr (outcome, d')"
    and id: "wu_work_id u = wc_work_id c"
  obtains d1 d2 d3 where "consume_output_artifacts uuids u a c now d = Inr d1"
    "update_attempt (wa_attempt_id a) (completed_attempt_row c now) d1 = Inr d2"
    "update_unit (wu_work_id u) (completed_work_row c now) d2 = Inr d3"
    "release_reservations u now (wc_correlation_id c) d3 = Inr d'"
    "wc_output_contract c = wu_expected_output_contract u"
    "outcome = Committed \<lparr>cres_work_id = wc_work_id c, cres_status = APPLIED,
       cres_output_digest = wc_output_digest c, cres_revision = wu_revision u + 1\<rparr>"
  using run id
  by (auto simp: complete_active_def result_bind_eq_Inr split: if_splits)

lemma fail_active_InrD:
  assumes run: "fail_active c now u a d = Inr (outcome, d')" and id: "wu_work_id u = wf_work_id c"
    and sd: "store_ok d" and u: "u \<in> set (work_units d)" and a: "a \<in> set (work_attempts d)"
  obtains policy decision where
    "retry_policy_of u = Inr policy"
    "retry_decide policy (wf_failure_kind c) (wu_failure_count u + 1) = Inr decision"
    "wa_worker_build_identity a = wf_worker_build_identity c"
    "outcome = Committed \<lparr>mres_work_id = wf_work_id c, mres_state = fd_target_state decision,
                mres_revision = wu_revision u + 1,
                mres_available_at_utc = (if fd_target_state decision = Unit_RETRY_WAIT
                                         then Some (retry_available_at now decision) else None)\<rparr>"
    "lease_ended u (failed_work_row decision (wu_failure_count u + 1) now (wf_correlation_id c) u)
       a (failed_attempt_row c decision now a) d d'"
    "unit_released u (failed_work_row decision (wu_failure_count u + 1) now (wf_correlation_id c) u)"
    "attempt_finished a (failed_attempt_row c decision now a)"
proof -
  let ?f = "\<lambda>decision. failed_work_row decision (wu_failure_count u + 1) now (wf_correlation_id c)"
  let ?l = "failure_dead_letter c a now"
  obtain policy decision d1 d2 d3 where
    p: "retry_policy_of u = Inr policy"
      "retry_decide policy (wf_failure_kind c) (wu_failure_count u + 1) = Inr decision"
      "wa_worker_build_identity a = wf_worker_build_identity c"
    and steps: "update_attempt (wa_attempt_id a) (failed_attempt_row c decision now) d = Inr d1"
      "update_unit (wu_work_id u) (?f decision) d1 = Inr d2"
      "release_reservations u now (wf_correlation_id c) d2 = Inr d3"
      "(if wu_state (?f decision u) = Unit_DEAD_LETTER then insert_dead_letter ?l d3 else Inr d3) = Inr d'"
    and out: "outcome = Committed \<lparr>mres_work_id = wf_work_id c, mres_state = fd_target_state decision,
                mres_revision = wu_revision u + 1,
                mres_available_at_utc = (if fd_target_state decision = Unit_RETRY_WAIT
                                         then Some (retry_available_at now decision) else None)\<rparr>"
    using run id by (auto simp: fail_active_def Let_def result_bind_eq_Inr)
  have "lease_ended u (?f decision u) a (failed_attempt_row c decision now a) d d'"
    by (rule end_lease_ended [OF sd u a steps]) (simp add: failure_dead_letter_def id)
  moreover have "attempt_finished a (failed_attempt_row c decision now a)"
    using retry_decide_target(4) [OF p(2)] by (auto simp: attempt_finished_def failed_attempt_row_def)
  ultimately show thesis using that p out decision_released [OF p(1,2)] by blast
qed

lemma release_active_InrD:
  assumes run: "release_active c now u a d = Inr (outcome, d')" and id: "wu_work_id u = wrl_work_id c"
    and sd: "store_ok d" and u: "u \<in> set (work_units d)" and a: "a \<in> set (work_attempts d)"
  shows "wa_worker_build_identity a = wrl_worker_build_identity c"
    and "outcome = Committed \<lparr>mres_work_id = wrl_work_id c, mres_state = Unit_PENDING,
                     mres_revision = wu_revision u + 1, mres_available_at_utc = Some now\<rparr>"
    and "lease_ended u (released_work_row c now u) a (released_attempt_row c now a) d d'"
proof -
  obtain d1 d2 where build: "wa_worker_build_identity a = wrl_worker_build_identity c"
    and steps: "update_attempt (wa_attempt_id a) (released_attempt_row c now) d = Inr d1"
      "update_unit (wu_work_id u) (released_work_row c now) d1 = Inr d2"
      "release_reservations u now (wrl_correlation_id c) d2 = Inr d'"
    and out: "outcome = Committed \<lparr>mres_work_id = wrl_work_id c, mres_state = Unit_PENDING,
                     mres_revision = wu_revision u + 1, mres_available_at_utc = Some now\<rparr>"
    using run id by (auto simp: release_active_def result_bind_eq_Inr)
  show "lease_ended u (released_work_row c now u) a (released_attempt_row c now a) d d'"
    by (rule end_lease_ended [OF sd u a steps,
          where l = "expiry_dead_letter u a now (wrl_correlation_id c)"])
      (simp_all add: released_rows expiry_dead_letter_def)
qed (use run in \<open>auto simp: release_active_def result_bind_eq_Inr\<close>)

section \<open>Operations that end a lease\<close>

lemma expire_locked_inv:
  assumes "engine_inv d" "u \<in> set (work_units d)" "leased u" "a \<in> set (work_attempts d)"
    "holds_lease u a" "expire_locked u a now corr d = Inr (target, d')"
  shows "engine_inv d'"
proof -
  obtain decision where "lease_ended u (failed_work_row decision (wu_failure_count u + 1) now corr u)
       a (expired_attempt_row now corr a) d d'"
    "unit_released u (failed_work_row decision (wu_failure_count u + 1) now corr u)"
    "attempt_finished a (expired_attempt_row now corr a)"
    using expire_locked_InrD [OF assms(6) _ assms(2,4)] assms(1) by (metis engine_inv_store)
  then show ?thesis using lease_ended_inv [OF assms(1-5)] by blast
qed

lemma fail_active_inv:
  assumes "engine_inv d" "u \<in> set (work_units d)" "leased u" "a \<in> set (work_attempts d)"
    "holds_lease u a" "fail_active c now u a d = Inr (outcome, d')" "wu_work_id u = wf_work_id c"
  shows "engine_inv d'"
proof -
  obtain decision where
    "lease_ended u (failed_work_row decision (wu_failure_count u + 1) now (wf_correlation_id c) u)
       a (failed_attempt_row c decision now a) d d'"
    "unit_released u (failed_work_row decision (wu_failure_count u + 1) now (wf_correlation_id c) u)"
    "attempt_finished a (failed_attempt_row c decision now a)"
    using fail_active_InrD [OF assms(6,7) _ assms(2,4)] assms(1) by (metis engine_inv_store)
  then show ?thesis using lease_ended_inv [OF assms(1-5)] by blast
qed

lemma leased_budget:
  "engine_inv d \<Longrightarrow> u \<in> set (work_units d) \<Longrightarrow> leased u \<Longrightarrow> wu_failure_count u < wu_max_attempts u"
  by (simp add: engine_inv_def budget_inv_def)

lemma release_active_inv:
  assumes "engine_inv d" "u \<in> set (work_units d)" "leased u" "a \<in> set (work_attempts d)"
    "holds_lease u a" "release_active c now u a d = Inr (outcome, d')" "wu_work_id u = wrl_work_id c"
  shows "engine_inv d'"
proof -
  have "lease_ended u (released_work_row c now u) a (released_attempt_row c now a) d d'"
    using release_active_InrD(3) [OF assms(6,7) _ assms(2,4)] assms(1) by simp
  then show ?thesis
    using released_rows leased_budget [OF assms(1-3)] by (intro lease_ended_inv [OF assms(1-5)])
qed

text \<open>Consuming the output uploads touches the artifact tables only.\<close>

definition without_artifacts :: "db \<Rightarrow> db" where
  "without_artifacts d = d\<lparr>artifact_uploads := [], artifact_objects := [], artifact_records := [],
     work_output_artifacts := []\<rparr>"

definition artifact_step :: "db \<Rightarrow> db \<Rightarrow> bool" where
  "artifact_step d d' \<longleftrightarrow> without_artifacts d' = without_artifacts d"

lemma artifact_step_trans: "artifact_step d d' \<Longrightarrow> artifact_step d' d'' \<Longrightarrow> artifact_step d d''"
  by (simp add: artifact_step_def)

lemma artifact_step_update [simp]:
  "artifact_step d d"
  "artifact_step d (artifact_uploads_update f d)" "artifact_step d (artifact_objects_update g d)"
  "artifact_step d (artifact_records_update h d)" "artifact_step d (work_output_artifacts_update k d)"
  by (simp_all add: artifact_step_def without_artifacts_def)

lemma artifact_stepD:
  assumes "artifact_step d d'"
  shows "work_units d' = work_units d" and "work_attempts d' = work_attempts d"
    and "worker_heartbeats d' = worker_heartbeats d"
    and "worker_registrations d' = worker_registrations d"
    and "source_capacity_states d' = source_capacity_states d" and "dead_letters d' = dead_letters d"
    and "collection_runs d' = collection_runs d" and "stage_runs d' = stage_runs d"
  using assms
  by (cases d; cases d'; simp add: artifact_step_def without_artifacts_def)+

lemma get_or_create_step:
  assumes "get_or_create_artifact_object uuids i upload ref verified now corr d = Inr (obj, j, d')"
    and "store_ok d"
  shows "artifact_step d d' \<and> store_ok d'"
  using assms by (auto simp: get_or_create_artifact_object_def result_bind_eq_Inr
      split: option.splits if_splits)

lemma consume_upload_step:
  assumes "consume_upload uuids i u a c now position upload role d = Inr (j, d')" and "store_ok d"
  shows "artifact_step d d' \<and> store_ok d'"
proof -
  obtain ref verified obj k d1 d2 d3 where
    "get_or_create_artifact_object uuids i upload ref verified now (wc_correlation_id c) d = Inr (obj, k, d1)"
    and "\<exists>f. d2 = artifact_records_update f d1" "\<exists>f. d3 = work_output_artifacts_update f d2"
    and "\<exists>f. d' = artifact_uploads_update f d3" "store_ok d'"
    using assms(1)
    by (auto simp: consume_upload_def result_bind_eq_Inr split: option.splits if_splits) blast
  then show ?thesis using get_or_create_step assms(2) artifact_step_trans artifact_step_update by metis
qed

lemma consume_uploads_step:
  "consume_uploads uuids u a c now uploads i position bs d = Inr d' \<Longrightarrow> store_ok d \<Longrightarrow>
   artifact_step d d' \<and> store_ok d'"
proof (induction bs arbitrary: i position d)
  case (Cons b bs)
  then obtain upload j d1 where
    "consume_upload uuids i u a c now position upload (oa_role b) d = Inr (j, d1)"
    and "consume_uploads uuids u a c now uploads j (Suc position) bs d1 = Inr d'"
    by (auto simp: result_bind_eq_Inr split: option.splits)
  then show ?case using Cons.IH Cons.prems(2) consume_upload_step artifact_step_trans by metis
qed simp

lemma consume_output_artifacts_step:
  "consume_output_artifacts uuids u a c now d = Inr d' \<Longrightarrow> store_ok d \<Longrightarrow> artifact_step d d' \<and> store_ok d'"
  using consume_uploads_step by (auto simp: consume_output_artifacts_def Let_def split: if_splits)

lemma artifact_step_inv:
  assumes "engine_inv d" and "artifact_step d d'" and "store_ok d'"
  shows "engine_inv d'"
  by (rule engine_inv_frame [OF assms(1,3) artifact_stepD(1-6) [OF assms(2)]])

lemma complete_active_ended:
  assumes "engine_inv d" "u \<in> set (work_units d)" "a \<in> set (work_attempts d)"
    "complete_active uuids c now u a d = Inr (outcome, d')" "wu_work_id u = wc_work_id c"
  obtains d1 where "artifact_step d d1" "engine_inv d1"
    "lease_ended u (completed_work_row c now u) a (completed_attempt_row c now a) d1 d'"
proof -
  obtain d1 d2 d3 where c: "consume_output_artifacts uuids u a c now d = Inr d1"
    and steps: "update_attempt (wa_attempt_id a) (completed_attempt_row c now) d1 = Inr d2"
    "update_unit (wu_work_id u) (completed_work_row c now) d2 = Inr d3"
    "release_reservations u now (wc_correlation_id c) d3 = Inr d'"
    by (rule complete_active_InrD [OF assms(4,5)])
  have step: "artifact_step d d1" "store_ok d1"
    using consume_output_artifacts_step [OF c] assms(1) by auto
  then have "u \<in> set (work_units d1)" "a \<in> set (work_attempts d1)"
    using assms(2,3) artifact_stepD [OF step(1)] by simp_all
  then have "lease_ended u (completed_work_row c now u) a (completed_attempt_row c now a) d1 d'"
    by (rule end_lease_ended [OF step(2) _ _ steps,
          where l = "expiry_dead_letter u a now (wc_correlation_id c)"])
      (simp_all add: completed_rows expiry_dead_letter_def)
  then show thesis using that step artifact_step_inv [OF assms(1)] by blast
qed

lemma complete_active_inv:
  assumes "engine_inv d" "u \<in> set (work_units d)" "leased u" "a \<in> set (work_attempts d)"
    "holds_lease u a" "complete_active uuids c now u a d = Inr (outcome, d')"
    "wu_work_id u = wc_work_id c"
  shows "engine_inv d'"
proof -
  obtain d1 where d1: "artifact_step d d1" "engine_inv d1"
    "lease_ended u (completed_work_row c now u) a (completed_attempt_row c now a) d1 d'"
    using complete_active_ended [OF assms(1,2,4,6,7)] by blast
  then have "u \<in> set (work_units d1)" "a \<in> set (work_attempts d1)"
    using assms(2,4) artifact_stepD [OF d1(1)] by simp_all
  then show ?thesis using lease_ended_inv [OF d1(2) _ assms(3) _ assms(5) d1(3)] completed_rows by blast
qed

section \<open>Every operation keeps the invariant\<close>

lemma when_active_cases:
  assumes "when_active active rest = Inr (outcome, d')"
  obtains (Expired) c where "active = Inr (CommittedConflict c, d')" "outcome = CommittedConflict c"
    | (Active) x d where "active = Inr (Committed x, d)" "rest x d = Inr (outcome, d')"
proof -
  obtain x d where x: "active = Inr (x, d)"
    "(case x of CommittedConflict c \<Rightarrow> Inr (CommittedConflict c, d) | Committed y \<Rightarrow> rest y d) = Inr (outcome, d')"
    using assms by (auto simp: when_active_def result_bind_eq_Inr)
  then show thesis using Expired Active by (cases x) auto
qed

lemma lock_active_lease_inv:
  assumes "lock_active_lease now work_id lease_id token worker digest corr d = Inr (outcome, d')"
    and "engine_inv d"
  shows "engine_inv d'"
  using lock_active_lease_cases [OF assms(1)] expire_locked_inv [OF assms(2)] assms(2) by metis

lemma active_operation_inv:
  assumes run: "when_active (lock_active_lease now work_id lease_id token worker digest corr d)
      (\<lambda>(u, a). rest u a) = Inr (outcome, d')"
    and inv: "engine_inv d"
    and rest: "\<And>u a. u \<in> set (work_units d) \<Longrightarrow> leased u \<Longrightarrow> a \<in> set (work_attempts d) \<Longrightarrow>
      holds_lease u a \<Longrightarrow> wu_work_id u = work_id \<Longrightarrow> rest u a d = Inr (outcome, d') \<Longrightarrow> engine_inv d'"
  shows "engine_inv d'"
  using run
proof (cases rule: when_active_cases)
  case (Expired c)
  then show ?thesis using lock_active_lease_inv inv by blast
next
  case (Active x d1)
  from lock_active_lease_cases [OF Active(1)] obtain u a where
    "u \<in> set (work_units d)" "wu_work_id u = work_id" "leased u" "a \<in> set (work_attempts d)"
    "holds_lease u a" "x = (u, a)" "d1 = d" by (metis committed.distinct(1) committed.inject(1))
  then show ?thesis using rest Active(2) by simp
qed

lemma fail_tx_inv: "fail_tx c now d = Inr (outcome, d') \<Longrightarrow> engine_inv d \<Longrightarrow> engine_inv d'"
  unfolding fail_tx_def by (erule active_operation_inv) (auto intro: fail_active_inv)

lemma release_tx_inv: "release_tx c now d = Inr (outcome, d') \<Longrightarrow> engine_inv d \<Longrightarrow> engine_inv d'"
  unfolding release_tx_def by (erule active_operation_inv) (auto intro: release_active_inv)

lemma core_rows [simp]:
  "unit_core (renew_work_row c now u) = unit_core u"
  "attempt_core (renew_attempt_row c now a) = attempt_core a"
  by (simp_all add: unit_core_def attempt_core_def renew_work_row_def renew_attempt_row_def)

lemma heartbeat_active_inv:
  assumes inv: "engine_inv d"
    and steps: "update_unit work_id (renew_work_row c now) d = Inr d1"
      "update_attempt attempt_id (renew_attempt_row c now) d1 = Inr d2"
      "execute (worker_heartbeats_update (update_rows (\<lambda>h. wh_worker_id h = hb_worker_id c)
        (\<lambda>h. h\<lparr>wh_last_seen_at_utc := now, wh_correlation_id := hb_correlation_id c\<rparr>))) d2 = Inr d3"
  shows "engine_inv d3"
proof -
  have eq: "d1 = work_units_update (update_rows (\<lambda>u. wu_work_id u = work_id) (renew_work_row c now)) d"
    "d2 = work_attempts_update (update_rows (\<lambda>a. wa_attempt_id a = attempt_id) (renew_attempt_row c now)) d1"
    "d3 = worker_heartbeats_update (update_rows (\<lambda>h. wh_worker_id h = hb_worker_id c)
        (\<lambda>h. h\<lparr>wh_last_seen_at_utc := now, wh_correlation_id := hb_correlation_id c\<rparr>)) d2" "store_ok d3"
    using steps by (simp_all add: update_unit_def update_attempt_def)
  show ?thesis
    by (rule engine_inv_core [OF inv eq(4)]) (simp_all add: eq(1-3) map_update_rows)
qed

lemma heartbeat_tx_inv: "heartbeat_tx c now d = Inr (outcome, d') \<Longrightarrow> engine_inv d \<Longrightarrow> engine_inv d'"
  unfolding heartbeat_tx_def
  by (erule active_operation_inv, assumption)
    (auto simp: result_bind_eq_Inr simp del: execute_eq_Inr intro: heartbeat_active_inv)

lemma complete_tx_cases:
  assumes "complete_tx uuids c now d = Inr (outcome, d')"
  obtains (Again) u a where "u \<in> set (work_units d)" "a \<in> set (work_attempts d)"
      "wu_work_id u = wc_work_id c" "wa_lease_id a = wc_lease_id c" "wa_work_id a = wc_work_id c"
      "wu_state u = Unit_SUCCEEDED" "complete_again c u a d = Inr (outcome, d')"
    | (Expired) u a target where "u \<in> set (work_units d)" "a \<in> set (work_attempts d)"
      "wu_work_id u = wc_work_id c" "leased u" "holds_lease u a" "\<not> unit_live now u"
      "outcome = CommittedConflict (WORK_LEASE_STALE (wc_work_id c) ''lease_expired'')"
      "expire_locked u a now (wc_correlation_id c) d = Inr (target, d')"
    | (Active) u a where "u \<in> set (work_units d)" "a \<in> set (work_attempts d)"
      "wu_work_id u = wc_work_id c" "leased u" "holds_lease u a" "unit_live now u"
      "wa_lease_id a = wc_lease_id c" "wa_lease_token a = wc_lease_token c"
      "wa_worker_id a = wc_worker_id c" "wa_input_digest a = wc_input_digest c"
      "wa_worker_build_identity a = wc_worker_build_identity c"
      "complete_active uuids c now u a d = Inr (outcome, d')"
proof -
  obtain u a where locked: "lock_work_and_attempt (wc_work_id c) (wc_lease_id c) d = Inr (u, a)"
    and identity: "require_attempt_identity a (wc_work_id c) (wc_lease_id c) (wc_lease_token c)
        (wc_worker_id c) (wc_input_digest c) = Inr ()"
    and build: "wa_worker_build_identity a = wc_worker_build_identity c"
    and rest: "(if wu_state u = Unit_SUCCEEDED then complete_again c u a d
      else when_active (require_active_rows now u a (wc_correlation_id c) d)
        (\<lambda>_ d'. complete_active uuids c now u a d')) = Inr (outcome, d')"
    using assms by (auto simp: complete_tx_def result_bind_eq_Inr)
  note rows = lock_work_and_attempt_InrD [OF locked]
  show thesis
  proof (cases "wu_state u = Unit_SUCCEEDED")
    case True
    then show thesis using Again [OF rows(1,3,2,4)] rest identity by simp
  next
    case False
    have id: "wa_work_id a = wu_work_id u" using identity rows by simp
    have "when_active (require_active_rows now u a (wc_correlation_id c) d)
        (\<lambda>_ d'. complete_active uuids c now u a d') = Inr (outcome, d')"
      using False rest by simp
    then show thesis
    proof (cases rule: when_active_cases)
      case ex: (Expired e)
      show thesis using require_active_rows_cases [OF ex(1) id] ex(2) rows Expired [OF rows(1,3,2)] by auto
    next
      case act: (Active x d1)
      show thesis
        using require_active_rows_cases [OF act(1) id] act(2) rows identity build Active [OF rows(1,3,2)]
        by auto
    qed
  qed
qed

lemma complete_again_same: "complete_again c u a d = Inr (outcome, d') \<Longrightarrow> d' = d"
  by (auto simp: complete_again_def result_bind_eq_Inr split: if_splits)

lemma complete_tx_inv: "complete_tx uuids c now d = Inr (outcome, d') \<Longrightarrow> engine_inv d \<Longrightarrow> engine_inv d'"
  by (erule complete_tx_cases)
    (auto dest: complete_again_same intro: expire_locked_inv complete_active_inv)

end
