(* ===== verification/Engine_Issue.thy ===== *)
theory Engine_Issue
  imports Engine_Preservation
begin

text \<open>
  Granting leases and the expiry sweep keep the invariant, as do registration, source
  configuration, runs, stages and enqueueing. The section on the sweep also gives its exact effect
  on the table of work units.
\<close>

section \<open>Granting a lease\<close>

definition reservation_taken :: "string \<Rightarrow> work_unit_row \<Rightarrow> db \<Rightarrow> db \<Rightarrow> bool" where
  "reservation_taken worker u d d' \<longleftrightarrow>
     map (\<lambda>h. (wh_worker_id h, wh_active_lease_count h)) (worker_heartbeats d') =
     map (\<lambda>h. (wh_worker_id h, wh_active_lease_count h + of_bool (wh_worker_id h = worker)))
       (worker_heartbeats d)
     \<and> map (\<lambda>s. (sc_source_key s, sc_active_requests s)) (source_capacity_states d') =
     map (\<lambda>s. (sc_source_key s, sc_active_requests s + of_bool (wu_source_key u = Some (sc_source_key s))))
       (source_capacity_states d)"

definition lease_issued ::
    "work_unit_row \<Rightarrow> work_unit_row \<Rightarrow> work_attempt_row \<Rightarrow> string \<Rightarrow> db \<Rightarrow> db \<Rightarrow> bool" where
  "lease_issued u u' a worker d d' \<longleftrightarrow>
     work_units d' = update_rows (\<lambda>x. wu_work_id x = wu_work_id u) (\<lambda>_. u') (work_units d)
     \<and> work_attempts d' = work_attempts d @ [a]
     \<and> reservation_taken worker u d d'
     \<and> worker_registrations d' = worker_registrations d
     \<and> dead_letters d' = dead_letters d
     \<and> store_ok d'"

definition unit_leased :: "work_unit_row \<Rightarrow> work_unit_row \<Rightarrow> string \<Rightarrow> work_attempt_row \<Rightarrow> bool" where
  "unit_leased u u' worker a \<longleftrightarrow>
     wu_work_id u' = wu_work_id u \<and> wu_source_key u' = wu_source_key u
     \<and> wu_input_digest u' = wu_input_digest u \<and> wu_attempt_count u' = wu_attempt_count u + 1
     \<and> wu_max_attempts u' = wu_max_attempts u \<and> wu_failure_count u' = wu_failure_count u
     \<and> leased u' \<and> holds_lease u' a \<and> wa_worker_id a = worker
     \<and> wa_attempt_number a = wu_attempt_count u + 1 \<and> wa_input_digest a = wu_input_digest u"

lemma lease_issued_sets:
  assumes "lease_issued u u' a worker d d'" and "schema_ok d" and "u \<in> set (work_units d)"
  shows "set (work_units d') = insert u' (set (work_units d) - {u})"
    and "count_rows P (work_units d') = count_rows P (work_units d) - of_bool (P u) + of_bool (P u')"
  using assms(1) units.rows_update [OF assms(2,3), of "\<lambda>_. u'"]
    units.count_update [OF assms(2,3), of P "\<lambda>_. u'"]
  by (simp_all add: lease_issued_def)

lemma lease_issued_lease_inv:
  assumes inv: "engine_inv d" and u: "u \<in> set (work_units d)" "\<not> leased u"
    and iss: "lease_issued u u' a worker d d'" and u': "unit_leased u u' worker a"
  shows "lease_inv d'"
proof -
  have sd: "schema_ok d" using inv by simp
  note sets = lease_issued_sets(1) [OF iss sd u(1)]
  have att: "set (work_attempts d') = insert a (set (work_attempts d))"
    using iss by (auto simp: lease_issued_def)
  have "\<exists>b \<in> set (work_attempts d'). holds_lease v b" if v: "v \<in> set (work_units d')" "leased v" for v
  proof (cases "v = u'")
    case True
    then show ?thesis using u' att by (auto simp: unit_leased_def)
  next
    case False
    then have "v \<in> set (work_units d)" using v(1) sets by blast
    then show ?thesis using inv v(2) att unfolding engine_inv_def lease_inv_def by blast
  qed
  moreover have "\<exists>v \<in> set (work_units d'). leased v \<and> holds_lease v b"
    if b: "b \<in> set (work_attempts d')" "wa_outcome b = Outcome_LEASED" for b
  proof (cases "b = a")
    case True
    then show ?thesis using u' sets by (auto simp: unit_leased_def)
  next
    case False
    then obtain v where "v \<in> set (work_units d)" "leased v" "holds_lease v b"
      using b inv att unfolding engine_inv_def lease_inv_def by blast
    moreover have "v \<noteq> u" using calculation u(2) by blast
    ultimately show ?thesis using sets by blast
  qed
  ultimately show ?thesis by (simp add: lease_inv_def)
qed

lemma lease_issued_attempt_inv:
  assumes inv: "engine_inv d" and u: "u \<in> set (work_units d)"
    and iss: "lease_issued u u' a worker d d'" and u': "unit_leased u u' worker a"
  shows "attempt_inv d'"
proof -
  have sd: "schema_ok d" using inv by simp
  note sets = lease_issued_sets(1) [OF iss sd u]
  have att: "work_attempts d' = work_attempts d @ [a]" and aid: "wa_work_id a = wu_work_id u"
    using iss u' by (auto simp: lease_issued_def unit_leased_def holds_lease_def)
  have old: "count_rows (\<lambda>b. wa_work_id b = wu_work_id v) (work_attempts d) = wu_attempt_count v"
      "b \<in> set (work_attempts d) \<Longrightarrow> wa_work_id b = wu_work_id v \<Longrightarrow>
        wa_attempt_number b \<le> wu_attempt_count v \<and> wa_input_digest b = wu_input_digest v"
    if "v \<in> set (work_units d)" for v b
    using that inv by (simp_all add: engine_inv_def attempt_inv_def)
  have "count_rows (\<lambda>b. wa_work_id b = wu_work_id v) (work_attempts d') = wu_attempt_count v
    \<and> (\<forall>b \<in> set (work_attempts d'). wa_work_id b = wu_work_id v \<longrightarrow>
        wa_attempt_number b \<le> wu_attempt_count v \<and> wa_input_digest b = wu_input_digest v)"
    if v: "v \<in> set (work_units d')" for v
  proof (cases "v = u'")
    case True
    then show ?thesis using u' old [OF u] aid by (fastforce simp: att unit_leased_def)
  next
    case False
    then have "v \<in> set (work_units d)" "v \<noteq> u" using v sets by auto
    moreover have "wu_work_id v \<noteq> wu_work_id u"
      using calculation units.key_unique [OF sd _ u] by blast
    ultimately show ?thesis using old [of v] aid by (simp add: att)
  qed
  then show ?thesis by (simp add: attempt_inv_def)
qed

lemma lease_issued_loads:
  assumes inv: "engine_inv d" and u: "u \<in> set (work_units d)" "\<not> leased u"
    and iss: "lease_issued u u' a worker d d'" and u': "unit_leased u u' worker a"
  shows "worker_load d' w = worker_load d w + of_bool (w = worker)"
    and "source_load d' k = source_load d k + of_bool (wu_source_key u = Some k)"
  using lease_issued_sets(2) [OF iss _ u(1)] inv u(2) u'
  by (simp_all add: worker_load_def source_load_def unit_leased_def holds_lease_def eq_commute)

lemma lease_issued_worker_inv:
  assumes inv: "engine_inv d" and u: "u \<in> set (work_units d)" "\<not> leased u"
    and iss: "lease_issued u u' a worker d d'" and u': "unit_leased u u' worker a"
    and free: "\<And>r. r \<in> set (worker_registrations d) \<Longrightarrow> wr_worker_id r = worker \<Longrightarrow>
      worker_load d worker < wr_max_concurrency r"
  shows "worker_inv d'"
proof -
  note load = lease_issued_loads(1) [OF inv u iss u']
  have hb: "map (\<lambda>h. (wh_worker_id h, wh_active_lease_count h)) (worker_heartbeats d') =
     map (\<lambda>h. (wh_worker_id h, wh_active_lease_count h + of_bool (wh_worker_id h = worker)))
       (worker_heartbeats d)"
    and regs: "worker_registrations d' = worker_registrations d"
    using iss by (simp_all add: lease_issued_def reservation_taken_def)
  have ids: "map wh_worker_id (worker_heartbeats d') = map wh_worker_id (worker_heartbeats d)"
    using arg_cong [OF hb, of "map fst"] by (simp add: comp_def)
  have "wh_active_lease_count h' = worker_load d' (wh_worker_id h')"
    if h': "h' \<in> set (worker_heartbeats d')" for h'
  proof -
    have "(wh_worker_id h', wh_active_lease_count h') \<in>
        set (map (\<lambda>h. (wh_worker_id h, wh_active_lease_count h)) (worker_heartbeats d'))"
      using h' by auto
    then obtain h where "h \<in> set (worker_heartbeats d)" "wh_worker_id h' = wh_worker_id h"
      "wh_active_lease_count h' = wh_active_lease_count h + of_bool (wh_worker_id h = worker)"
      unfolding hb by auto
    then show ?thesis using inv load by (simp add: engine_inv_def worker_inv_def)
  qed
  moreover have "\<exists>h \<in> set (worker_heartbeats d'). wh_worker_id h = wr_worker_id r"
    if "r \<in> set (worker_registrations d)" for r
  proof -
    have "wr_worker_id r \<in> set (map wh_worker_id (worker_heartbeats d))"
      using that inv unfolding engine_inv_def worker_inv_def by force
    then show ?thesis using ids by (metis (no_types, lifting) image_iff set_map)
  qed
  moreover have "worker_load d' (wr_worker_id r) \<le> wr_max_concurrency r"
    if r: "r \<in> set (worker_registrations d)" for r
    using load free [OF r] inv r
    by (cases "wr_worker_id r = worker") (auto simp: engine_inv_def worker_inv_def)
  ultimately show ?thesis by (simp add: worker_inv_def regs)
qed

lemma lease_issued_rest_inv:
  assumes inv: "engine_inv d" and u: "u \<in> set (work_units d)" "wu_state u \<in> {Unit_PENDING, Unit_RETRY_WAIT}"
    and iss: "lease_issued u u' a worker d d'" and u': "unit_leased u u' worker a"
  shows "source_inv d'" and "budget_inv d'" and "letter_inv d'"
proof -
  have sd: "schema_ok d" and nl: "\<not> leased u" using inv u(2) by auto
  note sets = lease_issued_sets(1) [OF iss sd u(1)] and load = lease_issued_loads(2) [OF inv u(1) nl iss u']
  have src: "map (\<lambda>s. (sc_source_key s, sc_active_requests s)) (source_capacity_states d') =
     map (\<lambda>s. (sc_source_key s, sc_active_requests s + of_bool (wu_source_key u = Some (sc_source_key s))))
       (source_capacity_states d)" and letters: "dead_letters d' = dead_letters d"
    using iss by (simp_all add: lease_issued_def reservation_taken_def)
  have "sc_active_requests s' = source_load d' (sc_source_key s')"
    if s': "s' \<in> set (source_capacity_states d')" for s'
  proof -
    have "(sc_source_key s', sc_active_requests s') \<in>
        set (map (\<lambda>s. (sc_source_key s, sc_active_requests s)) (source_capacity_states d'))"
      using s' by auto
    then obtain s where "s \<in> set (source_capacity_states d)" "sc_source_key s' = sc_source_key s"
      "sc_active_requests s' = sc_active_requests s + of_bool (wu_source_key u = Some (sc_source_key s))"
      unfolding src by auto
    then show ?thesis using inv load by (simp add: engine_inv_def source_inv_def)
  qed
  then show "source_inv d'" by (simp add: source_inv_def)
  have budget: "budget_inv d" and "letter_inv d" using inv by (simp_all add: engine_inv_def)
  then have letter: "v \<in> set (work_units d) \<Longrightarrow>
      wu_state v = Unit_DEAD_LETTER \<longleftrightarrow> wu_work_id v \<in> set (map dl_work_id (dead_letters d))" for v
    unfolding letter_inv_def by blast
  have ub: "wu_failure_count u < wu_max_attempts u" and
    ul: "wu_work_id u \<notin> set (map dl_work_id (dead_letters d))"
    using budget u letter [OF u(1)] by (auto simp: budget_inv_def)
  have "wu_failure_count v < wu_max_attempts v"
    if "v \<in> set (work_units d')" "wu_state v \<in> {Unit_PENDING, Unit_LEASED, Unit_RETRY_WAIT}" for v
    using that sets inv ub u' by (cases "v = u'") (auto simp: engine_inv_def budget_inv_def unit_leased_def)
  then show "budget_inv d'" by (simp add: budget_inv_def)
  have "wu_state v = Unit_DEAD_LETTER \<longleftrightarrow> wu_work_id v \<in> set (map dl_work_id (dead_letters d'))"
    if "v \<in> set (work_units d')" for v
  proof (cases "v = u'")
    case True
    then show ?thesis using u' ul by (simp add: letters unit_leased_def)
  next
    case False
    then show ?thesis using that sets inv unfolding engine_inv_def letter_inv_def letters by blast
  qed
  then show "letter_inv d'" by (simp add: letter_inv_def)
qed

lemma lease_issued_inv:
  assumes "engine_inv d" "u \<in> set (work_units d)" "wu_state u \<in> {Unit_PENDING, Unit_RETRY_WAIT}"
    "lease_issued u u' a worker d d'" "unit_leased u u' worker a"
    "\<And>r. r \<in> set (worker_registrations d) \<Longrightarrow> wr_worker_id r = worker \<Longrightarrow>
      worker_load d worker < wr_max_concurrency r"
  shows "engine_inv d'"
proof -
  have nl: "\<not> leased u" using assms(3) by auto
  show ?thesis
    using lease_issued_lease_inv [OF assms(1,2) nl assms(4,5)]
      lease_issued_attempt_inv [OF assms(1,2,4,5)]
      lease_issued_worker_inv [OF assms(1,2) nl assms(4-6)] lease_issued_rest_inv [OF assms(1-5)] assms(4)
    by (simp add: engine_inv_def lease_issued_def)
qed

section \<open>Inversion of the lease request\<close>

lemma select_lease_worker_InrD:
  assumes "select_lease_worker c d = Inr (r, h)"
  shows "r \<in> set (worker_registrations d)" and "wr_worker_id r = lr_worker_id c"
    and "h \<in> set (worker_heartbeats d)" and "wh_worker_id h = lr_worker_id c"
    and "(lr_worker_id c, lr_capability c) \<in> set (worker_capabilities d)"
proof -
  let ?rows = "concat (map (\<lambda>r. map (\<lambda>h. (r, h))
         (filter (\<lambda>h. wh_worker_id h = wr_worker_id r) (worker_heartbeats d)))
       (filter (\<lambda>r. wr_worker_id r = lr_worker_id c) (worker_registrations d)))"
  have one: "one_or_none ?rows = (Inr (Some (r, h)) :: engine_exn + _)"
    and cap: "(lr_worker_id c, lr_capability c) \<in> set (worker_capabilities d)"
    using assms by (auto simp: select_lease_worker_def result_bind_eq_Inr split: option.splits if_splits)
  have "(r, h) \<in> set ?rows" by (subst one_or_none_SomeD [OF one]) simp
  then show "r \<in> set (worker_registrations d)" "wr_worker_id r = lr_worker_id c"
    "h \<in> set (worker_heartbeats d)" "wh_worker_id h = lr_worker_id c" by auto
  show "(lr_worker_id c, lr_capability c) \<in> set (worker_capabilities d)" by (rule cap)
qed

lemma sort_key_hd_least:
  assumes "sort_key f xs = y # ys"
  shows "y \<in> set xs" and "\<forall>x \<in> set xs. f y \<le> f x"
proof -
  have "set xs = insert y (set ys)" by (metis assms list.simps(15) set_sort)
  moreover have "sorted (map f (y # ys))" by (metis assms sorted_sort_key)
  ultimately show "y \<in> set xs" "\<forall>x \<in> set xs. f y \<le> f x" by auto
qed

lemma select_lease_work_SomeD:
  assumes "select_lease_work locked c now d = Some u"
  shows "u \<in> set (work_units d)" and "lease_candidate c now d u" and "\<not> locked (wu_work_id u)"
    and "\<And>v. v \<in> set (work_units d) \<Longrightarrow> lease_candidate c now d v \<Longrightarrow> \<not> locked (wu_work_id v) \<Longrightarrow>
      lease_order u \<le> lease_order v"
proof -
  let ?c = "filter (\<lambda>u. lease_candidate c now d u \<and> \<not> locked (wu_work_id u)) (work_units d)"
  obtain us where s: "sort_key lease_order ?c = u # us"
    using assms by (auto simp: select_lease_work_def split: list.splits)
  show "u \<in> set (work_units d)" "lease_candidate c now d u" "\<not> locked (wu_work_id u)"
    using sort_key_hd_least(1) [OF s] by auto
  show "\<And>v. v \<in> set (work_units d) \<Longrightarrow> lease_candidate c now d v \<Longrightarrow> \<not> locked (wu_work_id v) \<Longrightarrow>
      lease_order u \<le> lease_order v"
    using sort_key_hd_least(2) [OF s] by auto
qed

lemma select_lease_work_None:
  "select_lease_work locked c now d = None \<longleftrightarrow>
   (\<forall>u \<in> set (work_units d). lease_candidate c now d u \<longrightarrow> locked (wu_work_id u))"
proof -
  have "sort_key lease_order xs = [] \<longleftrightarrow> xs = []" for xs
    by (metis set_empty2 set_sort)
  then have "select_lease_work locked c now d = None \<longleftrightarrow>
      filter (\<lambda>u. lease_candidate c now d u \<and> \<not> locked (wu_work_id u)) (work_units d) = []"
    unfolding select_lease_work_def by (metis (no_types, lifting) list.case_eq_if option.distinct(1))
  then show ?thesis by (auto simp: filter_empty_conv)
qed

definition reserved_source_row :: "lease_request \<Rightarrow> int \<Rightarrow> source_capacity_row \<Rightarrow> source_capacity_row" where
  "reserved_source_row c now r =
     r\<lparr>sc_active_requests := sc_active_requests r + 1,
       sc_next_allowed_request_at_utc := now + milliseconds (sc_minimum_interval_milliseconds r),
       sc_revision := sc_revision r + 1, sc_updated_at_utc := now,
       sc_correlation_id := lr_correlation_id c\<rparr>"

lemma reserve_source_cases:
  assumes "reserve_source c now u d = Inr (Some (permit, d'))" and "store_ok d"
  obtains (Free) "wu_source_key u = None" "permit = None" "d' = d"
    | (Source) s where "wu_source_key u = Some (sc_source_key s)" "s \<in> set (source_capacity_states d)"
      "source_can_reserve s now" "store_ok d'"
      "permit = Some \<lparr>sp_source_key = sc_source_key s, sp_policy_digest = sc_policy_digest s,
                      sp_permit_not_before_utc = utc now\<rparr>"
      "d' = source_capacity_states_update (update_rows (\<lambda>r. sc_source_key r = sc_source_key s)
         (\<lambda>_. reserved_source_row c now s)) d"
proof (cases "wu_source_key u")
  case None
  then show thesis using Free assms(1) by (simp add: reserve_source_def)
next
  case (Some key)
  then obtain s p where s: "select_one sc_source_key key (source_capacity_states d) = (Inr (Some s) :: engine_exn + _)"
    "source_can_reserve s now" "store_ok d'"
    "make_source_permit key (sc_policy_digest s) (utc now) = Inr p" "permit = Some p"
    and d': "d' = source_capacity_states_update (update_rows (\<lambda>r. sc_source_key r = key)
                       (\<lambda>r. r\<lparr>sc_active_requests := sc_active_requests r + 1,
                              sc_next_allowed_request_at_utc :=
                                now + milliseconds (sc_minimum_interval_milliseconds s),
                              sc_revision := sc_revision r + 1,
                              sc_updated_at_utc := now,
                              sc_correlation_id := lr_correlation_id c\<rparr>)) d"
    using assms(1) by (auto simp: reserve_source_def result_bind_eq_Inr split: option.splits if_splits)
  note row = select_one_SomeD [OF s(1)]
  have "d' = source_capacity_states_update (update_rows (\<lambda>r. sc_source_key r = sc_source_key s)
         (\<lambda>_. reserved_source_row c now s)) d"
    using sources.update_const [OF store_ok_schema [OF assms(2)] row(1)] row(2)
    by (simp add: d' reserved_source_row_def)
  moreover have "p = \<lparr>sp_source_key = key, sp_policy_digest = sc_policy_digest s,
      sp_permit_not_before_utc = utc now\<rparr>"
    using s(4) by (auto simp: make_source_permit_def result_bind_eq_Inr)
  ultimately show thesis using Source [of s] Some row s by simp
qed

lemma unit_leased_rows:
  "unit_leased u (lease_work_row uuids c now permit u) (lr_worker_id c)
     (new_work_attempt uuids c now build permit u)"
  by (simp add: unit_leased_def holds_lease_def lease_work_row_def new_work_attempt_def)

lemma issue_lease_InrD:
  assumes run: "issue_lease uuids c now build u permit d = Inr (lease, d')"
    and sd: "store_ok d" and u: "u \<in> set (work_units d)"
  shows "store_ok d'"
    and "d' = worker_heartbeats_update (update_rows (\<lambda>h. wh_worker_id h = lr_worker_id c)
          (\<lambda>h. h\<lparr>wh_last_seen_at_utc := now, wh_active_lease_count := wh_active_lease_count h + 1,
               wh_correlation_id := lr_correlation_id c\<rparr>))
        (work_attempts_update (insert_rows [new_work_attempt uuids c now build permit u])
        (work_units_update (update_rows (\<lambda>x. wu_work_id x = wu_work_id u)
          (\<lambda>_. lease_work_row uuids c now permit u)) d))"
    and "\<exists>inputs. load_work_input_artifacts (wu_work_id u) d' = Inr inputs
        \<and> lease_from_work (lease_work_row uuids c now permit u) permit (lr_correlation_id c) inputs = Inr lease"
  using run units.update_const [OF store_ok_schema [OF sd] u, of "lease_work_row uuids c now permit"]
  by (auto simp: issue_lease_def result_bind_eq_Inr)

lemma acquire_lease_tx_cases:
  assumes run: "acquire_lease_tx locked uuids c now d = Inr (outcome, d')" and sd: "store_ok d"
  obtains (Nothing) "outcome = Committed None" "d' = d"
    | (Lease) r h u permit d1 lease where
      "outcome = Committed (Some lease)"
      "r \<in> set (worker_registrations d)" "wr_worker_id r = lr_worker_id c"
      "h \<in> set (worker_heartbeats d)" "wh_worker_id h = lr_worker_id c"
      "wh_active_lease_count h < wr_max_concurrency r"
      "(lr_worker_id c, lr_capability c) \<in> set (worker_capabilities d)"
      "select_lease_work locked c now d = Some u" "reserve_source c now u d = Inr (Some (permit, d1))"
      "issue_lease uuids c now (wr_build_identity r) u permit d1 = Inr (lease, d')"
proof -
  obtain r h where w: "select_lease_worker c d = Inr (r, h)"
    and rest: "(if wr_max_concurrency r \<le> wh_active_lease_count h
       then Inr (Committed None, d)
       else
         (case select_lease_work locked c now d of
            None \<Rightarrow> Inr (Committed None, d)
          | Some work \<Rightarrow>
              result_bind (reserve_source c now work d) (\<lambda>reserved.
                case reserved of
                  None \<Rightarrow> Inr (Committed None, d)
                | Some (permit, d1) \<Rightarrow>
                    result_bind (issue_lease uuids c now (wr_build_identity r) work permit d1)
                      (\<lambda>(lease, d2). Inr (Committed (Some lease), d2))))) = Inr (outcome, d')"
    using run by (auto simp: acquire_lease_tx_body result_bind_eq_Inr)
  note worker = select_lease_worker_InrD [OF w]
  show thesis
  proof (cases "wr_max_concurrency r \<le> wh_active_lease_count h \<or> select_lease_work locked c now d = None")
    case True
    then show thesis using Nothing rest by (auto split: if_splits)
  next
    case False
    then obtain u where u: "select_lease_work locked c now d = Some u" by auto
    obtain reserved where res: "reserve_source c now u d = Inr reserved"
      and rest': "(case reserved of None \<Rightarrow> Inr (Committed None, d)
                | Some (permit, d1) \<Rightarrow>
                    result_bind (issue_lease uuids c now (wr_build_identity r) u permit d1)
                      (\<lambda>(lease, d2). Inr (Committed (Some lease), d2))) = Inr (outcome, d')"
      using rest False u by (auto simp: result_bind_eq_Inr)
    show thesis
    proof (cases reserved)
      case None
      then show thesis using rest' Nothing by simp
    next
      case (Some p)
      then show thesis
        using rest' res False u Lease [OF _ worker(1-4) _ worker(5) u]
        by (cases p) (auto simp: result_bind_eq_Inr)
    qed
  qed
qed

lemma reserve_source_taken:
  assumes run: "reserve_source c now u d = Inr (Some (permit, d1))" and sd: "store_ok d"
  shows "store_ok d1" and "\<exists>ss. d1 = source_capacity_states_update (\<lambda>_. ss) d"
    and "map (\<lambda>s. (sc_source_key s, sc_active_requests s)) (source_capacity_states d1) =
      map (\<lambda>s. (sc_source_key s, sc_active_requests s + of_bool (wu_source_key u = Some (sc_source_key s))))
        (source_capacity_states d)"
proof -
  have "store_ok d1 \<and> (\<exists>ss. d1 = source_capacity_states_update (\<lambda>_. ss) d) \<and>
    map (\<lambda>s. (sc_source_key s, sc_active_requests s)) (source_capacity_states d1) =
      map (\<lambda>s. (sc_source_key s, sc_active_requests s + of_bool (wu_source_key u = Some (sc_source_key s))))
        (source_capacity_states d)"
    using run sd
  proof (cases rule: reserve_source_cases)
    case Free
    moreover have "\<exists>ss. d = source_capacity_states_update (\<lambda>_. ss) d"
      by (rule exI [of _ "source_capacity_states d"]) simp
    ultimately show ?thesis using sd by simp
  next
    case (Source s)
    have frame: "\<exists>ss. d1 = source_capacity_states_update (\<lambda>_. ss) d"
      by (rule exI [of _ "update_rows (\<lambda>r. sc_source_key r = sc_source_key s)
            (\<lambda>_. reserved_source_row c now s) (source_capacity_states d)"])
        (simp add: Source(6) cong: db.fold_congs)
    have same: "sc_active_requests r = sc_active_requests s"
      if "r \<in> set (source_capacity_states d)" "sc_source_key r = sc_source_key s" for r
      using sources.key_unique [OF store_ok_schema [OF sd] that(1) Source(2)] that(2) by simp
    have "map (\<lambda>s. (sc_source_key s, sc_active_requests s)) (source_capacity_states d1) =
      map (\<lambda>s. (sc_source_key s, sc_active_requests s + of_bool (wu_source_key u = Some (sc_source_key s))))
        (source_capacity_states d)"
      using same by (simp add: Source(1,6) update_rows_def reserved_source_row_def)
    then show ?thesis using Source(4) frame by (intro conjI)
  qed
  then show "store_ok d1" "\<exists>ss. d1 = source_capacity_states_update (\<lambda>_. ss) d"
    "map (\<lambda>s. (sc_source_key s, sc_active_requests s)) (source_capacity_states d1) =
      map (\<lambda>s. (sc_source_key s, sc_active_requests s + of_bool (wu_source_key u = Some (sc_source_key s))))
        (source_capacity_states d)" by blast+
qed

lemma acquire_lease_issued:
  assumes res: "reserve_source c now u d = Inr (Some (permit, d1))"
    and iss: "issue_lease uuids c now build u permit d1 = Inr (lease, d')"
    and sd: "store_ok d" and u: "u \<in> set (work_units d)"
  shows "lease_issued u (lease_work_row uuids c now permit u) (new_work_attempt uuids c now build permit u)
    (lr_worker_id c) d d'"
proof -
  note taken = reserve_source_taken [OF res sd]
  obtain ss where d1: "d1 = source_capacity_states_update (\<lambda>_. ss) d" using taken(2) by blast
  have u1: "u \<in> set (work_units d1)" using u by (simp add: d1)
  note issued = issue_lease_InrD [OF iss taken(1) u1]
  have "reservation_taken (lr_worker_id c) u d d'"
    unfolding reservation_taken_def
    using taken(3) by (simp add: issued(2) d1 update_rows_def)
  then show ?thesis
    using issued(1) by (simp add: lease_issued_def issued(2) d1 insert_rows_def)
qed

lemma acquire_lease_tx_inv:
  assumes "acquire_lease_tx locked uuids c now d = Inr (outcome, d')" and inv: "engine_inv d"
  shows "engine_inv d'"
  using assms(1) engine_inv_store [OF inv]
proof (cases rule: acquire_lease_tx_cases)
  case (Lease r h u permit d1 lease)
  note work = select_lease_work_SomeD [OF Lease(8)]
  have "worker_load d (lr_worker_id c) < wr_max_concurrency r'"
    if "r' \<in> set (worker_registrations d)" "wr_worker_id r' = lr_worker_id c" for r'
  proof -
    have "r' = r" using registrations.key_unique [OF _ that(1) Lease(2)] that(2) Lease(3) inv by simp
    then show ?thesis using Lease(4-6) inv by (auto simp: engine_inv_def worker_inv_def)
  qed
  then show ?thesis
    using lease_issued_inv [OF inv work(1) _ acquire_lease_issued [OF Lease(9,10) _ work(1)] unit_leased_rows]
      work(2) inv by (simp add: lease_candidate_def)
qed (use inv in simp)

section \<open>The expiry sweep\<close>

text \<open>The row the expiry of a leased unit leaves.\<close>

definition expired_work_row :: "int \<Rightarrow> string \<Rightarrow> work_unit_row \<Rightarrow> work_unit_row" where
  "expired_work_row now corr u =
     (case retry_policy_of u of
        Inr policy \<Rightarrow>
          (case retry_decide policy Failure_TRANSIENT (wu_failure_count u + 1) of
             Inr decision \<Rightarrow> failed_work_row decision (wu_failure_count u + 1) now corr u
           | Inl _ \<Rightarrow> u)
      | Inl _ \<Rightarrow> u)"

lemma active_attempt_holds:
  assumes inv: "engine_inv d" and u: "u \<in> set (work_units d)" "leased u"
    and sel: "select_one (\<lambda>a. Some (wa_lease_id a)) (wu_active_lease_id u) (work_attempts d) = Inr (Some a)"
  shows "a \<in> set (work_attempts d)" and "holds_lease u a"
proof -
  note row = select_one_SomeD [OF sel]
  obtain b where b: "b \<in> set (work_attempts d)" "holds_lease u b"
    using inv u unfolding engine_inv_def lease_inv_def by blast
  have "a = b"
    using attempt_leases.key_unique [OF _ row(1) b(1)] inv row(2) b(2) by (simp add: holds_lease_def)
  then show "a \<in> set (work_attempts d)" "holds_lease u a" using b by simp_all
qed

lemma expire_locked_units:
  assumes run: "expire_locked u a now corr d = Inr (target, d')" and inv: "engine_inv d"
    and u: "u \<in> set (work_units d)" and a: "a \<in> set (work_attempts d)"
  shows "work_units d' = update_rows (\<lambda>x. x = u) (expired_work_row now corr) (work_units d)"
    and "\<not> leased (expired_work_row now corr u)"
    and "wu_state (expired_work_row now corr u) = target"
    and "wu_work_id (expired_work_row now corr u) = wu_work_id u"
    and "target = Unit_RETRY_WAIT \<or> target = Unit_DEAD_LETTER"
proof -
  obtain policy decision where p: "retry_policy_of u = Inr policy"
    "retry_decide policy Failure_TRANSIENT (wu_failure_count u + 1) = Inr decision"
    "target = fd_target_state decision"
    and e: "lease_ended u (failed_work_row decision (wu_failure_count u + 1) now corr u)
       a (expired_attempt_row now corr a) d d'"
    and rel: "unit_released u (failed_work_row decision (wu_failure_count u + 1) now corr u)"
    using expire_locked_InrD [OF run _ u a] inv by (metis engine_inv_store)
  have row: "expired_work_row now corr u = failed_work_row decision (wu_failure_count u + 1) now corr u"
    by (simp add: expired_work_row_def p)
  have "update_rows (\<lambda>x. wu_work_id x = wu_work_id u) (\<lambda>_. expired_work_row now corr u) (work_units d)
      = update_rows (\<lambda>x. x = u) (expired_work_row now corr) (work_units d)"
    unfolding update_rows_def
  proof (rule map_cong)
    fix x assume "x \<in> set (work_units d)"
    then show "(if wu_work_id x = wu_work_id u then expired_work_row now corr u else x) =
        (if x = u then expired_work_row now corr x else x)"
      using units.key_unique [OF _ _ u] inv by auto
  qed simp
  then show "work_units d' = update_rows (\<lambda>x. x = u) (expired_work_row now corr) (work_units d)"
    using e by (simp add: lease_ended_def row)
  show "\<not> leased (expired_work_row now corr u)" using rel by (simp add: row unit_released_def)
  show "wu_state (expired_work_row now corr u) = target"
    "wu_work_id (expired_work_row now corr u) = wu_work_id u" by (simp_all add: row p(3))
  show "target = Unit_RETRY_WAIT \<or> target = Unit_DEAD_LETTER"
    using p(2,3) by (auto simp: retry_decide_def split: if_splits)
qed

lemma update_rows_member:
  "update_rows (\<lambda>x. x \<in> B) f (update_rows (\<lambda>x. x = u) f rs) = update_rows (\<lambda>x. x \<in> insert u B) f rs"
  if "f u \<notin> B"
  using that by (induction rs) auto

lemma expire_due_InrD:
  "expire_due due now corr retries dead d = Inr (retries', dead', d') \<Longrightarrow> engine_inv d \<Longrightarrow>
   set due \<subseteq> {u \<in> set (work_units d). leased u} \<Longrightarrow> distinct due \<Longrightarrow>
   engine_inv d'
   \<and> work_units d' = update_rows (\<lambda>u. u \<in> set due) (expired_work_row now corr) (work_units d)
   \<and> retries' = retries + count_rows (\<lambda>u. wu_state (expired_work_row now corr u) = Unit_RETRY_WAIT) due
   \<and> dead' = dead + count_rows (\<lambda>u. wu_state (expired_work_row now corr u) = Unit_DEAD_LETTER) due
   \<and> (\<forall>u \<in> set due. wu_state (expired_work_row now corr u) \<in> {Unit_RETRY_WAIT, Unit_DEAD_LETTER})"
proof (induction due arbitrary: retries dead d)
  case Nil
  then show ?case by (simp add: update_rows_def)
next
  case (Cons u due)
  obtain a target d1 where
    sel: "select_one (\<lambda>a. Some (wa_lease_id a)) (wu_active_lease_id u) (work_attempts d)
        = (Inr (Some a) :: engine_exn + _)"
    and ex: "expire_locked u a now corr d = Inr (target, d1)"
    and rest: "expire_due due now corr
        (retries + of_bool (target = Unit_RETRY_WAIT)) (dead + of_bool (target \<noteq> Unit_RETRY_WAIT)) d1
        = Inr (retries', dead', d')"
    using Cons.prems(1) by (auto simp: result_bind_eq_Inr split: option.splits if_splits)
  have u: "u \<in> set (work_units d)" "leased u" using Cons.prems(3) by auto
  note a = active_attempt_holds [OF Cons.prems(2) u sel]
  note e = expire_locked_units [OF ex Cons.prems(2) u(1) a(1)]
  have inv1: "engine_inv d1" by (rule expire_locked_inv [OF Cons.prems(2) u a ex])
  have sub: "set due \<subseteq> {u \<in> set (work_units d1). leased u}"
    using Cons.prems(3,4) by (auto simp: e(1) in_set_update_rows)
  have "expired_work_row now corr u \<notin> set due" using sub e(2) by auto
  then show ?case
    using Cons.IH [OF rest inv1 sub] Cons.prems(4) e by (auto simp: update_rows_member)
qed

lemma select_due_leases_sub:
  "set (select_due_leases locked limit now d) \<subseteq>
     {u \<in> set (work_units d). lease_due now u \<and> \<not> locked (wu_work_id u)}"
  unfolding select_due_leases_def using set_take_subset by fastforce

lemma select_due_leases_distinct:
  "schema_ok d \<Longrightarrow> distinct (select_due_leases locked limit now d)"
  using units.key_distinct [of d]
  by (auto simp: select_due_leases_def distinct_map intro!: distinct_take)

lemma lease_due_leased: "lease_due now u \<Longrightarrow> leased u"
  by (simp add: lease_due_def)

lemma expire_leases_tx_InrD:
  assumes run: "expire_leases_tx locked c now d = Inr (outcome, d')" and inv: "engine_inv d"
  defines "due \<equiv> select_due_leases locked (les_limit c) now d"
    and "row \<equiv> expired_work_row now (les_correlation_id c)"
  shows "engine_inv d'"
    and "work_units d' = update_rows (\<lambda>u. u \<in> set due) row (work_units d)"
    and "outcome = Committed
      \<lparr>sres_expired_count = int (length due),
       sres_retry_wait_count = count_rows (\<lambda>u. wu_state (row u) = Unit_RETRY_WAIT) due,
       sres_dead_letter_count = count_rows (\<lambda>u. wu_state (row u) = Unit_DEAD_LETTER) due\<rparr>"
    and "\<forall>u \<in> set due. wu_state (row u) \<in> {Unit_RETRY_WAIT, Unit_DEAD_LETTER}"
proof -
  obtain retries dead r where
    ex: "expire_due due now (les_correlation_id c) 0 0 d = Inr (retries, dead, d')"
    and r: "make_lease_expiry_sweep_result (int (length due)) retries dead = Inr r" "outcome = Committed r"
    using run by (auto simp: expire_leases_tx_def Let_def result_bind_eq_Inr due_def)
  have "set due \<subseteq> {u \<in> set (work_units d). leased u}" "distinct due"
    using select_due_leases_sub lease_due_leased select_due_leases_distinct [of d] inv
    unfolding due_def by (blast, simp)
  note e = expire_due_InrD [OF ex inv this, folded row_def]
  show "engine_inv d'" "work_units d' = update_rows (\<lambda>u. u \<in> set due) row (work_units d)"
    "\<forall>u \<in> set due. wu_state (row u) \<in> {Unit_RETRY_WAIT, Unit_DEAD_LETTER}" using e by auto
  show "outcome = Committed
      \<lparr>sres_expired_count = int (length due),
       sres_retry_wait_count = count_rows (\<lambda>u. wu_state (row u) = Unit_RETRY_WAIT) due,
       sres_dead_letter_count = count_rows (\<lambda>u. wu_state (row u) = Unit_DEAD_LETTER) due\<rparr>"
    using r e by (auto simp: make_lease_expiry_sweep_result_def result_bind_eq_Inr)
qed

end
