(* ===== verification/Engine_Steps.thy ===== *)
theory Engine_Steps
  imports Engine_Issue
begin

text \<open>
  The commands of the engine as a step relation on database states. \<open>engine_step\<close> has one rule for
  each public method of \<open>PostgresWorkEngine\<close>, with any clock, any identifiers and any set of units
  locked by concurrent transactions; \<open>reachable\<close> are the states its steps lead to. The invariant
  holds in every reachable state.
\<close>

section \<open>The administrative operations\<close>

lemma register_worker_again_inv:
  assumes "register_worker_again now c existing d = Inr (outcome, d')" and inv: "engine_inv d"
  shows "engine_inv d'"
proof -
  have d': "d' = worker_heartbeats_update (update_rows (\<lambda>h. wh_worker_id h = reg_worker_id c)
      (\<lambda>h. h\<lparr>wh_last_seen_at_utc := now, wh_correlation_id := reg_correlation_id c\<rparr>)) d" "store_ok d'"
    using assms(1) by (auto simp: register_worker_again_def result_bind_eq_Inr split: if_splits)
  show ?thesis by (rule engine_inv_core [OF inv d'(2)]) (simp_all add: d'(1) map_update_rows)
qed

lemma register_worker_new_InrD:
  assumes "register_worker_new now c d = Inr (outcome, d')"
  shows "store_ok d'"
    and "worker_registrations d' = worker_registrations d @
      [\<lparr>wr_worker_id = reg_worker_id c, wr_registration_digest = registration_digest c,
          wr_build_identity = reg_build_identity c, wr_max_concurrency = reg_max_concurrency c,
          wr_resource_profile = reg_resource_profile c, wr_registered_at_utc = now,
          wr_correlation_id = reg_correlation_id c\<rparr>]"
    and "worker_heartbeats d' = worker_heartbeats d @
      [\<lparr>wh_worker_id = reg_worker_id c, wh_last_seen_at_utc = now, wh_active_lease_count = 0,
          wh_correlation_id = reg_correlation_id c\<rparr>]"
    and "work_units d' = work_units d" "work_attempts d' = work_attempts d"
      "source_capacity_states d' = source_capacity_states d" "dead_letters d' = dead_letters d"
    and "worker_capabilities d' = worker_capabilities d @
      map (\<lambda>capability. (reg_worker_id c, capability))
          (sort_key work_capability_value (remdups (reg_capabilities c)))"
    and "worker_output_contracts d' = worker_output_contracts d @
      map (\<lambda>contract. (reg_worker_id c, contract)) (sort (remdups (reg_supported_output_contracts c)))"
    and "outcome = Committed \<lparr>rr_worker_id = reg_worker_id c, rr_status = REGISTERED\<rparr>"
  using assms by (auto simp: register_worker_new_def result_bind_eq_Inr insert_rows_def)

lemma count_rows_zero: "(\<And>r. r \<in> set rs \<Longrightarrow> \<not> P r) \<Longrightarrow> count_rows P rs = 0"
  by (induction rs) auto

lemma unknown_worker_load:
  assumes "schema_ok d" and "\<And>r. r \<in> set (worker_registrations d) \<Longrightarrow> wr_worker_id r \<noteq> w"
  shows "worker_load d w = 0"
  unfolding worker_load_def using schema_referenceD(2) [OF assms(1)] assms(2)
  by (intro count_rows_zero) blast

lemma unknown_source_load:
  assumes "schema_ok d" and "\<And>s. s \<in> set (source_capacity_states d) \<Longrightarrow> sc_source_key s \<noteq> k"
  shows "source_load d k = 0"
  unfolding source_load_def using schema_referenceD(3) [OF assms(1)] assms(2)
  by (intro count_rows_zero) blast

lemma register_worker_new_inv:
  assumes run: "register_worker_new now c d = Inr (outcome, d')" and inv: "engine_inv d"
    and new: "\<And>r. r \<in> set (worker_registrations d) \<Longrightarrow> wr_worker_id r \<noteq> reg_worker_id c"
  shows "engine_inv d'"
proof -
  note d' = register_worker_new_InrD [OF run]
  have load: "worker_load d' w = worker_load d w" "source_load d' k = source_load d k" for w k
    by (simp_all add: worker_load_def source_load_def d'(4))
  have zero: "worker_load d (reg_worker_id c) = 0" using unknown_worker_load new inv by simp
  have "1 \<le> reg_max_concurrency c"
    using schema_rowD(4) [OF store_ok_schema [OF d'(1)]] unfolding d'(2)
    by (force simp: worker_registration_check_def)
  then have "worker_inv d'"
    using inv zero by (auto simp: worker_inv_def engine_inv_def load d'(2,3))
  moreover have "source_inv d'" using inv by (simp add: source_inv_def engine_inv_def load d'(6))
  ultimately show ?thesis
    using inv d'(1) by (simp add: engine_inv_def lease_inv_def attempt_inv_def budget_inv_def
        letter_inv_def d'(4,5,7))
qed

lemma register_worker_tx_inv:
  assumes run: "register_worker_tx c now d = Inr (outcome, d')" and inv: "engine_inv d"
  shows "engine_inv d'"
proof -
  obtain existing where e: "select_one wr_worker_id (reg_worker_id c) (worker_registrations d)
      = (Inr existing :: engine_exn + _)"
    and rest: "(case existing of Some row \<Rightarrow> register_worker_again now c row d
       | None \<Rightarrow> register_worker_new now c d) = Inr (outcome, d')"
    using run by (auto simp: register_worker_tx_def result_bind_eq_Inr)
  show ?thesis
  proof (cases existing)
    case None
    then have "wr_worker_id r \<noteq> reg_worker_id c" if "r \<in> set (worker_registrations d)" for r
      using select_one_NoneD [of wr_worker_id] e that by blast
    then show ?thesis using register_worker_new_inv [OF _ inv] rest None by simp
  next
    case (Some row)
    then show ?thesis using register_worker_again_inv [OF _ inv] rest by simp
  qed
qed

lemma source_rows_inv:
  assumes inv: "engine_inv d" and ok: "store_ok (source_capacity_states_update f d)"
    and rows: "\<And>s'. s' \<in> set (f (source_capacity_states d)) \<Longrightarrow>
      sc_active_requests s' = source_load d (sc_source_key s')"
  shows "engine_inv (source_capacity_states_update f d)"
  using inv ok rows unfolding engine_inv_defs by (intro conjI) (elim conjE, simp)+

lemma configure_source_tx_inv:
  assumes run: "configure_source_tx c now d = Inr (outcome, d')" and inv: "engine_inv d"
  shows "engine_inv d'"
proof -
  let ?new = "\<lparr>sc_source_key = scs_source_key c, sc_policy_digest = scs_policy_digest c,
               sc_operational_state = scs_state c,
               sc_max_active_requests = scs_max_active_requests c, sc_active_requests = 0,
               sc_minimum_interval_milliseconds = scs_minimum_interval_milliseconds c,
               sc_next_allowed_request_at_utc = now, sc_retry_after_utc = None, sc_revision = 0,
               sc_updated_at_utc = now, sc_correlation_id = scs_correlation_id c\<rparr>"
  have act: "sc_active_requests s = source_load d (sc_source_key s)"
    if "s \<in> set (source_capacity_states d)" for s
    using inv that by (simp add: engine_inv_def source_inv_def)
  show ?thesis
  proof (cases "select_one sc_source_key (scs_source_key c) (source_capacity_states d) :: engine_exn + _")
    case (Inl e)
    then show ?thesis using run by (simp add: configure_source_tx_def)
  next
    case (Inr existing)
    show ?thesis
    proof (cases existing)
      case None
      have d': "d' = source_capacity_states_update (insert_rows [?new]) d" "store_ok d'"
        using run Inr None by (auto simp: configure_source_tx_def result_bind_eq_Inr)
      have "source_load d (scs_source_key c) = 0"
        using unknown_source_load [of d] select_one_NoneD [of sc_source_key] Inr None inv
          engine_inv_store store_ok_schema by blast
      then show ?thesis
        unfolding d'(1) using d' act by (intro source_rows_inv [OF inv]) auto
    next
      case (Some row)
      then have "d' = d \<or> (\<exists>f. d' = source_capacity_states_update
          (update_rows (\<lambda>r. sc_source_key r = scs_source_key c) f) d \<and> store_ok d' \<and>
          (\<forall>r. sc_source_key (f r) = sc_source_key r \<and> sc_active_requests (f r) = sc_active_requests r))"
        using run Inr
        by (auto simp: configure_source_tx_def result_bind_eq_Inr split: if_splits intro!: exI)
      then show ?thesis
      proof
        assume "d' = d"
        then show ?thesis using inv by simp
      next
        assume "\<exists>f. d' = source_capacity_states_update
          (update_rows (\<lambda>r. sc_source_key r = scs_source_key c) f) d \<and> store_ok d' \<and>
          (\<forall>r. sc_source_key (f r) = sc_source_key r \<and> sc_active_requests (f r) = sc_active_requests r)"
        then obtain f where f: "d' = source_capacity_states_update
            (update_rows (\<lambda>r. sc_source_key r = scs_source_key c) f) d" "store_ok d'"
          "\<And>r. sc_source_key (f r) = sc_source_key r" "\<And>r. sc_active_requests (f r) = sc_active_requests r"
          by blast
        show ?thesis unfolding f(1)
          using f act by (intro source_rows_inv [OF inv]) (auto simp: in_set_update_rows)
      qed
    qed
  qed
qed

lemma create_run_tx_InrD:
  assumes "create_run_tx c now d = Inr (outcome, d')"
  shows "d' = d \<or> (\<exists>f. d' = collection_runs_update f d \<and> store_ok d')"
  using assms
  by (auto simp: create_run_tx_def Let_def result_bind_eq_Inr split: option.splits if_splits)

lemma create_stage_tx_InrD:
  assumes "create_stage_tx c now d = Inr (outcome, d')"
  shows "d' = d \<or> (\<exists>f. d' = stage_runs_update f d \<and> store_ok d')"
  using assms
  by (auto simp: create_stage_tx_def result_bind_eq_Inr split: option.splits if_splits list.splits)

lemma create_run_tx_inv: "create_run_tx c now d = Inr (outcome, d') \<Longrightarrow> engine_inv d \<Longrightarrow> engine_inv d'"
  using create_run_tx_InrD by (fastforce intro: engine_inv_frame)

lemma create_stage_tx_inv: "create_stage_tx c now d = Inr (outcome, d') \<Longrightarrow> engine_inv d \<Longrightarrow> engine_inv d'"
  using create_stage_tx_InrD by (fastforce intro: engine_inv_frame)

lemma enqueue_work_tx_cases:
  assumes "enqueue_work_tx c now d = Inr (outcome, d')"
  obtains (Same) u inputs where "d' = d" "u \<in> set (work_units d)"
      "load_work_input_artifacts (wu_work_id u) d = Inr inputs" "same_work_identity u c inputs"
    | (New) "\<And>u. u \<in> set (work_units d) \<Longrightarrow> wu_work_id u \<noteq> wus_work_id c
          \<and> \<not> (wu_run_id u = wus_run_id c \<and> wu_semantic_key u = wus_semantic_key c)"
      "store_ok d'"
      "d' = work_input_artifacts_update
         (insert_rows (input_bindings (wus_work_id c) (wus_input_artifacts c)))
         (work_units_update (insert_rows [new_work_unit c now]) d)"
proof -
  let ?matches = "filter (\<lambda>u. wu_work_id u = wus_work_id c
       \<or> wu_run_id u = wus_run_id c \<and> wu_semantic_key u = wus_semantic_key c) (work_units d)"
  have rest: "(case ?matches of
         existing # others \<Rightarrow>
           result_bind (of_checked (load_work_input_artifacts (wu_work_id existing) d)) (\<lambda>inputs.
             if others = [] \<and> same_work_identity existing c inputs
             then Inr (Committed (), d)
             else raise_conflict (WORK_SEMANTIC_IDENTITY_CONFLICT (wus_work_id c)
                    (wu_work_id existing) (wus_semantic_key c)))
       | [] \<Rightarrow>
           result_bind (execute (work_units_update (insert_rows [new_work_unit c now])) d) (\<lambda>d1.
             if wus_input_artifacts c = [] then Inr (Committed (), d1)
             else result_bind (execute (work_input_artifacts_update (insert_rows
                    (input_bindings (wus_work_id c) (wus_input_artifacts c)))) d1)
                  (\<lambda>d2. Inr (Committed (), d2)))) = (Inr (outcome, d') :: engine_exn + _)"
    using assms by (auto simp: enqueue_work_tx_def result_bind_eq_Inr)
  show thesis
  proof (cases ?matches)
    case Nil
    have new: "\<And>u. u \<in> set (work_units d) \<Longrightarrow> wu_work_id u \<noteq> wus_work_id c
          \<and> \<not> (wu_run_id u = wus_run_id c \<and> wu_semantic_key u = wus_semantic_key c)"
      using Nil by (simp add: filter_empty_conv)
    have id: "work_input_artifacts_update (insert_rows []) x = x" for x :: db
      by (cases x) (simp add: insert_rows_def)
    have "store_ok d' \<and> d' = work_input_artifacts_update
         (insert_rows (input_bindings (wus_work_id c) (wus_input_artifacts c)))
         (work_units_update (insert_rows [new_work_unit c now]) d)"
      using rest Nil by (auto simp: result_bind_eq_Inr input_bindings_def id split: if_splits)
    then show thesis using New [OF new] by blast
  next
    case (Cons u us)
    then have "u \<in> set ?matches" by simp
    then have "u \<in> set (work_units d)" by simp
    then show thesis using rest Cons Same by (auto simp: result_bind_eq_Inr split: if_splits)
  qed
qed

lemma enqueue_work_tx_inv:
  assumes run: "enqueue_work_tx c now d = Inr (outcome, d')" and inv: "engine_inv d"
  shows "engine_inv d'"
  using run
proof (cases rule: enqueue_work_tx_cases)
  case (Same u inputs)
  then show ?thesis using inv by simp
next
  case New
  let ?u = "new_work_unit c now"
  have u: "work_units d' = work_units d @ [?u]" and rest: "work_attempts d' = work_attempts d"
    "worker_heartbeats d' = worker_heartbeats d" "worker_registrations d' = worker_registrations d"
    "source_capacity_states d' = source_capacity_states d" "dead_letters d' = dead_letters d"
    by (simp_all add: New(3) insert_rows_def)
  have id: "wu_work_id ?u = wus_work_id c" "wu_state ?u = Unit_PENDING" "wu_attempt_count ?u = 0"
    "wu_failure_count ?u = 0" by (simp_all add: new_work_unit_def)
  have "work_unit_check ?u" using schema_rowD(1) [OF store_ok_schema [OF New(2)]] u by simp
  then have "0 < wu_max_attempts ?u" by (simp add: work_unit_check_def)
  then have "budget_inv d'" using inv id by (simp add: engine_inv_def budget_inv_def u)
  moreover have load: "worker_load d' w = worker_load d w" "source_load d' k = source_load d k" for w k
    using id by (simp_all add: worker_load_def source_load_def u)
  have "worker_inv d'" "source_inv d'"
    using inv by (simp_all add: engine_inv_def worker_inv_def source_inv_def load rest)
  moreover have "lease_inv d'" using inv id by (auto simp: engine_inv_def lease_inv_def u rest)
  moreover have fresh: "wa_work_id a \<noteq> wu_work_id ?u" if "a \<in> set (work_attempts d)" for a
    using schema_referenceD(4) [OF _ that] New(1) inv id(1) by fastforce
  have "attempt_inv d'"
    using inv fresh id(3) count_rows_zero [of "work_attempts d" "\<lambda>a. wa_work_id a = wu_work_id ?u"]
    by (auto simp: engine_inv_def attempt_inv_def u rest)
  moreover have "wu_work_id ?u \<notin> set (map dl_work_id (dead_letters d))"
    using schema_referenceD(5) [of d] New(1) inv id(1) by fastforce
  then have "letter_inv d'"
    using inv id(2) by (auto simp: engine_inv_def letter_inv_def u rest)
  ultimately show ?thesis using New(2) by (simp add: engine_inv_def)
qed

section \<open>The step relation\<close>

inductive engine_step :: "db \<Rightarrow> db \<Rightarrow> bool" where
  step_register: "engine_step d (snd (register_worker clock registration d))"
| step_configure: "engine_step d (snd (configure_source clock source d))"
| step_create_run: "engine_step d (snd (create_run clock run d))"
| step_create_stage: "engine_step d (snd (create_stage clock stage d))"
| step_enqueue: "engine_step d (snd (enqueue_work clock work d))"
| step_acquire: "engine_step d (snd (acquire_lease clock locked uuids request d))"
| step_heartbeat: "engine_step d (snd (heartbeat clock beat d))"
| step_complete: "engine_step d (snd (complete clock uuids completion d))"
| step_fail: "engine_step d (snd (fail clock failure d))"
| step_release: "engine_step d (snd (release clock rel d))"
| step_expire: "engine_step d (snd (expire_leases clock locked sweep d))"

inductive_cases engine_stepE: "engine_step d d'"

inductive reachable :: "db \<Rightarrow> db \<Rightarrow> bool" for d0 where
  reachable_refl: "reachable d0 d0"
| reachable_step: "reachable d0 d \<Longrightarrow> engine_step d d' \<Longrightarrow> reachable d0 d'"

text \<open>A database before any engine command: published snapshots, but no work.\<close>

definition initial_state :: "db \<Rightarrow> bool" where
  "initial_state d \<longleftrightarrow>
     store_ok d \<and> work_units d = [] \<and> work_attempts d = [] \<and> worker_registrations d = []
     \<and> worker_heartbeats d = [] \<and> source_capacity_states d = [] \<and> dead_letters d = []
     \<and> work_output_artifacts d = []"

lemma initial_state_inv: "initial_state d \<Longrightarrow> engine_inv d"
  by (simp add: initial_state_def engine_inv_defs)

lemma transaction_preserves:
  assumes "\<And>now r d'. operation now d = Inr (r, d') \<Longrightarrow> P d \<Longrightarrow> P d'" and "P d"
  shows "P (snd (transaction clock operation d))"
  using transaction_snd [of clock operation d] assms by metis

lemmas engine_command_defs =
  register_worker_def configure_source_def create_run_def create_stage_def enqueue_work_def
  acquire_lease_def heartbeat_def complete_def fail_def release_def expire_leases_def

lemmas tx_inv =
  register_worker_tx_inv configure_source_tx_inv create_run_tx_inv create_stage_tx_inv
  enqueue_work_tx_inv acquire_lease_tx_inv heartbeat_tx_inv complete_tx_inv fail_tx_inv
  release_tx_inv expire_leases_tx_InrD(1)

lemma engine_step_inv: "engine_step d d' \<Longrightarrow> engine_inv d \<Longrightarrow> engine_inv d'"
  by (erule engine_stepE)
    (simp_all only: engine_command_defs, (rule transaction_preserves [where P = engine_inv], erule (1) tx_inv, assumption)+)

lemma reachable_inv: "reachable d0 d \<Longrightarrow> engine_inv d0 \<Longrightarrow> engine_inv d"
  by (induction rule: reachable.induct) (auto intro: engine_step_inv)

end
