(* ===== verification/Engine_Calls.thy ===== *)
theory Engine_Calls
  imports Engine_Steps
begin

text \<open>
  What holds of every command of the engine alike. A call is a command with the clock, identifiers
  and locks it meets; \<open>perform\<close> is its error, if any, and the database it leaves. Three facts are
  proved of every call: a call that fails leaves the database as it was unless it committed the
  expiry of the lease it presented; the rows of work units only evolve along the domain's lifecycle;
  and in a state with the invariant no call finds corrupt counters or missing rows.
\<close>

section \<open>Calls\<close>

datatype engine_call =
    Call_register datetime worker_registration
  | Call_configure datetime source_capacity_spec
  | Call_create_run datetime collection_run_spec
  | Call_create_stage datetime stage_run_spec
  | Call_enqueue datetime work_unit_spec
  | Call_acquire datetime "uuid \<Rightarrow> bool" "nat \<Rightarrow> uuid" lease_request
  | Call_heartbeat datetime lease_heartbeat
  | Call_complete datetime "nat \<Rightarrow> uuid" work_completion
  | Call_fail datetime work_failure
  | Call_release datetime work_release
  | Call_expire datetime "uuid \<Rightarrow> bool" lease_expiry_sweep

definition error_of :: "(engine_exn + 'a) \<times> db \<Rightarrow> engine_exn option \<times> db" where
  "error_of result = (case result of (Inl e, d) \<Rightarrow> (Some e, d) | (Inr _, d) \<Rightarrow> (None, d))"

fun perform :: "engine_call \<Rightarrow> db \<Rightarrow> engine_exn option \<times> db" where
  "perform (Call_register clock c) d = error_of (register_worker clock c d)"
| "perform (Call_configure clock c) d = error_of (configure_source clock c d)"
| "perform (Call_create_run clock c) d = error_of (create_run clock c d)"
| "perform (Call_create_stage clock c) d = error_of (create_stage clock c d)"
| "perform (Call_enqueue clock c) d = error_of (enqueue_work clock c d)"
| "perform (Call_acquire clock locked uuids c) d = error_of (acquire_lease clock locked uuids c d)"
| "perform (Call_heartbeat clock c) d = error_of (heartbeat clock c d)"
| "perform (Call_complete clock uuids c) d = error_of (complete clock uuids c d)"
| "perform (Call_fail clock c) d = error_of (fail clock c d)"
| "perform (Call_release clock c) d = error_of (release clock c d)"
| "perform (Call_expire clock locked c) d = error_of (expire_leases clock locked c d)"

fun call_clock :: "engine_call \<Rightarrow> datetime" where
  "call_clock (Call_register clock _) = clock"
| "call_clock (Call_configure clock _) = clock"
| "call_clock (Call_create_run clock _) = clock"
| "call_clock (Call_create_stage clock _) = clock"
| "call_clock (Call_enqueue clock _) = clock"
| "call_clock (Call_acquire clock _ _ _) = clock"
| "call_clock (Call_heartbeat clock _) = clock"
| "call_clock (Call_complete clock _ _) = clock"
| "call_clock (Call_fail clock _) = clock"
| "call_clock (Call_release clock _) = clock"
| "call_clock (Call_expire clock _ _) = clock"

lemma error_of_simps [simp]:
  "fst (error_of r) = (case fst r of Inl e \<Rightarrow> Some e | Inr _ \<Rightarrow> None)" "snd (error_of r) = snd r"
  by (auto simp: error_of_def split: prod.splits sum.splits)

lemma engine_step_iff: "engine_step d d' \<longleftrightarrow> (\<exists>call. d' = snd (perform call d))"
proof
  assume "engine_step d d'"
  then show "\<exists>call. d' = snd (perform call d)"
    by cases (metis perform.simps error_of_simps(2))+
next
  assume "\<exists>call. d' = snd (perform call d)"
  then obtain call where "d' = snd (perform call d)" by blast
  then show "engine_step d d'" by (cases call) (auto intro: engine_step.intros)
qed

text \<open>A command is one of the operations in a transaction: what holds of every operation holds of
  every call.\<close>

lemma transaction_cases:
  obtains (Clock) e where "transaction clock operation d = (Inl e, d)" "engine_now_utc clock = Inl e"
    | (Failed) now e where "clock = utc now" "operation now d = Inl e"
      "transaction clock operation d = (Inl (map_exception e), d)"
    | (Raised) now c d' where "clock = utc now" "operation now d = Inr (CommittedConflict c, d')"
      "transaction clock operation d = (Inl (Conflict c), d')"
    | (Returned) now r d' where "clock = utc now" "operation now d = Inr (Committed r, d')"
      "transaction clock operation d = (Inr r, d')"
proof (cases "engine_now_utc clock")
  case (Inl e)
  then show thesis using Clock by (simp add: transaction_def)
next
  case (Inr now)
  then have clock: "clock = utc now"
    by (auto simp: engine_now_utc_def aware_utc_iff split: if_splits)
  show thesis
  proof (cases "operation now d")
    case (Inl e)
    then show thesis using Failed [OF clock] Inr by (simp add: transaction_def)
  next
    case op: (Inr p)
    then show thesis
      using Raised [OF clock] Returned [OF clock] Inr
      by (cases p; cases "fst p") (simp_all add: transaction_def)
  qed
qed

lemma error_of_transaction:
  assumes "error_of (transaction clock operation d) = (Some e, d')"
  obtains (Rollback) "d' = d"
    | (Committed) now c where "clock = utc now" "operation now d = Inr (CommittedConflict c, d')" "e = Conflict c"
proof (cases rule: transaction_cases [of clock operation d])
  case (Raised now c d1)
  then show thesis using Committed assms by (simp add: error_of_def)
qed (use assms Rollback in \<open>simp_all add: error_of_def\<close>)

text \<open>A clock that is not aware UTC is refused before anything is read; every other error is a conflict
  or an exception no handler of the wrapper catches.\<close>

lemma transaction_error:
  assumes "error_of (transaction clock operation d) = (Some e, d')"
  shows "\<not> is_aware_utc clock \<and> e = StoreValueError (ValueError ''Work Engine clock must return timezone-aware UTC'') \<and> d' = d
    \<or> is_aware_utc clock \<and> (e \<in> range Conflict \<or> e \<in> range UncaughtError)"
proof (cases rule: transaction_cases [of clock operation d])
  case (Clock x)
  then show ?thesis using assms by (auto simp: error_of_def engine_now_utc_def split: if_splits)
next
  case (Failed now x)
  moreover have "map_exception x \<in> range Conflict \<or> map_exception x \<in> range UncaughtError"
    by (cases x) (auto simp: map_exception_def split: value_error.splits)
  ultimately show ?thesis using assms by (auto simp: error_of_def)
qed (use assms in \<open>auto simp: error_of_def\<close>)

lemma perform_error_kind:
  assumes "perform call d = (Some e, d')"
  shows "\<not> is_aware_utc (call_clock call) \<and> e = StoreValueError (ValueError ''Work Engine clock must return timezone-aware UTC'') \<and> d' = d
    \<or> is_aware_utc (call_clock call) \<and> (e \<in> range Conflict \<or> e \<in> range UncaughtError)"
  using assms
  by (cases call, simp_all only: perform.simps call_clock.simps engine_command_defs) (erule transaction_error)+

section \<open>Failures roll back\<close>

lemma admin_tx_committed:
  "register_worker_tx reg now d \<noteq> Inr (CommittedConflict c, d')"
  "configure_source_tx src now d \<noteq> Inr (CommittedConflict c, d')"
  "create_run_tx run now d \<noteq> Inr (CommittedConflict c, d')"
  "create_stage_tx stage now d \<noteq> Inr (CommittedConflict c, d')"
  "enqueue_work_tx work now d \<noteq> Inr (CommittedConflict c, d')"
  "expire_leases_tx locked sweep now d \<noteq> Inr (CommittedConflict c, d')"
proof -
  show "register_worker_tx reg now d \<noteq> Inr (CommittedConflict c, d')"
    by (auto simp: register_worker_tx_def register_worker_again_def register_worker_new_def
        result_bind_eq_Inr split: option.splits if_splits)
  show "configure_source_tx src now d \<noteq> Inr (CommittedConflict c, d')"
    by (auto simp: configure_source_tx_def result_bind_eq_Inr split: option.splits if_splits)
  show "create_run_tx run now d \<noteq> Inr (CommittedConflict c, d')"
    by (auto simp: create_run_tx_def Let_def result_bind_eq_Inr split: option.splits if_splits)
  show "create_stage_tx stage now d \<noteq> Inr (CommittedConflict c, d')"
    by (auto simp: create_stage_tx_def result_bind_eq_Inr split: option.splits if_splits list.splits)
  show "enqueue_work_tx work now d \<noteq> Inr (CommittedConflict c, d')"
    by (auto simp: enqueue_work_tx_def result_bind_eq_Inr split: if_splits list.splits)
  show "expire_leases_tx locked sweep now d \<noteq> Inr (CommittedConflict c, d')"
    by (auto simp: expire_leases_tx_def Let_def result_bind_eq_Inr)
qed

lemma acquire_tx_committed:
  assumes "store_ok d" shows "acquire_lease_tx locked uuids req now d \<noteq> Inr (CommittedConflict c, d')"
proof
  assume "acquire_lease_tx locked uuids req now d = Inr (CommittedConflict c, d')"
  then show False using assms by (cases rule: acquire_lease_tx_cases) auto
qed

text \<open>The one conflict that is committed: the lease presented has run out and its expiry is recorded.\<close>

definition expiry_recorded :: "int \<Rightarrow> string \<Rightarrow> work_unit_row \<Rightarrow> db \<Rightarrow> db \<Rightarrow> bool" where
  "expiry_recorded now corr u d d' \<longleftrightarrow>
     u \<in> set (work_units d) \<and> leased u \<and> lease_due now u
     \<and> work_units d' = update_rows (\<lambda>x. x = u) (expired_work_row now corr) (work_units d)
     \<and> wu_state (expired_work_row now corr u) \<in> {Unit_RETRY_WAIT, Unit_DEAD_LETTER}"

lemma not_live_due:
  assumes "schema_ok d" "u \<in> set (work_units d)" "leased u"
  shows "lease_due now u \<longleftrightarrow> \<not> unit_live now u"
proof -
  obtain expires deadline where "wu_lease_expires_at_utc u = Some expires"
    "wu_heartbeat_deadline_utc u = Some deadline"
    using leased_times [OF assms] by blast
  then show ?thesis using assms(3) by (auto simp: lease_due_def unit_live_def)
qed

lemma expired_recorded:
  assumes "engine_inv d" "u \<in> set (work_units d)" "leased u" "a \<in> set (work_attempts d)"
    "\<not> unit_live now u" "expire_locked u a now corr d = Inr (target, d')"
  shows "expiry_recorded now corr u d d'"
  using expire_locked_units [OF assms(6,1,2,4)] not_live_due [of d u now] assms
  by (auto simp: expiry_recorded_def)

lemma active_operation_conflict:
  assumes run: "when_active (lock_active_lease now work_id lease_id token worker digest corr d)
      (\<lambda>(u, a). rest u a) = Inr (CommittedConflict c, d')"
    and inv: "engine_inv d" and rest: "\<And>u a. rest u a d \<noteq> Inr (CommittedConflict c, d')"
  obtains u where "wu_work_id u = work_id" "c = WORK_LEASE_STALE work_id ''lease_expired''"
    "expiry_recorded now corr u d d'"
  using run
proof (cases rule: when_active_cases)
  case (Expired e)
  from lock_active_lease_cases [OF Expired(1)] obtain u a target where
    "u \<in> set (work_units d)" "wu_work_id u = work_id" "leased u" "a \<in> set (work_attempts d)"
    "e = WORK_LEASE_STALE (wu_work_id u) ''lease_expired''" "\<not> unit_live now u"
    "expire_locked u a now corr d = Inr (target, d')"
    by (metis committed.distinct(1) committed.inject(2))
  then show thesis using that expired_recorded [OF inv] Expired(2) by blast
next
  case (Active x d1)
  then show thesis using lock_active_lease_cases [OF Active(1)] rest
    by (metis committed.distinct(1) committed.inject(1) prod.simps(2))
qed

lemma active_rest_committed:
  "fail_active c now u a d \<noteq> Inr (CommittedConflict e, d')"
  "release_active rel now u a d \<noteq> Inr (CommittedConflict e, d')"
  "complete_active uuids w now u a d \<noteq> Inr (CommittedConflict e, d')"
  "complete_again w u a d \<noteq> Inr (CommittedConflict e, d')"
  by (auto simp: fail_active_def release_active_def complete_active_def complete_again_def Let_def
      result_bind_eq_Inr split: if_splits)

lemma lease_tx_conflict:
  assumes inv: "engine_inv d"
  shows "fail_tx f now d = Inr (CommittedConflict c, d') \<Longrightarrow>
      c = WORK_LEASE_STALE (wf_work_id f) ''lease_expired''
      \<and> (\<exists>u. wu_work_id u = wf_work_id f \<and> expiry_recorded now (wf_correlation_id f) u d d')"
    and "release_tx r now d = Inr (CommittedConflict c, d') \<Longrightarrow>
      c = WORK_LEASE_STALE (wrl_work_id r) ''lease_expired''
      \<and> (\<exists>u. wu_work_id u = wrl_work_id r \<and> expiry_recorded now (wrl_correlation_id r) u d d')"
    and "heartbeat_tx h now d = Inr (CommittedConflict c, d') \<Longrightarrow>
      c = WORK_LEASE_STALE (hb_work_id h) ''lease_expired''
      \<and> (\<exists>u. wu_work_id u = hb_work_id h \<and> expiry_recorded now (hb_correlation_id h) u d d')"
    and "complete_tx uuids w now d = Inr (CommittedConflict c, d') \<Longrightarrow>
      c = WORK_LEASE_STALE (wc_work_id w) ''lease_expired''
      \<and> (\<exists>u. wu_work_id u = wc_work_id w \<and> expiry_recorded now (wc_correlation_id w) u d d')"
proof -
  show "fail_tx f now d = Inr (CommittedConflict c, d') \<Longrightarrow>
      c = WORK_LEASE_STALE (wf_work_id f) ''lease_expired''
      \<and> (\<exists>u. wu_work_id u = wf_work_id f \<and> expiry_recorded now (wf_correlation_id f) u d d')"
    unfolding fail_tx_def
    by (erule active_operation_conflict [OF _ inv]) (use active_rest_committed in blast)+
  show "release_tx r now d = Inr (CommittedConflict c, d') \<Longrightarrow>
      c = WORK_LEASE_STALE (wrl_work_id r) ''lease_expired''
      \<and> (\<exists>u. wu_work_id u = wrl_work_id r \<and> expiry_recorded now (wrl_correlation_id r) u d d')"
    unfolding release_tx_def
    by (erule active_operation_conflict [OF _ inv]) (use active_rest_committed in blast)+
  show "heartbeat_tx h now d = Inr (CommittedConflict c, d') \<Longrightarrow>
      c = WORK_LEASE_STALE (hb_work_id h) ''lease_expired''
      \<and> (\<exists>u. wu_work_id u = hb_work_id h \<and> expiry_recorded now (hb_correlation_id h) u d d')"
    unfolding heartbeat_tx_def
    by (erule active_operation_conflict [OF _ inv]) (simp add: result_bind_eq_Inr, blast)
  show "complete_tx uuids w now d = Inr (CommittedConflict c, d') \<Longrightarrow>
      c = WORK_LEASE_STALE (wc_work_id w) ''lease_expired''
      \<and> (\<exists>u. wu_work_id u = wc_work_id w \<and> expiry_recorded now (wc_correlation_id w) u d d')"
  proof (erule complete_tx_cases)
    fix u a target
    assume "u \<in> set (work_units d)" "a \<in> set (work_attempts d)" "wu_work_id u = wc_work_id w" "leased u"
      "\<not> unit_live now u" "expire_locked u a now (wc_correlation_id w) d = Inr (target, d')"
      "CommittedConflict c = (CommittedConflict (WORK_LEASE_STALE (wc_work_id w) ''lease_expired'')
        :: work_completion_result committed)"
    then show "c = WORK_LEASE_STALE (wc_work_id w) ''lease_expired''
      \<and> (\<exists>u. wu_work_id u = wc_work_id w \<and> expiry_recorded now (wc_correlation_id w) u d d')"
      using expired_recorded [OF inv] by blast
  qed (simp_all add: active_rest_committed)
qed

lemma rollback_or_expiry:
  assumes "error_of (transaction clock operation d) = (Some e, d')"
    and "\<And>now c d'. operation now d = Inr (CommittedConflict c, d') \<Longrightarrow>
      \<exists>corr u. c = WORK_LEASE_STALE (wu_work_id u) ''lease_expired'' \<and> expiry_recorded now corr u d d'"
  shows "d' = d \<or> (\<exists>now corr u. e = Conflict (WORK_LEASE_STALE (wu_work_id u) ''lease_expired'')
      \<and> expiry_recorded now corr u d d')"
  using assms(1)
proof (cases rule: error_of_transaction)
  case (Committed now c)
  then show ?thesis using assms(2) [of now c d'] by blast
qed simp

lemma perform_error:
  assumes "perform call d = (Some e, d')" and inv: "engine_inv d"
  shows "d' = d \<or> (\<exists>now corr u. e = Conflict (WORK_LEASE_STALE (wu_work_id u) ''lease_expired'')
      \<and> expiry_recorded now corr u d d')"
proof -
  have sd: "store_ok d" using inv by simp
  let ?expired = "\<lambda>c now d'. \<exists>corr u. c = WORK_LEASE_STALE (wu_work_id u) ''lease_expired''
      \<and> expiry_recorded now corr u d d'"
  have conflicts: "fail_tx f now d = Inr (CommittedConflict c, d') \<Longrightarrow> ?expired c now d'"
    "release_tx r now d = Inr (CommittedConflict c, d') \<Longrightarrow> ?expired c now d'"
    "heartbeat_tx h now d = Inr (CommittedConflict c, d') \<Longrightarrow> ?expired c now d'"
    "complete_tx uuids w now d = Inr (CommittedConflict c, d') \<Longrightarrow> ?expired c now d'"
    for f r h w uuids now c d' using lease_tx_conflict [OF inv] by metis+
  show ?thesis
    using assms(1)
    by (cases call, simp_all only: perform.simps engine_command_defs)
      (erule rollback_or_expiry,
        ((simp add: admin_tx_committed acquire_tx_committed [OF sd]; fail) | (erule conflicts)) [1])+
qed

end
