(* ===== verification/Unit_Evolution.thy ===== *)
theory Unit_Evolution
  imports Engine_Calls
begin

text \<open>
  How the rows of work units change under the commands of the engine. A row keeps its identity
  columns, its counters never fall, each revision is one move of its state, and a row in a terminal
  state is never touched again.
\<close>

section \<open>Evolution of a row\<close>

definition unit_identity ::
    "work_unit_row \<Rightarrow> (uuid \<times> uuid \<times> uuid \<times> work_stage \<times> work_capability \<times> string option)
      \<times> (string \<times> string \<times> string \<times> int) \<times> (int \<times> int \<times> int \<times> int) \<times> int" where
  "unit_identity u =
     ((wu_work_id u, wu_run_id u, wu_stage_run_id u, wu_stage u, wu_capability u, wu_source_key u),
      (wu_semantic_key u, wu_input_digest u, wu_expected_output_contract u, wu_priority u),
      (wu_max_attempts u, wu_retry_initial_delay_seconds u, wu_retry_multiplier u,
       wu_retry_max_delay_seconds u), wu_created_at_utc u)"

text \<open>The changes of state one update of a row makes: of the engine's commands, and of an operator who
  cancels a run.\<close>

definition engine_moves :: "(work_unit_state \<times> work_unit_state) set" where
  "engine_moves = {(Unit_PENDING, Unit_LEASED), (Unit_RETRY_WAIT, Unit_LEASED), (Unit_LEASED, Unit_LEASED),
     (Unit_LEASED, Unit_SUCCEEDED), (Unit_LEASED, Unit_PENDING), (Unit_LEASED, Unit_RETRY_WAIT),
     (Unit_LEASED, Unit_BLOCKED_BY_POLICY), (Unit_LEASED, Unit_DEAD_LETTER)}"

definition platform_moves :: "(work_unit_state \<times> work_unit_state) set" where
  "platform_moves = engine_moves \<union> {(Unit_PENDING, Unit_CANCELLED), (Unit_RETRY_WAIT, Unit_CANCELLED)}"

definition unit_evolves :: "(work_unit_state \<times> work_unit_state) set \<Rightarrow> work_unit_row \<Rightarrow> work_unit_row \<Rightarrow> bool" where
  "unit_evolves moves u u' \<longleftrightarrow>
     unit_identity u' = unit_identity u
     \<and> wu_revision u \<le> wu_revision u' \<and> wu_attempt_count u \<le> wu_attempt_count u'
     \<and> wu_failure_count u \<le> wu_failure_count u'
     \<and> (wu_state u, wu_state u') \<in> moves ^^ nat (wu_revision u' - wu_revision u)
     \<and> (terminal_unit_state (wu_state u) \<longrightarrow> u' = u)"

lemma unit_evolves_refl [simp]: "unit_evolves moves u u"
  by (simp add: unit_evolves_def)

lemma unit_evolves_trans:
  assumes "unit_evolves moves u v" and "unit_evolves moves v w"
  shows "unit_evolves moves u w"
proof -
  have "(wu_state u, wu_state w) \<in> moves ^^ (nat (wu_revision v - wu_revision u) + nat (wu_revision w - wu_revision v))"
    using assms unfolding relpow_add unit_evolves_def by blast
  moreover have "nat (wu_revision v - wu_revision u) + nat (wu_revision w - wu_revision v) = nat (wu_revision w - wu_revision u)"
    using assms by (auto simp: unit_evolves_def nat_add_distrib [symmetric])
  ultimately show ?thesis using assms by (auto simp: unit_evolves_def)
qed

lemma unit_evolves_mono: "unit_evolves moves u v \<Longrightarrow> moves \<subseteq> moves' \<Longrightarrow> unit_evolves moves' u v"
proof -
  assume "unit_evolves moves u v" "moves \<subseteq> moves'"
  moreover have "moves ^^ n \<subseteq> moves' ^^ n" for n using \<open>moves \<subseteq> moves'\<close> by (induction n) auto
  ultimately show ?thesis by (auto simp: unit_evolves_def)
qed

text \<open>One update is one move.\<close>

lemma one_move:
  assumes "(wu_state u, wu_state u') \<in> moves" and "wu_revision u' = wu_revision u + 1"
    and "unit_identity u' = unit_identity u" and "wu_attempt_count u \<le> wu_attempt_count u'"
    and "wu_failure_count u \<le> wu_failure_count u'" and "\<not> terminal_unit_state (wu_state u)"
  shows "unit_evolves moves u u'"
  using assms by (simp add: unit_evolves_def)

section \<open>The rows the operations write\<close>

lemma evolves_failed:
  assumes "leased u" and "retry_decide p kind (wu_failure_count u + 1) = Inr decision"
  shows "unit_evolves engine_moves u (failed_work_row decision (wu_failure_count u + 1) now corr u)"
  using retry_decide_target(1) [OF assms(2)] assms(1)
  by (intro one_move) (auto simp: engine_moves_def unit_identity_def failed_work_row_def clear_lease_def)

lemma evolves_rows:
  "leased u \<Longrightarrow> unit_evolves engine_moves u (completed_work_row c now u)"
  "leased u \<Longrightarrow> unit_evolves engine_moves u (released_work_row r now u)"
  "leased u \<Longrightarrow> unit_evolves engine_moves u (renew_work_row h now u)"
  by (rule one_move; simp add: engine_moves_def unit_identity_def completed_work_row_def released_work_row_def
      renew_work_row_def clear_lease_def)+

lemma evolves_leased:
  assumes "wu_state u \<in> {Unit_PENDING, Unit_RETRY_WAIT}"
  shows "unit_evolves engine_moves u (lease_work_row uuids c now permit u)"
  using assms by (intro one_move) (auto simp: engine_moves_def unit_identity_def lease_work_row_def)

lemma evolves_expired: "leased u \<Longrightarrow> unit_evolves engine_moves u (expired_work_row now corr u)"
proof -
  assume u: "leased u"
  show ?thesis
  proof (cases "retry_policy_of u")
    case (Inr p)
    then show ?thesis
      using evolves_failed [OF u, of p Failure_TRANSIENT]
      by (cases "retry_decide p Failure_TRANSIENT (wu_failure_count u + 1)")
        (simp_all add: expired_work_row_def)
  qed (simp add: expired_work_row_def)
qed

section \<open>Evolution of the table\<close>

definition units_evolve :: "(work_unit_state \<times> work_unit_state) set \<Rightarrow> db \<Rightarrow> db \<Rightarrow> bool" where
  "units_evolve moves d d' \<longleftrightarrow> (\<forall>u \<in> set (work_units d). \<exists>u' \<in> set (work_units d'). unit_evolves moves u u')"

lemma units_evolve_refl [simp]: "units_evolve moves d d"
  unfolding units_evolve_def using unit_evolves_refl by blast

lemma units_evolve_frame: "set (work_units d) \<subseteq> set (work_units d') \<Longrightarrow> units_evolve moves d d'"
  unfolding units_evolve_def using unit_evolves_refl by blast

lemma units_evolve_rows:
  assumes "work_units d' = update_rows p f (work_units d)"
    and "\<And>u. u \<in> set (work_units d) \<Longrightarrow> p u \<Longrightarrow> unit_evolves moves u (f u)"
  shows "units_evolve moves d d'"
proof -
  have "\<exists>u' \<in> set (work_units d'). unit_evolves moves u u'" if u: "u \<in> set (work_units d)" for u
  proof -
    have "(if p u then f u else u) \<in> set (work_units d')"
      using u by (auto simp: assms(1) in_set_update_rows)
    moreover have "unit_evolves moves u (if p u then f u else u)" using assms(2) [OF u] by simp
    ultimately show ?thesis by blast
  qed
  then show ?thesis by (simp add: units_evolve_def)
qed

lemma units_evolve_key:
  assumes sd: "schema_ok d" and u: "u \<in> set (work_units d)" and ev: "unit_evolves moves u u'"
    and d': "work_units d' = update_rows (\<lambda>x. wu_work_id x = wu_work_id u) (\<lambda>_. u') (work_units d)"
  shows "units_evolve moves d d'"
  by (rule units_evolve_rows [OF d']) (use units.key_unique [OF sd _ u] ev in auto)

lemma expire_locked_evolves:
  assumes "engine_inv d" "u \<in> set (work_units d)" "leased u" "a \<in> set (work_attempts d)"
    "expire_locked u a now corr d = Inr (target, d')"
  shows "units_evolve engine_moves d d'"
  by (rule units_evolve_rows [OF expire_locked_units(1) [OF assms(5,1,2,4)]])
    (use evolves_expired assms(3) in auto)

lemma lease_ended_evolves:
  assumes "engine_inv d" "u \<in> set (work_units d)" "unit_evolves engine_moves u u'" "lease_ended u u' a a' d d'"
  shows "units_evolve engine_moves d d'"
  using units_evolve_key [OF _ assms(2,3)] assms(1,4) by (simp add: lease_ended_def)

lemma active_operation_evolves:
  assumes run: "when_active (lock_active_lease now work_id lease_id token worker digest corr d)
      (\<lambda>(u, a). rest u a) = Inr (outcome, d')"
    and inv: "engine_inv d"
    and rest: "\<And>u a. u \<in> set (work_units d) \<Longrightarrow> leased u \<Longrightarrow> a \<in> set (work_attempts d) \<Longrightarrow>
      wu_work_id u = work_id \<Longrightarrow> rest u a d = Inr (outcome, d') \<Longrightarrow> units_evolve engine_moves d d'"
  shows "units_evolve engine_moves d d'"
  using run
proof (cases rule: when_active_cases)
  case (Expired c)
  from lock_active_lease_cases [OF Expired(1)] obtain u a target where
    "u \<in> set (work_units d)" "leased u" "a \<in> set (work_attempts d)"
    "expire_locked u a now corr d = Inr (target, d')"
    by (metis committed.distinct(1))
  then show ?thesis using expire_locked_evolves [OF inv] by blast
next
  case (Active x d1)
  from lock_active_lease_cases [OF Active(1)] obtain u a where
    "u \<in> set (work_units d)" "wu_work_id u = work_id" "leased u" "a \<in> set (work_attempts d)"
    "x = (u, a)" "d1 = d" by (metis committed.distinct(1) committed.inject(1))
  then show ?thesis using rest Active(2) by simp
qed

lemma fail_tx_evolves: "fail_tx c now d = Inr (outcome, d') \<Longrightarrow> engine_inv d \<Longrightarrow> units_evolve engine_moves d d'"
  unfolding fail_tx_def
proof (erule active_operation_evolves)
  fix u a
  assume inv: "engine_inv d" and u: "u \<in> set (work_units d)" "leased u" and a: "a \<in> set (work_attempts d)"
    and id: "wu_work_id u = wf_work_id c" and run: "fail_active c now u a d = Inr (outcome, d')"
  then obtain policy decision where
    "retry_decide policy (wf_failure_kind c) (wu_failure_count u + 1) = Inr decision"
    "lease_ended u (failed_work_row decision (wu_failure_count u + 1) now (wf_correlation_id c) u)
       a (failed_attempt_row c decision now a) d d'"
    using fail_active_InrD [OF run id _ u(1) a] by (metis engine_inv_store)
  then show "units_evolve engine_moves d d'"
    using lease_ended_evolves [OF inv u(1)] evolves_failed [OF u(2)] by blast
qed

lemma release_tx_evolves: "release_tx c now d = Inr (outcome, d') \<Longrightarrow> engine_inv d \<Longrightarrow> units_evolve engine_moves d d'"
  unfolding release_tx_def
proof (erule active_operation_evolves)
  fix u a
  assume inv: "engine_inv d" and u: "u \<in> set (work_units d)" "leased u" and a: "a \<in> set (work_attempts d)"
    and id: "wu_work_id u = wrl_work_id c" and run: "release_active c now u a d = Inr (outcome, d')"
  have "lease_ended u (released_work_row c now u) a (released_attempt_row c now a) d d'"
    using release_active_InrD(3) [OF run id _ u(1) a] inv by simp
  then show "units_evolve engine_moves d d'" using lease_ended_evolves [OF inv u(1)] evolves_rows(2) [OF u(2)] by blast
qed

lemma heartbeat_tx_evolves: "heartbeat_tx c now d = Inr (outcome, d') \<Longrightarrow> engine_inv d \<Longrightarrow> units_evolve engine_moves d d'"
  unfolding heartbeat_tx_def
proof (erule active_operation_evolves)
  fix u a
  assume inv: "engine_inv d" and u: "u \<in> set (work_units d)" "leased u" and id: "wu_work_id u = hb_work_id c"
    and run: "result_bind (update_unit (hb_work_id c) (renew_work_row c now) d) (\<lambda>d1.
     result_bind (update_attempt (wa_attempt_id a) (renew_attempt_row c now) d1) (\<lambda>d2.
     result_bind (execute (worker_heartbeats_update (update_rows (\<lambda>h. wh_worker_id h = hb_worker_id c)
        (\<lambda>h. h\<lparr>wh_last_seen_at_utc := now, wh_correlation_id := hb_correlation_id c\<rparr>))) d2) (\<lambda>d3.
     result_bind (of_checked (permit_from_work (renew_work_row c now u))) (\<lambda>permit.
     result_bind (of_checked (load_work_input_artifacts (wu_work_id u) d3)) (\<lambda>inputs.
     result_bind (of_checked (lease_from_work (renew_work_row c now u) permit
        (hb_correlation_id c) inputs)) (\<lambda>lease. Inr (Committed lease, d3))))))) = Inr (outcome, d')"
  have "work_units d' = update_rows (\<lambda>x. wu_work_id x = wu_work_id u) (renew_work_row c now) (work_units d)"
    using run by (auto simp: result_bind_eq_Inr update_unit_def update_attempt_def id)
  then show "units_evolve engine_moves d d'"
    by (rule units_evolve_rows)
      (use units.key_unique [OF store_ok_schema [OF engine_inv_store [OF inv]] _ u(1)] u(2)
        evolves_rows(3) in auto)
qed

lemma complete_tx_evolves:
  assumes "complete_tx uuids c now d = Inr (outcome, d')" and inv: "engine_inv d"
  shows "units_evolve engine_moves d d'"
  using assms(1)
proof (cases rule: complete_tx_cases)
  case (Again u a)
  then show ?thesis using complete_again_same by fastforce
next
  case (Expired u a target)
  then show ?thesis using expire_locked_evolves [OF inv] by blast
next
  case (Active u a)
  obtain d1 where d1: "artifact_step d d1" "engine_inv d1"
    "lease_ended u (completed_work_row c now u) a (completed_attempt_row c now a) d1 d'"
    using complete_active_ended [OF inv Active(1,2,12,3)] by blast
  then have "units_evolve engine_moves d1 d'"
    using lease_ended_evolves [OF d1(2)] artifact_stepD(1) [OF d1(1)] Active(1,4) evolves_rows(1) by metis
  then show ?thesis using artifact_stepD(1) [OF d1(1)] by (simp add: units_evolve_def)
qed

lemma acquire_tx_evolves:
  assumes "acquire_lease_tx locked uuids c now d = Inr (outcome, d')" and inv: "engine_inv d"
  shows "units_evolve engine_moves d d'"
  using assms(1) engine_inv_store [OF inv]
proof (cases rule: acquire_lease_tx_cases)
  case (Lease r h u permit d1 lease)
  note work = select_lease_work_SomeD [OF Lease(8)]
  have "lease_issued u (lease_work_row uuids c now permit u)
      (new_work_attempt uuids c now (wr_build_identity r) permit u) (lr_worker_id c) d d'"
    using acquire_lease_issued [OF Lease(9,10) _ work(1)] inv by simp
  then show ?thesis
    using units_evolve_key [OF _ work(1) evolves_leased] work(2) inv
    by (simp add: lease_issued_def lease_candidate_def)
qed simp

lemma admin_tx_evolves:
  "register_worker_tx reg now d = Inr (outcome1, d') \<Longrightarrow> units_evolve engine_moves d d'"
  "configure_source_tx src now d = Inr (outcome2, d') \<Longrightarrow> units_evolve engine_moves d d'"
  "create_run_tx run now d = Inr (outcome3, d') \<Longrightarrow> units_evolve engine_moves d d'"
  "create_stage_tx stage now d = Inr (outcome4, d') \<Longrightarrow> units_evolve engine_moves d d'"
  "enqueue_work_tx work now d = Inr (outcome5, d') \<Longrightarrow> units_evolve engine_moves d d'"
proof -
  show "register_worker_tx reg now d = Inr (outcome1, d') \<Longrightarrow> units_evolve engine_moves d d'"
    by (rule units_evolve_frame) (auto simp: register_worker_tx_def register_worker_again_def
        register_worker_new_def result_bind_eq_Inr split: option.splits if_splits)
  show "configure_source_tx src now d = Inr (outcome2, d') \<Longrightarrow> units_evolve engine_moves d d'"
    by (rule units_evolve_frame)
      (auto simp: configure_source_tx_def result_bind_eq_Inr split: option.splits if_splits)
  show "create_run_tx run now d = Inr (outcome3, d') \<Longrightarrow> units_evolve engine_moves d d'"
    by (rule units_evolve_frame) (auto dest: create_run_tx_InrD)
  show "create_stage_tx stage now d = Inr (outcome4, d') \<Longrightarrow> units_evolve engine_moves d d'"
    by (rule units_evolve_frame) (auto dest: create_stage_tx_InrD)
  show "enqueue_work_tx work now d = Inr (outcome5, d') \<Longrightarrow> units_evolve engine_moves d d'"
    by (erule enqueue_work_tx_cases) (auto intro: units_evolve_frame)
qed

lemma expire_tx_evolves:
  assumes "expire_leases_tx locked c now d = Inr (outcome, d')" and inv: "engine_inv d"
  shows "units_evolve engine_moves d d'"
  using expire_leases_tx_InrD(2) [OF assms]
  by (rule units_evolve_rows)
    (use select_due_leases_sub lease_due_leased in \<open>blast intro: evolves_expired\<close>)

lemmas lease_tx_evolves = acquire_tx_evolves heartbeat_tx_evolves complete_tx_evolves
  fail_tx_evolves release_tx_evolves expire_tx_evolves

lemma transaction_evolves:
  assumes "\<And>now r d'. operation now d = Inr (r, d') \<Longrightarrow> units_evolve engine_moves d d'"
  shows "units_evolve engine_moves d (snd (transaction clock operation d))"
  using transaction_snd [of clock operation d] assms by (metis units_evolve_refl)

lemma engine_step_evolves:
  assumes "engine_step d d'" and inv: "engine_inv d"
  shows "units_evolve engine_moves d d'"
  using assms(1)
  by cases (simp_all only: engine_command_defs,
      (rule transaction_evolves, (erule admin_tx_evolves | erule lease_tx_evolves [OF _ inv]))+)

lemma units_evolve_trans: "units_evolve moves d d' \<Longrightarrow> units_evolve moves d' d'' \<Longrightarrow> units_evolve moves d d''"
  unfolding units_evolve_def using unit_evolves_trans by blast

lemma units_evolve_mono: "units_evolve moves d d' \<Longrightarrow> moves \<subseteq> moves' \<Longrightarrow> units_evolve moves' d d'"
  unfolding units_evolve_def using unit_evolves_mono by blast

lemma reachable_evolves: "reachable d0 d \<Longrightarrow> engine_inv d0 \<Longrightarrow> units_evolve engine_moves d0 d"
proof (induction rule: reachable.induct)
  case (reachable_step d d')
  then show ?case using engine_step_evolves reachable_inv units_evolve_trans by blast
qed simp

end
