(* ===== verification/Engine_Integrity.thy ===== *)
theory Engine_Integrity
  imports Unit_Evolution
begin

text \<open>
  In a state with the invariant no command meets a state the code reports as corrupt: no counter
  without its lease, no leased unit without its attempt, no worker without its heartbeat row, no
  source-bound unit without its source, and no untyped crash.
\<close>

section \<open>Computations without alarms\<close>

definition integrity_alarm :: "conflict \<Rightarrow> bool" where
  "integrity_alarm c =
     (case c of
        WORKER_HEARTBEAT_MISSING _ \<Rightarrow> True
      | SOURCE_CAPACITY_MISSING _ _ \<Rightarrow> True
      | ARTIFACT_VERIFICATION_STATE_INVALID _ \<Rightarrow> True
      | WORK_ATTEMPT_MISSING _ \<Rightarrow> True
      | WORKER_CAPACITY_CORRUPT _ _ \<Rightarrow> True
      | SOURCE_CAPACITY_CORRUPT _ _ \<Rightarrow> True
      | _ \<Rightarrow> False)"

definition alarm :: "engine_exn \<Rightarrow> bool" where
  "alarm e = (case e of Conflict c \<Rightarrow> integrity_alarm c | UncaughtError _ \<Rightarrow> True | _ \<Rightarrow> False)"

definition no_alarm :: "engine_exn + 'a \<Rightarrow> bool" where
  "no_alarm r = (case r of Inl e \<Rightarrow> \<not> alarm e | Inr _ \<Rightarrow> True)"

lemma no_alarm_simps [simp]:
  "no_alarm (Inr x)"
  "no_alarm (Inl e) \<longleftrightarrow> \<not> alarm e"
  "no_alarm (execute f d)"
  "no_alarm (of_checked r)"
  "no_alarm (raise_conflict c) \<longleftrightarrow> \<not> integrity_alarm c"
  by (auto simp: no_alarm_def alarm_def execute_def of_checked_def map_error_def raise_conflict_def
    Let_def split: sum.splits)

lemma no_alarm_select [simp]: "no_alarm (one_or_none rs)" "no_alarm (select_one key k rows)"
  by (auto simp: select_one_def one_or_none_def no_alarm_def alarm_def split: list.splits)

lemma no_alarm_bind:
  "no_alarm r \<Longrightarrow> (\<And>x. r = Inr x \<Longrightarrow> no_alarm (f x)) \<Longrightarrow> no_alarm (result_bind r f)"
  by (cases r) auto

lemma no_alarm_checks: "list_all no_alarm cs \<Longrightarrow> no_alarm (checks cs)"
proof (induction cs)
  case (Cons c cs)
  then show ?case by (cases c) (auto simp: checks.simps)
qed simp

lemma no_alarm_guard [simp]: "no_alarm (guard b e) \<longleftrightarrow> b \<or> \<not> alarm e"
  by (simp add: guard_def no_alarm_def)

lemma stale_no_alarm [simp]:
  "no_alarm (require_attempt_identity a w l t k i)" "no_alarm (require_worker_build a b)"
  "no_alarm (require_completion_upload_identity upload c)"
  by (auto simp: require_attempt_identity_def require_worker_build_def Let_def alarm_def
      require_completion_upload_identity_def integrity_alarm_def intro!: no_alarm_checks)

section \<open>Reservations are there to be returned\<close>

definition reservations_held :: "work_unit_row \<Rightarrow> db \<Rightarrow> bool" where
  "reservations_held u d \<longleftrightarrow>
     (\<exists>h \<in> set (worker_heartbeats d).
        wu_active_worker_id u = Some (wh_worker_id h) \<and> 0 < wh_active_lease_count h)
     \<and> (\<forall>k. wu_source_key u = Some k \<longrightarrow>
          (\<exists>s \<in> set (source_capacity_states d). sc_source_key s = k \<and> 0 < sc_active_requests s))"

lemma leased_reserved:
  assumes inv: "engine_inv d" and u: "u \<in> set (work_units d)" "leased u"
  shows "reservations_held u d"
proof -
  have sd: "schema_ok d" using inv by simp
  obtain a where "holds_lease u a" using inv u unfolding engine_inv_def lease_inv_def by blast
  then obtain w where w: "wu_active_worker_id u = Some w" by (auto simp: holds_lease_def)
  obtain r where r: "r \<in> set (worker_registrations d)" "wr_worker_id r = w"
    using schema_referenceD(2) [OF sd u(1) w] by blast
  then obtain h where h: "h \<in> set (worker_heartbeats d)" "wh_worker_id h = w"
    using inv unfolding engine_inv_def worker_inv_def by blast
  have "0 < worker_load d w"
    unfolding worker_load_def by (rule count_rows_pos [OF u(1)]) (simp add: u(2) w)
  then have "0 < wh_active_lease_count h"
    using inv h by (simp add: engine_inv_def worker_inv_def)
  moreover have "\<exists>s \<in> set (source_capacity_states d). sc_source_key s = k \<and> 0 < sc_active_requests s"
    if k: "wu_source_key u = Some k" for k
  proof -
    obtain s where s: "s \<in> set (source_capacity_states d)" "sc_source_key s = k"
      using schema_referenceD(3) [OF sd u(1) k] by blast
    have "0 < source_load d k"
      unfolding source_load_def by (rule count_rows_pos [OF u(1)]) (simp add: u(2) k)
    then show ?thesis using inv s by (auto simp: engine_inv_def source_inv_def)
  qed
  ultimately show ?thesis using h w unfolding reservations_held_def by blast
qed

lemma release_no_alarm:
  assumes held: "reservations_held u d" and sd: "schema_ok d"
  shows "no_alarm (release_reservations u now corr d)"
proof -
  obtain h where h: "h \<in> set (worker_heartbeats d)" "wu_active_worker_id u = Some (wh_worker_id h)"
    "0 < wh_active_lease_count h" using held by (auto simp: reservations_held_def)
  have "count_rows (\<lambda>x. Some (wh_worker_id x) = wu_active_worker_id u \<and> 0 < wh_active_lease_count x)
      (worker_heartbeats d) = 1"
    using heartbeats.guarded_update(2) [OF sd h(1), of "\<lambda>x. 0 < wh_active_lease_count x"] h(2,3) by simp
  then have worker: "no_alarm (release_worker_reservation u corr d)"
    by (auto simp: release_worker_reservation_def Let_def intro!: no_alarm_bind)
  have "no_alarm (release_source_reservation u now corr d1)"
    if d1: "release_worker_reservation u corr d = Inr d1" for d1
  proof (cases "wu_source_key u")
    case (Some k)
    then obtain s where s: "s \<in> set (source_capacity_states d)" "sc_source_key s = k" "0 < sc_active_requests s"
      using held by (auto simp: reservations_held_def)
    have "source_capacity_states d1 = source_capacity_states d"
      using release_worker_InrD(2) [OF d1 sd] by auto
    then have "count_rows (\<lambda>r. sc_source_key r = k \<and> 0 < sc_active_requests r) (source_capacity_states d1) = 1"
      using sources.guarded_update(2) [OF sd s(1), of "\<lambda>r. 0 < sc_active_requests r"] s(2,3) by simp
    then show ?thesis
      using Some by (auto simp: release_source_reservation_def Let_def intro!: no_alarm_bind)
  qed (simp add: release_source_reservation_def)
  then show ?thesis unfolding release_reservations_def by (rule no_alarm_bind [OF worker])
qed

lemma end_lease_no_alarm:
  assumes held: "reservations_held u d"
    and steps: "update_attempt attempt_id fa d = Inr d1" "update_unit work_id fu d1 = Inr d2"
  shows "no_alarm (release_reservations u now corr d2)"
proof -
  have d2: "d2 = work_units_update (update_rows (\<lambda>x. wu_work_id x = work_id) fu)
      (work_attempts_update (update_rows (\<lambda>x. wa_attempt_id x = attempt_id) fa) d)" "store_ok d2"
    using steps by (simp_all add: update_attempt_def update_unit_def)
  have "reservations_held u d2" using held by (simp add: reservations_held_def d2(1))
  then show ?thesis using release_no_alarm d2(2) by simp
qed

lemma update_no_alarm [simp]:
  "no_alarm (update_attempt i f d)" "no_alarm (update_unit w g d)" "no_alarm (insert_dead_letter l d)"
  by (simp_all add: update_attempt_def update_unit_def insert_dead_letter_def)

lemma expire_locked_no_alarm:
  assumes "reservations_held u d"
  shows "no_alarm (expire_locked u a now corr d)"
  unfolding expire_locked_def Let_def
  by (intro no_alarm_bind) (auto intro: end_lease_no_alarm [OF assms])

lemma fail_active_no_alarm:
  assumes "reservations_held u d"
  shows "no_alarm (fail_active c now u a d)"
  unfolding fail_active_def Let_def
  by (intro no_alarm_bind) (auto intro: end_lease_no_alarm [OF assms])

lemma release_active_no_alarm:
  assumes "reservations_held u d"
  shows "no_alarm (release_active c now u a d)"
  unfolding release_active_def
  by (intro no_alarm_bind) (auto intro: end_lease_no_alarm [OF assms])

section \<open>Every operation\<close>

lemma lock_no_alarm [simp]: "no_alarm (lock_work_and_attempt w l d)"
  unfolding lock_work_and_attempt_def
  by (auto intro!: no_alarm_bind simp: integrity_alarm_def split: option.split)

lemma require_active_no_alarm:
  assumes inv: "engine_inv d" and u: "u \<in> set (work_units d)"
  shows "no_alarm (require_active_rows now u a corr d)"
proof (cases "leased u")
  case False
  then show ?thesis by (simp add: require_active_rows_def integrity_alarm_def)
next
  case True
  note ex = expire_locked_no_alarm [OF leased_reserved [OF inv u True], of a now corr]
  obtain expires deadline where "wu_lease_expires_at_utc u = Some expires"
    "wu_heartbeat_deadline_utc u = Some deadline"
    using leased_times [OF store_ok_schema [OF engine_inv_store [OF inv]] u True] by blast
  then show ?thesis
    unfolding require_active_rows_def using ex
    by (auto simp: integrity_alarm_def intro!: no_alarm_bind)
qed

lemma when_active_no_alarm:
  assumes "no_alarm active" and "\<And>x d. active = Inr (Committed x, d) \<Longrightarrow> no_alarm (rest x d)"
  shows "no_alarm (when_active active rest)"
  unfolding when_active_def
  by (rule no_alarm_bind [OF assms(1)]) (auto simp: assms(2) split: committed.split)

lemma active_operation_no_alarm:
  assumes inv: "engine_inv d"
    and rest: "\<And>u a. reservations_held u d \<Longrightarrow> no_alarm (rest u a d)"
  shows "no_alarm (when_active (lock_active_lease now work_id lease_id token worker digest corr d)
      (\<lambda>(u, a). rest u a))"
proof (rule when_active_no_alarm)
  show "no_alarm (lock_active_lease now work_id lease_id token worker digest corr d)"
    unfolding lock_active_lease_def
    by (auto intro!: no_alarm_bind require_active_no_alarm [OF inv] dest: lock_work_and_attempt_InrD(1))
next
  fix x d1
  assume "lock_active_lease now work_id lease_id token worker digest corr d = Inr (Committed x, d1)"
  from lock_active_lease_cases [OF this] obtain u a where
    "u \<in> set (work_units d)" "leased u" "x = (u, a)" "d1 = d"
    by (metis committed.distinct(1) committed.inject(1))
  then show "no_alarm ((\<lambda>(u, a). rest u a) x d1)" using rest leased_reserved [OF inv] by simp
qed

lemma lease_tx_no_alarm:
  assumes inv: "engine_inv d"
  shows "no_alarm (fail_tx f now d)" and "no_alarm (release_tx r now d)"
    and "no_alarm (heartbeat_tx h now d)"
proof -
  show "no_alarm (fail_tx f now d)" unfolding fail_tx_def
    by (rule active_operation_no_alarm [OF inv]) (rule fail_active_no_alarm)
  show "no_alarm (release_tx r now d)" unfolding release_tx_def
    by (rule active_operation_no_alarm [OF inv]) (rule release_active_no_alarm)
  show "no_alarm (heartbeat_tx h now d)" unfolding heartbeat_tx_def
    by (rule active_operation_no_alarm [OF inv]) (auto intro!: no_alarm_bind)
qed

lemma get_or_create_no_alarm [simp]:
  "no_alarm (get_or_create_artifact_object uuids i upload ref verified now corr d)"
  unfolding get_or_create_artifact_object_def
  by (auto intro!: no_alarm_bind simp: integrity_alarm_def split: option.split)

lemma consume_upload_no_alarm:
  assumes "artifact_upload_check upload"
  shows "no_alarm (consume_upload uuids i u a c now position upload role d)"
  using assms unfolding consume_upload_def
  by (auto intro!: no_alarm_bind simp: integrity_alarm_def artifact_upload_check_def
      split: option.splits upload_state.splits)

lemma consume_uploads_no_alarm:
  assumes "\<And>b. b \<in> set bs \<Longrightarrow> \<exists>up. uploads (oa_upload_id b) = Some up \<and> artifact_upload_check up"
  shows "no_alarm (consume_uploads uuids u a c now uploads i position bs d)"
  using assms
proof (induction bs arbitrary: i position d)
  case (Cons b bs)
  then obtain up where "uploads (oa_upload_id b) = Some up" "artifact_upload_check up" by fastforce
  then show ?case
    using Cons by (auto intro!: no_alarm_bind consume_upload_no_alarm)
qed simp

lemma consume_output_no_alarm:
  assumes sd: "schema_ok d"
  shows "no_alarm (consume_output_artifacts uuids u a c now d)"
proof (cases "filter (\<lambda>x. uploads_by_id c d x = None) (map oa_upload_id (wc_output_artifacts c)) = []")
  case True
  have "\<exists>up. uploads_by_id c d (oa_upload_id b) = Some up \<and> artifact_upload_check up"
    if b: "b \<in> set (wc_output_artifacts c)" for b
  proof -
    obtain up where up: "uploads_by_id c d (oa_upload_id b) = Some up"
      using True b by (fastforce simp: filter_empty_conv)
    then have "up \<in> set (artifact_uploads d)"
      unfolding uploads_by_id_def by (auto dest!: map_of_SomeD)
    then show ?thesis
      using up sd by (auto simp: schema_ok_def rows_checked_def list_all_iff)
  qed
  then show ?thesis
    using True by (simp add: consume_output_artifacts_def Let_def consume_uploads_no_alarm)
next
  case False
  then show ?thesis by (simp add: consume_output_artifacts_def Let_def integrity_alarm_def)
qed

lemma complete_active_no_alarm:
  assumes held: "reservations_held u d" and ok: "store_ok d"
  shows "no_alarm (complete_active uuids c now u a d)"
proof -
  have "no_alarm (release_reservations u now (wc_correlation_id c) d3)"
    if steps: "consume_output_artifacts uuids u a c now d = Inr d1"
      "update_attempt (wa_attempt_id a) (completed_attempt_row c now) d1 = Inr d2"
      "update_unit (wc_work_id c) (completed_work_row c now) d2 = Inr d3" for d1 d2 d3
  proof -
    have "artifact_step d d1" using consume_output_artifacts_step [OF steps(1) ok] by simp
    then have "reservations_held u d1"
      using held artifact_stepD(3,5) [of d d1] by (simp add: reservations_held_def)
    then show ?thesis using end_lease_no_alarm steps(2,3) by blast
  qed
  then show ?thesis
    unfolding complete_active_def
    by (auto intro!: no_alarm_bind consume_output_no_alarm [OF store_ok_schema [OF ok]]
        simp: integrity_alarm_def)
qed

lemma complete_tx_no_alarm:
  assumes inv: "engine_inv d"
  shows "no_alarm (complete_tx uuids c now d)"
proof -
  have "no_alarm (when_active (require_active_rows now u a (wc_correlation_id c) d)
       (\<lambda>_ d'. complete_active uuids c now u a d'))"
    if lock: "lock_work_and_attempt (wc_work_id c) (wc_lease_id c) d = Inr (u, a)"
      and id: "wa_work_id a = wc_work_id c" for u a
  proof (rule when_active_no_alarm)
    note rows = lock_work_and_attempt_InrD [OF lock]
    show "no_alarm (require_active_rows now u a (wc_correlation_id c) d)"
      by (rule require_active_no_alarm [OF inv rows(1)])
    fix x d1
    assume act: "require_active_rows now u a (wc_correlation_id c) d = Inr (Committed x, d1)"
    have "wa_work_id a = wu_work_id u" using id rows by simp
    then have "leased u" "d1 = d" using require_active_rows_cases [OF act] by auto
    then show "no_alarm (complete_active uuids c now u a d1)"
      using complete_active_no_alarm leased_reserved [OF inv rows(1)] inv by simp
  qed
  moreover have "no_alarm (complete_again c u a d)" for u a
    unfolding complete_again_def by (auto intro!: no_alarm_bind simp: integrity_alarm_def)
  ultimately show ?thesis
    unfolding complete_tx_def by (auto intro!: no_alarm_bind)
qed

lemma acquire_tx_no_alarm:
  assumes inv: "engine_inv d"
  shows "no_alarm (acquire_lease_tx locked uuids c now d)"
proof -
  have worker: "no_alarm (select_lease_worker c d)"
    unfolding select_lease_worker_def
    by (auto intro!: no_alarm_bind simp: integrity_alarm_def split: option.split)
  have reserve: "no_alarm (reserve_source c now u d)" if u: "u \<in> set (work_units d)" for u
  proof (cases "wu_source_key u")
    case (Some k)
    obtain s where "s \<in> set (source_capacity_states d)" "sc_source_key s = k"
      using schema_referenceD(3) [OF _ u Some] inv by auto
    then have "select_one sc_source_key k (source_capacity_states d) = (Inr (Some s) :: engine_exn + _)"
      using sources.select_iff [of d] inv by auto
    then show ?thesis using Some by (auto simp: reserve_source_def intro!: no_alarm_bind)
  qed (simp add: reserve_source_def)
  have issue: "no_alarm (issue_lease uuids c now build u permit d1)" for build u permit d1
    unfolding issue_lease_def by (auto intro!: no_alarm_bind)
  show ?thesis
    unfolding acquire_lease_tx_body
    by (auto intro!: no_alarm_bind worker reserve [OF select_lease_work_SomeD(1)] issue split: option.split)
qed

lemma expire_due_no_alarm:
  "engine_inv d \<Longrightarrow> set due \<subseteq> {u \<in> set (work_units d). leased u} \<Longrightarrow> distinct due \<Longrightarrow>
   no_alarm (expire_due due now corr retries dead d)"
proof (induction due arbitrary: retries dead d)
  case (Cons u due)
  have u: "u \<in> set (work_units d)" "leased u" using Cons.prems(2) by auto
  obtain a where a: "a \<in> set (work_attempts d)" "holds_lease u a"
    using Cons.prems(1) u unfolding engine_inv_def lease_inv_def by blast
  have "distinct (map (\<lambda>a. Some (wa_lease_id a)) (work_attempts d))"
    using attempt_leases.key_distinct [of d] Cons.prems(1) by (simp add: distinct_map inj_on_def)
  then have sel: "select_one (\<lambda>a. Some (wa_lease_id a)) (wu_active_lease_id u) (work_attempts d)
      = (Inr (Some a) :: engine_exn + _)"
    using select_one_key [of "\<lambda>a. Some (wa_lease_id a)" "work_attempts d" a] a by (simp add: holds_lease_def)
  have "no_alarm (expire_due due now corr r k d1)"
    if ex: "expire_locked u a now corr d = Inr (target, d1)" for target d1 r k
  proof (rule Cons.IH)
    show "engine_inv d1" by (rule expire_locked_inv [OF Cons.prems(1) u a ex])
    show "set due \<subseteq> {u \<in> set (work_units d1). leased u}"
      using Cons.prems(2,3) expire_locked_units(1) [OF ex Cons.prems(1) u(1) a(1)]
      by (auto simp: in_set_update_rows)
  qed (use Cons.prems(3) in simp)
  then show ?case
    using sel expire_locked_no_alarm [OF leased_reserved [OF Cons.prems(1) u]]
    by (auto intro!: no_alarm_bind)
qed simp

lemma expire_tx_no_alarm:
  assumes inv: "engine_inv d"
  shows "no_alarm (expire_leases_tx locked c now d)"
proof -
  have "set (select_due_leases locked l now d) \<subseteq> {u \<in> set (work_units d). leased u}"
    "distinct (select_due_leases locked l now d)" for l
    using select_due_leases_sub lease_due_leased select_due_leases_distinct [of d] inv by (blast, simp)
  then show ?thesis
    unfolding expire_leases_tx_def Let_def
    by (auto intro!: no_alarm_bind expire_due_no_alarm [OF inv])
qed

lemma admin_tx_no_alarm:
  assumes inv: "engine_inv d"
  shows "no_alarm (register_worker_tx reg now d)" and "no_alarm (configure_source_tx src now d)"
    and "no_alarm (create_run_tx run now d)" and "no_alarm (create_stage_tx stage now d)"
    and "no_alarm (enqueue_work_tx work now d)"
proof -
  have sd: "schema_ok d" using inv by simp
  have again: "no_alarm (register_worker_again now reg row d)"
    if row: "row \<in> set (worker_registrations d)" "wr_worker_id row = reg_worker_id reg" for row
  proof -
    obtain h where "h \<in> set (worker_heartbeats d)" "wh_worker_id h = reg_worker_id reg"
      using inv row unfolding engine_inv_def worker_inv_def by metis
    then have "count_rows (\<lambda>h. wh_worker_id h = reg_worker_id reg) (worker_heartbeats d) = 1"
      using heartbeats.count_one [OF sd] by metis
    then show ?thesis
      by (auto simp: register_worker_again_def integrity_alarm_def intro!: no_alarm_bind)
  qed
  show "no_alarm (register_worker_tx reg now d)"
    unfolding register_worker_tx_def register_worker_new_def
    by (auto intro!: no_alarm_bind split: option.split) (metis again select_one_SomeD)
  show "no_alarm (configure_source_tx src now d)"
    unfolding configure_source_tx_def
    by (auto intro!: no_alarm_bind simp: integrity_alarm_def split: option.split)
  show "no_alarm (create_run_tx run now d)"
    unfolding create_run_tx_def Let_def
    by (auto intro!: no_alarm_bind simp: integrity_alarm_def split: option.split)
  show "no_alarm (create_stage_tx stage now d)"
    unfolding create_stage_tx_def
    by (auto intro!: no_alarm_bind simp: integrity_alarm_def split: option.split list.split)
  show "no_alarm (enqueue_work_tx work now d)"
    unfolding enqueue_work_tx_def require_work_owner_def require_source_configured_def
      require_input_artifacts_exist_def Let_def
    by (auto intro!: no_alarm_bind simp: integrity_alarm_def split: option.split list.split)
qed

lemma transaction_no_alarm:
  assumes "\<And>now. no_alarm (operation now d)"
    and "\<And>now c d'. operation now d = Inr (CommittedConflict c, d') \<Longrightarrow> \<not> integrity_alarm c"
  shows "no_alarm (fst (transaction clock operation d))"
proof (cases rule: transaction_cases [of clock operation d])
  case (Clock e)
  then show ?thesis by (auto simp: engine_now_utc_def alarm_def split: if_splits)
next
  case (Failed now e)
  then show ?thesis using assms(1) [of now]
    by (cases e) (auto simp: map_exception_def alarm_def integrity_alarm_def split: value_error.split)
next
  case (Raised now c d')
  then show ?thesis using assms(2) by (simp add: alarm_def)
qed simp

lemma error_of_no_alarm: "fst (error_of r) = Some e \<Longrightarrow> no_alarm (fst r) \<Longrightarrow> \<not> alarm e"
  by (auto simp: no_alarm_def split: sum.splits)

lemma perform_no_alarm:
  assumes inv: "engine_inv d" and run: "fst (perform call d) = Some e"
  shows "\<not> alarm e"
proof -
  have stale: "\<not> integrity_alarm (WORK_LEASE_STALE w r)" for w r by (simp add: integrity_alarm_def)
  have sd: "store_ok d" using inv by simp
  have conflict: "fail_tx f now d = Inr (CommittedConflict c, d') \<Longrightarrow> \<not> integrity_alarm c"
    "release_tx r now d = Inr (CommittedConflict c, d') \<Longrightarrow> \<not> integrity_alarm c"
    "heartbeat_tx h now d = Inr (CommittedConflict c, d') \<Longrightarrow> \<not> integrity_alarm c"
    "complete_tx uuids w now d = Inr (CommittedConflict c, d') \<Longrightarrow> \<not> integrity_alarm c"
    for f r h w uuids now c d' using lease_tx_conflict [OF inv] stale by metis+
  note no = lease_tx_no_alarm [OF inv] complete_tx_no_alarm [OF inv] admin_tx_no_alarm [OF inv]
    acquire_tx_no_alarm [OF inv] expire_tx_no_alarm [OF inv]
  have leases: "no_alarm (fst (fail clock f d))" "no_alarm (fst (release clock r d))"
    "no_alarm (fst (heartbeat clock h d))" "no_alarm (fst (complete clock uuids w d))"
    for clock f r h uuids w
    unfolding fail_def release_def heartbeat_def complete_def
    by (rule transaction_no_alarm, rule no, erule conflict)+
  have admin: "no_alarm (fst (register_worker clock c1 d))" "no_alarm (fst (configure_source clock c2 d))"
    "no_alarm (fst (create_run clock c3 d))" "no_alarm (fst (create_stage clock c4 d))"
    "no_alarm (fst (enqueue_work clock c5 d))" "no_alarm (fst (acquire_lease clock locked uuids c6 d))"
    "no_alarm (fst (expire_leases clock locked c7 d))"
    for clock c1 c2 c3 c4 c5 c6 c7 locked uuids
    unfolding register_worker_def configure_source_def create_run_def create_stage_def
      enqueue_work_def acquire_lease_def expire_leases_def
    by (rule transaction_no_alarm, rule no, simp add: admin_tx_committed acquire_tx_committed [OF sd])+
  show ?thesis
    using run
    by (cases call, simp_all only: perform.simps)
      (erule error_of_no_alarm, (rule leases | rule admin))+
qed

end
