(* ===== verification/Engine_Scenario.thy ===== *)
theory Engine_Scenario
  imports Engine_Steps
begin

text \<open>
  A concrete run of the engine, evaluated by the kernel: a database with one published snapshot, one
  running stage, one registered worker, one source and one pending unit of source-bound work, and
  the states the commands lead it to. The witnesses of the properties are instances of it.
\<close>

definition zero_digest :: string where
  "zero_digest = ''sha256:'' @ replicate 64 (CHR ''0'')"

definition one_digest :: string where
  "one_digest = ''sha256:'' @ replicate 64 (CHR ''1'')"

definition demo_unit :: work_unit_row where
  "demo_unit = new_work_unit
     \<lparr>wus_work_id = UUID 3, wus_run_id = UUID 1, wus_stage_run_id = UUID 2,
      wus_stage = Stage_ACQUISITION, wus_capability = Cap_HTTP_FETCH, wus_source_key = Some ''web'',
      wus_semantic_key = zero_digest, wus_input_digest = one_digest,
      wus_expected_output_contract = ''page.v1'', wus_priority = 5,
      wus_retry_policy = \<lparr>rp_max_attempts = 3, rp_initial_delay_seconds = 2, rp_multiplier = 3,
                          rp_max_delay_seconds = 10\<rparr>,
      wus_available_at_utc = utc 0, wus_correlation_id = ''c'', wus_input_artifacts = []\<rparr> 0"

definition demo_db :: db where
  "demo_db =
     \<lparr>config_bundles = [\<lparr>cb_bundle_digest = zero_digest, cb_campaign_key = ''camp'', cb_readiness = Bundle_READY\<rparr>],
      config_bundle_artifacts = [], config_bundle_blockers = [],
      collection_runs = [\<lparr>cr_run_id = UUID 1, cr_campaign_key = ''camp'',
        cr_config_bundle_digest = zero_digest, cr_state = Run_RUNNING, cr_revision = 0,
        cr_created_at_utc = 0, cr_updated_at_utc = 0, cr_correlation_id = ''c''\<rparr>],
      stage_runs = [\<lparr>sr_stage_run_id = UUID 2, sr_run_id = UUID 1, sr_stage = Stage_ACQUISITION,
        sr_state = StageRun_RUNNING, sr_revision = 0, sr_created_at_utc = 0, sr_updated_at_utc = 0,
        sr_correlation_id = ''c''\<rparr>],
      collection_run_transitions = [],
      source_capacity_states = [\<lparr>sc_source_key = ''web'', sc_policy_digest = zero_digest,
        sc_operational_state = Source_ACTIVE, sc_max_active_requests = 2, sc_active_requests = 0,
        sc_minimum_interval_milliseconds = 1000, sc_next_allowed_request_at_utc = 0,
        sc_retry_after_utc = None, sc_revision = 0, sc_updated_at_utc = 0, sc_correlation_id = ''c''\<rparr>],
      worker_registrations = [\<lparr>wr_worker_id = ''w1'', wr_registration_digest = zero_digest,
        wr_build_identity = ''b1'', wr_max_concurrency = 1, wr_resource_profile = ''small'',
        wr_registered_at_utc = 0, wr_correlation_id = ''c''\<rparr>],
      worker_capabilities = [(''w1'', Cap_HTTP_FETCH)],
      worker_output_contracts = [(''w1'', ''page.v1'')],
      worker_heartbeats = [\<lparr>wh_worker_id = ''w1'', wh_last_seen_at_utc = 0,
        wh_active_lease_count = 0, wh_correlation_id = ''c''\<rparr>],
      work_units = [demo_unit], work_attempts = [], dead_letters = [], artifact_uploads = [],
      artifact_objects = [], artifact_records = [], work_input_artifacts = [],
      work_output_artifacts = []\<rparr>"

definition demo_uuids :: "nat \<Rightarrow> uuid" where
  "demo_uuids n = UUID (word_of_nat (10 + n))"

definition demo_request :: lease_request where
  "demo_request = \<lparr>lr_worker_id = ''w1'', lr_capability = Cap_HTTP_FETCH,
     lr_lease_duration_seconds = 60, lr_heartbeat_interval_seconds = 20, lr_correlation_id = ''c1''\<rparr>"

definition demo_leased :: db where
  "demo_leased = snd (acquire_lease (utc 100) (\<lambda>_. False) demo_uuids demo_request demo_db)"

lemma demo_db_inv: "engine_inv demo_db"
  by code_simp

lemma demo_leased_inv: "engine_inv demo_leased"
  unfolding demo_leased_def by (rule engine_step_inv [OF step_acquire demo_db_inv])

lemma demo_leased_reachable: "reachable demo_db demo_leased"
  unfolding demo_leased_def by (rule reachable_step [OF reachable_refl step_acquire])

text \<open>The leased state written out.\<close>

definition demo_permit :: source_permit where
  "demo_permit = \<lparr>sp_source_key = ''web'', sp_policy_digest = zero_digest, sp_permit_not_before_utc = utc 100\<rparr>"

definition demo_leased_row :: work_unit_row where
  "demo_leased_row = lease_work_row demo_uuids demo_request 100 (Some demo_permit) demo_unit"

definition demo_state :: db where
  "demo_state = demo_db
     \<lparr>source_capacity_states := [\<lparr>sc_source_key = ''web'', sc_policy_digest = zero_digest,
        sc_operational_state = Source_ACTIVE, sc_max_active_requests = 2, sc_active_requests = 1,
        sc_minimum_interval_milliseconds = 1000, sc_next_allowed_request_at_utc = 1000100,
        sc_retry_after_utc = None, sc_revision = 1, sc_updated_at_utc = 100, sc_correlation_id = ''c1''\<rparr>],
      worker_heartbeats := [\<lparr>wh_worker_id = ''w1'', wh_last_seen_at_utc = 100,
        wh_active_lease_count = 1, wh_correlation_id = ''c1''\<rparr>],
      work_units := [demo_leased_row],
      work_attempts := [new_work_attempt demo_uuids demo_request 100 ''b1'' (Some demo_permit) demo_unit]\<rparr>"

lemma demo_leased_eq: "demo_leased = demo_state"
  by code_simp

definition demo_beat :: lease_heartbeat where
  "demo_beat = \<lparr>hb_work_id = UUID 3, hb_lease_id = UUID 11, hb_lease_token = UUID 12, hb_worker_id = ''w1'',
     hb_input_digest = one_digest, hb_lease_duration_seconds = 60, hb_heartbeat_interval_seconds = 20,
     hb_correlation_id = ''c2''\<rparr>"

text \<open>The start of the scenario and its first step.\<close>

definition demo_start :: db where
  "demo_start = demo_db
     \<lparr>collection_runs := [], stage_runs := [], source_capacity_states := [], worker_registrations := [],
      worker_capabilities := [], worker_output_contracts := [], worker_heartbeats := [], work_units := []\<rparr>"

definition demo_source :: source_capacity_spec where
  "demo_source = \<lparr>scs_source_key = ''web'', scs_policy_digest = zero_digest, scs_state = Source_ACTIVE,
     scs_max_active_requests = 2, scs_minimum_interval_milliseconds = 1000, scs_correlation_id = ''c''\<rparr>"

definition demo_configured :: db where
  "demo_configured = snd (configure_source (utc 0) demo_source demo_start)"

lemma demo_start_initial: "initial_state demo_start"
  by code_simp

lemma demo_configured_reachable: "reachable demo_start demo_configured"
  unfolding demo_configured_def by (rule reachable_step [OF reachable_refl step_configure])

lemma demo_configured_sources: "map sc_source_key (source_capacity_states demo_configured) = [''web'']"
  by code_simp

lemma demo_leased_unit:
  "map (\<lambda>u. (wu_work_id u, wu_state u, wu_active_lease_id u, wu_lease_expires_at_utc u,
             wu_heartbeat_deadline_utc u)) (work_units demo_leased) =
     [(UUID 3, Unit_LEASED, Some (UUID 11), Some 60000100, Some 20000100)]"
  unfolding demo_leased_eq by code_simp

end
