(* ===== verification/Engine_Properties.thy ===== *)
theory Engine_Properties
  imports Engine_Integrity Engine_Scenario
begin

text \<open>
  The properties of the Work Engine as a whole: what holds in every state its commands lead to, what
  a failed command leaves behind, and how the rows of the work table change over time. Each
  property with hypotheses is followed by an instance of it in the concrete scenario.
\<close>

section \<open>Every reachable state\<close>

text \<open>
  C1: in every state that commands lead to from a database without work, the schema holds, leases and
  LEASED attempts correspond one to one, attempts are counted and numbered, worker and source
  counters equal the leases they stand for, leasable work has failures left and exactly the dead
  work has a dead letter.
\<close>

theorem reachable_states_consistent:
  assumes "initial_state d0" and "reachable d0 d"
  shows "engine_inv d"
  using reachable_inv [OF assms(2) initial_state_inv [OF assms(1)]] .

theorem reachable_states_consistent_witness:
  "reachable demo_start demo_configured \<and> map sc_source_key (source_capacity_states demo_configured) = [''web'']
   \<and> engine_inv demo_configured"
  using reachable_states_consistent [OF demo_start_initial demo_configured_reachable]
    demo_configured_reachable demo_configured_sources by simp

text \<open>
  C2: however requests, renewals, completions, failures and expiries interleave, a worker never holds
  more leases than the concurrency it registered and a source never serves more leases than its
  configured maximum of active requests.
\<close>

theorem concurrency_limits:
  assumes "engine_inv d0" and "reachable d0 d"
  shows "(\<forall>r \<in> set (worker_registrations d).
      count_rows (\<lambda>u. wu_state u = Unit_LEASED \<and> wu_active_worker_id u = Some (wr_worker_id r)) (work_units d)
        \<le> wr_max_concurrency r)
    \<and> (\<forall>s \<in> set (source_capacity_states d).
      count_rows (\<lambda>u. wu_state u = Unit_LEASED \<and> wu_source_key u = Some (sc_source_key s)) (work_units d)
        \<le> sc_max_active_requests s)"
proof -
  have inv: "engine_inv d" by (rule reachable_inv [OF assms(2,1)])
  have "source_load d (sc_source_key s) \<le> sc_max_active_requests s" if "s \<in> set (source_capacity_states d)" for s
    using inv that schema_rowD(3) [of d s]
    by (auto simp: engine_inv_def source_inv_def source_capacity_check_def)
  moreover have "worker_load d (wr_worker_id r) \<le> wr_max_concurrency r" if "r \<in> set (worker_registrations d)" for r
    using inv that unfolding engine_inv_def worker_inv_def by blast
  ultimately show ?thesis by (simp add: source_load_def worker_load_def)
qed

theorem concurrency_limits_witness:
  "\<exists>r \<in> set (worker_registrations demo_leased). wr_max_concurrency r = 1
     \<and> count_rows (\<lambda>u. wu_state u = Unit_LEASED \<and> wu_active_worker_id u = Some (wr_worker_id r))
         (work_units demo_leased) \<le> wr_max_concurrency r"
proof -
  have "list_ex (\<lambda>r. wr_max_concurrency r = 1) (worker_registrations demo_leased)" by code_simp
  then show ?thesis
    using concurrency_limits [OF demo_db_inv demo_leased_reachable] by (auto simp: list_ex_iff)
qed

text \<open>
  C3: a leased unit has exactly one attempt with the outcome LEASED, and that attempt carries the
  lease id, the token and the worker of the row: two workers never hold the same work.
\<close>

theorem lease_exclusive:
  assumes "engine_inv d0" and "reachable d0 d"
    and "u \<in> set (work_units d)" and "wu_state u = Unit_LEASED"
  shows "\<exists>a. {b \<in> set (work_attempts d). wa_work_id b = wu_work_id u \<and> wa_outcome b = Outcome_LEASED} = {a}
    \<and> wu_active_lease_id u = Some (wa_lease_id a) \<and> wu_active_lease_token u = Some (wa_lease_token a)
    \<and> wu_active_worker_id u = Some (wa_worker_id a)"
proof -
  have inv: "engine_inv d" by (rule reachable_inv [OF assms(2,1)])
  then have sd: "schema_ok d" and li: "lease_inv d" by (simp_all add: engine_inv_def)
  obtain a where a: "a \<in> set (work_attempts d)" "holds_lease u a"
    using conjunct1 [OF li [unfolded lease_inv_def]] assms(3,4) by blast
  have "b = a" if b: "b \<in> set (work_attempts d)" "wa_work_id b = wu_work_id u" "wa_outcome b = Outcome_LEASED" for b
  proof -
    obtain v where v: "v \<in> set (work_units d)" "holds_lease v b"
      using conjunct2 [OF li [unfolded lease_inv_def]] b(1,3) by blast
    have "wu_work_id v = wu_work_id u" using v(2) b(2) by (simp add: holds_lease_def)
    then have "v = u" by (rule units.key_unique [OF sd v(1) assms(3)])
    then show ?thesis using holds_lease_unique [OF sd b(1) a(1) _ a(2)] v(2) by simp
  qed
  then have "{b \<in> set (work_attempts d). wa_work_id b = wu_work_id u \<and> wa_outcome b = Outcome_LEASED} = {a}"
  proof (intro set_eqI iffI)
    fix b assume "b \<in> {a}"
    then show "b \<in> {b \<in> set (work_attempts d). wa_work_id b = wu_work_id u \<and> wa_outcome b = Outcome_LEASED}"
      using a by (simp add: holds_lease_def)
  qed simp
  then show ?thesis by (rule exI [of _ a, OF conjI]) (use a(2) in \<open>simp add: holds_lease_def\<close>)
qed

theorem lease_exclusive_witness:
  "\<exists>u a. u \<in> set (work_units demo_leased) \<and> wu_state u = Unit_LEASED
     \<and> {b \<in> set (work_attempts demo_leased). wa_work_id b = wu_work_id u \<and> wa_outcome b = Outcome_LEASED} = {a}"
proof -
  obtain u where "u \<in> set (work_units demo_leased)" "wu_state u = Unit_LEASED"
    using demo_leased_unit by (cases "work_units demo_leased") auto
  then show ?thesis
    using lease_exclusive [OF demo_db_inv demo_leased_reachable] by blast
qed

section \<open>Errors\<close>

text \<open>
  C4: what a command that fails in a reachable state reports. Either its clock did not return aware UTC,
  the error is the engine's \<open>ValueError\<close> about it and nothing changes; or it is a typed conflict, never an
  untyped crash, and none that says that rows of the engine disagree: the capacity counters are there to
  be returned, a leased unit has its attempt, a registered worker its heartbeat row, a source-bound unit
  its source, a verified upload its object. Not excluded are WORK_ENGINE_STORAGE_FAILED, for statements
  the database refuses, WORK_ENGINE_STATE_INVALID, for stored values the domain's constructors refuse, and
  ARTIFACT_OBJECT_IDENTITY_CONFLICT.
\<close>

theorem no_corruption_reported:
  assumes "initial_state d0" and "reachable d0 d" and "perform call d = (Some e, d')"
  shows "\<not> is_aware_utc (call_clock call)
      \<and> e = StoreValueError (ValueError ''Work Engine clock must return timezone-aware UTC'') \<and> d' = d
    \<or> is_aware_utc (call_clock call) \<and> (\<exists>c. e = Conflict c
      \<and> (\<forall>work worker. c \<noteq> WORKER_CAPACITY_CORRUPT work worker) \<and> (\<forall>work source. c \<noteq> SOURCE_CAPACITY_CORRUPT work source)
      \<and> (\<forall>work. c \<noteq> WORK_ATTEMPT_MISSING work) \<and> (\<forall>w. c \<noteq> WORKER_HEARTBEAT_MISSING w)
      \<and> (\<forall>source work. c \<noteq> SOURCE_CAPACITY_MISSING source work)
      \<and> (\<forall>upload. c \<noteq> ARTIFACT_VERIFICATION_STATE_INVALID upload))"
proof -
  have "\<not> alarm e"
    using perform_no_alarm [OF reachable_inv [OF assms(2) initial_state_inv [OF assms(1)]], of call e] assms(3) by simp
  then show ?thesis using perform_error_kind [OF assms(3)] by (auto simp: alarm_def integrity_alarm_def)
qed

theorem no_corruption_reported_witness:
  "fst (perform (Call_acquire (utc 5) (\<lambda>_. False) demo_uuids demo_request) demo_configured)
     = Some (Conflict (WORKER_NOT_REGISTERED ''w1''))
   \<and> (\<forall>work. WORKER_NOT_REGISTERED ''w1'' \<noteq> WORK_ATTEMPT_MISSING work)"
proof -
  let ?r = "perform (Call_acquire (utc 5) (\<lambda>_. False) demo_uuids demo_request) demo_configured"
  have e: "fst ?r = Some (Conflict (WORKER_NOT_REGISTERED ''w1''))" by code_simp
  then have "?r = (Some (Conflict (WORKER_NOT_REGISTERED ''w1'')), snd ?r)" by (metis prod.collapse)
  from no_corruption_reported [OF demo_start_initial demo_configured_reachable this] show ?thesis using e by simp
qed

text \<open>
  C5: a command that raises leaves the database exactly as it was, with one exception: a worker that
  presents a lease which has run out gets WORK_LEASE_STALE, and the expiry of that lease is what is
  committed.
\<close>

theorem failed_command_rolls_back:
  assumes "engine_inv d" and "perform call d = (Some e, d')"
  shows "d' = d \<or> (\<exists>now corr u. e = Conflict (WORK_LEASE_STALE (wu_work_id u) ''lease_expired'')
      \<and> u \<in> set (work_units d) \<and> lease_due now u
      \<and> work_units d' = update_rows (\<lambda>x. x = u) (expired_work_row now corr) (work_units d))"
proof (rule disjE [OF perform_error [OF assms(2,1)]])
  assume "\<exists>now corr u. e = Conflict (WORK_LEASE_STALE (wu_work_id u) ''lease_expired'')
      \<and> expiry_recorded now corr u d d'"
  then obtain now corr u where "e = Conflict (WORK_LEASE_STALE (wu_work_id u) ''lease_expired'')"
    "expiry_recorded now corr u d d'" by (elim exE conjE)
  then show ?thesis unfolding expiry_recorded_def by (intro disjI2 exI conjI) (elim conjE, assumption)+
qed (rule disjI1)

theorem failed_command_rolls_back_witness:
  "let r = perform (Call_heartbeat (utc 30000000) demo_beat) demo_leased
   in fst r = Some (Conflict (WORK_LEASE_STALE (UUID 3) ''lease_expired''))
      \<and> (\<exists>u \<in> set (work_units demo_leased). \<exists>now. lease_due now u)"
proof -
  let ?r = "perform (Call_heartbeat (utc 30000000) demo_beat) demo_leased"
  have e: "fst ?r = Some (Conflict (WORK_LEASE_STALE (UUID 3) ''lease_expired''))"
    "map wu_state (work_units (snd ?r)) \<noteq> map wu_state (work_units demo_leased)" by code_simp+
  have r: "?r = (Some (Conflict (WORK_LEASE_STALE (UUID 3) ''lease_expired'')), snd ?r)"
    by (rule prod_eqI) (simp_all only: e fst_conv snd_conv)
  have "snd ?r \<noteq> demo_leased" using e(2) by metis
  then show ?thesis
    using failed_command_rolls_back [OF demo_leased_inv r] e(1) by (auto simp: Let_def)
qed

section \<open>The history of a unit\<close>

text \<open>
  C6: over any sequence of commands a work unit keeps its identity columns, never loses attempts or
  failures, and changes state by the engine's moves only: it went from its old state to its new one in
  exactly as many moves as its revision rose. The moves are a lease, its renewal and its end; all are in
  the domain's transition table, except the renewal, which does not change the state, and the lease of a
  unit that waits for a retry, which the table wants to be pending first. Once a unit is succeeded, dead,
  blocked, cancelled or superseded its row never changes again.
\<close>

theorem unit_history:
  assumes "engine_inv d" and "reachable d d'" and "u \<in> set (work_units d)"
  shows "(\<exists>u' \<in> set (work_units d'). unit_identity u' = unit_identity u
      \<and> wu_revision u \<le> wu_revision u' \<and> wu_attempt_count u \<le> wu_attempt_count u'
      \<and> wu_failure_count u \<le> wu_failure_count u'
      \<and> (wu_state u, wu_state u') \<in> engine_moves ^^ nat (wu_revision u' - wu_revision u)
      \<and> (terminal_unit_state (wu_state u) \<longrightarrow> u' = u))
    \<and> (\<forall>(s, t) \<in> engine_moves. t \<in> allowed_transitions s
        \<or> (s, t) = (Unit_LEASED, Unit_LEASED) \<or> (s, t) = (Unit_RETRY_WAIT, Unit_LEASED))"
  using reachable_evolves [OF assms(2,1)] assms(3)
  unfolding units_evolve_def unit_evolves_def by (auto simp: engine_moves_def)

theorem unit_history_witness:
  "\<exists>u' \<in> set (work_units demo_leased). unit_identity u' = unit_identity demo_unit
     \<and> (wu_state demo_unit, wu_state u') \<in> engine_moves ^^ nat (wu_revision u' - wu_revision demo_unit)"
proof -
  have u: "demo_unit \<in> set (work_units demo_db)" by (simp add: demo_db_def)
  show ?thesis using unit_history [OF demo_db_inv demo_leased_reachable u] by blast
qed

end
