(* ===== verification/Engine_Behaviour.thy ===== *)
theory Engine_Behaviour
  imports Engine_Integrity Engine_Scenario
begin

text \<open>
  What each lease command does when it succeeds, and when it refuses: the unit a lease is granted
  for, who may end or renew it, the rows the end of a lease leaves, and what repeating a command
  changes.
\<close>

section \<open>Commands at an instant\<close>

lemma transaction_utc_Inr:
  assumes "transaction (utc now) operation d = (Inr r, d')"
  shows "operation now d = Inr (Committed r, d')"
  using assms by (auto simp: transaction_utc split: sum.splits prod.splits committed.splits)

lemma row_update_eq:
  assumes "schema_ok d" and "u \<in> set (work_units d)"
  shows "update_rows (\<lambda>x. wu_work_id x = wu_work_id u) (\<lambda>_. f u) (work_units d)
    = update_rows (\<lambda>x. x = u) f (work_units d)"
  unfolding update_rows_def using units.key_unique [OF assms(1) _ assms(2)] by (intro map_cong) auto

section \<open>Granting a lease\<close>

lemma lease_from_work_live:
  assumes "lease_from_work (lease_work_row uuids c now permit u) permit corr inputs = Inr lease"
  shows "valid_work_lease lease" and "lease_live_at lease now"
    and "wl_work_id lease = wu_work_id u" "wl_worker_id lease = lr_worker_id c"
      "wl_lease_id lease = uuids 1" "wl_lease_token lease = uuids 2"
      "wl_input_digest lease = wu_input_digest u" "wl_source_permit lease = permit"
proof -
  have v: "valid_work_lease lease"
    and l: "lease = \<lparr>wl_lease_id = uuids 1, wl_work_id = wu_work_id u, wl_lease_token = uuids 2,
             wl_worker_id = lr_worker_id c, wl_stage = wu_stage u, wl_capability = wu_capability u,
             wl_input_digest = wu_input_digest u,
             wl_expected_output_contract = wu_expected_output_contract u,
             wl_issued_at_utc = utc now,
             wl_expires_at_utc = utc (now + seconds (lr_lease_duration_seconds c)),
             wl_heartbeat_deadline_utc = utc (now + seconds (lr_heartbeat_interval_seconds c)),
             wl_source_permit = permit, wl_correlation_id = corr, wl_input_artifacts = inputs\<rparr>"
    using assms by (auto simp: lease_from_work_def lease_work_row_def)
  show "valid_work_lease lease" by (rule v)
  show "wl_work_id lease = wu_work_id u" "wl_worker_id lease = lr_worker_id c"
      "wl_lease_id lease = uuids 1" "wl_lease_token lease = uuids 2"
      "wl_input_digest lease = wu_input_digest u" "wl_source_permit lease = permit"
    by (simp_all add: l)
  have "now < instant (wl_heartbeat_deadline_utc lease)
      \<and> instant (wl_heartbeat_deadline_utc lease) \<le> instant (wl_expires_at_utc lease)"
    using v by (simp add: validate_work_lease_def l)
  then show "lease_live_at lease now" by (auto simp: lease_live_at_def)
qed

lemma reserve_source_units:
  "reserve_source c now u d = Inr (Some (permit, d1)) \<Longrightarrow> store_ok d \<Longrightarrow>
   work_units d1 = work_units d \<and> store_ok d1 \<and> (permit = None \<longleftrightarrow> wu_source_key u = None)"
  by (erule (1) reserve_source_cases) auto

text \<open>
  C7: the lease a worker is granted is for the first unit in lease order (priority, then availability,
  then age, then id) among the units that are leasable for it now and not locked by a concurrent
  transaction; that unit becomes LEASED with the fresh lease id and token, no other unit changes, and
  the lease returned is valid, live and carries that identity.
\<close>

theorem lease_granted:
  assumes "engine_inv d" and "acquire_lease (utc now) locked uuids c d = (Inr (Some lease), d')"
  shows "\<exists>u permit. u \<in> set (work_units d) \<and> lease_candidate c now d u \<and> \<not> locked (wu_work_id u)
    \<and> (\<forall>v \<in> set (work_units d). lease_candidate c now d v \<and> \<not> locked (wu_work_id v) \<longrightarrow>
         lease_order u \<le> lease_order v)
    \<and> (permit = None \<longleftrightarrow> wu_source_key u = None)
    \<and> work_units d' = update_rows (\<lambda>x. x = u) (lease_work_row uuids c now permit) (work_units d)
    \<and> wl_work_id lease = wu_work_id u \<and> wl_worker_id lease = lr_worker_id c
    \<and> wl_lease_id lease = uuids 1 \<and> wl_lease_token lease = uuids 2 \<and> wl_source_permit lease = permit
    \<and> valid_work_lease lease \<and> lease_live_at lease now"
proof -
  have sd: "store_ok d" using assms(1) by simp
  have run: "acquire_lease_tx locked uuids c now d = Inr (Committed (Some lease), d')"
    using transaction_utc_Inr [OF assms(2) [unfolded acquire_lease_def]] .
  then obtain build u permit d1 where sel: "select_lease_work locked c now d = Some u"
    and res: "reserve_source c now u d = Inr (Some (permit, d1))"
    and iss: "issue_lease uuids c now build u permit d1 = Inr (lease, d')"
    by (cases rule: acquire_lease_tx_cases [OF _ sd, consumes 1]) auto
  note u = select_lease_work_SomeD [OF sel] and r = reserve_source_units [OF res sd]
  have u1: "u \<in> set (work_units d1)" using u(1) r by simp
  have i: "store_ok d1" using r by simp
  obtain inputs where "lease_from_work (lease_work_row uuids c now permit u) permit
      (lr_correlation_id c) inputs = Inr lease"
    using issue_lease_InrD(3) [OF iss i u1] by blast
  note lease = lease_from_work_live [OF this]
  have "work_units d' = update_rows (\<lambda>x. x = u) (lease_work_row uuids c now permit) (work_units d)"
    using row_update_eq [of d u "lease_work_row uuids c now permit"] sd u(1) r
    by (simp add: issue_lease_InrD(2) [OF iss i u1])
  then show ?thesis using u r lease by (intro exI [of _ u] exI [of _ permit] conjI) auto
qed

theorem lease_granted_witness:
  "\<exists>lease u. fst (acquire_lease (utc 100) (\<lambda>_. False) demo_uuids demo_request demo_db) = Inr (Some lease)
     \<and> lease_candidate demo_request 100 demo_db u \<and> wl_work_id lease = wu_work_id u \<and> lease_live_at lease 100"
proof -
  let ?r = "acquire_lease (utc 100) (\<lambda>_. False) demo_uuids demo_request demo_db"
  have "(case fst ?r of Inr (Some _) \<Rightarrow> True | _ \<Rightarrow> False)" by code_simp
  then obtain lease where l: "fst ?r = Inr (Some lease)" by (auto split: sum.splits option.splits)
  then have "?r = (Inr (Some lease), snd ?r)" by (metis prod.collapse)
  from lease_granted [OF demo_db_inv this] l show ?thesis by auto
qed

text \<open>The source of a leasable unit can be reserved; a source that turned the unit away cannot.\<close>

lemma candidate_source:
  assumes "lease_candidate c now d u" and "wu_source_key u = Some key"
  shows "\<exists>s \<in> set (source_capacity_states d). sc_source_key s = key \<and> source_can_reserve s now"
  using assms by (auto simp: lease_candidate_def list_ex_iff source_can_reserve_def)

lemma source_turned_away:
  assumes "reserve_source c now u d = Inr None"
  shows "\<exists>s \<in> set (source_capacity_states d). wu_source_key u = Some (sc_source_key s) \<and> \<not> source_can_reserve s now"
proof -
  obtain key where key: "wu_source_key u = Some key" using assms by (cases "wu_source_key u") (simp_all add: reserve_source_def)
  then obtain s where s: "select_one sc_source_key key (source_capacity_states d) = (Inr (Some s) :: engine_exn + _)"
    "\<not> source_can_reserve s now"
    using assms by (auto simp: reserve_source_def result_bind_eq_Inr split: option.splits if_splits)
  then show ?thesis using select_one_SomeD [OF s(1)] key by auto
qed

text \<open>
  C8: why a lease request comes back empty, whatever other transactions commit between the selection of
  the work and the lock on its source. Either the worker already holds as many leases as it registered
  for, or every unit that is leasable for it is locked by a concurrent transaction, and then the request
  changes nothing; or the first unlocked leasable unit has a source that could serve it when it was
  selected and cannot when its row is locked, and the database is what the other transactions left.
\<close>

theorem lease_denied:
  assumes "engine_inv d"
    and "transaction (utc now) (acquire_lease_between others locked uuids c) d = (Inr None, d')"
  shows "(\<exists>r \<in> set (worker_registrations d). wr_worker_id r = lr_worker_id c
        \<and> wr_max_concurrency r \<le> worker_load d (lr_worker_id c)) \<and> d' = d
    \<or> {u \<in> set (work_units d). lease_candidate c now d u} \<subseteq> {u. locked (wu_work_id u)} \<and> d' = d
    \<or> (\<exists>u \<in> set (work_units d). \<exists>before \<in> set (source_capacity_states d). \<exists>after \<in> set (source_capacity_states (others d)).
        lease_candidate c now d u \<and> \<not> locked (wu_work_id u)
        \<and> (\<forall>v \<in> set (work_units d). lease_candidate c now d v \<and> \<not> locked (wu_work_id v) \<longrightarrow> lease_order u \<le> lease_order v)
        \<and> wu_source_key u = Some (sc_source_key before) \<and> source_can_reserve before now
        \<and> wu_source_key u = Some (sc_source_key after) \<and> \<not> source_can_reserve after now \<and> d' = others d)"
proof -
  have run: "acquire_lease_between others locked uuids c now d = Inr (Committed None, d')"
    using transaction_utc_Inr [OF assms(2)] .
  obtain r h where w: "select_lease_worker c d = Inr (r, h)"
    using run by (auto simp: acquire_lease_between_def result_bind_eq_Inr)
  note wd = select_lease_worker_InrD [OF w]
  have load: "wh_active_lease_count h = worker_load d (lr_worker_id c)"
    using assms(1) wd(3,4) by (simp add: engine_inv_def worker_inv_def)
  show ?thesis
  proof (cases "wr_max_concurrency r \<le> wh_active_lease_count h \<or> select_lease_work locked c now d = None")
    case True
    then have "d' = d" using run w by (auto simp: acquire_lease_between_def split: if_splits)
    then show ?thesis using True load wd(1,2) unfolding select_lease_work_None by auto
  next
    case False
    then obtain u where sel: "select_lease_work locked c now d = Some u" by auto
    then have turned: "reserve_source c now u (others d) = Inr None" "d' = others d"
      using run w False
      by (auto simp: acquire_lease_between_def result_bind_eq_Inr split: option.splits) (metis not_None_eq surj_pair)
    note u = select_lease_work_SomeD [OF sel] and after = source_turned_away [OF turned(1)]
    show ?thesis using u after candidate_source [OF u(2)] turned(2) by fastforce
  qed
qed

theorem lease_denied_witness:
  "transaction (utc 200) (acquire_lease_between (\<lambda>d. d) (\<lambda>_. False) demo_uuids demo_request) demo_leased = (Inr None, demo_leased)"
proof -
  let ?r = "transaction (utc 200) (acquire_lease_between (\<lambda>d. d) (\<lambda>_. False) demo_uuids demo_request) demo_leased"
  have n: "fst ?r = Inr None" by code_simp
  then have "?r = (Inr None, snd ?r)" by (metis prod.collapse)
  from lease_denied [OF demo_leased_inv this] n show ?thesis by (auto intro: prod_eqI)
qed

section \<open>Who may renew or end a lease\<close>

text \<open>The fencing condition: the unit is leased under exactly this lease id, token and worker, and
  neither the expiry nor the heartbeat deadline has been reached.\<close>

definition holds_current_lease :: "db \<Rightarrow> int \<Rightarrow> uuid \<Rightarrow> uuid \<Rightarrow> uuid \<Rightarrow> string \<Rightarrow> string \<Rightarrow> bool" where
  "holds_current_lease d now work lease token worker digest \<longleftrightarrow>
     (\<exists>u \<in> set (work_units d). wu_work_id u = work \<and> wu_state u = Unit_LEASED
        \<and> wu_active_lease_id u = Some lease \<and> wu_active_lease_token u = Some token
        \<and> wu_active_worker_id u = Some worker \<and> wu_input_digest u = digest
        \<and> (\<exists>expires deadline. wu_lease_expires_at_utc u = Some expires \<and> now < expires
             \<and> wu_heartbeat_deadline_utc u = Some deadline \<and> now < deadline))"

lemma unit_live_iff:
  "unit_live now u \<longleftrightarrow> (\<exists>expires deadline. wu_lease_expires_at_utc u = Some expires \<and> now < expires
     \<and> wu_heartbeat_deadline_utc u = Some deadline \<and> now < deadline)"
  by (auto simp: unit_live_def split: option.splits)

lemma holds_currentI:
  assumes "engine_inv d" "u \<in> set (work_units d)" "wu_work_id u = work" "leased u"
    "a \<in> set (work_attempts d)" "holds_lease u a" "wa_lease_id a = lease" "wa_lease_token a = token"
    "wa_worker_id a = worker" "wa_input_digest a = digest" "unit_live now u"
  shows "holds_current_lease d now work lease token worker digest"
proof -
  have "wa_input_digest a = wu_input_digest u"
    using assms(1,2,5,6) by (simp add: engine_inv_def attempt_inv_def holds_lease_def)
  then show ?thesis
    using assms unfolding holds_current_lease_def holds_lease_def unit_live_iff
    by (intro bexI [of _ u]) auto
qed

lemma active_InrD:
  assumes "when_active (lock_active_lease now work lease token worker digest corr d) (\<lambda>(u, a). rest u a)
      = Inr (Committed r, d')"
  obtains u a where "u \<in> set (work_units d)" "wu_work_id u = work" "leased u"
    "a \<in> set (work_attempts d)" "holds_lease u a" "wa_lease_id a = lease" "wa_lease_token a = token"
    "wa_worker_id a = worker" "wa_input_digest a = digest" "unit_live now u"
    "rest u a d = Inr (Committed r, d')"
  using assms
proof (cases rule: when_active_cases)
  case (Active x d1)
  obtain u a where rows: "u \<in> set (work_units d)" "wu_work_id u = work" "leased u"
      "a \<in> set (work_attempts d)" "holds_lease u a" "wa_lease_id a = lease" "wa_lease_token a = token"
      "wa_worker_id a = worker" "wa_input_digest a = digest"
    and active: "(Committed x = Committed (u, a) \<and> d1 = d \<and> unit_live now u) \<or>
     (Committed x = CommittedConflict (WORK_LEASE_STALE (wu_work_id u) ''lease_expired'')
      \<and> \<not> unit_live now u \<and> (\<exists>target. expire_locked u a now corr d = Inr (target, d1)))"
    by (rule lock_active_lease_cases [OF Active(1)])
  then have "x = (u, a)" "d1 = d" "unit_live now u" by simp_all
  then show thesis using Active(2) by (intro that [OF rows]) simp_all
qed simp

text \<open>
  C9: fencing. A heartbeat, a failure, a release or a first completion is accepted only from the
  worker that holds the current lease of the unit, with its lease id, its token and the digest of
  its input, before the lease expires and before its heartbeat is overdue.
\<close>

theorem only_the_lease_holder:
  assumes "engine_inv d"
  shows "(\<forall>c r d'. heartbeat (utc now) c d = (Inr r, d') \<longrightarrow> holds_current_lease d now
        (hb_work_id c) (hb_lease_id c) (hb_lease_token c) (hb_worker_id c) (hb_input_digest c))
    \<and> (\<forall>c r d'. fail (utc now) c d = (Inr r, d') \<longrightarrow> holds_current_lease d now
        (wf_work_id c) (wf_lease_id c) (wf_lease_token c) (wf_worker_id c) (wf_input_digest c))
    \<and> (\<forall>c r d'. release (utc now) c d = (Inr r, d') \<longrightarrow> holds_current_lease d now
        (wrl_work_id c) (wrl_lease_id c) (wrl_lease_token c) (wrl_worker_id c) (wrl_input_digest c))
    \<and> (\<forall>c r d'. complete (utc now) uuids c d = (Inr r, d') \<and> cres_status r = APPLIED \<longrightarrow>
        holds_current_lease d now
        (wc_work_id c) (wc_lease_id c) (wc_lease_token c) (wc_worker_id c) (wc_input_digest c))"
proof -
  note holds = holds_currentI [OF assms]
  have "holds_current_lease d now (hb_work_id c) (hb_lease_id c) (hb_lease_token c) (hb_worker_id c)
      (hb_input_digest c)" if "heartbeat (utc now) c d = (Inr r, d')" for c r d'
    using transaction_utc_Inr [OF that [unfolded heartbeat_def]] unfolding heartbeat_tx_def
    by (rule active_InrD) (rule holds)
  moreover have "holds_current_lease d now (wf_work_id c) (wf_lease_id c) (wf_lease_token c) (wf_worker_id c)
      (wf_input_digest c)" if "fail (utc now) c d = (Inr r, d')" for c r d'
    using transaction_utc_Inr [OF that [unfolded fail_def]] unfolding fail_tx_def
    by (rule active_InrD) (rule holds)
  moreover have "holds_current_lease d now (wrl_work_id c) (wrl_lease_id c) (wrl_lease_token c)
      (wrl_worker_id c) (wrl_input_digest c)" if "release (utc now) c d = (Inr r, d')" for c r d'
    using transaction_utc_Inr [OF that [unfolded release_def]] unfolding release_tx_def
    by (rule active_InrD) (rule holds)
  moreover have "holds_current_lease d now (wc_work_id c) (wc_lease_id c) (wc_lease_token c) (wc_worker_id c)
      (wc_input_digest c)" if "complete (utc now) uuids c d = (Inr r, d')" "cres_status r = APPLIED" for c r d'
    using transaction_utc_Inr [OF that(1) [unfolded complete_def]]
  proof (cases rule: complete_tx_cases)
    case (Again u a)
    then show ?thesis using that(2) by (auto simp: complete_again_def result_bind_eq_Inr split: if_splits)
  next
    case (Active u a)
    then show ?thesis by (intro holds)
  qed simp
  ultimately show ?thesis by blast
qed

theorem only_the_lease_holder_witness:
  "(\<exists>lease. fst (heartbeat (utc 5000000) demo_beat demo_leased) = Inr lease)
   \<and> holds_current_lease demo_leased 5000000 (UUID 3) (UUID 11) (UUID 12) ''w1'' one_digest"
proof -
  let ?r = "heartbeat (utc 5000000) demo_beat demo_leased"
  have "(case fst ?r of Inr _ \<Rightarrow> True | _ \<Rightarrow> False)" by code_simp
  then obtain lease where l: "fst ?r = Inr lease" by (auto split: sum.splits)
  then have r: "?r = (Inr lease, snd ?r)" by (metis prod.collapse)
  have beat: "hb_work_id demo_beat = UUID 3" "hb_lease_id demo_beat = UUID 11"
    "hb_lease_token demo_beat = UUID 12" "hb_worker_id demo_beat = ''w1''"
    "hb_input_digest demo_beat = one_digest" by (simp_all add: demo_beat_def)
  show ?thesis
    using conjunct1 [OF only_the_lease_holder [OF demo_leased_inv, of 5000000 demo_uuids]] r l
    unfolding beat [symmetric] by blast
qed

section \<open>Failures\<close>

definition failure_target :: "work_failure_kind \<Rightarrow> work_unit_row \<Rightarrow> work_unit_state" where
  "failure_target kind u =
     (if kind = Failure_POLICY_BLOCKED then Unit_BLOCKED_BY_POLICY
      else if kind = Failure_TRANSIENT \<and> wu_failure_count u + 1 < wu_max_attempts u then Unit_RETRY_WAIT
      else Unit_DEAD_LETTER)"

definition backoff_seconds :: "work_unit_row \<Rightarrow> int" where
  "backoff_seconds u = min (wu_retry_initial_delay_seconds u * wu_retry_multiplier u ^ nat (wu_failure_count u))
     (wu_retry_max_delay_seconds u)"

lemma retry_decide_closed:
  assumes "retry_policy_of u = Inr p" and "retry_decide p kind (wu_failure_count u + 1) = Inr decision"
  shows "fd_target_state decision = failure_target kind u"
    and "retry_available_at now decision =
      (if failure_target kind u = Unit_RETRY_WAIT then now + seconds (backoff_seconds u) else now)"
proof -
  have p: "valid_retry_policy p" "rp_max_attempts p = wu_max_attempts u"
    "rp_initial_delay_seconds p = wu_retry_initial_delay_seconds u"
    "rp_multiplier p = wu_retry_multiplier u" "rp_max_delay_seconds p = wu_retry_max_delay_seconds u"
    using assms(1) by (auto simp: retry_policy_of_def make_retry_policy_def result_bind_eq_Inr Let_def)
  have "retry_delay p (wu_failure_count u + 1) = backoff_seconds u"
    using retry_delay_eq [OF p(1)] by (simp add: backoff_seconds_def p)
  then show "fd_target_state decision = failure_target kind u"
    "retry_available_at now decision =
      (if failure_target kind u = Unit_RETRY_WAIT then now + seconds (backoff_seconds u) else now)"
    using assms(2)
    by (auto simp: retry_decide_def failure_target_def retry_available_at_def p split: if_splits)
qed

text \<open>
  C10: a reported failure counts one failure of the unit and ends its lease: a policy block ends the
  work, a transient failure with attempts left schedules it again after the capped exponential
  backoff, anything else makes it a dead letter. The caller is told exactly the new state, the
  revision and the time of the retry, and no other unit changes.
\<close>

theorem failure_recorded:
  assumes "engine_inv d" and "fail (utc now) c d = (Inr r, d')"
  shows "\<exists>u \<in> set (work_units d). wu_work_id u = wf_work_id c \<and> wu_state u = Unit_LEASED
    \<and> mres_state r = failure_target (wf_failure_kind c) u \<and> mres_revision r = wu_revision u + 1
    \<and> mres_available_at_utc r = (if mres_state r = Unit_RETRY_WAIT
         then Some (now + seconds (backoff_seconds u)) else None)
    \<and> work_units d' = update_rows (\<lambda>x. x = u)
         (\<lambda>x. (clear_lease now (wf_correlation_id c) x)
            \<lparr>wu_state := mres_state r, wu_failure_count := wu_failure_count x + 1,
             wu_available_at_utc := case_option now id (mres_available_at_utc r)\<rparr>) (work_units d)
    \<and> map dl_work_id (dead_letters d') = map dl_work_id (dead_letters d)
         @ (if mres_state r = Unit_DEAD_LETTER then [wf_work_id c] else [])"
proof -
  have sd: "store_ok d" using assms(1) by simp
  from transaction_utc_Inr [OF assms(2) [unfolded fail_def]] obtain u a where
    u: "u \<in> set (work_units d)" "wu_work_id u = wf_work_id c" "leased u" and a: "a \<in> set (work_attempts d)"
    and run: "fail_active c now u a d = Inr (Committed r, d')"
    unfolding fail_tx_def by (rule active_InrD)
  obtain p decision where p: "retry_policy_of u = Inr p"
      "retry_decide p (wf_failure_kind c) (wu_failure_count u + 1) = Inr decision"
    and r: "Committed r = Committed \<lparr>mres_work_id = wf_work_id c, mres_state = fd_target_state decision,
        mres_revision = wu_revision u + 1, mres_available_at_utc = (if fd_target_state decision = Unit_RETRY_WAIT
           then Some (retry_available_at now decision) else None)\<rparr>"
    and e: "lease_ended u (failed_work_row decision (wu_failure_count u + 1) now (wf_correlation_id c) u)
       a (failed_attempt_row c decision now a) d d'"
    by (rule fail_active_InrD [OF run u(2) sd u(1) a])
  note closed = retry_decide_closed [OF p]
  have "failed_work_row decision (wu_failure_count u + 1) now (wf_correlation_id c) u =
      (clear_lease now (wf_correlation_id c) u)
            \<lparr>wu_state := mres_state r, wu_failure_count := wu_failure_count u + 1,
             wu_available_at_utc := case_option now id (mres_available_at_utc r)\<rparr>"
    using r closed by (auto simp: failed_work_row_def)
  then show ?thesis
    using u r e closed row_update_eq [OF store_ok_schema [OF sd] u(1), of "\<lambda>x. (clear_lease now (wf_correlation_id c) x)
            \<lparr>wu_state := mres_state r, wu_failure_count := wu_failure_count x + 1,
             wu_available_at_utc := case_option now id (mres_available_at_utc r)\<rparr>"]
    by (intro bexI [OF _ u(1)]) (auto simp: lease_ended_def failed_work_row_def)
qed

definition demo_failure :: work_failure where
  "demo_failure = \<lparr>wf_work_id = UUID 3, wf_lease_id = UUID 11, wf_lease_token = UUID 12,
     wf_worker_id = ''w1'', wf_input_digest = one_digest,
     wf_failure_kind = Failure_TRANSIENT, wf_code = ''TIMEOUT'', wf_owner = ''web'', wf_message = ''m'',
     wf_required_action = ''r'', wf_worker_build_identity = ''b1'', wf_correlation_id = ''c3''\<rparr>"

theorem failure_recorded_witness:
  "\<exists>r u. fst (fail (utc 5000000) demo_failure demo_leased) = Inr r
     \<and> u \<in> set (work_units demo_leased) \<and> mres_state r = failure_target Failure_TRANSIENT u"
proof -
  let ?r = "fail (utc 5000000) demo_failure demo_leased"
  have "(case fst ?r of Inr _ \<Rightarrow> True | _ \<Rightarrow> False)" by code_simp
  then obtain x where x: "fst ?r = Inr x" by (auto split: sum.splits)
  then have r: "?r = (Inr x, snd ?r)" by (metis prod.collapse)
  have kind: "wf_failure_kind demo_failure = Failure_TRANSIENT" by (simp add: demo_failure_def)
  show ?thesis using failure_recorded [OF demo_leased_inv r] x unfolding kind by blast
qed

end
