(* ===== verification/Engine_Frames.thy ===== *)
theory Engine_Frames
  imports Engine_Steps
begin

text \<open>
  What the lease operations leave alone. They write to the tables of work units, attempts, heartbeats,
  source capacities and dead letters only; a part of the database that does not depend on those five
  tables is the interface \<open>lease_frame\<close>, and every lease operation keeps it.
\<close>

locale lease_frame =
  fixes kept :: "db \<Rightarrow> 'p"
  assumes kept_update [simp]:
    "kept (work_units_update f1 d) = kept d" "kept (work_attempts_update f2 d) = kept d"
    "kept (worker_heartbeats_update f3 d) = kept d"
    "kept (source_capacity_states_update f4 d) = kept d"
    "kept (dead_letters_update f5 d) = kept d"
begin

lemma release_reservations_kept: "release_reservations u now corr d = Inr d' \<Longrightarrow> kept d' = kept d"
  by (auto simp: release_reservations_def release_worker_reservation_def release_source_reservation_def
      Let_def result_bind_eq_Inr split: option.splits if_splits)

lemma end_steps_kept:
  "update_attempt i f d = Inr d' \<Longrightarrow> kept d' = kept d"
  "update_unit j g d = Inr d' \<Longrightarrow> kept d' = kept d"
  "insert_dead_letter l d = Inr d' \<Longrightarrow> kept d' = kept d"
  by (auto simp: update_attempt_def update_unit_def insert_dead_letter_def)

lemma expire_locked_kept: "expire_locked u a now corr d = Inr (t, d') \<Longrightarrow> kept d' = kept d"
  by (auto simp: expire_locked_def Let_def result_bind_eq_Inr split: if_splits
      dest!: release_reservations_kept end_steps_kept)

lemma require_active_kept:
  "require_active_rows now u a corr d = Inr (x, d') \<Longrightarrow> kept d' = kept d"
  by (auto simp: require_active_rows_def result_bind_eq_Inr split: if_splits option.splits
      dest!: expire_locked_kept)

lemma lock_active_kept:
  "lock_active_lease now w l t k g corr d = Inr (x, d') \<Longrightarrow> kept d' = kept d"
  by (auto simp: lock_active_lease_def result_bind_eq_Inr dest!: require_active_kept)

lemma when_active_kept:
  assumes "when_active active rest = Inr (x, d')" and "\<And>y d1. active = Inr (y, d1) \<Longrightarrow> kept d1 = kept d"
    and "\<And>y d1. rest y d1 = Inr (x, d') \<Longrightarrow> kept d' = kept d1"
  shows "kept d' = kept d"
  using assms(1) by (cases rule: when_active_cases) (metis assms(2,3))+

lemma fail_tx_kept: "fail_tx c now d = Inr (x, d') \<Longrightarrow> kept d' = kept d"
  unfolding fail_tx_def
  by (erule when_active_kept, erule lock_active_kept)
    (auto simp: fail_active_def Let_def result_bind_eq_Inr split: if_splits
      dest!: release_reservations_kept end_steps_kept)

lemma release_tx_kept: "release_tx c now d = Inr (x, d') \<Longrightarrow> kept d' = kept d"
  unfolding release_tx_def
  by (erule when_active_kept, erule lock_active_kept)
    (auto simp: release_active_def result_bind_eq_Inr dest!: release_reservations_kept end_steps_kept)

lemma heartbeat_tx_kept: "heartbeat_tx c now d = Inr (x, d') \<Longrightarrow> kept d' = kept d"
  unfolding heartbeat_tx_def
  by (erule when_active_kept, erule lock_active_kept)
    (auto simp: result_bind_eq_Inr dest!: end_steps_kept)

lemma expire_due_kept: "expire_due due now corr r k d = Inr (r', k', d') \<Longrightarrow> kept d' = kept d"
  by (induction due arbitrary: r k d)
    (auto simp: result_bind_eq_Inr split: option.splits if_splits dest!: expire_locked_kept)

lemma reserve_source_kept: "reserve_source c now u d = Inr (Some (p, d')) \<Longrightarrow> kept d' = kept d"
  by (auto simp: reserve_source_def result_bind_eq_Inr split: option.splits if_splits)

lemma acquire_tx_kept: "acquire_lease_tx locked uuids c now d = Inr (x, d') \<Longrightarrow> kept d' = kept d"
  by (auto simp: acquire_lease_tx_body issue_lease_def result_bind_eq_Inr split: option.splits if_splits
      dest!: reserve_source_kept)

lemma expire_leases_kept: "expire_leases_tx locked c now d = Inr (x, d') \<Longrightarrow> kept d' = kept d"
  by (auto simp: expire_leases_tx_def Let_def result_bind_eq_Inr dest!: expire_due_kept)

end

interpretation run_tables: lease_frame "\<lambda>d. (collection_runs d, stage_runs d, collection_run_transitions d)"
  by unfold_locales simp_all

end
