(* ===== verification/Engine_Outputs.thy ===== *)
theory Engine_Outputs
  imports Unit_Evolution Engine_Behaviour Engine_Frames
begin

text \<open>
  The outputs of completed work. Output bindings exist for succeeded units only, so the bindings a
  completion writes are the ones a repeated completion reads back: what is read is what was
  completed, and repeating a completion changes nothing.
\<close>

section \<open>Commands that keep the output bindings\<close>

text \<open>The output bindings, the artifact records and the uploads, which most operations keep.\<close>

definition outputs ::
    "db \<Rightarrow> work_artifact_binding_row list \<times> artifact_record_row list \<times> artifact_upload_row list" where
  "outputs d = (work_output_artifacts d, artifact_records d, artifact_uploads d)"

lemma outputs_update [simp]:
  "outputs (work_units_update f1 d) = outputs d" "outputs (work_attempts_update f2 d) = outputs d"
  "outputs (worker_heartbeats_update f3 d) = outputs d"
  "outputs (source_capacity_states_update f4 d) = outputs d"
  "outputs (dead_letters_update f5 d) = outputs d" "outputs (work_input_artifacts_update f6 d) = outputs d"
  "outputs (worker_registrations_update f7 d) = outputs d"
  "outputs (worker_capabilities_update f8 d) = outputs d"
  "outputs (worker_output_contracts_update f9 d) = outputs d"
  "outputs (collection_runs_update f10 d) = outputs d" "outputs (stage_runs_update f11 d) = outputs d"
  by (simp_all add: outputs_def)

interpretation out: lease_frame outputs
  by unfold_locales simp_all

lemma admin_tx_outputs:
  "register_worker_tx c1 now d = Inr (x1, d') \<Longrightarrow> outputs d' = outputs d"
  "configure_source_tx c2 now d = Inr (x2, d') \<Longrightarrow> outputs d' = outputs d"
  "create_run_tx c3 now d = Inr (x3, d') \<Longrightarrow> outputs d' = outputs d"
  "create_stage_tx c4 now d = Inr (x4, d') \<Longrightarrow> outputs d' = outputs d"
  "enqueue_work_tx c5 now d = Inr (x5, d') \<Longrightarrow> outputs d' = outputs d"
  by (auto simp: register_worker_tx_def register_worker_again_def register_worker_new_def
      configure_source_tx_def create_run_tx_def create_stage_tx_def enqueue_work_tx_def
      Let_def result_bind_eq_Inr split: option.splits if_splits list.splits)

section \<open>The bindings a completion writes\<close>

definition output_binding :: "work_completion \<Rightarrow> (nat \<times> work_output_artifact) \<times> uuid \<Rightarrow> work_artifact_binding_row" where
  "output_binding c x = \<lparr>wb_work_id = wc_work_id c, wb_position = int (fst (fst x)), wb_artifact_id = snd x,
     wb_role = oa_role (snd (fst x))\<rparr>"

lemma get_or_create_outputs:
  "get_or_create_artifact_object uuids i up ref v now corr d = Inr (k, j, d') \<Longrightarrow> outputs d' = outputs d"
  by (auto simp: get_or_create_artifact_object_def outputs_def result_bind_eq_Inr split: option.splits if_splits)

lemma consume_upload_writes:
  assumes "consume_upload uuids i u a c now position up role d = Inr (j, d')"
  shows "\<exists>art rec. work_output_artifacts d' = work_output_artifacts d
        @ [\<lparr>wb_work_id = wc_work_id c, wb_position = int position, wb_artifact_id = art, wb_role = role\<rparr>]
     \<and> artifact_records d' = artifact_records d @ [rec]
     \<and> ar_artifact_id rec = art \<and> ar_upload_id rec = Some (up_upload_id up)"
  using assms
  by (auto simp: consume_upload_def result_bind_eq_Inr insert_rows_def outputs_def
      split: option.splits if_splits dest!: get_or_create_outputs)

lemma consume_uploads_writes:
  "consume_uploads uuids u a c now uploads i position bs d = Inr d' \<Longrightarrow>
   (\<And>b up. b \<in> set bs \<Longrightarrow> uploads (oa_upload_id b) = Some up \<Longrightarrow> up_upload_id up = oa_upload_id b) \<Longrightarrow>
   \<exists>arts recs. length arts = length bs
     \<and> work_output_artifacts d' = work_output_artifacts d
         @ map (output_binding c) (zip (enumerate position bs) arts)
     \<and> artifact_records d' = artifact_records d @ recs
     \<and> map (\<lambda>r. (ar_artifact_id r, ar_upload_id r)) recs = zip arts (map (\<lambda>b. Some (oa_upload_id b)) bs)"
proof (induction bs arbitrary: i position d)
  case (Cons b bs)
  then obtain up j d1 where up: "uploads (oa_upload_id b) = Some up" "up_upload_id up = oa_upload_id b"
    and one: "consume_upload uuids i u a c now position up (oa_role b) d = Inr (j, d1)"
    and rest: "consume_uploads uuids u a c now uploads j (Suc position) bs d1 = Inr d'"
    by (auto simp: result_bind_eq_Inr split: option.splits)
  from consume_upload_writes [OF one] obtain art rec where
    w: "work_output_artifacts d1 = work_output_artifacts d @ [output_binding c ((position, b), art)]"
    "artifact_records d1 = artifact_records d @ [rec]" "ar_artifact_id rec = art"
    "ar_upload_id rec = Some (oa_upload_id b)"
    unfolding up(2) by (auto simp: output_binding_def)
  from Cons.IH [OF rest] Cons.prems(2) obtain arts recs where ih: "length arts = length bs"
    "work_output_artifacts d' = work_output_artifacts d1
         @ map (output_binding c) (zip (enumerate (Suc position) bs) arts)"
    "artifact_records d' = artifact_records d1 @ recs"
    "map (\<lambda>r. (ar_artifact_id r, ar_upload_id r)) recs = zip arts (map (\<lambda>b. Some (oa_upload_id b)) bs)"
    by auto
  show ?case by (rule exI [of _ "art # arts"], rule exI [of _ "rec # recs"]) (simp add: ih w)
qed simp

lemma load_output_identity_written:
  assumes sd: "schema_ok d'" and len: "length arts = length bs"
    and none: "\<And>b. b \<in> set old \<Longrightarrow> wb_work_id b \<noteq> wc_work_id c"
    and outs: "work_output_artifacts d' = old @ map (output_binding c) (zip (enumerate 0 bs) arts)"
    and recs: "set recs \<subseteq> set (artifact_records d')"
      "map (\<lambda>r. (ar_artifact_id r, ar_upload_id r)) recs = zip arts (map (\<lambda>b. Some (oa_upload_id b)) bs)"
  shows "load_work_output_identity (wc_work_id c) d' = Inr (map (\<lambda>b. (oa_upload_id b, oa_role b)) bs)"
proof -
  let ?new = "map (output_binding c) (zip (enumerate 0 bs) arts)"
  have filt: "filter (\<lambda>b. wb_work_id b = wc_work_id c) (work_output_artifacts d') = ?new"
    using none by (auto simp: outs filter_map o_def output_binding_def filter_empty_conv)
  have "map wb_position ?new = map int [0..<length bs]"
    using len by (intro nth_equalityI) (simp_all add: output_binding_def nth_enumerate_eq)
  then have "sorted (map wb_position ?new)" by (simp add: sorted_map sorted_wrt_iff_nth_less)
  then have sorted: "sort_key wb_position ?new = ?new" by (rule sort_key_id_if_sorted)
  have found: "filter (\<lambda>r. ar_artifact_id r = arts ! i) (artifact_records d') = [recs ! i]"
      "ar_upload_id (recs ! i) = Some (oa_upload_id (bs ! i))" if i: "i < length bs" for i
  proof -
    have l: "length recs = length bs" using arg_cong [OF recs(2), of length] len by simp
    have r: "(ar_artifact_id (recs ! i), ar_upload_id (recs ! i)) = (arts ! i, Some (oa_upload_id (bs ! i)))"
      using arg_cong [OF recs(2), of "\<lambda>xs. xs ! i"] i l len by simp
    have "recs ! i \<in> set (artifact_records d')" using recs(1) i l by (metis nth_mem subsetD)
    moreover have "distinct (map ar_artifact_id (artifact_records d'))"
      using sd by (simp add: schema_ok_def artifact_tables_unique_def)
    ultimately show "filter (\<lambda>r. ar_artifact_id r = arts ! i) (artifact_records d') = [recs ! i]"
      using filter_key_eq [of ar_artifact_id "artifact_records d'" "recs ! i"] r by simp
    show "ar_upload_id (recs ! i) = Some (oa_upload_id (bs ! i))" using r by simp
  qed
  have "concat (map (\<lambda>b. map (\<lambda>r. (ar_upload_id r, wb_role b))
           (filter (\<lambda>r. ar_artifact_id r = wb_artifact_id b) (artifact_records d'))) ?new)
      = map (\<lambda>b. (Some (oa_upload_id b), oa_role b)) bs"
  proof -
    have "map (\<lambda>b. map (\<lambda>r. (ar_upload_id r, wb_role b))
           (filter (\<lambda>r. ar_artifact_id r = wb_artifact_id b) (artifact_records d'))) ?new
      = map (\<lambda>b. [(Some (oa_upload_id b), oa_role b)]) bs"
      using len found by (intro nth_equalityI) (simp_all add: output_binding_def nth_enumerate_eq)
    then show ?thesis by (simp add: concat_map_singleton)
  qed
  then show ?thesis
    by (simp add: load_work_output_identity_def filt sorted)
      (subst traverse_Inr [where g = "\<lambda>(u, r). (the u, r)"], auto simp: o_def)
qed

lemma uploads_by_id_key:
  "uploads_by_id c d k = Some up \<Longrightarrow> up_upload_id up = k"
  by (auto simp: uploads_by_id_def dest!: map_of_SomeD)

lemma complete_active_writes:
  assumes "complete_active uuids c now u a d = Inr (outcome, d')" and "wu_work_id u = wc_work_id c"
  obtains arts recs where "length arts = length (wc_output_artifacts c)"
    "work_output_artifacts d' = work_output_artifacts d
       @ map (output_binding c) (zip (enumerate 0 (wc_output_artifacts c)) arts)"
    "artifact_records d' = artifact_records d @ recs"
    "map (\<lambda>r. (ar_artifact_id r, ar_upload_id r)) recs
       = zip arts (map (\<lambda>b. Some (oa_upload_id b)) (wc_output_artifacts c))"
proof -
  obtain d1 d2 d3 where c: "consume_output_artifacts uuids u a c now d = Inr d1"
    and "update_attempt (wa_attempt_id a) (completed_attempt_row c now) d1 = Inr d2"
    "update_unit (wu_work_id u) (completed_work_row c now) d2 = Inr d3"
    "release_reservations u now (wc_correlation_id c) d3 = Inr d'"
    by (rule complete_active_InrD [OF assms])
  then have "outputs d' = outputs d1"
    using out.release_reservations_kept out.end_steps_kept by metis
  moreover have "consume_uploads uuids u a c now (uploads_by_id c d) 0 0 (wc_output_artifacts c) d = Inr d1"
    using c by (auto simp: consume_output_artifacts_def Let_def split: if_splits)
  from consume_uploads_writes [OF this] uploads_by_id_key
  have "\<exists>arts recs. length arts = length (wc_output_artifacts c)
    \<and> work_output_artifacts d1 = work_output_artifacts d
       @ map (output_binding c) (zip (enumerate 0 (wc_output_artifacts c)) arts)
    \<and> artifact_records d1 = artifact_records d @ recs
    \<and> map (\<lambda>r. (ar_artifact_id r, ar_upload_id r)) recs
       = zip arts (map (\<lambda>b. Some (oa_upload_id b)) (wc_output_artifacts c))" by blast
  ultimately show thesis using that by (auto simp: outputs_def)
qed

section \<open>Bindings belong to succeeded work\<close>

definition output_inv :: "db \<Rightarrow> bool" where
  "output_inv d \<longleftrightarrow> (\<forall>b \<in> set (work_output_artifacts d).
     \<exists>u \<in> set (work_units d). wu_work_id u = wb_work_id b \<and> wu_state u = Unit_SUCCEEDED)"

lemma output_inv_kept:
  assumes "output_inv d" and "units_evolve engine_moves d d'" and "outputs d' = outputs d"
  shows "output_inv d'"
proof -
  have "\<exists>v \<in> set (work_units d'). wu_work_id v = wb_work_id b \<and> wu_state v = Unit_SUCCEEDED"
    if "b \<in> set (work_output_artifacts d')" for b
  proof -
    have "b \<in> set (work_output_artifacts d)" using that assms(3) by (simp add: outputs_def)
    then obtain u where u: "u \<in> set (work_units d)" "wu_work_id u = wb_work_id b" "wu_state u = Unit_SUCCEEDED"
      using assms(1) by (auto simp: output_inv_def)
    obtain v where v: "v \<in> set (work_units d')" "unit_evolves engine_moves u v"
      using assms(2) u(1) by (auto simp: units_evolve_def)
    have "v = u" using v(2) u(3) by (simp add: unit_evolves_def)
    then show ?thesis using u v(1) by blast
  qed
  then show ?thesis by (simp add: output_inv_def)
qed

lemma complete_tx_output_inv:
  assumes run: "complete_tx uuids c now d = Inr (outcome, d')" and inv: "engine_inv d" "output_inv d"
    and ev: "units_evolve engine_moves d d'"
  shows "output_inv d'"
  using run
proof (cases rule: complete_tx_cases)
  case (Again u a)
  then have "d' = d" by (auto simp: complete_again_def result_bind_eq_Inr split: if_splits)
  then show ?thesis using inv by simp
next
  case (Expired u a target)
  then show ?thesis using output_inv_kept [OF inv(2) ev] out.expire_locked_kept by blast
next
  case (Active u a)
  obtain d1 where d1: "lease_ended u (completed_work_row c now u) a (completed_attempt_row c now a) d1 d'"
    "artifact_step d d1"
    using complete_active_ended [OF inv(1) Active(1,2) Active(12) Active(3)] by metis
  have "u \<in> set (work_units d1)" using Active(1) artifact_stepD(1) [OF d1(2)] by simp
  then have fin: "completed_work_row c now u \<in> set (work_units d')"
    using d1(1) by (auto simp: lease_ended_def in_set_update_rows)
  obtain arts where outs: "work_output_artifacts d' = work_output_artifacts d
       @ map (output_binding c) (zip (enumerate 0 (wc_output_artifacts c)) arts)"
    by (rule complete_active_writes [OF Active(12,3)])
  have "\<exists>v \<in> set (work_units d'). wu_work_id v = wb_work_id b \<and> wu_state v = Unit_SUCCEEDED"
    if b: "b \<in> set (work_output_artifacts d')" for b
  proof (cases "b \<in> set (work_output_artifacts d)")
    case True
    then obtain x where x: "x \<in> set (work_units d)" "wu_work_id x = wb_work_id b" "wu_state x = Unit_SUCCEEDED"
      using inv(2) by (auto simp: output_inv_def)
    obtain v where "v \<in> set (work_units d')" "unit_evolves engine_moves x v" using ev x(1) by (auto simp: units_evolve_def)
    then show ?thesis using x by (auto simp: unit_evolves_def)
  next
    case False
    then have "wb_work_id b = wc_work_id c" using b outs by (auto simp: output_binding_def)
    then show ?thesis
      using fin Active(3) by (intro bexI [OF _ fin]) (simp add: completed_work_row_def clear_lease_def)
  qed
  then show ?thesis by (simp add: output_inv_def)
qed

lemmas tx_outputs = admin_tx_outputs out.acquire_tx_kept out.heartbeat_tx_kept out.fail_tx_kept
  out.release_tx_kept out.expire_leases_kept

lemma transaction_outputs:
  assumes "\<And>now x d'. operation now d = Inr (x, d') \<Longrightarrow> outputs d' = outputs d"
  shows "outputs (snd (transaction clock operation d)) = outputs d"
  using transaction_snd [of clock operation d] assms by metis

lemma engine_step_output_inv:
  assumes "engine_step d d'" and "engine_inv d" and "output_inv d"
  shows "output_inv d'"
proof -
  have ev: "units_evolve engine_moves d d'" by (rule engine_step_evolves [OF assms(1,2)])
  have "outputs d' = outputs d \<or> (\<exists>clock uuids c. d' = snd (complete clock uuids c d))"
    using assms(1)
    by (cases rule: engine_stepE) (auto simp: engine_command_defs intro!: transaction_outputs dest: tx_outputs)
  then show ?thesis
  proof
    assume "\<exists>clock uuids c. d' = snd (complete clock uuids c d)"
    then obtain clock uuids c where c: "d' = snd (transaction clock (complete_tx uuids c) d)"
      by (auto simp: complete_def)
    show ?thesis
      using transaction_snd [of clock "complete_tx uuids c" d] complete_tx_output_inv [OF _ assms(2,3)] ev assms(3)
      unfolding c by metis
  qed (rule output_inv_kept [OF assms(3) ev])
qed

lemma initial_output_inv: "initial_state d \<Longrightarrow> output_inv d"
  by (simp add: initial_state_def output_inv_def)

lemma reachable_output_inv:
  "reachable d0 d \<Longrightarrow> engine_inv d0 \<Longrightarrow> output_inv d0 \<Longrightarrow> output_inv d"
  by (induction rule: reachable.induct) (auto intro: engine_step_output_inv reachable_inv)

section \<open>Completing work\<close>

lemma completion_InrD:
  assumes inv: "engine_inv d" "output_inv d"
    and run: "complete (utc now) uuids c d = (Inr r, d')" "cres_status r = APPLIED"
  obtains u a where "u \<in> set (work_units d)" "wu_work_id u = wc_work_id c" "leased u"
    "a \<in> set (work_attempts d)" "holds_lease u a" "wa_lease_id a = wc_lease_id c"
    "wa_lease_token a = wc_lease_token c" "wa_worker_id a = wc_worker_id c"
    "wa_input_digest a = wc_input_digest c" "wa_worker_build_identity a = wc_worker_build_identity c"
    "wc_output_contract c = wu_expected_output_contract u"
    "r = \<lparr>cres_work_id = wc_work_id c, cres_status = APPLIED, cres_output_digest = wc_output_digest c,
         cres_revision = wu_revision u + 1\<rparr>" "schema_ok d'"
    "work_units d' = update_rows (\<lambda>x. x = u) (completed_work_row c now) (work_units d)"
    "completed_attempt_row c now a \<in> set (work_attempts d')"
    "load_work_output_identity (wc_work_id c) d' = Inr (map (\<lambda>b. (oa_upload_id b, oa_role b)) (wc_output_artifacts c))"
  using transaction_utc_Inr [OF run(1) [unfolded complete_def]]
proof (cases rule: complete_tx_cases)
  case (Again u a)
  then have False using run(2) by (auto simp: complete_again_def result_bind_eq_Inr split: if_splits)
  then show thesis ..
next
  case (Active u a)
  have sd: "schema_ok d" using inv by simp
  obtain d1 where step: "artifact_step d d1"
    and e: "lease_ended u (completed_work_row c now u) a (completed_attempt_row c now a) d1 d'"
    using complete_active_ended [OF inv(1) Active(1,2) Active(12) Active(3)] by metis
  have rows: "work_units d1 = work_units d" "work_attempts d1 = work_attempts d"
    using artifact_stepD [OF step] by simp_all
  have contract: "wc_output_contract c = wu_expected_output_contract u"
    "r = \<lparr>cres_work_id = wc_work_id c, cres_status = APPLIED, cres_output_digest = wc_output_digest c,
         cres_revision = wu_revision u + 1\<rparr>"
    using Active(12) by (auto simp: complete_active_def result_bind_eq_Inr split: if_splits)
  have sd': "schema_ok d'" using e by (simp add: lease_ended_def)
  have att: "completed_attempt_row c now a \<in> set (work_attempts d')"
    using e Active(2) by (auto simp: lease_ended_def in_set_update_rows rows)
  have units: "work_units d' = update_rows (\<lambda>x. x = u) (completed_work_row c now) (work_units d)"
    using e row_update_eq [OF sd Active(1)] by (simp add: lease_ended_def rows)
  obtain arts recs where w: "length arts = length (wc_output_artifacts c)"
    "work_output_artifacts d' = work_output_artifacts d
       @ map (output_binding c) (zip (enumerate 0 (wc_output_artifacts c)) arts)"
    "artifact_records d' = artifact_records d @ recs"
    "map (\<lambda>r. (ar_artifact_id r, ar_upload_id r)) recs
       = zip arts (map (\<lambda>b. Some (oa_upload_id b)) (wc_output_artifacts c))"
    by (rule complete_active_writes [OF Active(12,3)])
  have "wb_work_id b \<noteq> wc_work_id c" if b: "b \<in> set (work_output_artifacts d)" for b
  proof
    assume id: "wb_work_id b = wc_work_id c"
    obtain v where v: "v \<in> set (work_units d)" "wu_work_id v = wb_work_id b" "wu_state v = Unit_SUCCEEDED"
      using inv(2) b by (auto simp: output_inv_def)
    have "v = u" using units.key_unique [OF sd v(1) Active(1)] v(2) id Active(3) by simp
    then show False using v(3) Active(4) by simp
  qed
  then have "load_work_output_identity (wc_work_id c) d'
      = Inr (map (\<lambda>b. (oa_upload_id b, oa_role b)) (wc_output_artifacts c))"
    using load_output_identity_written [OF sd' w(1) _ w(2) _ w(4)] w(3) by simp
  then show thesis by (rule that [OF Active(1,3,4,2,5,7,8,9,10,11) contract sd' units att])
qed simp

text \<open>
  C11: a first completion is applied to the leased unit it names, only under the output contract the
  unit was enqueued with; the unit becomes SUCCEEDED with the reported digest and one more revision,
  no other unit changes, and the uploads and roles read back for it are exactly the ones completed,
  in their order.
\<close>

theorem completion_applied:
  assumes "engine_inv d" and "output_inv d"
    and "complete (utc now) uuids c d = (Inr r, d')" and "cres_status r = APPLIED"
  shows "\<exists>u \<in> set (work_units d). wu_work_id u = wc_work_id c \<and> wu_state u = Unit_LEASED
    \<and> wc_output_contract c = wu_expected_output_contract u
    \<and> cres_output_digest r = wc_output_digest c \<and> cres_revision r = wu_revision u + 1
    \<and> work_units d' = update_rows (\<lambda>x. x = u) (completed_work_row c now) (work_units d)
    \<and> load_work_output_identity (wc_work_id c) d'
        = Inr (map (\<lambda>b. (oa_upload_id b, oa_role b)) (wc_output_artifacts c))"
  by (rule completion_InrD [OF assms]) (rule bexI, auto)

lemma completion_repeated:
  assumes sd: "schema_ok d" and u: "u \<in> set (work_units d)" "wu_work_id u = wc_work_id c"
      "wu_state u = Unit_SUCCEEDED"
    and a: "a \<in> set (work_attempts d)" "wa_work_id a = wc_work_id c" "wa_lease_id a = wc_lease_id c"
      "wa_lease_token a = wc_lease_token c" "wa_worker_id a = wc_worker_id c"
      "wa_input_digest a = wc_input_digest c" "wa_worker_build_identity a = wc_worker_build_identity c"
  shows "complete_tx uuids c now d = complete_again c u a d"
proof -
  have "select_one wu_work_id (wc_work_id c) (work_units d) = (Inr (Some u) :: engine_exn + _)"
    "select_one wa_lease_id (wc_lease_id c) (work_attempts d) = (Inr (Some a) :: engine_exn + _)"
    using units.select_iff [OF sd] attempt_leases.select_iff [OF sd] u a by blast+
  then have "lock_work_and_attempt (wc_work_id c) (wc_lease_id c) d = Inr (u, a)"
    by (simp add: lock_work_and_attempt_def)
  moreover have "require_attempt_identity a (wc_work_id c) (wc_lease_id c) (wc_lease_token c)
      (wc_worker_id c) (wc_input_digest c) = Inr ()"
    "require_worker_build a (wc_worker_build_identity c) = Inr ()" using a by simp_all
  ultimately show ?thesis
    using u(3) by (simp add: complete_tx_def del: require_attempt_identity_Inr require_worker_build_Inr)
qed

text \<open>
  C12: completion is idempotent and immutable. Sending the applied completion again, at any later
  time, is answered ALREADY_APPLIED with the same digest and revision and changes nothing; sending
  it with another output digest is refused with WORK_COMPLETION_CONFLICT and changes nothing.
\<close>

theorem completion_idempotent:
  assumes "engine_inv d" and "output_inv d"
    and "complete (utc now) uuids c d = (Inr r, d')" and "cres_status r = APPLIED"
  shows "complete (utc later) uuids' c d' = (Inr (r\<lparr>cres_status := ALREADY_APPLIED\<rparr>), d')
    \<and> (digest = wc_output_digest c \<or> complete (utc later) uuids' (c\<lparr>wc_output_digest := digest\<rparr>) d'
         = (Inl (Conflict (WORK_COMPLETION_CONFLICT (wc_work_id c))), d'))"
proof (rule completion_InrD [OF assms])
  fix u a
  assume u: "u \<in> set (work_units d)" "wu_work_id u = wc_work_id c"
    and a: "holds_lease u a" "wa_lease_id a = wc_lease_id c"
      "wa_lease_token a = wc_lease_token c" "wa_worker_id a = wc_worker_id c"
      "wa_input_digest a = wc_input_digest c" "wa_worker_build_identity a = wc_worker_build_identity c"
    and r: "r = \<lparr>cres_work_id = wc_work_id c, cres_status = APPLIED, cres_output_digest = wc_output_digest c,
         cres_revision = wu_revision u + 1\<rparr>" and sd: "schema_ok d'"
    and units: "work_units d' = update_rows (\<lambda>x. x = u) (completed_work_row c now) (work_units d)"
    and att: "completed_attempt_row c now a \<in> set (work_attempts d')"
    and load: "load_work_output_identity (wc_work_id c) d'
      = Inr (map (\<lambda>b. (oa_upload_id b, oa_role b)) (wc_output_artifacts c))"
  let ?u = "completed_work_row c now u" and ?a = "completed_attempt_row c now a"
  have u': "?u \<in> set (work_units d')" using u(1) by (auto simp: units in_set_update_rows)
  have again: "complete_tx uuids' (c\<lparr>wc_output_digest := g\<rparr>) later d'
      = complete_again (c\<lparr>wc_output_digest := g\<rparr>) ?u ?a d'" for g
    by (rule completion_repeated [OF sd u' _ _ att])
      (use u(2) a in \<open>simp_all add: completed_work_row_def clear_lease_def completed_attempt_row_def holds_lease_def\<close>)
  have "complete_tx uuids' c later d' = Inr (Committed (r\<lparr>cres_status := ALREADY_APPLIED\<rparr>), d')"
    using again [of "wc_output_digest c"] load by (simp add: complete_again_def completed_work_row_def clear_lease_def
        completed_attempt_row_def r)
  moreover have "complete_tx uuids' (c\<lparr>wc_output_digest := digest\<rparr>) later d'
      = Inl (Conflict (WORK_COMPLETION_CONFLICT (wc_work_id c)))" if "digest \<noteq> wc_output_digest c"
    using again [of digest] load that
    by (auto simp: complete_again_def completed_attempt_row_def raise_conflict_def)
  ultimately show ?thesis
    by (cases "digest = wc_output_digest c") (simp_all add: complete_def transaction_utc map_exception_def)
qed

definition demo_completion :: work_completion where
  "demo_completion = \<lparr>wc_work_id = UUID 3, wc_lease_id = UUID 11, wc_lease_token = UUID 12,
     wc_worker_id = ''w1'', wc_input_digest = one_digest, wc_output_contract = ''page.v1'',
     wc_output_digest = zero_digest, wc_worker_build_identity = ''b1'', wc_correlation_id = ''c4'',
     wc_output_artifacts = []\<rparr>"

lemma demo_leased_outputs: "output_inv demo_leased"
proof (rule reachable_output_inv [OF demo_leased_reachable demo_db_inv])
  show "output_inv demo_db" by (simp add: output_inv_def demo_db_def)
qed

lemma demo_completed:
  obtains r d' where "complete (utc 5000000) demo_uuids demo_completion demo_leased = (Inr r, d')"
    "cres_status r = APPLIED"
proof -
  let ?r = "complete (utc 5000000) demo_uuids demo_completion demo_leased"
  have "(case fst ?r of Inr r \<Rightarrow> cres_status r = APPLIED | _ \<Rightarrow> False)" by code_simp
  then show thesis using that by (cases "?r") (auto split: sum.splits)
qed

theorem completion_applied_witness:
  "\<exists>u \<in> set (work_units demo_leased). wu_work_id u = UUID 3
     \<and> wc_output_contract demo_completion = wu_expected_output_contract u"
proof -
  obtain r d' where "complete (utc 5000000) demo_uuids demo_completion demo_leased = (Inr r, d')"
    "cres_status r = APPLIED" by (rule demo_completed)
  from completion_applied [OF demo_leased_inv demo_leased_outputs this]
  show ?thesis by (auto simp: demo_completion_def)
qed

theorem completion_idempotent_witness:
  "\<exists>r d'. complete (utc 5000000) demo_uuids demo_completion demo_leased = (Inr r, d')
     \<and> complete (utc 6000000) demo_uuids demo_completion d' = (Inr (r\<lparr>cres_status := ALREADY_APPLIED\<rparr>), d')"
  by (rule demo_completed)
    (use completion_idempotent [OF demo_leased_inv demo_leased_outputs] in blast)

end
