(* ===== verification/Engine_Refinement.thy ===== *)
theory Engine_Refinement
  imports Engine_Outputs
begin

text \<open>
  The statements of the engine against the value objects of the domain: the expiry sweep against the
  retry policy, the heartbeat against \<open>WorkLease.renew\<close>, the source columns against
  \<open>SourceCapacity.reserve\<close> and \<open>release\<close>; and the commands a client may repeat.
\<close>

section \<open>The expiry sweep\<close>

definition expired_row :: "int \<Rightarrow> string \<Rightarrow> work_unit_row \<Rightarrow> work_unit_row" where
  "expired_row now corr u = (clear_lease now corr u)
     \<lparr>wu_state := failure_target Failure_TRANSIENT u, wu_failure_count := wu_failure_count u + 1,
      wu_available_at_utc := (if failure_target Failure_TRANSIENT u = Unit_RETRY_WAIT
        then now + seconds (backoff_seconds u) else now)\<rparr>"

lemma expired_work_row_closed:
  assumes "engine_inv d" and "u \<in> set (work_units d)" and "leased u"
  shows "expired_work_row now corr u = expired_row now corr u"
proof -
  have c: "work_unit_check u" by (rule schema_rowD(1) [OF _ assms(2)]) (simp add: assms(1))
  have b: "wu_failure_count u < wu_max_attempts u" using leased_budget [OF assms] .
  have "valid_retry_policy \<lparr>rp_max_attempts = wu_max_attempts u,
      rp_initial_delay_seconds = wu_retry_initial_delay_seconds u,
      rp_multiplier = wu_retry_multiplier u, rp_max_delay_seconds = wu_retry_max_delay_seconds u\<rparr>"
    using c by (simp add: work_unit_check_def validate_retry_policy_def)
  then obtain p where p: "retry_policy_of u = Inr p" "rp_max_attempts p = wu_max_attempts u"
    by (simp add: retry_policy_of_def make_retry_policy_def)
  obtain decision where dec: "retry_decide p Failure_TRANSIENT (wu_failure_count u + 1) = Inr decision"
    using retry_decide_total [of "wu_failure_count u + 1" p] b c p(2) by (auto simp: work_unit_check_def)
  show ?thesis
    using retry_decide_closed [OF p(1) dec]
    by (simp add: expired_work_row_def expired_row_def p dec failed_work_row_def)
qed

lemma take_sort_least:
  assumes "x \<in> set (take n (sort_key f xs))" and "y \<in> set xs" and "y \<notin> set (take n (sort_key f xs))"
  shows "f x \<le> f y"
proof -
  have "sorted (map f (take n (sort_key f xs) @ drop n (sort_key f xs)))" by simp
  then have "sorted_wrt (\<le>) (map f (take n (sort_key f xs)) @ map f (drop n (sort_key f xs)))"
    by (simp only: map_append)
  then have "\<forall>a \<in> set (map f (take n (sort_key f xs))). \<forall>b \<in> set (map f (drop n (sort_key f xs))). a \<le> b"
    unfolding sorted_wrt_append by (elim conjE)
  moreover have "y \<in> set (drop n (sort_key f xs))"
    using assms(2,3) by (metis UnE append_take_drop_id set_append set_sort)
  ultimately show ?thesis using assms(1) by auto
qed

text \<open>
  C13: a sweep expires at most \<open>limit\<close> leases, the earliest due ones first, and only leases whose
  expiry or heartbeat deadline has passed and that no concurrent transaction holds. Each expired
  unit counts one transient failure under its retry policy, every other unit is untouched, and the
  three counts reported are the numbers of units expired, rescheduled and dead-lettered.
\<close>

theorem sweep_expires_due_leases:
  assumes "engine_inv d" and "expire_leases (utc now) locked c d = (Inr r, d')"
  shows "\<exists>due. distinct due \<and> length due \<le> nat (les_limit c)
    \<and> set due \<subseteq> {u \<in> set (work_units d). lease_due now u \<and> \<not> locked (wu_work_id u)}
    \<and> (\<forall>u \<in> set due. \<forall>v \<in> set (work_units d) - set due. lease_due now v \<and> \<not> locked (wu_work_id v) \<longrightarrow>
         due_order u \<le> due_order v)
    \<and> (length due < nat (les_limit c) \<longrightarrow>
         {u \<in> set (work_units d). lease_due now u \<and> \<not> locked (wu_work_id u)} \<subseteq> set due)
    \<and> work_units d' = update_rows (\<lambda>u. u \<in> set due) (expired_row now (les_correlation_id c)) (work_units d)
    \<and> r = \<lparr>sres_expired_count = int (length due),
           sres_retry_wait_count = count_rows (\<lambda>u. failure_target Failure_TRANSIENT u = Unit_RETRY_WAIT) due,
           sres_dead_letter_count = count_rows (\<lambda>u. failure_target Failure_TRANSIENT u = Unit_DEAD_LETTER) due\<rparr>"
proof -
  let ?all = "filter (\<lambda>u. lease_due now u \<and> \<not> locked (wu_work_id u)) (work_units d)"
  let ?due = "select_due_leases locked (les_limit c) now d"
  have due: "?due = take (nat (les_limit c)) (sort_key due_order ?all)" by (simp add: select_due_leases_def)
  have run: "expire_leases_tx locked c now d = Inr (Committed r, d')"
    using transaction_utc_Inr [OF assms(2) [unfolded expire_leases_def]] .
  note e = expire_leases_tx_InrD [OF run assms(1)]
  have closed: "expired_work_row now (les_correlation_id c) u = expired_row now (les_correlation_id c) u"
    if "u \<in> set ?due" for u
    using that select_due_leases_sub expired_work_row_closed [OF assms(1)] lease_due_leased by blast
  have st: "wu_state (expired_row now corr u) = failure_target Failure_TRANSIENT u" for corr u
    by (simp add: expired_row_def)
  have rows: "work_units d' = update_rows (\<lambda>u. u \<in> set ?due) (expired_row now (les_correlation_id c)) (work_units d)"
    unfolding e(2) using closed by (auto simp: update_rows_def)
  have "count_rows (\<lambda>u. wu_state (expired_work_row now (les_correlation_id c) u) = s) ?due
      = count_rows (\<lambda>u. failure_target Failure_TRANSIENT u = s) ?due" for s
    using closed by (intro count_rows_cong) (simp add: st)
  then have counts: "r = \<lparr>sres_expired_count = int (length ?due),
           sres_retry_wait_count = count_rows (\<lambda>u. failure_target Failure_TRANSIENT u = Unit_RETRY_WAIT) ?due,
           sres_dead_letter_count = count_rows (\<lambda>u. failure_target Failure_TRANSIENT u = Unit_DEAD_LETTER) ?due\<rparr>"
    using e(3) by simp
  have all: "length ?due < nat (les_limit c) \<longrightarrow>
      {u \<in> set (work_units d). lease_due now u \<and> \<not> locked (wu_work_id u)} \<subseteq> set ?due"
    unfolding due by (auto simp: min_def split: if_splits)
  have first: "\<forall>u \<in> set ?due. \<forall>v \<in> set (work_units d) - set ?due.
      lease_due now v \<and> \<not> locked (wu_work_id v) \<longrightarrow> due_order u \<le> due_order v"
    unfolding due using take_sort_least [where f = due_order and xs = ?all] by simp
  have "distinct ?due" by (rule select_due_leases_distinct) (simp add: assms(1))
  moreover have "length ?due \<le> nat (les_limit c)" by (simp add: due)
  ultimately show ?thesis using rows counts all first select_due_leases_sub by (intro exI [of _ ?due] conjI)
qed

definition demo_sweep :: lease_expiry_sweep where
  "demo_sweep = \<lparr>les_limit = 10, les_correlation_id = ''c5''\<rparr>"

theorem sweep_expires_due_leases_witness:
  "\<exists>r. fst (expire_leases (utc 30000000) (\<lambda>_. False) demo_sweep demo_leased) = Inr r
     \<and> sres_expired_count r = 1 \<and> sres_retry_wait_count r \<le> 1"
proof -
  let ?r = "expire_leases (utc 30000000) (\<lambda>_. False) demo_sweep demo_leased"
  have "(case fst ?r of Inr r \<Rightarrow> sres_expired_count r = 1 | _ \<Rightarrow> False)" by code_simp
  then obtain r where r: "fst ?r = Inr r" "sres_expired_count r = 1" by (auto split: sum.splits)
  then have "?r = (Inr r, snd ?r)" by (metis prod.collapse)
  from sweep_expires_due_leases [OF demo_leased_inv this] obtain due where
    "r = \<lparr>sres_expired_count = int (length due),
           sres_retry_wait_count = count_rows (\<lambda>u. failure_target Failure_TRANSIENT u = Unit_RETRY_WAIT) due,
           sres_dead_letter_count = count_rows (\<lambda>u. failure_target Failure_TRANSIENT u = Unit_DEAD_LETTER) due\<rparr>"
    by blast
  moreover have "count_rows P xs \<le> int (length xs)" for P and xs :: "work_unit_row list"
    by (simp add: count_rows_def)
  ultimately show ?thesis using r by (metis lease_expiry_sweep_result.select_convs(1,2))
qed

section \<open>The heartbeat\<close>

lemma lease_from_work_Inr:
  "lease_from_work u permit corr inputs = Inr l \<longleftrightarrow>
   (\<exists>lease token worker issued expires deadline.
     wu_active_lease_id u = Some lease \<and> wu_active_lease_token u = Some token
     \<and> wu_active_worker_id u = Some worker \<and> wu_lease_issued_at_utc u = Some issued
     \<and> wu_lease_expires_at_utc u = Some expires \<and> wu_heartbeat_deadline_utc u = Some deadline
     \<and> l = \<lparr>wl_lease_id = lease, wl_work_id = wu_work_id u, wl_lease_token = token,
             wl_worker_id = worker, wl_stage = wu_stage u, wl_capability = wu_capability u,
             wl_input_digest = wu_input_digest u,
             wl_expected_output_contract = wu_expected_output_contract u,
             wl_issued_at_utc = utc issued, wl_expires_at_utc = utc expires,
             wl_heartbeat_deadline_utc = utc deadline, wl_source_permit = permit,
             wl_correlation_id = corr, wl_input_artifacts = inputs\<rparr>
     \<and> valid_work_lease l)"
  by (auto simp: lease_from_work_def split: option.splits)

lemma lease_times_independent:
  assumes "valid_work_lease l"
    and "instant (wl_issued_at_utc l) < deadline" and "deadline \<le> expires"
  shows "valid_work_lease (l\<lparr>wl_expires_at_utc := utc expires, wl_heartbeat_deadline_utc := utc deadline\<rparr>)"
  using assms by (simp add: validate_work_lease_def lease_require_token_def)

lemma lease_renew_to:
  assumes "lease_live_at l now" and "0 < beat" and "beat \<le> duration" and "valid_work_lease l'"
    and "l' = l\<lparr>wl_expires_at_utc := utc (now + duration), wl_heartbeat_deadline_utc := utc (now + beat)\<rparr>"
  shows "lease_renew l (utc now) duration beat = Inr l'"
proof -
  have "datetime_add (utc now) x = utc (now + x)" for x by (simp add: datetime_add_def utc_def)
  then show ?thesis
    using assms by (simp add: lease_renew_def lease_require_positive_duration_def make_work_lease_def)
qed

lemma lease_from_renewed_row:
  assumes "work_unit_lease_shape u" and "leased u" and "unit_live now u" and "validate_lease_heartbeat c = Inr ()"
    and "lease_from_work (renew_work_row c now u) permit (hb_correlation_id c) inputs = Inr lease"
  obtains before where "lease_from_work u permit (hb_correlation_id c) inputs = Inr before"
    and "lease_renew before (utc now) (seconds (hb_lease_duration_seconds c))
        (seconds (hb_heartbeat_interval_seconds c)) = Inr lease"
proof -
  obtain expires deadline where times: "wu_lease_expires_at_utc u = Some expires" "now < expires"
      "wu_heartbeat_deadline_utc u = Some deadline" "now < deadline"
    using assms(3) by (auto simp: unit_live_iff)
  from assms(5) obtain i t w issued where row: "wu_active_lease_id u = Some i" "wu_active_lease_token u = Some t"
      "wu_active_worker_id u = Some w" "wu_lease_issued_at_utc u = Some issued"
    and lease: "lease = \<lparr>wl_lease_id = i, wl_work_id = wu_work_id u, wl_lease_token = t,
             wl_worker_id = w, wl_stage = wu_stage u, wl_capability = wu_capability u,
             wl_input_digest = wu_input_digest u,
             wl_expected_output_contract = wu_expected_output_contract u,
             wl_issued_at_utc = utc issued,
             wl_expires_at_utc = utc (now + seconds (hb_lease_duration_seconds c)),
             wl_heartbeat_deadline_utc = utc (now + seconds (hb_heartbeat_interval_seconds c)),
             wl_source_permit = permit, wl_correlation_id = hb_correlation_id c, wl_input_artifacts = inputs\<rparr>"
    and valid: "valid_work_lease lease"
    unfolding lease_from_work_Inr by (auto simp: renew_work_row_def)
  let ?before = "lease\<lparr>wl_expires_at_utc := utc expires, wl_heartbeat_deadline_utc := utc deadline\<rparr>"
  have order: "issued < deadline" "deadline \<le> expires"
    using assms(1,2) times row by (auto simp: work_unit_lease_shape_def)
  have before: "lease_from_work u permit (hb_correlation_id c) inputs = Inr ?before"
    using lease_times_independent [OF valid, of deadline expires] order row times
    unfolding lease_from_work_Inr by (simp add: lease)
  have timing: "0 < seconds (hb_heartbeat_interval_seconds c)"
      "seconds (hb_heartbeat_interval_seconds c) \<le> seconds (hb_lease_duration_seconds c)"
    using assms(4) by (auto simp: validate_lease_heartbeat_def app_require_lease_timing_def seconds_def)
  have "lease_live_at ?before now" using times by (simp add: lease_live_at_def lease)
  then have "lease_renew ?before (utc now) (seconds (hb_lease_duration_seconds c))
        (seconds (hb_heartbeat_interval_seconds c)) = Inr lease"
    by (rule lease_renew_to [OF _ timing valid]) (simp add: lease)
  then show thesis using that before by blast
qed

text \<open>
  C14: a successful heartbeat is \<open>WorkLease.renew\<close> on the lease the row stood for: the lease before,
  renewed at the instant of the command with its duration and interval, is the lease returned, and
  the row holds exactly the renewed times.
\<close>

theorem heartbeat_renews_the_lease:
  assumes "engine_inv d" and "validate_lease_heartbeat c = Inr ()"
    and "heartbeat (utc now) c d = (Inr lease, d')"
  shows "\<exists>u permit inputs before. u \<in> set (work_units d) \<and> wu_work_id u = hb_work_id c
    \<and> lease_from_work u permit (hb_correlation_id c) inputs = Inr before
    \<and> lease_renew before (utc now) (seconds (hb_lease_duration_seconds c))
        (seconds (hb_heartbeat_interval_seconds c)) = Inr lease
    \<and> work_units d' = update_rows (\<lambda>x. x = u) (renew_work_row c now) (work_units d)"
proof -
  have sd: "schema_ok d" using assms(1) by simp
  from transaction_utc_Inr [OF assms(3) [unfolded heartbeat_def]] obtain u and a :: work_attempt_row where
    u: "u \<in> set (work_units d)" "wu_work_id u = hb_work_id c" "leased u" "unit_live now u"
    and rest: "result_bind (update_unit (hb_work_id c) (renew_work_row c now) d) (\<lambda>d1.
     result_bind (update_attempt (wa_attempt_id a) (renew_attempt_row c now) d1) (\<lambda>d2.
     result_bind (execute (worker_heartbeats_update (update_rows (\<lambda>h. wh_worker_id h = hb_worker_id c)
        (\<lambda>h. h\<lparr>wh_last_seen_at_utc := now, wh_correlation_id := hb_correlation_id c\<rparr>))) d2) (\<lambda>d3.
     result_bind (of_checked (permit_from_work (renew_work_row c now u))) (\<lambda>permit.
     result_bind (of_checked (load_work_input_artifacts (wu_work_id u) d3)) (\<lambda>inputs.
     result_bind (of_checked (lease_from_work (renew_work_row c now u) permit
        (hb_correlation_id c) inputs)) (\<lambda>lease. Inr (Committed lease, d3))))))) = Inr (Committed lease, d')"
    unfolding heartbeat_tx_def by (rule active_InrD) (rule that)
  obtain d1 d2 where steps: "update_unit (hb_work_id c) (renew_work_row c now) d = Inr d1"
      "update_attempt (wa_attempt_id a) (renew_attempt_row c now) d1 = Inr d2"
      "d' = worker_heartbeats_update (update_rows (\<lambda>h. wh_worker_id h = hb_worker_id c)
        (\<lambda>h. h\<lparr>wh_last_seen_at_utc := now, wh_correlation_id := hb_correlation_id c\<rparr>)) d2"
    using rest by (auto simp: result_bind_eq_Inr)
  obtain permit inputs where
    l: "lease_from_work (renew_work_row c now u) permit (hb_correlation_id c) inputs = Inr lease"
    using rest by (auto simp: result_bind_eq_Inr)
  have "work_unit_lease_shape u" using schema_rowD(1) [OF sd u(1)] by (simp add: work_unit_check_def)
  from lease_from_renewed_row [OF this u(3,4) assms(2) l] obtain before where
    before: "lease_from_work u permit (hb_correlation_id c) inputs = Inr before"
      "lease_renew before (utc now) (seconds (hb_lease_duration_seconds c)) (seconds (hb_heartbeat_interval_seconds c)) = Inr lease" .
  have "work_units d' = update_rows (\<lambda>x. x = u) (renew_work_row c now) (work_units d)"
    using steps row_update_eq [OF sd u(1), of "renew_work_row c now"]
      update_key_const [OF units.key_distinct [OF sd] u(1), of "renew_work_row c now"] u(2)
    by (simp add: update_unit_def update_attempt_def)
  then show ?thesis using u before by blast
qed

theorem heartbeat_renews_the_lease_witness:
  "\<exists>lease before. fst (heartbeat (utc 5000000) demo_beat demo_leased) = Inr lease
     \<and> lease_renew before (utc 5000000) (seconds 60) (seconds 20) = Inr lease"
proof -
  let ?r = "heartbeat (utc 5000000) demo_beat demo_leased"
  have "(case fst ?r of Inr _ \<Rightarrow> True | _ \<Rightarrow> False)" by code_simp
  then obtain lease where l: "fst ?r = Inr lease" by (auto split: sum.splits)
  then have r: "?r = (Inr lease, snd ?r)" by (metis prod.collapse)
  have v: "validate_lease_heartbeat demo_beat = Inr ()" by code_simp
  have beat: "hb_lease_duration_seconds demo_beat = 60" "hb_heartbeat_interval_seconds demo_beat = 20"
    by (simp_all add: demo_beat_def)
  show ?thesis using heartbeat_renews_the_lease [OF demo_leased_inv v r] l unfolding beat by blast
qed

section \<open>The capacity of a source\<close>

text \<open>The value object a row of \<open>source_capacity_states\<close> stands for.\<close>

definition capacity_of_row :: "source_capacity_row \<Rightarrow> source_capacity" where
  "capacity_of_row s = \<lparr>cap_source_key = sc_source_key s, cap_state = sc_operational_state s,
     cap_policy_digest = sc_policy_digest s, cap_max_active_requests = sc_max_active_requests s,
     cap_active_requests = sc_active_requests s,
     cap_next_allowed_request_at_utc = utc (sc_next_allowed_request_at_utc s),
     cap_retry_after_utc = map_option utc (sc_retry_after_utc s), cap_revision = sc_revision s\<rparr>"

definition released_source_row :: "int \<Rightarrow> string \<Rightarrow> source_capacity_row \<Rightarrow> source_capacity_row" where
  "released_source_row now corr s = s\<lparr>sc_active_requests := sc_active_requests s - 1,
     sc_revision := sc_revision s + 1, sc_updated_at_utc := now, sc_correlation_id := corr\<rparr>"

lemma capacity_of_row_valid:
  "source_capacity_check s \<Longrightarrow> valid_source_capacity (capacity_of_row s)"
  by (auto simp: capacity_of_row_def source_capacity_check_def source_capacity_defs split: option.splits)

lemma source_can_reserve_iff: "source_can_reserve s now \<longleftrightarrow> can_reserve (capacity_of_row s) now"
  by (auto simp: source_can_reserve_def can_reserve_def capacity_of_row_def optional_def split: option.splits)

lemma source_update_eq:
  assumes "schema_ok d" and "s \<in> set (source_capacity_states d)"
  shows "update_rows (\<lambda>x. sc_source_key x = sc_source_key s) f (source_capacity_states d)
    = update_rows (\<lambda>x. x = s) f (source_capacity_states d)"
  by (rule update_rows_cong) (use sources.key_unique [OF assms(1) _ assms(2)] in auto)

lemma reserve_source_refines:
  assumes "store_ok d" and "wu_source_key u = Some key" and "reserve_source c now u d = Inr (Some (permit, d1))"
  shows "\<exists>s p. s \<in> set (source_capacity_states d) \<and> sc_source_key s = key \<and> permit = Some p
        \<and> source_reserve (capacity_of_row s) (utc now) (milliseconds (sc_minimum_interval_milliseconds s))
            = Inr (capacity_of_row (reserved_source_row c now s), p)
        \<and> source_capacity_states d1 = update_rows (\<lambda>x. x = s) (reserved_source_row c now) (source_capacity_states d)"
proof -
  have sd: "schema_ok d" using assms(1) by simp
  obtain s where s: "key = sc_source_key s" "s \<in> set (source_capacity_states d)"
      "source_can_reserve s now" "permit = Some \<lparr>sp_source_key = sc_source_key s, sp_policy_digest = sc_policy_digest s,
                      sp_permit_not_before_utc = utc now\<rparr>"
      "d1 = source_capacity_states_update (update_rows (\<lambda>r. sc_source_key r = sc_source_key s)
         (\<lambda>_. reserved_source_row c now s)) d"
    using assms(3,2) by (cases rule: reserve_source_cases [OF _ assms(1), consumes 1]) auto
  have chk: "source_capacity_check s" by (rule schema_rowD(3) [OF sd s(2)])
  have "source_reserve (capacity_of_row s) (utc now) (milliseconds (sc_minimum_interval_milliseconds s))
     = Inr (capacity_of_row (reserved_source_row c now s), \<lparr>sp_source_key = sc_source_key s,
          sp_policy_digest = sc_policy_digest s, sp_permit_not_before_utc = utc now\<rparr>)"
    using source_reserve_eq [OF capacity_of_row_valid [OF chk], of "milliseconds (sc_minimum_interval_milliseconds s)" now]
      s(3) chk unfolding source_can_reserve_iff
    by (simp add: capacity_of_row_def reserved_source_row_def milliseconds_def source_capacity_check_def)
  moreover have "source_capacity_states d1 = update_rows (\<lambda>x. x = s) (reserved_source_row c now) (source_capacity_states d)"
    using source_update_eq [OF sd s(2)]
      update_key_const [OF sources.key_distinct [OF sd] s(2), of "reserved_source_row c now"]
    by (simp add: s(5))
  ultimately show ?thesis
    using s(1,2,4) by blast
qed

lemma release_source_refines:
  assumes "store_ok d" and "wu_source_key u = Some key" and "release_source_reservation u now corr d = Inr d1"
  shows "\<exists>s. s \<in> set (source_capacity_states d) \<and> sc_source_key s = key
        \<and> source_release (capacity_of_row s) = Inr (capacity_of_row (released_source_row now corr s))
        \<and> source_capacity_states d1 = update_rows (\<lambda>x. x = s) (released_source_row now corr) (source_capacity_states d)"
proof -
  have sd: "schema_ok d" using assms(1) by simp
  have d1: "d1 = source_capacity_states_update (update_rows
        (\<lambda>r. sc_source_key r = key \<and> 0 < sc_active_requests r) (released_source_row now corr)) d"
    and one: "count_rows (\<lambda>r. sc_source_key r = key \<and> 0 < sc_active_requests r) (source_capacity_states d) = 1"
    using assms(2,3) by (auto simp: release_source_reservation_def Let_def result_bind_eq_Inr
        released_source_row_def [abs_def] split: if_splits)
  obtain s where s: "s \<in> set (source_capacity_states d)" "sc_source_key s = key" "0 < sc_active_requests s"
  proof (rule ccontr)
    assume "\<not> thesis"
    then have "count_rows (\<lambda>r. sc_source_key r = key \<and> 0 < sc_active_requests r) (source_capacity_states d) = 0"
      using that by (intro count_rows_zero) blast
    then show False using one by simp
  qed
  have chk: "source_capacity_check s" by (rule schema_rowD(3) [OF sd s(1)])
  have "source_release (capacity_of_row s) = Inr (capacity_of_row (released_source_row now corr s))"
    using s(3) chk capacity_of_row_valid [OF chk]
    by (simp add: source_release_def make_source_capacity_def capacity_of_row_def released_source_row_def
        source_capacity_defs source_capacity_check_def)
  moreover have "source_capacity_states d1
      = update_rows (\<lambda>x. x = s) (released_source_row now corr) (source_capacity_states d)"
    using sources.guarded_update(1) [OF sd s(1), of "\<lambda>r. 0 < sc_active_requests r" "released_source_row now corr"]
      source_update_eq [OF sd s(1)] s by (simp add: d1)
  ultimately show ?thesis
    using s(1,2) by blast
qed

text \<open>
  C15: the source columns implement the domain's \<open>SourceCapacity\<close>. When the engine reserves a source
  for a unit, the row of that source becomes the row of the capacity \<open>SourceCapacity.reserve\<close>
  returns and the permit is the permit it returns; and when the engine returns a reservation, the
  row becomes the row of what \<open>SourceCapacity.release\<close> returns. No other source changes.
\<close>

theorem source_columns_refine_capacity:
  assumes "store_ok d" and "wu_source_key u = Some key"
  shows "(\<forall>permit d1. reserve_source c now u d = Inr (Some (permit, d1)) \<longrightarrow>
      (\<exists>s p. s \<in> set (source_capacity_states d) \<and> sc_source_key s = key \<and> permit = Some p
        \<and> source_reserve (capacity_of_row s) (utc now) (milliseconds (sc_minimum_interval_milliseconds s))
            = Inr (capacity_of_row (reserved_source_row c now s), p)
        \<and> source_capacity_states d1 = update_rows (\<lambda>x. x = s) (reserved_source_row c now) (source_capacity_states d)))
    \<and> (\<forall>d1. release_source_reservation u now corr d = Inr d1 \<longrightarrow>
      (\<exists>s. s \<in> set (source_capacity_states d) \<and> sc_source_key s = key
        \<and> source_release (capacity_of_row s) = Inr (capacity_of_row (released_source_row now corr s))
        \<and> source_capacity_states d1 = update_rows (\<lambda>x. x = s) (released_source_row now corr) (source_capacity_states d)))"
  using reserve_source_refines [OF assms] release_source_refines [OF assms] by (intro conjI allI impI) blast+

theorem source_columns_refine_capacity_witness:
  "\<exists>permit d1 s p. reserve_source demo_request 100 demo_unit demo_db = Inr (Some (permit, d1))
     \<and> s \<in> set (source_capacity_states demo_db) \<and> permit = Some p
     \<and> source_reserve (capacity_of_row s) (utc 100) (milliseconds (sc_minimum_interval_milliseconds s))
         = Inr (capacity_of_row (reserved_source_row demo_request 100 s), p)"
proof -
  have ok: "store_ok demo_db" using demo_db_inv by simp
  have key: "wu_source_key demo_unit = Some ''web''" by (simp add: demo_unit_def new_work_unit_def)
  have "(case reserve_source demo_request 100 demo_unit demo_db of Inr (Some _) \<Rightarrow> True | _ \<Rightarrow> False)" by code_simp
  then obtain permit d1 where r: "reserve_source demo_request 100 demo_unit demo_db = Inr (Some (permit, d1))"
    by (auto split: sum.splits option.splits)
  show ?thesis
    using conjunct1 [OF source_columns_refine_capacity [OF ok key, of demo_request 100 "''c''"]] r by blast
qed

end
