(* ===== verification/Engine_Repeats.thy ===== *)
theory Engine_Repeats
  imports Engine_Refinement "HOL-Library.Multiset"
begin

text \<open>
  Commands a client repeats: enqueueing the same work and registering the same worker again. The
  immutable identity they are compared by, and where it is not immutable.
\<close>

section \<open>Enqueueing\<close>

lemma binding_references:
  assumes "schema_ok d" and "b \<in> set (work_input_artifacts d)"
  shows "\<exists>u \<in> set (work_units d). wu_work_id u = wb_work_id b"
proof -
  have "list_all (\<lambda>r. wb_work_id r \<in> set (map wu_work_id (work_units d))
      \<and> wb_artifact_id r \<in> set (map ar_artifact_id (artifact_records d))) (work_input_artifacts d)"
    using assms(1) unfolding schema_ok_def artifact_references_def Let_def by (elim conjE)
  then show ?thesis using assms(2) by (force simp: list_all_iff)
qed

lemma load_bindings_written:
  assumes "schema_ok d'" and "work_input_artifacts d' = old @ input_bindings work inputs"
    and "\<And>b. b \<in> set old \<Longrightarrow> wb_work_id b \<noteq> work"
  shows "load_work_input_artifacts work d' = Inr inputs"
proof -
  let ?new = "input_bindings work inputs"
  have filt: "filter (\<lambda>b. wb_work_id b = work) (work_input_artifacts d') = ?new"
    using assms(3) by (auto simp: assms(2) input_bindings_def filter_map o_def filter_empty_conv split_beta)
  have "map wb_position ?new = map int [0..<length inputs]"
    by (intro nth_equalityI) (simp_all add: input_bindings_def nth_enumerate_eq)
  then have "sorted (map wb_position ?new)" by (simp add: sorted_map sorted_wrt_iff_nth_less)
  then have sorted: "sort_key wb_position ?new = ?new" by (rule sort_key_id_if_sorted)
  have role: "token_pattern 63 (wb_role b)" if "b \<in> set ?new" for b
    using schema_rowD(6) [OF assms(1)] that assms(2) by (simp add: work_artifact_binding_check_def)
  have "traverse (\<lambda>b. make_work_input_artifact (wb_artifact_id b) (wb_role b)) ?new
      = Inr (map (\<lambda>b. \<lparr>ia_artifact_id = wb_artifact_id b, ia_role = wb_role b\<rparr>) ?new)"
    using role by (intro traverse_Inr) (simp add: make_work_input_artifact_def require_artifact_role_def)
  also have "map (\<lambda>b. \<lparr>ia_artifact_id = wb_artifact_id b, ia_role = wb_role b\<rparr>) ?new = inputs"
    by (intro nth_equalityI) (simp_all add: input_bindings_def nth_enumerate_eq)
  finally show ?thesis by (simp add: load_work_input_artifacts_def filt sorted)
qed

lemma enqueue_guards:
  assumes "enqueue_work_tx c now d = Inr (outcome, d')"
  shows "require_work_owner c d = Inr ()" "require_source_configured c d = Inr ()"
    "require_input_artifacts_exist c d = Inr ()"
  using assms by (auto simp: enqueue_work_tx_def result_bind_eq_Inr)

lemma enqueue_again:
  assumes "require_work_owner c d = Inr ()" "require_source_configured c d = Inr ()"
    "require_input_artifacts_exist c d = Inr ()"
    and "filter (\<lambda>u. wu_work_id u = wus_work_id c
       \<or> wu_run_id u = wus_run_id c \<and> wu_semantic_key u = wus_semantic_key c) (work_units d) = [u]"
    and "load_work_input_artifacts (wu_work_id u) d = Inr inputs" "same_work_identity u c inputs"
  shows "enqueue_work_tx c now d = Inr (Committed (), d)"
  using assms by (simp add: enqueue_work_tx_def)

lemma same_identity_matches:
  assumes "schema_ok d" and "u \<in> set (work_units d)" and "same_work_identity u c inputs"
  shows "filter (\<lambda>u. wu_work_id u = wus_work_id c
       \<or> wu_run_id u = wus_run_id c \<and> wu_semantic_key u = wus_semantic_key c) (work_units d) = [u]"
proof -
  have "distinct (map (\<lambda>r. (wu_run_id r, wu_semantic_key r)) (work_units d))"
    using assms(1) by (simp add: schema_ok_def work_tables_unique_def)
  then have "v = u" if "v \<in> set (work_units d)" "wu_run_id v = wus_run_id c" "wu_semantic_key v = wus_semantic_key c" for v
    by (rule distinct_key_unique [OF _ that(1) assms(2)]) (use assms(3) that in \<open>simp add: same_work_identity_def\<close>)
  then have "filter (\<lambda>v. wu_work_id v = wus_work_id c
       \<or> wu_run_id v = wus_run_id c \<and> wu_semantic_key v = wus_semantic_key c) (work_units d)
      = filter (\<lambda>v. wu_work_id v = wu_work_id u) (work_units d)"
    using assms(3) by (intro filter_cong) (auto simp: same_work_identity_def)
  then show ?thesis using filter_key_eq [OF units.key_distinct [OF assms(1)] assms(2)] by simp
qed

text \<open>
  C16: enqueueing is idempotent: the command that put a unit into the queue, repeated against the
  queue it left, is accepted and changes nothing.
\<close>

theorem enqueue_idempotent:
  assumes "store_ok d" and "enqueue_work (utc now) c d = (Inr (), d')"
  shows "enqueue_work (utc later) c d' = (Inr (), d')"
proof -
  have sd: "schema_ok d" using assms(1) by simp
  have run: "enqueue_work_tx c now d = Inr (Committed (), d')"
    using transaction_utc_Inr [OF assms(2) [unfolded enqueue_work_def]] .
  note guards = enqueue_guards [OF run]
  have "enqueue_work_tx c later d' = Inr (Committed (), d')"
    using run
  proof (cases rule: enqueue_work_tx_cases)
    case (Same u inputs)
    then show ?thesis using enqueue_again [OF guards same_identity_matches [OF sd Same(2,4)]] by simp
  next
    case New
    let ?u = "new_work_unit c now"
    have tables: "collection_runs d' = collection_runs d" "stage_runs d' = stage_runs d"
      "source_capacity_states d' = source_capacity_states d" "artifact_records d' = artifact_records d"
      by (simp_all add: New(3))
    have "require_work_owner c d' = require_work_owner c d"
      "require_source_configured c d' = require_source_configured c d"
      "require_input_artifacts_exist c d' = require_input_artifacts_exist c d"
      by (simp_all only: tables require_work_owner_def work_owner_def require_source_configured_def
          require_input_artifacts_exist_def)
    note guards' = this [unfolded guards]
    have old: "wb_work_id b \<noteq> wus_work_id c" if "b \<in> set (work_input_artifacts d)" for b
      using binding_references [OF sd that] New(1) by auto
    have load: "load_work_input_artifacts (wus_work_id c) d' = Inr (wus_input_artifacts c)"
      by (rule load_bindings_written [OF store_ok_schema [OF New(2)] _ old])
        (simp_all add: New(3) insert_rows_def)
    have u: "?u \<in> set (work_units d')" by (simp add: New(3))
    have same: "same_work_identity ?u c (wus_input_artifacts c)"
      by (simp add: same_work_identity_def new_work_unit_def)
    show ?thesis
      using enqueue_again [OF guards' same_identity_matches [OF store_ok_schema [OF New(2)] u same]] load same
      by (simp add: new_work_unit_def)
  qed
  then show ?thesis by (simp add: enqueue_work_def transaction_utc)
qed

definition demo_spec :: work_unit_spec where
  "demo_spec = \<lparr>wus_work_id = UUID 3, wus_run_id = UUID 1, wus_stage_run_id = UUID 2,
      wus_stage = Stage_ACQUISITION, wus_capability = Cap_HTTP_FETCH, wus_source_key = Some ''web'',
      wus_semantic_key = zero_digest, wus_input_digest = one_digest,
      wus_expected_output_contract = ''page.v1'', wus_priority = 5,
      wus_retry_policy = \<lparr>rp_max_attempts = 3, rp_initial_delay_seconds = 2, rp_multiplier = 3,
                          rp_max_delay_seconds = 10\<rparr>,
      wus_available_at_utc = utc 0, wus_correlation_id = ''c'', wus_input_artifacts = []\<rparr>"

definition demo_empty :: db where
  "demo_empty = demo_db\<lparr>work_units := []\<rparr>"

lemma demo_guards:
  assumes "d \<in> {demo_empty, demo_state}"
  shows "require_work_owner demo_spec d = Inr ()" "require_source_configured demo_spec d = Inr ()"
    "require_input_artifacts_exist demo_spec d = Inr ()"
  using assms
  by (auto simp: require_work_owner_def work_owner_def require_source_configured_def select_one_def
      require_input_artifacts_exist_def demo_spec_def demo_empty_def demo_state_def demo_db_def)

theorem enqueue_idempotent_witness:
  "\<exists>d'. enqueue_work (utc 0) demo_spec demo_empty = (Inr (), d')
     \<and> enqueue_work (utc 6) demo_spec d' = (Inr (), d')"
proof -
  have ok: "store_ok demo_empty" by code_simp
  have "new_work_unit demo_spec 0 = demo_unit" by (simp add: demo_unit_def demo_spec_def)
  then have "work_units_update (insert_rows [new_work_unit demo_spec 0]) demo_empty = demo_db"
    by (simp add: demo_empty_def demo_db_def insert_rows_def)
  then have "enqueue_work_tx demo_spec 0 demo_empty = Inr (Committed (), demo_db)"
    using demo_guards [of demo_empty] demo_db_inv
    by (simp add: enqueue_work_tx_def demo_empty_def execute_ok) (simp add: demo_spec_def)
  then have "enqueue_work (utc 0) demo_spec demo_empty = (Inr (), demo_db)"
    by (simp add: enqueue_work_def transaction_utc)
  then show ?thesis using enqueue_idempotent [OF ok] by blast
qed

text \<open>
  The identity a repeated enqueue is compared by contains the time the unit becomes available,
  which releases and retries move. A command that is accepted as a repetition while its unit is
  leased is refused as a conflicting identity once the worker has released the unit, although
  nothing of the command's input changed.
\<close>

theorem enqueue_conflicts_after_release:
  assumes "engine_inv d" and "release (utc now) rel d = (Inr r, d')" and "wrl_work_id rel = wus_work_id c"
    and "fst (enqueue_work (utc t) c d) = Inr ()" and "instant (wus_available_at_utc c) \<noteq> now"
  shows "fst (enqueue_work (utc later) c d') \<noteq> Inr ()"
proof
  assume "fst (enqueue_work (utc later) c d') = Inr ()"
  then obtain d2 where "enqueue_work (utc later) c d' = (Inr (), d2)" by (metis prod.collapse)
  then have run: "enqueue_work_tx c later d' = Inr (Committed (), d2)"
    unfolding enqueue_work_def by (rule transaction_utc_Inr)
  have sd: "store_ok d" using assms(1) by simp
  from transaction_utc_Inr [OF assms(2) [unfolded release_def]] obtain u a where
    u: "u \<in> set (work_units d)" "wu_work_id u = wrl_work_id rel" and a: "a \<in> set (work_attempts d)"
    and rel: "release_active rel now u a d = Inr (Committed r, d')"
    unfolding release_tx_def by (rule active_InrD)
  have ended: "lease_ended u (released_work_row rel now u) a (released_attempt_row rel now a) d d'"
    by (rule release_active_InrD(3) [OF rel u(2) sd u(1) a])
  let ?u = "released_work_row rel now u"
  have u': "?u \<in> set (work_units d')" "schema_ok d'" "wu_work_id ?u = wus_work_id c"
    using ended u assms(3) by (auto simp: lease_ended_def in_set_update_rows released_work_row_def clear_lease_def)
  from run show False
  proof (cases rule: enqueue_work_tx_cases)
    case (Same v inputs)
    then have "v = ?u"
      using units.key_unique [OF u'(2) Same(2) u'(1)] u'(3) by (simp add: same_work_identity_def)
    then show False using Same(4) assms(5) by (simp add: same_work_identity_def released_work_row_def)
  next
    case New
    then show False using u' by blast
  qed
qed

definition demo_release :: work_release where
  "demo_release = \<lparr>wrl_work_id = UUID 3, wrl_lease_id = UUID 11, wrl_lease_token = UUID 12,
     wrl_worker_id = ''w1'', wrl_input_digest = one_digest, wrl_reason_code = ''SHUTDOWN'',
     wrl_worker_build_identity = ''b1'', wrl_correlation_id = ''c6''\<rparr>"

theorem enqueue_conflicts_after_release_witness:
  "fst (enqueue_work (utc 6000000) demo_spec (snd (release (utc 5000000) demo_release demo_leased))) \<noteq> Inr ()"
proof -
  let ?r = "release (utc 5000000) demo_release demo_leased"
  have "(case fst ?r of Inr _ \<Rightarrow> True | _ \<Rightarrow> False)" unfolding demo_leased_eq by code_simp
  then obtain x where "fst ?r = Inr x" by (auto split: sum.splits)
  then have r: "?r = (Inr x, snd ?r)" by (metis prod.collapse)
  have "same_work_identity demo_leased_row demo_spec []" "load_work_input_artifacts (UUID 3) demo_state = Inr []"
    by code_simp+
  moreover from this(1) have "wu_work_id demo_leased_row = UUID 3"
    by (simp add: same_work_identity_def demo_spec_def)
  ultimately have "enqueue_work_tx demo_spec 200 demo_state = Inr (Committed (), demo_state)"
    by (intro enqueue_again [OF demo_guards, of _ demo_leased_row "[]"])
      (simp_all add: demo_state_def demo_spec_def)
  then have e: "fst (enqueue_work (utc 200) demo_spec demo_leased) = Inr ()"
    by (simp add: enqueue_work_def transaction_utc demo_leased_eq)
  show ?thesis
    by (rule enqueue_conflicts_after_release [OF demo_leased_inv r _ e])
      (simp_all add: demo_release_def demo_spec_def)
qed

section \<open>Registration\<close>

lemma heartbeat_update_schema:
  assumes "store_ok d" and "\<And>h. wh_worker_id (f h) = wh_worker_id h"
    and "\<And>h. wh_active_lease_count (f h) = wh_active_lease_count h"
  shows "store_ok (worker_heartbeats_update (update_rows p f) d)"
proof -
  have ids: "map wh_worker_id (update_rows p f hs) = map wh_worker_id hs" for hs
    using assms(2) by (intro map_update_rows)
  have checks: "list_all worker_heartbeat_check (update_rows p f hs) = list_all worker_heartbeat_check hs" for hs
    by (induction hs) (simp_all add: worker_heartbeat_check_def assms(3))
  have ranges: "list_all (\<lambda>r. int4 (wh_active_lease_count r)) (update_rows p f hs)
      = list_all (\<lambda>r. int4 (wh_active_lease_count r)) hs" for hs
    by (induction hs) (simp_all add: assms(3))
  have refs: "list_all (\<lambda>r. wh_worker_id r \<in> W) (update_rows p f hs) = list_all (\<lambda>r. wh_worker_id r \<in> W) hs" for W hs
    by (induction hs) (simp_all add: assms(2))
  show ?thesis
    using assms(1)
    by (simp add: store_ok_def columns_in_range_def schema_ok_def rows_checked_def run_tables_unique_def
        worker_tables_unique_def work_tables_unique_def artifact_tables_unique_def config_tables_unique_def
        run_references_def work_references_def artifact_references_def ids checks ranges refs del: list.map)
qed

lemma worker_references:
  assumes "schema_ok d"
  shows "(w, x) \<in> set (worker_capabilities d) \<Longrightarrow> \<exists>r \<in> set (worker_registrations d). wr_worker_id r = w"
    and "(w, y) \<in> set (worker_output_contracts d) \<Longrightarrow> \<exists>r \<in> set (worker_registrations d). wr_worker_id r = w"
proof -
  have "list_all (\<lambda>(worker, _). worker \<in> set (map wr_worker_id (worker_registrations d))) (worker_capabilities d)
    \<and> list_all (\<lambda>(worker, _). worker \<in> set (map wr_worker_id (worker_registrations d))) (worker_output_contracts d)"
    using assms unfolding schema_ok_def work_references_def Let_def by (elim conjE) (rule conjI)
  then show "(w, x) \<in> set (worker_capabilities d) \<Longrightarrow> \<exists>r \<in> set (worker_registrations d). wr_worker_id r = w"
    "(w, y) \<in> set (worker_output_contracts d) \<Longrightarrow> \<exists>r \<in> set (worker_registrations d). wr_worker_id r = w"
    by (force simp: list_all_iff)+
qed

lemma register_again:
  assumes sd: "store_ok d" and r: "r \<in> set (worker_registrations d)" "wr_worker_id r = reg_worker_id c"
    and same: "same_registration c r d"
    and one: "count_rows (\<lambda>h. wh_worker_id h = reg_worker_id c) (worker_heartbeats d) = 1"
  shows "register_worker_tx c now d =
    Inr (Committed \<lparr>rr_worker_id = reg_worker_id c, rr_status = ALREADY_REGISTERED\<rparr>,
      worker_heartbeats_update (update_rows (\<lambda>h. wh_worker_id h = reg_worker_id c)
        (\<lambda>h. h\<lparr>wh_last_seen_at_utc := now, wh_correlation_id := reg_correlation_id c\<rparr>)) d)"
proof -
  have "select_one wr_worker_id (reg_worker_id c) (worker_registrations d) = (Inr (Some r) :: engine_exn + _)"
    using registrations.select_iff [OF store_ok_schema [OF sd]] r by blast
  then show ?thesis
    using same one heartbeat_update_schema [OF sd]
    by (simp add: register_worker_tx_def register_worker_again_def execute_ok)
qed

lemma repeat_new_registration:
  assumes "store_ok d" and "register_worker_new now c d = Inr (Committed r, d')"
    and "\<And>row. row \<in> set (worker_registrations d) \<Longrightarrow> wr_worker_id row \<noteq> reg_worker_id c"
  shows "register_worker_tx c later d' =
    Inr (Committed \<lparr>rr_worker_id = reg_worker_id c, rr_status = ALREADY_REGISTERED\<rparr>,
      worker_heartbeats_update (update_rows (\<lambda>h. wh_worker_id h = reg_worker_id c)
        (\<lambda>h. h\<lparr>wh_last_seen_at_utc := later, wh_correlation_id := reg_correlation_id c\<rparr>)) d')"
proof -
  note new = register_worker_new_InrD [OF assms(2)]
  have "fst x \<noteq> reg_worker_id c" if "x \<in> set (worker_capabilities d)" for x
    using worker_references(1) [OF store_ok_schema [OF assms(1)], of "fst x" "snd x"] that assms(3) by auto
  moreover have "fst x \<noteq> reg_worker_id c" if "x \<in> set (worker_output_contracts d)" for x
    using worker_references(2) [OF store_ok_schema [OF assms(1)], of "fst x" "snd x"] that assms(3) by auto
  ultimately have caps: "filter (\<lambda>p. fst p = reg_worker_id c) (worker_capabilities d) = []"
    "filter (\<lambda>p. fst p = reg_worker_id c) (worker_output_contracts d) = []"
    by (auto simp: filter_empty_conv)
  let ?row = "\<lparr>wr_worker_id = reg_worker_id c, wr_registration_digest = registration_digest c,
        wr_build_identity = reg_build_identity c, wr_max_concurrency = reg_max_concurrency c,
        wr_resource_profile = reg_resource_profile c, wr_registered_at_utc = now,
        wr_correlation_id = reg_correlation_id c\<rparr>"
  let ?h = "\<lparr>wh_worker_id = reg_worker_id c, wh_last_seen_at_utc = now, wh_active_lease_count = 0,
        wh_correlation_id = reg_correlation_id c\<rparr>"
  have "same_registration c ?row d'"
    by (simp add: same_registration_def new(8,9) caps filter_map o_def)
  moreover have "?row \<in> set (worker_registrations d')" by (simp add: new(2))
  moreover have "count_rows (\<lambda>h. wh_worker_id h = reg_worker_id c) (worker_heartbeats d') = 1"
    using heartbeats.count_one [OF store_ok_schema [OF new(1)], of ?h] by (simp add: new(3))
  ultimately show ?thesis by (intro register_again [OF new(1)]) simp_all
qed

lemma repeat_known_registration:
  assumes "store_ok d" and "row \<in> set (worker_registrations d)" and "wr_worker_id row = reg_worker_id c"
    and "register_worker_again now c row d = Inr (Committed r, d')"
  shows "register_worker_tx c later d' =
    Inr (Committed \<lparr>rr_worker_id = reg_worker_id c, rr_status = ALREADY_REGISTERED\<rparr>,
      worker_heartbeats_update (update_rows (\<lambda>h. wh_worker_id h = reg_worker_id c)
        (\<lambda>h. h\<lparr>wh_last_seen_at_utc := later, wh_correlation_id := reg_correlation_id c\<rparr>)) d')"
proof -
  have again: "same_registration c row d"
    "count_rows (\<lambda>h. wh_worker_id h = reg_worker_id c) (worker_heartbeats d) = 1" "store_ok d'"
    "d' = worker_heartbeats_update (update_rows (\<lambda>h. wh_worker_id h = reg_worker_id c)
      (\<lambda>h. h\<lparr>wh_last_seen_at_utc := now, wh_correlation_id := reg_correlation_id c\<rparr>)) d"
    using assms(4) by (auto simp: register_worker_again_def result_bind_eq_Inr split: if_splits)
  have "count_rows (\<lambda>h. wh_worker_id h = reg_worker_id c) (update_rows p (\<lambda>h. h\<lparr>wh_last_seen_at_utc := now,
      wh_correlation_id := reg_correlation_id c\<rparr>) hs)
    = count_rows (\<lambda>h. wh_worker_id h = reg_worker_id c) hs" for p and hs :: "worker_heartbeat_row list"
    by (induction hs) simp_all
  then show ?thesis
    using again assms(2,3) by (intro register_again [OF again(3), of row]) (simp_all add: same_registration_def)
qed

text \<open>
  Registration is idempotent: a worker that registers again with the same build, capabilities,
  contracts, concurrency and profile is answered ALREADY_REGISTERED, and the only effect is that its
  heartbeat row records the time and correlation id.
\<close>

theorem registration_idempotent:
  assumes "store_ok d" and "register_worker (utc now) c d = (Inr r, d')"
  shows "register_worker (utc later) c d' =
    (Inr \<lparr>rr_worker_id = reg_worker_id c, rr_status = ALREADY_REGISTERED\<rparr>,
     worker_heartbeats_update (update_rows (\<lambda>h. wh_worker_id h = reg_worker_id c)
       (\<lambda>h. h\<lparr>wh_last_seen_at_utc := later, wh_correlation_id := reg_correlation_id c\<rparr>)) d')"
proof -
  have sd: "schema_ok d" using assms(1) by simp
  have run: "register_worker_tx c now d = Inr (Committed r, d')"
    using transaction_utc_Inr [OF assms(2) [unfolded register_worker_def]] .
  have "register_worker_tx c later d' =
    Inr (Committed \<lparr>rr_worker_id = reg_worker_id c, rr_status = ALREADY_REGISTERED\<rparr>,
      worker_heartbeats_update (update_rows (\<lambda>h. wh_worker_id h = reg_worker_id c)
        (\<lambda>h. h\<lparr>wh_last_seen_at_utc := later, wh_correlation_id := reg_correlation_id c\<rparr>)) d')"
  proof (cases "\<exists>row \<in> set (worker_registrations d). wr_worker_id row = reg_worker_id c")
    case False
    then have Absent: "wr_worker_id row \<noteq> reg_worker_id c" if "row \<in> set (worker_registrations d)" for row
      using that by blast
    then have "select_one wr_worker_id (reg_worker_id c) (worker_registrations d) = (Inr None :: engine_exn + _)"
      by (rule select_one_absent)
    then have "register_worker_new now c d = Inr (Committed r, d')"
      using run by (simp add: register_worker_tx_def)
    then show ?thesis using Absent by (rule repeat_new_registration [OF assms(1)])
  next
    case True
    then obtain row where Found: "row \<in> set (worker_registrations d)" "wr_worker_id row = reg_worker_id c" by blast
    then have "select_one wr_worker_id (reg_worker_id c) (worker_registrations d) = (Inr (Some row) :: engine_exn + _)"
      using registrations.select_iff [OF sd] by blast
    then have "register_worker_again now c row d = Inr (Committed r, d')"
      using run by (simp add: register_worker_tx_def)
    then show ?thesis by (rule repeat_known_registration [OF assms(1) Found])
  qed
  then show ?thesis by (simp add: register_worker_def transaction_utc)
qed

definition demo_worker :: worker_registration where
  "demo_worker = \<lparr>reg_worker_id = ''w2'', reg_build_identity = ''b1'', reg_capabilities = [Cap_HTTP_FETCH],
     reg_supported_output_contracts = [''page.v1''], reg_max_concurrency = 2, reg_resource_profile = ''small'',
     reg_correlation_id = ''c7''\<rparr>"

lemma demo_registration_ok:
  assumes "sha256_pattern g"
  defines "row \<equiv> \<lparr>wr_worker_id = ''w2'', wr_registration_digest = g, wr_build_identity = ''b1'',
      wr_max_concurrency = 2, wr_resource_profile = ''small'', wr_registered_at_utc = 0,
      wr_correlation_id = ''c7''\<rparr>"
    and "beat \<equiv> \<lparr>wh_worker_id = ''w2'', wh_last_seen_at_utc = 0, wh_active_lease_count = 0,
      wh_correlation_id = ''c7''\<rparr>"
  shows "store_ok (demo_start\<lparr>worker_registrations := [row]\<rparr>)"
    and "store_ok (demo_start\<lparr>worker_registrations := [row], worker_capabilities := [(''w2'', Cap_HTTP_FETCH)]\<rparr>)"
    and "store_ok (demo_start\<lparr>worker_registrations := [row], worker_capabilities := [(''w2'', Cap_HTTP_FETCH)],
      worker_output_contracts := [(''w2'', ''page.v1'')]\<rparr>)"
    and "store_ok (demo_start\<lparr>worker_registrations := [row], worker_capabilities := [(''w2'', Cap_HTTP_FETCH)],
      worker_output_contracts := [(''w2'', ''page.v1'')], worker_heartbeats := [beat]\<rparr>)"
proof -
  have "token_pattern 127 ''w2''" "token_pattern 199 ''page.v1''" by code_simp+
  note facts = this assms(1) and defs = demo_start_def demo_db_def store_ok_def columns_in_range_def schema_ok_def
      rows_checked_def run_tables_unique_def worker_tables_unique_def work_tables_unique_def
      artifact_tables_unique_def config_tables_unique_def run_references_def work_references_def
      artifact_references_def worker_registration_check_def worker_heartbeat_check_def somes_def int4_def
      row_def beat_def
  show "store_ok (demo_start\<lparr>worker_registrations := [row]\<rparr>)"
    "store_ok (demo_start\<lparr>worker_registrations := [row], worker_capabilities := [(''w2'', Cap_HTTP_FETCH)]\<rparr>)"
    "store_ok (demo_start\<lparr>worker_registrations := [row], worker_capabilities := [(''w2'', Cap_HTTP_FETCH)],
      worker_output_contracts := [(''w2'', ''page.v1'')]\<rparr>)"
    "store_ok (demo_start\<lparr>worker_registrations := [row], worker_capabilities := [(''w2'', Cap_HTTP_FETCH)],
      worker_output_contracts := [(''w2'', ''page.v1'')], worker_heartbeats := [beat]\<rparr>)"
    using facts by (simp_all add: defs)
qed

theorem registration_idempotent_witness:
  "\<exists>d' d''. register_worker (utc 0) demo_worker demo_start
       = (Inr \<lparr>rr_worker_id = ''w2'', rr_status = REGISTERED\<rparr>, d')
     \<and> register_worker (utc 6) demo_worker d'
       = (Inr \<lparr>rr_worker_id = ''w2'', rr_status = ALREADY_REGISTERED\<rparr>, d'')"
proof -
  have ok: "store_ok demo_start" using demo_start_initial by (simp add: initial_state_def)
  define g where "g = registration_digest demo_worker"
  have "sha256_pattern g" by (simp add: g_def registration_digest_def)
  note states = demo_registration_ok [OF this]
  have none: "worker_registrations demo_start = []" "worker_capabilities demo_start = []"
    "worker_output_contracts demo_start = []" "worker_heartbeats demo_start = []"
    by (simp_all add: demo_start_def)
  have worker: "reg_worker_id demo_worker = ''w2''" "reg_build_identity demo_worker = ''b1''"
    "reg_capabilities demo_worker = [Cap_HTTP_FETCH]" "reg_supported_output_contracts demo_worker = [''page.v1'']"
    "reg_max_concurrency demo_worker = 2" "reg_resource_profile demo_worker = ''small''"
    "reg_correlation_id demo_worker = ''c7''" by (simp_all add: demo_worker_def)
  have "\<exists>d'. register_worker_tx demo_worker 0 demo_start
      = Inr (Committed \<lparr>rr_worker_id = ''w2'', rr_status = REGISTERED\<rparr>, d')"
    using states
    by (simp add: register_worker_tx_def select_one_def none register_worker_new_def worker g_def [symmetric]
        result_bind_eq_Inr insert_rows_def demo_start_def demo_db_def)
  then obtain d' where r: "register_worker (utc 0) demo_worker demo_start
      = (Inr \<lparr>rr_worker_id = ''w2'', rr_status = REGISTERED\<rparr>, d')"
    by (auto simp: register_worker_def transaction_utc)
  show ?thesis using registration_idempotent [OF ok r, of 6] r worker(1) by auto
qed

lemma sort_by_set:
  fixes f :: "'a \<Rightarrow> 'b :: linorder"
  shows "set xs = set ys \<Longrightarrow> sort (map f (remdups xs)) = sort (map f (remdups ys))"
proof -
  assume "set xs = set ys"
  then have "mset (map f (remdups xs)) = mset (map f (remdups ys))"
    by (simp add: set_eq_iff_mset_remdups_eq)
  then show ?thesis by (metis sorted_list_of_multiset_mset)
qed

text \<open>
  The registration digest identifies the registration, not the order its sets are listed in:
  registrations that agree in identity, build, concurrency and profile and in the sets of
  capabilities and contracts have the same digest, and every digest has the canonical SHA-256 form.
\<close>

theorem registration_digest_canonical:
  assumes "set (reg_capabilities c) = set (reg_capabilities c')"
    and "set (reg_supported_output_contracts c) = set (reg_supported_output_contracts c')"
    and "reg_worker_id c = reg_worker_id c'" and "reg_build_identity c = reg_build_identity c'"
    and "reg_max_concurrency c = reg_max_concurrency c'" and "reg_resource_profile c = reg_resource_profile c'"
  shows "registration_digest c = registration_digest c' \<and> sha256_pattern (registration_digest c)"
  using sort_by_set [OF assms(1), of work_capability_value]
    sort_by_set [OF assms(2), of "\<lambda>x. x"] assms(3-)
  by (simp add: registration_digest_def)

theorem registration_digest_canonical_witness:
  "registration_digest (demo_worker\<lparr>reg_capabilities := [Cap_HTTP_FETCH, Cap_NORMALIZATION]\<rparr>)
   = registration_digest (demo_worker\<lparr>reg_capabilities := [Cap_NORMALIZATION, Cap_HTTP_FETCH, Cap_NORMALIZATION]\<rparr>)"
  by (rule conjunct1 [OF registration_digest_canonical]) auto

end
