(* ===== verification/Domain_Properties.thy ===== *)
theory Domain_Properties
  imports Runs Work_Retry Work_Leases Engine_Conflicts
begin

text \<open>
  Properties of the domain and of the error contract: the retry schedule, the languages of the three
  lifecycles, and which conflicts the service can report in its envelope.
\<close>

section \<open>The retry schedule\<close>

text \<open>
  C20. The decision after the \<open>n\<close>-th failure of a unit with a valid policy, for every number of
  failures the policy covers. A blocked failure blocks the unit, a permanent or contract failure and
  the last transient one send it to the dead letters, and any other transient failure is retried
  after \<open>initial * multiplier ^ (n - 1)\<close> seconds, capped by the maximum delay. The loop of the
  code computes exactly that, the delays lie between the initial and the maximum one, and they never
  fall from one failure to the next.
\<close>

theorem retry_schedule:
  assumes "valid_retry_policy p" and "1 \<le> n" and "n \<le> rp_max_attempts p"
  defines "d \<equiv> \<lambda>k. min (rp_initial_delay_seconds p * rp_multiplier p ^ nat (k - 1)) (rp_max_delay_seconds p)"
  shows "(\<forall>k. retry_decide p k n =
      Inr (if k = Failure_POLICY_BLOCKED
           then \<lparr>fd_target_state = Unit_BLOCKED_BY_POLICY,
                 fd_attempt_outcome = Outcome_BLOCKED_BY_POLICY, fd_retry_delay_seconds = None\<rparr>
           else if k = Failure_TRANSIENT \<and> n < rp_max_attempts p
           then \<lparr>fd_target_state = Unit_RETRY_WAIT, fd_attempt_outcome = Outcome_RETRY_SCHEDULED,
                 fd_retry_delay_seconds = Some (d n)\<rparr>
           else \<lparr>fd_target_state = Unit_DEAD_LETTER, fd_attempt_outcome = Outcome_DEAD_LETTERED,
                 fd_retry_delay_seconds = None\<rparr>))
    \<and> rp_initial_delay_seconds p \<le> d n \<and> d n \<le> rp_max_delay_seconds p \<and> d n \<le> d (n + 1)"
proof -
  have d: "retry_delay p k = d k" for k using retry_delay_eq [OF assms(1)] by (simp add: d_def)
  have "retry_decide p k n =
      Inr (if k = Failure_POLICY_BLOCKED
           then \<lparr>fd_target_state = Unit_BLOCKED_BY_POLICY,
                 fd_attempt_outcome = Outcome_BLOCKED_BY_POLICY, fd_retry_delay_seconds = None\<rparr>
           else if k = Failure_TRANSIENT \<and> n < rp_max_attempts p
           then \<lparr>fd_target_state = Unit_RETRY_WAIT, fd_attempt_outcome = Outcome_RETRY_SCHEDULED,
                 fd_retry_delay_seconds = Some (d n)\<rparr>
           else \<lparr>fd_target_state = Unit_DEAD_LETTER, fd_attempt_outcome = Outcome_DEAD_LETTERED,
                 fd_retry_delay_seconds = None\<rparr>)" for k
    using assms(2,3) d by (auto simp: retry_decide_def)
  then show ?thesis
    using retry_delay_bounds [OF assms(1), of n] retry_delay_mono [OF assms(1), of n "n + 1"]
    unfolding d by simp
qed

text \<open>A policy of five attempts with delays of 10, 30, 60 and 60 seconds.\<close>

definition demo_policy :: retry_policy where
  "demo_policy = \<lparr>rp_max_attempts = 5, rp_initial_delay_seconds = 10, rp_multiplier = 3,
                  rp_max_delay_seconds = 60\<rparr>"

theorem retry_schedule_witness:
  "retry_decide demo_policy Failure_TRANSIENT 2
     = Inr \<lparr>fd_target_state = Unit_RETRY_WAIT, fd_attempt_outcome = Outcome_RETRY_SCHEDULED,
            fd_retry_delay_seconds = Some 30\<rparr>
   \<and> retry_decide demo_policy Failure_CONTRACT_INVALID 2
     = Inr \<lparr>fd_target_state = Unit_DEAD_LETTER, fd_attempt_outcome = Outcome_DEAD_LETTERED,
            fd_retry_delay_seconds = None\<rparr>"
proof -
  have "valid_retry_policy demo_policy" by code_simp
  then show ?thesis using retry_schedule [of demo_policy 2] by (simp add: demo_policy_def)
qed

section \<open>The lifecycles\<close>

text \<open>
  A new work unit, collection run or stage run accepts a sequence of requested states exactly
  when every state of it is allowed by the table after the one before, and then ends in the last of
  them with the number of transitions as its revision.
\<close>

lemma lifecycle_languages:
  "(run_transitions work_unit_transition \<lparr>wul_state = Unit_PENDING, wul_revision = 0\<rparr> us = Inr u
      \<longleftrightarrow> allowed_path allowed_transitions Unit_PENDING us
        \<and> u = \<lparr>wul_state = last (Unit_PENDING # us), wul_revision = int (length us)\<rparr>)
   \<and> (run_transitions collection_run_transition \<lparr>crl_state = Run_CREATED, crl_revision = 0\<rparr> rs = Inr r
      \<longleftrightarrow> allowed_path run_transitions_table Run_CREATED rs
        \<and> r = \<lparr>crl_state = last (Run_CREATED # rs), crl_revision = int (length rs)\<rparr>)
   \<and> (run_transitions stage_run_transition \<lparr>srl_state = StageRun_PENDING, srl_revision = 0\<rparr> ss = Inr s
      \<longleftrightarrow> allowed_path stage_transitions_table StageRun_PENDING ss
        \<and> s = \<lparr>srl_state = last (StageRun_PENDING # ss), srl_revision = int (length ss)\<rparr>)"
  (is "?U \<and> ?R \<and> ?S")
proof (intro conjI)
  show ?U
    using work_unit_machine.run_accepts_iff [of "\<lparr>wul_state = Unit_PENDING, wul_revision = 0\<rparr>" us]
      work_unit_machine.run_revision [of "\<lparr>wul_state = Unit_PENDING, wul_revision = 0\<rparr>" us]
    by (cases u) fastforce
  show ?R
    using collection_run_machine.run_accepts_iff [of "\<lparr>crl_state = Run_CREATED, crl_revision = 0\<rparr>" rs]
      collection_run_machine.run_revision [of "\<lparr>crl_state = Run_CREATED, crl_revision = 0\<rparr>" rs]
    by (cases r) fastforce
  show ?S
    using stage_run_machine.run_accepts_iff [of "\<lparr>srl_state = StageRun_PENDING, srl_revision = 0\<rparr>" ss]
      stage_run_machine.run_revision [of "\<lparr>srl_state = StageRun_PENDING, srl_revision = 0\<rparr>" ss]
    by (cases s) fastforce
qed

section \<open>The error contract\<close>

lemma envelope_texts_valid:
  "length_between 1 500 (wec_message (conflict_details c))
   \<and> length_between 1 500 (wec_required_action (conflict_details c))"
  by (cases c) (simp_all add: conflict_details_def engine_conflict_def state_conflict_def
      stale_conflict_def length_between_def)

lemma envelope_code_valid:
  "(case wec_code (conflict_details c) of [] \<Rightarrow> False | x # xs \<Rightarrow> is_upper x \<and> xs \<noteq> []
      \<and> list_all (\<lambda>x. is_upper x \<or> x = CHR ''_'') xs)"
  by (cases c) (simp_all add: conflict_details_def engine_conflict_def state_conflict_def
      stale_conflict_def is_upper_def char_between_def)

lemma lower_char_upper: "is_upper x \<Longrightarrow> is_lower (lower_char x) \<and> lower_char x \<noteq> CHR ''_''"
proof -
  assume x: "is_upper x"
  then have "65 \<le> (of_char x :: nat)" "(of_char x :: nat) \<le> 90"
    by (simp_all add: is_upper_def char_between_def)
  then have "(of_char (lower_char x) :: nat) = of_char x + 32"
    using x by (simp add: lower_char_def)
  then show ?thesis
    using x by (auto simp: is_upper_def is_lower_def char_between_def dest: arg_cong [of _ _ "of_char :: _ \<Rightarrow> nat"])
qed

text \<open>The type the wrapper derives from a code is valid whenever the code is.\<close>

lemma conflict_error_type_valid:
  assumes "xs \<noteq> []" and "list_all (\<lambda>x. is_upper x \<or> x = CHR ''_'') xs"
  shows "take 11 (conflict_error_type xs) = ''collection/'' \<and> drop 11 (conflict_error_type xs) \<noteq> []
    \<and> list_all (\<lambda>c. is_lower c \<or> is_digit c \<or> c = CHR ''-'') (drop 11 (conflict_error_type xs))"
  using assms lower_char_upper
  by (auto simp: conflict_error_type_def list_all_iff lower_char_def is_upper_def)

lemma envelope_of_conflict:
  "work_engine_service_invoke correlation_id (Inl (conflict_details c)) =
     Inl (if length_between 1 100 correlation_id
          then OwnerContextError
            \<lparr>ee_type = conflict_error_type (wec_code (conflict_details c)), ee_owner = ''WorkEngine'',
             ee_code = wec_code (conflict_details c), ee_message = wec_message (conflict_details c),
             ee_context = wec_context (conflict_details c),
             ee_required_action = wec_required_action (conflict_details c),
             ee_correlation_id = correlation_id\<rparr>
          else ValidationError)"
proof -
  let ?code = "wec_code (conflict_details c)"
  obtain x xs where x: "?code = x # xs" "is_upper x" "xs \<noteq> []"
      "list_all (\<lambda>x. is_upper x \<or> x = CHR ''_'') xs"
    using envelope_code_valid [of c] by (auto split: list.splits)
  have "list_all (\<lambda>x. is_upper x \<or> is_digit x \<or> x = CHR ''_'') xs"
    using x(4) by (auto simp: list_all_iff)
  moreover have "length_between 1 100 ''WorkEngine''" by (simp add: length_between_def)
  ultimately show ?thesis
    using conflict_error_type_valid [of ?code] envelope_texts_valid [of c] x
    by (auto simp: work_engine_service_invoke_def owner_error_def valid_error_envelope_def Let_def)
qed

text \<open>
  Whatever conflict the engine raises, a command whose correlation id has at most 100
  characters reports it as an \<open>OwnerContextError\<close> that carries the code, the message, the context,
  the required action and the correlation id: every code and text of the engine satisfies the field
  constraints of the envelope.
\<close>

theorem conflicts_are_reported:
  assumes "1 \<le> length correlation_id" and "length correlation_id \<le> 100"
  shows "\<exists>e. work_engine_service_invoke correlation_id (Inl (conflict_details c) :: _ + 'a)
                = Inl (OwnerContextError e)
           \<and> valid_error_envelope e
           \<and> ee_owner e = ''WorkEngine'' \<and> ee_code e = wec_code (conflict_details c)
           \<and> ee_message e = wec_message (conflict_details c)
           \<and> ee_context e = wec_context (conflict_details c)
           \<and> ee_required_action e = wec_required_action (conflict_details c)
           \<and> ee_correlation_id e = correlation_id"
proof -
  have "length_between 1 100 correlation_id" using assms by (simp add: length_between_def)
  then show ?thesis
    using envelope_of_conflict [where 'a = 'a, of correlation_id c]
    by (auto simp: work_engine_service_invoke_def owner_error_def Let_def split: if_splits)
qed

theorem conflicts_are_reported_witness:
  "\<exists>e. work_engine_service_invoke ''sweep-1'' (Inl (conflict_details (WORK_NOT_FOUND (UUID 7))) :: _ + unit)
         = Inl (OwnerContextError e) \<and> ee_code e = ''WORK_NOT_FOUND''"
  using conflicts_are_reported [of "''sweep-1''" "WORK_NOT_FOUND (UUID 7)"]
  by (force simp: conflict_details_def engine_conflict_def)

text \<open>
  Beyond that length: a correlation id of 101 to 200 characters of the token alphabet passes the validation of
  every command, and no conflict of such a command reaches the caller: the envelope refuses the id
  and the wrapper raises the validation error of the envelope instead.
\<close>

theorem long_correlation_id_hides_conflicts:
  assumes "token_pattern 199 correlation_id" and "100 < length correlation_id"
  shows "app_require_token ''correlation_id'' correlation_id = Inr ()
    \<and> work_engine_service_invoke correlation_id (Inl (conflict_details c) :: _ + 'a) = Inl ValidationError"
  using assms envelope_of_conflict [where 'a = 'a, of correlation_id c]
  by (simp add: length_between_def)

theorem long_correlation_id_hides_conflicts_witness:
  "work_engine_service_invoke (replicate 120 CHR ''a'')
     (Inl (conflict_details (WORK_NOT_FOUND (UUID 7))) :: _ + unit) = Inl ValidationError"
proof -
  have "token_pattern 199 (replicate 120 CHR ''a'')" by code_simp
  then show ?thesis
    using long_correlation_id_hides_conflicts [of "replicate 120 CHR ''a''" "WORK_NOT_FOUND (UUID 7)"] by simp
qed

text \<open>
  The output contract of a work unit may have 200 characters, that of a lease 128: a contract in
  between is accepted when the work is enqueued and no lease can carry it.
\<close>

theorem output_contract_gap:
  assumes "token_pattern 199 contract" and "128 < length contract"
    and "wl_expected_output_contract l = contract"
  shows "app_require_token ''expected_output_contract'' contract = Inr ()
    \<and> (\<exists>e. make_work_lease l = Inl e)"
proof -
  have "\<not> token_pattern 127 contract" using assms(2) token_pattern_length by fastforce
  then have "make_work_lease l \<noteq> Inr l'" for l'
    using assms(3) by (simp add: validate_work_lease_def lease_require_token_def)
  then have "\<exists>e. make_work_lease l = Inl e" by (cases "make_work_lease l") auto
  then show ?thesis using assms(1) by simp
qed

theorem output_contract_gap_witness:
  "app_require_token ''expected_output_contract'' (replicate 150 CHR ''a'') = Inr ()
   \<and> (\<exists>e. make_work_lease
        \<lparr>wl_lease_id = UUID 1, wl_work_id = UUID 2, wl_lease_token = UUID 3, wl_worker_id = ''w'',
         wl_stage = Stage_EXPORT, wl_capability = Cap_EXPORT, wl_input_digest = replicate 64 CHR ''0'',
         wl_expected_output_contract = replicate 150 CHR ''a'', wl_issued_at_utc = utc 0,
         wl_expires_at_utc = utc 60, wl_heartbeat_deadline_utc = utc 20, wl_source_permit = None,
         wl_correlation_id = ''c'', wl_input_artifacts = []\<rparr> = Inl e)"
proof -
  have "token_pattern 199 (replicate 150 CHR ''a'')" by code_simp
  then show ?thesis using output_contract_gap [of "replicate 150 CHR ''a''"] by simp
qed

end
