(* ===== verification/Run_Status.thy ===== *)
theory Run_Status
  imports Store_Tables
begin

text \<open>
  \<^verbatim>\<open>collection_application/run_control.py\<close>: the status and the coverage report of a
  collection run with the checks of their dataclasses, the command of an operator transition, and
  the service that sends it to its port and turns a conflict into an owner error. The port is an
  argument of the service, as it is a \<open>Protocol\<close> in the code; the store that implements it is the
  theory of run control.
\<close>

section \<open>Shared checks\<close>

definition run_require_token :: "string \<Rightarrow> string \<Rightarrow> unit checked" where
  "run_require_token name v =
     guard (token_pattern 199 v) (ValueError (name @ '' has an invalid token format''))"

definition has_markup :: "string \<Rightarrow> bool" where
  "has_markup v \<longleftrightarrow> CHR ''<'' \<in> set v \<or> CHR ''>'' \<in> set v"

definition forbidden_control :: "char \<Rightarrow> bool" where
  "forbidden_control c \<longleftrightarrow> (of_char c :: nat) < 32 \<and> (of_char c :: nat) \<notin> {10, 13, 9}"

definition require_plain_text :: "string \<Rightarrow> string \<Rightarrow> nat \<Rightarrow> unit checked" where
  "require_plain_text name v maximum = checks
     [guard (1 \<le> length v \<and> length v \<le> maximum)
        (ValueError (name @ '' must contain between 1 and '' @ nat_decimal maximum @ '' characters'')),
      guard (\<not> has_markup v) (ValueError (name @ '' must not contain markup delimiters'')),
      guard (\<not> list_ex forbidden_control v)
        (ValueError (name @ '' contains a forbidden control character''))]"

section \<open>The status of a run\<close>

record work_state_count =
  wsc_state :: work_unit_state
  wsc_count :: int

definition make_work_state_count :: "work_unit_state \<Rightarrow> int \<Rightarrow> work_state_count checked" where
  "make_work_state_count state count =
     result_bind (guard (\<not> count < 0) (ValueError ''work state count cannot be negative''))
       (\<lambda>_. Inr \<lparr>wsc_state = state, wsc_count = count\<rparr>)"

record stage_run_status =
  ss_stage_run_id :: uuid
  ss_stage :: work_stage
  ss_state :: stage_run_state
  ss_revision :: int
  ss_work_counts :: "work_state_count list"

definition make_stage_run_status :: "stage_run_status \<Rightarrow> stage_run_status checked" where
  "make_stage_run_status s =
     result_bind (checks
       [guard (\<not> ss_revision s < 0) (ValueError ''stage run revision cannot be negative''),
        guard (length (map wsc_state (ss_work_counts s)) = card (set (map wsc_state (ss_work_counts s))))
          (ValueError ''stage run work counts must contain each state at most once'')])
     (\<lambda>_. Inr s)"

record collection_run_status =
  rs_run_id :: uuid
  rs_campaign_key :: string
  rs_config_bundle_digest :: string
  rs_state :: collection_run_state
  rs_revision :: int
  rs_created_at_utc :: datetime
  rs_updated_at_utc :: datetime
  rs_stages :: "stage_run_status list"

definition make_collection_run_status :: "collection_run_status \<Rightarrow> collection_run_status checked" where
  "make_collection_run_status s =
     result_bind (checks
       [guard (rs_campaign_key s \<noteq> []) (ValueError ''campaign key cannot be empty''),
        guard (sha256_pattern (rs_config_bundle_digest s))
          (ValueError ''config bundle digest must be canonical SHA-256''),
        guard (\<not> rs_revision s < 0) (ValueError ''collection run revision cannot be negative''),
        require_aware_utc ''created_at_utc'' (rs_created_at_utc s),
        require_aware_utc ''updated_at_utc'' (rs_updated_at_utc s),
        guard (\<not> instant (rs_updated_at_utc s) < instant (rs_created_at_utc s))
          (ValueError ''collection run update cannot precede creation''),
        guard (length (map ss_stage (rs_stages s)) = card (set (map ss_stage (rs_stages s))))
          (ValueError ''collection run status contains duplicate stages'')])
     (\<lambda>_. Inr s)"

section \<open>The coverage of a run\<close>

record stage_coverage =
  sg_stage :: work_stage
  sg_total :: int
  sg_pending :: int
  sg_leased :: int
  sg_retry_wait :: int
  sg_succeeded :: int
  sg_dead_letter :: int
  sg_blocked_by_policy :: int
  sg_cancelled :: int
  sg_superseded :: int

definition coverage_counts :: "stage_coverage \<Rightarrow> int list" where
  "coverage_counts c = [sg_pending c, sg_leased c, sg_retry_wait c, sg_succeeded c, sg_dead_letter c,
     sg_blocked_by_policy c, sg_cancelled c, sg_superseded c]"

definition make_stage_coverage :: "stage_coverage \<Rightarrow> stage_coverage checked" where
  "make_stage_coverage c =
     result_bind (checks
       [guard (\<not> list_ex (\<lambda>v. v < 0) (coverage_counts c))
          (ValueError ''stage coverage counts cannot be negative''),
        guard (sg_total c = sum_list (coverage_counts c))
          (ValueError ''stage coverage total must equal the sum of work states'')])
     (\<lambda>_. Inr c)"

definition stage_coverage_terminal :: "stage_coverage \<Rightarrow> int" where
  "stage_coverage_terminal c = sg_succeeded c + sg_dead_letter c + sg_blocked_by_policy c
     + sg_cancelled c + sg_superseded c"

record run_coverage_blocker =
  bl_code :: string
  bl_stage :: "work_stage option"
  bl_count :: int
  bl_message :: string
  bl_required_action :: string

definition make_run_coverage_blocker :: "run_coverage_blocker \<Rightarrow> run_coverage_blocker checked" where
  "make_run_coverage_blocker b =
     result_bind (checks
       [guard (code_pattern (bl_code b))
          (ValueError ''coverage blocker code must use canonical upper snake case''),
        guard (\<not> bl_count b < 1) (ValueError ''coverage blocker count must be positive''),
        require_plain_text ''coverage blocker message'' (bl_message b) 1000,
        require_plain_text ''coverage blocker required action'' (bl_required_action b) 1000])
     (\<lambda>_. Inr b)"

record run_coverage_report =
  cv_run_id :: uuid
  cv_state :: collection_run_state
  cv_revision :: int
  cv_stages :: "stage_coverage list"
  cv_blockers :: "run_coverage_blocker list"

definition make_run_coverage_report :: "run_coverage_report \<Rightarrow> run_coverage_report checked" where
  "make_run_coverage_report r =
     result_bind (checks
       [guard (\<not> cv_revision r < 0) (ValueError ''collection run revision cannot be negative''),
        guard (length (map sg_stage (cv_stages r)) = card (set (map sg_stage (cv_stages r))))
          (ValueError ''run coverage contains duplicate stages''),
        guard (length (cv_blockers r) = card (set (map (\<lambda>b. (bl_code b, bl_stage b)) (cv_blockers r))))
          (ValueError ''run coverage contains duplicate blockers'')])
     (\<lambda>_. Inr r)"

definition run_coverage_total :: "run_coverage_report \<Rightarrow> int" where
  "run_coverage_total r = sum_list (map sg_total (cv_stages r))"

definition run_coverage_terminal :: "run_coverage_report \<Rightarrow> int" where
  "run_coverage_terminal r = sum_list (map stage_coverage_terminal (cv_stages r))"

definition run_coverage_succeeded :: "run_coverage_report \<Rightarrow> int" where
  "run_coverage_succeeded r = sum_list (map sg_succeeded (cv_stages r))"

definition terminal_work_states :: "work_unit_state set" where
  "terminal_work_states = {Unit_SUCCEEDED, Unit_DEAD_LETTER, Unit_BLOCKED_BY_POLICY, Unit_CANCELLED,
     Unit_SUPERSEDED}"

definition is_terminal_work_state :: "work_unit_state \<Rightarrow> bool" where
  "is_terminal_work_state state \<longleftrightarrow> state \<in> terminal_work_states"

section \<open>From the status to the coverage\<close>

definition optional_blocker ::
    "work_stage option \<Rightarrow> (string \<times> string \<times> string) option \<Rightarrow> run_coverage_blocker option checked" where
  "optional_blocker stage details =
     (case details of
        None \<Rightarrow> Inr None
      | Some (code, message, required_action) \<Rightarrow>
          result_bind (make_run_coverage_blocker
            \<lparr>bl_code = code, bl_stage = stage, bl_count = 1, bl_message = message,
             bl_required_action = required_action\<rparr>) (\<lambda>b. Inr (Some b)))"

definition run_state_blocker :: "collection_run_state \<Rightarrow> run_coverage_blocker option checked" where
  "run_state_blocker state = optional_blocker None
     (case state of
        Run_CREATED \<Rightarrow> Some (''RUN_NOT_STARTED'', ''The collection run has not started.'',
          ''Start the run after validating its exact configuration snapshot.'')
      | Run_PAUSED \<Rightarrow> Some (''RUN_PAUSED'', ''The collection run is paused and cannot issue new leases.'',
          ''Resolve the operator pause reason and resume against the current revision.'')
      | Run_BLOCKED \<Rightarrow> Some (''RUN_BLOCKED'',
          ''The collection run is blocked by an unresolved owner condition.'',
          ''Resolve the recorded owner blocker before creating replacement work.'')
      | Run_CANCELLED \<Rightarrow> Some (''RUN_CANCELLED'', ''The collection run was cancelled and cannot continue.'',
          ''Create a new run from an exact validated snapshot when collection must restart.'')
      | _ \<Rightarrow> None)"

definition stage_state_blocker ::
    "work_stage \<Rightarrow> stage_run_state \<Rightarrow> run_coverage_blocker option checked" where
  "stage_state_blocker stage state = optional_blocker (Some stage)
     (case state of
        StageRun_FAILED \<Rightarrow> Some (''STAGE_FAILED'',
          ''The stage terminated with an owner-classified failure.'',
          ''Inspect the stage failure and explicitly create replacement work after resolution.'')
      | StageRun_BLOCKED \<Rightarrow> Some (''STAGE_BLOCKED'',
          ''The stage is blocked by an unresolved owner condition.'',
          ''Resolve the stage blocker before advancing the pipeline.'')
      | StageRun_CANCELLED \<Rightarrow> Some (''STAGE_CANCELLED'', ''The stage was cancelled and will not advance.'',
          ''Create a new run or explicitly reprocess the affected input when collection must ''
          @ ''continue.'')
      | _ \<Rightarrow> None)"

text \<open>\<open>dict.fromkeys(WorkUnitState, 0)\<close> and the assignments of the loop.\<close>

definition status_counts :: "work_state_count list \<Rightarrow> work_unit_state \<Rightarrow> int" where
  "status_counts items = fold (\<lambda>item counts. counts(wsc_state item := wsc_count item)) items (\<lambda>_. 0)"

definition stage_coverage_of :: "stage_run_status \<Rightarrow> stage_coverage checked" where
  "stage_coverage_of stage =
     (let counts = status_counts (ss_work_counts stage)
      in make_stage_coverage
       \<lparr>sg_stage = ss_stage stage,
        sg_total = sum_list (map counts [Unit_PENDING, Unit_LEASED, Unit_RETRY_WAIT, Unit_SUCCEEDED,
          Unit_DEAD_LETTER, Unit_BLOCKED_BY_POLICY, Unit_CANCELLED, Unit_SUPERSEDED]),
        sg_pending = counts Unit_PENDING, sg_leased = counts Unit_LEASED,
        sg_retry_wait = counts Unit_RETRY_WAIT, sg_succeeded = counts Unit_SUCCEEDED,
        sg_dead_letter = counts Unit_DEAD_LETTER, sg_blocked_by_policy = counts Unit_BLOCKED_BY_POLICY,
        sg_cancelled = counts Unit_CANCELLED, sg_superseded = counts Unit_SUPERSEDED\<rparr>)"

definition counted_blocker ::
    "string \<Rightarrow> work_stage \<Rightarrow> int \<Rightarrow> string \<Rightarrow> string \<Rightarrow> run_coverage_blocker list checked" where
  "counted_blocker code stage count message required_action =
     (if count = 0 then Inr []
      else result_bind (make_run_coverage_blocker
        \<lparr>bl_code = code, bl_stage = Some stage, bl_count = count, bl_message = message,
         bl_required_action = required_action\<rparr>) (\<lambda>b. Inr [b]))"

definition stage_blockers ::
    "stage_run_status \<Rightarrow> stage_coverage \<Rightarrow> run_coverage_blocker list checked" where
  "stage_blockers stage coverage =
     result_bind (stage_state_blocker (ss_stage stage) (ss_state stage)) (\<lambda>stage_blocker.
     result_bind (counted_blocker ''WORK_DEAD_LETTERED'' (ss_stage stage) (sg_dead_letter coverage)
        ''Work exhausted its retry budget and entered the dead-letter state.''
        ''Inspect the classified failures and explicitly reprocess or resolve them.'') (\<lambda>dead.
     result_bind (counted_blocker ''WORK_BLOCKED_BY_POLICY'' (ss_stage stage)
        (sg_blocked_by_policy coverage)
        ''Work is terminally blocked by the active collection policy.''
        (''Review the source policy and publish a valid new policy revision before ''
         @ ''creating replacement work.'')) (\<lambda>blocked.
     Inr (case_option [] (\<lambda>b. [b]) stage_blocker @ dead @ blocked))))"

fun coverage_stages ::
    "stage_run_status list \<Rightarrow> (stage_coverage list \<times> run_coverage_blocker list) checked" where
  "coverage_stages [] = Inr ([], [])"
| "coverage_stages (stage # rest) =
     result_bind (stage_coverage_of stage) (\<lambda>coverage.
     result_bind (stage_blockers stage coverage) (\<lambda>blockers.
     result_bind (coverage_stages rest) (\<lambda>(stages, more). Inr (coverage # stages, blockers @ more))))"

definition coverage_from_status :: "collection_run_status \<Rightarrow> run_coverage_report checked" where
  "coverage_from_status status =
     result_bind (run_state_blocker (rs_state status)) (\<lambda>run_blocker.
     result_bind (coverage_stages (rs_stages status)) (\<lambda>(stages, blockers).
     make_run_coverage_report
       \<lparr>cv_run_id = rs_run_id status, cv_state = rs_state status, cv_revision = rs_revision status,
        cv_stages = stages, cv_blockers = case_option [] (\<lambda>b. [b]) run_blocker @ blockers\<rparr>))"

section \<open>Operator transitions and the service\<close>

record transition_collection_run =
  tc_run_id :: uuid
  tc_expected_revision :: int
  tc_requested_state :: collection_run_state
  tc_actor_id :: string
  tc_reason :: string
  tc_correlation_id :: string

definition validate_transition_collection_run :: "transition_collection_run \<Rightarrow> unit checked" where
  "validate_transition_collection_run c = checks
     [guard (\<not> tc_expected_revision c < 0) (ValueError ''expected run revision cannot be negative''),
      run_require_token ''actor_id'' (tc_actor_id c),
      run_require_token ''correlation_id'' (tc_correlation_id c),
      guard (1 \<le> length (tc_reason c) \<and> length (tc_reason c) \<le> 1000)
        (ValueError ''run transition reason must contain between 1 and 1000 characters''),
      guard (\<not> has_markup (tc_reason c)) (ValueError ''run transition reason must be plain text'')]"

record run_control_conflict =
  rcc_code :: string
  rcc_message :: string
  rcc_context :: "(string \<times> json) list"
  rcc_required_action :: string

text \<open>What a call of the port or of the service ends in when it does not return.\<close>

datatype run_port_error = PortConflict run_control_conflict | PortError string

datatype run_service_error = RunOwnerError service_error | RunValueError value_error | RunUncaught string

definition run_service_invoke ::
    "string \<Rightarrow> ('s \<Rightarrow> (run_port_error + 'a) \<times> 's) \<Rightarrow> 's \<Rightarrow> (run_service_error + 'a) \<times> 's" where
  "run_service_invoke correlation_id operation s =
     (case run_require_token ''correlation_id'' correlation_id of
        Inl e \<Rightarrow> (Inl (RunValueError e), s)
      | Inr _ \<Rightarrow>
          (case operation s of
             (Inr r, s') \<Rightarrow> (Inr r, s')
           | (Inl (PortError e), s') \<Rightarrow> (Inl (RunUncaught e), s')
           | (Inl (PortConflict c), s') \<Rightarrow>
               (Inl (RunOwnerError (owner_error (conflict_error_type (rcc_code c)) ''RunControl'' (rcc_code c)
                  (rcc_message c) (rcc_context c) (rcc_required_action c) correlation_id)), s')))"

definition run_service_get ::
    "(uuid \<Rightarrow> 's \<Rightarrow> (run_port_error + 'a) \<times> 's) \<Rightarrow> uuid \<Rightarrow> string \<Rightarrow> 's
      \<Rightarrow> (run_service_error + 'a) \<times> 's" where
  "run_service_get port_get run_id correlation_id = run_service_invoke correlation_id (port_get run_id)"

definition run_service_coverage ::
    "(uuid \<Rightarrow> 's \<Rightarrow> (run_port_error + 'a) \<times> 's) \<Rightarrow> uuid \<Rightarrow> string \<Rightarrow> 's
      \<Rightarrow> (run_service_error + 'a) \<times> 's" where
  "run_service_coverage port_coverage run_id correlation_id =
     run_service_invoke correlation_id (port_coverage run_id)"

definition run_service_transition ::
    "(transition_collection_run \<Rightarrow> 's \<Rightarrow> (run_port_error + 'a) \<times> 's) \<Rightarrow> uuid \<Rightarrow> int
      \<Rightarrow> collection_run_state \<Rightarrow> string \<Rightarrow> string \<Rightarrow> string \<Rightarrow> 's \<Rightarrow> (run_service_error + 'a) \<times> 's" where
  "run_service_transition port run_id expected_revision requested_state actor_id reason correlation_id s =
     (let command = \<lparr>tc_run_id = run_id, tc_expected_revision = expected_revision,
                     tc_requested_state = requested_state, tc_actor_id = actor_id, tc_reason = reason,
                     tc_correlation_id = correlation_id\<rparr>
      in case validate_transition_collection_run command of
           Inl e \<Rightarrow> (Inl (RunValueError e), s)
         | Inr _ \<Rightarrow> run_service_invoke correlation_id (port command) s)"

definition run_service_pause ::
    "(transition_collection_run \<Rightarrow> 's \<Rightarrow> (run_port_error + 'a) \<times> 's) \<Rightarrow> uuid \<Rightarrow> int
      \<Rightarrow> string \<Rightarrow> string \<Rightarrow> string \<Rightarrow> 's \<Rightarrow> (run_service_error + 'a) \<times> 's" where
  "run_service_pause port run_id expected_revision =
     run_service_transition port run_id expected_revision Run_PAUSED"

definition run_service_resume ::
    "(transition_collection_run \<Rightarrow> 's \<Rightarrow> (run_port_error + 'a) \<times> 's) \<Rightarrow> uuid \<Rightarrow> int
      \<Rightarrow> string \<Rightarrow> string \<Rightarrow> string \<Rightarrow> 's \<Rightarrow> (run_service_error + 'a) \<times> 's" where
  "run_service_resume port run_id expected_revision =
     run_service_transition port run_id expected_revision Run_RUNNING"

definition run_service_cancel ::
    "(transition_collection_run \<Rightarrow> 's \<Rightarrow> (run_port_error + 'a) \<times> 's) \<Rightarrow> uuid \<Rightarrow> int
      \<Rightarrow> string \<Rightarrow> string \<Rightarrow> string \<Rightarrow> 's \<Rightarrow> (run_service_error + 'a) \<times> 's" where
  "run_service_cancel port run_id expected_revision =
     run_service_transition port run_id expected_revision Run_CANCELLED"

end
