(* ===== verification/Run_Control.thy ===== *)
theory Run_Control
  imports Run_Status
begin

text \<open>
  \<^verbatim>\<open>postgres/run_control.py\<close>: reading the status of a run from its tables and the operator
  transitions pause, resume and cancel, statement by statement, over the database of the engine.
  A transition is one transaction: whatever it raises, nothing is written. PostgreSQL returns the
  groups of the count query and the stage rows in no particular order; both are sorted by the code
  on keys that are unique in them, so the order of first occurrence stands for any of them.
\<close>

section \<open>Conflicts\<close>

datatype run_conflict =
    RUN_NOT_FOUND uuid
  | RUN_REVISION_CONFLICT uuid int "int option"
  | RUN_TRANSITION_INVALID uuid collection_run_state collection_run_state
  | RUN_RESUME_BLOCKED uuid "string list option"
  | RUN_STORAGE_FAILED uuid string

type_synonym run_exn = "run_conflict store_exn"

definition run_conflict_details :: "run_conflict \<Rightarrow> run_control_conflict" where
  "run_conflict_details c = (case c of
    RUN_NOT_FOUND run \<Rightarrow>
      \<lparr>rcc_code = ''RUN_NOT_FOUND'', rcc_message = ''The requested collection run does not exist.'',
       rcc_context = [(''runId'', JStr (uuid_str run))],
       rcc_required_action = ''Refresh run state and select an existing collection run.''\<rparr>
  | RUN_REVISION_CONFLICT run expected actual \<Rightarrow>
      \<lparr>rcc_code = ''RUN_REVISION_CONFLICT'',
       rcc_message = (case actual of
           Some _ \<Rightarrow> ''The collection run changed after the operator loaded it.''
         | None \<Rightarrow> ''The collection run changed during the operator transition.''),
       rcc_context = [(''runId'', JStr (uuid_str run)), (''expectedRevision'', JInt expected)]
         @ case_option [] (\<lambda>a. [(''actualRevision'', JInt a)]) actual,
       rcc_required_action = ''Reload the collection run and retry against its current revision.''\<rparr>
  | RUN_TRANSITION_INVALID run from to \<Rightarrow>
      \<lparr>rcc_code = ''RUN_TRANSITION_INVALID'',
       rcc_message = ''run cannot transition from '' @ collection_run_state_value from
         @ '' to '' @ collection_run_state_value to,
       rcc_context = [(''runId'', JStr (uuid_str run)),
         (''fromState'', JStr (collection_run_state_value from)),
         (''toState'', JStr (collection_run_state_value to))],
       rcc_required_action = ''Reload the run and choose a transition allowed by its current state.''\<rparr>
  | RUN_RESUME_BLOCKED run None \<Rightarrow>
      \<lparr>rcc_code = ''RUN_RESUME_BLOCKED'',
       rcc_message = ''The paused collection run has no persisted stage owners.'',
       rcc_context = [(''runId'', JStr (uuid_str run))],
       rcc_required_action = ''Repair the run stage ownership before resuming it.''\<rparr>
  | RUN_RESUME_BLOCKED run (Some blocking) \<Rightarrow>
      \<lparr>rcc_code = ''RUN_RESUME_BLOCKED'',
       rcc_message = ''The paused collection run does not have a resumable stage state.'',
       rcc_context = [(''runId'', JStr (uuid_str run)),
         (''blockingStageStates'', JList (map JStr blocking))],
       rcc_required_action = ''Resolve blocked or failed stage ownership, or complete the run instead of ''
         @ ''resuming it.''\<rparr>
  | RUN_STORAGE_FAILED run cause \<Rightarrow>
      \<lparr>rcc_code = ''RUN_STORAGE_FAILED'',
       rcc_message = ''The Run Control database operation did not complete.'',
       rcc_context = [(''runId'', JStr (uuid_str run)), (''causeType'', JStr cause)],
       rcc_required_action = ''Inspect the PostgreSQL owner state and retry the exact operation.''\<rparr>)"

section \<open>Reading a run\<close>

fun stage_order :: "work_stage \<Rightarrow> nat" where
  "stage_order Stage_DISCOVERY = 0" | "stage_order Stage_ACQUISITION = 1"
| "stage_order Stage_EXTRACTION = 2" | "stage_order Stage_NORMALIZATION = 3"
| "stage_order Stage_GEOGRAPHY = 4" | "stage_order Stage_ENTITY_RESOLUTION = 5"
| "stage_order Stage_QUALITY = 6" | "stage_order Stage_EXPORT = 7"

fun work_state_order :: "work_unit_state \<Rightarrow> nat" where
  "work_state_order Unit_PENDING = 0" | "work_state_order Unit_LEASED = 1"
| "work_state_order Unit_RETRY_WAIT = 2" | "work_state_order Unit_SUCCEEDED = 3"
| "work_state_order Unit_DEAD_LETTER = 4" | "work_state_order Unit_BLOCKED_BY_POLICY = 5"
| "work_state_order Unit_CANCELLED = 6" | "work_state_order Unit_SUPERSEDED = 7"

definition lock_run :: "uuid \<Rightarrow> db \<Rightarrow> run_exn + collection_run_row" where
  "lock_run run_id d =
     result_bind (select_one cr_run_id run_id (collection_runs d)) (\<lambda>row.
       case row of None \<Rightarrow> raise_conflict (RUN_NOT_FOUND run_id) | Some run \<Rightarrow> Inr run)"

text \<open>\<open>SELECT stage_run_id, state, count(*) ... GROUP BY stage_run_id, state\<close>\<close>

definition work_state_groups :: "uuid \<Rightarrow> db \<Rightarrow> (uuid \<times> work_unit_state \<times> int) list" where
  "work_state_groups run_id d =
     (let units = filter (\<lambda>u. wu_run_id u = run_id) (work_units d)
      in map (\<lambda>(stage_run, state). (stage_run, state,
             count_rows (\<lambda>u. wu_stage_run_id u = stage_run \<and> wu_state u = state) units))
           (remdups (map (\<lambda>u. (wu_stage_run_id u, wu_state u)) units)))"

text \<open>The dictionary \<open>counts_by_stage\<close>, as the pairs it is filled with in order.\<close>

definition counts_by_stage :: "uuid \<Rightarrow> db \<Rightarrow> run_exn + (uuid \<times> work_state_count) list" where
  "counts_by_stage run_id d =
     traverse (\<lambda>(stage_run, state, count).
       result_bind (of_checked (make_work_state_count state count)) (\<lambda>item. Inr (stage_run, item)))
     (work_state_groups run_id d)"

definition stage_status ::
    "(uuid \<times> work_state_count) list \<Rightarrow> stage_run_row \<Rightarrow> run_exn + stage_run_status" where
  "stage_status counts row = of_checked (make_stage_run_status
     \<lparr>ss_stage_run_id = sr_stage_run_id row, ss_stage = sr_stage row, ss_state = sr_state row,
      ss_revision = sr_revision row,
      ss_work_counts = sort_key (\<lambda>item. work_state_order (wsc_state item))
        (map snd (filter (\<lambda>(stage_run, _). stage_run = sr_stage_run_id row) counts))\<rparr>)"

definition load_status :: "uuid \<Rightarrow> db \<Rightarrow> run_exn + collection_run_status" where
  "load_status run_id d =
     result_bind (select_one cr_run_id run_id (collection_runs d)) (\<lambda>row.
       case row of
         None \<Rightarrow> raise_conflict (RUN_NOT_FOUND run_id)
       | Some run \<Rightarrow>
           result_bind (counts_by_stage run_id d) (\<lambda>counts.
           result_bind (traverse (stage_status counts)
             (sort_key (\<lambda>r. stage_order (sr_stage r)) (filter (\<lambda>r. sr_run_id r = run_id) (stage_runs d))))
             (\<lambda>stages. of_checked (make_collection_run_status
               \<lparr>rs_run_id = cr_run_id run, rs_campaign_key = cr_campaign_key run,
                rs_config_bundle_digest = cr_config_bundle_digest run, rs_state = cr_state run,
                rs_revision = cr_revision run, rs_created_at_utc = utc (cr_created_at_utc run),
                rs_updated_at_utc = utc (cr_updated_at_utc run), rs_stages = stages\<rparr>))))"

section \<open>Transitions\<close>

definition validate_resume :: "uuid \<Rightarrow> db \<Rightarrow> run_exn + unit" where
  "validate_resume run_id d =
     (let states = map sr_state (filter (\<lambda>r. sr_run_id r = run_id) (stage_runs d));
          blocking = sort (remdups (map stage_run_state_value (filter
            (\<lambda>s. s \<in> {StageRun_FAILED, StageRun_BLOCKED, StageRun_CANCELLED}) states)));
          resumable = list_ex (\<lambda>s. s \<in> {StageRun_PENDING, StageRun_RUNNING}) states
      in if states = [] then raise_conflict (RUN_RESUME_BLOCKED run_id None)
         else if blocking \<noteq> [] \<or> \<not> resumable
         then raise_conflict (RUN_RESUME_BLOCKED run_id (Some blocking))
         else Inr ())"

definition cancelled_work_row :: "transition_collection_run \<Rightarrow> int \<Rightarrow> work_unit_row \<Rightarrow> work_unit_row" where
  "cancelled_work_row c now u =
     u\<lparr>wu_state := Unit_CANCELLED, wu_revision := wu_revision u + 1, wu_updated_at_utc := now,
       wu_correlation_id := tc_correlation_id c\<rparr>"

definition cancelled_stage_row :: "transition_collection_run \<Rightarrow> int \<Rightarrow> stage_run_row \<Rightarrow> stage_run_row" where
  "cancelled_stage_row c now s =
     s\<lparr>sr_state := StageRun_CANCELLED, sr_revision := sr_revision s + 1, sr_updated_at_utc := now,
       sr_correlation_id := tc_correlation_id c\<rparr>"

definition cancellable_work :: "uuid \<Rightarrow> work_unit_row \<Rightarrow> bool" where
  "cancellable_work run_id u \<longleftrightarrow> wu_run_id u = run_id \<and> wu_state u \<in> {Unit_PENDING, Unit_RETRY_WAIT}"

definition active_lease_exists :: "db \<Rightarrow> stage_run_row \<Rightarrow> bool" where
  "active_lease_exists d s \<longleftrightarrow>
     list_ex (\<lambda>u. wu_stage_run_id u = sr_stage_run_id s \<and> wu_state u = Unit_LEASED) (work_units d)"

definition cancellable_stage :: "uuid \<Rightarrow> db \<Rightarrow> stage_run_row \<Rightarrow> bool" where
  "cancellable_stage run_id d s \<longleftrightarrow> sr_run_id s = run_id
     \<and> sr_state s \<in> {StageRun_PENDING, StageRun_RUNNING} \<and> \<not> active_lease_exists d s"

definition cancel_pending_work :: "transition_collection_run \<Rightarrow> int \<Rightarrow> db \<Rightarrow> run_exn + db" where
  "cancel_pending_work c now d =
     result_bind (execute (work_units_update
       (update_rows (cancellable_work (tc_run_id c)) (cancelled_work_row c now))) d) (\<lambda>d1.
     execute (stage_runs_update
       (update_rows (cancellable_stage (tc_run_id c) d1) (cancelled_stage_row c now))) d1)"

definition transitioned_run_row ::
    "transition_collection_run \<Rightarrow> collection_run_lifecycle \<Rightarrow> int \<Rightarrow> collection_run_row \<Rightarrow> collection_run_row" where
  "transitioned_run_row c next now r =
     r\<lparr>cr_state := crl_state next, cr_revision := crl_revision next, cr_updated_at_utc := now,
       cr_correlation_id := tc_correlation_id c\<rparr>"

definition transition_audit_row ::
    "uuid \<Rightarrow> transition_collection_run \<Rightarrow> collection_run_lifecycle \<Rightarrow> collection_run_lifecycle \<Rightarrow> int
      \<Rightarrow> run_transition_row" where
  "transition_audit_row transition_id c from to now =
     \<lparr>rt_transition_id = transition_id, rt_run_id = tc_run_id c, rt_from_state = crl_state from,
      rt_to_state = crl_state to, rt_from_revision = crl_revision from, rt_to_revision = crl_revision to,
      rt_actor_id = tc_actor_id c, rt_reason = tc_reason c, rt_changed_at_utc = now,
      rt_correlation_id = tc_correlation_id c\<rparr>"

definition record_transition ::
    "uuid \<Rightarrow> transition_collection_run \<Rightarrow> int \<Rightarrow> collection_run_lifecycle \<Rightarrow> collection_run_lifecycle \<Rightarrow> db
      \<Rightarrow> run_exn + (collection_run_status \<times> db)" where
  "record_transition transition_id c now from to d =
     (let current = (\<lambda>r. cr_run_id r = tc_run_id c \<and> cr_revision r = tc_expected_revision c) in
      result_bind (execute (collection_runs_update
        (update_rows current (transitioned_run_row c to now))) d) (\<lambda>d1.
      if count_rows current (collection_runs d) \<noteq> 1
      then raise_conflict (RUN_REVISION_CONFLICT (tc_run_id c) (tc_expected_revision c) None)
      else result_bind (execute (collection_run_transitions_update
             (insert_rows [transition_audit_row transition_id c from to now])) d1) (\<lambda>d2.
           result_bind (load_status (tc_run_id c) d2) (\<lambda>status. Inr (status, d2)))))"

definition transition_tx ::
    "uuid \<Rightarrow> transition_collection_run \<Rightarrow> int \<Rightarrow> db \<Rightarrow> run_exn + (collection_run_status \<times> db)" where
  "transition_tx transition_id c now d =
     result_bind (lock_run (tc_run_id c) d) (\<lambda>current.
       if cr_revision current \<noteq> tc_expected_revision c
       then raise_conflict (RUN_REVISION_CONFLICT (tc_run_id c) (tc_expected_revision c)
              (Some (cr_revision current)))
       else result_bind (of_checked (make_collection_run_lifecycle (cr_state current) (cr_revision current)))
         (\<lambda>lifecycle.
           case collection_run_transition lifecycle (tc_requested_state c) of
             Inl (InvalidRunTransition from to) \<Rightarrow>
               raise_conflict (RUN_TRANSITION_INVALID (tc_run_id c) from to)
           | Inl (RunLifecycleValueError e) \<Rightarrow> Inl (StoreValueError e)
           | Inr next \<Rightarrow>
               result_bind (if tc_requested_state c = Run_RUNNING then validate_resume (tc_run_id c) d
                            else Inr ()) (\<lambda>_.
               result_bind (if tc_requested_state c = Run_CANCELLED then cancel_pending_work c now d
                            else Inr d) (\<lambda>d1.
               record_transition transition_id c now lifecycle next d1))))"

section \<open>The repository\<close>

definition run_storage_error :: "uuid \<Rightarrow> run_exn \<Rightarrow> run_exn" where
  "run_storage_error run_id e =
     (case e of SQLAlchemyError cause \<Rightarrow> Conflict (RUN_STORAGE_FAILED run_id cause) | _ \<Rightarrow> e)"

definition run_get :: "uuid \<Rightarrow> db \<Rightarrow> run_exn + collection_run_status" where
  "run_get run_id d = map_error (run_storage_error run_id) (load_status run_id d)"

definition run_coverage :: "uuid \<Rightarrow> db \<Rightarrow> run_exn + run_coverage_report" where
  "run_coverage run_id d =
     result_bind (run_get run_id d) (\<lambda>status. of_checked (coverage_from_status status))"

definition run_now_utc :: "datetime \<Rightarrow> run_exn + int" where
  "run_now_utc clock =
     (if is_aware_utc clock then Inr (instant clock)
      else Inl (StoreValueError (ValueError ''Run Control clock must return timezone-aware UTC'')))"

definition run_transition ::
    "datetime \<Rightarrow> uuid \<Rightarrow> transition_collection_run \<Rightarrow> db \<Rightarrow> (run_exn + collection_run_status) \<times> db" where
  "run_transition clock transition_id c d =
     (case run_now_utc clock of
        Inl e \<Rightarrow> (Inl e, d)
      | Inr now \<Rightarrow>
          (case transition_tx transition_id c now d of
             Inl e \<Rightarrow> (Inl (run_storage_error (tc_run_id c) e), d)
           | Inr (status, d') \<Rightarrow> (Inr status, d')))"

end
