(* ===== verification/Run_Reports.thy ===== *)
theory Run_Reports
  imports Run_Control
begin

text \<open>
  What the reads of run control return. Over any database the schema admits, \<open>get\<close> and \<open>coverage\<close>
  of an existing run never raise, and the report counts exactly the rows of \<open>work_units\<close>.
\<close>

section \<open>Lists\<close>

lemma length_card_distinct: "length xs = card (set xs) \<longleftrightarrow> distinct xs"
  by (metis card_distinct distinct_card)

lemma sum_count_partition:
  assumes "distinct ks" and "\<And>u. u \<in> set us \<Longrightarrow> P u \<Longrightarrow> f u \<in> set ks"
  shows "(\<Sum>k \<leftarrow> ks. count_rows (\<lambda>u. f u = k \<and> P u) us) = count_rows P us"
  using assms(2)
proof (induction us)
  case (Cons u us)
  have "(\<Sum>k \<leftarrow> ks. (if f u = k \<and> P u then 1 else 0) + count_rows (\<lambda>u. f u = k \<and> P u) us)
      = (\<Sum>k \<leftarrow> ks. if f u = k \<and> P u then 1 else 0) + count_rows P us"
    using Cons by (simp add: sum_list_addf)
  moreover have "(\<Sum>k \<leftarrow> ks. if f u = k \<and> P u then 1 else 0) = (if P u then 1 else (0 :: int))"
  proof (cases "P u")
    case True
    then have "f u \<in> set ks" using Cons.prems by simp
    then show ?thesis
      using True assms(1) by (simp add: sum_list_distinct_conv_sum_set)
  qed simp
  ultimately show ?case by simp
qed simp

section \<open>The status\<close>

text \<open>The number of units of a stage in a state.\<close>

definition stage_count :: "db \<Rightarrow> uuid \<Rightarrow> work_unit_state \<Rightarrow> int" where
  "stage_count d stage_run state =
     count_rows (\<lambda>u. wu_stage_run_id u = stage_run \<and> wu_state u = state) (work_units d)"

definition run_stage_rows :: "db \<Rightarrow> uuid \<Rightarrow> stage_run_row list" where
  "run_stage_rows d run_id =
     sort_key (\<lambda>r. stage_order (sr_stage r)) (filter (\<lambda>r. sr_run_id r = run_id) (stage_runs d))"

lemma set_run_stage_rows [simp]: "set (run_stage_rows d run) = {s \<in> set (stage_runs d). sr_run_id s = run}"
  by (auto simp: run_stage_rows_def)

lemma distinct_sort_filter:
  assumes "distinct (map f xs)"
  shows "distinct (map f (sort_key g (filter P xs)))"
proof -
  have "distinct (filter P xs)" "inj_on f (set (filter P xs))"
    using assms by (auto simp: distinct_map intro: inj_on_subset)
  then show ?thesis by (simp add: distinct_map)
qed

lemma run_stages_distinct:
  assumes "schema_ok d"
  shows "distinct (map sr_stage_run_id (run_stage_rows d run))"
    and "distinct (map sr_stage (run_stage_rows d run))"
proof -
  show "distinct (map sr_stage_run_id (run_stage_rows d run))"
    unfolding run_stage_rows_def
    by (rule distinct_sort_filter) (use assms in \<open>simp add: schema_unique_defs\<close>)
  have "distinct (map (\<lambda>r. (sr_run_id r, sr_stage r)) (run_stage_rows d run))"
    unfolding run_stage_rows_def
    by (rule distinct_sort_filter) (use assms in \<open>simp add: schema_unique_defs\<close>)
  then show "distinct (map sr_stage (run_stage_rows d run))"
    by (auto simp: distinct_map inj_on_def)
qed

text \<open>A unit's stage belongs to the unit's run.\<close>

lemma unit_stage:
  assumes "schema_ok d" and "u \<in> set (work_units d)"
  obtains s where "s \<in> set (stage_runs d)" "sr_stage_run_id s = wu_stage_run_id u"
    "sr_run_id s = wu_run_id u" "sr_stage s = wu_stage u"
proof -
  have "work_references d" using assms(1) by (simp add: schema_ok_def)
  then have "(wu_stage_run_id u, wu_run_id u, wu_stage u)
      \<in> set (map (\<lambda>s. (sr_stage_run_id s, sr_run_id s, sr_stage s)) (stage_runs d))"
    using assms(2) unfolding work_references_def Let_def list_all_iff by blast
  then show thesis using that by auto
qed

lemma stage_of_run:
  assumes "schema_ok d" and "u \<in> set (work_units d)" and "s \<in> set (stage_runs d)"
    and "wu_stage_run_id u = sr_stage_run_id s"
  shows "wu_run_id u = sr_run_id s"
  using unit_stage [OF assms(1,2)] stages.key_unique [OF assms(1) _ assms(3)] assms(4) by metis

definition group_counts :: "uuid \<Rightarrow> db \<Rightarrow> (uuid \<times> work_state_count) list" where
  "group_counts run_id d = map (\<lambda>(stage_run, state, count).
     (stage_run, \<lparr>wsc_state = state, wsc_count = count\<rparr>)) (work_state_groups run_id d)"

lemma counts_by_stage_eq: "counts_by_stage run d = Inr (group_counts run d)"
  unfolding counts_by_stage_def group_counts_def
  by (rule traverse_Inr) (auto simp: work_state_groups_def Let_def make_work_state_count_def not_less)

definition stage_items :: "uuid \<Rightarrow> db \<Rightarrow> stage_run_row \<Rightarrow> work_state_count list" where
  "stage_items run_id d row = sort_key (\<lambda>item. work_state_order (wsc_state item))
     (map snd (filter (\<lambda>(stage_run, _). stage_run = sr_stage_run_id row) (group_counts run_id d)))"

lemma group_counts_distinct: "distinct (map (\<lambda>(s, i). (s, wsc_state i)) (group_counts run d))"
proof -
  have "map (\<lambda>(s, i). (s, wsc_state i)) (group_counts run d)
      = remdups (map (\<lambda>u. (wu_stage_run_id u, wu_state u)) (filter (\<lambda>u. wu_run_id u = run) (work_units d)))"
    by (simp add: group_counts_def work_state_groups_def Let_def case_prod_beta' comp_def)
  then show ?thesis by simp
qed

lemma stage_items_distinct: "distinct (map wsc_state (stage_items run d row))"
proof -
  let ?own = "filter (\<lambda>(s, _). s = sr_stage_run_id row) (group_counts run d)"
  have "inj_on (\<lambda>(s, i). (s, wsc_state i)) (set (group_counts run d))" "distinct (group_counts run d)"
    using group_counts_distinct [of run d] by (simp_all add: distinct_map)
  then have "distinct (map (\<lambda>p. wsc_state (snd p)) ?own)"
    by (auto simp: distinct_map inj_on_def)
  then have "distinct (map wsc_state (map snd ?own))" by (simp add: comp_def)
  then show ?thesis unfolding stage_items_def by (simp only: distinct_map set_sort distinct_sort)
qed

lemma stage_items_set:
  assumes "schema_ok d" and "row \<in> set (stage_runs d)"
  shows "i \<in> set (stage_items (sr_run_id row) d row) \<longleftrightarrow>
    wsc_count i = stage_count d (sr_stage_run_id row) (wsc_state i) \<and> 0 < wsc_count i"
    (is "?L \<longleftrightarrow> ?R")
proof -
  have own: "count_rows (\<lambda>u. wu_stage_run_id u = k \<and> wu_state u = s)
      (filter (\<lambda>u. wu_run_id u = sr_run_id row) (work_units d)) = stage_count d k s"
    if "sr_stage_run_id row = k" for k s
  proof -
    have "filter (\<lambda>u. wu_stage_run_id u = sr_stage_run_id row \<and> wu_state u = s)
        (filter (\<lambda>u. wu_run_id u = sr_run_id row) (work_units d))
      = filter (\<lambda>u. wu_stage_run_id u = sr_stage_run_id row \<and> wu_state u = s) (work_units d)"
      unfolding filter_filter by (rule filter_cong) (use stage_of_run [OF assms(1) _ assms(2)] in auto)
    then show ?thesis using that by (simp add: stage_count_def count_rows_def)
  qed
  have "?L \<longleftrightarrow> (\<exists>u \<in> set (work_units d). wu_run_id u = sr_run_id row
      \<and> wu_stage_run_id u = sr_stage_run_id row \<and> wu_state u = wsc_state i)
      \<and> wsc_count i = stage_count d (sr_stage_run_id row) (wsc_state i)"
    by (cases i) (auto simp: stage_items_def group_counts_def work_state_groups_def Let_def own image_iff)
  also have "\<dots> \<longleftrightarrow> ?R"
  proof -
    have "0 < stage_count d (sr_stage_run_id row) (wsc_state i) \<longleftrightarrow>
        (\<exists>u \<in> set (work_units d). wu_stage_run_id u = sr_stage_run_id row \<and> wu_state u = wsc_state i)"
      by (auto simp: stage_count_def count_rows_def filter_empty_conv)
    then show ?thesis using stage_of_run [OF assms(1) _ assms(2)] by metis
  qed
  finally show ?thesis .
qed

lemma status_counts_fold:
  "distinct (map wsc_state items) \<Longrightarrow> fold (\<lambda>item counts. counts(wsc_state item := wsc_count item)) items f s
     = (case filter (\<lambda>i. wsc_state i = s) items of [] \<Rightarrow> f s | i # _ \<Rightarrow> wsc_count i)"
proof (induction items arbitrary: f)
  case (Cons i items)
  then have "wsc_state i \<notin> wsc_state ` set items" by simp
  then have "wsc_state i = s \<Longrightarrow> filter (\<lambda>i. wsc_state i = s) items = []"
    by (auto simp: filter_empty_conv image_iff)
  then show ?case using Cons by (auto split: list.splits)
qed simp

lemma status_counts_items:
  assumes "schema_ok d" and "row \<in> set (stage_runs d)"
  shows "status_counts (stage_items (sr_run_id row) d row) s = stage_count d (sr_stage_run_id row) s"
proof (cases "filter (\<lambda>i. wsc_state i = s) (stage_items (sr_run_id row) d row)")
  case Nil
  have "stage_count d (sr_stage_run_id row) s = 0"
  proof (rule ccontr)
    assume "stage_count d (sr_stage_run_id row) s \<noteq> 0"
    then have "0 < stage_count d (sr_stage_run_id row) s"
      by (simp add: stage_count_def order_less_le)
    then have "\<lparr>wsc_state = s, wsc_count = stage_count d (sr_stage_run_id row) s\<rparr>
        \<in> set (stage_items (sr_run_id row) d row)"
      using stage_items_set [OF assms] by simp
    then show False using Nil by (auto simp: filter_empty_conv)
  qed
  then show ?thesis using Nil status_counts_fold [OF stage_items_distinct] by (simp add: status_counts_def)
next
  case (Cons i more)
  then have "i \<in> set (stage_items (sr_run_id row) d row)" "wsc_state i = s"
    using Cons_eq_filterD [OF Cons [symmetric]] by auto
  then show ?thesis
    using Cons status_counts_fold [OF stage_items_distinct] stage_items_set [OF assms, of i]
    by (simp add: status_counts_def)
qed

definition stage_status_of :: "uuid \<Rightarrow> db \<Rightarrow> stage_run_row \<Rightarrow> stage_run_status" where
  "stage_status_of run_id d row = \<lparr>ss_stage_run_id = sr_stage_run_id row, ss_stage = sr_stage row,
     ss_state = sr_state row, ss_revision = sr_revision row, ss_work_counts = stage_items run_id d row\<rparr>"

definition run_status_of :: "db \<Rightarrow> collection_run_row \<Rightarrow> collection_run_status" where
  "run_status_of d run = \<lparr>rs_run_id = cr_run_id run, rs_campaign_key = cr_campaign_key run,
     rs_config_bundle_digest = cr_config_bundle_digest run, rs_state = cr_state run,
     rs_revision = cr_revision run, rs_created_at_utc = utc (cr_created_at_utc run),
     rs_updated_at_utc = utc (cr_updated_at_utc run),
     rs_stages = map (stage_status_of (cr_run_id run) d) (run_stage_rows d (cr_run_id run))\<rparr>"

lemma run_row_checked:
  assumes "schema_ok d"
  shows "r \<in> set (collection_runs d) \<Longrightarrow> collection_run_check r"
    and "s \<in> set (stage_runs d) \<Longrightarrow> stage_run_check s"
  using assms by (simp_all add: schema_ok_def rows_checked_def list_all_iff)

lemma stage_status_eq:
  assumes "schema_ok d" and "row \<in> set (stage_runs d)"
  shows "stage_status (group_counts run d) row = Inr (stage_status_of run d row)"
proof -
  have "length (map wsc_state (stage_items run d row)) = card (set (map wsc_state (stage_items run d row)))"
    unfolding length_card_distinct by (rule stage_items_distinct)
  then show ?thesis
    using run_row_checked(2) [OF assms]
    unfolding stage_status_def stage_items_def [symmetric] stage_status_of_def
    by (simp add: make_stage_run_status_def stage_run_check_def)
qed

lemma load_status_eq:
  assumes "schema_ok d" and "run \<in> set (collection_runs d)"
  shows "load_status (cr_run_id run) d = Inr (run_status_of d run)"
proof -
  have one: "select_one cr_run_id (cr_run_id run) (collection_runs d) = (Inr (Some run) :: run_exn + _)"
    using runs.select_iff [OF assms(1)] assms(2) by blast
  have tr: "traverse (stage_status (group_counts (cr_run_id run) d)) (run_stage_rows d (cr_run_id run))
      = Inr (map (stage_status_of (cr_run_id run) d) (run_stage_rows d (cr_run_id run)))"
    by (rule traverse_Inr) (simp add: stage_status_eq [OF assms(1)])
  have chk: "collection_run_check run" by (rule run_row_checked(1) [OF assms])
  have "length (map ss_stage (rs_stages (run_status_of d run)))
      = card (set (map ss_stage (rs_stages (run_status_of d run))))"
    unfolding length_card_distinct using run_stages_distinct(2) [OF assms(1), of "cr_run_id run"]
    by (simp add: run_status_of_def stage_status_of_def comp_def)
  then have "make_collection_run_status (run_status_of d run) = Inr (run_status_of d run)"
    using chk
    by (auto simp: make_collection_run_status_def run_status_of_def collection_run_check_def key_pattern_def
        head_tail_pattern_def result_bind_eq_Inr split: list.splits)
  then show ?thesis
    using one tr by (simp add: load_status_def counts_by_stage_eq run_status_of_def flip: run_stage_rows_def)
qed

section \<open>The coverage report\<close>

lemmas blocker_defs = optional_blocker_def counted_blocker_def make_run_coverage_blocker_def
  require_plain_text_def has_markup_def forbidden_control_def code_pattern_def head_tail_pattern_def
  char_class_code

abbreviation blocker_key :: "run_coverage_blocker \<Rightarrow> string \<times> work_stage option" where
  "blocker_key b \<equiv> (bl_code b, bl_stage b)"

lemma run_state_blocker_ok:
  obtains b where "run_state_blocker s = Inr b" and "\<And>x. b = Some x \<Longrightarrow> bl_stage x = None"
proof -
  have "\<exists>b. run_state_blocker s = Inr b \<and> optional (\<lambda>x. bl_stage x = None) b"
    by (cases s) (simp_all add: run_state_blocker_def blocker_defs optional_def)
  then obtain b where "run_state_blocker s = Inr b" "optional (\<lambda>x. bl_stage x = None) b" by blast
  then show thesis using that by (cases b) (auto simp: optional_def)
qed

lemma counted_blocker_ok:
  assumes "0 \<le> n" and "code_pattern code"
    and "require_plain_text ''coverage blocker message'' message 1000 = Inr ()"
    and "require_plain_text ''coverage blocker required action'' action 1000 = Inr ()"
  shows "counted_blocker code stage n message action = Inr (if n = 0 then []
    else [\<lparr>bl_code = code, bl_stage = Some stage, bl_count = n, bl_message = message,
           bl_required_action = action\<rparr>])"
  using assms by (cases "n = 0") (simp_all add: counted_blocker_def make_run_coverage_blocker_def)

lemma stage_state_blocker_ok:
  "\<exists>b. stage_state_blocker stage s = Inr b \<and> optional (\<lambda>x. bl_stage x = Some stage
     \<and> bl_code x \<notin> {''WORK_DEAD_LETTERED'', ''WORK_BLOCKED_BY_POLICY''}) b"
  by (cases s) (simp_all add: stage_state_blocker_def blocker_defs optional_def)

lemma stage_blockers_ok:
  assumes "0 \<le> sg_dead_letter c" and "0 \<le> sg_blocked_by_policy c"
  obtains bs where "stage_blockers s c = Inr bs" and "distinct (map blocker_key bs)"
    and "\<And>b. b \<in> set bs \<Longrightarrow> bl_stage b = Some (ss_stage s)"
    and "\<And>n. (''WORK_DEAD_LETTERED'', n) \<in> set (map (\<lambda>b. (bl_code b, bl_count b)) bs) \<longleftrightarrow>
           n = sg_dead_letter c \<and> n \<noteq> 0"
    and "\<And>n. (''WORK_BLOCKED_BY_POLICY'', n) \<in> set (map (\<lambda>b. (bl_code b, bl_count b)) bs) \<longleftrightarrow>
           n = sg_blocked_by_policy c \<and> n \<noteq> 0"
proof -
  obtain sb where sb: "stage_state_blocker (ss_stage s) (ss_state s) = Inr sb"
    "optional (\<lambda>x. bl_stage x = Some (ss_stage s)
       \<and> bl_code x \<notin> {''WORK_DEAD_LETTERED'', ''WORK_BLOCKED_BY_POLICY''}) sb"
    using stage_state_blocker_ok by blast
  note dead = counted_blocker_ok [OF assms(1), of "''WORK_DEAD_LETTERED''"
      "''Work exhausted its retry budget and entered the dead-letter state.''"
      "''Inspect the classified failures and explicitly reprocess or resolve them.''" "ss_stage s"]
  note blocked = counted_blocker_ok [OF assms(2), of "''WORK_BLOCKED_BY_POLICY''"
      "''Work is terminally blocked by the active collection policy.''"
      "''Review the source policy and publish a valid new policy revision before ''
         @ ''creating replacement work.''" "ss_stage s"]
  have texts: "code_pattern ''WORK_DEAD_LETTERED''" "code_pattern ''WORK_BLOCKED_BY_POLICY''"
    "require_plain_text n ''Work exhausted its retry budget and entered the dead-letter state.'' 1000 = Inr ()"
    "require_plain_text n ''Inspect the classified failures and explicitly reprocess or resolve them.'' 1000 = Inr ()"
    "require_plain_text n ''Work is terminally blocked by the active collection policy.'' 1000 = Inr ()"
    "require_plain_text n (''Review the source policy and publish a valid new policy revision before ''
         @ ''creating replacement work.'') 1000 = Inr ()" for n
    by (simp_all add: blocker_defs)
  let ?bs = "case_option [] (\<lambda>b. [b]) sb
      @ (if sg_dead_letter c = 0 then []
         else [\<lparr>bl_code = ''WORK_DEAD_LETTERED'', bl_stage = Some (ss_stage s), bl_count = sg_dead_letter c,
           bl_message = ''Work exhausted its retry budget and entered the dead-letter state.'',
           bl_required_action = ''Inspect the classified failures and explicitly reprocess or resolve them.''\<rparr>])
      @ (if sg_blocked_by_policy c = 0 then []
         else [\<lparr>bl_code = ''WORK_BLOCKED_BY_POLICY'', bl_stage = Some (ss_stage s),
           bl_count = sg_blocked_by_policy c,
           bl_message = ''Work is terminally blocked by the active collection policy.'',
           bl_required_action = ''Review the source policy and publish a valid new policy revision before ''
             @ ''creating replacement work.''\<rparr>])"
  have "stage_blockers s c = Inr ?bs"
    unfolding stage_blockers_def dead [OF texts(1,3,4)] blocked [OF texts(2,5,6)] sb(1) by simp
  then show thesis
    by (rule that) (use sb(2) in \<open>auto simp: optional_def split: option.splits if_splits\<close>)
qed

definition coverage_of :: "db \<Rightarrow> stage_run_row \<Rightarrow> stage_coverage" where
  "coverage_of d row = (let n = stage_count d (sr_stage_run_id row) in
     \<lparr>sg_stage = sr_stage row,
      sg_total = count_rows (\<lambda>u. wu_stage_run_id u = sr_stage_run_id row) (work_units d),
      sg_pending = n Unit_PENDING, sg_leased = n Unit_LEASED, sg_retry_wait = n Unit_RETRY_WAIT,
      sg_succeeded = n Unit_SUCCEEDED, sg_dead_letter = n Unit_DEAD_LETTER,
      sg_blocked_by_policy = n Unit_BLOCKED_BY_POLICY, sg_cancelled = n Unit_CANCELLED,
      sg_superseded = n Unit_SUPERSEDED\<rparr>)"

abbreviation unit_states :: "work_unit_state list" where
  "unit_states \<equiv> [Unit_PENDING, Unit_LEASED, Unit_RETRY_WAIT, Unit_SUCCEEDED,
          Unit_DEAD_LETTER, Unit_BLOCKED_BY_POLICY, Unit_CANCELLED, Unit_SUPERSEDED]"

lemma stage_count_nonneg [simp]: "0 \<le> stage_count d k s" "\<not> stage_count d k s < 0"
  by (simp_all add: stage_count_def not_less)

lemma stage_count_sum:
  "(\<Sum>s \<leftarrow> unit_states. stage_count d k s) = count_rows (\<lambda>u. wu_stage_run_id u = k) (work_units d)"
proof -
  have "(\<Sum>s \<leftarrow> unit_states. count_rows (\<lambda>u. wu_state u = s \<and> wu_stage_run_id u = k) (work_units d))
     = count_rows (\<lambda>u. wu_stage_run_id u = k) (work_units d)"
  proof (rule sum_count_partition)
    show "wu_state u \<in> set unit_states" for u :: work_unit_row by (cases "wu_state u") auto
  qed simp
  then show ?thesis by (simp add: stage_count_def conj_commute)
qed

lemma stage_coverage_of_eq:
  assumes "schema_ok d" and "row \<in> set (stage_runs d)"
  shows "stage_coverage_of (stage_status_of (sr_run_id row) d row) = Inr (coverage_of d row)"
proof -
  let ?c = "stage_count d (sr_stage_run_id row)"
  have counts: "status_counts (ss_work_counts (stage_status_of (sr_run_id row) d row)) = ?c"
    using status_counts_items [OF assms] by (auto simp: stage_status_of_def)
  have "sum_list (map ?c unit_states)
      = count_rows (\<lambda>u. wu_stage_run_id u = sr_stage_run_id row) (work_units d)"
    by (rule stage_count_sum)
  then show ?thesis
    unfolding stage_coverage_of_def counts coverage_of_def Let_def
    by (simp add: make_stage_coverage_def coverage_counts_def stage_status_of_def)
qed

definition blockers_of :: "db \<Rightarrow> stage_run_row \<Rightarrow> run_coverage_blocker list" where
  "blockers_of d row = case_sum (\<lambda>_. []) (\<lambda>bs. bs)
     (stage_blockers (stage_status_of (sr_run_id row) d row) (coverage_of d row))"

lemma blockers_of_eq:
  "stage_blockers (stage_status_of (sr_run_id row) d row) (coverage_of d row) = Inr (blockers_of d row)"
  "distinct (map blocker_key (blockers_of d row))"
  "b \<in> set (blockers_of d row) \<Longrightarrow> bl_stage b = Some (sr_stage row)"
  "(''WORK_DEAD_LETTERED'', n) \<in> set (map (\<lambda>b. (bl_code b, bl_count b)) (blockers_of d row)) \<longleftrightarrow>
     n = stage_count d (sr_stage_run_id row) Unit_DEAD_LETTER \<and> n \<noteq> 0"
  "(''WORK_BLOCKED_BY_POLICY'', n) \<in> set (map (\<lambda>b. (bl_code b, bl_count b)) (blockers_of d row)) \<longleftrightarrow>
     n = stage_count d (sr_stage_run_id row) Unit_BLOCKED_BY_POLICY \<and> n \<noteq> 0"
proof -
  have nn: "0 \<le> sg_dead_letter (coverage_of d row)" "0 \<le> sg_blocked_by_policy (coverage_of d row)"
    by (simp_all add: coverage_of_def Let_def)
  obtain bs where bs: "stage_blockers (stage_status_of (sr_run_id row) d row) (coverage_of d row) = Inr bs"
    "distinct (map blocker_key bs)"
    "\<And>b. b \<in> set bs \<Longrightarrow> bl_stage b = Some (ss_stage (stage_status_of (sr_run_id row) d row))"
    "\<And>n. (''WORK_DEAD_LETTERED'', n) \<in> set (map (\<lambda>b. (bl_code b, bl_count b)) bs) \<longleftrightarrow>
           n = sg_dead_letter (coverage_of d row) \<and> n \<noteq> 0"
    "\<And>n. (''WORK_BLOCKED_BY_POLICY'', n) \<in> set (map (\<lambda>b. (bl_code b, bl_count b)) bs) \<longleftrightarrow>
           n = sg_blocked_by_policy (coverage_of d row) \<and> n \<noteq> 0"
    by (rule stage_blockers_ok [OF nn, of "stage_status_of (sr_run_id row) d row"]) (rule that)
  have eq: "blockers_of d row = bs" by (simp add: blockers_of_def bs(1))
  show "stage_blockers (stage_status_of (sr_run_id row) d row) (coverage_of d row) = Inr (blockers_of d row)"
    by (simp add: bs(1) eq)
  show "distinct (map blocker_key (blockers_of d row))" by (simp add: bs(2) eq)
  show "b \<in> set (blockers_of d row) \<Longrightarrow> bl_stage b = Some (sr_stage row)"
    using bs(3) by (simp add: eq stage_status_of_def)
  show "(''WORK_DEAD_LETTERED'', n) \<in> set (map (\<lambda>b. (bl_code b, bl_count b)) (blockers_of d row)) \<longleftrightarrow>
     n = stage_count d (sr_stage_run_id row) Unit_DEAD_LETTER \<and> n \<noteq> 0"
    using bs(4) [of n] by (simp add: eq coverage_of_def Let_def)
  show "(''WORK_BLOCKED_BY_POLICY'', n) \<in> set (map (\<lambda>b. (bl_code b, bl_count b)) (blockers_of d row)) \<longleftrightarrow>
     n = stage_count d (sr_stage_run_id row) Unit_BLOCKED_BY_POLICY \<and> n \<noteq> 0"
    using bs(5) [of n] by (simp add: eq coverage_of_def Let_def)
qed

lemma coverage_stages_eq:
  assumes "schema_ok d" and "\<And>r. r \<in> set rows \<Longrightarrow> r \<in> set (stage_runs d) \<and> sr_run_id r = run"
  shows "coverage_stages (map (stage_status_of run d) rows)
    = Inr (map (coverage_of d) rows, concat (map (blockers_of d) rows))"
  using assms(2)
proof (induction rows)
  case (Cons row rows)
  then have r: "row \<in> set (stage_runs d)" "sr_run_id row = run" by auto
  have "coverage_stages (map (stage_status_of run d) rows)
      = Inr (map (coverage_of d) rows, concat (map (blockers_of d) rows))" using Cons by simp
  then show ?case
    using stage_coverage_of_eq [OF assms(1) r(1)] blockers_of_eq(1) [of row d] by (simp add: r(2))
qed simp

lemma blockers_distinct:
  assumes "distinct (map sr_stage rows)"
  shows "distinct (map blocker_key (concat (map (blockers_of d) rows)))"
  using assms
proof (induction rows)
  case (Cons row rows)
  have "snd k = Some (sr_stage row)" if "k \<in> set (map blocker_key (blockers_of d row))" for k
    using that blockers_of_eq(3) by auto
  moreover have "snd k \<in> (\<lambda>r. Some (sr_stage r)) ` set rows"
    if "k \<in> set (map blocker_key (concat (map (blockers_of d) rows)))" for k
    using that blockers_of_eq(3) by fastforce
  ultimately have "set (map blocker_key (blockers_of d row))
      \<inter> set (map blocker_key (concat (map (blockers_of d) rows))) = {}"
    using Cons.prems by fastforce
  then show ?case using Cons blockers_of_eq(2) [of d row] by simp
qed simp

lemma run_coverage_eq:
  assumes "schema_ok d" and "run \<in> set (collection_runs d)"
  obtains own where "run_coverage (cr_run_id run) d = Inr
    \<lparr>cv_run_id = cr_run_id run, cv_state = cr_state run, cv_revision = cr_revision run,
     cv_stages = map (coverage_of d) (run_stage_rows d (cr_run_id run)),
     cv_blockers = own @ concat (map (blockers_of d) (run_stage_rows d (cr_run_id run)))\<rparr>"
    and "\<And>b. b \<in> set own \<Longrightarrow> bl_stage b = None"
proof -
  let ?rows = "run_stage_rows d (cr_run_id run)"
  obtain rb where rb: "run_state_blocker (cr_state run) = Inr rb" "\<And>x. rb = Some x \<Longrightarrow> bl_stage x = None"
    by (rule run_state_blocker_ok [of "cr_state run"]) (rule that)
  let ?own = "case_option [] (\<lambda>b. [b]) rb"
  let ?more = "concat (map (blockers_of d) ?rows)"
  note st = run_stages_distinct [OF assms(1), of "cr_run_id run"]
  have own: "bl_stage b = None" if "b \<in> set ?own" for b using that rb(2) by (auto split: option.splits)
  have stages: "coverage_stages (map (stage_status_of (cr_run_id run) d) ?rows)
      = Inr (map (coverage_of d) ?rows, ?more)"
    by (rule coverage_stages_eq [OF assms(1)]) simp
  have "bl_stage b \<noteq> None" if "b \<in> set ?more" for b
    using that blockers_of_eq(3) by fastforce
  then have "set (map blocker_key ?own) \<inter> set (map blocker_key ?more) = {}"
    using own by fastforce
  then have dk: "distinct (map blocker_key (?own @ ?more))"
    using blockers_distinct [OF st(2), of d] by (simp split: option.splits)
  have ds: "distinct (map sg_stage (map (coverage_of d) ?rows))"
    using st(2) by (simp add: coverage_of_def comp_def Let_def)
  have rev: "\<not> cr_revision run < 0"
    using run_row_checked(1) [OF assms] by (simp add: collection_run_check_def)
  have "run_coverage (cr_run_id run) d = Inr
    \<lparr>cv_run_id = cr_run_id run, cv_state = cr_state run, cv_revision = cr_revision run,
     cv_stages = map (coverage_of d) ?rows, cv_blockers = ?own @ ?more\<rparr>"
    using load_status_eq [OF assms] rb(1) stages rev
      dk [folded length_card_distinct] ds [folded length_card_distinct]
    by (simp add: run_coverage_def run_get_def coverage_from_status_def run_status_of_def
        make_run_coverage_report_def image_image)
  then show thesis using own by (rule that)
qed

lemma sum_over_stages:
  assumes "schema_ok d"
  shows "(\<Sum>s \<leftarrow> run_stage_rows d run. count_rows (\<lambda>u. wu_stage_run_id u = sr_stage_run_id s \<and> P u) (work_units d))
    = count_rows (\<lambda>u. wu_run_id u = run \<and> P u) (work_units d)"
proof -
  let ?ks = "map sr_stage_run_id (run_stage_rows d run)"
  have part: "(\<Sum>k \<leftarrow> ?ks. count_rows (\<lambda>u. wu_stage_run_id u = k \<and> wu_run_id u = run \<and> P u) (work_units d))
      = count_rows (\<lambda>u. wu_run_id u = run \<and> P u) (work_units d)"
  proof (rule sum_count_partition [OF run_stages_distinct(1) [OF assms]])
    fix u assume "u \<in> set (work_units d)" "wu_run_id u = run \<and> P u"
    then obtain s where "s \<in> set (stage_runs d)" "sr_stage_run_id s = wu_stage_run_id u" "sr_run_id s = run"
      using unit_stage [OF assms] by metis
    then show "wu_stage_run_id u \<in> set ?ks" by force
  qed
  have maps: "map (\<lambda>k. count_rows (\<lambda>u. wu_stage_run_id u = k \<and> wu_run_id u = run \<and> P u) (work_units d)) ?ks
      = map (\<lambda>s. count_rows (\<lambda>u. wu_stage_run_id u = sr_stage_run_id s \<and> P u) (work_units d)) (run_stage_rows d run)"
    unfolding map_map comp_def
    by (rule map_cong [OF refl], rule count_rows_cong) (use stage_of_run [OF assms] in auto)
  show ?thesis using part unfolding maps .
qed

lemma coverage_terminal_eq:
  "stage_coverage_terminal (coverage_of d s) = count_rows
    (\<lambda>u. wu_stage_run_id u = sr_stage_run_id s \<and> is_terminal_work_state (wu_state u)) (work_units d)"
proof -
  have "(\<Sum>k \<leftarrow> [Unit_SUCCEEDED, Unit_DEAD_LETTER, Unit_BLOCKED_BY_POLICY, Unit_CANCELLED, Unit_SUPERSEDED].
      count_rows (\<lambda>u. wu_state u = k \<and> wu_stage_run_id u = sr_stage_run_id s
        \<and> is_terminal_work_state (wu_state u)) (work_units d))
    = count_rows (\<lambda>u. wu_stage_run_id u = sr_stage_run_id s \<and> is_terminal_work_state (wu_state u)) (work_units d)"
    by (rule sum_count_partition) (auto simp: is_terminal_work_state_def terminal_work_states_def)
  moreover have "count_rows (\<lambda>u. wu_state u = k \<and> wu_stage_run_id u = sr_stage_run_id s
        \<and> is_terminal_work_state (wu_state u)) (work_units d) = stage_count d (sr_stage_run_id s) k"
    if "is_terminal_work_state k" for k
    unfolding stage_count_def by (rule count_rows_cong) (use that in auto)
  ultimately show ?thesis
    by (simp add: stage_coverage_terminal_def coverage_of_def Let_def is_terminal_work_state_def
        terminal_work_states_def)
qed

lemma blocker_of_stage:
  assumes "schema_ok d" and s: "s \<in> set (run_stage_rows d run)"
    and own: "\<And>b. b \<in> set own \<Longrightarrow> bl_stage b = None"
  shows "(\<exists>b \<in> set (own @ concat (map (blockers_of d) (run_stage_rows d run))). blocker_key b = (code, Some (sr_stage s))
        \<and> bl_count b = n) \<longleftrightarrow> (code, n) \<in> set (map (\<lambda>b. (bl_code b, bl_count b)) (blockers_of d s))"
    (is "?L \<longleftrightarrow> ?R")
proof
  have inj: "t = s" if "t \<in> set (run_stage_rows d run)" "sr_stage t = sr_stage s" for t
    using run_stages_distinct(2) [OF assms(1), of run] that s by (auto simp: distinct_map dest: inj_onD)
  assume ?L
  then obtain b t where b: "t \<in> set (run_stage_rows d run)" "b \<in> set (blockers_of d t)" "bl_code b = code"
      "bl_stage b = Some (sr_stage s)" "bl_count b = n" using own by fastforce
  then have "t = s" using blockers_of_eq(3) inj by fastforce
  then show ?R using b by force
next
  assume ?R
  then obtain b where "b \<in> set (blockers_of d s)" "bl_code b = code" "bl_count b = n" by auto
  then show ?L using s blockers_of_eq(3) by (intro bexI [of _ b]) auto
qed

end
