(* ===== verification/Run_Transitions.thy ===== *)
theory Run_Transitions
  imports Run_Reports Engine_Steps Unit_Evolution
begin

text \<open>
  What a successful operator transition does to the database, that it keeps the invariant of the
  engine, and the steps of the platform as a whole: engine commands and operator transitions in any
  order.
\<close>

section \<open>The effect of a transition\<close>

lemma lock_run_InrD:
  assumes "lock_run run_id d = Inr run"
  shows "run \<in> set (collection_runs d)" and "cr_run_id run = run_id"
  using assms select_one_SomeD [of cr_run_id run_id "collection_runs d" run]
  by (auto simp: lock_run_def result_bind_eq_Inr split: option.splits)

definition next_lifecycle :: "transition_collection_run \<Rightarrow> collection_run_row \<Rightarrow> collection_run_lifecycle" where
  "next_lifecycle c run = \<lparr>crl_state = tc_requested_state c, crl_revision = cr_revision run + 1\<rparr>"

definition current_lifecycle :: "collection_run_row \<Rightarrow> collection_run_lifecycle" where
  "current_lifecycle run = \<lparr>crl_state = cr_state run, crl_revision = cr_revision run\<rparr>"

text \<open>The database between the cancellation of the work and the update of the run.\<close>

definition withdrawn :: "transition_collection_run \<Rightarrow> int \<Rightarrow> db \<Rightarrow> db" where
  "withdrawn c now d =
     (if tc_requested_state c = Run_CANCELLED
      then (let d1 = work_units_update (update_rows (cancellable_work (tc_run_id c)) (cancelled_work_row c now)) d
            in stage_runs_update (update_rows (cancellable_stage (tc_run_id c) d1) (cancelled_stage_row c now)) d1)
      else d)"

definition transitioned ::
    "uuid \<Rightarrow> transition_collection_run \<Rightarrow> int \<Rightarrow> collection_run_row \<Rightarrow> db \<Rightarrow> db" where
  "transitioned transition_id c now run d = (withdrawn c now d)
     \<lparr>collection_runs := update_rows (\<lambda>r. r = run) (transitioned_run_row c (next_lifecycle c run) now)
        (collection_runs d),
      collection_run_transitions := collection_run_transitions d
        @ [transition_audit_row transition_id c (current_lifecycle run) (next_lifecycle c run) now]\<rparr>"

lemma withdrawn_frame [simp]:
  "collection_runs (withdrawn c now d) = collection_runs d"
  "collection_run_transitions (withdrawn c now d) = collection_run_transitions d"
  "work_attempts (withdrawn c now d) = work_attempts d"
  "worker_heartbeats (withdrawn c now d) = worker_heartbeats d"
  "worker_registrations (withdrawn c now d) = worker_registrations d"
  "source_capacity_states (withdrawn c now d) = source_capacity_states d"
  "dead_letters (withdrawn c now d) = dead_letters d"
  "work_output_artifacts (withdrawn c now d) = work_output_artifacts d"
  "artifact_records (withdrawn c now d) = artifact_records d"
  by (simp_all add: withdrawn_def Let_def)

lemma withdraw_step:
  assumes "(if tc_requested_state c = Run_CANCELLED then cancel_pending_work c now d else Inr d) = Inr d1"
    and "store_ok d"
  shows "d1 = withdrawn c now d" and "store_ok d1"
  using assms by (auto simp: withdrawn_def cancel_pending_work_def result_bind_eq_Inr Let_def split: if_splits)

lemma transition_tx_InrE:
  assumes "transition_tx transition_id c now d = Inr (status, d')" and "store_ok d"
  obtains run where "run \<in> set (collection_runs d)" "cr_run_id run = tc_run_id c"
    "cr_revision run = tc_expected_revision c"
    "tc_requested_state c \<in> run_transitions_table (cr_state run)"
    "tc_requested_state c = Run_RUNNING \<Longrightarrow> validate_resume (tc_run_id c) d = Inr ()"
    "d' = transitioned transition_id c now run d" "store_ok d'"
    "status = run_status_of d' (transitioned_run_row c (next_lifecycle c run) now run)"
proof -
  from assms(1) obtain run where lock: "lock_run (tc_run_id c) d = Inr run"
    and rev: "cr_revision run = tc_expected_revision c"
    by (auto simp: transition_tx_def result_bind_eq_Inr split: if_splits)
  then obtain lifecycle where cur: "make_collection_run_lifecycle (cr_state run) (cr_revision run) = Inr lifecycle"
    using assms(1) by (auto simp: transition_tx_def result_bind_eq_Inr)
  then obtain nxt where nxt: "collection_run_transition lifecycle (tc_requested_state c) = Inr nxt"
    using assms(1) lock rev
    by (cases "collection_run_transition lifecycle (tc_requested_state c)")
      (auto simp: transition_tx_def split: run_lifecycle_error.splits)
  have "result_bind (if tc_requested_state c = Run_RUNNING then validate_resume (tc_run_id c) d else Inr ()) (\<lambda>_.
      result_bind (if tc_requested_state c = Run_CANCELLED then cancel_pending_work c now d else Inr d) (\<lambda>d1.
      record_transition transition_id c now lifecycle nxt d1)) = Inr (status, d')"
    using assms(1) lock rev cur nxt by (simp add: transition_tx_def)
  then obtain d1 where
    resume: "(if tc_requested_state c = Run_RUNNING then validate_resume (tc_run_id c) d else Inr ()) = Inr ()"
    and wd: "(if tc_requested_state c = Run_CANCELLED then cancel_pending_work c now d else Inr d) = Inr d1"
    and rt: "record_transition transition_id c now lifecycle nxt d1 = Inr (status, d')"
    by (elim result_bind_InrE) auto
  note run = lock_run_InrD [OF lock]
  have life: "lifecycle = current_lifecycle run" "0 \<le> crl_revision lifecycle"
    using cur by (auto simp: make_collection_run_lifecycle_def current_lifecycle_def result_bind_eq_Inr)
  note tr = collection_run_machine.transition_InrD [OF life(2) nxt]
  have nx: "nxt = next_lifecycle c run"
    using tr life(1) by (cases nxt) (simp add: next_lifecycle_def current_lifecycle_def)
  have d1: "d1 = withdrawn c now d" "store_ok d1" using withdraw_step [OF wd assms(2)] by auto
  have upd: "update_rows (\<lambda>r. cr_run_id r = tc_run_id c \<and> cr_revision r = tc_expected_revision c) f (collection_runs d)
      = update_rows (\<lambda>r. r = run) f (collection_runs d)" for f
    by (rule update_rows_cong)
      (use runs.key_unique [OF store_ok_schema [OF assms(2)] _ run(1)] run(2) rev in auto)
  from rt obtain d2 where d': "d' = collection_run_transitions_update
        (insert_rows [transition_audit_row transition_id c lifecycle nxt now]) d2"
      "d2 = collection_runs_update (update_rows (\<lambda>r. cr_run_id r = tc_run_id c
          \<and> cr_revision r = tc_expected_revision c) (transitioned_run_row c nxt now)) d1"
      "store_ok d'" "load_status (tc_run_id c) d' = Inr status"
    by (auto simp: record_transition_def Let_def result_bind_eq_Inr split: if_splits)
  have final: "d' = transitioned transition_id c now run d"
    unfolding d'(1,2) transitioned_def
    by (rule db.equality) (simp_all add: upd insert_rows_def nx life(1) d1(1))
  have "transitioned_run_row c nxt now run \<in> set (collection_runs d')"
    using run(1) by (auto simp: final transitioned_def nx in_set_update_rows)
  moreover have "cr_run_id (transitioned_run_row c nxt now run) = tc_run_id c"
    by (simp add: transitioned_run_row_def run(2))
  ultimately have "status = run_status_of d' (transitioned_run_row c nxt now run)"
    using load_status_eq [OF store_ok_schema [OF d'(3)]] d'(4) by fastforce
  then have st: "status = run_status_of d' (transitioned_run_row c (next_lifecycle c run) now run)"
    by (simp add: nx)
  have allowed: "tc_requested_state c \<in> run_transitions_table (cr_state run)"
    using tr(1) life(1) by (simp add: current_lifecycle_def)
  have "validate_resume (tc_run_id c) d = Inr ()" if "tc_requested_state c = Run_RUNNING"
    using resume that by simp
  then show thesis by (rule that [OF run rev allowed _ final d'(3) st])
qed

section \<open>The invariant\<close>

lemma count_update_rows:
  "(\<And>r. r \<in> set rs \<Longrightarrow> p r \<Longrightarrow> P (f r) = P r) \<Longrightarrow> count_rows P (update_rows p f rs) = count_rows P rs"
  by (induction rs) auto

lemma withdrawn_units:
  "work_units (withdrawn c now d) = (if tc_requested_state c = Run_CANCELLED
     then update_rows (cancellable_work (tc_run_id c)) (cancelled_work_row c now) (work_units d) else work_units d)"
  by (simp add: withdrawn_def Let_def)

lemma cancelled_row_simps [simp]:
  "wu_work_id (cancelled_work_row c now u) = wu_work_id u"
  "wu_run_id (cancelled_work_row c now u) = wu_run_id u"
  "wu_stage_run_id (cancelled_work_row c now u) = wu_stage_run_id u"
  "wu_state (cancelled_work_row c now u) = Unit_CANCELLED"
  "wu_attempt_count (cancelled_work_row c now u) = wu_attempt_count u"
  "wu_input_digest (cancelled_work_row c now u) = wu_input_digest u"
  "wu_revision (cancelled_work_row c now u) = wu_revision u + 1"
  by (simp_all add: cancelled_work_row_def)

lemma cancellableD:
  "cancellable_work run u \<Longrightarrow> wu_state u = Unit_PENDING \<or> wu_state u = Unit_RETRY_WAIT"
  "cancellable_work run u \<Longrightarrow> \<not> leased u"
  by (auto simp: cancellable_work_def)

lemma withdrawn_unitE:
  assumes "u' \<in> set (work_units (withdrawn c now d))"
  obtains (Same) "u' \<in> set (work_units d)" "tc_requested_state c = Run_CANCELLED \<Longrightarrow> \<not> cancellable_work (tc_run_id c) u'"
    | (Cancelled) u where "u \<in> set (work_units d)" "tc_requested_state c = Run_CANCELLED"
        "cancellable_work (tc_run_id c) u" "u' = cancelled_work_row c now u"
  using assms by (auto simp: withdrawn_units in_set_update_rows split: if_splits)

lemma withdrawn_leased:
  "leased u \<Longrightarrow> u \<in> set (work_units (withdrawn c now d)) \<longleftrightarrow> u \<in> set (work_units d)"
proof
  show "u \<in> set (work_units d)" if "leased u" "u \<in> set (work_units (withdrawn c now d))"
    using that(2,1) by (cases rule: withdrawn_unitE) auto
  show "u \<in> set (work_units (withdrawn c now d))" if "leased u" "u \<in> set (work_units d)"
    using that cancellableD(2) [of "tc_run_id c" u]
    by (auto simp: withdrawn_units in_set_update_rows intro!: bexI [of _ u])
qed

lemma withdrawn_loads [simp]:
  "worker_load (withdrawn c now d) w = worker_load d w" "source_load (withdrawn c now d) k = source_load d k"
  unfolding worker_load_def source_load_def withdrawn_units
  by (auto intro!: count_update_rows dest: cancellableD(2))

lemma withdrawn_inv:
  assumes "engine_inv d" and "store_ok d'" and u: "work_units d' = work_units (withdrawn c now d)"
    and t: "work_attempts d' = work_attempts d" "worker_heartbeats d' = worker_heartbeats d"
      "worker_registrations d' = worker_registrations d" "source_capacity_states d' = source_capacity_states d"
      "dead_letters d' = dead_letters d"
  shows "engine_inv d'"
proof -
  have load: "worker_load d' w = worker_load d w" "source_load d' k = source_load d k" for w k
    using withdrawn_loads [of c now d] by (simp_all add: worker_load_def source_load_def u)
  have "lease_inv d'"
    using assms(1) withdrawn_leased [of _ c now d] unfolding engine_inv_def lease_inv_def u t by blast
  moreover have "attempt_inv d'"
    using assms(1) unfolding engine_inv_def attempt_inv_def u t
    by (auto elim!: withdrawn_unitE)
  moreover have "worker_inv d'" "source_inv d'"
    using assms(1) unfolding engine_inv_def worker_inv_def source_inv_def load t by blast+
  moreover have "budget_inv d'"
    using assms(1) unfolding engine_inv_def budget_inv_def u by (auto elim!: withdrawn_unitE)
  moreover have "wu_state x = Unit_DEAD_LETTER \<longleftrightarrow> wu_work_id x \<in> set (map dl_work_id (dead_letters d))"
    if "x \<in> set (work_units (withdrawn c now d))" for x
    using that
  proof (cases rule: withdrawn_unitE)
    case (Cancelled v)
    then have "wu_state v \<noteq> Unit_DEAD_LETTER" using cancellableD(1) [OF Cancelled(3)] by auto
    then show ?thesis using assms(1) Cancelled by (simp add: engine_inv_def letter_inv_def)
  qed (use assms(1) in \<open>simp add: engine_inv_def letter_inv_def\<close>)
  then have "letter_inv d'" unfolding letter_inv_def u t by blast
  ultimately show ?thesis using assms(2) by (simp add: engine_inv_def)
qed

lemma transitioned_frame [simp]:
  "work_units (transitioned i c now run d) = work_units (withdrawn c now d)"
  "work_attempts (transitioned i c now run d) = work_attempts d"
  "worker_heartbeats (transitioned i c now run d) = worker_heartbeats d"
  "worker_registrations (transitioned i c now run d) = worker_registrations d"
  "source_capacity_states (transitioned i c now run d) = source_capacity_states d"
  "dead_letters (transitioned i c now run d) = dead_letters d"
  "stage_runs (transitioned i c now run d) = stage_runs (withdrawn c now d)"
  "work_output_artifacts (transitioned i c now run d) = work_output_artifacts d"
  "artifact_records (transitioned i c now run d) = artifact_records d"
  by (simp_all add: transitioned_def)

lemma transition_tx_inv:
  "transition_tx i c now d = Inr (status, d') \<Longrightarrow> engine_inv d \<Longrightarrow> engine_inv d'"
  by (erule transition_tx_InrE) (auto intro: withdrawn_inv)

lemma run_transition_cases:
  obtains (Raised) e where "run_transition clock i c d = (Inl e, d)"
    | (Applied) now status d' where "clock = utc now" "transition_tx i c now d = Inr (status, d')"
        "run_transition clock i c d = (Inr status, d')"
proof (cases "is_aware_utc clock")
  case True
  then have "clock = utc (instant clock)" by (simp add: aware_utc_iff)
  then show thesis
    using True Raised Applied [of "instant clock"]
    by (cases "transition_tx i c (instant clock) d") (auto simp: run_transition_def run_now_utc_def)
qed (use Raised in \<open>simp add: run_transition_def run_now_utc_def\<close>)

lemma run_transition_utc_Inr:
  "run_transition (utc now) i c d = (Inr status, d') \<Longrightarrow> transition_tx i c now d = Inr (status, d')"
  by (cases rule: run_transition_cases [of "utc now" i c d]) (auto simp: utc_def)

end
