(* ===== verification/Platform_Steps.thy ===== *)
theory Platform_Steps
  imports Run_Transitions Engine_Frames
begin

text \<open>
  The platform as a whole: engine commands and operator transitions interleaved in any order over one
  database. The invariant of the engine holds throughout, units keep their history, and a run that
  was cancelled stays cancelled.
\<close>

section \<open>Run rows under engine commands\<close>

lemma complete_tx_runs:
  assumes "complete_tx uuids c now d = Inr (outcome, d')" and "engine_inv d"
  shows "collection_runs d' = collection_runs d"
  using assms(1)
proof (cases rule: complete_tx_cases)
  case (Active u a)
  obtain d1 d2 d3 where c: "consume_output_artifacts uuids u a c now d = Inr d1"
    and steps: "update_attempt (wa_attempt_id a) (completed_attempt_row c now) d1 = Inr d2"
    "update_unit (wu_work_id u) (completed_work_row c now) d2 = Inr d3"
    "release_reservations u now (wc_correlation_id c) d3 = Inr d'"
    by (rule complete_active_InrD [OF Active(12,3)])
  have "collection_runs d1 = collection_runs d"
    using consume_output_artifacts_step [OF c] assms(2) artifact_stepD(7) by auto
  then show ?thesis
    using run_tables.end_steps_kept(1) [OF steps(1)] run_tables.end_steps_kept(2) [OF steps(2)]
      run_tables.release_reservations_kept [OF steps(3)] by simp
qed (use complete_again_same run_tables.expire_locked_kept in \<open>fastforce+\<close>)

lemma admin_tx_runs:
  "register_worker_tx c1 now d = Inr (x1, d') \<Longrightarrow> collection_runs d' = collection_runs d"
  "configure_source_tx c2 now d = Inr (x2, d') \<Longrightarrow> collection_runs d' = collection_runs d"
  "create_stage_tx c4 now d = Inr (x4, d') \<Longrightarrow> collection_runs d' = collection_runs d"
  "enqueue_work_tx c5 now d = Inr (x5, d') \<Longrightarrow> collection_runs d' = collection_runs d"
  by (auto simp: register_worker_tx_def register_worker_again_def register_worker_new_def
      configure_source_tx_def create_stage_tx_def enqueue_work_tx_def
      Let_def result_bind_eq_Inr split: option.splits if_splits list.splits)

text \<open>A run row, once written, is changed by operator transitions only.\<close>

definition runs_kept :: "db \<Rightarrow> db \<Rightarrow> bool" where
  "runs_kept d d' \<longleftrightarrow> set (collection_runs d) \<subseteq> set (collection_runs d')"

lemma runs_kept_eq [simp]: "collection_runs d' = collection_runs d \<Longrightarrow> runs_kept d d'"
  by (simp add: runs_kept_def)

lemma create_run_tx_kept: "create_run_tx c now d = Inr (x, d') \<Longrightarrow> runs_kept d d'"
  by (auto simp: create_run_tx_def runs_kept_def Let_def result_bind_eq_Inr split: option.splits if_splits)

lemma lease_tx_runs:
  "acquire_lease_tx locked uuids c1 now d = Inr (x1, d') \<Longrightarrow> runs_kept d d'"
  "heartbeat_tx c2 now d = Inr (x2, d') \<Longrightarrow> runs_kept d d'"
  "fail_tx c3 now d = Inr (x3, d') \<Longrightarrow> runs_kept d d'"
  "release_tx c4 now d = Inr (x4, d') \<Longrightarrow> runs_kept d d'"
  "expire_leases_tx locked c5 now d = Inr (x5, d') \<Longrightarrow> runs_kept d d'"
  using run_tables.acquire_tx_kept run_tables.heartbeat_tx_kept run_tables.fail_tx_kept
    run_tables.release_tx_kept run_tables.expire_leases_kept by (fastforce intro: runs_kept_eq)+

lemma transaction_runs_kept:
  "(\<And>now r d'. operation now d = Inr (r, d') \<Longrightarrow> runs_kept d d') \<Longrightarrow>
   runs_kept d (snd (transaction clock operation d))"
  using transaction_snd [of clock operation d] by (metis runs_kept_eq)

lemma engine_step_runs_kept:
  assumes "engine_step d d'" and "engine_inv d"
  shows "runs_kept d d'"
  using assms(1)
  by cases (simp_all only: engine_command_defs,
      (rule transaction_runs_kept, (erule create_run_tx_kept | erule lease_tx_runs
        | (rule runs_kept_eq, (erule admin_tx_runs | erule complete_tx_runs [OF _ assms(2)]))))+)

section \<open>Platform steps\<close>

inductive platform_step :: "db \<Rightarrow> db \<Rightarrow> bool" where
  engine_command: "engine_step d d' \<Longrightarrow> platform_step d d'"
| operator_transition: "platform_step d (snd (run_transition clock transition_id c d))"

inductive_cases platform_stepE: "platform_step d d'"

inductive platform_reachable :: "db \<Rightarrow> db \<Rightarrow> bool" for d0 where
  platform_refl: "platform_reachable d0 d0"
| platform_next: "platform_reachable d0 d \<Longrightarrow> platform_step d d' \<Longrightarrow> platform_reachable d0 d'"

lemma run_transition_snd:
  "snd (run_transition clock i c d) = d \<or>
   (\<exists>now status. transition_tx i c now d = Inr (status, snd (run_transition clock i c d)))"
  by (cases rule: run_transition_cases [of clock i c d]) auto

lemma platform_step_inv: "platform_step d d' \<Longrightarrow> engine_inv d \<Longrightarrow> engine_inv d'"
  by (erule platform_stepE) (use engine_step_inv transition_tx_inv run_transition_snd in metis)+

lemma evolves_cancelled: "cancellable_work run u \<Longrightarrow> unit_evolves platform_moves u (cancelled_work_row c now u)"
proof -
  assume "cancellable_work run u"
  then have "wu_state u = Unit_PENDING \<or> wu_state u = Unit_RETRY_WAIT" by (rule cancellableD)
  then show ?thesis
    by (intro one_move) (auto simp: platform_moves_def unit_identity_def cancelled_work_row_def)
qed

lemma engine_step_platform: "engine_step d d' \<Longrightarrow> engine_inv d \<Longrightarrow> units_evolve platform_moves d d'"
  by (rule units_evolve_mono [OF engine_step_evolves]) (auto simp: platform_moves_def)

lemma withdrawn_evolves: "units_evolve platform_moves d (withdrawn c now d)"
proof (cases "tc_requested_state c = Run_CANCELLED")
  case True
  then show ?thesis by (intro units_evolve_rows [OF _ evolves_cancelled]) (simp add: withdrawn_units)
qed (simp add: withdrawn_def)

lemma transition_tx_evolves:
  assumes "transition_tx i c now d = Inr (status, d')" and "engine_inv d"
  shows "units_evolve platform_moves d d'"
proof -
  obtain run where "d' = transitioned i c now run d"
    using transition_tx_InrE [OF assms(1)] assms(2) by (metis engine_inv_store)
  then show ?thesis using withdrawn_evolves [of d c now] by (simp add: units_evolve_def)
qed

lemma platform_step_evolves: "platform_step d d' \<Longrightarrow> engine_inv d \<Longrightarrow> units_evolve platform_moves d d'"
  by (erule platform_stepE)
    (use engine_step_platform transition_tx_evolves run_transition_snd units_evolve_refl in metis)+

lemma platform_reachable_inv: "platform_reachable d0 d \<Longrightarrow> engine_inv d0 \<Longrightarrow> engine_inv d"
  by (induction rule: platform_reachable.induct) (auto intro: platform_step_inv)

lemma platform_reachable_evolves: "platform_reachable d0 d \<Longrightarrow> engine_inv d0 \<Longrightarrow> units_evolve platform_moves d0 d"
proof (induction rule: platform_reachable.induct)
  case (platform_next d d')
  then show ?case using platform_step_evolves platform_reachable_inv units_evolve_trans by blast
qed simp

section \<open>Ended runs\<close>

text \<open>A row whose state no transition leaves.\<close>

definition run_ended :: "collection_run_row \<Rightarrow> bool" where
  "run_ended r \<longleftrightarrow> run_transitions_table (cr_state r) = {}"

lemma transitioned_keeps_ended:
  assumes "store_ok d" and "transition_tx i c now d = Inr (status, d')"
    and "r \<in> set (collection_runs d)" and "run_ended r"
  shows "r \<in> set (collection_runs d')"
proof -
  obtain run where run: "tc_requested_state c \<in> run_transitions_table (cr_state run)"
      "d' = transitioned i c now run d"
    using transition_tx_InrE [OF assms(2,1)] by metis
  then have "r \<noteq> run" using assms(4) by (auto simp: run_ended_def)
  then show ?thesis using assms(3) by (auto simp: run(2) transitioned_def in_set_update_rows)
qed

lemma ended_run_stays:
  assumes "platform_reachable d0 d" and "engine_inv d0" and "r \<in> set (collection_runs d0)" and "run_ended r"
  shows "r \<in> set (collection_runs d)"
  using assms(1)
proof induction
  case (platform_next d d')
  have inv: "engine_inv d" by (rule platform_reachable_inv [OF platform_next.hyps(1) assms(2)])
  from platform_next.hyps(2) show ?case
  proof cases
    case engine_command
    then show ?thesis using engine_step_runs_kept [OF engine_command inv] platform_next.IH by (auto simp: runs_kept_def)
  next
    case (operator_transition clock i c)
    then show ?thesis
      using run_transition_snd [of clock i c d] transitioned_keeps_ended [OF _ _ platform_next.IH assms(4)]
        inv platform_next.IH
      by (metis engine_inv_store)
  qed
qed (rule assms(3))

end
