(* ===== verification/Run_Properties.thy ===== *)
theory Run_Properties
  imports Platform_Steps Engine_Behaviour
begin

text \<open>
  The properties of run control: what a transition writes, what a cancellation withdraws, optimistic
  concurrency of operators, the truth of the coverage report, and how operator transitions and engine
  commands live together on one database.
\<close>

section \<open>Transitions\<close>

text \<open>
  C25: a transition that succeeds was requested against the current revision of an existing run and
  is allowed by the table; it moves that run and no other, counts its revision up, appends one audit
  row that records who moved it from where to where and why, and returns the status of the database
  it leaves. A pause or a resume changes nothing else.
\<close>

theorem run_transition_recorded:
  assumes "store_ok d" and "run_transition (utc now) i c d = (Inr status, d')"
  shows "\<exists>run \<in> set (collection_runs d). cr_run_id run = tc_run_id c
    \<and> cr_revision run = tc_expected_revision c
    \<and> tc_requested_state c \<in> run_transitions_table (cr_state run)
    \<and> collection_runs d' = update_rows (\<lambda>r. r = run) (\<lambda>r. r\<lparr>cr_state := tc_requested_state c,
         cr_revision := cr_revision run + 1, cr_updated_at_utc := now,
         cr_correlation_id := tc_correlation_id c\<rparr>) (collection_runs d)
    \<and> collection_run_transitions d' = collection_run_transitions d @
        [\<lparr>rt_transition_id = i, rt_run_id = tc_run_id c, rt_from_state = cr_state run,
          rt_to_state = tc_requested_state c, rt_from_revision = cr_revision run,
          rt_to_revision = cr_revision run + 1, rt_actor_id = tc_actor_id c, rt_reason = tc_reason c,
          rt_changed_at_utc = now, rt_correlation_id = tc_correlation_id c\<rparr>]
    \<and> rs_state status = tc_requested_state c \<and> rs_revision status = cr_revision run + 1
    \<and> run_get (tc_run_id c) d' = Inr status
    \<and> (tc_requested_state c = Run_CANCELLED
       \<or> d' = d\<lparr>collection_runs := collection_runs d',
                collection_run_transitions := collection_run_transitions d'\<rparr>)"
proof -
  obtain run where run: "run \<in> set (collection_runs d)" "cr_run_id run = tc_run_id c"
    "cr_revision run = tc_expected_revision c"
    "tc_requested_state c \<in> run_transitions_table (cr_state run)"
    "d' = transitioned i c now run d" "store_ok d'"
    "status = run_status_of d' (transitioned_run_row c (next_lifecycle c run) now run)"
    using transition_tx_InrE [OF run_transition_utc_Inr [OF assms(2)] assms(1)] by metis
  let ?row = "transitioned_run_row c (next_lifecycle c run) now run"
  have "?row \<in> set (collection_runs d')" "cr_run_id ?row = tc_run_id c"
    using run(1,2) by (auto simp: run(5) transitioned_def transitioned_run_row_def in_set_update_rows)
  then have "load_status (tc_run_id c) d' = Inr status"
    using load_status_eq [OF store_ok_schema [OF run(6)], of ?row] run(7) by simp
  then have get: "run_get (tc_run_id c) d' = Inr status" by (simp add: run_get_def)
  show ?thesis
    using run get
    by (intro bexI [OF _ run(1)])
      (simp add: transitioned_def transitioned_run_row_def [abs_def] transition_audit_row_def
        next_lifecycle_def current_lifecycle_def run_status_of_def withdrawn_def)
qed

text \<open>The run of the scenario is cancelled while its unit is leased.\<close>

definition demo_cancel :: transition_collection_run where
  "demo_cancel = \<lparr>tc_run_id = UUID 1, tc_expected_revision = 0, tc_requested_state = Run_CANCELLED,
     tc_actor_id = ''operator'', tc_reason = ''stop'', tc_correlation_id = ''c9''\<rparr>"

definition demo_cancelled :: db where
  "demo_cancelled = transitioned (UUID 50) demo_cancel 500 (hd (collection_runs demo_state)) demo_state"

lemma demo_cancel_tx:
  "run_transition (utc 500) (UUID 50) demo_cancel demo_state
     = (Inr (run_status_of demo_cancelled (hd (collection_runs demo_cancelled))), demo_cancelled)"
  by code_simp

lemma demo_state_inv: "engine_inv demo_state"
  using demo_leased_inv by (simp add: demo_leased_eq)

theorem run_transition_recorded_witness:
  "\<exists>status d'. run_transition (utc 500) (UUID 50) demo_cancel demo_state = (Inr status, d')
     \<and> rs_state status = Run_CANCELLED \<and> length (collection_run_transitions d') = 1"
proof -
  have "length (collection_run_transitions demo_state) = 0" "tc_requested_state demo_cancel = Run_CANCELLED"
    by code_simp+
  then show ?thesis
    using run_transition_recorded [OF _ demo_cancel_tx] demo_state_inv demo_cancel_tx by fastforce
qed

section \<open>Cancellation\<close>

text \<open>
  C26: cancelling a run withdraws its waiting work and nothing else. Every pending or retrying unit of
  the run becomes cancelled with one more revision, every other unit is untouched, so that no unit of
  the run waits any more and leased work may finish; the pending and running stages of the run without
  leased work become cancelled, and no other stage changes.
\<close>

theorem cancel_withdraws_waiting_work:
  assumes "store_ok d" and "run_transition (utc now) i c d = (Inr status, d')"
    and "tc_requested_state c = Run_CANCELLED"
  shows "work_units d' = update_rows
        (\<lambda>u. wu_run_id u = tc_run_id c \<and> wu_state u \<in> {Unit_PENDING, Unit_RETRY_WAIT})
        (\<lambda>u. u\<lparr>wu_state := Unit_CANCELLED, wu_revision := wu_revision u + 1, wu_updated_at_utc := now,
              wu_correlation_id := tc_correlation_id c\<rparr>) (work_units d)
    \<and> (\<forall>u \<in> set (work_units d'). wu_run_id u = tc_run_id c \<longrightarrow>
         wu_state u \<notin> {Unit_PENDING, Unit_RETRY_WAIT})
    \<and> stage_runs d' = update_rows (\<lambda>s. sr_run_id s = tc_run_id c
          \<and> sr_state s \<in> {StageRun_PENDING, StageRun_RUNNING}
          \<and> \<not> (\<exists>u \<in> set (work_units d). wu_stage_run_id u = sr_stage_run_id s \<and> wu_state u = Unit_LEASED))
        (\<lambda>s. s\<lparr>sr_state := StageRun_CANCELLED, sr_revision := sr_revision s + 1,
              sr_updated_at_utc := now, sr_correlation_id := tc_correlation_id c\<rparr>) (stage_runs d)"
proof -
  obtain run where d': "d' = transitioned i c now run d"
    using transition_tx_InrE [OF run_transition_utc_Inr [OF assms(2)] assms(1)] by metis
  let ?d1 = "work_units_update (update_rows (cancellable_work (tc_run_id c)) (cancelled_work_row c now)) d"
  have units: "work_units d' = update_rows (cancellable_work (tc_run_id c)) (cancelled_work_row c now) (work_units d)"
    by (simp add: d' withdrawn_units assms(3))
  have "work_units ?d1 = work_units (withdrawn c now d)" by (simp add: withdrawn_units assms(3))
  then have "active_lease_exists ?d1 s \<longleftrightarrow>
      (\<exists>u \<in> set (work_units d). wu_stage_run_id u = sr_stage_run_id s \<and> wu_state u = Unit_LEASED)" for s
    unfolding active_lease_exists_def list_ex_iff using withdrawn_leased [of _ c now d] by metis
  then have stages: "stage_runs d' = update_rows (\<lambda>s. sr_run_id s = tc_run_id c
          \<and> sr_state s \<in> {StageRun_PENDING, StageRun_RUNNING}
          \<and> \<not> (\<exists>u \<in> set (work_units d). wu_stage_run_id u = sr_stage_run_id s \<and> wu_state u = Unit_LEASED))
        (cancelled_stage_row c now) (stage_runs d)"
    by (simp add: d' withdrawn_def assms(3) Let_def cancellable_stage_def [abs_def])
  have waiting: "\<forall>u \<in> set (work_units d'). wu_run_id u = tc_run_id c \<longrightarrow>
      wu_state u \<notin> {Unit_PENDING, Unit_RETRY_WAIT}"
    using assms(3) by (auto simp: d' cancellable_work_def elim!: withdrawn_unitE)
  show ?thesis
    using conjI [OF units conjI [OF waiting stages]]
    unfolding cancellable_work_def [abs_def] cancelled_work_row_def [abs_def] cancelled_stage_row_def [abs_def] .
qed

theorem cancel_withdraws_waiting_work_witness:
  "\<exists>status. run_transition (utc 500) (UUID 50) demo_cancel demo_state = (Inr status, demo_cancelled)
     \<and> (\<forall>u \<in> set (work_units demo_cancelled). wu_run_id u = UUID 1 \<longrightarrow>
          wu_state u \<notin> {Unit_PENDING, Unit_RETRY_WAIT})"
proof -
  have "tc_requested_state demo_cancel = Run_CANCELLED" "tc_run_id demo_cancel = UUID 1"
    by (simp_all add: demo_cancel_def)
  then show ?thesis
    using conjunct1 [OF conjunct2 [OF cancel_withdraws_waiting_work [OF engine_inv_store [OF demo_state_inv]
          demo_cancel_tx]]] demo_cancel_tx by metis
qed

section \<open>Optimistic concurrency\<close>

text \<open>
  C27: of two operators who loaded the same revision of a run only one succeeds. After a transition
  any other transition that expects the old revision is refused with the revision it lost to, at any
  time and whatever state it requests, and writes nothing.
\<close>

theorem second_operator_refused:
  assumes "store_ok d" and "run_transition (utc now) i c d = (Inr status, d')"
    and "tc_run_id other = tc_run_id c" and "tc_expected_revision other = tc_expected_revision c"
  shows "run_transition (utc later) j other d'
    = (Inl (Conflict (RUN_REVISION_CONFLICT (tc_run_id c) (tc_expected_revision c)
         (Some (tc_expected_revision c + 1)))), d')"
proof -
  obtain run where run: "run \<in> set (collection_runs d)" "cr_run_id run = tc_run_id c"
    "cr_revision run = tc_expected_revision c" "d' = transitioned i c now run d" "store_ok d'"
    using transition_tx_InrE [OF run_transition_utc_Inr [OF assms(2)] assms(1)] by metis
  let ?row = "transitioned_run_row c (next_lifecycle c run) now run"
  have row: "cr_run_id ?row = tc_run_id c" "cr_revision ?row = tc_expected_revision c + 1"
    using run(2,3) by (simp_all add: transitioned_run_row_def next_lifecycle_def)
  have "?row \<in> set (collection_runs d')"
    using run(1) by (auto simp: run(4) transitioned_def in_set_update_rows)
  then have "select_one cr_run_id (tc_run_id c) (collection_runs d') = (Inr (Some ?row) :: run_exn + _)"
    using runs.select_iff [OF store_ok_schema [OF run(5)]] row(1) by blast
  then show ?thesis
    using row(2) assms(3,4)
    by (simp add: run_transition_def run_now_utc_def transition_tx_def lock_run_def run_storage_error_def
        raise_conflict_def)
qed

theorem second_operator_refused_witness:
  "run_transition (utc 700) (UUID 51) (demo_cancel\<lparr>tc_requested_state := Run_PAUSED\<rparr>) demo_cancelled
     = (Inl (Conflict (RUN_REVISION_CONFLICT (UUID 1) 0 (Some 1))), demo_cancelled)"
  using second_operator_refused [OF _ demo_cancel_tx, of "demo_cancel\<lparr>tc_requested_state := Run_PAUSED\<rparr>"
      700 "UUID 51"] demo_state_inv
  by (simp add: demo_cancel_def)

section \<open>Coverage\<close>

text \<open>
  C28: the coverage of an existing run never fails, and it is the truth about its work: every stage of
  the run is listed once, in pipeline order, with the number of its units in each state, the totals
  of the report are the numbers of all, of the terminal and of the succeeded units of the run, and a
  stage is reported as blocked by dead letters or by policy exactly when it has such units, with
  their number.
\<close>

theorem coverage_counts_the_work:
  assumes "schema_ok d" and "run \<in> set (collection_runs d)"
  shows "\<exists>report. run_coverage (cr_run_id run) d = Inr report
    \<and> cv_state report = cr_state run \<and> cv_revision report = cr_revision run
    \<and> cv_stages report = map (coverage_of d) (run_stage_rows d (cr_run_id run))
    \<and> run_coverage_total report = count_rows (\<lambda>u. wu_run_id u = cr_run_id run) (work_units d)
    \<and> run_coverage_terminal report = count_rows
        (\<lambda>u. wu_run_id u = cr_run_id run \<and> is_terminal_work_state (wu_state u)) (work_units d)
    \<and> run_coverage_succeeded report = count_rows
        (\<lambda>u. wu_run_id u = cr_run_id run \<and> wu_state u = Unit_SUCCEEDED) (work_units d)
    \<and> (\<forall>s \<in> set (run_stage_rows d (cr_run_id run)). \<forall>n.
         ((\<exists>b \<in> set (cv_blockers report). blocker_key b = (''WORK_DEAD_LETTERED'', Some (sr_stage s))
             \<and> bl_count b = n) \<longleftrightarrow> n = stage_count d (sr_stage_run_id s) Unit_DEAD_LETTER \<and> n \<noteq> 0)
         \<and> ((\<exists>b \<in> set (cv_blockers report). blocker_key b = (''WORK_BLOCKED_BY_POLICY'', Some (sr_stage s))
             \<and> bl_count b = n) \<longleftrightarrow> n = stage_count d (sr_stage_run_id s) Unit_BLOCKED_BY_POLICY \<and> n \<noteq> 0))"
proof -
  let ?rows = "run_stage_rows d (cr_run_id run)"
  obtain own where report: "run_coverage (cr_run_id run) d = Inr
    \<lparr>cv_run_id = cr_run_id run, cv_state = cr_state run, cv_revision = cr_revision run,
     cv_stages = map (coverage_of d) ?rows, cv_blockers = own @ concat (map (blockers_of d) ?rows)\<rparr>"
    and own: "\<And>b. b \<in> set own \<Longrightarrow> bl_stage b = None"
    by (rule run_coverage_eq [OF assms]) (rule that)
  have total: "(\<Sum>s \<leftarrow> ?rows. sg_total (coverage_of d s)) = count_rows (\<lambda>u. wu_run_id u = cr_run_id run) (work_units d)"
    using sum_over_stages [OF assms(1), of "\<lambda>_. True" "cr_run_id run"] by (simp add: coverage_of_def Let_def)
  have succ: "(\<Sum>s \<leftarrow> ?rows. sg_succeeded (coverage_of d s))
      = count_rows (\<lambda>u. wu_run_id u = cr_run_id run \<and> wu_state u = Unit_SUCCEEDED) (work_units d)"
    using sum_over_stages [OF assms(1), of "\<lambda>u. wu_state u = Unit_SUCCEEDED" "cr_run_id run"]
    by (simp add: coverage_of_def Let_def stage_count_def)
  have ended: "(\<Sum>s \<leftarrow> ?rows. stage_coverage_terminal (coverage_of d s)) = count_rows
        (\<lambda>u. wu_run_id u = cr_run_id run \<and> is_terminal_work_state (wu_state u)) (work_units d)"
    using sum_over_stages [OF assms(1), of "\<lambda>u. is_terminal_work_state (wu_state u)" "cr_run_id run"]
    by (simp add: coverage_terminal_eq)
  show ?thesis
  proof (intro exI conjI ballI allI, rule report)
    fix s n assume s: "s \<in> set ?rows"
    show "(\<exists>b \<in> set (cv_blockers \<lparr>cv_run_id = cr_run_id run, cv_state = cr_state run, cv_revision = cr_revision run,
     cv_stages = map (coverage_of d) ?rows, cv_blockers = own @ concat (map (blockers_of d) ?rows)\<rparr>).
        blocker_key b = (''WORK_DEAD_LETTERED'', Some (sr_stage s)) \<and> bl_count b = n)
      \<longleftrightarrow> n = stage_count d (sr_stage_run_id s) Unit_DEAD_LETTER \<and> n \<noteq> 0"
      unfolding run_coverage_report.simps
      by (rule trans [OF blocker_of_stage [OF assms(1) s] blockers_of_eq(4)]) (erule own)
    show "(\<exists>b \<in> set (cv_blockers \<lparr>cv_run_id = cr_run_id run, cv_state = cr_state run, cv_revision = cr_revision run,
     cv_stages = map (coverage_of d) ?rows, cv_blockers = own @ concat (map (blockers_of d) ?rows)\<rparr>).
        blocker_key b = (''WORK_BLOCKED_BY_POLICY'', Some (sr_stage s)) \<and> bl_count b = n)
      \<longleftrightarrow> n = stage_count d (sr_stage_run_id s) Unit_BLOCKED_BY_POLICY \<and> n \<noteq> 0"
      unfolding run_coverage_report.simps
      by (rule trans [OF blocker_of_stage [OF assms(1) s] blockers_of_eq(5)]) (erule own)
  qed (use total succ ended in
        \<open>simp_all add: run_coverage_total_def run_coverage_terminal_def run_coverage_succeeded_def comp_def\<close>)
qed

theorem coverage_counts_the_work_witness:
  "\<exists>report. run_coverage (UUID 1) demo_state = Inr report \<and> run_coverage_total report = 1
     \<and> run_coverage_terminal report = 0"
proof -
  let ?run = "hd (collection_runs demo_state)"
  have run: "?run \<in> set (collection_runs demo_state)" "cr_run_id ?run = UUID 1" by code_simp+
  have "count_rows (\<lambda>u. wu_run_id u = UUID 1) (work_units demo_state) = 1"
    "count_rows (\<lambda>u. wu_run_id u = UUID 1 \<and> is_terminal_work_state (wu_state u)) (work_units demo_state) = 0"
    by code_simp+
  then show ?thesis
    using coverage_counts_the_work [OF _ run(1)] demo_state_inv unfolding run(2) by fastforce
qed

section \<open>The platform\<close>

text \<open>
  C29: operators and workers may act on the database in any order. In every state that engine commands
  and operator transitions lead to, the invariant of the engine holds, and over any further sequence of
  them every unit keeps its identity, loses no attempt or failure, changes state in exactly as many moves
  as its revision rose, each a move of the engine or a cancellation of waiting work, and stays as it is
  once it is in a terminal state.
\<close>

theorem platform_states_consistent:
  assumes "initial_state d0" and "platform_reachable d0 d" and "platform_reachable d d'"
  shows "engine_inv d \<and> units_evolve platform_moves d d'"
  using assms platform_reachable_inv platform_reachable_evolves initial_state_inv by blast

theorem platform_states_consistent_witness:
  "initial_state demo_start
   \<and> engine_inv (snd (run_transition (utc 500) (UUID 50) demo_cancel demo_configured))"
  using platform_states_consistent [OF demo_start_initial _ platform_refl, of
      "snd (run_transition (utc 500) (UUID 50) demo_cancel demo_configured)"]
    platform_next [OF platform_next [OF platform_refl engine_command] operator_transition]
    step_configure [of demo_start "utc 0" demo_source] demo_start_initial
  unfolding demo_configured_def by blast

lemma acquired_unit:
  assumes "engine_inv d" and "acquire_lease (utc now) locked uuids c d = (Inr (Some lease), d')"
  obtains u where "u \<in> set (work_units d)" "lease_candidate c now d u" "wl_work_id lease = wu_work_id u"
proof -
  have sd: "store_ok d" using assms(1) by simp
  have "acquire_lease_tx locked uuids c now d = Inr (Committed (Some lease), d')"
    using transaction_utc_Inr [OF assms(2) [unfolded acquire_lease_def]] .
  then obtain build u permit d1 where sel: "select_lease_work locked c now d = Some u"
    and res: "reserve_source c now u d = Inr (Some (permit, d1))"
    and iss: "issue_lease uuids c now build u permit d1 = Inr (lease, d')"
    by (cases rule: acquire_lease_tx_cases [OF _ sd, consumes 1]) auto
  note u = select_lease_work_SomeD [OF sel] and r = reserve_source_units [OF res sd]
  have u1: "u \<in> set (work_units d1)" "store_ok d1" using u(1) r by simp_all
  obtain inputs where "lease_from_work (lease_work_row uuids c now permit u) permit
      (lr_correlation_id c) inputs = Inr lease"
    using issue_lease_InrD(3) [OF iss u1(2,1)] by blast
  then show thesis using that [OF u(1,2)] lease_from_work_live(3) by blast
qed

lemma no_lease_for_ended_run:
  assumes "engine_inv d" and "r \<in> set (collection_runs d)" and "run_ended r"
    and "acquire_lease (utc now) locked uuids c d = (Inr (Some lease), d')"
    and "u \<in> set (work_units d)" and "wu_work_id u = wl_work_id lease"
  shows "wu_run_id u \<noteq> cr_run_id r"
proof
  assume same: "wu_run_id u = cr_run_id r"
  have sd: "schema_ok d" using assms(1) by simp
  obtain v where v: "v \<in> set (work_units d)" "lease_candidate c now d v" "wl_work_id lease = wu_work_id v"
    by (rule acquired_unit [OF assms(1,4)])
  have "v = u" using units.key_unique [OF sd v(1) assms(5)] v(3) assms(6) by simp
  then obtain q where "q \<in> set (collection_runs d)" "cr_run_id q = cr_run_id r" "cr_state q = Run_RUNNING"
    using v(2) same by (auto simp: lease_candidate_def list_ex_iff)
  moreover from this have "q = r" using runs.key_unique [OF sd _ assms(2)] by blast
  ultimately show False using assms(3) by (simp add: run_ended_def)
qed

text \<open>
  C30: once a run is cancelled no worker ever gets a lease for its work again, whatever commands and
  transitions follow: a lease granted in any later state is for a unit of another run.
\<close>

theorem cancelled_run_gets_no_lease:
  assumes "engine_inv d" and "run_transition (utc t) i cmd d = (Inr status, d1)"
    and "tc_requested_state cmd = Run_CANCELLED" and "platform_reachable d1 d2"
    and "acquire_lease (utc now) locked uuids c d2 = (Inr (Some lease), d3)"
  shows "\<forall>u \<in> set (work_units d2). wu_work_id u = wl_work_id lease \<longrightarrow> wu_run_id u \<noteq> tc_run_id cmd"
proof -
  note tx = run_transition_utc_Inr [OF assms(2)]
  have inv1: "engine_inv d1" by (rule transition_tx_inv [OF tx assms(1)])
  obtain run where run: "run \<in> set (collection_runs d)" "cr_run_id run = tc_run_id cmd"
    "d1 = transitioned i cmd t run d"
    using transition_tx_InrE [OF tx] assms(1) by (metis engine_inv_store)
  let ?row = "transitioned_run_row cmd (next_lifecycle cmd run) t run"
  have row: "?row \<in> set (collection_runs d1)" "cr_run_id ?row = tc_run_id cmd" "run_ended ?row"
    using run(1,2) assms(3)
    by (auto simp: run(3) transitioned_def in_set_update_rows transitioned_run_row_def next_lifecycle_def
        run_ended_def)
  have "?row \<in> set (collection_runs d2)" by (rule ended_run_stays [OF assms(4) inv1 row(1,3)])
  then show ?thesis
    using no_lease_for_ended_run [OF platform_reachable_inv [OF assms(4) inv1] _ row(3) assms(5)] row(2) by auto
qed

text \<open>A second run with a unit of its own, next to the run of the scenario.\<close>

definition demo_two :: db where
  "demo_two = demo_db
     \<lparr>collection_runs := collection_runs demo_db @ [(hd (collection_runs demo_db))\<lparr>cr_run_id := UUID 4\<rparr>],
      stage_runs := stage_runs demo_db
        @ [(hd (stage_runs demo_db))\<lparr>sr_stage_run_id := UUID 5, sr_run_id := UUID 4\<rparr>],
      work_units := [demo_unit,
        demo_unit\<lparr>wu_work_id := UUID 6, wu_run_id := UUID 4, wu_stage_run_id := UUID 5\<rparr>]\<rparr>"

definition demo_two_cancelled :: db where
  "demo_two_cancelled = transitioned (UUID 50) demo_cancel 500 (hd (collection_runs demo_two)) demo_two"

theorem cancelled_run_gets_no_lease_witness:
  "\<exists>lease d3. acquire_lease (utc 5000000) (\<lambda>_. False) demo_uuids demo_request demo_two_cancelled
       = (Inr (Some lease), d3)
     \<and> (\<forall>u \<in> set (work_units demo_two_cancelled). wu_work_id u = wl_work_id lease \<longrightarrow> wu_run_id u \<noteq> UUID 1)"
proof -
  let ?a = "acquire_lease (utc 5000000) (\<lambda>_. False) demo_uuids demo_request demo_two_cancelled"
  have inv: "engine_inv demo_two" by code_simp
  have cancel: "run_transition (utc 500) (UUID 50) demo_cancel demo_two
     = (Inr (run_status_of demo_two_cancelled (hd (collection_runs demo_two_cancelled))), demo_two_cancelled)"
    by code_simp
  have "(case fst ?a of Inr (Some _) \<Rightarrow> True | _ \<Rightarrow> False)" by code_simp
  then obtain lease where "fst ?a = Inr (Some lease)" by (auto split: sum.splits option.splits)
  then have a: "?a = (Inr (Some lease), snd ?a)" by (metis prod.collapse)
  have c: "tc_requested_state demo_cancel = Run_CANCELLED" "tc_run_id demo_cancel = UUID 1"
    by (simp_all add: demo_cancel_def)
  show ?thesis
    using cancelled_run_gets_no_lease [OF inv cancel c(1) platform_refl a] a unfolding c(2) by blast
qed

section \<open>Work a cancelled run leaves behind\<close>

lemma ended_run_refuses:
  assumes "engine_inv d" and "r \<in> set (collection_runs d)" and "run_ended r" and "tc_run_id cmd = cr_run_id r"
  shows "\<exists>e. run_transition clock i cmd d = (Inl e, d)"
proof (cases rule: run_transition_cases [of clock i cmd d])
  case (Applied now status d')
  have sd: "store_ok d" using assms(1) by simp
  obtain run where run: "run \<in> set (collection_runs d)" "cr_run_id run = tc_run_id cmd"
      "tc_requested_state cmd \<in> run_transitions_table (cr_state run)"
    using transition_tx_InrE [OF Applied(2) sd] by metis
  have "run = r" using runs.key_unique [OF store_ok_schema [OF sd] run(1) assms(2)] run(2) assms(4) by simp
  then show ?thesis using run(3) assms(3) by (simp add: run_ended_def)
qed blast

text \<open>
  C31: cancellation leaves leased work to its worker, and a worker that gives it back revives it. When
  a unit of a cancelled run is released it becomes pending again, no lease is ever granted for it in
  any later state, and no operator transition of its run is possible any more: the unit stays open in
  a run that has ended.
\<close>

theorem released_work_of_cancelled_run:
  assumes "engine_inv d" and "r \<in> set (collection_runs d)" and "cr_state r = Run_CANCELLED"
    and "u \<in> set (work_units d)" and "wu_run_id u = cr_run_id r" and "wrl_work_id rel = wu_work_id u"
    and "release (utc now) rel d = (Inr result, d1)"
  shows "mres_state result = Unit_PENDING
    \<and> (\<exists>u1 \<in> set (work_units d1). wu_work_id u1 = wu_work_id u \<and> wu_state u1 = Unit_PENDING)
    \<and> (\<forall>d2 t locked uuids c lease d3. platform_reachable d1 d2
         \<and> acquire_lease (utc t) locked uuids c d2 = (Inr (Some lease), d3) \<longrightarrow> wl_work_id lease \<noteq> wu_work_id u)
    \<and> (\<forall>d2 t i cmd. platform_reachable d1 d2 \<and> tc_run_id cmd = cr_run_id r \<longrightarrow>
         (\<exists>e. run_transition (utc t) i cmd d2 = (Inl e, d2)))"
proof -
  have sd: "store_ok d" "schema_ok d" using assms(1) by simp_all
  from transaction_utc_Inr [OF assms(7) [unfolded release_def]] obtain v a where
    v: "v \<in> set (work_units d)" "wu_work_id v = wrl_work_id rel" and a: "a \<in> set (work_attempts d)"
    and rel: "release_active rel now v a d = Inr (Committed result, d1)"
    unfolding release_tx_def by (rule active_InrD)
  have vu: "v = u" using units.key_unique [OF sd(2) v(1) assms(4)] v(2) assms(6) by simp
  note rd = release_active_InrD [OF rel v(2) sd(1) v(1) a]
  let ?u1 = "released_work_row rel now u"
  have u1: "?u1 \<in> set (work_units d1)" "wu_work_id ?u1 = wu_work_id u" "wu_state ?u1 = Unit_PENDING"
    using rd(3) assms(4) by (auto simp: vu lease_ended_def in_set_update_rows released_work_row_def clear_lease_def)
  have step: "engine_step d d1" using step_release [of d "utc now" rel] by (simp add: assms(7))
  then have reach: "platform_reachable d d1" by (blast intro: platform_refl platform_next engine_command)
  have ended: "run_ended r" using assms(3) by (simp add: run_ended_def)
  have inv1: "engine_inv d1" by (rule engine_step_inv [OF step assms(1)])
  have r1: "r \<in> set (collection_runs d1)" by (rule ended_run_stays [OF reach assms(1,2) ended])
  have later: "engine_inv d2" "r \<in> set (collection_runs d2)" if "platform_reachable d1 d2" for d2
    using platform_reachable_inv [OF that inv1] ended_run_stays [OF that inv1 r1 ended] by auto
  have "wl_work_id lease \<noteq> wu_work_id u"
    if reached: "platform_reachable d1 d2" and l: "acquire_lease (utc t) locked uuids c d2 = (Inr (Some lease), d3)"
    for d2 t locked uuids c lease d3
  proof -
    obtain w where w: "w \<in> set (work_units d2)" "unit_evolves platform_moves ?u1 w"
      using platform_reachable_evolves [OF reached inv1] u1(1) by (auto simp: units_evolve_def)
    then have "wu_work_id w = wu_work_id u" "wu_run_id w = cr_run_id r"
      using assms(5) by (auto simp: unit_evolves_def unit_identity_def released_work_row_def clear_lease_def)
    then show ?thesis using no_lease_for_ended_run [OF later [OF reached] ended l w(1)] by auto
  qed
  moreover have "\<exists>e. run_transition (utc t) i cmd d2 = (Inl e, d2)"
    if reached: "platform_reachable d1 d2" and cmd: "tc_run_id cmd = cr_run_id r" for d2 t i cmd
    using ended_run_refuses [OF later [OF reached] ended cmd] .
  ultimately show ?thesis using rd(2) u1 by (auto simp: vu)
qed

definition demo_give_back :: work_release where
  "demo_give_back = \<lparr>wrl_work_id = UUID 3, wrl_lease_id = UUID 11, wrl_lease_token = UUID 12,
     wrl_worker_id = ''w1'', wrl_input_digest = one_digest, wrl_reason_code = ''SHUTDOWN'',
     wrl_worker_build_identity = ''b1'', wrl_correlation_id = ''c6''\<rparr>"

theorem released_work_of_cancelled_run_witness:
  "\<exists>result d1. release (utc 5000000) demo_give_back demo_cancelled = (Inr result, d1)
     \<and> (\<exists>u1 \<in> set (work_units d1). wu_work_id u1 = UUID 3 \<and> wu_state u1 = Unit_PENDING)"
proof -
  let ?r = "release (utc 5000000) demo_give_back demo_cancelled"
  have inv: "engine_inv demo_cancelled"
    by (rule transition_tx_inv [OF run_transition_utc_Inr [OF demo_cancel_tx] demo_state_inv])
  have rows: "hd (collection_runs demo_cancelled) \<in> set (collection_runs demo_cancelled)"
    "cr_state (hd (collection_runs demo_cancelled)) = Run_CANCELLED"
    "hd (work_units demo_cancelled) \<in> set (work_units demo_cancelled)"
    "wu_run_id (hd (work_units demo_cancelled)) = cr_run_id (hd (collection_runs demo_cancelled))"
    "wrl_work_id demo_give_back = wu_work_id (hd (work_units demo_cancelled))"
    "wu_work_id (hd (work_units demo_cancelled)) = UUID 3"
    by code_simp+
  have "(case fst ?r of Inr _ \<Rightarrow> True | _ \<Rightarrow> False)" by code_simp
  then obtain x where "fst ?r = Inr x" by (auto split: sum.splits)
  then have r: "?r = (Inr x, snd ?r)" by (metis prod.collapse)
  show ?thesis
    using conjunct1 [OF conjunct2 [OF released_work_of_cancelled_run [OF inv rows(1-5) r]]] r
    unfolding rows(6) by blast
qed

end
