(* ===== verification/Py_Text.thy ===== *)
theory Py_Text
  imports Canonical_Digest
begin

text \<open>
  What the resolution and review contracts use of Python's text library: \<open>str.lower\<close>, the fixed
  points of NFKC and case folding, \<open>urllib.parse.urlsplit\<close> with the
  \<open>hostname\<close> and \<open>port\<close> of its result, \<open>uuid.uuid5\<close> with the SHA-1 (FIPS 180-4) it rests on, and
  \<open>str(datetime)\<close> over the proleptic Gregorian calendar.
\<close>

section \<open>Characters\<close>

text \<open>The capital letters: A to Z and the accented capitals, without the multiplication sign.\<close>

definition is_capital :: "char \<Rightarrow> bool" where
  "is_capital c \<longleftrightarrow> (let n = (of_char c :: nat) in
     65 \<le> n \<and> n \<le> 90 \<or> 192 \<le> n \<and> n \<le> 222 \<and> n \<noteq> 215)"

definition lower :: "string \<Rightarrow> string" where
  "lower = map (\<lambda>c. if is_capital c then char_of (of_char c + 32 :: nat) else c)"

text \<open>
  \<open>s == s.casefold()\<close>: folding changes the capitals, the micro sign and the sharp s. NFKC changes
  the no-break space, the spacing accents, the ordinals, the superscript digits and the fractions;
  none of these characters is a combining mark, so a text is normal when each character is.
\<close>

definition casefolded :: "string \<Rightarrow> bool" where
  "casefolded s \<longleftrightarrow> list_all (\<lambda>c. \<not> is_capital c \<and> (of_char c :: nat) \<notin> {181, 223}) s"

definition nfkc :: "string \<Rightarrow> bool" where
  "nfkc s \<longleftrightarrow> list_all (\<lambda>c. (of_char c :: nat) \<notin>
     {160, 168, 170, 175, 178, 179, 180, 181, 184, 185, 186, 188, 189, 190}) s"

section \<open>Splitting\<close>

text \<open>\<open>s.partition(c)\<close> and \<open>s.rpartition(c)\<close>; the flag says whether the separator was found.\<close>

definition partition_at :: "char \<Rightarrow> string \<Rightarrow> string \<times> bool \<times> string" where
  "partition_at c s = (let front = takeWhile (\<lambda>x. x \<noteq> c) s
     in (front, c \<in> set s, drop (Suc (length front)) s))"

definition rpartition_at :: "char \<Rightarrow> string \<Rightarrow> string \<times> bool \<times> string" where
  "rpartition_at c s = (let after = rev (takeWhile (\<lambda>x. x \<noteq> c) (rev s))
     in (take (length s - Suc (length after)) s, c \<in> set s, after))"

text \<open>\<open>s.split(c)\<close>\<close>

fun split_on :: "char \<Rightarrow> string \<Rightarrow> string list" where
  "split_on c [] = [[]]"
| "split_on c (x # xs) =
     (case split_on c xs of
        [] \<Rightarrow> [[x]]
      | p # ps \<Rightarrow> if x = c then [] # p # ps else (x # p) # ps)"

fun decimal_value :: "string \<Rightarrow> nat \<Rightarrow> nat" where
  "decimal_value [] n = n"
| "decimal_value (c # cs) n = decimal_value cs (10 * n + (of_char c - 48))"

section \<open>Addresses in brackets\<close>

text \<open>\<open>ipaddress.IPv4Address\<close> and \<open>ipaddress.IPv6Address\<close> as predicates: whether the text parses.\<close>

definition ipv4_octet :: "string \<Rightarrow> bool" where
  "ipv4_octet s \<longleftrightarrow> s \<noteq> [] \<and> list_all is_digit s \<and> length s \<le> 3
     \<and> (hd s = CHR ''0'' \<longrightarrow> length s = 1) \<and> decimal_value s 0 \<le> 255"

definition ipv4_address :: "string \<Rightarrow> bool" where
  "ipv4_address s \<longleftrightarrow> length (split_on (CHR ''.'') s) = 4 \<and> list_all ipv4_octet (split_on (CHR ''.'') s)"

definition is_hex :: "char \<Rightarrow> bool" where
  "is_hex c \<longleftrightarrow> is_lower_hex c \<or> char_between (CHR ''A'') (CHR ''F'') c"

definition hextet :: "string \<Rightarrow> bool" where
  "hextet s \<longleftrightarrow> s \<noteq> [] \<and> length s \<le> 4 \<and> list_all is_hex s"

definition ipv6_parts :: "string list \<Rightarrow> bool" where
  "ipv6_parts parts \<longleftrightarrow>
     (let n = length parts;
          gaps = filter (\<lambda>i. parts ! i = []) [1..<n - 1]
      in n \<le> 9 \<and> length gaps \<le> 1 \<and>
         (if gaps = [] then n = 8 \<and> list_all hextet parts
          else let gap = hd gaps;
                   hi = (if hd parts = [] then gap - 1 else gap);
                   lo = (if last parts = [] then n - gap - 2 else n - gap - 1)
               in (hd parts = [] \<longrightarrow> hi = 0) \<and> (last parts = [] \<longrightarrow> lo = 0) \<and> hi + lo < 8
                  \<and> list_all hextet (take hi parts) \<and> list_all hextet (drop (n - lo) parts)))"

definition ipv6_address :: "string \<Rightarrow> bool" where
  "ipv6_address s \<longleftrightarrow>
     (let (addr, scoped, scope) = partition_at (CHR ''%'') s;
          parts = split_on (CHR '':'') addr;
          embedded = CHR ''.'' \<in> set (last parts)
      in CHR ''/'' \<notin> set s \<and> (scoped \<longrightarrow> scope \<noteq> [] \<and> CHR ''%'' \<notin> set scope)
         \<and> 3 \<le> length parts \<and> (embedded \<longrightarrow> ipv4_address (last parts))
         \<and> ipv6_parts (if embedded then butlast parts @ [''0'', ''0''] else parts))"

text \<open>\<open>_check_bracketed_host\<close> and \<open>_check_bracketed_netloc\<close>\<close>

definition ipv_future :: "string \<Rightarrow> bool" where
  "ipv_future s \<longleftrightarrow> (let digits = takeWhile is_hex (drop 1 s); rest = drop (Suc (length digits)) s
     in digits \<noteq> [] \<and> 2 \<le> length rest \<and> hd rest = CHR ''.'')"

definition bracketed_host_ok :: "string \<Rightarrow> bool" where
  "bracketed_host_ok host \<longleftrightarrow>
     (if take 1 host = ''v'' then ipv_future host else \<not> ipv4_address host \<and> ipv6_address host)"

definition bracketed_netloc_ok :: "string \<Rightarrow> bool" where
  "bracketed_netloc_ok netloc \<longleftrightarrow>
     (let hostname_and_port = snd (snd (rpartition_at (CHR ''@'') netloc));
          (before_bracket, have_open_br, bracketed) = partition_at (CHR ''['') hostname_and_port
      in if have_open_br then
           (let (hostname, _, port) = partition_at (CHR '']'') bracketed
            in before_bracket = [] \<and> (port \<noteq> [] \<longrightarrow> hd port = CHR '':'') \<and> bracketed_host_ok hostname)
         else bracketed_host_ok (fst (partition_at (CHR '':'') hostname_and_port)))"

section \<open>\<open>urlsplit\<close>\<close>

record split_result =
  url_scheme :: string
  url_netloc :: string
  url_fragment :: string

definition scheme_char :: "char \<Rightarrow> bool" where
  "scheme_char c \<longleftrightarrow> is_alnum c \<or> c \<in> set ''+-.''"

definition split_scheme :: "string \<Rightarrow> string \<times> string" where
  "split_scheme url =
     (let (front, found, after) = partition_at (CHR '':'') url
      in if found \<and> front \<noteq> [] \<and> (is_upper (hd url) \<or> is_lower (hd url)) \<and> list_all scheme_char front
         then (lower front, after) else ([], url))"

text \<open>
  Leading control characters and spaces are stripped, tabs and line ends are removed. The network
  location ends at the first of \<open>/?#\<close>. A network location of characters below 256 always passes
  \<open>_checknetloc\<close>: none of them normalises to a text with one of \<open>/?#@:\<close>.
\<close>

definition urlsplit :: "string \<Rightarrow> split_result checked" where
  "urlsplit value =
     (let cleaned = filter (\<lambda>c. (of_char c :: nat) \<notin> {9, 10, 13})
                      (dropWhile (\<lambda>c. (of_char c :: nat) \<le> 32) value);
          (scheme, url) = split_scheme cleaned;
          located = take 2 url = ''//'';
          netloc = (if located then takeWhile (\<lambda>c. c \<notin> set ''/?#'') (drop 2 url) else []);
          rest = (if located then drop (2 + length netloc) url else url);
          opening = CHR ''['' \<in> set netloc; closing = CHR '']'' \<in> set netloc
      in if opening \<noteq> closing \<or> (opening \<and> \<not> bracketed_netloc_ok netloc)
         then Inl (ValueError ''Invalid IPv6 URL'')
         else Inr \<lparr>url_scheme = scheme, url_netloc = netloc,
           url_fragment = snd (snd (partition_at (CHR ''#'') rest))\<rparr>)"

definition hostinfo :: "split_result \<Rightarrow> string \<times> string" where
  "hostinfo r =
     (let info = snd (snd (rpartition_at (CHR ''@'') (url_netloc r)));
          (_, have_open_br, bracketed) = partition_at (CHR ''['') info
      in if have_open_br then
           (let (hostname, _, port) = partition_at (CHR '']'') bracketed
            in (hostname, snd (snd (partition_at (CHR '':'') port))))
         else (let (hostname, _, port) = partition_at (CHR '':'') info in (hostname, port)))"

text \<open>\<open>hostname\<close>: the zone after a percent sign keeps its case; an empty host is \<open>None\<close>.\<close>

definition url_hostname :: "split_result \<Rightarrow> string option" where
  "url_hostname r =
     (let host = fst (hostinfo r); (name, percent, zone) = partition_at (CHR ''%'') host
      in if host = [] then None
         else Some (lower name @ (if percent then ''%'' else []) @ zone))"

definition url_port :: "split_result \<Rightarrow> nat option checked" where
  "url_port r =
     (let port = snd (hostinfo r)
      in if port = [] then Inr None
         else if \<not> list_all is_digit port then Inl (ValueError ''Port could not be cast to integer value'')
         else if decimal_value port 0 \<le> 65535 then Inr (Some (decimal_value port 0))
         else Inl (ValueError ''Port out of range 0-65535''))"

section \<open>\<open>uuid5\<close>\<close>

type_synonym sha1_state = "32 word \<times> 32 word \<times> 32 word \<times> 32 word \<times> 32 word"

fun sha1_extend :: "nat \<Rightarrow> 32 word list \<Rightarrow> 32 word list" where
  "sha1_extend 0 ws = ws"
| "sha1_extend (Suc n) ws =
     (let i = length ws in
      sha1_extend n
        (ws @ [word_rotl 1 (ws ! (i - 3) XOR ws ! (i - 8) XOR ws ! (i - 14) XOR ws ! (i - 16))]))"

definition sha1_mix :: "nat \<Rightarrow> 32 word \<Rightarrow> 32 word \<Rightarrow> 32 word \<Rightarrow> 32 word" where
  "sha1_mix t b c d =
     (if t < 20 then ((b AND c) OR (NOT b AND d)) + 0x5a827999
      else if t < 40 then (b XOR c XOR d) + 0x6ed9eba1
      else if t < 60 then ((b AND c) OR (b AND d) OR (c AND d)) + 0x8f1bbcdc
      else (b XOR c XOR d) + 0xca62c1d6)"

fun sha1_round :: "nat \<times> 32 word \<Rightarrow> sha1_state \<Rightarrow> sha1_state" where
  "sha1_round (t, w) (a, b, c, d, e) =
     (word_rotl 5 a + sha1_mix t b c d + e + w, a, word_rotl 30 b, c, d)"

fun sha1_block :: "32 word list \<Rightarrow> sha1_state \<Rightarrow> sha1_state" where
  "sha1_block ws (a, b, c, d, e) =
     (let (a', b', c', d', e') = fold sha1_round (zip [0..<80] (sha1_extend 64 ws)) (a, b, c, d, e)
      in (a + a', b + b', c + c', d + d', e + e'))"

function sha1_blocks :: "32 word list \<Rightarrow> sha1_state \<Rightarrow> sha1_state" where
  "sha1_blocks ws s =
     (if ws = [] then s else sha1_blocks (drop 16 ws) (sha1_block (take 16 ws) s))"
  by pat_completeness auto
termination
  by (relation "measure (\<lambda>(ws, s). length ws)") auto

declare sha1_blocks.simps [simp del]

text \<open>
  The first 16 bytes of the digest of the namespace's bytes and the name, with the version and
  variant bits set. SHA-1 pads a message as SHA-256 does.
\<close>

definition uuid5 :: "uuid \<Rightarrow> string \<Rightarrow> uuid" where
  "uuid5 namespace name =
     (let (a, b, c, d, _) =
        sha1_blocks (words_of (sha256_pad (big_endian 16 (unat (uuid_int namespace)) @ utf8_encode name)))
          (0x67452301, 0xefcdab89, 0x98badcfe, 0x10325476, 0xc3d2e1f0);
        n = ((unat a * 2 ^ 32 + unat b) * 2 ^ 32 + unat c) * 2 ^ 32 + unat d;
        w = (word_of_nat n :: 128 word)
      in UUID ((w AND NOT (push_bit 76 0xf) AND NOT (push_bit 62 3)) OR push_bit 76 5 OR push_bit 62 2))"

definition NAMESPACE_URL :: uuid where
  "NAMESPACE_URL = UUID 0x6ba7b8119dad11d180b400c04fd430c8"

section \<open>The text of a datetime\<close>

text \<open>
  An instant counts microseconds from the start of the year 1970 in UTC, which is day 719162 of the
  calendar of \<open>datetime\<close>, counted from 0. \<open>_ord2ymd\<close> splits the days into cycles of 400, 100, 4 and
  1 years; the last day of a leap cycle would count as a fifth year and belongs to the fourth.
\<close>

definition month_lengths :: "bool \<Rightarrow> int list" where
  "month_lengths leap = [31, if leap then 29 else 28, 31, 30, 31, 30, 31, 31, 30, 31, 30, 31]"

fun month_day :: "int list \<Rightarrow> int \<Rightarrow> int \<Rightarrow> int \<times> int" where
  "month_day [] month n = (month, n + 1)"
| "month_day (l # ls) month n = (if n < l then (month, n + 1) else month_day ls (month + 1) (n - l))"

definition ord2ymd :: "int \<Rightarrow> int \<times> int \<times> int" where
  "ord2ymd days =
     (let n400 = days div 146097; r400 = days mod 146097;
          n100 = r400 div 36524; r100 = r400 mod 36524;
          n4 = r100 div 1461; r4 = r100 mod 1461;
          n1 = r4 div 365; r1 = r4 mod 365;
          year = n400 * 400 + 1 + n100 * 100 + n4 * 4 + n1
      in if n1 = 4 \<or> n100 = 4 then (year - 1, 12, 31)
         else (year, month_day (month_lengths (n1 = 3 \<and> (n4 \<noteq> 24 \<or> n100 = 3))) 1 r1))"

definition padded :: "nat \<Rightarrow> int \<Rightarrow> string" where
  "padded width n = (let s = nat_decimal (nat n) in replicate (width - length s) (CHR ''0'') @ s)"

text \<open>\<open>HH:MM:SS\<close> with the microseconds when there are any.\<close>

definition time_str :: "int \<Rightarrow> string" where
  "time_str us =
     padded 2 (us div 3600000000) @ '':'' @ padded 2 (us div 60000000 mod 60) @ '':''
       @ padded 2 (us div 1000000 mod 60)
       @ (if us mod 1000000 = 0 then [] else ''.'' @ padded 6 (us mod 1000000))"

definition offset_str :: "int \<Rightarrow> string" where
  "offset_str offset =
     (let us = abs offset
      in (if offset < 0 then ''-'' else ''+'')
         @ padded 2 (us div 3600000000) @ '':'' @ padded 2 (us div 60000000 mod 60)
         @ (if us mod 60000000 = 0 then []
            else '':'' @ padded 2 (us div 1000000 mod 60)
              @ (if us mod 1000000 = 0 then [] else ''.'' @ padded 6 (us mod 1000000))))"

definition datetime_str :: "datetime \<Rightarrow> string" where
  "datetime_str d =
     (let wall = instant d + (case utcoffset d of None \<Rightarrow> 0 | Some offset \<Rightarrow> offset);
          (year, month, day) = ord2ymd (wall div 86400000000 + 719162)
      in padded 4 year @ ''-'' @ padded 2 month @ ''-'' @ padded 2 day @ '' ''
         @ time_str (wall mod 86400000000)
         @ (case utcoffset d of None \<Rightarrow> [] | Some offset \<Rightarrow> offset_str offset))"

end
