(* ===== verification/Resolution_Models.thy ===== *)
theory Resolution_Models
  imports Py_Text "HOL-Library.Product_Lexorder"
begin

text \<open>
  The data of \<^verbatim>\<open>resolution_contracts\<close>: candidates, manual decisions, prior clusters,
  thresholds and quality rules of a resolution batch, and the pair resolutions, blocked edges,
  clusters and quality assessments of a snapshot, each with the checks its Pydantic model makes.

  A model is a record. \<open>validate_x\<close> lists what constructing the model checks: the constraints of
  the fields, which are reported under the field's name, the nested models and then the
  \<open>model_validator\<close> methods; the first failing check stands for the \<open>ValidationError\<close>, which
  is a \<open>ValueError\<close>. \<open>x_json\<close> is \<open>model_dump(mode="json", by_alias=True)\<close>.
\<close>

section \<open>Shared checks\<close>

definition res_require_digest :: "string \<Rightarrow> string \<Rightarrow> unit checked" where
  "res_require_digest name v = guard (sha256_pattern v) (ValueError (name @ '' must be canonical SHA-256''))"

text \<open>\<open>^[A-Za-z][A-Za-z0-9._:@+-]{0,127}$\<close>\<close>

definition res_require_token :: "string \<Rightarrow> string \<Rightarrow> unit checked" where
  "res_require_token name v =
     guard (head_tail_pattern (\<lambda>c. is_upper c \<or> is_lower c) token_char 127 v)
       (ValueError (name @ '' has an invalid token format''))"

definition res_require_code :: "string \<Rightarrow> string \<Rightarrow> unit checked" where
  "res_require_code name v = guard (code_pattern v) (ValueError (name @ '' has an invalid code format''))"

definition res_require_canonical_pair :: "uuid \<Rightarrow> uuid \<Rightarrow> unit checked" where
  "res_require_canonical_pair left right = guard (\<not> (left = right \<or> right \<le> left))
     (ValueError ''candidate pair must contain two distinct canonically ordered IDs'')"

definition res_require_sorted_unique_uuids :: "string \<Rightarrow> uuid list \<Rightarrow> unit checked" where
  "res_require_sorted_unique_uuids name values =
     guard (values = sorted_list_of_set (set values)) (ValueError (name @ '' must be sorted and unique''))"

definition res_require_sorted_unique_strings :: "string \<Rightarrow> string list \<Rightarrow> unit checked" where
  "res_require_sorted_unique_strings name values = checks
     [guard (values = sorted_list_of_set (set values)) (ValueError (name @ '' must be sorted and unique'')),
      guard (\<not> list_ex (\<lambda>value. value = [] \<or> value \<noteq> py_strip value) values)
        (ValueError (name @ '' contains an empty or non-canonical string''))]"

definition res_require_sorted_unique_normalized :: "string \<Rightarrow> string list \<Rightarrow> unit checked" where
  "res_require_sorted_unique_normalized name values = checks
     [res_require_sorted_unique_strings name values,
      guard (list_all (\<lambda>value. nfkc value \<and> casefolded value) values)
        (ValueError (name @ '' must contain NFKC case-folded values''))]"

text \<open>The enumerations are given as their string values.\<close>

definition res_require_sorted_unique_enums :: "string \<Rightarrow> string list \<Rightarrow> unit checked" where
  "res_require_sorted_unique_enums name serialized =
     guard (serialized = sorted_list_of_set (set serialized)) (ValueError (name @ '' must be sorted and unique''))"

definition require_canonical_http_url :: "string \<Rightarrow> unit checked" where
  "require_canonical_http_url value =
     result_bind (urlsplit value) (\<lambda>parsed. checks
       [guard (url_scheme parsed \<in> {''http'', ''https''} \<and> url_hostname parsed \<noteq> None)
          (ValueError ''website URL must be an absolute HTTP(S) URL''),
        guard (url_fragment parsed = []) (ValueError ''website URL must not contain a fragment''),
        guard (casefolded (url_scheme parsed) \<and> casefolded (the (url_hostname parsed)))
          (ValueError ''website URL scheme and host must be lower-case''),
        result_bind (url_port parsed) (\<lambda>port.
          guard (\<not> (url_scheme parsed = ''http'' \<and> port = Some 80 \<or> url_scheme parsed = ''https'' \<and> port = Some 443))
            (ValueError ''website URL must not retain a default port''))])"

text \<open>\<open>^\+[1-9][0-9]{6,14}$\<close> and \<open>^[^@\s]{1,64}@[a-z0-9](?:[a-z0-9.-]{0,251}[a-z0-9])?$\<close>\<close>

definition e164_pattern :: "string \<Rightarrow> bool" where
  "e164_pattern s \<longleftrightarrow> take 1 s = ''+'' \<and> 8 \<le> length s \<and> length s \<le> 16
     \<and> list_all is_digit (drop 1 s) \<and> s ! 1 \<noteq> CHR ''0''"

definition email_pattern :: "string \<Rightarrow> bool" where
  "email_pattern s \<longleftrightarrow>
     (let (name, at, domain) = partition_at (CHR ''@'') s;
          word = (\<lambda>c. is_lower c \<or> is_digit c)
      in at \<and> name \<noteq> [] \<and> length name \<le> 64 \<and> \<not> list_ex py_isspace name
         \<and> domain \<noteq> [] \<and> length domain \<le> 253 \<and> word (hd domain) \<and> word (last domain)
         \<and> list_all (\<lambda>c. word c \<or> c = CHR ''.'' \<or> c = CHR ''-'') domain)"

definition max_length :: "string \<Rightarrow> nat \<Rightarrow> 'a list \<Rightarrow> unit checked" where
  "max_length field n values = guard (length values \<le> n) (ValueError field)"

definition in_range :: "string \<Rightarrow> int \<Rightarrow> int \<Rightarrow> int \<Rightarrow> unit checked" where
  "in_range field lo hi n = guard (lo \<le> n \<and> n \<le> hi) (ValueError field)"

section \<open>Identities\<close>

text \<open>\<^verbatim>\<open>identity.py\<close>: \<open>canonical_digest\<close> is \<^const>\<open>json_digest\<close>.\<close>

definition candidate_pair_id :: "uuid \<Rightarrow> uuid \<Rightarrow> string checked" where
  "candidate_pair_id left right =
     (if left = right then Inl (ValueError ''candidate pair requires two distinct IDs'')
      else let ordered = sort [left, right]
           in Inr (json_digest (JList [JStr (uuid_str (ordered ! 0)), JStr (uuid_str (ordered ! 1))])))"

definition deterministic_cluster_id :: "uuid list \<Rightarrow> uuid checked" where
  "deterministic_cluster_id member_candidate_ids =
     (let members = sorted_list_of_set (set member_candidate_ids)
      in if members = [] then Inl (ValueError ''cluster membership cannot be empty'')
         else Inr (uuid5 NAMESPACE_URL (''entity-resolution-cluster:'' @ comma_separated (map uuid_str members))))"

section \<open>Enumerations\<close>

datatype entity_kind = ORGANIZATION | PLACE | PROVIDER

fun entity_kind_value :: "entity_kind \<Rightarrow> string" where
  "entity_kind_value ORGANIZATION = ''organization''"
| "entity_kind_value PLACE = ''place''"
| "entity_kind_value PROVIDER = ''provider''"

datatype geography_coverage = INSIDE | BOUNDARY | OUTSIDE | UNKNOWN

fun coverage_value :: "geography_coverage \<Rightarrow> string" where
  "coverage_value INSIDE = ''inside''"
| "coverage_value BOUNDARY = ''boundary''"
| "coverage_value OUTSIDE = ''outside''"
| "coverage_value UNKNOWN = ''unknown''"

datatype market_area_readiness = Area_READY | Area_BLOCKED

fun readiness_value :: "market_area_readiness \<Rightarrow> string" where
  "readiness_value Area_READY = ''ready''"
| "readiness_value Area_BLOCKED = ''blocked''"

datatype manual_decision_action = MATCH | SEPARATE

fun action_value :: "manual_decision_action \<Rightarrow> string" where
  "action_value MATCH = ''match''"
| "action_value SEPARATE = ''separate''"

datatype match_disposition = AUTO_MATCH | MANUAL_MATCH | REVIEW_REQUIRED | NO_MATCH | MANUAL_SEPARATE

fun disposition_value :: "match_disposition \<Rightarrow> string" where
  "disposition_value AUTO_MATCH = ''auto_match''"
| "disposition_value MANUAL_MATCH = ''manual_match''"
| "disposition_value REVIEW_REQUIRED = ''review_required''"
| "disposition_value NO_MATCH = ''no_match''"
| "disposition_value MANUAL_SEPARATE = ''manual_separate''"

datatype cluster_lineage_kind = Lineage_NEW | UNCHANGED | SPLIT | MERGE | RECOMBINED

fun lineage_value :: "cluster_lineage_kind \<Rightarrow> string" where
  "lineage_value Lineage_NEW = ''new''"
| "lineage_value UNCHANGED = ''unchanged''"
| "lineage_value SPLIT = ''split''"
| "lineage_value MERGE = ''merge''"
| "lineage_value RECOMBINED = ''recombined''"

datatype candidate_field = NAMES | PHONES | EMAILS | WEBSITE_URLS | ADDRESSES

fun candidate_field_value :: "candidate_field \<Rightarrow> string" where
  "candidate_field_value NAMES = ''names''"
| "candidate_field_value PHONES = ''phones''"
| "candidate_field_value EMAILS = ''emails''"
| "candidate_field_value WEBSITE_URLS = ''website_urls''"
| "candidate_field_value ADDRESSES = ''addresses''"

datatype quality_severity = Severity_BLOCKING | Severity_WARNING | Severity_INFORMATION

fun severity_value :: "quality_severity \<Rightarrow> string" where
  "severity_value Severity_BLOCKING = ''blocking''"
| "severity_value Severity_WARNING = ''warning''"
| "severity_value Severity_INFORMATION = ''information''"

section \<open>Decimals\<close>

text \<open>A finite \<open>decimal.Decimal\<close>; its order against an integer and its text.\<close>

record decimal =
  dec_negative :: bool
  dec_coefficient :: nat
  dec_exponent :: int

definition decimal_le :: "decimal \<Rightarrow> int \<Rightarrow> bool" where
  "decimal_le d n \<longleftrightarrow>
     (let c = (if dec_negative d then - int (dec_coefficient d) else int (dec_coefficient d))
      in if 0 \<le> dec_exponent d then c * 10 ^ nat (dec_exponent d) \<le> n
         else c \<le> n * 10 ^ nat (- dec_exponent d))"

definition decimal_ge :: "decimal \<Rightarrow> int \<Rightarrow> bool" where
  "decimal_ge d n \<longleftrightarrow> decimal_le (d\<lparr>dec_negative := \<not> dec_negative d\<rparr>) (- n)"

definition decimal_str :: "decimal \<Rightarrow> string" where
  "decimal_str d =
     (let digits = nat_decimal (dec_coefficient d);
          leftdigits = dec_exponent d + int (length digits);
          dotplace = (if dec_exponent d \<le> 0 \<and> - 6 < leftdigits then leftdigits else 1);
          intpart = (if dotplace \<le> 0 then ''0''
                     else take (nat dotplace) digits @ replicate (nat (dotplace - int (length digits))) (CHR ''0''));
          fracpart = (if dotplace \<le> 0 then ''.'' @ replicate (nat (- dotplace)) (CHR ''0'') @ digits
                      else if int (length digits) \<le> dotplace then []
                      else ''.'' @ drop (nat dotplace) digits);
          power = leftdigits - dotplace
      in (if dec_negative d then ''-'' else []) @ intpart @ fracpart
         @ (if power = 0 then [] else ''E'' @ (if 0 \<le> power then ''+'' else []) @ int_decimal power))"

section \<open>Candidates\<close>

record geography_reference =
  gr_coverage :: geography_coverage
  gr_market_area_revision :: string
  gr_market_area_digest :: string
  gr_latitude :: "decimal option"
  gr_longitude :: "decimal option"
  gr_observation_ids :: "uuid list"

definition coordinate_in :: "string \<Rightarrow> int \<Rightarrow> decimal option \<Rightarrow> unit checked" where
  "coordinate_in field bound v =
     guard (case v of None \<Rightarrow> True | Some d \<Rightarrow> decimal_ge d (- bound) \<and> decimal_le d bound) (ValueError field)"

definition validate_geography :: "geography_reference \<Rightarrow> unit checked" where
  "validate_geography g =
     (let has_point = gr_latitude g \<noteq> None \<and> gr_longitude g \<noteq> None
      in checks
        [coordinate_in ''latitude'' 90 (gr_latitude g),
         coordinate_in ''longitude'' 180 (gr_longitude g),
         max_length ''observationIds'' 512 (gr_observation_ids g),
         res_require_token ''market_area_revision'' (gr_market_area_revision g),
         res_require_digest ''market_area_digest'' (gr_market_area_digest g),
         res_require_sorted_unique_uuids ''observation_ids'' (gr_observation_ids g),
         guard ((gr_latitude g = None) = (gr_longitude g = None))
           (ValueError ''geography coordinates must be provided together''),
         if gr_coverage g = UNKNOWN
         then guard (\<not> (has_point \<or> gr_observation_ids g \<noteq> []))
                (ValueError ''unknown geography must not invent coordinates or observations'')
         else if \<not> has_point then Inl (ValueError ''classified geography requires coordinates'')
         else guard (gr_observation_ids g \<noteq> [])
                (ValueError ''classified geography requires observation provenance'')])"

record resolution_candidate =
  rc_candidate_id :: uuid
  rc_entity_kind :: entity_kind
  rc_names :: "string list"
  rc_phones :: "string list"
  rc_emails :: "string list"
  rc_website_urls :: "string list"
  rc_addresses :: "string list"
  rc_observation_ids :: "uuid list"
  rc_source_artifact_ids :: "uuid list"
  rc_source_keys :: "string list"
  rc_geography :: geography_reference

definition validate_candidate :: "resolution_candidate \<Rightarrow> unit checked" where
  "validate_candidate c = checks
     ([max_length ''names'' 64 (rc_names c),
       max_length ''phones'' 64 (rc_phones c),
       max_length ''emails'' 64 (rc_emails c),
       max_length ''websiteUrls'' 64 (rc_website_urls c),
       max_length ''addresses'' 64 (rc_addresses c),
       max_length ''observationIds'' 512 (rc_observation_ids c),
       max_length ''sourceArtifactIds'' 512 (rc_source_artifact_ids c),
       max_length ''sourceKeys'' 64 (rc_source_keys c),
       validate_geography (rc_geography c),
       res_require_sorted_unique_normalized ''names'' (rc_names c),
       res_require_sorted_unique_normalized ''addresses'' (rc_addresses c),
       res_require_sorted_unique_strings ''phones'' (rc_phones c),
       res_require_sorted_unique_strings ''emails'' (rc_emails c),
       res_require_sorted_unique_strings ''website_urls'' (rc_website_urls c),
       res_require_sorted_unique_uuids ''observation_ids'' (rc_observation_ids c),
       res_require_sorted_unique_uuids ''source_artifact_ids'' (rc_source_artifact_ids c),
       res_require_sorted_unique_strings ''source_keys'' (rc_source_keys c),
       guard (list_all e164_pattern (rc_phones c)) (ValueError ''phones must contain canonical E.164 values''),
       guard (list_all (\<lambda>value. casefolded value \<and> email_pattern value) (rc_emails c))
         (ValueError ''emails must contain normalized lower-case addresses'')]
      @ map require_canonical_http_url (rc_website_urls c)
      @ map (res_require_token ''source_key'') (rc_source_keys c))"

section \<open>Decisions, prior clusters, thresholds and rules\<close>

record manual_resolution_decision =
  md_decision_id :: uuid
  md_left_candidate_id :: uuid
  md_right_candidate_id :: uuid
  md_action :: manual_decision_action
  md_revision :: int
  md_actor_reference :: string
  md_reason_code :: string
  md_decision_digest :: string

text \<open>\<open>ManualResolutionDecisionPayload\<close>, and the class with its digest.\<close>

definition validate_decision :: "manual_resolution_decision \<Rightarrow> unit checked" where
  "validate_decision d = checks
     [guard (0 \<le> md_revision d) (ValueError ''revision''),
      res_require_canonical_pair (md_left_candidate_id d) (md_right_candidate_id d),
      res_require_token ''actor_reference'' (md_actor_reference d),
      res_require_code ''reason_code'' (md_reason_code d)]"

definition validate_manual_resolution_decision :: "manual_resolution_decision \<Rightarrow> unit checked" where
  "validate_manual_resolution_decision d = checks
     [validate_decision d, res_require_digest ''decision_digest'' (md_decision_digest d)]"

record prior_cluster =
  prior_cluster_id :: uuid
  prior_member_candidate_ids :: "uuid list"
  prior_content_digest :: string

definition validate_prior_cluster_payload :: "prior_cluster \<Rightarrow> unit checked" where
  "validate_prior_cluster_payload p = checks
     [guard (1 \<le> length (prior_member_candidate_ids p)) (ValueError ''memberCandidateIds''),
      max_length ''memberCandidateIds'' 10000 (prior_member_candidate_ids p),
      res_require_sorted_unique_uuids ''member_candidate_ids'' (prior_member_candidate_ids p),
      result_bind (deterministic_cluster_id (prior_member_candidate_ids p)) (\<lambda>cluster_id.
        guard (prior_cluster_id p = cluster_id)
          (ValueError ''prior cluster ID does not match deterministic membership''))]"

definition validate_prior_cluster :: "prior_cluster \<Rightarrow> unit checked" where
  "validate_prior_cluster p = checks
     [validate_prior_cluster_payload p, res_require_digest ''content_digest'' (prior_content_digest p)]"

record resolution_thresholds =
  candidate_limit :: int
  pair_limit :: int
  name_review_minimum_bps :: int
  address_review_minimum_bps :: int
  website_auto_match_minimum_strong_features :: int
  address_auto_match_minimum_strong_features :: int
  fuzzy_primary_area_review_reason_code :: string

definition validate_thresholds :: "resolution_thresholds \<Rightarrow> unit checked" where
  "validate_thresholds t = checks
     [in_range ''candidateLimit'' 1 10000 (candidate_limit t),
      in_range ''pairLimit'' 1 1000000 (pair_limit t),
      in_range ''nameReviewMinimumBps'' 0 10000 (name_review_minimum_bps t),
      in_range ''addressReviewMinimumBps'' 0 10000 (address_review_minimum_bps t),
      in_range ''websiteAutoMatchMinimumStrongFeatures'' 2 4 (website_auto_match_minimum_strong_features t),
      in_range ''addressAutoMatchMinimumStrongFeatures'' 2 4 (address_auto_match_minimum_strong_features t),
      res_require_code ''fuzzy_primary_area_review_reason_code'' (fuzzy_primary_area_review_reason_code t)]"

record cluster_quality_rule =
  qr_entity_kind :: entity_kind
  qr_required_fields :: "candidate_field list"
  qr_single_value_fields :: "candidate_field list"
  qr_minimum_distinct_source_count :: int
  qr_allowed_geography :: "geography_coverage list"
  qr_boundary_requires_review :: bool
  qr_pending_review_blocks_export :: bool

definition validate_rule :: "cluster_quality_rule \<Rightarrow> unit checked" where
  "validate_rule r = checks
     [in_range ''minimumDistinctSourceCount'' 1 64 (qr_minimum_distinct_source_count r),
      guard (1 \<le> length (qr_allowed_geography r)) (ValueError ''allowedGeography''),
      res_require_sorted_unique_enums ''required_fields'' (map candidate_field_value (qr_required_fields r)),
      res_require_sorted_unique_enums ''single_value_fields'' (map candidate_field_value (qr_single_value_fields r)),
      res_require_sorted_unique_enums ''allowed_geography'' (map coverage_value (qr_allowed_geography r))]"

section \<open>Batches\<close>

record resolution_batch =
  rb_batch_id :: uuid
  rb_market_area_revision :: string
  rb_market_area_digest :: string
  rb_market_area_readiness :: market_area_readiness
  rb_candidates :: "resolution_candidate list"
  rb_manual_decisions :: "manual_resolution_decision list"
  rb_prior_clusters :: "prior_cluster list"
  rb_thresholds :: resolution_thresholds
  rb_quality_rules :: "cluster_quality_rule list"
  rb_batch_digest :: string

definition decision_pair :: "manual_resolution_decision \<Rightarrow> uuid \<times> uuid" where
  "decision_pair d = (md_left_candidate_id d, md_right_candidate_id d)"

text \<open>The loop over the prior clusters with the members seen so far.\<close>

fun check_prior_members :: "uuid set \<Rightarrow> uuid set \<Rightarrow> prior_cluster list \<Rightarrow> unit checked" where
  "check_prior_members candidate_ids prior_members [] = Inr ()"
| "check_prior_members candidate_ids prior_members (cluster # clusters) = checks
     [guard (set (prior_member_candidate_ids cluster) - candidate_ids = {})
        (ValueError ''prior cluster references an unknown candidate''),
      guard (prior_members \<inter> set (prior_member_candidate_ids cluster) = {})
        (ValueError ''prior clusters must not overlap''),
      check_prior_members candidate_ids (prior_members \<union> set (prior_member_candidate_ids cluster)) clusters]"

definition validate_batch :: "resolution_batch \<Rightarrow> unit checked" where
  "validate_batch b =
     (let candidate_ids = map rc_candidate_id (rb_candidates b);
          decision_pairs = map decision_pair (rb_manual_decisions b)
      in checks
        ([guard (1 \<le> length (rb_candidates b)) (ValueError ''candidates''),
          max_length ''candidates'' 10000 (rb_candidates b),
          max_length ''manualDecisions'' 1000000 (rb_manual_decisions b),
          max_length ''priorClusters'' 10000 (rb_prior_clusters b),
          max_length ''qualityRules'' 3 (rb_quality_rules b)]
         @ map validate_candidate (rb_candidates b)
         @ map validate_manual_resolution_decision (rb_manual_decisions b)
         @ map validate_prior_cluster (rb_prior_clusters b)
         @ [validate_thresholds (rb_thresholds b)]
         @ map validate_rule (rb_quality_rules b)
         @ [res_require_token ''market_area_revision'' (rb_market_area_revision b),
            res_require_digest ''market_area_digest'' (rb_market_area_digest b),
            guard (int (length (rb_candidates b)) \<le> candidate_limit (rb_thresholds b))
              (ValueError ''candidate count exceeds the declared batch limit''),
            res_require_sorted_unique_uuids ''candidate identities'' candidate_ids,
            guard (list_all (\<lambda>c. gr_market_area_revision (rc_geography c) = rb_market_area_revision b
                       \<and> gr_market_area_digest (rc_geography c) = rb_market_area_digest b) (rb_candidates b))
              (ValueError ''candidate geography does not match the batch market area''),
            guard (list_all (\<lambda>d. md_left_candidate_id d \<in> set candidate_ids
                       \<and> md_right_candidate_id d \<in> set candidate_ids) (rb_manual_decisions b))
              (ValueError ''manual decision references an unknown candidate''),
            guard (sorted decision_pairs)
              (ValueError ''manual decisions must be sorted by canonical candidate pair''),
            guard (distinct decision_pairs)
              (ValueError ''only one active manual decision is allowed per candidate pair''),
            res_require_sorted_unique_uuids ''prior cluster identities'' (map prior_cluster_id (rb_prior_clusters b)),
            check_prior_members (set candidate_ids) {} (rb_prior_clusters b),
            res_require_sorted_unique_enums ''quality rule entity kinds''
              (map (\<lambda>r. entity_kind_value (qr_entity_kind r)) (rb_quality_rules b))]))"

end
