(* ===== verification/Resolution_Snapshots.thy ===== *)
theory Resolution_Snapshots
  imports Resolution_Models
begin

text \<open>
  The outputs of entity resolution in \<^verbatim>\<open>resolution_contracts/models.py\<close>: pair features and
  resolutions, blocked edges, clusters, quality assessments and the snapshot that collects them, with
  the checks their constructors make, and \<^verbatim>\<open>serialization.py\<close>: the JSON form of each model and
  the sealing and verification of digests.
\<close>

section \<open>Pairs\<close>

record pair_features =
  pf_pair_id :: string
  pf_left_candidate_id :: uuid
  pf_right_candidate_id :: uuid
  pf_exact_phone_overlap :: bool
  pf_exact_email_overlap :: bool
  pf_exact_website_host_overlap :: bool
  pf_name_similarity_bps :: int
  pf_address_similarity_bps :: int
  pf_entity_kind_compatible :: bool
  pf_geography_compatible :: bool
  pf_source_overlap_count :: int
  pf_strong_non_name_feature_count :: int
  pf_name_only :: bool

definition strong_features :: "pair_features \<Rightarrow> int" where
  "strong_features f = of_bool (pf_exact_phone_overlap f) + of_bool (pf_exact_email_overlap f)
     + of_bool (pf_exact_website_host_overlap f) + of_bool (pf_address_similarity_bps f = 10000)"

definition validate_pair :: "pair_features \<Rightarrow> unit checked" where
  "validate_pair f = checks
     [in_range ''nameSimilarityBps'' 0 10000 (pf_name_similarity_bps f),
      in_range ''addressSimilarityBps'' 0 10000 (pf_address_similarity_bps f),
      in_range ''sourceOverlapCount'' 0 64 (pf_source_overlap_count f),
      in_range ''strongNonNameFeatureCount'' 0 4 (pf_strong_non_name_feature_count f),
      res_require_digest ''pair_id'' (pf_pair_id f),
      res_require_canonical_pair (pf_left_candidate_id f) (pf_right_candidate_id f),
      result_bind (candidate_pair_id (pf_left_candidate_id f) (pf_right_candidate_id f)) (\<lambda>pair_id.
        guard (pf_pair_id f = pair_id) (ValueError ''pair ID does not match canonical candidate identity'')),
      guard (pf_strong_non_name_feature_count f = strong_features f)
        (ValueError ''strong non-name feature count does not match pair features''),
      guard (pf_name_only f = (0 < pf_name_similarity_bps f \<and> strong_features f = 0 \<and> pf_address_similarity_bps f = 0))
        (ValueError ''name-only marker does not match pair features'')]"

definition make_pair_features :: "pair_features \<Rightarrow> pair_features checked" where
  "make_pair_features f = result_bind (validate_pair f) (\<lambda>_. Inr f)"

record pair_resolution =
  pr_features :: pair_features
  pr_disposition :: match_disposition
  pr_reason_codes :: "string list"
  pr_evidence_strength :: int

definition validate_reasons :: "pair_resolution \<Rightarrow> unit checked" where
  "validate_reasons r = checks
     ([guard (1 \<le> length (pr_reason_codes r)) (ValueError ''reasonCodes''),
       max_length ''reasonCodes'' 16 (pr_reason_codes r),
       in_range ''evidenceStrength'' 0 100000 (pr_evidence_strength r),
       res_require_sorted_unique_strings ''reason_codes'' (pr_reason_codes r)]
      @ map (res_require_code ''reason_code'') (pr_reason_codes r))"

definition make_pair_resolution :: "pair_resolution \<Rightarrow> pair_resolution checked" where
  "make_pair_resolution r = result_bind (validate_reasons r) (\<lambda>_. Inr r)"

record blocked_match_edge =
  be_blocked_edge_id :: string
  be_attempted_pair_id :: string
  be_separation_pair_id :: string
  be_reason_code :: string

definition validate_edge :: "blocked_match_edge \<Rightarrow> unit checked" where
  "validate_edge e = checks
     [guard (be_reason_code e = ''EXPLICIT_SEPARATION_TRANSITIVE_BLOCK'') (ValueError ''reasonCode''),
      res_require_digest ''blocked_edge_id'' (be_blocked_edge_id e),
      res_require_digest ''attempted_pair_id'' (be_attempted_pair_id e),
      res_require_digest ''separation_pair_id'' (be_separation_pair_id e)]"

definition make_blocked_match_edge :: "blocked_match_edge \<Rightarrow> blocked_match_edge checked" where
  "make_blocked_match_edge e = result_bind (validate_edge e) (\<lambda>_. Inr e)"

section \<open>Clusters and their quality\<close>

record resolved_cluster =
  cl_cluster_id :: uuid
  cl_member_candidate_ids :: "uuid list"
  cl_parent_cluster_ids :: "uuid list"
  cl_lineage_kind :: cluster_lineage_kind
  cl_parent_membership_digest :: string
  cl_blocked_match_edge_ids :: "string list"

definition validate_resolved_cluster :: "resolved_cluster \<Rightarrow> unit checked" where
  "validate_resolved_cluster c = checks
     ([guard (1 \<le> length (cl_member_candidate_ids c)) (ValueError ''memberCandidateIds''),
       max_length ''memberCandidateIds'' 10000 (cl_member_candidate_ids c),
       max_length ''parentClusterIds'' 10000 (cl_parent_cluster_ids c),
       max_length ''blockedMatchEdgeIds'' 1000000 (cl_blocked_match_edge_ids c),
       res_require_sorted_unique_uuids ''member_candidate_ids'' (cl_member_candidate_ids c),
       result_bind (deterministic_cluster_id (cl_member_candidate_ids c)) (\<lambda>cluster_id.
         guard (cl_cluster_id c = cluster_id) (ValueError ''cluster ID does not match deterministic membership'')),
       res_require_sorted_unique_uuids ''parent_cluster_ids'' (cl_parent_cluster_ids c),
       res_require_digest ''parent_membership_digest'' (cl_parent_membership_digest c),
       res_require_sorted_unique_strings ''blocked_match_edge_ids'' (cl_blocked_match_edge_ids c)]
      @ map (res_require_digest ''blocked_match_edge_id'') (cl_blocked_match_edge_ids c))"

definition make_resolved_cluster :: "resolved_cluster \<Rightarrow> resolved_cluster checked" where
  "make_resolved_cluster c = result_bind (validate_resolved_cluster c) (\<lambda>_. Inr c)"

record cluster_quality_issue =
  qi_code :: string
  qi_severity :: quality_severity
  qi_field :: "candidate_field option"
  qi_related_pair_id :: "string option"
  qi_related_blocked_edge_id :: "string option"

definition when_present :: "('a \<Rightarrow> unit checked) \<Rightarrow> 'a option \<Rightarrow> unit checked" where
  "when_present check v = (case v of None \<Rightarrow> Inr () | Some x \<Rightarrow> check x)"

definition validate_issue :: "cluster_quality_issue \<Rightarrow> unit checked" where
  "validate_issue i = checks
     [res_require_code ''quality issue code'' (qi_code i),
      when_present (res_require_digest ''related_pair_id'') (qi_related_pair_id i),
      when_present (res_require_digest ''related_blocked_edge_id'') (qi_related_blocked_edge_id i),
      guard (\<not> (qi_related_pair_id i \<noteq> None \<and> qi_related_blocked_edge_id i \<noteq> None))
        (ValueError ''quality issue cannot reference a pair and blocked edge together'')]"

definition make_cluster_quality_issue :: "cluster_quality_issue \<Rightarrow> cluster_quality_issue checked" where
  "make_cluster_quality_issue i = result_bind (validate_issue i) (\<lambda>_. Inr i)"

record cluster_quality_assessment =
  qa_cluster_id :: uuid
  qa_export_eligible :: bool
  qa_issues :: "cluster_quality_issue list"

text \<open>The key both the assessment and the evaluator order issues by.\<close>

type_synonym issue_key = "string \<times> string \<times> string \<times> string \<times> string"

definition issue_key :: "cluster_quality_issue \<Rightarrow> issue_key" where
  "issue_key i =
     (severity_value (qi_severity i), qi_code i,
      case qi_field i of None \<Rightarrow> [] | Some f \<Rightarrow> candidate_field_value f,
      case qi_related_pair_id i of None \<Rightarrow> [] | Some p \<Rightarrow> p,
      case qi_related_blocked_edge_id i of None \<Rightarrow> [] | Some e \<Rightarrow> e)"

definition has_blocker :: "cluster_quality_issue list \<Rightarrow> bool" where
  "has_blocker issues \<longleftrightarrow> list_ex (\<lambda>i. qi_severity i = Severity_BLOCKING) issues"

definition validate_assessment :: "cluster_quality_assessment \<Rightarrow> unit checked" where
  "validate_assessment a =
     (let issue_keys = map issue_key (qa_issues a)
      in checks
        [max_length ''issues'' 256 (qa_issues a),
         guard (issue_keys = sort issue_keys \<and> distinct issue_keys)
           (ValueError ''quality issues must be sorted and unique''),
         guard (qa_export_eligible a \<noteq> has_blocker (qa_issues a))
           (ValueError ''export eligibility must be the inverse of blocking quality issues'')])"

definition make_cluster_quality_assessment ::
    "cluster_quality_assessment \<Rightarrow> cluster_quality_assessment checked" where
  "make_cluster_quality_assessment a = result_bind (validate_assessment a) (\<lambda>_. Inr a)"

record resolution_diagnostic =
  rd_code :: string
  rd_count :: int

definition validate_diagnostic :: "resolution_diagnostic \<Rightarrow> unit checked" where
  "validate_diagnostic d = checks
     [guard (0 \<le> rd_count d) (ValueError ''count''), res_require_code ''diagnostic code'' (rd_code d)]"

section \<open>Snapshots\<close>

record resolution_snapshot =
  rs_batch_id :: uuid
  rs_batch_digest :: string
  rs_market_area_revision :: string
  rs_market_area_digest :: string
  rs_pair_resolutions :: "pair_resolution list"
  rs_blocked_match_edges :: "blocked_match_edge list"
  rs_clusters :: "resolved_cluster list"
  rs_quality_assessments :: "cluster_quality_assessment list"
  rs_pending_review_pair_ids :: "string list"
  rs_diagnostics :: "resolution_diagnostic list"
  rs_snapshot_digest :: string

definition pair_id_of :: "pair_resolution \<Rightarrow> string" where
  "pair_id_of r = pf_pair_id (pr_features r)"

text \<open>\<open>{key(x): value(x) for x in xs}\<close>: of the items with one key the last wins.\<close>

definition dict_of :: "('a \<Rightarrow> 'k) \<Rightarrow> ('a \<Rightarrow> 'v) \<Rightarrow> 'a list \<Rightarrow> ('k \<times> 'v) list" where
  "dict_of key val xs = rev (map (\<lambda>x. (key x, val x)) xs)"

definition pair_by_id :: "pair_resolution list \<Rightarrow> string \<Rightarrow> pair_resolution option" where
  "pair_by_id pair_resolutions = map_of (dict_of pair_id_of (\<lambda>r. r) pair_resolutions)"

definition check_blocked_edge :: "pair_resolution list \<Rightarrow> blocked_match_edge \<Rightarrow> unit checked" where
  "check_blocked_edge pair_resolutions e =
     (case (pair_by_id pair_resolutions (be_attempted_pair_id e), pair_by_id pair_resolutions (be_separation_pair_id e)) of
        (Some attempted, Some separation) \<Rightarrow> checks
          [guard (pr_disposition attempted \<in> {AUTO_MATCH, MANUAL_MATCH})
             (ValueError ''blocked match edge must reference an accepted attempted pair''),
           guard (pr_disposition separation = MANUAL_SEPARATE)
             (ValueError ''blocked match edge must reference a manual separation pair'')]
      | _ \<Rightarrow> Inl (ValueError ''blocked match edge must reference emitted pair resolutions''))"

text \<open>The loop over the clusters with the members and the blocked edges seen so far.\<close>

fun check_clusters :: "string list \<Rightarrow> uuid set \<Rightarrow> string set \<Rightarrow> resolved_cluster list \<Rightarrow> unit checked" where
  "check_clusters blocked_ids seen_members referenced_blocked_edges [] =
     guard (referenced_blocked_edges = set blocked_ids)
       (ValueError ''each blocked match edge must be attached to an affected cluster'')"
| "check_clusters blocked_ids seen_members referenced_blocked_edges (cluster # clusters) = checks
     [guard (seen_members \<inter> set (cl_member_candidate_ids cluster) = {})
        (ValueError ''resolved clusters must not share candidate membership''),
      guard (set (cl_blocked_match_edge_ids cluster) - set blocked_ids = {})
        (ValueError ''cluster references an unknown blocked match edge''),
      check_clusters blocked_ids (seen_members \<union> set (cl_member_candidate_ids cluster))
        (referenced_blocked_edges \<union> set (cl_blocked_match_edge_ids cluster)) clusters]"

text \<open>
  \<open>ResolutionSnapshotPayload\<close>. The nested models are re-validated, as \<open>model_validate\<close> does on a dump
  and sealing does on the fields of the payload.
\<close>

definition validate_snapshot :: "resolution_snapshot \<Rightarrow> unit checked" where
  "validate_snapshot s =
     (let pair_ids = map pair_id_of (rs_pair_resolutions s);
          blocked_ids = map be_blocked_edge_id (rs_blocked_match_edges s);
          cluster_ids = map cl_cluster_id (rs_clusters s)
      in checks
        ([max_length ''pairResolutions'' 1000000 (rs_pair_resolutions s),
          max_length ''blockedMatchEdges'' 1000000 (rs_blocked_match_edges s),
          max_length ''clusters'' 10000 (rs_clusters s),
          max_length ''qualityAssessments'' 10000 (rs_quality_assessments s),
          max_length ''pendingReviewPairIds'' 1000000 (rs_pending_review_pair_ids s),
          max_length ''diagnostics'' 32 (rs_diagnostics s)]
         @ map (\<lambda>r. checks [validate_pair (pr_features r), validate_reasons r]) (rs_pair_resolutions s)
         @ map validate_edge (rs_blocked_match_edges s)
         @ map validate_resolved_cluster (rs_clusters s)
         @ map (\<lambda>a. checks (map validate_issue (qa_issues a) @ [validate_assessment a])) (rs_quality_assessments s)
         @ map validate_diagnostic (rs_diagnostics s)
         @ [res_require_digest ''batch_digest'' (rs_batch_digest s),
            res_require_token ''market_area_revision'' (rs_market_area_revision s),
            res_require_digest ''market_area_digest'' (rs_market_area_digest s),
            res_require_sorted_unique_strings ''pair resolution identities'' pair_ids,
            res_require_sorted_unique_strings ''blocked edge identities'' blocked_ids,
            res_require_sorted_unique_uuids ''cluster identities'' cluster_ids,
            guard (map qa_cluster_id (rs_quality_assessments s) = cluster_ids)
              (ValueError ''quality assessments must cover each cluster in canonical order''),
            res_require_sorted_unique_strings ''pending_review_pair_ids'' (rs_pending_review_pair_ids s),
            guard (rs_pending_review_pair_ids s
                = map pair_id_of (filter (\<lambda>r. pr_disposition r = REVIEW_REQUIRED) (rs_pair_resolutions s)))
              (ValueError ''pending review identities must exactly cover review dispositions'')]
         @ map (check_blocked_edge (rs_pair_resolutions s)) (rs_blocked_match_edges s)
         @ [check_clusters blocked_ids {} {} (rs_clusters s),
            res_require_sorted_unique_strings ''diagnostic codes'' (map rd_code (rs_diagnostics s))]))"

section \<open>JSON\<close>

definition uuids_json :: "uuid list \<Rightarrow> json" where
  "uuids_json ids = JList (map (\<lambda>i. JStr (uuid_str i)) ids)"

definition strings_json :: "string list \<Rightarrow> json" where
  "strings_json values = JList (map JStr values)"

definition optional_json :: "('a \<Rightarrow> string) \<Rightarrow> 'a option \<Rightarrow> json" where
  "optional_json text v = (case v of None \<Rightarrow> JNull | Some x \<Rightarrow> JStr (text x))"

definition geography_json :: "geography_reference \<Rightarrow> json" where
  "geography_json g = JObj
     [(''coverage'', JStr (coverage_value (gr_coverage g))),
      (''marketAreaRevision'', JStr (gr_market_area_revision g)),
      (''marketAreaDigest'', JStr (gr_market_area_digest g)),
      (''latitude'', optional_json decimal_str (gr_latitude g)),
      (''longitude'', optional_json decimal_str (gr_longitude g)),
      (''observationIds'', uuids_json (gr_observation_ids g))]"

definition candidate_json :: "resolution_candidate \<Rightarrow> json" where
  "candidate_json c = JObj
     [(''candidateId'', JStr (uuid_str (rc_candidate_id c))),
      (''entityKind'', JStr (entity_kind_value (rc_entity_kind c))),
      (''names'', strings_json (rc_names c)), (''phones'', strings_json (rc_phones c)),
      (''emails'', strings_json (rc_emails c)), (''websiteUrls'', strings_json (rc_website_urls c)),
      (''addresses'', strings_json (rc_addresses c)),
      (''observationIds'', uuids_json (rc_observation_ids c)),
      (''sourceArtifactIds'', uuids_json (rc_source_artifact_ids c)),
      (''sourceKeys'', strings_json (rc_source_keys c)),
      (''geography'', geography_json (rc_geography c))]"

text \<open>The fields of \<open>ManualResolutionDecisionPayload\<close>, and of \<open>PriorClusterPayload\<close>.\<close>

definition decision_fields :: "manual_resolution_decision \<Rightarrow> (string \<times> json) list" where
  "decision_fields d =
     [(''decisionId'', JStr (uuid_str (md_decision_id d))),
      (''leftCandidateId'', JStr (uuid_str (md_left_candidate_id d))),
      (''rightCandidateId'', JStr (uuid_str (md_right_candidate_id d))),
      (''action'', JStr (action_value (md_action d))),
      (''revision'', JInt (md_revision d)),
      (''actorReference'', JStr (md_actor_reference d)),
      (''reasonCode'', JStr (md_reason_code d))]"

definition prior_cluster_fields :: "prior_cluster \<Rightarrow> (string \<times> json) list" where
  "prior_cluster_fields p =
     [(''clusterId'', JStr (uuid_str (prior_cluster_id p))),
      (''memberCandidateIds'', uuids_json (prior_member_candidate_ids p))]"

definition thresholds_json :: "resolution_thresholds \<Rightarrow> json" where
  "thresholds_json t = JObj
     [(''candidateLimit'', JInt (candidate_limit t)), (''pairLimit'', JInt (pair_limit t)),
      (''nameReviewMinimumBps'', JInt (name_review_minimum_bps t)),
      (''addressReviewMinimumBps'', JInt (address_review_minimum_bps t)),
      (''websiteAutoMatchMinimumStrongFeatures'', JInt (website_auto_match_minimum_strong_features t)),
      (''addressAutoMatchMinimumStrongFeatures'', JInt (address_auto_match_minimum_strong_features t)),
      (''fuzzyPrimaryAreaReviewReasonCode'', JStr (fuzzy_primary_area_review_reason_code t))]"

definition rule_json :: "cluster_quality_rule \<Rightarrow> json" where
  "rule_json r = JObj
     [(''entityKind'', JStr (entity_kind_value (qr_entity_kind r))),
      (''requiredFields'', strings_json (map candidate_field_value (qr_required_fields r))),
      (''singleValueFields'', strings_json (map candidate_field_value (qr_single_value_fields r))),
      (''minimumDistinctSourceCount'', JInt (qr_minimum_distinct_source_count r)),
      (''allowedGeography'', strings_json (map coverage_value (qr_allowed_geography r))),
      (''boundaryRequiresReview'', JBool (qr_boundary_requires_review r)),
      (''pendingReviewBlocksExport'', JBool (qr_pending_review_blocks_export r))]"

definition batch_json :: "resolution_batch \<Rightarrow> json" where
  "batch_json b = JObj
     [(''contract'', JStr ''collector-entity-resolution-batch''),
      (''contractRevision'', JStr ''entity-resolution-batch-v1''),
      (''batchId'', JStr (uuid_str (rb_batch_id b))),
      (''marketAreaRevision'', JStr (rb_market_area_revision b)),
      (''marketAreaDigest'', JStr (rb_market_area_digest b)),
      (''marketAreaReadiness'', JStr (readiness_value (rb_market_area_readiness b))),
      (''candidates'', JList (map candidate_json (rb_candidates b))),
      (''manualDecisions'', JList (map (\<lambda>d.
         JObj (decision_fields d @ [(''decisionDigest'', JStr (md_decision_digest d))])) (rb_manual_decisions b))),
      (''priorClusters'', JList (map (\<lambda>p.
         JObj (prior_cluster_fields p @ [(''contentDigest'', JStr (prior_content_digest p))])) (rb_prior_clusters b))),
      (''thresholds'', thresholds_json (rb_thresholds b)),
      (''qualityRules'', JList (map rule_json (rb_quality_rules b)))]"

definition pair_resolution_json :: "pair_resolution \<Rightarrow> json" where
  "pair_resolution_json r =
     (let f = pr_features r in JObj
       [(''features'', JObj
          [(''pairId'', JStr (pf_pair_id f)),
           (''leftCandidateId'', JStr (uuid_str (pf_left_candidate_id f))),
           (''rightCandidateId'', JStr (uuid_str (pf_right_candidate_id f))),
           (''exactPhoneOverlap'', JBool (pf_exact_phone_overlap f)),
           (''exactEmailOverlap'', JBool (pf_exact_email_overlap f)),
           (''exactWebsiteHostOverlap'', JBool (pf_exact_website_host_overlap f)),
           (''nameSimilarityBps'', JInt (pf_name_similarity_bps f)),
           (''addressSimilarityBps'', JInt (pf_address_similarity_bps f)),
           (''entityKindCompatible'', JBool (pf_entity_kind_compatible f)),
           (''geographyCompatible'', JBool (pf_geography_compatible f)),
           (''sourceOverlapCount'', JInt (pf_source_overlap_count f)),
           (''strongNonNameFeatureCount'', JInt (pf_strong_non_name_feature_count f)),
           (''nameOnly'', JBool (pf_name_only f))]),
        (''disposition'', JStr (disposition_value (pr_disposition r))),
        (''reasonCodes'', strings_json (pr_reason_codes r)),
        (''evidenceStrength'', JInt (pr_evidence_strength r))])"

definition blocked_edge_json :: "blocked_match_edge \<Rightarrow> json" where
  "blocked_edge_json e = JObj
     [(''blockedEdgeId'', JStr (be_blocked_edge_id e)), (''attemptedPairId'', JStr (be_attempted_pair_id e)),
      (''separationPairId'', JStr (be_separation_pair_id e)), (''reasonCode'', JStr (be_reason_code e))]"

definition cluster_json :: "resolved_cluster \<Rightarrow> json" where
  "cluster_json c = JObj
     [(''clusterId'', JStr (uuid_str (cl_cluster_id c))),
      (''memberCandidateIds'', uuids_json (cl_member_candidate_ids c)),
      (''parentClusterIds'', uuids_json (cl_parent_cluster_ids c)),
      (''lineageKind'', JStr (lineage_value (cl_lineage_kind c))),
      (''parentMembershipDigest'', JStr (cl_parent_membership_digest c)),
      (''blockedMatchEdgeIds'', strings_json (cl_blocked_match_edge_ids c))]"

definition assessment_json :: "cluster_quality_assessment \<Rightarrow> json" where
  "assessment_json a = JObj
     [(''clusterId'', JStr (uuid_str (qa_cluster_id a))),
      (''exportEligible'', JBool (qa_export_eligible a)),
      (''issues'', JList (map (\<lambda>i. JObj
         [(''code'', JStr (qi_code i)), (''severity'', JStr (severity_value (qi_severity i))),
          (''field'', optional_json candidate_field_value (qi_field i)),
          (''relatedPairId'', optional_json id (qi_related_pair_id i)),
          (''relatedBlockedEdgeId'', optional_json id (qi_related_blocked_edge_id i))]) (qa_issues a)))]"

definition snapshot_json :: "resolution_snapshot \<Rightarrow> json" where
  "snapshot_json s = JObj
     [(''contract'', JStr ''collector-entity-resolution-snapshot''),
      (''contractRevision'', JStr ''entity-resolution-snapshot-v1''),
      (''batchId'', JStr (uuid_str (rs_batch_id s))), (''batchDigest'', JStr (rs_batch_digest s)),
      (''marketAreaRevision'', JStr (rs_market_area_revision s)),
      (''marketAreaDigest'', JStr (rs_market_area_digest s)),
      (''pairResolutions'', JList (map pair_resolution_json (rs_pair_resolutions s))),
      (''blockedMatchEdges'', JList (map blocked_edge_json (rs_blocked_match_edges s))),
      (''clusters'', JList (map cluster_json (rs_clusters s))),
      (''qualityAssessments'', JList (map assessment_json (rs_quality_assessments s))),
      (''pendingReviewPairIds'', strings_json (rs_pending_review_pair_ids s)),
      (''diagnostics'', JList (map (\<lambda>d. JObj [(''code'', JStr (rd_code d)), (''count'', JInt (rd_count d))])
         (rs_diagnostics s)))]"

section \<open>Seals\<close>

text \<open>
  \<open>seal_*\<close> takes a payload, given here as the record whose digest field is not read, and constructs
  the sealed model. \<open>verify_*\<close> re-validates the payload and compares the digest.
\<close>

definition seal_manual_decision :: "manual_resolution_decision \<Rightarrow> manual_resolution_decision checked" where
  "seal_manual_decision payload =
     (let sealed = payload\<lparr>md_decision_digest := json_digest (JObj (decision_fields payload))\<rparr>
      in result_bind (validate_manual_resolution_decision sealed) (\<lambda>_. Inr sealed))"

definition verify_manual_decision :: "manual_resolution_decision \<Rightarrow> unit checked" where
  "verify_manual_decision d = checks
     [validate_decision d,
      guard (md_decision_digest d = json_digest (JObj (decision_fields d)))
        (ValueError ''manual decision digest does not match canonical content'')]"

definition seal_prior_cluster :: "prior_cluster \<Rightarrow> prior_cluster checked" where
  "seal_prior_cluster payload =
     (let sealed = payload\<lparr>prior_content_digest := json_digest (JObj (prior_cluster_fields payload))\<rparr>
      in result_bind (validate_prior_cluster sealed) (\<lambda>_. Inr sealed))"

definition verify_prior_cluster :: "prior_cluster \<Rightarrow> unit checked" where
  "verify_prior_cluster p = checks
     [validate_prior_cluster_payload p,
      guard (prior_content_digest p = json_digest (JObj (prior_cluster_fields p)))
        (ValueError ''prior cluster digest does not match canonical content'')]"

definition seal_resolution_batch :: "resolution_batch \<Rightarrow> resolution_batch checked" where
  "seal_resolution_batch payload =
     (let sealed = payload\<lparr>rb_batch_digest := json_digest (batch_json payload)\<rparr>
      in result_bind (checks
           (map verify_manual_decision (rb_manual_decisions payload)
            @ map verify_prior_cluster (rb_prior_clusters payload)
            @ [validate_batch sealed, res_require_digest ''batch_digest'' (rb_batch_digest sealed)]))
         (\<lambda>_. Inr sealed))"

definition verify_resolution_batch :: "resolution_batch \<Rightarrow> unit checked" where
  "verify_resolution_batch b = checks
     ([validate_batch b]
      @ map verify_manual_decision (rb_manual_decisions b)
      @ map verify_prior_cluster (rb_prior_clusters b)
      @ [guard (rb_batch_digest b = json_digest (batch_json b))
           (ValueError ''resolution batch digest does not match canonical content'')])"

definition seal_resolution_snapshot :: "resolution_snapshot \<Rightarrow> resolution_snapshot checked" where
  "seal_resolution_snapshot payload =
     (let sealed = payload\<lparr>rs_snapshot_digest := json_digest (snapshot_json payload)\<rparr>
      in result_bind (checks
           [validate_snapshot sealed, res_require_digest ''snapshot_digest'' (rs_snapshot_digest sealed)])
         (\<lambda>_. Inr sealed))"

definition verify_resolution_snapshot :: "resolution_snapshot \<Rightarrow> unit checked" where
  "verify_resolution_snapshot s = checks
     [validate_snapshot s,
      guard (rs_snapshot_digest s = json_digest (snapshot_json s))
        (ValueError ''resolution snapshot digest does not match canonical content'')]"

end
