(* ===== verification/Union_Find.thy ===== *)
theory Union_Find
  imports Py_Prelude "HOL-Library.AList"
begin

text \<open>
  The class \<open>_UnionFind\<close> of \<^verbatim>\<open>entity_resolution_core/engine.py\<close>: two dictionaries, as association
  lists in insertion order, with path compression in \<open>find\<close> and the least identity of a class as its
  root. A missing key is \<open>KeyError\<close>. \<open>find\<close> calls itself along the chain of parents, and the interpreter
  bounds nested calls: \<open>frames\<close> is the number of nested calls of \<open>find\<close> it still admits, and a longer chain
  raises \<open>RecursionError\<close>. Within that bound the class implements a partition of the identities: the
  locale \<open>partition_store\<close> states what its client relies on.
\<close>

section \<open>Computations\<close>

datatype resolution_exception =
    ResolutionError string string
  | InvalidValue value_error
  | KeyError
  | RuntimeError
  | RecursionError

type_synonym 'a computed = "resolution_exception + 'a"

definition returns :: "'a \<Rightarrow> 'a computed" where
  "returns x = Inr x"

definition raises :: "resolution_exception \<Rightarrow> 'a computed" where
  "raises e = Inl e"

definition seq :: "'a computed \<Rightarrow> ('a \<Rightarrow> 'b computed) \<Rightarrow> 'b computed" where
  "seq m f = (case m of Inl e \<Rightarrow> Inl e | Inr x \<Rightarrow> f x)"

definition checked_value :: "'a checked \<Rightarrow> 'a computed" where
  "checked_value r = map_error InvalidValue r"

definition lookup :: "('k \<times> 'v) list \<Rightarrow> 'k \<Rightarrow> 'v computed" where
  "lookup d k = (case map_of d k of None \<Rightarrow> raises KeyError | Some v \<Rightarrow> returns v)"

lemma seq_simps [simp]:
  "seq (returns x) f = f x" "seq (raises e) f = raises e" "seq (Inr x) f = f x" "seq (Inl e) f = Inl e"
  "seq (checked_value (Inr x)) f = f x"
  by (simp_all add: seq_def returns_def raises_def checked_value_def)

lemma returns_eq [simp]: "returns x = returns y \<longleftrightarrow> x = y" "returns x \<noteq> raises e" "raises e \<noteq> returns x"
  "raises e = raises e' \<longleftrightarrow> e = e'"
  by (auto simp: returns_def raises_def)

lemma seq_eq_returns: "seq m f = returns y \<longleftrightarrow> (\<exists>x. m = returns x \<and> f x = returns y)"
  by (cases m) (auto simp: returns_def)

lemma lookup_simps [simp]: "map_of d k = Some v \<Longrightarrow> lookup d k = returns v"
  by (simp add: lookup_def)

text \<open>A computation gives the result of another one, unless the interpreter stops it.\<close>

definition stops_or :: "'a computed \<Rightarrow> 'a computed \<Rightarrow> bool" where
  "stops_or m m' \<longleftrightarrow> m = raises RecursionError \<or> m = m'"

lemma stops_or_refl [simp, intro]: "stops_or m m"
  by (simp add: stops_or_def)

lemma stops_or_raises [simp, intro]: "stops_or (raises RecursionError) m"
  by (simp add: stops_or_def)

lemma stops_or_seq:
  assumes "stops_or m m'" and "\<And>x. m' = returns x \<Longrightarrow> stops_or (f x) (f' x)"
  shows "stops_or (seq m f) (seq m' f')"
proof (cases m')
  case (Inr x)
  then have "stops_or (f x) (f' x)" using assms(2) [of x] by (simp add: returns_def)
  then show ?thesis using assms(1) Inr by (auto simp: stops_or_def)
qed (use assms(1) in \<open>auto simp: stops_or_def\<close>)

lemma stops_or_returns: "stops_or m m' \<Longrightarrow> m = returns x \<Longrightarrow> m' = returns x"
  by (auto simp: stops_or_def)

section \<open>The code\<close>

record union_find =
  uf_parent :: "(uuid \<times> uuid) list"
  uf_members :: "(uuid \<times> uuid set) list"

definition union_find_init :: "uuid list \<Rightarrow> union_find" where
  "union_find_init identities =
     \<lparr>uf_parent = fold (\<lambda>i d. AList.update i i d) identities [],
      uf_members = fold (\<lambda>i d. AList.update i {i} d) identities []\<rparr>"

fun find_in :: "nat \<Rightarrow> (uuid \<times> uuid) list \<Rightarrow> uuid \<Rightarrow> (uuid \<times> (uuid \<times> uuid) list) computed" where
  "find_in 0 parents identity = raises RecursionError"
| "find_in (Suc frames) parents identity =
     seq (lookup parents identity) (\<lambda>parent.
       if parent \<noteq> identity
       then seq (find_in frames parents parent) (\<lambda>(root, parents').
              returns (root, AList.update identity root parents'))
       else returns (parent, parents))"

definition uf_find :: "nat \<Rightarrow> union_find \<Rightarrow> uuid \<Rightarrow> (uuid \<times> union_find) computed" where
  "uf_find frames s identity =
     seq (find_in frames (uf_parent s) identity) (\<lambda>(root, parents). returns (root, s\<lparr>uf_parent := parents\<rparr>))"

definition uf_join :: "nat \<Rightarrow> union_find \<Rightarrow> uuid \<Rightarrow> uuid \<Rightarrow> union_find computed" where
  "uf_join frames s left right =
     seq (uf_find frames s left) (\<lambda>(left_root, s).
     seq (uf_find frames s right) (\<lambda>(right_root, s).
       if left_root = right_root then returns s
       else let winner = sort [left_root, right_root] ! 0; loser = sort [left_root, right_root] ! 1;
                s = s\<lparr>uf_parent := AList.update loser winner (uf_parent s)\<rparr>
            in seq (lookup (uf_members s) winner) (\<lambda>winner_members.
               seq (lookup (uf_members s) loser) (\<lambda>loser_members.
                 returns (s\<lparr>uf_members := AList.update winner (winner_members \<union> loser_members)
                                (AList.delete loser (uf_members s))\<rparr>)))))"

definition members_of :: "nat \<Rightarrow> union_find \<Rightarrow> uuid \<Rightarrow> (uuid set \<times> union_find) computed" where
  "members_of frames s identity =
     seq (uf_find frames s identity) (\<lambda>(root, s).
     seq (lookup (uf_members s) root) (\<lambda>members. returns (members, s)))"

definition uf_components :: "union_find \<Rightarrow> uuid set list" where
  "uf_components s = map snd (uf_members s)"

section \<open>More frames\<close>

text \<open>With more frames every operation gives the same result or one that was stopped before.\<close>

lemma find_more_frames: "n \<le> k \<Longrightarrow> stops_or (find_in n parents x) (find_in k parents x)"
proof (induction n arbitrary: k x)
  case (Suc n)
  then obtain j where k: "k = Suc j" "n \<le> j" by (cases k) auto
  show ?case unfolding k(1) find_in.simps by (intro stops_or_seq stops_or_refl) (auto intro!: stops_or_seq Suc.IH [OF k(2)])
qed simp

lemma uf_find_more_frames: "n \<le> k \<Longrightarrow> stops_or (uf_find n s x) (uf_find k s x)"
  unfolding uf_find_def by (intro stops_or_seq find_more_frames) auto

lemma members_more_frames: "n \<le> k \<Longrightarrow> stops_or (members_of n s x) (members_of k s x)"
  unfolding members_of_def by (intro stops_or_seq uf_find_more_frames) auto

lemma join_more_frames:
  assumes "n \<le> k"
  shows "stops_or (uf_join n s x y) (uf_join k s x y)"
proof -
  have "stops_or (seq (uf_find n s y) f) (seq (uf_find k s y) f)" for s and f :: "uuid \<times> union_find \<Rightarrow> union_find computed"
    by (intro stops_or_seq uf_find_more_frames assms) auto
  then show ?thesis unfolding uf_join_def by (intro stops_or_seq uf_find_more_frames assms) auto
qed

section \<open>What a client relies on\<close>

lemma trancl_Id_on: "(Id_on A \<union> R)\<^sup>+ \<subseteq> R\<^sup>*"
proof (rule subset_trans)
  show "(Id_on A \<union> R)\<^sup>+ \<subseteq> (R\<^sup>*)\<^sup>+" by (rule trancl_mono_subset) auto
qed simp

text \<open>Joining the ends of a list of edges one after the other.\<close>

fun joins :: "('s \<Rightarrow> uuid \<Rightarrow> uuid \<Rightarrow> 's computed) \<Rightarrow> 's \<Rightarrow> (uuid \<times> uuid) list \<Rightarrow> 's computed" where
  "joins join s [] = returns s"
| "joins join s ((x, y) # edges) = seq (join s x y) (\<lambda>s'. joins join s' edges)"

lemma joins_stops_or:
  assumes "\<And>s x y. stops_or (join s x y) (join' s x y)"
  shows "stops_or (joins join s edges) (joins join' s edges)"
proof (induction edges arbitrary: s)
  case (Cons e edges)
  then show ?case by (cases e) (auto intro!: stops_or_seq assms)
qed simp

locale partition_store =
  fixes ok :: "'s \<Rightarrow> bool"
    and classes :: "'s \<Rightarrow> uuid set set"
    and members :: "'s \<Rightarrow> uuid \<Rightarrow> (uuid set \<times> 's) computed"
    and join :: "'s \<Rightarrow> uuid \<Rightarrow> uuid \<Rightarrow> 's computed"
  assumes classes_disjoint: "ok s \<Longrightarrow> A \<in> classes s \<Longrightarrow> B \<in> classes s \<Longrightarrow> x \<in> A \<Longrightarrow> x \<in> B \<Longrightarrow> A = B"
    and members_law: "ok s \<Longrightarrow> A \<in> classes s \<Longrightarrow> x \<in> A \<Longrightarrow>
      \<exists>s'. members s x = returns (A, s') \<and> ok s' \<and> classes s' = classes s"
    and join_law: "ok s \<Longrightarrow> A \<in> classes s \<Longrightarrow> x \<in> A \<Longrightarrow> B \<in> classes s \<Longrightarrow> y \<in> B \<Longrightarrow>
      \<exists>s'. join s x y = returns s' \<and> ok s' \<and> classes s' = insert (A \<union> B) (classes s - {A, B})"
begin

definition linked :: "'s \<Rightarrow> (uuid \<times> uuid) set" where
  "linked s = {(x, y). \<exists>A \<in> classes s. x \<in> A \<and> y \<in> A}"

lemma linked_trans: "ok s \<Longrightarrow> trans (linked s)"
  unfolding linked_def trans_def using classes_disjoint by blast

lemma join_linked:
  assumes ok: "ok s" and A: "A \<in> classes s" "x \<in> A" and B: "B \<in> classes s" "y \<in> B"
    and c: "classes s' = insert (A \<union> B) (classes s - {A, B})"
  shows "linked s' = (linked s \<union> {(x, y), (y, x)})\<^sup>+" (is "_ = ?R\<^sup>+")
proof (rule set_eqI, rule iffI)
  fix p
  assume "p \<in> linked s'"
  then obtain u v where p: "p = (u, v)" "(u, v) \<in> linked s'" by (cases p) auto
  consider "(u, v) \<in> linked s" | "u \<in> A \<union> B" "v \<in> A \<union> B"
    using p(2) c by (auto simp: linked_def)
  then show "p \<in> ?R\<^sup>+"
  proof cases
    case 2
    have "(w, x) \<in> ?R\<^sup>+ \<and> (x, w) \<in> ?R\<^sup>+" if "w \<in> A \<union> B" for w
    proof (cases "w \<in> A")
      case True
      then have "(w, x) \<in> linked s" "(x, w) \<in> linked s" using A by (auto simp: linked_def)
      then show ?thesis by auto
    next
      case False
      then have "(w, y) \<in> linked s" "(y, w) \<in> linked s" using that B by (auto simp: linked_def)
      then have "(w, y) \<in> ?R\<^sup>+" "(y, w) \<in> ?R\<^sup>+" by auto
      moreover have "(x, y) \<in> ?R\<^sup>+" "(y, x) \<in> ?R\<^sup>+" by auto
      ultimately show ?thesis using trancl_trans [of _ _ ?R] by blast
    qed
    then show ?thesis using 2 p(1) by (meson trancl_trans)
  qed (use p in auto)
next
  fix p
  assume "p \<in> ?R\<^sup>+"
  moreover have "?R \<subseteq> linked s'" using A B c by (auto simp: linked_def)
  moreover have "trans (linked s')"
  proof (rule transI)
    fix u v w
    assume "(u, v) \<in> linked s'" "(v, w) \<in> linked s'"
    then obtain C D where C: "C \<in> classes s'" "u \<in> C" "v \<in> C" and D: "D \<in> classes s'" "v \<in> D" "w \<in> D"
      by (auto simp: linked_def)
    have "C = D"
      using C D c classes_disjoint [OF ok, of C A v] classes_disjoint [OF ok, of C B v]
        classes_disjoint [OF ok, of D A v] classes_disjoint [OF ok, of D B v] classes_disjoint [OF ok, of C D v]
        A(1) B(1) by auto
    then show "(u, w) \<in> linked s'" using C D by (auto simp: linked_def)
  qed
  ultimately show "p \<in> linked s'" using trancl_mono [of p ?R "linked s'"] trancl_id by blast
qed

lemma joins_linked:
  assumes "ok s" and "\<forall>(x, y) \<in> set edges. x \<in> \<Union>(classes s) \<and> y \<in> \<Union>(classes s)"
  shows "\<exists>s'. joins join s edges = returns s' \<and> ok s' \<and> \<Union>(classes s') = \<Union>(classes s)
    \<and> linked s' = (linked s \<union> set edges \<union> (set edges)\<inverse>)\<^sup>+"
  using assms
proof (induction edges arbitrary: s)
  case Nil
  then show ?case using linked_trans by auto
next
  case (Cons e edges)
  obtain x y where e: "e = (x, y)" by (cases e)
  obtain A B where A: "A \<in> classes s" "x \<in> A" and B: "B \<in> classes s" "y \<in> B"
    using Cons.prems(2) e by auto
  obtain s1 where s1: "join s x y = returns s1" "ok s1" "classes s1 = insert (A \<union> B) (classes s - {A, B})"
    using join_law [OF Cons.prems(1) A B] by blast
  have U: "\<Union>(classes s1) = \<Union>(classes s)" using s1(3) A(1) B(1) by auto
  obtain s' where s': "joins join s1 edges = returns s'" "ok s'" "\<Union>(classes s') = \<Union>(classes s1)"
      "linked s' = (linked s1 \<union> set edges \<union> (set edges)\<inverse>)\<^sup>+"
    using Cons.IH [OF s1(2)] Cons.prems(2) U by auto
  have "(linked s1 \<union> set edges \<union> (set edges)\<inverse>)\<^sup>+ = (linked s \<union> set (e # edges) \<union> (set (e # edges))\<inverse>)\<^sup>+"
    (is "?L\<^sup>+ = ?R\<^sup>+")
  proof
    have "linked s1 \<subseteq> ?R\<^sup>+"
      unfolding join_linked [OF Cons.prems(1) A B s1(3)] by (rule trancl_mono_subset) (auto simp: e)
    then have "?L \<subseteq> ?R\<^sup>+" by auto
    then show "?L\<^sup>+ \<subseteq> ?R\<^sup>+" using trancl_mono_subset [of ?L "?R\<^sup>+"] by simp
    have "linked s \<union> {(x, y), (y, x)} \<subseteq> linked s1"
      unfolding join_linked [OF Cons.prems(1) A B s1(3)] by auto
    then show "?R\<^sup>+ \<subseteq> ?L\<^sup>+" by (intro trancl_mono_subset) (auto simp: e)
  qed
  then show ?case using s1(1) s' U e by auto
qed

end

section \<open>The dictionaries implement a partition\<close>

text \<open>
  Below the root, the parent of an identity is a smaller identity of the same class: the chain of
  parents descends and ends at the root, the least member.
\<close>

definition parents_ok :: "(uuid \<rightharpoonup> uuid) \<Rightarrow> uuid \<Rightarrow> uuid set \<Rightarrow> bool" where
  "parents_ok parents r C \<longleftrightarrow> r \<in> C \<and> parents r = Some r
     \<and> (\<forall>x \<in> C. x \<noteq> r \<longrightarrow> (\<exists>p \<in> C. parents x = Some p \<and> p < x))"

definition uf_ok :: "union_find \<Rightarrow> bool" where
  "uf_ok s \<longleftrightarrow> distinct (map fst (uf_members s))
     \<and> (\<forall>(r, C) \<in> set (uf_members s). parents_ok (map_of (uf_parent s)) r C)
     \<and> (\<forall>(r, C) \<in> set (uf_members s). \<forall>(r', C') \<in> set (uf_members s). r \<noteq> r' \<longrightarrow> C \<inter> C' = {})"

lemma finite_uuids [simp]: "finite (A :: uuid set)"
proof (rule finite_subset)
  show "A \<subseteq> range UUID" by (rule subsetI) (metis rangeI uuid.exhaust)
qed simp

text \<open>
  Only parents of the class below the identity change, and they change to the root. The calls of \<open>find\<close>
  descend through members of the class.
\<close>

lemma find_root:
  assumes "parents_ok (map_of parents) r C" and "x \<in> C" and "card {y \<in> C. y \<le> x} \<le> frames"
  shows "\<exists>parents'. find_in frames parents x = returns (r, parents') \<and> r \<le> x
    \<and> (\<forall>y. map_of parents' y = map_of parents y \<or> y \<in> C \<and> r < y \<and> map_of parents' y = Some r)"
  using assms(2,3)
proof (induction frames arbitrary: x)
  case 0
  then have "{y \<in> C. y \<le> x} = {}" by simp
  then show ?case using 0(1) by blast
next
  case (Suc frames)
  show ?case
  proof (cases "x = r")
    case True
    then show ?thesis using assms(1) by (simp add: parents_ok_def)
  next
    case False
    then obtain p where p: "p \<in> C" "map_of parents x = Some p" "p < x"
      using assms(1) Suc.prems(1) by (auto simp: parents_ok_def)
    have "x \<in> {y \<in> C. y \<le> x}" "x \<notin> {y \<in> C. y \<le> p}" "{y \<in> C. y \<le> p} \<subseteq> {y \<in> C. y \<le> x}"
      using p(3) Suc.prems(1) by auto
    then have "{y \<in> C. y \<le> p} \<subset> {y \<in> C. y \<le> x}" by blast
    then have "card {y \<in> C. y \<le> p} < card {y \<in> C. y \<le> x}" by (rule psubset_card_mono [rotated]) simp
    then have "card {y \<in> C. y \<le> p} \<le> frames" using Suc.prems(2) by simp
    then obtain parents' where f: "find_in frames parents p = returns (r, parents')" "r \<le> p"
        "\<forall>y. map_of parents' y = map_of parents y \<or> y \<in> C \<and> r < y \<and> map_of parents' y = Some r"
      using Suc.IH [OF p(1)] by blast
    have "find_in (Suc frames) parents x = returns (r, AList.update x r parents')"
      using p f(1) by auto
    then show ?thesis using f(2,3) p(3) Suc.prems(1) by (auto simp: update_conv')
  qed
qed

text \<open>So the classes and their roots are as before.\<close>

lemma parents_ok_compressed:
  assumes "parents_ok m r C" and "\<forall>y. m' y = m y \<or> y \<in> D \<and> r' < y \<and> m' y = Some r'"
    and "C = D \<longrightarrow> r = r'" and "C \<noteq> D \<longrightarrow> C \<inter> D = {}"
  shows "parents_ok m' r C"
  using assms unfolding parents_ok_def by (metis disjoint_iff order_less_irrefl)

lemma uf_find_law:
  assumes ok: "uf_ok s" and r: "(r, C) \<in> set (uf_members s)" and x: "x \<in> C" and frames: "card C \<le> frames"
  shows "\<exists>s'. uf_find frames s x = returns (r, s') \<and> uf_ok s' \<and> uf_members s' = uf_members s"
proof -
  have "parents_ok (map_of (uf_parent s)) r C" using ok r by (auto simp: uf_ok_def)
  moreover have "card {y \<in> C. y \<le> x} \<le> frames"
    by (rule order_trans [OF card_mono frames]) auto
  ultimately obtain ps where f: "find_in frames (uf_parent s) x = returns (r, ps)"
      "\<forall>y. map_of ps y = map_of (uf_parent s) y \<or> y \<in> C \<and> r < y \<and> map_of ps y = Some r"
    using find_root x by blast
  have "parents_ok (map_of ps) r' C'" if "(r', C') \<in> set (uf_members s)" for r' C'
  proof (rule parents_ok_compressed [OF _ f(2)])
    show "parents_ok (map_of (uf_parent s)) r' C'" using ok that by (auto simp: uf_ok_def)
    show "C' = C \<longrightarrow> r' = r" "C' \<noteq> C \<longrightarrow> C' \<inter> C = {}"
      using ok that r x unfolding uf_ok_def by (fastforce dest: eq_key_imp_eq_value)+
  qed
  then have "uf_ok (s\<lparr>uf_parent := ps\<rparr>)" using ok by (auto simp: uf_ok_def)
  then show ?thesis using f(1) by (simp add: uf_find_def)
qed

definition uf_classes :: "union_find \<Rightarrow> uuid set set" where
  "uf_classes s = set (uf_components s)"

text \<open>Enough frames for every chain of parents.\<close>

definition uf_fits :: "nat \<Rightarrow> union_find \<Rightarrow> bool" where
  "uf_fits frames s \<longleftrightarrow> uf_ok s \<and> card (\<Union>(uf_classes s)) \<le> frames"

lemma in_uf_classes: "A \<in> uf_classes s \<longleftrightarrow> (\<exists>r. (r, A) \<in> set (uf_members s))"
  by (force simp: uf_classes_def uf_components_def)

lemma uf_class_unique:
  assumes "uf_ok s" and "(r, A) \<in> set (uf_members s)" and "(r', B) \<in> set (uf_members s)" and "x \<in> A" and "x \<in> B"
  shows "r = r' \<and> A = B"
proof -
  have "r = r'" using assms unfolding uf_ok_def by blast
  then show ?thesis using assms unfolding uf_ok_def by (metis eq_key_imp_eq_value)
qed

lemma uf_members_lookup:
  "uf_ok s \<Longrightarrow> (r, C) \<in> set (uf_members s) \<Longrightarrow> lookup (uf_members s) r = returns C"
  by (simp add: uf_ok_def map_of_is_SomeI)

text \<open>The loser's class moves under the winner, the smaller root.\<close>

definition merged :: "uuid \<Rightarrow> uuid \<Rightarrow> uuid set \<Rightarrow> union_find \<Rightarrow> union_find" where
  "merged w l C s = s\<lparr>uf_parent := AList.update l w (uf_parent s),
     uf_members := AList.update w C (AList.delete l (uf_members s))\<rparr>"

lemma merged_members:
  assumes "distinct (map fst (uf_members s))"
  shows "set (uf_members (merged w l C s)) = insert (w, C) {(r, A) \<in> set (uf_members s). r \<noteq> w \<and> r \<noteq> l}"
proof -
  have "distinct (map fst (AList.delete l (uf_members s)))" using assms by (rule distinct_delete)
  then have d: "distinct (map fst (uf_members (merged w l C s)))"
    by (simp add: merged_def distinct_update)
  have iff: "(r, A) \<in> set (uf_members (merged w l C s)) \<longleftrightarrow>
      (if r = w then Some C else if r = l then None else map_of (uf_members s) r) = Some A" for r A
    unfolding map_of_eq_Some_iff [OF d, symmetric] by (simp add: merged_def update_conv' delete_conv')
  show ?thesis
  proof (rule set_eqI)
    fix p
    show "p \<in> set (uf_members (merged w l C s)) \<longleftrightarrow>
        p \<in> insert (w, C) {(r, A) \<in> set (uf_members s). r \<noteq> w \<and> r \<noteq> l}"
      by (cases p) (auto simp: iff map_of_eq_Some_iff [OF assms] split: if_splits)
  qed
qed

lemma merged_ok:
  assumes ok: "uf_ok s" and w: "(w, A) \<in> set (uf_members s)" and l: "(l, B) \<in> set (uf_members s)" and "w < l"
  shows "uf_ok (merged w l (A \<union> B) s)"
    and "uf_classes (merged w l (A \<union> B) s) = insert (A \<union> B) (uf_classes s - {A, B})"
proof -
  let ?s = "merged w l (A \<union> B) s"
  have d: "distinct (map fst (uf_members s))" using ok by (simp add: uf_ok_def)
  note set = merged_members [OF d, of w l "A \<union> B"]
  have p: "parents_ok (map_of (uf_parent s)) r C" if "(r, C) \<in> set (uf_members s)" for r C
    using ok that by (auto simp: uf_ok_def)
  have par: "map_of (uf_parent ?s) = (map_of (uf_parent s))(l \<mapsto> w)" by (simp add: merged_def update_conv')
  have lB: "l \<in> B" and wA: "w \<in> A" using p [OF l] p [OF w] by (simp_all add: parents_ok_def)
  have "parents_ok (map_of (uf_parent ?s)) w (A \<union> B)"
    using p [OF w] p [OF l] \<open>w < l\<close> unfolding par parents_ok_def by fastforce
  moreover have "parents_ok (map_of (uf_parent ?s)) r C"
    if r: "(r, C) \<in> {(r, A) \<in> set (uf_members s). r \<noteq> w \<and> r \<noteq> l}" for r C
  proof -
    have "(r, C) \<in> set (uf_members s)" "l \<notin> C" using uf_class_unique [OF ok _ l _ lB] r by blast+
    then show ?thesis using p r unfolding par parents_ok_def by force
  qed
  moreover have "distinct (map fst (uf_members ?s))"
    using distinct_delete [OF d] by (simp add: merged_def distinct_update)
  moreover have "C \<inter> C' = {}" if "(r, C) \<in> set (uf_members ?s)" "(r', C') \<in> set (uf_members ?s)" "r \<noteq> r'" for r r' C C'
    using that uf_class_unique [OF ok] w l unfolding set by blast
  ultimately show "uf_ok ?s" unfolding uf_ok_def by (simp add: set) blast
  have "r = w" if "(r, A) \<in> set (uf_members s)" for r using uf_class_unique [OF ok that w wA wA] by simp
  moreover have "r = l" if "(r, B) \<in> set (uf_members s)" for r using uf_class_unique [OF ok that l lB lB] by simp
  moreover have "C = A" if "(w, C) \<in> set (uf_members s)" for C using that w d by (metis eq_key_imp_eq_value)
  moreover have "C = B" if "(l, C) \<in> set (uf_members s)" for C using that l d by (metis eq_key_imp_eq_value)
  ultimately show "uf_classes ?s = insert (A \<union> B) (uf_classes s - {A, B})"
    unfolding set_eq_iff in_uf_classes set by (auto simp: in_uf_classes)
qed

lemma class_fits: "uf_fits frames s \<Longrightarrow> A \<in> uf_classes s \<Longrightarrow> card A \<le> frames"
  unfolding uf_fits_def by (meson Union_upper card_mono finite_uuids order_trans)

lemma uf_members_law:
  assumes "uf_fits frames s" and "A \<in> uf_classes s" and "x \<in> A"
  shows "\<exists>s'. members_of frames s x = returns (A, s') \<and> uf_fits frames s' \<and> uf_classes s' = uf_classes s"
proof -
  have ok: "uf_ok s" using assms(1) by (simp add: uf_fits_def)
  obtain r where r: "(r, A) \<in> set (uf_members s)" using assms(2) by (auto simp: in_uf_classes)
  obtain s' where s': "uf_find frames s x = returns (r, s')" "uf_ok s'" "uf_members s' = uf_members s"
    using uf_find_law [OF ok r assms(3) class_fits [OF assms(1,2)]] by blast
  have "uf_classes s' = uf_classes s" by (simp add: uf_classes_def uf_components_def s'(3))
  then show ?thesis using uf_members_lookup [of s' r A] r s' assms(1) by (auto simp: members_of_def uf_fits_def)
qed

lemma uf_join_law:
  assumes "uf_fits frames s" and "A \<in> uf_classes s" and "x \<in> A" and "B \<in> uf_classes s" and "y \<in> B"
  shows "\<exists>s'. uf_join frames s x y = returns s' \<and> uf_fits frames s'
    \<and> uf_classes s' = insert (A \<union> B) (uf_classes s - {A, B})"
proof -
  have ok: "uf_ok s" using assms(1) by (simp add: uf_fits_def)
  obtain r t where r: "(r, A) \<in> set (uf_members s)" and t: "(t, B) \<in> set (uf_members s)"
    using assms by (auto simp: in_uf_classes)
  obtain s1 where s1: "uf_find frames s x = returns (r, s1)" "uf_ok s1" "uf_members s1 = uf_members s"
    using uf_find_law [OF ok r assms(3) class_fits [OF assms(1,2)]] by blast
  obtain s2 where s2: "uf_find frames s1 y = returns (t, s2)" "uf_ok s2" "uf_members s2 = uf_members s"
    using uf_find_law [OF s1(2), of t B y frames] t assms(5) s1(3) class_fits [OF assms(1,4)] by auto
  have c: "uf_classes s2 = uf_classes s" by (simp add: uf_classes_def uf_components_def s2(3))
  have rt: "(r, A) \<in> set (uf_members s2)" "(t, B) \<in> set (uf_members s2)" using r t s2(3) by simp_all
  note look = uf_members_lookup [OF s2(2) rt(1)] uf_members_lookup [OF s2(2) rt(2)]
  have fits: "uf_fits frames s'" if "uf_ok s'" "uf_classes s' = insert (A \<union> B) (uf_classes s - {A, B})" for s'
  proof -
    have "\<Union>(uf_classes s') = \<Union>(uf_classes s)" using that(2) assms(2,4) by auto
    then show ?thesis using that(1) assms(1) by (simp add: uf_fits_def)
  qed
  have "\<exists>s'. uf_join frames s x y = returns s' \<and> uf_ok s' \<and> uf_classes s' = insert (A \<union> B) (uf_classes s - {A, B})"
  proof (cases r t rule: linorder_cases)
    case equal
    then have "A = B" using r t ok unfolding uf_ok_def by (metis eq_key_imp_eq_value)
    then show ?thesis using equal s1(1) s2(1,2) c assms(2) by (auto simp: uf_join_def)
  next
    case less
    then have "uf_join frames s x y = returns (merged r t (A \<union> B) s2)"
      using s1(1) s2(1) look by (simp add: uf_join_def Let_def merged_def)
    then show ?thesis using merged_ok [OF s2(2) rt less] c by auto
  next
    case greater
    then have "uf_join frames s x y = returns (merged t r (B \<union> A) s2)"
      using s1(1) s2(1) look by (simp add: uf_join_def Let_def merged_def)
    then show ?thesis using merged_ok [OF s2(2) rt(2,1) greater] c by (auto simp: Un_commute insert_commute)
  qed
  then show ?thesis using fits by blast
qed

lemma uf_classes_disjoint:
  "uf_ok s \<Longrightarrow> A \<in> uf_classes s \<Longrightarrow> B \<in> uf_classes s \<Longrightarrow> x \<in> A \<Longrightarrow> x \<in> B \<Longrightarrow> A = B"
  using uf_class_unique by (metis in_uf_classes)

interpretation uf: partition_store "uf_fits frames" uf_classes "members_of frames" "uf_join frames" for frames
proof
  show "A = B" if "uf_fits frames s" "A \<in> uf_classes s" "B \<in> uf_classes s" "x \<in> A" "x \<in> B" for s A B x
    using that uf_classes_disjoint unfolding uf_fits_def by blast
qed (rule uf_members_law uf_join_law; assumption)+

lemma dict_display:
  assumes "distinct (map fst d)"
  shows "distinct (map fst (fold (\<lambda>i. AList.update i (f i)) ids d))"
    and "map_of (fold (\<lambda>i. AList.update i (f i)) ids d) k = (if k \<in> set ids then Some (f k) else map_of d k)"
  using assms by (induction ids arbitrary: d) (simp_all add: distinct_update update_conv')

lemma union_find_init_ok: "uf_ok (union_find_init ids)"
  and union_find_init_classes: "uf_classes (union_find_init ids) = (\<lambda>i. {i}) ` set ids"
proof -
  note parent = dict_display [of "[]" "\<lambda>i. i" ids] and members = dict_display [of "[]" "\<lambda>i. {i}" ids]
  have iff: "(r, C) \<in> set (uf_members (union_find_init ids)) \<longleftrightarrow> r \<in> set ids \<and> C = {r}" for r C
    using map_of_eq_Some_iff [OF members(1), of r C] members(2) [of r]
    by (auto simp: union_find_init_def split: if_splits)
  then show "uf_ok (union_find_init ids)"
    using parent(2) members(1) by (auto simp: uf_ok_def union_find_init_def parents_ok_def)
  show "uf_classes (union_find_init ids) = (\<lambda>i. {i}) ` set ids"
    by (auto simp: in_uf_classes iff)
qed

lemma union_find_init_fits: "card (set ids) \<le> frames \<Longrightarrow> uf_fits frames (union_find_init ids)"
  by (simp add: uf_fits_def union_find_init_ok union_find_init_classes)

section \<open>Long chains\<close>

text \<open>
  Joining identities in descending order builds a chain of parents through all of them, since no \<open>find\<close>
  starts below its end. A \<open>find\<close> from the first identity then needs a frame for each.
\<close>

fun chained :: "(uuid \<times> uuid) list \<Rightarrow> uuid list \<Rightarrow> bool" where
  "chained parents (x # y # ids) \<longleftrightarrow> map_of parents x = Some y \<and> x \<noteq> y \<and> chained parents (y # ids)"
| "chained parents _ \<longleftrightarrow> True"

lemma chain_overflows: "chained parents (x # ids) \<Longrightarrow> frames \<le> length ids \<Longrightarrow> find_in frames parents x = raises RecursionError"
proof (induction frames arbitrary: x ids)
  case (Suc frames)
  then obtain y ids' where "ids = y # ids'" by (cases ids) auto
  then show ?case using Suc.prems Suc.IH [of y ids'] by auto
qed simp

lemma join_roots:
  assumes "map_of (uf_parent s) x = Some x" and "map_of (uf_parent s) y = Some y" and "y < x"
    and "map_of (uf_members s) x \<noteq> None" and "map_of (uf_members s) y \<noteq> None"
  shows "\<exists>C. uf_join (Suc frames) s x y = returns (merged y x C s)"
  using assms by (auto simp: uf_join_def uf_find_def Let_def merged_def)

lemma descending_joins:
  assumes "sorted_wrt (>) (x # ids)"
    and "\<And>v. v \<in> set (x # ids) \<Longrightarrow> map_of (uf_parent s) v = Some v \<and> map_of (uf_members s) v \<noteq> None"
  shows "\<exists>s'. joins (uf_join (Suc frames)) s (zip (x # ids) ids) = returns s' \<and> chained (uf_parent s') (x # ids)
    \<and> (\<forall>v. v \<notin> set (x # ids) \<longrightarrow> map_of (uf_parent s') v = map_of (uf_parent s) v)"
  using assms
proof (induction ids arbitrary: x s)
  case (Cons y ids)
  obtain C where join: "uf_join (Suc frames) s x y = returns (merged y x C s)"
    using join_roots [of s x y frames] Cons.prems by auto
  have "\<exists>s'. joins (uf_join (Suc frames)) (merged y x C s) (zip (y # ids) ids) = returns s' \<and> chained (uf_parent s') (y # ids)
      \<and> (\<forall>v. v \<notin> set (y # ids) \<longrightarrow> map_of (uf_parent s') v = map_of (uf_parent (merged y x C s)) v)"
  proof (rule Cons.IH)
    fix v assume v: "v \<in> set (y # ids)"
    then have "v \<noteq> x" using Cons.prems(1) by auto
    then show "map_of (uf_parent (merged y x C s)) v = Some v \<and> map_of (uf_members (merged y x C s)) v \<noteq> None"
      using v Cons.prems(2) [of v] by (simp add: merged_def update_conv' delete_conv')
  qed (use Cons.prems(1) in simp)
  then obtain s' where s': "joins (uf_join (Suc frames)) (merged y x C s) (zip (y # ids) ids) = returns s'"
    "chained (uf_parent s') (y # ids)"
    "\<And>v. v \<notin> set (y # ids) \<Longrightarrow> map_of (uf_parent s') v = map_of (uf_parent (merged y x C s)) v" by blast
  have "x \<notin> set (y # ids)" "x \<noteq> y" using Cons.prems(1) by auto
  then show ?case using join s' by (auto simp: merged_def update_conv')
qed simp

lemma descending_chain_overflows:
  assumes "sorted_wrt (>) (x # ids)" and "Suc frames \<le> length ids"
  shows "\<exists>s. joins (uf_join (Suc frames)) (union_find_init (x # ids)) (zip (x # ids) ids) = returns s
    \<and> members_of (Suc frames) s x = raises RecursionError"
proof -
  have "map_of (uf_parent (union_find_init (x # ids))) v = Some v \<and> map_of (uf_members (union_find_init (x # ids))) v \<noteq> None"
    if "v \<in> set (x # ids)" for v
    using that dict_display(2) [of "[]" "\<lambda>i. i" "x # ids" v] dict_display(2) [of "[]" "\<lambda>i. {i}" "x # ids" v]
    by (simp add: union_find_init_def)
  then obtain s where "joins (uf_join (Suc frames)) (union_find_init (x # ids)) (zip (x # ids) ids) = returns s"
    "chained (uf_parent s) (x # ids)"
    using descending_joins [OF assms(1), of "union_find_init (x # ids)" frames] by blast
  then show ?thesis using chain_overflows [OF _ assms(2)] by (auto simp: members_of_def uf_find_def)
qed

end
