(* ===== verification/Edit_Distance.thy ===== *)
theory Edit_Distance
  imports Py_Prelude
begin

text \<open>
  The text similarity of \<^verbatim>\<open>entity_resolution_core/engine.py\<close>: the row-by-row Levenshtein
  loop and the similarity in basis points it feeds. The loop is shown to compute the least number of
  single-character insertions, deletions and substitutions between the two texts.
\<close>

section \<open>The code\<close>

text \<open>The inner loop: \<open>current\<close> grows by one entry for each character of \<open>right\<close>.\<close>

fun levenshtein_row :: "char \<Rightarrow> int list \<Rightarrow> nat \<Rightarrow> string \<Rightarrow> int list \<Rightarrow> int list" where
  "levenshtein_row left_character previous right_index [] current = current"
| "levenshtein_row left_character previous right_index (right_character # right) current =
     levenshtein_row left_character previous (Suc right_index) right
       (current @ [min (min (last current + 1) (previous ! right_index + 1))
          (previous ! (right_index - 1) + (if left_character \<noteq> right_character then 1 else 0))])"

fun levenshtein_rows :: "string \<Rightarrow> int \<Rightarrow> string \<Rightarrow> int list \<Rightarrow> int list" where
  "levenshtein_rows right left_index [] previous = previous"
| "levenshtein_rows right left_index (left_character # left) previous =
     levenshtein_rows right (left_index + 1) left
       (levenshtein_row left_character previous 1 right [left_index])"

definition levenshtein_distance :: "string \<Rightarrow> string \<Rightarrow> int" where
  "levenshtein_distance left right =
     (let (left, right) = (if length left < length right then (right, left) else (left, right))
      in last (levenshtein_rows right 1 left [0..int (length right)]))"

definition similarity_bps :: "string \<Rightarrow> string \<Rightarrow> int" where
  "similarity_bps left right =
     (if left = right then 10000
      else let maximum = int (max (length left) (length right))
           in if maximum = 0 then 10000
              else max 0 ((maximum - levenshtein_distance left right) * 10000 div maximum))"

definition maximum_similarity :: "string list \<Rightarrow> string list \<Rightarrow> int" where
  "maximum_similarity left right =
     (if left = [] \<or> right = [] then 0
      else Max (set (concat (map (\<lambda>a. map (similarity_bps a) right) left))))"

section \<open>Edit steps\<close>

text \<open>One insertion, deletion or substitution of a character.\<close>

inductive edit_step :: "'a list \<Rightarrow> 'a list \<Rightarrow> bool" where
  edit_insert: "edit_step (us @ vs) (us @ x # vs)"
| edit_delete: "edit_step (us @ x # vs) (us @ vs)"
| edit_replace: "edit_step (us @ x # vs) (us @ y # vs)"

definition edit_distance :: "'a list \<Rightarrow> 'a list \<Rightarrow> nat" where
  "edit_distance xs ys = (LEAST n. (edit_step ^^ n) xs ys)"

lemma edit_step_Cons: "edit_step xs ys \<Longrightarrow> edit_step (z # xs) (z # ys)"
  by (induction rule: edit_step.induct) (metis append_Cons edit_step.intros)+

lemma edit_step_sym: "edit_step xs ys \<Longrightarrow> edit_step ys xs"
  by (induction rule: edit_step.induct) (auto intro: edit_step.intros)

lemma edit_step_rev: "edit_step xs ys \<Longrightarrow> edit_step (rev xs) (rev ys)"
proof (induction rule: edit_step.induct)
  case (edit_insert us vs x)
  then show ?case using edit_step.edit_insert [of "rev vs" "rev us" x] by simp
next
  case (edit_delete us x vs)
  then show ?case using edit_step.edit_delete [of "rev vs" x "rev us"] by simp
next
  case (edit_replace us x vs y)
  then show ?case using edit_step.edit_replace [of "rev vs" x "rev us" y] by simp
qed

lemma edit_steps_map:
  assumes "\<And>xs ys. edit_step xs ys \<Longrightarrow> edit_step (f xs) (f ys)" and "(edit_step ^^ n) xs ys"
  shows "(edit_step ^^ n) (f xs) (f ys)"
  using assms(2)
proof (induction n arbitrary: ys)
  case (Suc n)
  then show ?case using assms(1) by (auto elim!: relcomppE)
qed simp

lemma edit_steps_sym: "(edit_step ^^ n) xs ys \<Longrightarrow> (edit_step ^^ n) ys xs"
proof (induction n arbitrary: ys)
  case (Suc n)
  then obtain zs where "(edit_step ^^ n) xs zs" "edit_step zs ys" by auto
  then show ?case using Suc.IH edit_step_sym relpowp_Suc_I2 by metis
qed simp

section \<open>The recursive distance\<close>

fun rec_distance :: "'a list \<Rightarrow> 'a list \<Rightarrow> nat" where
  "rec_distance [] ys = length ys"
| "rec_distance xs [] = length xs"
| "rec_distance (x # xs) (y # ys) =
     min (min (rec_distance (x # xs) ys + 1) (rec_distance xs (y # ys) + 1))
       (rec_distance xs ys + (if x \<noteq> y then 1 else 0))"

lemma rec_distance_Nil2 [simp]: "rec_distance xs [] = length xs"
  by (cases xs) simp_all

text \<open>As many steps as the recursion counts are enough, \<dots>\<close>

lemma rec_distance_steps: "(edit_step ^^ rec_distance xs ys) xs ys"
proof (induction xs ys rule: rec_distance.induct)
  case (1 ys)
  show ?case
  proof (induction ys)
    case (Cons y ys)
    then have "(edit_step ^^ length ys) [] ys" by simp
    moreover have "edit_step ys (y # ys)" using edit_insert [of "[]" ys y] by simp
    ultimately show ?case by auto
  qed simp
next
  case (2 x xs)
  show ?case
  proof (induction xs arbitrary: x)
    case Nil
    then show ?case using edit_delete [of "[]" x "[]"] by auto
  next
    case (Cons z xs)
    moreover have "edit_step (x # z # xs) (z # xs)" using edit_delete [of "[]" x "z # xs"] by simp
    ultimately show ?case using relpowp_Suc_I2 by fastforce
  qed
next
  case (3 x xs y ys)
  have ins: "(edit_step ^^ (rec_distance (x # xs) ys + 1)) (x # xs) (y # ys)"
    using 3(1) edit_insert [of "[]" ys y] by auto
  have del: "(edit_step ^^ (rec_distance xs (y # ys) + 1)) (x # xs) (y # ys)"
    using 3(2) edit_delete [of "[]" x xs] relpowp_Suc_I2 [of edit_step "x # xs" xs] by simp
  have "(edit_step ^^ rec_distance xs ys) (y # xs) (y # ys)"
    by (rule edit_steps_map [OF edit_step_Cons 3(3)])
  then have rep: "(edit_step ^^ (rec_distance xs ys + (if x \<noteq> y then 1 else 0))) (x # xs) (y # ys)"
    using edit_replace [of "[]" x xs y] relpowp_Suc_I2 [of edit_step "x # xs" "y # xs"] by auto
  show ?case using ins del rep by (auto simp: min_def)
qed

text \<open>\<dots> and one step changes what the recursion counts by at most one.\<close>

lemma rec_distance_insert: "rec_distance xs (y # ys) \<le> rec_distance xs ys + 1"
  by (cases xs) simp_all

lemma rec_distance_delete: "rec_distance xs ys \<le> rec_distance xs (y # ys) + 1"
proof (induction xs arbitrary: ys)
  case (Cons x xs)
  have "rec_distance (x # xs) ys \<le> rec_distance xs ys + 1"
  proof (cases ys)
    case (Cons z zs)
    then show ?thesis by simp
  qed simp
  moreover note Cons.IH [of ys]
  ultimately show ?case by auto
qed simp

lemma rec_distance_replace: "rec_distance xs (z # ys) \<le> rec_distance xs (y # ys) + 1"
proof (induction xs)
  case (Cons x xs)
  then show ?case by (auto simp: min_def)
qed simp

lemma rec_distance_context:
  assumes "\<And>xs. rec_distance xs zs \<le> rec_distance xs ys + 1" and "length zs \<le> length ys + 1"
  shows "rec_distance xs (us @ zs) \<le> rec_distance xs (us @ ys) + 1"
proof (induction us arbitrary: xs)
  case (Cons u us)
  show ?case
  proof (induction xs)
    case (Cons x xs)
    then show ?case using Cons.IH \<open>\<And>xs. rec_distance xs (us @ zs) \<le> rec_distance xs (us @ ys) + 1\<close> [of xs]
      \<open>\<And>xs. rec_distance xs (us @ zs) \<le> rec_distance xs (us @ ys) + 1\<close> [of "x # xs"] by (auto simp: min_def)
  qed (use assms(2) in simp)
qed (use assms(1) in simp)

lemma rec_distance_step: "edit_step ys zs \<Longrightarrow> rec_distance xs zs \<le> rec_distance xs ys + 1"
proof (induction rule: edit_step.induct)
  case (edit_insert us vs x)
  show ?case by (rule rec_distance_context [OF rec_distance_insert]) simp
next
  case (edit_delete us x vs)
  show ?case by (rule rec_distance_context [OF rec_distance_delete]) simp
next
  case (edit_replace us x vs y)
  show ?case by (rule rec_distance_context [OF rec_distance_replace]) simp
qed

lemma rec_distance_refl [simp]: "rec_distance xs xs = 0"
  by (induction xs) simp_all

lemma rec_distance_le_steps: "(edit_step ^^ n) xs ys \<Longrightarrow> rec_distance xs ys \<le> n"
proof (induction n arbitrary: ys)
  case (Suc n)
  then obtain zs where "(edit_step ^^ n) xs zs" "edit_step zs ys" by auto
  then show ?case using Suc.IH [of zs] rec_distance_step [of zs ys xs] by simp
qed simp

lemma rec_distance_eq: "rec_distance xs ys = edit_distance xs ys"
  unfolding edit_distance_def
  by (rule Least_equality [symmetric]) (rule rec_distance_steps, rule rec_distance_le_steps)

lemma edit_distance_sym: "edit_distance xs ys = edit_distance ys xs"
proof -
  have "(edit_step ^^ n) xs ys = (edit_step ^^ n) ys xs" for n using edit_steps_sym by metis
  then show ?thesis by (simp add: edit_distance_def)
qed

lemma edit_distance_rev: "edit_distance (rev xs) (rev ys) = edit_distance xs ys"
proof -
  have "(edit_step ^^ n) (rev xs) (rev ys) = (edit_step ^^ n) xs ys" for n
    using edit_steps_map [where f = rev, OF edit_step_rev, of n xs ys]
      edit_steps_map [where f = rev, OF edit_step_rev, of n "rev xs" "rev ys"]
    by auto
  then show ?thesis by (simp add: edit_distance_def)
qed

lemma edit_distance_zero: "edit_distance xs ys = 0 \<longleftrightarrow> xs = ys"
proof
  assume "edit_distance xs ys = 0"
  then show "xs = ys" using rec_distance_steps [of xs ys] by (simp add: rec_distance_eq)
qed (simp flip: rec_distance_eq)

section \<open>The loop computes the distance\<close>

text \<open>Row \<open>i\<close> of the table: the distances of the first \<open>i\<close> characters to every prefix of \<open>right\<close>.\<close>

definition prefix_distance :: "string \<Rightarrow> string \<Rightarrow> nat \<Rightarrow> int" where
  "prefix_distance left right j = int (rec_distance (rev left) (rev (take j right)))"

definition table_row :: "string \<Rightarrow> string \<Rightarrow> int list" where
  "table_row left right = map (prefix_distance left right) [0..<Suc (length right)]"

lemma prefix_distance_0 [simp]: "prefix_distance left right 0 = int (length left)"
  by (simp add: prefix_distance_def)

lemma prefix_distance_Nil: "j \<le> length right \<Longrightarrow> prefix_distance [] right j = int j"
  by (simp add: prefix_distance_def)

lemma prefix_distance_step:
  assumes "j < length right"
  shows "prefix_distance (left @ [c]) right (Suc j) =
    min (min (prefix_distance (left @ [c]) right j + 1) (prefix_distance left right (Suc j) + 1))
      (prefix_distance left right j + (if c \<noteq> right ! j then 1 else 0))"
  using assms by (simp add: prefix_distance_def take_Suc_conv_app_nth min_def)

lemma table_row_nth [simp]: "j \<le> length right \<Longrightarrow> table_row left right ! j = prefix_distance left right j"
  by (simp add: table_row_def del: upt_Suc)

lemma levenshtein_row_eq:
  assumes "right = before @ rest" and "0 < k" and "k = Suc (length before)"
  shows "levenshtein_row c (table_row left right) k rest
      (map (prefix_distance (left @ [c]) right) [0..<k]) = table_row (left @ [c]) right"
  using assms
proof (induction rest arbitrary: before k)
  case Nil
  then show ?case by (simp add: table_row_def)
next
  case (Cons r rest)
  let ?row = "map (prefix_distance (left @ [c]) right)"
  have j: "length before < length right" "right ! length before = r" using Cons.prems(1) by simp_all
  have "last (?row [0..<k]) = prefix_distance (left @ [c]) right (length before)"
    using Cons.prems(3) by simp
  then have "?row [0..<k] @ [min (min (last (?row [0..<k]) + 1) (table_row left right ! k + 1))
      (table_row left right ! (k - 1) + (if c \<noteq> r then 1 else 0))] = ?row [0..<Suc k]"
    using prefix_distance_step [OF j(1), of left c] j Cons.prems(3) by simp
  then show ?case
    using Cons.IH [of "before @ [r]" "Suc k"] Cons.prems by (simp del: upt_Suc)
qed

lemma levenshtein_rows_eq:
  "levenshtein_rows right (int (length seen) + 1) left (table_row seen right) = table_row (seen @ left) right"
proof (induction left arbitrary: seen)
  case (Cons c left)
  have "levenshtein_row c (table_row seen right) 1 right [int (length seen) + 1] = table_row (seen @ [c]) right"
    using levenshtein_row_eq [of right "[]" right 1 c seen] by (simp add: add.commute)
  then show ?case using Cons.IH [of "seen @ [c]"] by (simp add: algebra_simps)
qed simp

lemma initial_row: "[0..int (length right)] = table_row [] right"
  by (rule nth_equalityI) (simp_all add: table_row_def prefix_distance_Nil nth_upto del: upt_Suc)

lemma levenshtein_last: "last (levenshtein_rows right 1 left [0..int (length right)]) = int (edit_distance left right)"
proof -
  have "levenshtein_rows right 1 left [0..int (length right)] = table_row left right"
    using levenshtein_rows_eq [of right "[]" left] by (simp add: initial_row)
  then have "last (levenshtein_rows right 1 left [0..int (length right)]) = prefix_distance left right (length right)"
    by (simp add: table_row_def)
  then show ?thesis by (simp add: prefix_distance_def rec_distance_eq edit_distance_rev)
qed

lemma levenshtein_distance_eq: "levenshtein_distance left right = int (edit_distance left right)"
  by (simp add: levenshtein_distance_def levenshtein_last edit_distance_sym [of right left])

lemma rec_distance_max: "rec_distance xs ys \<le> max (length xs) (length ys)"
  by (induction xs ys rule: rec_distance.induct) auto

lemma int_div_less:
  fixes x m n :: int
  assumes "x < m * n" and "0 < m"
  shows "x div m < n"
proof (rule ccontr)
  assume "\<not> x div m < n"
  then have "m * n \<le> m * (x div m)" using assms(2) by (intro mult_left_mono) simp_all
  moreover have "0 \<le> x mod m" using assms(2) by simp
  ultimately show False using assms(1) mult_div_mod_eq [of m x] by linarith
qed

lemma similarity_bps_cases:
  shows "0 \<le> similarity_bps a b" and "similarity_bps a b \<le> 10000"
    and "similarity_bps a b = 10000 \<longleftrightarrow> a = b" and "similarity_bps a b = similarity_bps b a"
proof -
  let ?m = "int (max (length a) (length b))" and ?d = "int (edit_distance a b)"
  have d: "?d \<le> ?m" using rec_distance_max [of a b] by (simp add: rec_distance_eq)
  have eq: "similarity_bps a b = (if a = b then 10000 else (?m - ?d) * 10000 div ?m)"
  proof (cases "a = b")
    case False
    then have "0 < ?m" "\<not> (a = [] \<and> b = [])" by (cases a; cases b; simp)+
    then show ?thesis
      using False d by (simp add: similarity_bps_def Let_def levenshtein_distance_eq pos_imp_zdiv_nonneg_iff)
  qed (simp add: similarity_bps_def)
  have less: "(?m - ?d) * 10000 div ?m < 10000" if "a \<noteq> b"
  proof -
    have "0 < ?m" using that by (cases a; cases b) auto
    moreover have "0 < ?d" using that edit_distance_zero [of a b] by simp
    ultimately have "(?m - ?d) * 10000 < ?m * 10000" by simp
    then show ?thesis using \<open>0 < ?m\<close> by (rule int_div_less)
  qed
  have nonneg: "0 \<le> (?m - ?d) * 10000 div ?m" using d by (simp add: div_int_pos_iff)
  show "0 \<le> similarity_bps a b" "similarity_bps a b \<le> 10000" "similarity_bps a b = 10000 \<longleftrightarrow> a = b"
    using eq less nonneg by auto
  have m: "max (length b) (length a) = max (length a) (length b)" by simp
  show "similarity_bps a b = similarity_bps b a"
    unfolding similarity_bps_def levenshtein_distance_eq edit_distance_sym [of b a] m by auto
qed

end
