(* ===== verification/Resolution_Engine.thy ===== *)
theory Resolution_Engine
  imports Resolution_Snapshots Union_Find Edit_Distance
begin

text \<open>
  \<^verbatim>\<open>entity_resolution_core/engine.py\<close>: the pairs of a batch that share a blocking key, the features
  and the disposition of a pair, and the clusters the accepted pairs form under the manual separations.

  Sets are HOL sets; \<open>sorted(set(...))\<close> is \<^const>\<open>sorted_list_of_set\<close>. Where the code iterates over
  a set, the order is that of the identities: the results are sorted afterwards or do not depend on it.
\<close>

section \<open>Blocking keys\<close>

definition website_hosts :: "resolution_candidate \<Rightarrow> string list checked" where
  "website_hosts candidate =
     result_bind (traverse (\<lambda>value. result_bind (urlsplit value) (\<lambda>parsed.
         Inr (case url_hostname parsed of None \<Rightarrow> [] | Some host \<Rightarrow> host))) (rc_website_urls candidate))
       (\<lambda>hosts. Inr (sorted_list_of_set (set hosts)))"

text \<open>\<open>re.compile(r"[a-z0-9]+").findall\<close>: the maximal runs, \<open>run\<close> being the one under way.\<close>

fun token_findall :: "string \<Rightarrow> string \<Rightarrow> string list" where
  "token_findall run [] = (if run = [] then [] else [run])"
| "token_findall run (c # cs) =
     (if is_lower c \<or> is_digit c then token_findall (run @ [c]) cs
      else (if run = [] then [] else [run]) @ token_findall [] cs)"

fun space_separated :: "string list \<Rightarrow> string" where
  "space_separated [] = []"
| "space_separated [x] = x"
| "space_separated (x # xs) = x @ '' '' @ space_separated xs"

definition text_block_keys :: "string \<Rightarrow> string \<Rightarrow> string \<Rightarrow> string list" where
  "text_block_keys prefix kind value =
     (let tokens = sorted_list_of_set (set (token_findall [] value))
      in if tokens = [] then []
         else sorted_list_of_set (insert (prefix @ '':'' @ kind @ '':exact:'' @ space_separated tokens)
           (set (map (\<lambda>token. prefix @ '':'' @ kind @ '':prefix:'' @ take 4 token)
              (filter (\<lambda>token. 4 \<le> length token) tokens)))))"

text \<open>The keys of one candidate, in the order its identity is appended to their buckets.\<close>

definition block_keys :: "resolution_candidate \<Rightarrow> string list checked" where
  "block_keys candidate =
     result_bind (website_hosts candidate) (\<lambda>hosts.
       let kind = entity_kind_value (rc_entity_kind candidate)
       in Inr (map (\<lambda>value. ''phone:'' @ value) (rc_phones candidate)
            @ map (\<lambda>value. ''email:'' @ value) (rc_emails candidate)
            @ map (\<lambda>value. ''website:'' @ value) hosts
            @ concat (map (text_block_keys ''name'' kind) (rc_names candidate))
            @ concat (map (text_block_keys ''address'' kind) (rc_addresses candidate))))"

definition bucket_append :: "uuid \<Rightarrow> string \<Rightarrow> (string \<times> uuid list) list \<Rightarrow> (string \<times> uuid list) list" where
  "bucket_append identity key buckets =
     AList.update key ((case map_of buckets key of None \<Rightarrow> [] | Some identities \<Rightarrow> identities) @ [identity]) buckets"

fun fill_buckets :: "resolution_candidate list \<Rightarrow> (string \<times> uuid list) list \<Rightarrow> (string \<times> uuid list) list checked" where
  "fill_buckets [] buckets = Inr buckets"
| "fill_buckets (candidate # candidates) buckets =
     result_bind (block_keys candidate) (\<lambda>keys.
       fill_buckets candidates (fold (bucket_append (rc_candidate_id candidate)) keys buckets))"

section \<open>Generated pairs\<close>

text \<open>\<open>itertools.combinations(ordered, 2)\<close>\<close>

fun combinations2 :: "'a list \<Rightarrow> ('a \<times> 'a) list" where
  "combinations2 [] = []"
| "combinations2 (x # xs) = map (Pair x) xs @ combinations2 xs"

fun add_pairs :: "int \<Rightarrow> string \<Rightarrow> (uuid \<times> uuid) list \<Rightarrow> (uuid \<times> uuid) set
    \<Rightarrow> resolution_exception + (uuid \<times> uuid) set" where
  "add_pairs limit message [] generated = Inr generated"
| "add_pairs limit message (pair # pairs) generated =
     (let generated = insert pair generated
      in if limit < int (card generated) then Inl (ResolutionError ''RESOLUTION_PAIR_LIMIT_EXCEEDED'' message)
         else add_pairs limit message pairs generated)"

definition generate_pairs :: "resolution_batch \<Rightarrow> resolution_exception + (uuid \<times> uuid) list" where
  "generate_pairs batch =
     (let limit = pair_limit (rb_thresholds batch)
      in result_bind (map_error InvalidValue (fill_buckets (rb_candidates batch) [])) (\<lambda>buckets.
         result_bind (add_pairs limit ''Generated candidate pairs exceed the declared batch limit.''
             (concat (map (\<lambda>identities. combinations2 (sorted_list_of_set (set identities))) (map snd buckets))) {})
           (\<lambda>generated.
         result_bind (add_pairs limit ''Manual decisions exceed the declared candidate-pair limit.''
             (map decision_pair (rb_manual_decisions batch)) generated)
           (\<lambda>generated. Inr (sorted_list_of_set generated)))))"

section \<open>Pair resolution\<close>

definition geography_compatible :: "resolution_candidate \<Rightarrow> resolution_candidate \<Rightarrow> bool" where
  "geography_compatible left right \<longleftrightarrow>
     (let coverages = {gr_coverage (rc_geography left), gr_coverage (rc_geography right)}
      in \<not> (OUTSIDE \<in> coverages \<and> coverages \<inter> {INSIDE, BOUNDARY} \<noteq> {}))"

definition is_primary_review_scope :: "resolution_candidate \<Rightarrow> bool" where
  "is_primary_review_scope candidate \<longleftrightarrow> gr_coverage (rc_geography candidate) \<in> {INSIDE, BOUNDARY}"

definition disposition_of :: "pair_features \<Rightarrow> resolution_candidate \<Rightarrow> resolution_candidate \<Rightarrow> resolution_batch
    \<Rightarrow> manual_resolution_decision option \<Rightarrow> match_disposition \<times> string list" where
  "disposition_of f left right batch decision =
     (let action = map_option md_action decision; thresholds = rb_thresholds batch;
          fuzzy = (name_review_minimum_bps thresholds \<le> pf_name_similarity_bps f
                   \<or> address_review_minimum_bps thresholds \<le> pf_address_similarity_bps f)
      in if action = Some SEPARATE then (MANUAL_SEPARATE, [''MANUAL_SEPARATION''])
         else if \<not> pf_entity_kind_compatible f then (NO_MATCH, [''ENTITY_KIND_MISMATCH''])
         else if action = Some MATCH then (MANUAL_MATCH, [''MANUAL_MATCH''])
         else if pf_geography_compatible f \<and> (pf_exact_phone_overlap f \<or> pf_exact_email_overlap f)
         then (AUTO_MATCH, (if pf_exact_phone_overlap f then [''EXACT_PHONE_MATCH''] else [])
                           @ (if pf_exact_email_overlap f then [''EXACT_EMAIL_MATCH''] else []))
         else if pf_geography_compatible f \<and> pf_exact_website_host_overlap f
              \<and> website_auto_match_minimum_strong_features thresholds \<le> pf_strong_non_name_feature_count f
         then (AUTO_MATCH, [''CORROBORATED_WEBSITE_MATCH''])
         else if pf_geography_compatible f \<and> pf_address_similarity_bps f = 10000
              \<and> address_auto_match_minimum_strong_features thresholds \<le> pf_strong_non_name_feature_count f
         then (AUTO_MATCH, [''CORROBORATED_ADDRESS_MATCH''])
         else if fuzzy \<and> is_primary_review_scope left \<and> is_primary_review_scope right
         then (REVIEW_REQUIRED, [fuzzy_primary_area_review_reason_code thresholds])
         else if fuzzy \<or> pf_name_only f \<or> pf_exact_website_host_overlap f
         then (REVIEW_REQUIRED, [''AMBIGUOUS_MATCH_REQUIRES_REVIEW''])
         else if \<not> pf_geography_compatible f then (NO_MATCH, [''GEOGRAPHY_CONFLICT''])
         else (NO_MATCH, [''INSUFFICIENT_MATCH_EVIDENCE'']))"

definition exact_address :: "resolution_candidate \<Rightarrow> resolution_candidate \<Rightarrow> bool" where
  "exact_address left right \<longleftrightarrow> maximum_similarity (rc_addresses left) (rc_addresses right) = 10000
     \<and> rc_addresses left \<noteq> [] \<and> rc_addresses right \<noteq> []"

definition pair_features_of :: "resolution_candidate \<Rightarrow> resolution_candidate \<Rightarrow> string \<Rightarrow> string list \<Rightarrow> string list
    \<Rightarrow> pair_features" where
  "pair_features_of left right pair_id left_hosts right_hosts =
     (let exact_phone = set (rc_phones left) \<inter> set (rc_phones right) \<noteq> {};
          exact_email = set (rc_emails left) \<inter> set (rc_emails right) \<noteq> {};
          exact_website = set left_hosts \<inter> set right_hosts \<noteq> {};
          name_similarity = maximum_similarity (rc_names left) (rc_names right);
          address_similarity = maximum_similarity (rc_addresses left) (rc_addresses right)
      in \<lparr>pf_pair_id = pair_id,
          pf_left_candidate_id = rc_candidate_id left,
          pf_right_candidate_id = rc_candidate_id right,
          pf_exact_phone_overlap = exact_phone,
          pf_exact_email_overlap = exact_email,
          pf_exact_website_host_overlap = exact_website,
          pf_name_similarity_bps = name_similarity,
          pf_address_similarity_bps = address_similarity,
          pf_entity_kind_compatible = (rc_entity_kind left = rc_entity_kind right),
          pf_geography_compatible = geography_compatible left right,
          pf_source_overlap_count = int (card (set (rc_source_keys left) \<inter> set (rc_source_keys right))),
          pf_strong_non_name_feature_count = of_bool exact_phone + of_bool exact_email + of_bool exact_website
            + of_bool (exact_address left right),
          pf_name_only = (0 < name_similarity \<and> \<not> exact_phone \<and> \<not> exact_email \<and> \<not> exact_website
            \<and> address_similarity = 0)\<rparr>)"

definition evidence_strength :: "pair_features \<Rightarrow> bool \<Rightarrow> int" where
  "evidence_strength f exact_addr = min 100000
     (of_bool (pf_exact_phone_overlap f) * 30000 + of_bool (pf_exact_email_overlap f) * 30000
      + of_bool (pf_exact_website_host_overlap f) * 15000 + of_bool exact_addr * 15000
      + pf_name_similarity_bps f + pf_address_similarity_bps f)"

definition resolve_pair :: "resolution_candidate \<Rightarrow> resolution_candidate \<Rightarrow> resolution_batch
    \<Rightarrow> manual_resolution_decision option \<Rightarrow> pair_resolution checked" where
  "resolve_pair left right batch decision =
     result_bind (candidate_pair_id (rc_candidate_id left) (rc_candidate_id right)) (\<lambda>pair_id.
     result_bind (website_hosts left) (\<lambda>left_hosts.
     result_bind (website_hosts right) (\<lambda>right_hosts.
     result_bind (make_pair_features (pair_features_of left right pair_id left_hosts right_hosts)) (\<lambda>features.
       let (disposition, reasons) = disposition_of features left right batch decision
       in make_pair_resolution
            \<lparr>pr_features = features, pr_disposition = disposition, pr_reason_codes = sort reasons,
             pr_evidence_strength = (if disposition = MANUAL_MATCH then 100000
               else evidence_strength features (exact_address left right))\<rparr>))))"

section \<open>Clusters\<close>

fun traverse_computed :: "('a \<Rightarrow> 'b computed) \<Rightarrow> 'a list \<Rightarrow> 'b list computed" where
  "traverse_computed f [] = returns []"
| "traverse_computed f (x # xs) = seq (f x) (\<lambda>y. seq (traverse_computed f xs) (\<lambda>ys. returns (y # ys)))"

definition separation_between :: "uuid set \<Rightarrow> uuid set \<Rightarrow> ((uuid \<times> uuid) \<times> string) list
    \<Rightarrow> ((uuid \<times> uuid) \<times> string) option" where
  "separation_between left_members right_members separation_pairs =
     (let conflicts = concat (map (\<lambda>left. concat (map (\<lambda>right.
              let pair = sort [left, right]; pair_key = (pair ! 0, pair ! 1)
              in case map_of separation_pairs pair_key of None \<Rightarrow> [] | Some pair_id \<Rightarrow> [(pair_key, pair_id)])
            (sorted_list_of_set right_members))) (sorted_list_of_set left_members))
      in if conflicts = [] then None else Some (arg_min_list snd conflicts))"

definition separation_pairs_of :: "resolution_batch \<Rightarrow> ((uuid \<times> uuid) \<times> string) list checked" where
  "separation_pairs_of batch =
     result_bind (traverse (\<lambda>item. result_bind
         (candidate_pair_id (md_left_candidate_id item) (md_right_candidate_id item))
         (\<lambda>pair_id. Inr (decision_pair item, pair_id)))
       (filter (\<lambda>item. md_action item = SEPARATE) (rb_manual_decisions batch)))
       (\<lambda>items. Inr (dict_of fst snd items))"

definition accepted_edges :: "pair_resolution list \<Rightarrow> pair_resolution list" where
  "accepted_edges pair_resolutions =
     sort_key (\<lambda>item. (if pr_disposition item = MANUAL_MATCH then 0 else 1 :: int,
                       - pr_evidence_strength item, pair_id_of item))
       (filter (\<lambda>item. pr_disposition item \<in> {MANUAL_MATCH, AUTO_MATCH}) pair_resolutions)"

definition blocked_edge :: "pair_resolution \<Rightarrow> string \<Rightarrow> blocked_match_edge" where
  "blocked_edge edge separation_pair_id =
     \<lparr>be_blocked_edge_id = json_digest (JList [JStr (pair_id_of edge), JStr separation_pair_id,
        JStr ''transitive-separation'']),
      be_attempted_pair_id = pair_id_of edge,
      be_separation_pair_id = separation_pair_id,
      be_reason_code = ''EXPLICIT_SEPARATION_TRANSITIVE_BLOCK''\<rparr>"

text \<open>The loop over the accepted edges.\<close>

fun merge_edges :: "nat \<Rightarrow> ((uuid \<times> uuid) \<times> string) list \<Rightarrow> pair_resolution list \<Rightarrow> union_find
    \<Rightarrow> blocked_match_edge list \<Rightarrow> (blocked_match_edge list \<times> union_find) computed" where
  "merge_edges frames separation_pairs [] uf blocked = returns (blocked, uf)"
| "merge_edges frames separation_pairs (edge # accepted) uf blocked =
     (let left = pf_left_candidate_id (pr_features edge); right = pf_right_candidate_id (pr_features edge)
      in seq (members_of frames uf left) (\<lambda>(left_members, uf).
         seq (members_of frames uf right) (\<lambda>(right_members, uf).
           if left_members = right_members then merge_edges frames separation_pairs accepted uf blocked
           else case separation_between left_members right_members separation_pairs of
                  Some conflict \<Rightarrow>
                    seq (checked_value (make_blocked_match_edge (blocked_edge edge (snd conflict)))) (\<lambda>item.
                      merge_edges frames separation_pairs accepted uf (blocked @ [item]))
                | None \<Rightarrow>
                    seq (uf_join frames uf left right) (\<lambda>uf.
                      merge_edges frames separation_pairs accepted uf blocked))))"

text \<open>\<open>next\<close> without a match raises inside the generator expression, which makes it a \<open>RuntimeError\<close>.\<close>

definition pair_touches_members :: "string \<Rightarrow> pair_resolution list \<Rightarrow> uuid set \<Rightarrow> bool computed" where
  "pair_touches_members pair_id pair_resolutions members =
     (case List.find (\<lambda>item. pair_id_of item = pair_id) pair_resolutions of
        None \<Rightarrow> raises RuntimeError
      | Some item \<Rightarrow> returns (pf_left_candidate_id (pr_features item) \<in> members
                             \<or> pf_right_candidate_id (pr_features item) \<in> members))"

definition lineage_kind :: "uuid set \<Rightarrow> prior_cluster list \<Rightarrow> cluster_lineage_kind" where
  "lineage_kind members parents =
     (let parent_sets = map (\<lambda>item. set (prior_member_candidate_ids item)) parents
      in if parents = [] then Lineage_NEW
         else if length parent_sets = 1 \<and> parent_sets ! 0 = members then UNCHANGED
         else if length parent_sets = 1 \<and> members \<subset> parent_sets ! 0 then SPLIT
         else if 1 < length parent_sets \<and> \<Union>(set parent_sets) = members then MERGE
         else RECOMBINED)"

definition cluster_parents :: "resolution_batch \<Rightarrow> uuid list \<Rightarrow> prior_cluster list" where
  "cluster_parents batch members =
     sort_key prior_cluster_id (filter (\<lambda>parent. set members \<inter> set (prior_member_candidate_ids parent) \<noteq> {})
       (rb_prior_clusters batch))"

definition parent_json :: "resolution_batch \<Rightarrow> prior_cluster \<Rightarrow> json computed" where
  "parent_json batch parent =
     seq (lookup (dict_of prior_cluster_id (\<lambda>item. item) (rb_prior_clusters batch)) (prior_cluster_id parent))
       (\<lambda>prior. returns (JObj
         [(''clusterId'', JStr (uuid_str (prior_cluster_id parent))),
          (''memberCandidateIds'', uuids_json (prior_member_candidate_ids parent)),
          (''contentDigest'', JStr (prior_content_digest prior))]))"

definition build_cluster :: "resolution_batch \<Rightarrow> pair_resolution list \<Rightarrow> blocked_match_edge list
    \<Rightarrow> uuid list \<Rightarrow> resolved_cluster computed" where
  "build_cluster batch pair_resolutions blocked members =
     (let parents = cluster_parents batch members
      in seq (traverse_computed (parent_json batch) parents) (\<lambda>parent_items.
         seq (traverse_computed (\<lambda>item. seq
                (pair_touches_members (be_attempted_pair_id item) pair_resolutions (set members))
                (\<lambda>touches. returns (touches, be_blocked_edge_id item))) blocked) (\<lambda>touched.
         seq (checked_value (deterministic_cluster_id members)) (\<lambda>cluster_id.
           checked_value (make_resolved_cluster
             \<lparr>cl_cluster_id = cluster_id,
              cl_member_candidate_ids = members,
              cl_parent_cluster_ids = map prior_cluster_id parents,
              cl_lineage_kind = lineage_kind (set members) parents,
              cl_parent_membership_digest = json_digest (JList parent_items),
              cl_blocked_match_edge_ids = map snd (filter fst touched)\<rparr>)))))"

definition cluster_members :: "union_find \<Rightarrow> uuid list list" where
  "cluster_members uf = sort_key hd (map sorted_list_of_set (uf_components uf))"

definition build_clusters :: "nat \<Rightarrow> resolution_batch \<Rightarrow> pair_resolution list
    \<Rightarrow> (blocked_match_edge list \<times> resolved_cluster list) computed" where
  "build_clusters frames batch pair_resolutions =
     seq (checked_value (separation_pairs_of batch)) (\<lambda>separation_pairs.
     seq (merge_edges frames separation_pairs (accepted_edges pair_resolutions)
            (union_find_init (map rc_candidate_id (rb_candidates batch))) []) (\<lambda>(blocked, uf).
       let blocked_tuple = sort_key be_blocked_edge_id blocked
       in seq (traverse_computed (build_cluster batch pair_resolutions blocked_tuple) (cluster_members uf))
            (\<lambda>clusters. returns (blocked_tuple, sort_key cl_cluster_id clusters))))"

section \<open>Resolution\<close>

record resolution_core_result =
  core_pair_resolutions :: "pair_resolution list"
  core_blocked_match_edges :: "blocked_match_edge list"
  core_clusters :: "resolved_cluster list"
  core_pending_review_pair_ids :: "string list"

definition resolve_pairs :: "resolution_batch \<Rightarrow> (uuid \<times> uuid) list \<Rightarrow> pair_resolution list computed" where
  "resolve_pairs batch pairs =
     (let candidates = dict_of rc_candidate_id (\<lambda>item. item) (rb_candidates batch);
          decisions = dict_of decision_pair (\<lambda>item. item) (rb_manual_decisions batch)
      in seq (traverse_computed (\<lambda>(left, right).
           seq (lookup candidates left) (\<lambda>left_candidate.
           seq (lookup candidates right) (\<lambda>right_candidate.
             checked_value (resolve_pair left_candidate right_candidate batch (map_of decisions (left, right))))))
           pairs) (\<lambda>items. returns (sort_key pair_id_of items)))"

definition resolve_entities :: "nat \<Rightarrow> resolution_batch \<Rightarrow> resolution_core_result computed" where
  "resolve_entities frames batch =
     seq (checked_value (verify_resolution_batch batch)) (\<lambda>_.
       if readiness_value (rb_market_area_readiness batch) \<noteq> ''ready''
       then raises (ResolutionError ''RESOLUTION_MARKET_AREA_BLOCKED''
              ''Entity resolution requires a ready exact market-area revision.'')
       else seq (generate_pairs batch) (\<lambda>pairs.
            seq (resolve_pairs batch pairs) (\<lambda>pair_resolutions.
            seq (build_clusters frames batch pair_resolutions) (\<lambda>(blocked_edges, clusters).
              returns \<lparr>core_pair_resolutions = pair_resolutions,
                core_blocked_match_edges = blocked_edges, core_clusters = clusters,
                core_pending_review_pair_ids =
                  map pair_id_of (filter (\<lambda>item. pr_disposition item = REVIEW_REQUIRED) pair_resolutions)\<rparr>))))"

end
