(* ===== verification/Resolution_Validity.thy ===== *)
theory Resolution_Validity
  imports Resolution_Engine
begin

text \<open>
  What a verified batch guarantees, and that resolving a pair of its candidates always yields a
  pair resolution that passes the checks of its models.
\<close>

section \<open>Verified batches\<close>

lemmas shared_checks = res_require_digest_def res_require_token_def res_require_code_def
  res_require_canonical_pair_def res_require_sorted_unique_uuids_def res_require_sorted_unique_strings_def
  res_require_sorted_unique_normalized_def res_require_sorted_unique_enums_def max_length_def in_range_def

lemma unit_checked: "(c :: unit checked) = Inr u \<longleftrightarrow> c = Inr ()"
  by (cases c) auto

lemma sorted_unique_iff:
  fixes xs :: "'a :: linorder list"
  shows "xs = sorted_list_of_set (set xs) \<longleftrightarrow> sorted xs \<and> distinct xs"
  using sorted_list_of_set.idem_if_sorted_distinct [of xs]
    sorted_list_of_set.strict_sorted_key_list_of_set [of "set xs"]
  by (metis strict_sorted_iff)

definition valid_resolution_batch :: "resolution_batch \<Rightarrow> bool" where
  "valid_resolution_batch b \<longleftrightarrow> validate_batch b = Inr ()"

lemma verified_valid: "verify_resolution_batch b = Inr u \<Longrightarrow> valid_resolution_batch b"
  by (simp add: verify_resolution_batch_def valid_resolution_batch_def)

lemma validate_batch_Inr:
  assumes "valid_resolution_batch b"
  shows valid_candidates: "\<And>c. c \<in> set (rb_candidates b) \<Longrightarrow> validate_candidate c = Inr ()"
    and valid_decisions: "\<And>d. d \<in> set (rb_manual_decisions b) \<Longrightarrow> validate_manual_resolution_decision d = Inr ()"
    and valid_priors: "\<And>p. p \<in> set (rb_prior_clusters b) \<Longrightarrow> validate_prior_cluster p = Inr ()"
    and valid_rules: "\<And>r. r \<in> set (rb_quality_rules b) \<Longrightarrow> validate_rule r = Inr ()"
    and valid_batch_thresholds: "validate_thresholds (rb_thresholds b) = Inr ()"
    and candidate_count: "length (rb_candidates b) \<le> 10000"
    and prior_count: "length (rb_prior_clusters b) \<le> 10000"
    and candidate_ids_sorted: "sorted (map rc_candidate_id (rb_candidates b))"
    and candidate_ids_distinct: "distinct (map rc_candidate_id (rb_candidates b))"
    and decision_candidates: "\<And>d. d \<in> set (rb_manual_decisions b) \<Longrightarrow>
      md_left_candidate_id d \<in> rc_candidate_id ` set (rb_candidates b)
      \<and> md_right_candidate_id d \<in> rc_candidate_id ` set (rb_candidates b)"
    and decision_pairs_distinct: "distinct (map decision_pair (rb_manual_decisions b))"
    and prior_ids_distinct: "distinct (map prior_cluster_id (rb_prior_clusters b))"
    and batch_market_area: "res_require_token n (rb_market_area_revision b) = Inr ()"
      "res_require_digest n (rb_market_area_digest b) = Inr ()"
  using assms unfolding valid_resolution_batch_def validate_batch_def Let_def
  by (auto simp: checks_append checks_map max_length_def list_all_iff
      res_require_sorted_unique_uuids_def sorted_unique_iff res_require_token_def res_require_digest_def)

lemma decision_ordered:
  assumes "valid_resolution_batch b" and "d \<in> set (rb_manual_decisions b)"
  shows "md_left_candidate_id d < md_right_candidate_id d"
  using valid_decisions [OF assms]
  by (auto simp: validate_manual_resolution_decision_def validate_decision_def res_require_canonical_pair_def)

section \<open>Hosts\<close>

lemma website_hosts_total:
  assumes "validate_candidate c = Inr ()"
  shows "\<exists>hosts. website_hosts c = Inr hosts"
proof -
  have "\<exists>parsed. urlsplit v = Inr parsed" if "v \<in> set (rc_website_urls c)" for v
    using assms that by (auto simp: validate_candidate_def checks_append checks_map require_canonical_http_url_def
        result_bind_eq_Inr)
  then have "\<exists>hosts. traverse (\<lambda>value. result_bind (urlsplit value) (\<lambda>parsed.
         Inr (case url_hostname parsed of None \<Rightarrow> [] | Some host \<Rightarrow> host))) urls = Inr hosts"
    if "set urls \<subseteq> set (rc_website_urls c)" for urls
    using that by (induction urls) fastforce+
  then show ?thesis by (fastforce simp: website_hosts_def)
qed

section \<open>Texts\<close>

lemma py_strip_graphic:
  assumes "list_all (\<lambda>c. 33 \<le> (of_char c :: nat) \<and> (of_char c :: nat) \<le> 126) s"
  shows "py_strip s = s"
proof -
  have no: "\<not> py_isspace c" if "c \<in> set s" for c
  proof -
    have "33 \<le> (of_char c :: nat)" "(of_char c :: nat) \<le> 126" using assms that by (simp_all add: list_all_iff)
    then show ?thesis by (auto simp: py_isspace_def)
  qed
  have "dropWhile py_isspace xs = xs" if "set xs = set s" for xs
    using that no by (cases xs) auto
  then show ?thesis by (simp add: py_strip_def)
qed

lemma code_pattern_strip:
  assumes "code_pattern v"
  shows "v \<noteq> [] \<and> py_strip v = v"
proof
  obtain c cs where v: "v = c # cs" and c: "is_upper c"
      and cs: "list_all (\<lambda>c. is_upper c \<or> is_digit c \<or> c = CHR ''_'') cs"
    using assms by (cases v) (auto simp: code_pattern_def head_tail_pattern_def)
  show "v \<noteq> []" by (simp add: v)
  have "list_all (\<lambda>c. 33 \<le> (of_char c :: nat) \<and> (of_char c :: nat) \<le> 126) cs"
    by (rule list.pred_mono_strong [OF cs]) (auto simp: is_upper_def is_digit_def char_between_def)
  then show "py_strip v = v"
    using c by (intro py_strip_graphic) (simp add: v is_upper_def char_between_def)
qed

lemma sha256_pattern_strip:
  assumes "sha256_pattern v"
  shows "v \<noteq> [] \<and> py_strip v = v"
proof
  show "v \<noteq> []" using assms by (auto simp: sha256_pattern_def)
  have v: "v = ''sha256:'' @ drop 7 v" using assms append_take_drop_id [of 7 v] by (simp add: sha256_pattern_def)
  have "list_all is_lower_hex (drop 7 v)" using assms by (simp add: sha256_pattern_def)
  then have "list_all (\<lambda>c. 33 \<le> (of_char c :: nat) \<and> (of_char c :: nat) \<le> 126) (drop 7 v)"
    by (rule list.pred_mono_strong) (auto simp: is_lower_hex_def is_digit_def char_between_def)
  then have "list_all (\<lambda>c. 33 \<le> (of_char c :: nat) \<and> (of_char c :: nat) \<le> 126) (''sha256:'' @ drop 7 v)"
    by simp
  then show "py_strip v = v" unfolding v [symmetric] by (rule py_strip_graphic)
qed

lemma sorted_unique_digests:
  assumes "sorted vs" and "distinct vs" and "\<And>v. v \<in> set vs \<Longrightarrow> sha256_pattern v"
  shows "res_require_sorted_unique_strings name vs = Inr ()"
  using assms sha256_pattern_strip by (auto simp: res_require_sorted_unique_strings_def sorted_unique_iff list_ex_iff)

lemma sorted_unique_codes:
  assumes "sorted vs" and "distinct vs" and "\<And>v. v \<in> set vs \<Longrightarrow> code_pattern v"
  shows "res_require_sorted_unique_strings name vs = Inr ()"
  using assms code_pattern_strip by (auto simp: res_require_sorted_unique_strings_def sorted_unique_iff list_ex_iff)

section \<open>Pairs\<close>

lemma maximum_similarity_range:
  "0 \<le> maximum_similarity xs ys" "maximum_similarity xs ys \<le> 10000"
proof -
  let ?S = "set (concat (map (\<lambda>a. map (similarity_bps a) ys) xs))"
  have "0 \<le> maximum_similarity xs ys \<and> maximum_similarity xs ys \<le> 10000" if "xs \<noteq> []" "ys \<noteq> []"
  proof -
    have "?S \<noteq> {}" using that by (cases xs; cases ys) auto
    then have "Max ?S \<in> ?S" by (intro Max_in) auto
    then show ?thesis using that similarity_bps_cases by (auto simp: maximum_similarity_def)
  qed
  then show "0 \<le> maximum_similarity xs ys" "maximum_similarity xs ys \<le> 10000"
    by (auto simp: maximum_similarity_def)
qed

text \<open>The greatest similarity is reached exactly when the two sides share a text.\<close>

lemma maximum_similarity_exact: "maximum_similarity xs ys = 10000 \<longleftrightarrow> set xs \<inter> set ys \<noteq> {}"
proof (cases "xs = [] \<or> ys = []")
  case False
  let ?S = "set (concat (map (\<lambda>a. map (similarity_bps a) ys) xs))"
  have ne: "?S \<noteq> {}" using False by (cases xs; cases ys) auto
  have eq: "maximum_similarity xs ys = Max ?S" using False by (simp add: maximum_similarity_def)
  have "Max ?S = 10000 \<longleftrightarrow> 10000 \<in> ?S"
    using ne similarity_bps_cases(2) by (subst Max_eq_iff) auto
  moreover have "10000 \<in> ?S \<longleftrightarrow> (\<exists>a \<in> set xs. \<exists>b \<in> set ys. similarity_bps a b = 10000)" by force
  ultimately show ?thesis unfolding eq similarity_bps_cases(3) by auto
qed (auto simp: maximum_similarity_def)

text \<open>The reasons of a disposition are codes, sorted and without repetition once sorted.\<close>

definition reasons_ok :: "string list \<Rightarrow> bool" where
  "reasons_ok reasons \<longleftrightarrow> reasons \<noteq> [] \<and> length reasons \<le> 16 \<and> distinct reasons \<and> list_all code_pattern reasons"

lemma reasons_ok_if:
  "(c \<Longrightarrow> reasons_ok xs) \<Longrightarrow> (\<not> c \<Longrightarrow> reasons_ok ys) \<Longrightarrow> reasons_ok (if c then xs else ys)"
  by simp

lemma disposition_reasons:
  assumes "validate_thresholds (rb_thresholds b) = Inr ()"
  shows "reasons_ok (snd (disposition_of f l r b d))"
proof -
  have codes: "reasons_ok [''MANUAL_SEPARATION'']" "reasons_ok [''ENTITY_KIND_MISMATCH'']"
      "reasons_ok [''MANUAL_MATCH'']" "reasons_ok [''CORROBORATED_WEBSITE_MATCH'']"
      "reasons_ok [''CORROBORATED_ADDRESS_MATCH'']" "reasons_ok [''AMBIGUOUS_MATCH_REQUIRES_REVIEW'']"
      "reasons_ok [''GEOGRAPHY_CONFLICT'']" "reasons_ok [''INSUFFICIENT_MATCH_EVIDENCE'']"
      "reasons_ok [''EXACT_PHONE_MATCH'']" "reasons_ok [''EXACT_EMAIL_MATCH'']"
      "reasons_ok [''EXACT_PHONE_MATCH'', ''EXACT_EMAIL_MATCH'']"
    by code_simp+
  have fuzzy: "reasons_ok [fuzzy_primary_area_review_reason_code (rb_thresholds b)]"
    using assms by (simp add: reasons_ok_def validate_thresholds_def res_require_code_def)
  have exact: "reasons_ok ((if phone then [''EXACT_PHONE_MATCH''] else []) @ (if email then [''EXACT_EMAIL_MATCH''] else []))"
    if "geo \<and> (phone \<or> email)" for geo phone email
    using that codes by (cases phone; cases email) (simp_all only: if_True if_False append_Nil append_Nil2 append_Cons simp_thms)
  show ?thesis
    unfolding disposition_of_def Let_def if_distrib [of snd] snd_conv
    by (intro reasons_ok_if codes fuzzy, rule exact) (assumption | intro reasons_ok_if codes fuzzy)+
qed

definition pair_digest :: "uuid \<Rightarrow> uuid \<Rightarrow> string" where
  "pair_digest left right = json_digest (JList [JStr (uuid_str left), JStr (uuid_str right)])"

lemma candidate_pair_id_less: "left < right \<Longrightarrow> candidate_pair_id left right = Inr (pair_digest left right)"
  by (auto simp: candidate_pair_id_def pair_digest_def)

lemma pair_digest_pattern [simp]: "sha256_pattern (pair_digest left right)"
  by (simp add: pair_digest_def)

lemma canonical_pair_less: "left < right \<Longrightarrow> res_require_canonical_pair left right = Inr ()"
  by (auto simp: res_require_canonical_pair_def)

lemma card_inter_max:
  assumes "length xs \<le> n"
  shows "card (set xs \<inter> A) \<le> n"
  using assms card_mono [of "set xs" "set xs \<inter> A"] card_length [of xs] by simp

lemma pair_features_valid:
  assumes "validate_candidate l = Inr ()" and less: "rc_candidate_id l < rc_candidate_id r"
  shows "validate_pair (pair_features_of l r (pair_digest (rc_candidate_id l) (rc_candidate_id r)) lh rh) = Inr ()"
proof -
  have "length (rc_source_keys l) \<le> 64" using assms(1) by (simp add: validate_candidate_def max_length_def)
  then have overlap: "card (set (rc_source_keys l) \<inter> set (rc_source_keys r)) \<le> 64" by (rule card_inter_max)
  have "exact_address l r \<longleftrightarrow> maximum_similarity (rc_addresses l) (rc_addresses r) = 10000"
    by (auto simp: exact_address_def maximum_similarity_def)
  then show ?thesis
    using less overlap maximum_similarity_range [of "rc_names l" "rc_names r"]
      maximum_similarity_range [of "rc_addresses l" "rc_addresses r"]
    unfolding validate_pair_def pair_features_of_def Let_def strong_features_def
    by (simp add: candidate_pair_id_less canonical_pair_less in_range_def res_require_digest_def)
qed

lemma resolve_pair_ok:
  assumes l: "validate_candidate l = Inr ()" and r: "validate_candidate r = Inr ()"
    and less: "rc_candidate_id l < rc_candidate_id r" and t: "validate_thresholds (rb_thresholds b) = Inr ()"
  obtains p where "resolve_pair l r b d = Inr p" and "validate_pair (pr_features p) = Inr ()"
    and "validate_reasons p = Inr ()"
    and "pf_left_candidate_id (pr_features p) = rc_candidate_id l"
    and "pf_right_candidate_id (pr_features p) = rc_candidate_id r"
    and "pair_id_of p = pair_digest (rc_candidate_id l) (rc_candidate_id r)"
    and "pr_disposition p = fst (disposition_of (pr_features p) l r b d)"
    and "\<exists>lh rh. pr_features p = pair_features_of l r (pair_id_of p) lh rh"
proof -
  obtain lh where lh: "website_hosts l = Inr lh" using website_hosts_total [OF l] by blast
  obtain rh where rh: "website_hosts r = Inr rh" using website_hosts_total [OF r] by blast
  let ?f = "pair_features_of l r (pair_digest (rc_candidate_id l) (rc_candidate_id r)) lh rh"
  obtain m reasons where m: "disposition_of ?f l r b d = (m, reasons)" by fastforce
  let ?p = "\<lparr>pr_features = ?f, pr_disposition = m, pr_reason_codes = sort reasons,
    pr_evidence_strength = (if m = MANUAL_MATCH then 100000 else evidence_strength ?f (exact_address l r))\<rparr>"
  have f: "validate_pair ?f = Inr ()" by (rule pair_features_valid [OF l less])
  have "0 \<le> evidence_strength ?f (exact_address l r)" "evidence_strength ?f (exact_address l r) \<le> 100000"
    using maximum_similarity_range [of "rc_names l" "rc_names r"]
      maximum_similarity_range [of "rc_addresses l" "rc_addresses r"]
    by (simp_all add: evidence_strength_def pair_features_of_def Let_def)
  moreover have "reasons_ok reasons" using disposition_reasons [OF t, of ?f l r d] m by simp
  ultimately have p: "validate_reasons ?p = Inr ()"
    unfolding validate_reasons_def reasons_ok_def
    by (auto simp: checks_append checks_map max_length_def in_range_def res_require_code_def list_all_iff
        Suc_le_eq intro!: sorted_unique_codes)
  have "resolve_pair l r b d = Inr ?p"
    using lh rh f p m by (simp add: resolve_pair_def candidate_pair_id_less [OF less] make_pair_features_def
        make_pair_resolution_def)
  moreover have pid: "pair_id_of ?p = pair_digest (rc_candidate_id l) (rc_candidate_id r)"
    by (simp add: pair_id_of_def pair_features_of_def Let_def)
  have "\<exists>lh rh. pr_features ?p = pair_features_of l r (pair_id_of ?p) lh rh"
    unfolding pid pair_resolution.simps by (intro exI, rule refl)
  moreover have "pf_left_candidate_id (pr_features ?p) = rc_candidate_id l" "pf_right_candidate_id (pr_features ?p) = rc_candidate_id r"
    by (simp_all add: pair_features_of_def Let_def)
  moreover have "pr_disposition ?p = fst (disposition_of (pr_features ?p) l r b d)"
    unfolding pair_resolution.simps m by simp
  ultimately show thesis
    using that [of ?p] f p pid unfolding pair_resolution.simps by blast
qed

end
