(* ===== verification/Resolution_Pairs.thy ===== *)
theory Resolution_Pairs
  imports Resolution_Validity "HOL-Library.Multiset"
begin

text \<open>
  The pairs a batch generates: exactly the ordered pairs of candidates that share a blocking key,
  with the pairs of the manual decisions; and the resolution of every one of them.
\<close>

section \<open>Generated pairs\<close>

lemma set_combinations2:
  fixes xs :: "'a :: linorder list"
  assumes "sorted xs" and "distinct xs"
  shows "set (combinations2 xs) = {(x, y). x \<in> set xs \<and> y \<in> set xs \<and> x < y}"
  using assms by (induction xs) (auto simp: order.order_iff_strict)

lemma add_pairs_eq:
  assumes "finite G" and "int (card G) \<le> limit"
  shows "add_pairs limit message pairs G =
    (if limit < int (card (G \<union> set pairs)) then Inl (ResolutionError ''RESOLUTION_PAIR_LIMIT_EXCEEDED'' message)
     else Inr (G \<union> set pairs))"
  using assms
proof (induction pairs arbitrary: G)
  case (Cons p pairs)
  show ?case
  proof (cases "limit < int (card (insert p G))")
    case True
    moreover have "card (insert p G) \<le> card (G \<union> set (p # pairs))"
      using Cons.prems(1) by (intro card_mono) auto
    ultimately show ?thesis by simp
  next
    case False
    then show ?thesis using Cons.IH [of "insert p G"] Cons.prems(1) by simp
  qed
qed simp

definition bucket :: "(string \<times> uuid list) list \<Rightarrow> string \<Rightarrow> uuid set" where
  "bucket buckets key = (case map_of buckets key of None \<Rightarrow> {} | Some identities \<Rightarrow> set identities)"

lemma bucket_append_bucket:
  "bucket (bucket_append i k buckets) k' = bucket buckets k' \<union> (if k' = k then {i} else {})"
  by (auto simp: bucket_def bucket_append_def update_conv' split: option.split)

lemma bucket_append_distinct: "distinct (map fst buckets) \<Longrightarrow> distinct (map fst (bucket_append i k buckets))"
  by (simp add: bucket_append_def distinct_update)

lemma bucket_appends:
  "distinct (map fst buckets) \<Longrightarrow> distinct (map fst (fold (bucket_append i) keys buckets))"
  "bucket (fold (bucket_append i) keys buckets) k = bucket buckets k \<union> (if k \<in> set keys then {i} else {})"
  by (induction keys arbitrary: buckets) (auto simp: bucket_append_bucket bucket_append_distinct)

text \<open>Candidates with their keys, for a list on which computing the keys does not fail.\<close>

definition has_key :: "resolution_candidate \<Rightarrow> string \<Rightarrow> bool" where
  "has_key c key \<longleftrightarrow> (\<exists>keys. block_keys c = Inr keys \<and> key \<in> set keys)"

lemma fill_buckets_eq:
  assumes "\<And>c. c \<in> set cs \<Longrightarrow> \<exists>keys. block_keys c = Inr keys" and "distinct (map fst buckets)"
  shows "\<exists>filled. fill_buckets cs buckets = Inr filled \<and> distinct (map fst filled)
    \<and> (\<forall>k. bucket filled k = bucket buckets k \<union> {rc_candidate_id c | c. c \<in> set cs \<and> has_key c k})"
  using assms
proof (induction cs arbitrary: buckets)
  case (Cons c cs)
  obtain keys where keys: "block_keys c = Inr keys" using Cons.prems(1) by force
  let ?buckets = "fold (bucket_append (rc_candidate_id c)) keys buckets"
  note app = bucket_appends(1) [OF Cons.prems(2), of "rc_candidate_id c" keys]
    bucket_appends(2) [of "rc_candidate_id c" keys buckets]
  obtain filled where "fill_buckets cs ?buckets = Inr filled" "distinct (map fst filled)"
      "\<forall>k. bucket filled k = bucket ?buckets k \<union> {rc_candidate_id c | c. c \<in> set cs \<and> has_key c k}"
    using Cons.IH [OF _ app(1)] Cons.prems(1) by auto
  then show ?case using keys app(2) by (auto simp: has_key_def)
qed simp

definition blocking_pairs :: "resolution_batch \<Rightarrow> (uuid \<times> uuid) set" where
  "blocking_pairs b = {(rc_candidate_id c, rc_candidate_id c') | c c'. c \<in> set (rb_candidates b)
     \<and> c' \<in> set (rb_candidates b) \<and> rc_candidate_id c < rc_candidate_id c' \<and> (\<exists>key. has_key c key \<and> has_key c' key)}"

lemma block_keys_total: "validate_candidate c = Inr () \<Longrightarrow> \<exists>keys. block_keys c = Inr keys"
  using website_hosts_total by (fastforce simp: block_keys_def Let_def)

lemma blocking_pairs_finite: "finite (blocking_pairs b)"
proof (rule finite_subset)
  show "blocking_pairs b \<subseteq> rc_candidate_id ` set (rb_candidates b) \<times> rc_candidate_id ` set (rb_candidates b)"
    by (auto simp: blocking_pairs_def)
qed simp

lemma bucket_pairs:
  assumes "distinct (map fst filled)"
    and "\<forall>k. bucket filled k = {rc_candidate_id c | c. c \<in> set (rb_candidates b) \<and> has_key c k}"
  shows "set (concat (map (\<lambda>ids. combinations2 (sorted_list_of_set (set ids))) (map snd filled))) = blocking_pairs b"
proof -
  have ids: "set ids = bucket filled k" if "(k, ids) \<in> set filled" for k ids
    using that assms(1) by (simp add: bucket_def)
  have nonempty: "\<exists>ids. (k, ids) \<in> set filled" if "bucket filled k \<noteq> {}" for k
    using that by (auto simp: bucket_def split: option.splits dest: map_of_SomeD)
  have "set (concat (map (\<lambda>ids. combinations2 (sorted_list_of_set (set ids))) (map snd filled)))
      = (\<Union>(k, ids) \<in> set filled. {(x, y). x \<in> set ids \<and> y \<in> set ids \<and> x < y})"
    by (auto simp: set_combinations2)
  also have "\<dots> = {(x, y). \<exists>k. x \<in> bucket filled k \<and> y \<in> bucket filled k \<and> x < y}"
    using ids nonempty by fastforce
  also have "\<dots> = blocking_pairs b" unfolding blocking_pairs_def using assms(2) by auto
  finally show ?thesis .
qed

definition batch_pairs :: "resolution_batch \<Rightarrow> (uuid \<times> uuid) set" where
  "batch_pairs b = blocking_pairs b \<union> set (map decision_pair (rb_manual_decisions b))"

lemma generate_pairs_eq:
  assumes "valid_resolution_batch b"
  shows "generate_pairs b =
    (if pair_limit (rb_thresholds b) < int (card (blocking_pairs b))
     then Inl (ResolutionError ''RESOLUTION_PAIR_LIMIT_EXCEEDED''
       ''Generated candidate pairs exceed the declared batch limit.'')
     else if pair_limit (rb_thresholds b) < int (card (batch_pairs b))
     then Inl (ResolutionError ''RESOLUTION_PAIR_LIMIT_EXCEEDED''
       ''Manual decisions exceed the declared candidate-pair limit.'')
     else Inr (sorted_list_of_set (batch_pairs b)))"
proof -
  have "\<exists>keys. block_keys c = Inr keys" if "c \<in> set (rb_candidates b)" for c
    using valid_candidates [OF assms that] by (rule block_keys_total)
  then obtain filled where f: "fill_buckets (rb_candidates b) [] = Inr filled" "distinct (map fst filled)"
      "\<forall>k. bucket filled k = {rc_candidate_id c | c. c \<in> set (rb_candidates b) \<and> has_key c k}"
    using fill_buckets_eq [of "rb_candidates b" "[]"] by (auto simp: bucket_def)
  have zero: "int (card {}) \<le> pair_limit (rb_thresholds b)"
    using valid_batch_thresholds [OF assms] by (simp add: validate_thresholds_def in_range_def)
  have first: "add_pairs (pair_limit (rb_thresholds b)) m
      (concat (map (\<lambda>ids. combinations2 (sorted_list_of_set (set ids))) (map snd filled))) {} =
    (if pair_limit (rb_thresholds b) < int (card (blocking_pairs b)) then Inl (ResolutionError ''RESOLUTION_PAIR_LIMIT_EXCEEDED'' m)
     else Inr (blocking_pairs b))" for m
    unfolding add_pairs_eq [OF finite.emptyI zero] Un_empty_left bucket_pairs [OF f(2,3)] ..
  show ?thesis
    unfolding generate_pairs_def Let_def f(1) map_error_simps result_bind_simps first
    using add_pairs_eq [OF blocking_pairs_finite, of b "pair_limit (rb_thresholds b)"] by (simp add: batch_pairs_def)
qed

section \<open>Dictionaries and comprehensions\<close>

lemma dict_of_lookup:
  "distinct (map key xs) \<Longrightarrow> x \<in> set xs \<Longrightarrow> map_of (dict_of key val xs) (key x) = Some (val x)"
proof (rule map_of_is_SomeI)
  assume "distinct (map key xs)"
  then show "distinct (map fst (dict_of key val xs))" by (simp add: dict_of_def comp_def flip: rev_map)
qed (simp add: dict_of_def)

lemma dict_of_SomeD: "map_of (dict_of key val xs) k = Some v \<Longrightarrow> \<exists>x \<in> set xs. key x = k \<and> val x = v"
  by (auto simp: dict_of_def dest!: map_of_SomeD)

lemma traverse_computed_returns:
  assumes "\<And>x. x \<in> set xs \<Longrightarrow> \<exists>y. f x = returns y \<and> P x y"
  shows "\<exists>ys. traverse_computed f xs = returns ys \<and> list_all2 P xs ys"
  using assms
proof (induction xs)
  case (Cons x xs)
  obtain y where y: "f x = returns y" "P x y" using Cons.prems by force
  obtain ys where "traverse_computed f xs = returns ys" "list_all2 P xs ys" using Cons by auto
  then show ?case using y by auto
qed simp

lemma traverse_computed_returnsD:
  "traverse_computed f xs = returns ys \<Longrightarrow> list_all2 (\<lambda>x y. f x = returns y) xs ys"
  by (induction xs arbitrary: ys) (auto simp: seq_eq_returns)

lemma checked_value_returns: "checked_value r = returns x \<longleftrightarrow> r = Inr x"
  by (auto simp: checked_value_def returns_def)

section \<open>Resolved pairs\<close>

definition edge_of :: "pair_resolution \<Rightarrow> uuid \<times> uuid" where
  "edge_of p = (pf_left_candidate_id (pr_features p), pf_right_candidate_id (pr_features p))"

definition separated :: "resolution_batch \<Rightarrow> (uuid \<times> uuid) set" where
  "separated b = decision_pair ` {d \<in> set (rb_manual_decisions b). md_action d = SEPARATE}"

definition resolved_ok :: "resolution_batch \<Rightarrow> pair_resolution \<Rightarrow> bool" where
  "resolved_ok b p \<longleftrightarrow> validate_pair (pr_features p) = Inr () \<and> validate_reasons p = Inr ()
     \<and> pair_id_of p = pair_digest (fst (edge_of p)) (snd (edge_of p))
     \<and> edge_of p \<in> batch_pairs b \<and> (edge_of p \<in> separated b \<longleftrightarrow> pr_disposition p = MANUAL_SEPARATE)"

lemma batch_pair_candidates:
  assumes "valid_resolution_batch b" and "(x, y) \<in> batch_pairs b"
  shows "x < y" and "x \<in> rc_candidate_id ` set (rb_candidates b)" and "y \<in> rc_candidate_id ` set (rb_candidates b)"
  using assms decision_ordered [OF assms(1)] decision_candidates [OF assms(1)]
  by (auto simp: batch_pairs_def blocking_pairs_def decision_pair_def)

lemma disposition_separate:
  "fst (disposition_of f l r b d) = MANUAL_SEPARATE \<longleftrightarrow> map_option md_action d = Some SEPARATE"
  unfolding disposition_of_def Let_def by simp

lemma separated_decision:
  assumes "valid_resolution_batch b"
  shows "pair \<in> separated b \<longleftrightarrow>
    map_option md_action (map_of (dict_of decision_pair (\<lambda>d. d) (rb_manual_decisions b)) pair) = Some SEPARATE"
proof
  assume "pair \<in> separated b"
  then show "map_option md_action (map_of (dict_of decision_pair (\<lambda>d. d) (rb_manual_decisions b)) pair) = Some SEPARATE"
    using dict_of_lookup [OF decision_pairs_distinct [OF assms], of _ "\<lambda>d. d"] by (auto simp: separated_def)
qed (auto simp: separated_def dest!: dict_of_SomeD)

lemma resolve_one:
  assumes v: "valid_resolution_batch b" and e: "(x, y) \<in> batch_pairs b"
  shows "\<exists>p. seq (lookup (dict_of rc_candidate_id (\<lambda>c. c) (rb_candidates b)) x) (\<lambda>l.
      seq (lookup (dict_of rc_candidate_id (\<lambda>c. c) (rb_candidates b)) y) (\<lambda>r.
        checked_value (resolve_pair l r b (map_of (dict_of decision_pair (\<lambda>d. d) (rb_manual_decisions b)) (x, y)))))
      = returns p \<and> edge_of p = (x, y) \<and> resolved_ok b p"
proof -
  obtain l r where l: "l \<in> set (rb_candidates b)" "rc_candidate_id l = x"
      and r: "r \<in> set (rb_candidates b)" "rc_candidate_id r = y"
    using batch_pair_candidates [OF v e] by auto
  note look = dict_of_lookup [OF candidate_ids_distinct [OF v], of _ "\<lambda>c. c"]
  let ?d = "map_of (dict_of decision_pair (\<lambda>d. d) (rb_manual_decisions b)) (x, y)"
  have less: "rc_candidate_id l < rc_candidate_id r" using batch_pair_candidates(1) [OF v e] l(2) r(2) by simp
  obtain p where p: "resolve_pair l r b ?d = Inr p" "validate_pair (pr_features p) = Inr ()" "validate_reasons p = Inr ()"
      "pf_left_candidate_id (pr_features p) = rc_candidate_id l" "pf_right_candidate_id (pr_features p) = rc_candidate_id r"
      "pair_id_of p = pair_digest (rc_candidate_id l) (rc_candidate_id r)"
      "pr_disposition p = fst (disposition_of (pr_features p) l r b ?d)"
    using resolve_pair_ok [OF valid_candidates [OF v l(1)] valid_candidates [OF v r(1)] less valid_batch_thresholds [OF v]]
    by blast
  have edge: "edge_of p = (x, y)" using p(4,5) l(2) r(2) by (simp add: edge_of_def)
  moreover have "edge_of p \<in> separated b \<longleftrightarrow> pr_disposition p = MANUAL_SEPARATE"
    unfolding p(7) disposition_separate separated_decision [OF v] edge ..
  ultimately have "resolved_ok b p" using p(2,3,6) e l(2) r(2) by (simp add: resolved_ok_def)
  then show ?thesis using edge p(1) look [OF l(1)] look [OF r(1)] l(2) r(2) by (simp add: checked_value_def returns_def)
qed

lemma resolve_pairs_ok:
  assumes v: "valid_resolution_batch b" and pairs: "set pairs \<subseteq> batch_pairs b"
  obtains prs where "resolve_pairs b pairs = returns prs" and "mset (map edge_of prs) = mset pairs"
    and "sorted (map pair_id_of prs)" and "\<And>p. p \<in> set prs \<Longrightarrow> resolved_ok b p"
proof -
  let ?f = "\<lambda>(x, y). seq (lookup (dict_of rc_candidate_id (\<lambda>c. c) (rb_candidates b)) x) (\<lambda>l.
      seq (lookup (dict_of rc_candidate_id (\<lambda>c. c) (rb_candidates b)) y) (\<lambda>r.
        checked_value (resolve_pair l r b (map_of (dict_of decision_pair (\<lambda>d. d) (rb_manual_decisions b)) (x, y)))))"
  have "\<exists>p. ?f e = returns p \<and> (edge_of p = e \<and> resolved_ok b p)" if "e \<in> set pairs" for e
    using resolve_one [OF v] that pairs by (cases e) force
  then obtain items where items: "traverse_computed ?f pairs = returns items"
      "list_all2 (\<lambda>e p. edge_of p = e \<and> resolved_ok b p) pairs items"
    using traverse_computed_returns [of pairs ?f "\<lambda>e p. edge_of p = e \<and> resolved_ok b p"] by blast
  have "map edge_of items = pairs" using items(2) by (induction rule: list_all2_induct) auto
  moreover have "resolved_ok b p" if "p \<in> set items" for p
    using items(2) that by (auto simp: list_all2_conv_all_nth in_set_conv_nth)
  moreover have "resolve_pairs b pairs = returns (sort_key pair_id_of items)"
    using items(1) by (simp add: resolve_pairs_def)
  ultimately show thesis using that [of "sort_key pair_id_of items"] by auto
qed

end
