(* ===== verification/Resolution_Clusters.thy ===== *)
theory Resolution_Clusters
  imports Resolution_Pairs "HOL-Library.Sublist"
begin

text \<open>
  The clusters of a batch: the loop over the accepted edges keeps the separated candidates apart, puts
  the two ends of every other accepted edge together or records why it did not, and joins nothing that
  the accepted edges do not connect.
\<close>

section \<open>Separations between two classes\<close>

lemma sort_pair: "(sort [x, y] ! 0, sort [x, y] ! 1) = (min x y, max x y)" for x y :: "'a :: linorder"
  by (simp add: min_def max_def)

lemma separation_between_cases:
  assumes "finite A" and "finite B"
  shows "separation_between A B seps = None \<Longrightarrow> x \<in> A \<Longrightarrow> y \<in> B \<Longrightarrow> map_of seps (min x y, max x y) = None"
    and "separation_between A B seps = Some c \<Longrightarrow> \<exists>x \<in> A. \<exists>y \<in> B. map_of seps (min x y, max x y) = Some (snd c)"
proof -
  define conflicts where "conflicts = concat (map (\<lambda>left. concat (map (\<lambda>right.
      case map_of seps (min left right, max left right) of None \<Rightarrow> []
      | Some pair_id \<Rightarrow> [((min left right, max left right), pair_id)])
    (sorted_list_of_set B))) (sorted_list_of_set A))"
  have eq: "separation_between A B seps = (if conflicts = [] then None else Some (arg_min_list snd conflicts))"
    by (simp only: separation_between_def sort_pair Let_def conflicts_def)
  show "map_of seps (min x y, max x y) = None" if "separation_between A B seps = None" "x \<in> A" "y \<in> B"
  proof (rule ccontr)
    assume "map_of seps (min x y, max x y) \<noteq> None"
    then have "conflicts \<noteq> []" using that(2,3) assms by (force simp: conflicts_def)
    then show False using that(1) eq by simp
  qed
  show "\<exists>x \<in> A. \<exists>y \<in> B. map_of seps (min x y, max x y) = Some (snd c)" if "separation_between A B seps = Some c"
  proof -
    have "c \<in> set conflicts" using that eq arg_min_list_in [of conflicts snd] by (auto split: if_splits)
    then obtain x y where "x \<in> A" "y \<in> B" "map_of seps (min x y, max x y) = Some (snd c)"
      using assms by (auto simp: conflicts_def split: option.splits)
    then show ?thesis by blast
  qed
qed

section \<open>The loop\<close>

definition crosses :: "(uuid \<times> uuid) set \<Rightarrow> (uuid \<times> uuid) set \<Rightarrow> uuid \<times> uuid \<Rightarrow> string \<Rightarrow> bool" where
  "crosses sep L e q \<longleftrightarrow> (\<exists>(x, y) \<in> sep. q = pair_digest x y
     \<and> ((fst e, x) \<in> L \<and> (snd e, y) \<in> L \<or> (fst e, y) \<in> L \<and> (snd e, x) \<in> L))"

lemma crosses_mono: "crosses sep L e q \<Longrightarrow> L \<subseteq> L' \<Longrightarrow> crosses sep L' e q"
  unfolding crosses_def by blast

definition apart :: "(uuid \<times> uuid) set \<Rightarrow> union_find \<Rightarrow> bool" where
  "apart sep s \<longleftrightarrow> uf.linked s \<inter> sep = {}"

definition seps_ok :: "(uuid \<times> uuid) set \<Rightarrow> ((uuid \<times> uuid) \<times> string) list \<Rightarrow> bool" where
  "seps_ok sep seps \<longleftrightarrow> (\<forall>(x, y) \<in> sep. x < y)
     \<and> (\<forall>x y q. map_of seps (x, y) = Some q \<longleftrightarrow> (x, y) \<in> sep \<and> q = pair_digest x y)"

lemma blocked_edge_made:
  "sha256_pattern (pair_id_of e) \<Longrightarrow> sha256_pattern q \<Longrightarrow> make_blocked_match_edge (blocked_edge e q) = Inr (blocked_edge e q)"
  by (simp add: make_blocked_match_edge_def validate_edge_def blocked_edge_def res_require_digest_def)

text \<open>With more frames the loop gives the same result or one that was stopped before.\<close>

lemma merge_more_frames:
  assumes "n \<le> k"
  shows "stops_or (merge_edges n seps edges s blocked) (merge_edges k seps edges s blocked)"
proof (induction edges arbitrary: s blocked)
  case (Cons e edges)
  have step: "stops_or
      (if A = B then merge_edges n seps edges s' blocked
       else case separation_between A B seps of
         Some c \<Rightarrow> seq (checked_value (make_blocked_match_edge (blocked_edge e (snd c)))) (\<lambda>item.
           merge_edges n seps edges s' (blocked @ [item]))
       | None \<Rightarrow> seq (uf_join n s' x y) (\<lambda>s'. merge_edges n seps edges s' blocked))
      (if A = B then merge_edges k seps edges s' blocked
       else case separation_between A B seps of
         Some c \<Rightarrow> seq (checked_value (make_blocked_match_edge (blocked_edge e (snd c)))) (\<lambda>item.
           merge_edges k seps edges s' (blocked @ [item]))
       | None \<Rightarrow> seq (uf_join k s' x y) (\<lambda>s'. merge_edges k seps edges s' blocked))" for A B s' x y
    by (auto split: option.splits intro!: stops_or_seq Cons.IH join_more_frames [OF assms])
  show ?case
    unfolding merge_edges.simps Let_def
    by (intro stops_or_seq members_more_frames [OF assms]) (auto intro!: stops_or_seq members_more_frames [OF assms] step)
qed simp

text \<open>What one edge does.\<close>

lemma merge_edge_cases:
  assumes ok: "uf_fits frames s" and fin: "finite (\<Union>(uf_classes s))" and seps: "seps_ok sep seps" and apart: "apart sep s"
    and ends: "fst (edge_of e) \<in> \<Union>(uf_classes s)" "snd (edge_of e) \<in> \<Union>(uf_classes s)"
    and pid: "sha256_pattern (pair_id_of e)"
  obtains (linked) s' where "merge_edges frames seps (e # edges) s blocked = merge_edges frames seps edges s' blocked"
      and "uf_fits frames s'" and "uf_classes s' = uf_classes s" and "edge_of e \<in> uf.linked s'"
  | (blocked) s' q where "merge_edges frames seps (e # edges) s blocked = merge_edges frames seps edges s' (blocked @ [blocked_edge e q])"
      and "uf_fits frames s'" and "uf_classes s' = uf_classes s" and "crosses sep (uf.linked s') (edge_of e) q"
  | (joined) s' where "merge_edges frames seps (e # edges) s blocked = merge_edges frames seps edges s' blocked"
      and "uf_fits frames s'" and "\<Union>(uf_classes s') = \<Union>(uf_classes s)" and "apart sep s'" and "edge_of e \<in> uf.linked s'"
      and "uf.linked s' = (uf.linked s \<union> {edge_of e, prod.swap (edge_of e)})\<^sup>+"
proof -
  obtain x y where e: "edge_of e = (x, y)" by (cases "edge_of e")
  have xy: "pf_left_candidate_id (pr_features e) = x" "pf_right_candidate_id (pr_features e) = y"
    using e by (simp_all add: edge_of_def)
  obtain A B where A: "A \<in> uf_classes s" "x \<in> A" and B: "B \<in> uf_classes s" "y \<in> B" using ends e by auto
  have finAB: "finite A" "finite B" using fin A(1) B(1) by (meson Union_upper finite_subset)+
  obtain s1 where s1: "members_of frames s x = returns (A, s1)" "uf_fits frames s1" "uf_classes s1 = uf_classes s"
    using uf.members_law [OF ok A] by blast
  obtain s2 where s2: "members_of frames s1 y = returns (B, s2)" "uf_fits frames s2" "uf_classes s2 = uf_classes s"
    using uf.members_law [OF s1(2)] B s1(3) by metis
  have linked2: "uf.linked s2 = uf.linked s" using s2(3) by (simp add: uf.linked_def)
  have step: "merge_edges frames seps (e # edges) s blocked =
      (if A = B then merge_edges frames seps edges s2 blocked
       else case separation_between A B seps of
         Some c \<Rightarrow> seq (checked_value (make_blocked_match_edge (blocked_edge e (snd c)))) (\<lambda>item.
           merge_edges frames seps edges s2 (blocked @ [item]))
       | None \<Rightarrow> seq (uf_join frames s2 x y) (\<lambda>s'. merge_edges frames seps edges s' blocked))"
    using s1(1) s2(1) by (simp add: xy)
  consider "A = B" | c where "A \<noteq> B" "separation_between A B seps = Some c"
    | "A \<noteq> B" "separation_between A B seps = None" by (cases "separation_between A B seps") auto
  then show thesis
  proof cases
    case 1
    then have "edge_of e \<in> uf.linked s2" using A B s2(3) e by (auto simp: uf.linked_def)
    then show thesis using linked 1 step s2(2,3) by simp
  next
    case 2
    obtain u v where uv: "u \<in> A" "v \<in> B" "map_of seps (min u v, max u v) = Some (snd c)"
      using separation_between_cases(2) [OF finAB 2(2)] by blast
    then have "(min u v, max u v) \<in> sep" "snd c = pair_digest (min u v) (max u v)"
      using seps by (auto simp: seps_ok_def)
    moreover have "(x, u) \<in> uf.linked s2" "(y, v) \<in> uf.linked s2"
      using A B uv s2(3) by (auto simp: uf.linked_def)
    ultimately have "crosses sep (uf.linked s2) (edge_of e) (snd c)"
      unfolding crosses_def e by (cases "u \<le> v") (auto simp: min_def max_def)
    moreover have "sha256_pattern (snd c)" using \<open>snd c = pair_digest (min u v) (max u v)\<close> by simp
    ultimately show thesis using blocked 2 step s2(2,3) by (simp add: blocked_edge_made [OF pid])
  next
    case 3
    obtain s' where s': "uf_join frames s2 x y = returns s'" "uf_fits frames s'" "uf_classes s' = insert (A \<union> B) (uf_classes s2 - {A, B})"
      using uf.join_law [OF s2(2)] A B s2(3) by metis
    have none: "map_of seps (min u v, max u v) = None" if "u \<in> A" "v \<in> B" for u v
      using separation_between_cases(1) [OF finAB 3(2) that] .
    have "(u, v) \<notin> uf.linked s'" if sep: "(u, v) \<in> sep" for u v
    proof
      assume "(u, v) \<in> uf.linked s'"
      moreover have "(u, v) \<notin> uf.linked s" using apart sep by (auto simp: apart_def)
      ultimately have "u \<in> A \<union> B" "v \<in> A \<union> B" using s'(3) s2(3) by (auto simp: uf.linked_def)
      then have "u \<in> A \<and> v \<in> B \<or> v \<in> A \<and> u \<in> B" using \<open>(u, v) \<notin> uf.linked s\<close> A(1) B(1) by (auto simp: uf.linked_def)
      moreover have "u < v" "map_of seps (u, v) \<noteq> None" using seps sep by (auto simp: seps_ok_def)
      moreover have "min u v = u" "max u v = v" using \<open>u < v\<close> by (simp_all add: less_imp_le)
      ultimately show False using none [of u v] none [of v u] by (auto simp: min.commute max.commute)
    qed
    then have "apart sep s'" by (auto simp: apart_def)
    moreover have "\<Union>(uf_classes s') = \<Union>(uf_classes s)" using s'(3) s2(3) A(1) B(1) by auto
    moreover have link: "uf.linked s' = (uf.linked s \<union> {edge_of e, prod.swap (edge_of e)})\<^sup>+"
      using uf.join_linked [OF s2(2) _ A(2) _ B(2) s'(3)] A(1) B(1) s2(3) linked2 e by simp
    moreover have "edge_of e \<in> uf.linked s'" unfolding link e by auto
    ultimately show thesis using joined 3 step s'(1,2) by simp
  qed
qed

text \<open>
  What the loop does: \<open>sel\<close> are the edges it blocked with the separations they met. Edges are processed
  in order and each at most once.
\<close>

definition loop_result :: "(uuid \<times> uuid) set \<Rightarrow> pair_resolution list \<Rightarrow> union_find \<Rightarrow> union_find
    \<Rightarrow> (pair_resolution \<times> string) list \<Rightarrow> bool" where
  "loop_result sep edges s s' sel \<longleftrightarrow>
     uf_ok s' \<and> \<Union>(uf_classes s') = \<Union>(uf_classes s) \<and> apart sep s' \<and> uf.linked s \<subseteq> uf.linked s'
     \<and> uf.linked s' \<subseteq> (uf.linked s \<union> edge_of ` set edges \<union> (edge_of ` set edges)\<inverse>)\<^sup>+
     \<and> subseq (map fst sel) edges \<and> (\<forall>(e, q) \<in> set sel. crosses sep (uf.linked s') (edge_of e) q)
     \<and> (\<forall>e \<in> set edges. edge_of e \<in> uf.linked s' \<or> e \<in> fst ` set sel)"

lemma loop_result_skip:
  assumes "loop_result sep edges s1 s' sel" and "uf_classes s1 = uf_classes s" and "edge_of e \<in> uf.linked s1"
  shows "loop_result sep (e # edges) s s' sel"
proof -
  have l: "uf.linked s1 = uf.linked s" using assms(2) by (simp add: uf.linked_def)
  have "(uf.linked s \<union> edge_of ` set edges \<union> (edge_of ` set edges)\<inverse>)\<^sup>+
      \<subseteq> (uf.linked s \<union> edge_of ` set (e # edges) \<union> (edge_of ` set (e # edges))\<inverse>)\<^sup>+"
    by (rule trancl_mono_subset) auto
  then show ?thesis using assms l by (auto simp: loop_result_def)
qed

lemma loop_result_block:
  assumes "loop_result sep edges s1 s' sel" and "uf_classes s1 = uf_classes s" and "crosses sep (uf.linked s1) (edge_of e) q"
  shows "loop_result sep (e # edges) s s' ((e, q) # sel)"
proof -
  have l: "uf.linked s1 = uf.linked s" using assms(2) by (simp add: uf.linked_def)
  have "(uf.linked s \<union> edge_of ` set edges \<union> (edge_of ` set edges)\<inverse>)\<^sup>+
      \<subseteq> (uf.linked s \<union> edge_of ` set (e # edges) \<union> (edge_of ` set (e # edges))\<inverse>)\<^sup>+"
    by (rule trancl_mono_subset) auto
  then show ?thesis using assms l crosses_mono [OF assms(3), of "uf.linked s'"] by (auto simp: loop_result_def)
qed

lemma loop_result_join:
  assumes r: "loop_result sep edges s1 s' sel" and "\<Union>(uf_classes s1) = \<Union>(uf_classes s)" and e: "edge_of e \<in> uf.linked s1"
    and link: "uf.linked s1 = (uf.linked s \<union> {edge_of e, prod.swap (edge_of e)})\<^sup>+"
  shows "loop_result sep (e # edges) s s' sel"
proof -
  let ?R = "uf.linked s \<union> edge_of ` set (e # edges) \<union> (edge_of ` set (e # edges))\<inverse>"
  have "prod.swap (edge_of e) \<in> (edge_of ` set (e # edges))\<inverse>" by (cases "edge_of e") auto
  then have "uf.linked s1 \<subseteq> ?R\<^sup>+" unfolding link by (intro trancl_mono_subset) auto
  then have "uf.linked s1 \<union> edge_of ` set edges \<union> (edge_of ` set edges)\<inverse> \<subseteq> ?R\<^sup>+" by auto
  then have "(uf.linked s1 \<union> edge_of ` set edges \<union> (edge_of ` set edges)\<inverse>)\<^sup>+ \<subseteq> ?R\<^sup>+"
    using trancl_mono_subset [of "uf.linked s1 \<union> edge_of ` set edges \<union> (edge_of ` set edges)\<inverse>" "?R\<^sup>+"] by simp
  moreover have "uf.linked s \<subseteq> uf.linked s1" unfolding link by auto
  ultimately show ?thesis using r e assms(2) by (auto simp: loop_result_def)
qed

lemma merge_edges_result:
  assumes "uf_fits frames s" and "finite (\<Union>(uf_classes s))" and "seps_ok sep seps" and "apart sep s"
    and "\<And>e. e \<in> set edges \<Longrightarrow> fst (edge_of e) \<in> \<Union>(uf_classes s) \<and> snd (edge_of e) \<in> \<Union>(uf_classes s)
      \<and> sha256_pattern (pair_id_of e)"
  shows "\<exists>s' sel. merge_edges frames seps edges s blocked = returns (blocked @ map (\<lambda>(e, q). blocked_edge e q) sel, s')
    \<and> loop_result sep edges s s' sel"
  using assms
proof (induction edges arbitrary: s blocked)
  case Nil
  then show ?case using uf.linked_trans
    by (auto simp: loop_result_def uf_fits_def intro!: exI [of _ s] exI [of _ "[]"])
next
  case (Cons e edges)
  have ends: "fst (edge_of e) \<in> \<Union>(uf_classes s)" "snd (edge_of e) \<in> \<Union>(uf_classes s)" "sha256_pattern (pair_id_of e)"
    using Cons.prems(5) by auto
  note rest = Cons.prems(5) [OF list.set_intros(2)]
  show ?case
    using Cons.prems(1-4) ends
  proof (cases rule: merge_edge_cases [where edges = edges and blocked = blocked])
    case (linked s1)
    have "apart sep s1" using Cons.prems(4) linked(3) by (simp add: apart_def uf.linked_def)
    then show ?thesis
      using Cons.IH [OF linked(2) _ Cons.prems(3), of blocked] linked Cons.prems(2) rest loop_result_skip by metis
  next
    case (blocked s1 q)
    have "apart sep s1" using Cons.prems(4) blocked(3) by (simp add: apart_def uf.linked_def)
    then obtain s' sel where "merge_edges frames seps edges s1 (blocked @ [blocked_edge e q]) =
        returns ((blocked @ [blocked_edge e q]) @ map (\<lambda>(e, q). blocked_edge e q) sel, s')"
        "loop_result sep edges s1 s' sel"
      using Cons.IH [OF blocked(2) _ Cons.prems(3), of "blocked @ [blocked_edge e q]"] blocked(3) Cons.prems(2) rest by metis
    then show ?thesis
      using blocked(1) loop_result_block [OF _ blocked(3,4)] by (intro exI [of _ s'] exI [of _ "(e, q) # sel"]) simp
  next
    case (joined s1)
    then show ?thesis
      using Cons.IH [OF joined(2) _ Cons.prems(3) joined(4), of blocked] Cons.prems(2) rest loop_result_join by metis
  qed
qed

end
