(* ===== verification/Resolution_Results.thy ===== *)
theory Resolution_Results
  imports Resolution_Clusters
begin

text \<open>
  The result of \<open>build_clusters\<close> and \<open>resolve_entities\<close>: the loop of a verified batch starts
  from singletons, every class becomes one cluster, and the clusters pass the checks of their model as
  long as no two blocked edges have the same digest.
\<close>

section \<open>The start of the loop\<close>

abbreviation candidate_ids :: "resolution_batch \<Rightarrow> uuid list" where
  "candidate_ids b \<equiv> map rc_candidate_id (rb_candidates b)"

lemma separation_pairs_total:
  assumes "valid_resolution_batch b"
  obtains seps where "separation_pairs_of b = Inr seps" and "seps_ok (separated b) seps"
proof -
  let ?ds = "filter (\<lambda>d. md_action d = SEPARATE) (rb_manual_decisions b)"
  let ?item = "\<lambda>d. (decision_pair d, pair_digest (md_left_candidate_id d) (md_right_candidate_id d))"
  have less: "md_left_candidate_id d < md_right_candidate_id d" if "d \<in> set ?ds" for d
    using decision_ordered [OF assms] that by simp
  have "traverse (\<lambda>item. result_bind (candidate_pair_id (md_left_candidate_id item) (md_right_candidate_id item))
      (\<lambda>pair_id. Inr (decision_pair item, pair_id))) ?ds = Inr (map ?item ?ds)"
    by (rule traverse_Inr) (simp add: candidate_pair_id_less [OF less])
  then have seps: "separation_pairs_of b = Inr (dict_of fst snd (map ?item ?ds))"
    by (simp add: separation_pairs_of_def)
  have "map_of (dict_of fst snd (map ?item ?ds)) (x, y) = Some q \<longleftrightarrow> (x, y) \<in> separated b \<and> q = pair_digest x y" for x y q
  proof
    assume "(x, y) \<in> separated b \<and> q = pair_digest x y"
    then obtain d where d: "d \<in> set ?ds" "decision_pair d = (x, y)" "q = pair_digest x y" by (auto simp: separated_def)
    have "distinct (map decision_pair ?ds)" using decision_pairs_distinct [OF assms] by (rule distinct_map_filter)
    then have "distinct (map fst (map ?item ?ds))" by (simp add: comp_def)
    moreover have "((x, y), q) \<in> set (map ?item ?ds)" using d by (force simp: decision_pair_def)
    ultimately show "map_of (dict_of fst snd (map ?item ?ds)) (x, y) = Some q"
      using dict_of_lookup [of fst "map ?item ?ds" "((x, y), q)" snd] by simp
  qed (auto simp: separated_def decision_pair_def dest!: dict_of_SomeD)
  moreover have "\<forall>(x, y) \<in> separated b. x < y"
    using less by (auto simp: separated_def decision_pair_def)
  ultimately show thesis using that seps by (auto simp: seps_ok_def)
qed

lemma loop_start:
  assumes "valid_resolution_batch b"
  shows "\<Union>(uf_classes (union_find_init (candidate_ids b))) = set (candidate_ids b)"
    and "uf.linked (union_find_init (candidate_ids b)) = Id_on (set (candidate_ids b))"
    and "apart (separated b) (union_find_init (candidate_ids b))"
proof -
  show U: "\<Union>(uf_classes (union_find_init (candidate_ids b))) = set (candidate_ids b)"
    unfolding union_find_init_classes by auto
  show L: "uf.linked (union_find_init (candidate_ids b)) = Id_on (set (candidate_ids b))"
    unfolding uf.linked_def union_find_init_classes by auto
  have "x \<noteq> y" if "(x, y) \<in> separated b" for x y
    using that decision_ordered [OF assms] by (force simp: separated_def decision_pair_def)
  then show "apart (separated b) (union_find_init (candidate_ids b))"
    unfolding apart_def L by auto
qed

lemma set_accepted_edges:
  "set (accepted_edges prs) = {p \<in> set prs. pr_disposition p = MANUAL_MATCH \<or> pr_disposition p = AUTO_MATCH}"
  by (auto simp: accepted_edges_def)

definition start :: "resolution_batch \<Rightarrow> union_find" where
  "start b = union_find_init (candidate_ids b)"

lemma loop_runs:
  assumes v: "valid_resolution_batch b" and prs: "\<And>p. p \<in> set prs \<Longrightarrow> resolved_ok b p"
    and frames: "length (rb_candidates b) \<le> frames"
  obtains seps s sel where "separation_pairs_of b = Inr seps"
    and "merge_edges frames seps (accepted_edges prs) (start b) [] = returns (map (\<lambda>(e, q). blocked_edge e q) sel, s)"
    and "loop_result (separated b) (accepted_edges prs) (start b) s sel"
proof -
  obtain seps where seps: "separation_pairs_of b = Inr seps" "seps_ok (separated b) seps"
    using separation_pairs_total [OF v] .
  have ends: "fst (edge_of p) \<in> set (candidate_ids b)" "snd (edge_of p) \<in> set (candidate_ids b)"
      "sha256_pattern (pair_id_of p)" if "p \<in> set prs" for p
    using batch_pair_candidates [OF v, of "fst (edge_of p)" "snd (edge_of p)"] prs [OF that]
    by (auto simp: resolved_ok_def)
  have fits: "uf_fits frames (union_find_init (candidate_ids b))"
    using frames card_length [of "candidate_ids b"] by (intro union_find_init_fits) simp
  have "\<exists>s sel. merge_edges frames seps (accepted_edges prs) (start b) [] =
      returns ([] @ map (\<lambda>(e, q). blocked_edge e q) sel, s) \<and> loop_result (separated b) (accepted_edges prs) (start b) s sel"
    unfolding start_def
    by (rule merge_edges_result [OF fits _ seps(2) loop_start(3) [OF v]])
      (use ends in \<open>auto simp: loop_start(1) [OF v] set_accepted_edges\<close>)
  then show thesis using that [OF seps(1)] by auto
qed

section \<open>One cluster\<close>

definition touching :: "pair_resolution list \<Rightarrow> uuid set \<Rightarrow> blocked_match_edge \<Rightarrow> bool" where
  "touching prs members item =
     (case List.find (\<lambda>p. pair_id_of p = be_attempted_pair_id item) prs of
        None \<Rightarrow> False
      | Some p \<Rightarrow> fst (edge_of p) \<in> members \<or> snd (edge_of p) \<in> members)"

definition attempted_known :: "pair_resolution list \<Rightarrow> blocked_match_edge list \<Rightarrow> bool" where
  "attempted_known prs blocked \<longleftrightarrow> be_attempted_pair_id ` set blocked \<subseteq> pair_id_of ` set prs"

lemma touched_edges:
  assumes "attempted_known prs blocked"
  shows "traverse_computed (\<lambda>item. seq (pair_touches_members (be_attempted_pair_id item) prs members)
      (\<lambda>touches. returns (touches, be_blocked_edge_id item))) blocked =
    returns (map (\<lambda>item. (touching prs members item, be_blocked_edge_id item)) blocked)"
  using assms
proof (induction blocked)
  case (Cons item blocked)
  have "List.find (\<lambda>p. pair_id_of p = be_attempted_pair_id item) prs \<noteq> None"
    using Cons.prems unfolding attempted_known_def find_None_iff by auto
  then obtain p where "List.find (\<lambda>p. pair_id_of p = be_attempted_pair_id item) prs = Some p" by blast
  then have "pair_touches_members (be_attempted_pair_id item) prs members = returns (touching prs members item)"
    by (simp add: pair_touches_members_def touching_def edge_of_def)
  moreover have "attempted_known prs blocked" using Cons.prems by (simp add: attempted_known_def)
  ultimately show ?case using Cons.IH by simp
qed simp

lemma parents_items:
  assumes "set parents \<subseteq> set (rb_prior_clusters b)"
  shows "\<exists>items. traverse_computed (parent_json b) parents = returns items"
proof -
  have "\<exists>j. parent_json b p = returns j \<and> True" if "p \<in> set parents" for p
  proof -
    have "map_of (dict_of prior_cluster_id (\<lambda>p. p) (rb_prior_clusters b)) (prior_cluster_id p) \<noteq> None"
      using that assms unfolding map_of_eq_None_iff dict_of_def by (auto simp: image_image)
    then show ?thesis by (auto simp: parent_json_def)
  qed
  then show ?thesis using traverse_computed_returns [of parents "parent_json b" "\<lambda>_ _. True"] by blast
qed

lemma sorted_filter_ids:
  "sorted (map f xs) \<Longrightarrow> distinct (map f xs) \<Longrightarrow> sorted (map f (filter P xs)) \<and> distinct (map f (filter P xs))"
  by (simp add: sorted_filter distinct_map_filter)

lemma cluster_parents_ok:
  assumes "valid_resolution_batch b"
  shows "res_require_sorted_unique_uuids n (map prior_cluster_id (cluster_parents b members)) = Inr ()"
    and "length (cluster_parents b members) \<le> 10000" and "set (cluster_parents b members) \<subseteq> set (rb_prior_clusters b)"
proof -
  have "distinct (map prior_cluster_id (filter P (rb_prior_clusters b)))" for P
    using prior_ids_distinct [OF assms] by (rule distinct_map_filter)
  then show "res_require_sorted_unique_uuids n (map prior_cluster_id (cluster_parents b members)) = Inr ()"
    unfolding res_require_sorted_unique_uuids_def sorted_unique_iff cluster_parents_def by (simp add: distinct_map)
  show "length (cluster_parents b members) \<le> 10000"
    using prior_count [OF assms] length_filter_le [of _ "rb_prior_clusters b"]
    unfolding cluster_parents_def length_sort by (rule le_trans [rotated])
  show "set (cluster_parents b members) \<subseteq> set (rb_prior_clusters b)" by (auto simp: cluster_parents_def)
qed

definition cluster_id_of :: "uuid list \<Rightarrow> uuid" where
  "cluster_id_of members = uuid5 NAMESPACE_URL (''entity-resolution-cluster:'' @ comma_separated (map uuid_str members))"

lemma deterministic_cluster_id_sorted:
  "sorted ms \<Longrightarrow> distinct ms \<Longrightarrow> ms \<noteq> [] \<Longrightarrow> deterministic_cluster_id ms = Inr (cluster_id_of ms)"
  using sorted_unique_iff [of ms] by (simp add: deterministic_cluster_id_def cluster_id_of_def Let_def)

text \<open>The cluster of a class, when the blocked edges are sorted without repetition.\<close>

lemma build_cluster_ok:
  assumes v: "valid_resolution_batch b" and known: "attempted_known prs blocked"
    and ids: "sorted (map be_blocked_edge_id blocked)" "distinct (map be_blocked_edge_id blocked)"
    and digests: "\<And>e. e \<in> set blocked \<Longrightarrow> sha256_pattern (be_blocked_edge_id e)"
    and few: "length blocked \<le> 1000000"
    and ms: "sorted ms" "distinct ms" "ms \<noteq> []" "length ms \<le> 10000"
  obtains c where "build_cluster b prs blocked ms = returns c" and "validate_resolved_cluster c = Inr ()"
    and "cl_member_candidate_ids c = ms" and "cl_cluster_id c = cluster_id_of ms"
    and "cl_blocked_match_edge_ids c = map be_blocked_edge_id (filter (touching prs (set ms)) blocked)"
proof -
  obtain items where items: "traverse_computed (parent_json b) (cluster_parents b ms) = returns items"
    using parents_items [OF cluster_parents_ok(3) [OF v]] by blast
  let ?ids = "map be_blocked_edge_id (filter (touching prs (set ms)) blocked)"
  let ?c = "\<lparr>cl_cluster_id = cluster_id_of ms, cl_member_candidate_ids = ms,
    cl_parent_cluster_ids = map prior_cluster_id (cluster_parents b ms),
    cl_lineage_kind = lineage_kind (set ms) (cluster_parents b ms),
    cl_parent_membership_digest = json_digest (JList items), cl_blocked_match_edge_ids = ?ids\<rparr>"
  have "length ?ids \<le> 1000000" unfolding length_map by (rule order_trans [OF length_filter_le few])
  moreover have "res_require_sorted_unique_strings n ?ids = Inr ()" for n
    using sorted_filter_ids [OF ids, of "touching prs (set ms)"] digests by (intro sorted_unique_digests) auto
  moreover have "res_require_sorted_unique_uuids n ms = Inr ()" for n
    using ms sorted_unique_iff [of ms] by (simp add: res_require_sorted_unique_uuids_def)
  ultimately have valid: "validate_resolved_cluster ?c = Inr ()"
    using ms digests cluster_parents_ok(1) [OF v, of _ ms] cluster_parents_ok(2) [OF v, of ms] deterministic_cluster_id_sorted [OF ms(1-3)]
    unfolding validate_resolved_cluster_def checks_append checks_map
    by (simp add: max_length_def res_require_digest_def Suc_le_eq)
  have "map snd (filter fst (map (\<lambda>item. (touching prs (set ms) item, be_blocked_edge_id item)) blocked)) = ?ids"
    by (simp add: filter_map comp_def)
  then have "build_cluster b prs blocked ms = returns ?c"
    unfolding build_cluster_def Let_def touched_edges [OF known] items deterministic_cluster_id_sorted [OF ms(1-3)]
    using valid by (simp add: make_resolved_cluster_def checked_value_def returns_def)
  then show thesis using that [of ?c] valid by simp
qed

section \<open>All clusters\<close>

lemma cluster_members_ok:
  assumes v: "valid_resolution_batch b" and ok: "uf_ok s" and U: "\<Union>(uf_classes s) = set (candidate_ids b)"
    and ms: "ms \<in> set (cluster_members s)"
  shows "sorted ms" and "distinct ms" and "ms \<noteq> []" and "length ms \<le> 10000" and "set ms \<in> uf_classes s"
proof -
  obtain C where C: "C \<in> uf_classes s" "ms = sorted_list_of_set C" using ms by (auto simp: cluster_members_def uf_classes_def)
  have sub: "C \<subseteq> set (candidate_ids b)" using C(1) U by auto
  then have fin: "finite C" by (rule finite_subset) simp
  obtain r where "(r, C) \<in> set (uf_members s)" using C(1) by (auto simp: in_uf_classes)
  then have "r \<in> C" using ok by (auto simp: uf_ok_def parents_ok_def)
  then show "sorted ms" "distinct ms" "ms \<noteq> []" "set ms \<in> uf_classes s" using C fin by auto
  have "card C \<le> card (set (candidate_ids b))" using sub by (intro card_mono) simp_all
  also have "\<dots> \<le> 10000" using card_length [of "candidate_ids b"] candidate_count [OF v] by simp
  finally show "length ms \<le> 10000" using C(2) by simp
qed

lemma cluster_members_mset:
  assumes ok: "uf_ok s" and U: "\<Union>(uf_classes s) = set ids" and d: "distinct ids"
  shows "mset (concat (cluster_members s)) = mset ids"
proof -
  have fin: "finite C" if "C \<in> set (uf_components s)" for C
    using that U by (metis List.finite_set Union_upper finite_subset uf_classes_def)
  have "distinct (concat (map sorted_list_of_set (uf_components s)))"
  proof (rule distinct_concat)
    have "distinct (uf_members s)" using ok by (auto simp: uf_ok_def distinct_map)
    moreover have "inj_on (sorted_list_of_set \<circ> snd) (set (uf_members s))"
    proof (rule inj_onI)
      fix p q
      assume pq: "p \<in> set (uf_members s)" "q \<in> set (uf_members s)"
        "(sorted_list_of_set \<circ> snd) p = (sorted_list_of_set \<circ> snd) q"
      then have "finite (snd p)" "finite (snd q)" using fin by (auto simp: uf_components_def)
      then have "snd p = snd q" using pq(3) by (metis comp_apply set_sorted_list_of_set)
      moreover have "fst p \<in> snd p" using ok pq(1) by (auto simp: uf_ok_def parents_ok_def)
      ultimately show "p = q"
        using uf_class_unique [OF ok, of "fst p" "snd p" "fst q" "snd q" "fst p"] pq(1,2) prod.collapse by (metis)
    qed
    ultimately show "distinct (map sorted_list_of_set (uf_components s))"
      by (simp add: uf_components_def distinct_map)
    fix xs ys
    assume "xs \<in> set (map sorted_list_of_set (uf_components s))" "ys \<in> set (map sorted_list_of_set (uf_components s))" "xs \<noteq> ys"
    then obtain A B where "A \<in> uf_classes s" "B \<in> uf_classes s" "A \<noteq> B" "set xs = A" "set ys = B"
      using fin by (fastforce simp: uf_classes_def)
    then show "set xs \<inter> set ys = {}" using uf_classes_disjoint [OF ok] by blast
  qed auto
  moreover have "set (concat (map sorted_list_of_set (uf_components s))) = set ids"
    using U fin by (auto simp: uf_classes_def)
  ultimately have "mset (concat (map sorted_list_of_set (uf_components s))) = mset ids"
    using d set_eq_iff_mset_eq_distinct by blast
  moreover have "mset (concat xs) = mset (concat ys)" if "mset xs = mset ys" for xs ys :: "'a list list"
    using that by (metis mset_concat mset_map sum_mset_sum_list)
  ultimately show ?thesis by (metis cluster_members_def mset_sort)
qed

definition blocked_of :: "(pair_resolution \<times> string) list \<Rightarrow> blocked_match_edge list" where
  "blocked_of sel = sort_key be_blocked_edge_id (map (\<lambda>(e, q). blocked_edge e q) sel)"

lemma build_clusters_eq:
  assumes "separation_pairs_of b = Inr seps"
    and "merge_edges frames seps (accepted_edges prs) (start b) [] = returns (map (\<lambda>(e, q). blocked_edge e q) sel, s)"
  shows "build_clusters frames b prs = seq (traverse_computed (build_cluster b prs (blocked_of sel)) (cluster_members s))
    (\<lambda>clusters. returns (blocked_of sel, sort_key cl_cluster_id clusters))"
  using assms by (simp add: build_clusters_def start_def blocked_of_def Let_def)

text \<open>A cluster that was built is valid and lists the blocked edges that touch it.\<close>

definition cluster_ok :: "pair_resolution list \<Rightarrow> blocked_match_edge list \<Rightarrow> resolved_cluster \<Rightarrow> bool" where
  "cluster_ok prs blocked c \<longleftrightarrow> validate_resolved_cluster c = Inr ()
     \<and> cl_blocked_match_edge_ids c
       = map be_blocked_edge_id (filter (touching prs (set (cl_member_candidate_ids c))) blocked)"

lemma build_cluster_returns:
  assumes "build_cluster b prs blocked ms = returns c" and "attempted_known prs blocked"
  shows "cl_member_candidate_ids c = ms \<and> cluster_ok prs blocked c"
proof -
  have "map snd (filter fst (map (\<lambda>item. (touching prs (set ms) item, be_blocked_edge_id item)) blocked))
      = map be_blocked_edge_id (filter (touching prs (set ms)) blocked)"
    by (simp add: filter_map comp_def)
  then show ?thesis
    using assms(1) unfolding build_cluster_def Let_def touched_edges [OF assms(2)]
    by (auto simp: seq_eq_returns checked_value_returns make_resolved_cluster_def result_bind_eq_Inr cluster_ok_def)
qed

lemma built_clusters:
  assumes "traverse_computed (build_cluster b prs blocked) mss = returns cs" and "attempted_known prs blocked"
  shows "map cl_member_candidate_ids cs = mss" and "\<forall>c \<in> set cs. cluster_ok prs blocked c"
proof -
  have "list_all2 (\<lambda>ms c. build_cluster b prs blocked ms = returns c) mss cs"
    using assms(1) by (rule traverse_computed_returnsD)
  then show "map cl_member_candidate_ids cs = mss" "\<forall>c \<in> set cs. cluster_ok prs blocked c"
    by (induction rule: list_all2_induct) (use assms(2) in \<open>auto dest: build_cluster_returns\<close>)
qed

lemma subseq_set: "subseq xs ys \<Longrightarrow> set xs \<subseteq> set ys"
  by (induction rule: list_emb.induct) auto

lemma subseq_distinct: "subseq xs ys \<Longrightarrow> distinct ys \<Longrightarrow> distinct xs"
  by (induction rule: list_emb.induct) (auto dest: subseq_set)

lemma blocked_known:
  assumes "loop_result sep (accepted_edges prs) s0 s sel"
  shows "attempted_known prs (blocked_of sel)" and "length (blocked_of sel) \<le> length prs"
proof -
  have sub: "subseq (map fst sel) (accepted_edges prs)" using assms by (simp add: loop_result_def)
  then have "set (map fst sel) \<subseteq> set (accepted_edges prs)" by (rule subseq_set)
  then have "e \<in> set prs" if "(e, q) \<in> set sel" for e q using that by (force simp: set_accepted_edges)
  then show "attempted_known prs (blocked_of sel)"
    unfolding attempted_known_def blocked_of_def set_sort set_map
    by (auto simp: blocked_edge_def image_iff split_def)
  have "length sel \<le> length (accepted_edges prs)" using list_emb_length [OF sub] by simp
  also have "\<dots> \<le> length prs" by (simp add: accepted_edges_def)
  finally show "length (blocked_of sel) \<le> length prs" by (simp add: blocked_of_def)
qed

lemma blocked_digests: "e \<in> set (blocked_of sel) \<Longrightarrow> sha256_pattern (be_blocked_edge_id e)"
  by (auto simp: blocked_of_def blocked_edge_def)

text \<open>The facts about a resolved batch, for its pair resolutions, final classes and blocked edges.\<close>

definition core_ok :: "resolution_batch \<Rightarrow> pair_resolution list \<Rightarrow> union_find \<Rightarrow> (pair_resolution \<times> string) list
    \<Rightarrow> resolution_core_result \<Rightarrow> bool" where
  "core_ok b prs s sel core \<longleftrightarrow>
     (\<forall>p \<in> set prs. resolved_ok b p) \<and> mset (map edge_of prs) = mset (sorted_list_of_set (batch_pairs b))
     \<and> sorted (map pair_id_of prs) \<and> length prs \<le> 1000000
     \<and> loop_result (separated b) (accepted_edges prs) (start b) s sel
     \<and> core_pair_resolutions core = prs \<and> core_blocked_match_edges core = blocked_of sel
     \<and> mset (map cl_member_candidate_ids (core_clusters core)) = mset (cluster_members s)
     \<and> (\<forall>c \<in> set (core_clusters core). cluster_ok prs (blocked_of sel) c)
     \<and> sorted (map cl_cluster_id (core_clusters core))
     \<and> core_pending_review_pair_ids core = map pair_id_of (filter (\<lambda>p. pr_disposition p = REVIEW_REQUIRED) prs)"

lemma generated_resolved:
  assumes v: "valid_resolution_batch b" and g: "generate_pairs b = Inr pairs"
  obtains prs where "resolve_pairs b pairs = returns prs"
    and "mset (map edge_of prs) = mset (sorted_list_of_set (batch_pairs b))" and "sorted (map pair_id_of prs)"
    and "\<And>p. p \<in> set prs \<Longrightarrow> resolved_ok b p" and "length prs \<le> 1000000"
proof -
  have fin: "finite (batch_pairs b)" by (simp add: batch_pairs_def blocking_pairs_finite)
  have pairs: "pairs = sorted_list_of_set (batch_pairs b)" "int (card (batch_pairs b)) \<le> pair_limit (rb_thresholds b)"
    using g unfolding generate_pairs_eq [OF v] by (auto split: if_splits)
  obtain prs where prs: "resolve_pairs b pairs = returns prs" "mset (map edge_of prs) = mset pairs"
      "sorted (map pair_id_of prs)" "\<And>p. p \<in> set prs \<Longrightarrow> resolved_ok b p"
    using resolve_pairs_ok [OF v, of pairs] pairs(1) fin by auto
  have "length prs = card (batch_pairs b)" using arg_cong [OF prs(2), of size] pairs(1) by simp
  moreover have "pair_limit (rb_thresholds b) \<le> 1000000"
    using valid_batch_thresholds [OF v] by (simp add: validate_thresholds_def in_range_def)
  ultimately have "length prs \<le> 1000000" using pairs(2) by linarith
  then show thesis using that prs pairs(1) by blast
qed

lemma resolve_entities_eq:
  assumes "verify_resolution_batch b = Inr ()" and "rb_market_area_readiness b = Area_READY" and "generate_pairs b = Inr pairs"
    and "resolve_pairs b pairs = returns prs"
  shows "resolve_entities frames b = seq (build_clusters frames b prs) (\<lambda>(blocked_edges, clusters).
    returns \<lparr>core_pair_resolutions = prs, core_blocked_match_edges = blocked_edges, core_clusters = clusters,
      core_pending_review_pair_ids = map pair_id_of (filter (\<lambda>p. pr_disposition p = REVIEW_REQUIRED) prs)\<rparr>)"
  using assms by (simp add: resolve_entities_def)

text \<open>With more frames a batch gets the same result or one that was stopped before.\<close>

lemma build_clusters_more_frames: "n \<le> k \<Longrightarrow> stops_or (build_clusters n b prs) (build_clusters k b prs)"
  unfolding build_clusters_def Let_def by (intro stops_or_seq stops_or_refl) (auto intro!: stops_or_seq merge_more_frames)

lemma resolve_more_frames: "n \<le> k \<Longrightarrow> stops_or (resolve_entities n b) (resolve_entities k b)"
  unfolding resolve_entities_def
  by (intro stops_or_seq stops_or_refl) (auto intro!: stops_or_seq build_clusters_more_frames)

lemma resolve_entities_returnsE:
  assumes "resolve_entities frames b = returns core"
  obtains prs s sel where "valid_resolution_batch b" and "core_ok b prs s sel core"
proof -
  define enough where "enough = max frames (length (rb_candidates b))"
  have enough: "length (rb_candidates b) \<le> enough" and run': "resolve_entities enough b = returns core"
    using stops_or_returns [OF resolve_more_frames assms, of enough] by (simp_all add: enough_def)
  obtain pairs where run: "verify_resolution_batch b = Inr ()" "rb_market_area_readiness b = Area_READY" "generate_pairs b = Inr pairs"
    using assms by (cases "rb_market_area_readiness b")
      (auto simp: resolve_entities_def seq_eq_returns checked_value_returns returns_def [of "_ :: (uuid \<times> uuid) list"])
  note v = verified_valid [OF run(1)]
  obtain prs where prs: "resolve_pairs b pairs = returns prs"
      "mset (map edge_of prs) = mset (sorted_list_of_set (batch_pairs b))" "sorted (map pair_id_of prs)"
      "\<And>p. p \<in> set prs \<Longrightarrow> resolved_ok b p" "length prs \<le> 1000000"
    using generated_resolved [OF v run(3)] by blast
  obtain seps s sel where loop: "separation_pairs_of b = Inr seps"
      "merge_edges enough seps (accepted_edges prs) (start b) [] = returns (map (\<lambda>(e, q). blocked_edge e q) sel, s)"
      "loop_result (separated b) (accepted_edges prs) (start b) s sel"
    using loop_runs [OF v prs(4) enough] by blast
  obtain cs where cs: "traverse_computed (build_cluster b prs (blocked_of sel)) (cluster_members s) = returns cs"
      "core = \<lparr>core_pair_resolutions = prs, core_blocked_match_edges = blocked_of sel,
         core_clusters = sort_key cl_cluster_id cs,
         core_pending_review_pair_ids = map pair_id_of (filter (\<lambda>p. pr_disposition p = REVIEW_REQUIRED) prs)\<rparr>"
    using run' unfolding resolve_entities_eq [OF run prs(1)] build_clusters_eq [OF loop(1,2)]
    by (auto simp: seq_eq_returns)
  have "mset (map cl_member_candidate_ids (sort_key cl_cluster_id cs)) = mset (cluster_members s)"
    using built_clusters(1) [OF cs(1) blocked_known(1) [OF loop(3)]] by (metis mset_map mset_sort)
  then have "core_ok b prs s sel core"
    using prs loop(3) cs(2) built_clusters(2) [OF cs(1) blocked_known(1) [OF loop(3)]] by (simp add: core_ok_def)
  then show thesis using that v by blast
qed

section \<open>A verified batch is resolved\<close>

definition edge_digest :: "string \<times> string \<Rightarrow> string" where
  "edge_digest = (\<lambda>(p, q). json_digest (JList [JStr p, JStr q, JStr ''transitive-separation'']))"

definition pair_digests :: "(uuid \<times> uuid) set \<Rightarrow> string set" where
  "pair_digests P = (\<lambda>(x, y). pair_digest x y) ` P"

text \<open>No two pairs of the batch, and no two blocked edges it could have, share a digest.\<close>

definition collision_free :: "resolution_batch \<Rightarrow> bool" where
  "collision_free b \<longleftrightarrow> inj_on (\<lambda>(x, y). pair_digest x y) (batch_pairs b)
     \<and> inj_on edge_digest (pair_digests (batch_pairs b) \<times> pair_digests (separated b))"

lemma pair_ids_distinct:
  assumes "collision_free b" and "mset (map edge_of prs) = mset (sorted_list_of_set (batch_pairs b))"
    and "\<And>p. p \<in> set prs \<Longrightarrow> resolved_ok b p"
  shows "distinct (map pair_id_of prs)"
proof -
  have "distinct (map edge_of prs)" using assms(2) by (metis distinct_sorted_list_of_set mset_eq_imp_distinct_iff)
  moreover have "set (map edge_of prs) \<subseteq> batch_pairs b" using assms(3) by (auto simp: resolved_ok_def)
  ultimately have "distinct (map ((\<lambda>(x, y). pair_digest x y) \<circ> edge_of) prs)"
    using assms(1) unfolding collision_free_def map_map [symmetric] by (meson distinct_map inj_on_subset)
  moreover have "map ((\<lambda>(x, y). pair_digest x y) \<circ> edge_of) prs = map pair_id_of prs"
    using assms(3) by (simp add: resolved_ok_def split_def)
  ultimately show ?thesis by simp
qed

lemma blocked_ids_distinct:
  assumes "collision_free b" and "distinct (map pair_id_of prs)" and ok: "\<And>p. p \<in> set prs \<Longrightarrow> resolved_ok b p"
    and "loop_result (separated b) (accepted_edges prs) s0 s sel"
  shows "distinct (map be_blocked_edge_id (blocked_of sel))"
proof -
  have sub: "subseq (map fst sel) (accepted_edges prs)" using assms(4) by (simp add: loop_result_def)
  have set: "set (map fst sel) \<subseteq> set prs" using subseq_set [OF sub] by (auto simp: set_accepted_edges)
  have "distinct (map pair_id_of (accepted_edges prs))"
    unfolding accepted_edges_def using distinct_map_filter [OF assms(2)] by (simp add: distinct_map)
  then have dist: "distinct (map pair_id_of (map fst sel))"
    using subseq_map [OF sub, of pair_id_of] subseq_distinct by blast
  let ?k = "\<lambda>(e, q). (pair_id_of e, q)"
  have "distinct (map fst (map ?k sel))" using dist by (simp add: comp_def split_def)
  then have "distinct (map ?k sel)" by (rule distinct_map [THEN iffD1, THEN conjunct1])
  moreover have "set (map ?k sel) \<subseteq> pair_digests (batch_pairs b) \<times> pair_digests (separated b)"
  proof
    fix k
    assume "k \<in> set (map ?k sel)"
    then obtain e q where eq: "(e, q) \<in> set sel" "k = (pair_id_of e, q)" by auto
    have "resolved_ok b e" using eq(1) set ok by force
    then have "pair_id_of e \<in> pair_digests (batch_pairs b)"
      unfolding resolved_ok_def pair_digests_def by (force simp: split_def)
    moreover have "q \<in> pair_digests (separated b)"
      using assms(4) eq(1) unfolding loop_result_def crosses_def pair_digests_def by fastforce
    ultimately show "k \<in> pair_digests (batch_pairs b) \<times> pair_digests (separated b)" using eq(2) by simp
  qed
  ultimately have "distinct (map edge_digest (map ?k sel))"
    using assms(1) unfolding collision_free_def by (meson distinct_map inj_on_subset)
  moreover have "map edge_digest (map ?k sel) = map be_blocked_edge_id (map (\<lambda>(e, q). blocked_edge e q) sel)"
    by (auto simp: edge_digest_def blocked_edge_def)
  ultimately show ?thesis
    unfolding blocked_of_def by (metis mset_eq_imp_distinct_iff mset_map mset_sort)
qed

lemma resolve_entities_total:
  assumes run: "verify_resolution_batch b = Inr ()" "rb_market_area_readiness b = Area_READY" "generate_pairs b = Inr pairs"
    and free: "collision_free b" and frames: "length (rb_candidates b) \<le> frames"
  shows "\<exists>core. resolve_entities frames b = returns core"
proof -
  note v = verified_valid [OF run(1)]
  obtain prs where prs: "resolve_pairs b pairs = returns prs"
      "mset (map edge_of prs) = mset (sorted_list_of_set (batch_pairs b))" "sorted (map pair_id_of prs)"
      "\<And>p. p \<in> set prs \<Longrightarrow> resolved_ok b p" "length prs \<le> 1000000"
    using generated_resolved [OF v run(3)] by blast
  obtain seps s sel where loop: "separation_pairs_of b = Inr seps"
      "merge_edges frames seps (accepted_edges prs) (start b) [] = returns (map (\<lambda>(e, q). blocked_edge e q) sel, s)"
      "loop_result (separated b) (accepted_edges prs) (start b) s sel"
    using loop_runs [OF v prs(4) frames] by blast
  have ok: "uf_ok s" and U: "\<Union>(uf_classes s) = set (candidate_ids b)"
    using loop(3) loop_start(1) [OF v] by (simp_all add: loop_result_def start_def)
  note dist = blocked_ids_distinct [OF free pair_ids_distinct [OF free prs(2,4)] prs(4) loop(3)]
  have sorted: "sorted (map be_blocked_edge_id (blocked_of sel))" by (simp add: blocked_of_def)
  have few: "length (blocked_of sel) \<le> 1000000" using blocked_known(2) [OF loop(3)] prs(5) by simp
  have "\<exists>c. build_cluster b prs (blocked_of sel) ms = returns c \<and> True" if ms: "ms \<in> set (cluster_members s)" for ms
    by (rule build_cluster_ok [OF v blocked_known(1) [OF loop(3)] sorted dist blocked_digests few
        cluster_members_ok(1-4) [OF v ok U ms]]) auto
  then obtain cs where "traverse_computed (build_cluster b prs (blocked_of sel)) (cluster_members s) = returns cs"
    using traverse_computed_returns [of "cluster_members s" _ "\<lambda>_ _. True"] by blast
  then show ?thesis
    unfolding resolve_entities_eq [OF run prs(1)] build_clusters_eq [OF loop(1,2)] by simp
qed

section \<open>Clusters and classes\<close>

text \<open>Two candidates are in one cluster exactly when the loop linked them.\<close>

lemma together_iff:
  assumes "valid_resolution_batch b" and core: "core_ok b prs s sel core"
  shows "(\<exists>c \<in> set (core_clusters core). x \<in> set (cl_member_candidate_ids c) \<and> y \<in> set (cl_member_candidate_ids c))
    \<longleftrightarrow> (x, y) \<in> uf.linked s"
proof -
  have ok: "uf_ok s" and U: "\<Union>(uf_classes s) = set (candidate_ids b)"
    using core loop_start(1) [OF assms(1)] by (simp_all add: core_ok_def loop_result_def start_def)
  have "cl_member_candidate_ids ` set (core_clusters core) = set (cluster_members s)"
    using core unfolding core_ok_def by (metis set_map set_mset_mset)
  then have "set ` cl_member_candidate_ids ` set (core_clusters core) = uf_classes s"
  proof -
    have "finite C" if "C \<in> uf_classes s" for C
      using that U finite_subset [of C "set (candidate_ids b)"] by auto
    then have "set ` set (cluster_members s) = uf_classes s"
      by (simp add: cluster_members_def uf_classes_def image_image)
    then show ?thesis using \<open>cl_member_candidate_ids ` set (core_clusters core) = set (cluster_members s)\<close> by simp
  qed
  note classes = this
  show ?thesis unfolding uf.linked_def classes [symmetric] by simp
qed

end
