(* ===== verification/Resolution_Scenario.thy ===== *)
theory Resolution_Scenario
  imports Resolution_Results
begin

text \<open>
  Two clinics that share a phone number: a batch that resolves them into one cluster, and the same
  batch with an operator's decision to keep them separate.
\<close>

definition demo_area_digest :: string where
  "demo_area_digest = ''sha256:'' @ replicate 64 (CHR ''0'')"

definition demo_candidate :: "uuid \<Rightarrow> string \<Rightarrow> resolution_candidate" where
  "demo_candidate i name =
     \<lparr>rc_candidate_id = i, rc_entity_kind = PROVIDER, rc_names = [name], rc_phones = [''+493012345''],
      rc_emails = [], rc_website_urls = [''https://clinic.example/''], rc_addresses = [], rc_observation_ids = [],
      rc_source_artifact_ids = [], rc_source_keys = [''registry''],
      rc_geography = \<lparr>gr_coverage = UNKNOWN, gr_market_area_revision = ''berlin-v1'',
        gr_market_area_digest = demo_area_digest, gr_latitude = None, gr_longitude = None, gr_observation_ids = []\<rparr>\<rparr>"

definition demo_left :: resolution_candidate where
  "demo_left = demo_candidate (UUID 1) ''north clinic''"

definition demo_right :: resolution_candidate where
  "demo_right = demo_candidate (UUID 2) ''clinic north''"

definition demo_thresholds :: resolution_thresholds where
  "demo_thresholds = \<lparr>candidate_limit = 10, pair_limit = 10, name_review_minimum_bps = 8000,
     address_review_minimum_bps = 8000, website_auto_match_minimum_strong_features = 2,
     address_auto_match_minimum_strong_features = 2, fuzzy_primary_area_review_reason_code = ''FUZZY_REVIEW''\<rparr>"

definition demo_payload :: "manual_resolution_decision list \<Rightarrow> resolution_batch" where
  "demo_payload decisions =
     \<lparr>rb_batch_id = UUID 9, rb_market_area_revision = ''berlin-v1'', rb_market_area_digest = demo_area_digest,
      rb_market_area_readiness = Area_READY, rb_candidates = [demo_left, demo_right],
      rb_manual_decisions = decisions, rb_prior_clusters = [], rb_thresholds = demo_thresholds,
      rb_quality_rules = [], rb_batch_digest = []\<rparr>"

definition demo_batch :: "manual_resolution_decision list \<Rightarrow> resolution_batch" where
  "demo_batch decisions =
     demo_payload decisions\<lparr>rb_batch_digest := json_digest (batch_json (demo_payload decisions))\<rparr>"

definition demo_decision_payload :: manual_resolution_decision where
  "demo_decision_payload = \<lparr>md_decision_id = UUID 5, md_left_candidate_id = UUID 1, md_right_candidate_id = UUID 2,
     md_action = SEPARATE, md_revision = 0, md_actor_reference = ''operator'', md_reason_code = ''DIFFERENT_OWNER'',
     md_decision_digest = []\<rparr>"

definition demo_decision :: manual_resolution_decision where
  "demo_decision = demo_decision_payload\<lparr>md_decision_digest := json_digest (JObj (decision_fields demo_decision_payload))\<rparr>"

lemma demo_candidates_valid: "validate_candidate demo_left = Inr ()" "validate_candidate demo_right = Inr ()"
  by code_simp+

lemma demo_thresholds_valid: "validate_thresholds demo_thresholds = Inr ()"
  by code_simp

lemma demo_area: "res_require_token n ''berlin-v1'' = Inr ()" "res_require_digest n demo_area_digest = Inr ()"
proof -
  have "head_tail_pattern (\<lambda>c. is_upper c \<or> is_lower c) token_char 127 ''berlin-v1''" "sha256_pattern demo_area_digest"
    by code_simp+
  then show "res_require_token n ''berlin-v1'' = Inr ()" "res_require_digest n demo_area_digest = Inr ()"
    by (simp_all add: res_require_token_def res_require_digest_def)
qed

lemma demo_decision_valid: "validate_decision demo_decision = Inr ()" "validate_manual_resolution_decision demo_decision = Inr ()"
  "verify_manual_decision demo_decision = Inr ()"
proof -
  have "validate_decision demo_decision_payload = Inr ()" by code_simp
  moreover have "validate_decision demo_decision = validate_decision demo_decision_payload"
    by (simp add: validate_decision_def demo_decision_def)
  ultimately show valid: "validate_decision demo_decision = Inr ()" by simp
  then show "validate_manual_resolution_decision demo_decision = Inr ()"
    by (simp add: validate_manual_resolution_decision_def demo_decision_def res_require_digest_def)
  have "decision_fields demo_decision = decision_fields demo_decision_payload"
    by (simp add: decision_fields_def demo_decision_def)
  then show "verify_manual_decision demo_decision = Inr ()"
    using valid by (simp add: verify_manual_decision_def) (simp add: demo_decision_def)
qed

lemma demo_verified:
  assumes "decisions = [] \<or> decisions = [demo_decision]"
  shows "verify_resolution_batch (demo_batch decisions) = Inr ()"
proof -
  have ids: "rc_candidate_id demo_left = UUID 1" "rc_candidate_id demo_right = UUID 2" by code_simp+
  have geo: "gr_market_area_revision (rc_geography c) = ''berlin-v1''" "gr_market_area_digest (rc_geography c) = demo_area_digest"
    if "c \<in> {demo_left, demo_right}" for c
    using that by (auto simp: demo_left_def demo_right_def demo_candidate_def)
  have order: "res_require_sorted_unique_uuids n [UUID 1, UUID 2] = Inr ()" for n
    by (simp add: res_require_sorted_unique_uuids_def sorted_unique_iff less_eq_uuid_def)
  have pair: "md_left_candidate_id demo_decision = UUID 1" "md_right_candidate_id demo_decision = UUID 2"
    by (simp_all add: demo_decision_def demo_decision_payload_def)
  have "validate_batch (demo_batch decisions) = Inr ()"
    using assms demo_candidates_valid demo_thresholds_valid demo_area demo_decision_valid(2) geo order
    unfolding validate_batch_def Let_def checks_append checks_map
    by (auto simp: demo_batch_def demo_payload_def ids pair max_length_def demo_thresholds_def decision_pair_def
        res_require_sorted_unique_uuids_def res_require_sorted_unique_enums_def)
  moreover have "batch_json (demo_batch decisions) = batch_json (demo_payload decisions)"
    by (simp add: batch_json_def demo_batch_def)
  ultimately show ?thesis
    using assms demo_decision_valid(3)
    by (auto simp: verify_resolution_batch_def checks_append checks_map) (simp_all add: demo_batch_def demo_payload_def)
qed

lemma demo_pairs:
  assumes "decisions = [] \<or> decisions = [demo_decision]"
  shows "generate_pairs (demo_batch decisions) = Inr [(UUID 1, UUID 2)]"
    and "batch_pairs (demo_batch decisions) = {(UUID 1, UUID 2)}"
    and "collision_free (demo_batch decisions)"
proof -
  have "generate_pairs (demo_payload []) = Inr [(UUID 1, UUID 2)]"
    "generate_pairs (demo_payload [demo_decision_payload]) = Inr [(UUID 1, UUID 2)]" by code_simp+
  moreover have "generate_pairs (demo_payload [demo_decision]) = generate_pairs (demo_payload [demo_decision_payload])"
    by (simp add: generate_pairs_def demo_payload_def demo_decision_def decision_pair_def)
  moreover have "generate_pairs (demo_batch decisions) = generate_pairs (demo_payload decisions)"
    by (simp add: generate_pairs_def demo_batch_def)
  ultimately show gen: "generate_pairs (demo_batch decisions) = Inr [(UUID 1, UUID 2)]" using assms by auto
  note v = verified_valid [OF demo_verified [OF assms]]
  have "finite (batch_pairs (demo_batch decisions))" by (simp add: batch_pairs_def blocking_pairs_finite)
  moreover have "sorted_list_of_set (batch_pairs (demo_batch decisions)) = [(UUID 1, UUID 2)]"
    using gen unfolding generate_pairs_eq [OF v] by (auto split: if_splits)
  ultimately show pairs: "batch_pairs (demo_batch decisions) = {(UUID 1, UUID 2)}"
    by (metis list.set(1,2) set_sorted_list_of_set)
  have "separated (demo_batch decisions) \<subseteq> batch_pairs (demo_batch decisions)"
    by (auto simp: separated_def batch_pairs_def)
  then have "separated (demo_batch decisions) \<subseteq> {(UUID 1, UUID 2)}" using pairs by simp
  then show "collision_free (demo_batch decisions)"
    unfolding collision_free_def pairs pair_digests_def by (auto simp: inj_on_def)
qed

lemma demo_frames: "length (rb_candidates (demo_batch decisions)) \<le> 2"
  by (simp add: demo_batch_def demo_payload_def)

end
