(* ===== verification/Resolution_Properties.thy ===== *)
theory Resolution_Properties
  imports Resolution_Scenario
begin

text \<open>The properties of entity resolution.\<close>

text \<open>
  \<^bold>\<open>C32.\<close> The row-by-row loop of \<open>_levenshtein_distance\<close> computes the edit distance: the least
  number of single-character insertions, deletions and substitutions that turn one text into the other.
\<close>

theorem levenshtein_is_edit_distance:
  "levenshtein_distance left right = int (LEAST n. (edit_step ^^ n) left right)"
  by (simp add: levenshtein_distance_eq edit_distance_def)

text \<open>
  \<^bold>\<open>C33.\<close> Resolving a pair of validated candidates in canonical order never fails: the features and
  the resolution it builds pass every check of their models, similarities are basis points, and an
  address similarity of 10000 means that the candidates share an address.
\<close>

theorem resolved_pairs_valid:
  assumes "validate_candidate l = Inr ()" and "validate_candidate r = Inr ()"
    and "rc_candidate_id l < rc_candidate_id r" and "validate_thresholds (rb_thresholds b) = Inr ()"
  shows "\<exists>p. resolve_pair l r b d = Inr p \<and> validate_pair (pr_features p) = Inr () \<and> validate_reasons p = Inr ()
    \<and> edge_of p = (rc_candidate_id l, rc_candidate_id r)
    \<and> 0 \<le> pf_name_similarity_bps (pr_features p) \<and> pf_name_similarity_bps (pr_features p) \<le> 10000
    \<and> (maximum_similarity (rc_addresses l) (rc_addresses r) = 10000 \<longleftrightarrow> set (rc_addresses l) \<inter> set (rc_addresses r) \<noteq> {})"
proof -
  obtain p where "resolve_pair l r b d = Inr p" "validate_pair (pr_features p) = Inr ()" "validate_reasons p = Inr ()"
      "edge_of p = (rc_candidate_id l, rc_candidate_id r)"
    using resolve_pair_ok [OF assms] by (metis edge_of_def)
  then show ?thesis using maximum_similarity_exact by (auto simp: validate_pair_def in_range_def)
qed

theorem resolved_pairs_valid_witness:
  "\<exists>p. resolve_pair demo_left demo_right (demo_payload []) None = Inr p \<and> validate_pair (pr_features p) = Inr ()"
proof -
  have "rc_candidate_id demo_left < rc_candidate_id demo_right" by code_simp
  moreover have "validate_thresholds (rb_thresholds (demo_payload [])) = Inr ()" by code_simp
  ultimately show ?thesis
    using resolved_pairs_valid [OF demo_candidates_valid, of "demo_payload []" None] by blast
qed

text \<open>With a frame for every identity no operation is stopped.\<close>

lemma enough_frames_connect:
  assumes "card (set ids) \<le> frames" and "set edges \<subseteq> set ids \<times> set ids"
  shows "\<exists>s. joins (uf_join frames) (union_find_init ids) edges = returns s \<and>
    (\<forall>x \<in> set ids. \<exists>s'. members_of frames s x = returns ({y. (x, y) \<in> (set edges \<union> (set edges)\<inverse>)\<^sup>*}, s'))"
proof -
  let ?s0 = "union_find_init ids" and ?E = "set edges \<union> (set edges)\<inverse>"
  have U: "\<Union>(uf_classes ?s0) = set ids" unfolding union_find_init_classes by auto
  have L: "uf.linked ?s0 = Id_on (set ids)" unfolding uf.linked_def union_find_init_classes by auto
  have ends: "\<forall>(x, y) \<in> set edges. x \<in> \<Union>(uf_classes ?s0) \<and> y \<in> \<Union>(uf_classes ?s0)" using assms(2) U by auto
  obtain s where s: "joins (uf_join frames) ?s0 edges = returns s" "uf_fits frames s" "\<Union>(uf_classes s) = set ids"
      "uf.linked s = (Id_on (set ids) \<union> ?E)\<^sup>+"
    using uf.joins_linked [OF union_find_init_fits [OF assms(1)] ends, unfolded L U Un_assoc] by (elim exE conjE) (rule that)
  have "\<exists>s'. members_of frames s x = returns ({y. (x, y) \<in> ?E\<^sup>*}, s')" if x: "x \<in> set ids" for x
  proof -
    obtain A where A: "A \<in> uf_classes s" "x \<in> A" using x s(3) by auto
    have "A = {y. (x, y) \<in> uf.linked s}"
      using A uf.classes_disjoint [OF s(2) A(1) _ A(2)] unfolding uf.linked_def by blast
    also have "\<dots> = {y. (x, y) \<in> ?E\<^sup>*}"
    proof -
      have "(Id_on (set ids) \<union> ?E)\<^sup>+ \<subseteq> ?E\<^sup>*" by (rule trancl_Id_on)
      moreover have "(x, y) \<in> (Id_on (set ids) \<union> ?E)\<^sup>+" if "(x, y) \<in> ?E\<^sup>*" for y
        using that x trancl_mono_subset [of ?E "Id_on (set ids) \<union> ?E"] by (auto dest!: rtranclD)
      ultimately show ?thesis unfolding s(4) by auto
    qed
    finally show ?thesis using uf.members_law [OF s(2) A] by auto
  qed
  then show ?thesis using s(1) by blast
qed

text \<open>
  \<^bold>\<open>C34.\<close> The union-find of the engine is right, and stops only when the interpreter runs out of frames.
  After joining the ends of any list of edges between its identities, \<open>members\<close> returns for every
  identity exactly the identities connected to it by the edges. A join or a lookup that does not return
  raises \<open>RecursionError\<close>, and then there are more identities than nested calls of \<open>find\<close>.
\<close>

theorem union_find_connected_components:
  assumes "set edges \<subseteq> set ids \<times> set ids"
  shows "(\<exists>s. joins (uf_join frames) (union_find_init ids) edges = returns s \<and>
        (\<forall>x \<in> set ids. (\<exists>s'. members_of frames s x = returns ({y. (x, y) \<in> (set edges \<union> (set edges)\<inverse>)\<^sup>*}, s'))
           \<or> frames < card (set ids) \<and> members_of frames s x = raises RecursionError))
     \<or> frames < card (set ids) \<and> joins (uf_join frames) (union_find_init ids) edges = raises RecursionError"
proof -
  define enough where "enough = max frames (card (set ids))"
  have n: "frames \<le> enough" "card (set ids) \<le> enough" by (simp_all add: enough_def)
  have same: "enough = frames" if "\<not> frames < card (set ids)" using that by (simp add: enough_def)
  obtain s where s: "joins (uf_join enough) (union_find_init ids) edges = returns s"
    "\<And>x. x \<in> set ids \<Longrightarrow> \<exists>s'. members_of enough s x = returns ({y. (x, y) \<in> (set edges \<union> (set edges)\<inverse>)\<^sup>*}, s')"
    using enough_frames_connect [OF n(2) assms] by blast
  have join: "stops_or (joins (uf_join frames) (union_find_init ids) edges) (returns s)"
    unfolding s(1) [symmetric] by (intro joins_stops_or join_more_frames n(1))
  have "(\<exists>s'. members_of frames s x = returns ({y. (x, y) \<in> (set edges \<union> (set edges)\<inverse>)\<^sup>*}, s'))
      \<or> frames < card (set ids) \<and> members_of frames s x = raises RecursionError" if "x \<in> set ids" for x
    using s(2) [OF that] members_more_frames [OF n(1), of s x] same by (auto simp: stops_or_def)
  moreover have "joins (uf_join frames) (union_find_init ids) edges = returns s
      \<or> frames < card (set ids) \<and> joins (uf_join frames) (union_find_init ids) edges = raises RecursionError"
    using join s(1) same by (auto simp: stops_or_def)
  ultimately show ?thesis by blast
qed

theorem union_find_connected_components_witness:
  "\<exists>s s'. joins (uf_join 3) (union_find_init [UUID 1, UUID 2, UUID 3]) [(UUID 3, UUID 2)] = returns s
    \<and> members_of 3 s (UUID 2) = returns ({y. (UUID 2, y) \<in> ({(UUID 3, UUID 2)} \<union> {(UUID 3, UUID 2)}\<inverse>)\<^sup>*}, s')"
  using union_find_connected_components [of "[(UUID 3, UUID 2)]" "[UUID 1, UUID 2, UUID 3]" 3] by auto

text \<open>
  \<^bold>\<open>C35.\<close> A verified batch with a ready market area whose pairs stay within the limit is resolved,
  and its clusters partition its candidates: each candidate is in exactly one cluster. This assumes that
  no two pairs and no two possible blocked edges of the batch share a SHA-256 digest. The one other
  outcome is a \<open>RecursionError\<close>, possible when the batch has more candidates than the interpreter has
  frames for nested calls of \<open>find\<close>.
\<close>

theorem clusters_partition_candidates:
  assumes "verify_resolution_batch b = Inr ()" and "rb_market_area_readiness b = Area_READY"
    and "generate_pairs b = Inr pairs" and "collision_free b"
  shows "(\<exists>core. resolve_entities frames b = returns core
      \<and> mset (concat (map cl_member_candidate_ids (core_clusters core))) = mset (map rc_candidate_id (rb_candidates b)))
    \<or> frames < length (rb_candidates b) \<and> resolve_entities frames b = raises RecursionError"
proof -
  define enough where "enough = max frames (length (rb_candidates b))"
  have n: "frames \<le> enough" "length (rb_candidates b) \<le> enough" by (simp_all add: enough_def)
  obtain core where core: "resolve_entities enough b = returns core" using resolve_entities_total [OF assms n(2)] by blast
  then obtain prs s sel where v: "valid_resolution_batch b" and ok: "core_ok b prs s sel core"
    using resolve_entities_returnsE by blast
  have "mset (concat (map cl_member_candidate_ids (core_clusters core))) = mset (concat (cluster_members s))"
    using ok unfolding core_ok_def by (metis mset_concat mset_map sum_mset_sum_list)
  also have "\<dots> = mset (candidate_ids b)"
    using ok loop_start(1) [OF v] by (intro cluster_members_mset candidate_ids_distinct [OF v])
      (simp_all add: core_ok_def loop_result_def start_def)
  finally have "mset (concat (map cl_member_candidate_ids (core_clusters core))) = mset (candidate_ids b)" .
  moreover have "enough = frames" if "\<not> frames < length (rb_candidates b)" using that by (simp add: enough_def)
  ultimately show ?thesis using core resolve_more_frames [OF n(1), of b] by (auto simp: stops_or_def)
qed

theorem clusters_partition_candidates_witness:
  "\<exists>core. resolve_entities 2 (demo_batch []) = returns core
    \<and> mset (concat (map cl_member_candidate_ids (core_clusters core))) = {#UUID 1, UUID 2#}"
proof -
  have "rb_market_area_readiness (demo_batch []) = Area_READY" by (simp add: demo_batch_def demo_payload_def)
  moreover have "map rc_candidate_id (rb_candidates (demo_batch [])) = [UUID 1, UUID 2]" "length (rb_candidates (demo_batch [])) = 2"
    by (simp_all add: demo_batch_def demo_payload_def demo_left_def demo_right_def demo_candidate_def)
  ultimately show ?thesis
    using clusters_partition_candidates [OF demo_verified [of "[]"] _ demo_pairs(1) demo_pairs(3), where frames = 2] by simp
qed

text \<open>
  \<^bold>\<open>C36.\<close> A manual separation always holds: whatever the accepted pairs connect, two candidates an
  operator separated are never members of one cluster.
\<close>

theorem separated_candidates_apart:
  assumes "resolve_entities frames b = returns core" and "d \<in> set (rb_manual_decisions b)" and "md_action d = SEPARATE"
    and "c \<in> set (core_clusters core)"
  shows "\<not> (md_left_candidate_id d \<in> set (cl_member_candidate_ids c) \<and> md_right_candidate_id d \<in> set (cl_member_candidate_ids c))"
proof -
  obtain prs s sel where v: "valid_resolution_batch b" and ok: "core_ok b prs s sel core"
    using resolve_entities_returnsE [OF assms(1)] by blast
  have "decision_pair d \<in> separated b" using assms(2,3) by (simp add: separated_def)
  moreover have "apart (separated b) s" using ok by (simp add: core_ok_def loop_result_def)
  ultimately have "(md_left_candidate_id d, md_right_candidate_id d) \<notin> uf.linked s"
    by (auto simp: apart_def decision_pair_def)
  then show ?thesis using together_iff [OF v ok] assms(4) by blast
qed

theorem separated_candidates_apart_witness:
  "\<exists>core. resolve_entities 2 (demo_batch [demo_decision]) = returns core
    \<and> (\<forall>c \<in> set (core_clusters core). \<not> (UUID 1 \<in> set (cl_member_candidate_ids c) \<and> UUID 2 \<in> set (cl_member_candidate_ids c)))"
proof -
  have "rb_market_area_readiness (demo_batch [demo_decision]) = Area_READY" by (simp add: demo_batch_def demo_payload_def)
  then obtain core where core: "resolve_entities 2 (demo_batch [demo_decision]) = returns core"
    using resolve_entities_total [OF demo_verified _ demo_pairs(1) demo_pairs(3) demo_frames, of "[demo_decision]"] by auto
  have d: "demo_decision \<in> set (rb_manual_decisions (demo_batch [demo_decision]))" "md_action demo_decision = SEPARATE"
    "md_left_candidate_id demo_decision = UUID 1" "md_right_candidate_id demo_decision = UUID 2"
    by (simp_all add: demo_batch_def demo_payload_def demo_decision_def demo_decision_payload_def)
  show ?thesis using core separated_candidates_apart [OF core d(1,2)] d(3,4) by auto
qed

text \<open>A blocked edge of two clusters, with the separation of an operator between them.\<close>

definition blocked_between :: "resolution_core_result \<Rightarrow> pair_resolution \<Rightarrow> manual_resolution_decision \<Rightarrow> bool" where
  "blocked_between core p d \<longleftrightarrow> md_action d = SEPARATE
     \<and> blocked_edge p (pair_digest (md_left_candidate_id d) (md_right_candidate_id d)) \<in> set (core_blocked_match_edges core)
     \<and> (\<exists>c \<in> set (core_clusters core). \<exists>c' \<in> set (core_clusters core). fst (edge_of p) \<in> set (cl_member_candidate_ids c)
          \<and> snd (edge_of p) \<in> set (cl_member_candidate_ids c')
          \<and> (md_left_candidate_id d \<in> set (cl_member_candidate_ids c) \<and> md_right_candidate_id d \<in> set (cl_member_candidate_ids c')
             \<or> md_right_candidate_id d \<in> set (cl_member_candidate_ids c) \<and> md_left_candidate_id d \<in> set (cl_member_candidate_ids c')))"

lemma blocked_edge_between:
  assumes v: "valid_resolution_batch b" and ok: "core_ok b prs s sel core" and q: "(p, q) \<in> set sel"
  shows "\<exists>d \<in> set (rb_manual_decisions b). blocked_between core p d"
proof -
  have "crosses (separated b) (uf.linked s) (edge_of p) q" using ok q unfolding core_ok_def loop_result_def by blast
  then obtain d where d: "d \<in> set (rb_manual_decisions b)" "md_action d = SEPARATE"
      "q = pair_digest (md_left_candidate_id d) (md_right_candidate_id d)"
    and linked: "(fst (edge_of p), md_left_candidate_id d) \<in> uf.linked s \<and> (snd (edge_of p), md_right_candidate_id d) \<in> uf.linked s
      \<or> (fst (edge_of p), md_right_candidate_id d) \<in> uf.linked s \<and> (snd (edge_of p), md_left_candidate_id d) \<in> uf.linked s"
    by (auto simp: crosses_def separated_def decision_pair_def)
  have "blocked_edge p q \<in> set (core_blocked_match_edges core)"
    using ok q by (force simp: core_ok_def blocked_of_def)
  then show ?thesis using d linked unfolding together_iff [OF v ok, symmetric] blocked_between_def by blast
qed

text \<open>
  \<^bold>\<open>C37.\<close> The clusters follow the accepted pairs. The two candidates of an accepted pair are in one
  cluster, or the pair is recorded as a blocked edge that names an operator's separation, and the two
  separated candidates are members of the clusters of the pair's two candidates, one of each; and members
  of one cluster are connected by accepted pairs.
\<close>

theorem clusters_follow_accepted_pairs:
  assumes "resolve_entities frames b = returns core"
  shows "(\<forall>p \<in> set (core_pair_resolutions core). pr_disposition p \<in> {AUTO_MATCH, MANUAL_MATCH} \<longrightarrow>
      (\<exists>c \<in> set (core_clusters core). fst (edge_of p) \<in> set (cl_member_candidate_ids c)
         \<and> snd (edge_of p) \<in> set (cl_member_candidate_ids c))
      \<or> (\<exists>d \<in> set (rb_manual_decisions b). md_action d = SEPARATE
         \<and> blocked_edge p (pair_digest (md_left_candidate_id d) (md_right_candidate_id d)) \<in> set (core_blocked_match_edges core)
         \<and> (\<exists>c \<in> set (core_clusters core). \<exists>c' \<in> set (core_clusters core). fst (edge_of p) \<in> set (cl_member_candidate_ids c)
              \<and> snd (edge_of p) \<in> set (cl_member_candidate_ids c')
              \<and> (md_left_candidate_id d \<in> set (cl_member_candidate_ids c) \<and> md_right_candidate_id d \<in> set (cl_member_candidate_ids c')
                 \<or> md_right_candidate_id d \<in> set (cl_member_candidate_ids c) \<and> md_left_candidate_id d \<in> set (cl_member_candidate_ids c')))))
    \<and> (\<forall>c \<in> set (core_clusters core). \<forall>x \<in> set (cl_member_candidate_ids c). \<forall>y \<in> set (cl_member_candidate_ids c).
      (x, y) \<in> (let E = edge_of ` {p \<in> set (core_pair_resolutions core). pr_disposition p \<in> {AUTO_MATCH, MANUAL_MATCH}}
        in (E \<union> E\<inverse>)\<^sup>*))"
proof -
  obtain prs s sel where v: "valid_resolution_batch b" and ok: "core_ok b prs s sel core"
    using resolve_entities_returnsE [OF assms] by blast
  let ?P = "{p \<in> set (core_pair_resolutions core). pr_disposition p \<in> {AUTO_MATCH, MANUAL_MATCH}}"
  have acc: "set (accepted_edges prs) = ?P" using ok by (auto simp: core_ok_def set_accepted_edges)
  have loop: "loop_result (separated b) (accepted_edges prs) (start b) s sel"
    using ok by (simp_all add: core_ok_def)
  have "(\<exists>c \<in> set (core_clusters core). fst (edge_of p) \<in> set (cl_member_candidate_ids c)
         \<and> snd (edge_of p) \<in> set (cl_member_candidate_ids c))
      \<or> (\<exists>d \<in> set (rb_manual_decisions b). blocked_between core p d)"
    if "p \<in> ?P" for p
  proof (cases "edge_of p \<in> uf.linked s")
    case False
    moreover have "p \<in> set (accepted_edges prs)" using that acc by simp
    ultimately have "p \<in> fst ` set sel" using loop unfolding loop_result_def by blast
    then obtain q where q: "(p, q) \<in> set sel" by auto
    then show ?thesis using blocked_edge_between [OF v ok q] by blast
  qed (use together_iff [OF v ok, of "fst (edge_of p)" "snd (edge_of p)"] in simp)
  moreover have "(x, y) \<in> (edge_of ` ?P \<union> (edge_of ` ?P)\<inverse>)\<^sup>*"
    if "c \<in> set (core_clusters core)" "x \<in> set (cl_member_candidate_ids c)" "y \<in> set (cl_member_candidate_ids c)" for c x y
  proof -
    have "(x, y) \<in> uf.linked s" using together_iff [OF v ok, of x y] that by blast
    also have "uf.linked s \<subseteq> (Id_on (set (candidate_ids b)) \<union> (edge_of ` ?P \<union> (edge_of ` ?P)\<inverse>))\<^sup>+"
      using loop unfolding loop_result_def start_def loop_start(2) [OF v] acc Un_assoc by (elim conjE)
    also have "\<dots> \<subseteq> (edge_of ` ?P \<union> (edge_of ` ?P)\<inverse>)\<^sup>*" by (rule trancl_Id_on)
    finally show ?thesis .
  qed
  ultimately show ?thesis unfolding Let_def blocked_between_def by blast
qed

theorem clusters_follow_accepted_pairs_witness:
  "\<exists>core. resolve_entities 2 (demo_batch []) = returns core
    \<and> (\<forall>p \<in> set (core_pair_resolutions core). pr_disposition p \<in> {AUTO_MATCH, MANUAL_MATCH} \<longrightarrow>
        (\<exists>c \<in> set (core_clusters core). fst (edge_of p) \<in> set (cl_member_candidate_ids c)
           \<and> snd (edge_of p) \<in> set (cl_member_candidate_ids c)))"
proof -
  have "rb_market_area_readiness (demo_batch []) = Area_READY" by (simp add: demo_batch_def demo_payload_def)
  then obtain core where core: "resolve_entities 2 (demo_batch []) = returns core"
    using resolve_entities_total [OF demo_verified _ demo_pairs(1) demo_pairs(3) demo_frames, of "[]"] by auto
  moreover have "rb_manual_decisions (demo_batch []) = []" by (simp add: demo_batch_def demo_payload_def)
  ultimately show ?thesis using clusters_follow_accepted_pairs [OF core] by auto
qed

text \<open>
  \<^bold>\<open>C38.\<close> Pair generation is exact: for a verified batch the generated pairs are, in order and without
  repetition, the ordered pairs of candidates that share a blocking key together with the pairs of the
  manual decisions; beyond the declared limit the batch is refused, and nothing else is ever refused.
\<close>

theorem generated_pairs_exact:
  assumes "verify_resolution_batch b = Inr ()"
  shows "generate_pairs b =
    (let shared = {(rc_candidate_id c, rc_candidate_id c') | c c' keys keys'. c \<in> set (rb_candidates b)
           \<and> c' \<in> set (rb_candidates b) \<and> rc_candidate_id c < rc_candidate_id c'
           \<and> block_keys c = Inr keys \<and> block_keys c' = Inr keys' \<and> set keys \<inter> set keys' \<noteq> {}};
         wanted = shared \<union> set (map decision_pair (rb_manual_decisions b)); limit = pair_limit (rb_thresholds b)
     in if limit < int (card shared) then Inl (ResolutionError ''RESOLUTION_PAIR_LIMIT_EXCEEDED''
            ''Generated candidate pairs exceed the declared batch limit.'')
        else if limit < int (card wanted) then Inl (ResolutionError ''RESOLUTION_PAIR_LIMIT_EXCEEDED''
            ''Manual decisions exceed the declared candidate-pair limit.'')
        else Inr (sorted_list_of_set wanted))"
proof -
  have "blocking_pairs b = {(rc_candidate_id c, rc_candidate_id c') | c c' keys keys'. c \<in> set (rb_candidates b)
      \<and> c' \<in> set (rb_candidates b) \<and> rc_candidate_id c < rc_candidate_id c'
      \<and> block_keys c = Inr keys \<and> block_keys c' = Inr keys' \<and> set keys \<inter> set keys' \<noteq> {}}"
    unfolding blocking_pairs_def has_key_def by blast
  then show ?thesis
    using generate_pairs_eq [OF verified_valid [OF assms]] by (simp only: Let_def batch_pairs_def)
qed

theorem generated_pairs_exact_witness:
  "sorted_list_of_set ({(rc_candidate_id c, rc_candidate_id c') | c c' keys keys'. c \<in> set (rb_candidates (demo_batch []))
      \<and> c' \<in> set (rb_candidates (demo_batch [])) \<and> rc_candidate_id c < rc_candidate_id c'
      \<and> block_keys c = Inr keys \<and> block_keys c' = Inr keys' \<and> set keys \<inter> set keys' \<noteq> {}}) = [(UUID 1, UUID 2)]"
proof -
  have "rb_manual_decisions (demo_batch []) = []" by (simp add: demo_batch_def demo_payload_def)
  then show ?thesis
    using generated_pairs_exact [OF demo_verified [of "[]"]] demo_pairs(1) [of "[]"]
    by (auto simp: Let_def split: if_splits)
qed

end
