(* ===== verification/Quality_Evaluator.thy ===== *)
theory Quality_Evaluator
  imports Resolution_Engine
begin

text \<open>
  \<^verbatim>\<open>quality_core/evaluator.py\<close>, the quality assessment of the resolved clusters, and
  \<^verbatim>\<open>resolution_worker/snapshot.py\<close>, which runs resolution and evaluation and seals the snapshot.
\<close>

section \<open>Issues\<close>

definition block :: "string \<Rightarrow> candidate_field option \<Rightarrow> string option \<Rightarrow> string option
    \<Rightarrow> cluster_quality_issue checked" where
  "block code field related_pair_id related_blocked_edge_id = make_cluster_quality_issue
     \<lparr>qi_code = code, qi_severity = Severity_BLOCKING, qi_field = field,
      qi_related_pair_id = related_pair_id, qi_related_blocked_edge_id = related_blocked_edge_id\<rparr>"

text \<open>\<open>getattr(member, field.value)\<close>\<close>

fun candidate_values :: "candidate_field \<Rightarrow> resolution_candidate \<Rightarrow> string list" where
  "candidate_values NAMES c = rc_names c"
| "candidate_values PHONES c = rc_phones c"
| "candidate_values EMAILS c = rc_emails c"
| "candidate_values WEBSITE_URLS c = rc_website_urls c"
| "candidate_values ADDRESSES c = rc_addresses c"

definition field_values :: "resolution_candidate list \<Rightarrow> candidate_field \<Rightarrow> string set" where
  "field_values members field = (\<Union>member \<in> set members. set (candidate_values field member))"

definition evaluate_required_fields ::
    "resolution_candidate list \<Rightarrow> cluster_quality_rule \<Rightarrow> cluster_quality_issue checked list" where
  "evaluate_required_fields members rule =
     map (\<lambda>field. block ''REQUIRED_FIELD_ABSENT'' (Some field) None None)
       (filter (\<lambda>field. field_values members field = {}) (qr_required_fields rule))"

definition evaluate_single_value_fields ::
    "resolution_candidate list \<Rightarrow> cluster_quality_rule \<Rightarrow> cluster_quality_issue checked list" where
  "evaluate_single_value_fields members rule =
     map (\<lambda>field. block ''SINGLE_VALUE_FIELD_CONFLICT'' (Some field) None None)
       (filter (\<lambda>field. 1 < card (field_values members field)) (qr_single_value_fields rule))"

definition pair_touches :: "pair_features \<Rightarrow> uuid list \<Rightarrow> bool" where
  "pair_touches features member_ids \<longleftrightarrow>
     pf_left_candidate_id features \<in> set member_ids \<or> pf_right_candidate_id features \<in> set member_ids"

text \<open>The pending pairs that touch a cluster, sorted.\<close>

definition touching_pending :: "(string \<times> pair_features) list \<Rightarrow> string set \<Rightarrow> uuid list \<Rightarrow> string list computed" where
  "touching_pending pairs pending member_ids =
     seq (traverse_computed (\<lambda>pair_id. seq (lookup pairs pair_id)
            (\<lambda>features. returns (pair_touches features member_ids, pair_id))) (sorted_list_of_set pending))
       (\<lambda>touched. returns (sort (map snd (filter fst touched))))"

definition issue_if :: "bool \<Rightarrow> string \<Rightarrow> cluster_quality_issue checked list" where
  "issue_if c code = (if c then [block code None None None] else [])"

text \<open>What the rule of the cluster's entity kind asks for.\<close>

definition rule_issues :: "(string \<times> pair_features) list \<Rightarrow> string set \<Rightarrow> uuid list \<Rightarrow> resolution_candidate list
    \<Rightarrow> cluster_quality_rule \<Rightarrow> cluster_quality_issue checked list computed" where
  "rule_issues pairs pending member_ids members rule =
     seq (if qr_pending_review_blocks_export rule then touching_pending pairs pending member_ids else returns [])
       (\<lambda>touching.
        returns (evaluate_required_fields members rule
          @ evaluate_single_value_fields members rule
          @ issue_if (int (card (\<Union>member \<in> set members. set (rc_source_keys member)))
                < qr_minimum_distinct_source_count rule) ''INSUFFICIENT_DISTINCT_SOURCES''
          @ issue_if (list_ex (\<lambda>member. gr_coverage (rc_geography member) \<notin> set (qr_allowed_geography rule)) members)
              ''GEOGRAPHY_NOT_ALLOWED''
          @ issue_if (qr_boundary_requires_review rule
                \<and> list_ex (\<lambda>member. gr_coverage (rc_geography member) = BOUNDARY) members)
              ''GEOGRAPHY_BOUNDARY_REVIEW_REQUIRED''
          @ map (\<lambda>pair_id. block ''PENDING_RESOLUTION_REVIEW'' None (Some pair_id) None) touching))"

definition cluster_rule :: "resolution_batch \<Rightarrow> resolution_candidate list \<Rightarrow> cluster_quality_rule option" where
  "cluster_rule batch members =
     (if card (rc_entity_kind ` set members) \<noteq> 1 then None
      else map_of (dict_of qr_entity_kind (\<lambda>item. item) (rb_quality_rules batch)) (rc_entity_kind (hd members)))"

definition cluster_issues :: "resolution_batch \<Rightarrow> (string \<times> pair_features) list \<Rightarrow> string set
    \<Rightarrow> resolved_cluster \<Rightarrow> resolution_candidate list \<Rightarrow> cluster_quality_issue list computed" where
  "cluster_issues batch pairs pending cluster members =
     seq (case cluster_rule batch members of
            None \<Rightarrow> returns []
          | Some rule \<Rightarrow> rule_issues pairs pending (cl_member_candidate_ids cluster) members rule) (\<lambda>by_rule.
       checked_value (traverse (\<lambda>issue. issue)
         (issue_if (card (rc_entity_kind ` set members) \<noteq> 1) ''MIXED_ENTITY_KINDS''
          @ issue_if (card (rc_entity_kind ` set members) = 1 \<and> cluster_rule batch members = None)
              ''MISSING_QUALITY_POLICY''
          @ issue_if (list_ex (\<lambda>item. rc_observation_ids item = [] \<or> rc_source_artifact_ids item = []
                \<or> rc_source_keys item = []) members) ''MISSING_OBSERVATION_PROVENANCE''
          @ by_rule
          @ map (\<lambda>blocked_pair_id. block ''MATCH_EDGE_BLOCKED_BY_SEPARATION'' None None (Some blocked_pair_id))
              (cl_blocked_match_edge_ids cluster))))"

definition assess_cluster :: "resolution_batch \<Rightarrow> pair_resolution list \<Rightarrow> string list
    \<Rightarrow> resolved_cluster \<Rightarrow> cluster_quality_assessment computed" where
  "assess_cluster batch pair_resolutions pending_review_pair_ids cluster =
     (let candidates = dict_of rc_candidate_id (\<lambda>item. item) (rb_candidates batch);
          pairs = dict_of pair_id_of pr_features pair_resolutions
      in seq (traverse_computed (lookup candidates) (cl_member_candidate_ids cluster)) (\<lambda>members.
         seq (cluster_issues batch pairs (set pending_review_pair_ids) cluster members) (\<lambda>issues.
           let ordered = sort_key issue_key (remdups issues)
           in checked_value (make_cluster_quality_assessment
                \<lparr>qa_cluster_id = cl_cluster_id cluster,
                 qa_export_eligible = (\<not> has_blocker ordered),
                 qa_issues = ordered\<rparr>))))"

definition evaluate_cluster_quality :: "resolution_batch \<Rightarrow> resolved_cluster list \<Rightarrow> pair_resolution list
    \<Rightarrow> string list \<Rightarrow> cluster_quality_assessment list computed" where
  "evaluate_cluster_quality batch clusters pair_resolutions pending_review_pair_ids =
     seq (traverse_computed (assess_cluster batch pair_resolutions pending_review_pair_ids) clusters)
       (\<lambda>assessments. returns (sort_key qa_cluster_id assessments))"

section \<open>The snapshot of a batch\<close>

definition make_diagnostic :: "string \<Rightarrow> int \<Rightarrow> resolution_diagnostic checked" where
  "make_diagnostic code n =
     (let d = \<lparr>rd_code = code, rd_count = n\<rparr> in result_bind (validate_diagnostic d) (\<lambda>_. Inr d))"

definition diagnostics :: "resolution_batch \<Rightarrow> resolution_core_result \<Rightarrow> resolution_diagnostic list checked" where
  "diagnostics batch core =
     result_bind (traverse (\<lambda>(code, n). make_diagnostic code n)
       [(''BLOCKED_MATCH_EDGE_COUNT'', int (length (core_blocked_match_edges core))),
        (''CANDIDATE_COUNT'', int (length (rb_candidates batch))),
        (''CLUSTER_COUNT'', int (length (core_clusters core))),
        (''PAIR_COUNT'', int (length (core_pair_resolutions core))),
        (''PENDING_REVIEW_PAIR_COUNT'', int (length (core_pending_review_pair_ids core)))])
       (\<lambda>items. Inr (sort_key rd_code items))"

definition build_resolution_snapshot :: "nat \<Rightarrow> resolution_batch \<Rightarrow> resolution_snapshot computed" where
  "build_resolution_snapshot frames batch =
     seq (resolve_entities frames batch) (\<lambda>core.
     seq (evaluate_cluster_quality batch (core_clusters core) (core_pair_resolutions core)
            (core_pending_review_pair_ids core)) (\<lambda>quality.
     seq (checked_value (diagnostics batch core)) (\<lambda>items.
       let payload =
         \<lparr>rs_batch_id = rb_batch_id batch,
          rs_batch_digest = rb_batch_digest batch,
          rs_market_area_revision = rb_market_area_revision batch,
          rs_market_area_digest = rb_market_area_digest batch,
          rs_pair_resolutions = core_pair_resolutions core,
          rs_blocked_match_edges = core_blocked_match_edges core,
          rs_clusters = core_clusters core,
          rs_quality_assessments = quality,
          rs_pending_review_pair_ids = core_pending_review_pair_ids core,
          rs_diagnostics = items,
          rs_snapshot_digest = []\<rparr>
       in seq (checked_value (validate_snapshot payload)) (\<lambda>_.
            checked_value (seal_resolution_snapshot payload)))))"

end
