(* ===== verification/Resolution_Quality.thy ===== *)
theory Resolution_Quality
  imports Quality_Evaluator Resolution_Results
begin

text \<open>
  The assessments of the resolved clusters: every issue the evaluator raises is a valid, blocking issue,
  and an assessment passes the checks of its model as long as the cluster has at most 256 issues.
\<close>

section \<open>Issues\<close>

definition issue_ok :: "cluster_quality_issue \<Rightarrow> bool" where
  "issue_ok i \<longleftrightarrow> validate_issue i = Inr () \<and> qi_severity i = Severity_BLOCKING"

lemma candidate_field_value_inj: "candidate_field_value f = candidate_field_value g \<longleftrightarrow> f = g"
  "candidate_field_value f \<noteq> []"
  by (cases f; cases g; simp)+

lemma issue_key_inj: "inj_on issue_key {i. issue_ok i}"
proof (rule inj_onI)
  fix i j
  assume ij: "i \<in> {i. issue_ok i}" "j \<in> {i. issue_ok i}" "issue_key i = issue_key j"
  have id: "p = q" if "(case p of None \<Rightarrow> [] | Some v \<Rightarrow> v) = (case q of None \<Rightarrow> [] | Some v \<Rightarrow> v)"
    "when_present (res_require_digest n) p = Inr ()" "when_present (res_require_digest n) q = Inr ()"
    for n and p q :: "string option"
    using that by (auto simp: when_present_def res_require_digest_def sha256_pattern_def split: option.splits)
  have "qi_related_pair_id i = qi_related_pair_id j" "qi_related_blocked_edge_id i = qi_related_blocked_edge_id j"
    using ij by (auto simp: issue_key_def issue_ok_def validate_issue_def intro: id)
  moreover have "f = g" if "(case f of None \<Rightarrow> [] | Some v \<Rightarrow> candidate_field_value v)
      = (case g of None \<Rightarrow> [] | Some v \<Rightarrow> candidate_field_value v)" for f g
    using that candidate_field_value_inj(2) by (cases f; cases g) (auto simp: candidate_field_value_inj(1) dest: sym)
  then have "qi_field i = qi_field j" using ij(3) by (simp add: issue_key_def)
  ultimately show "i = j" using ij by (simp add: issue_key_def issue_ok_def)
qed

text \<open>What the evaluator constructs: known codes, and digests of the right shape.\<close>

lemma block_ok:
  assumes "code_pattern code" and "related_pair_id = None \<or> related_blocked_edge_id = None"
    and "\<And>p. related_pair_id = Some p \<Longrightarrow> sha256_pattern p" and "\<And>e. related_blocked_edge_id = Some e \<Longrightarrow> sha256_pattern e"
  shows "\<exists>i. block code field related_pair_id related_blocked_edge_id = Inr i \<and> issue_ok i"
  using assms by (auto simp: block_def make_cluster_quality_issue_def issue_ok_def validate_issue_def when_present_def
      res_require_code_def res_require_digest_def split: option.split)

definition specs_ok :: "cluster_quality_issue checked list \<Rightarrow> bool" where
  "specs_ok specs \<longleftrightarrow> (\<forall>spec \<in> set specs. \<exists>i. spec = Inr i \<and> issue_ok i)"

lemma specs_ok_simps [simp]:
  "specs_ok []" "specs_ok (xs @ ys) \<longleftrightarrow> specs_ok xs \<and> specs_ok ys"
  by (auto simp: specs_ok_def)

lemma specs_ok_traverse:
  assumes "specs_ok specs"
  shows "\<exists>issues. traverse (\<lambda>issue. issue) specs = Inr issues \<and> length issues = length specs \<and> (\<forall>i \<in> set issues. issue_ok i)"
  using assms
proof (induction specs)
  case (Cons spec specs)
  obtain i where "spec = Inr i" "issue_ok i" using Cons.prems by (auto simp: specs_ok_def)
  then show ?case using Cons by (auto simp: specs_ok_def)
qed simp

lemma issue_codes:
  "code_pattern ''MIXED_ENTITY_KINDS''" "code_pattern ''MISSING_QUALITY_POLICY''" "code_pattern ''MISSING_OBSERVATION_PROVENANCE''"
  "code_pattern ''REQUIRED_FIELD_ABSENT''" "code_pattern ''SINGLE_VALUE_FIELD_CONFLICT''" "code_pattern ''INSUFFICIENT_DISTINCT_SOURCES''"
  "code_pattern ''GEOGRAPHY_NOT_ALLOWED''" "code_pattern ''GEOGRAPHY_BOUNDARY_REVIEW_REQUIRED''"
  "code_pattern ''PENDING_RESOLUTION_REVIEW''" "code_pattern ''MATCH_EDGE_BLOCKED_BY_SEPARATION''"
  by code_simp+

lemma issue_if_ok: "code_pattern code \<Longrightarrow> specs_ok (issue_if c code)" "length (issue_if c code) \<le> 1"
  using block_ok [of code None None] by (auto simp: issue_if_def specs_ok_def)

lemma map_block_ok:
  "code_pattern code \<Longrightarrow> specs_ok (map (\<lambda>field. block code (Some field) None None) fs)"
  "code_pattern code \<Longrightarrow> (\<And>p. p \<in> set ids \<Longrightarrow> sha256_pattern p) \<Longrightarrow> specs_ok (map (\<lambda>p. block code None (Some p) None) ids)"
  "code_pattern code \<Longrightarrow> (\<And>p. p \<in> set ids \<Longrightarrow> sha256_pattern p) \<Longrightarrow> specs_ok (map (\<lambda>e. block code None None (Some e)) ids)"
  by (auto simp: specs_ok_def intro!: block_ok)

lemma distinct_fields:
  assumes "res_require_sorted_unique_enums n (map candidate_field_value fs) = Inr ()"
  shows "length fs \<le> 5"
proof -
  have "distinct (map candidate_field_value fs)"
    using assms unfolding res_require_sorted_unique_enums_def guard_eq_Inr sorted_unique_iff ..
  then have "distinct fs" by (simp add: distinct_map)
  moreover have "set fs \<subseteq> {NAMES, PHONES, EMAILS, WEBSITE_URLS, ADDRESSES}"
    by (auto intro: candidate_field.exhaust)
  ultimately have "length fs \<le> card {NAMES, PHONES, EMAILS, WEBSITE_URLS, ADDRESSES}"
    by (metis card_mono distinct_card finite.emptyI finite.insertI)
  also have "\<dots> \<le> 5" by simp
  finally show ?thesis .
qed

lemma touching_pending_ok:
  assumes "\<And>p. p \<in> pending \<Longrightarrow> map_of pairs p \<noteq> None" and "finite pending"
  obtains ids where "touching_pending pairs pending members = returns ids" and "set ids \<subseteq> pending"
    and "length ids \<le> card pending"
proof -
  let ?f = "\<lambda>p. seq (lookup pairs p) (\<lambda>features. returns (pair_touches features members, p))"
  have "\<exists>t. ?f p = returns t \<and> snd t = p" if p: "p \<in> set (sorted_list_of_set pending)" for p
  proof -
    obtain f where "map_of pairs p = Some f" using assms p by auto
    then show ?thesis by simp
  qed
  then obtain ts where ts: "traverse_computed ?f (sorted_list_of_set pending) = returns ts"
      "list_all2 (\<lambda>p t. snd t = p) (sorted_list_of_set pending) ts"
    using traverse_computed_returns [of "sorted_list_of_set pending" ?f "\<lambda>p t. snd t = p"] by blast
  have "map snd ts = sorted_list_of_set pending" using ts(2) by (induction rule: list_all2_induct) auto
  moreover have "set (map snd (filter fst ts)) \<subseteq> set (map snd ts)" by auto
  moreover have "length (filter fst ts) \<le> length (map snd ts)" by simp
  ultimately show thesis
    using that [of "sort (map snd (filter fst ts))"] ts(1) assms(2) by (simp add: touching_pending_def)
qed

section \<open>Assessments\<close>

lemma rule_issues_ok:
  assumes rule: "validate_rule rule = Inr ()" and pending: "\<And>p. p \<in> pending \<Longrightarrow> map_of pairs p \<noteq> None \<and> sha256_pattern p"
    and fin: "finite pending"
  obtains specs where "rule_issues pairs pending member_ids members rule = returns specs" and "specs_ok specs"
    and "length specs \<le> 13 + card pending"
proof -
  obtain ids where ids: "(if qr_pending_review_blocks_export rule then touching_pending pairs pending member_ids else returns []) = returns ids"
      "set ids \<subseteq> pending" "length ids \<le> card pending"
  proof (cases "qr_pending_review_blocks_export rule")
    case True
    then show ?thesis using that touching_pending_ok [OF _ fin, of pairs member_ids] pending by (metis (full_types))
  qed (use that [of "[]"] in simp)
  let ?required = "evaluate_required_fields members rule" and ?single = "evaluate_single_value_fields members rule"
  have fields: "length (qr_required_fields rule) \<le> 5" "length (qr_single_value_fields rule) \<le> 5"
    using rule distinct_fields by (auto simp: validate_rule_def)
  have "length ?required \<le> 5" "length ?single \<le> 5"
    unfolding evaluate_required_fields_def evaluate_single_value_fields_def length_map
    by (rule order_trans [OF length_filter_le], rule fields)+
  moreover have "specs_ok ?required" "specs_ok ?single"
    unfolding evaluate_required_fields_def evaluate_single_value_fields_def by (intro map_block_ok issue_codes)+
  moreover have "specs_ok (map (\<lambda>p. block ''PENDING_RESOLUTION_REVIEW'' None (Some p) None) ids)"
    using ids(2) pending by (intro map_block_ok issue_codes) auto
  ultimately show thesis
    using that ids issue_if_ok(1) [OF issue_codes(6)] issue_if_ok(1) [OF issue_codes(7)] issue_if_ok(1) [OF issue_codes(8)]
    by (simp add: rule_issues_def issue_if_def)
qed

lemma cluster_issues_ok:
  assumes v: "valid_resolution_batch b" and pending: "\<And>p. p \<in> pending \<Longrightarrow> map_of pairs p \<noteq> None \<and> sha256_pattern p"
    and fin: "finite pending" and blocked: "\<And>e. e \<in> set (cl_blocked_match_edge_ids c) \<Longrightarrow> sha256_pattern e"
  obtains issues where "cluster_issues b pairs pending c members = returns issues" and "\<forall>i \<in> set issues. issue_ok i"
    and "length issues \<le> 15 + card pending + length (cl_blocked_match_edge_ids c)"
proof -
  have "\<exists>specs. (case cluster_rule b members of None \<Rightarrow> returns []
      | Some rule \<Rightarrow> rule_issues pairs pending (cl_member_candidate_ids c) members rule) = returns specs
      \<and> specs_ok specs \<and> length specs \<le> 13 + card pending"
  proof (cases "cluster_rule b members")
    case (Some rule)
    then have "rule \<in> set (rb_quality_rules b)" by (auto simp: cluster_rule_def split: if_splits dest!: dict_of_SomeD)
    then have "validate_rule rule = Inr ()" using valid_rules [OF v] by blast
    then show ?thesis using Some rule_issues_ok [OF _ pending fin] by (metis option.simps(5))
  qed auto
  then obtain specs where specs: "(case cluster_rule b members of None \<Rightarrow> returns []
      | Some rule \<Rightarrow> rule_issues pairs pending (cl_member_candidate_ids c) members rule) = returns specs"
      "specs_ok specs" "length specs \<le> 13 + card pending" by blast
  let ?mixed = "issue_if (card (rc_entity_kind ` set members) \<noteq> 1) ''MIXED_ENTITY_KINDS''"
  let ?missing = "issue_if (card (rc_entity_kind ` set members) = 1 \<and> cluster_rule b members = None) ''MISSING_QUALITY_POLICY''"
  let ?provenance = "issue_if (list_ex (\<lambda>item. rc_observation_ids item = [] \<or> rc_source_artifact_ids item = []
    \<or> rc_source_keys item = []) members) ''MISSING_OBSERVATION_PROVENANCE''"
  let ?edges = "map (\<lambda>e. block ''MATCH_EDGE_BLOCKED_BY_SEPARATION'' None None (Some e)) (cl_blocked_match_edge_ids c)"
  let ?all = "?mixed @ ?missing @ ?provenance @ specs @ ?edges"
  have "specs_ok ?edges" using blocked by (intro map_block_ok issue_codes)
  then have "specs_ok ?all"
    using specs(2) issue_if_ok(1) [OF issue_codes(1)] issue_if_ok(1) [OF issue_codes(2)] issue_if_ok(1) [OF issue_codes(3)] by simp
  then obtain issues where issues: "traverse (\<lambda>issue. issue) ?all = Inr issues" "length issues = length ?all" "\<forall>i \<in> set issues. issue_ok i"
    using specs_ok_traverse by blast
  have "length ?mixed + length ?missing \<le> 1" by (simp add: issue_if_def)
  then have "length issues \<le> 15 + card pending + length (cl_blocked_match_edge_ids c)"
    using issues(2) specs(3) issue_if_ok(2) [of "list_ex (\<lambda>item. rc_observation_ids item = [] \<or> rc_source_artifact_ids item = []
    \<or> rc_source_keys item = []) members" "''MISSING_OBSERVATION_PROVENANCE''"] by simp
  moreover have "cluster_issues b pairs pending c members = returns issues"
    unfolding cluster_issues_def specs(1) seq_simps issues(1) by (simp add: checked_value_def returns_def)
  ultimately show thesis using that issues(3) by blast
qed

end
