(* ===== verification/Snapshot_Validity.thy ===== *)
theory Snapshot_Validity
  imports Resolution_Quality
begin

text \<open>
  The snapshot of a resolved batch passes every check of its model: the parts fit together the way the
  validators of \<^verbatim>\<open>ResolutionSnapshotPayload\<close> ask for.
\<close>

section \<open>Assessments of all clusters\<close>

definition assessment_ok :: "resolved_cluster \<Rightarrow> cluster_quality_assessment \<Rightarrow> bool" where
  "assessment_ok c a \<longleftrightarrow> qa_cluster_id a = cl_cluster_id c
     \<and> checks (map validate_issue (qa_issues a) @ [validate_assessment a]) = Inr ()
     \<and> (qa_export_eligible a \<longleftrightarrow> qa_issues a = [])"

lemma assess_cluster_ok:
  assumes v: "valid_resolution_batch b" and members: "set (cl_member_candidate_ids c) \<subseteq> set (candidate_ids b)"
    and pending: "\<And>p. p \<in> set pending \<Longrightarrow> map_of (dict_of pair_id_of pr_features prs) p \<noteq> None \<and> sha256_pattern p"
    and blocked: "\<And>e. e \<in> set (cl_blocked_match_edge_ids c) \<Longrightarrow> sha256_pattern e"
    and few: "15 + length pending + length (cl_blocked_match_edge_ids c) \<le> 256"
  shows "\<exists>a. assess_cluster b prs pending c = returns a \<and> assessment_ok c a"
proof -
  let ?pairs = "dict_of pair_id_of pr_features prs"
  have "\<exists>m. lookup (dict_of rc_candidate_id (\<lambda>c. c) (rb_candidates b)) i = returns m \<and> True"
    if "i \<in> set (cl_member_candidate_ids c)" for i
    using that members dict_of_lookup [OF candidate_ids_distinct [OF v], of _ "\<lambda>c. c"] by force
  then obtain ms where ms: "traverse_computed (lookup (dict_of rc_candidate_id (\<lambda>c. c) (rb_candidates b))) (cl_member_candidate_ids c) = returns ms"
    using traverse_computed_returns [of "cl_member_candidate_ids c"
      "lookup (dict_of rc_candidate_id (\<lambda>c. c) (rb_candidates b))" "\<lambda>_ _. True"] by blast
  obtain issues where issues: "cluster_issues b ?pairs (set pending) c ms = returns issues" "\<forall>i \<in> set issues. issue_ok i"
      "length issues \<le> 15 + card (set pending) + length (cl_blocked_match_edge_ids c)"
    using cluster_issues_ok [OF v pending finite_set blocked, where members = ms] by metis
  let ?ordered = "sort_key issue_key (remdups issues)"
  let ?a = "\<lparr>qa_cluster_id = cl_cluster_id c, qa_export_eligible = (\<not> has_blocker ?ordered), qa_issues = ?ordered\<rparr>"
  have "length (remdups issues) \<le> 256"
    using issues(3) length_remdups_leq [of issues] card_length [of pending] few by linarith
  moreover have "distinct (map issue_key (remdups issues))"
    using issue_key_inj issues(2) by (auto simp: distinct_map intro: inj_on_subset)
  then have "distinct (map issue_key ?ordered)" by (simp add: distinct_map)
  moreover have "has_blocker xs \<longleftrightarrow> xs \<noteq> []" if "\<forall>i \<in> set xs. issue_ok i" for xs
    using that by (cases xs) (auto simp: has_blocker_def issue_ok_def)
  then have "has_blocker ?ordered \<longleftrightarrow> ?ordered \<noteq> []" using issues(2) by simp
  ultimately have "assessment_ok c ?a" and valid: "validate_assessment ?a = Inr ()"
    using issues(2) by (simp_all add: assessment_ok_def checks_append checks_map validate_assessment_def max_length_def
        issue_ok_def sorted_sort_id)
  moreover have "assess_cluster b prs pending c = returns ?a"
    unfolding assess_cluster_def Let_def ms seq_simps issues(1)
    using valid by (simp add: make_cluster_quality_assessment_def checked_value_def returns_def)
  ultimately show ?thesis by blast
qed

lemma evaluate_ok:
  assumes "\<And>c. c \<in> set cs \<Longrightarrow> \<exists>a. assess_cluster b prs pending c = returns a \<and> assessment_ok c a"
    and "sorted (map cl_cluster_id cs)"
  obtains as where "evaluate_cluster_quality b cs prs pending = returns as" and "list_all2 assessment_ok cs as"
    and "map qa_cluster_id as = map cl_cluster_id cs"
proof -
  obtain as where as: "traverse_computed (assess_cluster b prs pending) cs = returns as" "list_all2 assessment_ok cs as"
    using traverse_computed_returns [of cs "assess_cluster b prs pending" assessment_ok] assms(1) by blast
  have ids: "map qa_cluster_id as = map cl_cluster_id cs"
    using as(2) by (induction rule: list_all2_induct) (auto simp: assessment_ok_def)
  then have "sort_key qa_cluster_id as = as" using assms(2) by (metis sort_key_id_if_sorted)
  then show thesis using that as ids by (simp add: evaluate_cluster_quality_def)
qed

section \<open>The loops of the snapshot's validator\<close>

lemma check_clusters_ok:
  assumes "distinct (concat (map cl_member_candidate_ids cs))" and "seen \<inter> (\<Union>c \<in> set cs. set (cl_member_candidate_ids c)) = {}"
    and "\<And>c. c \<in> set cs \<Longrightarrow> set (cl_blocked_match_edge_ids c) \<subseteq> set ids"
    and "referenced \<union> (\<Union>c \<in> set cs. set (cl_blocked_match_edge_ids c)) = set ids"
  shows "check_clusters ids seen referenced cs = Inr ()"
  using assms
proof (induction cs arbitrary: seen referenced)
  case (Cons c cs)
  have "check_clusters ids (seen \<union> set (cl_member_candidate_ids c)) (referenced \<union> set (cl_blocked_match_edge_ids c)) cs = Inr ()"
    using Cons.prems by (intro Cons.IH) auto
  then show ?case using Cons.prems(2,3) by auto
qed simp

lemma pair_by_id_unique:
  "distinct (map pair_id_of prs) \<Longrightarrow> p \<in> set prs \<Longrightarrow> pair_by_id prs (pair_id_of p) = Some p"
  unfolding pair_by_id_def by (rule dict_of_lookup)

lemma diagnostics_ok:
  obtains ds where "diagnostics b core = Inr ds" and "length ds = 5" and "\<forall>d \<in> set ds. validate_diagnostic d = Inr ()"
    and "res_require_sorted_unique_strings n (map rd_code ds) = Inr ()"
proof -
  define items where "items = [(''BLOCKED_MATCH_EDGE_COUNT'', int (length (core_blocked_match_edges core))),
        (''CANDIDATE_COUNT'', int (length (rb_candidates b))),
        (''CLUSTER_COUNT'', int (length (core_clusters core))),
        (''PAIR_COUNT'', int (length (core_pair_resolutions core))),
        (''PENDING_REVIEW_PAIR_COUNT'', int (length (core_pending_review_pair_ids core)))]"
  let ?ds = "map (\<lambda>(code, n). \<lparr>rd_code = code, rd_count = n\<rparr>) items"
  let ?codes = "[''BLOCKED_MATCH_EDGE_COUNT'', ''CANDIDATE_COUNT'', ''CLUSTER_COUNT'', ''PAIR_COUNT'', ''PENDING_REVIEW_PAIR_COUNT'']"
  have fst: "map fst items = ?codes" by (simp add: items_def)
  have codes: "list_all code_pattern ?codes" "sorted ?codes" "distinct ?codes" by code_simp+
  have counts: "\<forall>m \<in> set (map snd items). 0 \<le> m" by (simp add: items_def)
  have ok: "validate_diagnostic \<lparr>rd_code = c, rd_count = m\<rparr> = Inr ()" if "(c, m) \<in> set items" for c m
  proof -
    have "c \<in> set (map fst items)" "m \<in> set (map snd items)" using that by force+
    then have "code_pattern c" "0 \<le> m" using codes(1) counts unfolding list_all_iff fst by blast+
    then show ?thesis by (simp add: validate_diagnostic_def res_require_code_def)
  qed
  have ids: "map rd_code ?ds = ?codes" unfolding fst [symmetric] by (simp add: split_def)
  have "traverse (\<lambda>(code, n). make_diagnostic code n) items = Inr ?ds"
    using ok by (intro traverse_Inr) (auto simp: make_diagnostic_def Let_def)
  moreover have "sort_key rd_code ?ds = ?ds" using codes(2) ids by (metis sort_key_id_if_sorted)
  ultimately have "diagnostics b core = Inr ?ds" by (simp only: diagnostics_def items_def [symmetric] result_bind_simps)
  moreover have "res_require_sorted_unique_strings n (map rd_code ?ds) = Inr ()"
    using codes unfolding list_all_iff ids by (intro sorted_unique_codes) blast+
  moreover have "length ?ds = 5" by (simp add: items_def)
  moreover have "\<forall>d \<in> set ?ds. validate_diagnostic d = Inr ()" using ok by auto
  ultimately show thesis using that by blast
qed

section \<open>The snapshot\<close>

lemma accepted_blocked:
  assumes "core_ok b prs s sel core" and "item \<in> set (blocked_of sel)"
  obtains e x y where "e \<in> set prs" and "pr_disposition e \<in> {AUTO_MATCH, MANUAL_MATCH}" and "(x, y) \<in> separated b"
    and "item = blocked_edge e (pair_digest x y)"
proof -
  have loop: "loop_result (separated b) (accepted_edges prs) (start b) s sel" using assms(1) by (simp add: core_ok_def)
  obtain e q where eq: "(e, q) \<in> set sel" "item = blocked_edge e q" using assms(2) by (auto simp: blocked_of_def)
  have "subseq (map fst sel) (accepted_edges prs)" using loop by (simp add: loop_result_def)
  then have "set (map fst sel) \<subseteq> set (accepted_edges prs)" by (rule subseq_set)
  then have "e \<in> set (accepted_edges prs)" using eq(1) by force
  moreover have "crosses (separated b) (uf.linked s) (edge_of e) q" using loop eq(1) unfolding loop_result_def by blast
  ultimately show thesis using that eq(2) by (auto simp: crosses_def set_accepted_edges)
qed

text \<open>Every separated pair was resolved, as a separation.\<close>

lemma separated_resolved:
  assumes "core_ok b prs s sel core" and "(x, y) \<in> separated b"
  obtains p where "p \<in> set prs" and "pair_id_of p = pair_digest x y" and "pr_disposition p = MANUAL_SEPARATE"
proof -
  have fin: "finite (batch_pairs b)" by (simp add: batch_pairs_def blocking_pairs_finite)
  have "set (map edge_of prs) = batch_pairs b"
    using assms(1) fin unfolding core_ok_def by (metis set_mset_mset set_sorted_list_of_set)
  moreover have "(x, y) \<in> batch_pairs b" using assms(2) by (auto simp: separated_def batch_pairs_def)
  ultimately have "(x, y) \<in> edge_of ` set prs" by simp
  then obtain p where p: "p \<in> set prs" "edge_of p = (x, y)" by (metis imageE)
  then have "resolved_ok b p" using assms(1) by (simp add: core_ok_def)
  then show thesis using that p assms(2) by (simp add: resolved_ok_def)
qed

lemma blocked_edges_checked:
  assumes core: "core_ok b prs s sel core" and ids: "distinct (map pair_id_of prs)" and e: "item \<in> set (blocked_of sel)"
  shows "check_blocked_edge prs item = Inr ()" and "validate_edge item = Inr ()"
proof -
  obtain e x y where e: "e \<in> set prs" "pr_disposition e \<in> {AUTO_MATCH, MANUAL_MATCH}" "(x, y) \<in> separated b"
      "item = blocked_edge e (pair_digest x y)"
    using accepted_blocked [OF core assms(3)] .
  obtain p where p: "p \<in> set prs" "pair_id_of p = pair_digest x y" "pr_disposition p = MANUAL_SEPARATE"
    using separated_resolved [OF core e(3)] .
  have "pair_by_id prs (pair_id_of e) = Some e" "pair_by_id prs (pair_digest x y) = Some p"
    using pair_by_id_unique [OF ids e(1)] pair_by_id_unique [OF ids p(1)] p(2) by simp_all
  then show "check_blocked_edge prs item = Inr ()"
    using e(2,4) p(3) by (simp add: check_blocked_edge_def blocked_edge_def)
  have "sha256_pattern (pair_id_of e)" using core e(1) by (auto simp: core_ok_def resolved_ok_def)
  then show "validate_edge item = Inr ()"
    using e(4) by (simp add: validate_edge_def blocked_edge_def res_require_digest_def)
qed

text \<open>The clusters share no member and together name every blocked edge.\<close>

lemma clusters_checked:
  assumes v: "valid_resolution_batch b" and core: "core_ok b prs s sel core"
  shows "check_clusters (map be_blocked_edge_id (blocked_of sel)) {} {} (core_clusters core) = Inr ()"
    and "length (core_clusters core) \<le> 10000"
    and "\<And>c. c \<in> set (core_clusters core) \<Longrightarrow> set (cl_member_candidate_ids c) \<subseteq> set (candidate_ids b)"
proof -
  let ?mss = "map cl_member_candidate_ids (core_clusters core)"
  have loop: "uf_ok s" "\<Union>(uf_classes s) = set (candidate_ids b)"
    using core loop_start(1) [OF v] by (simp_all add: core_ok_def loop_result_def start_def)
  have perm: "mset ?mss = mset (cluster_members s)" using core by (simp add: core_ok_def)
  then have ids: "mset (concat ?mss) = mset (candidate_ids b)"
    using cluster_members_mset [OF loop candidate_ids_distinct [OF v]] by (metis mset_concat mset_map sum_mset_sum_list)
  then have dist: "distinct (concat ?mss)" using candidate_ids_distinct [OF v] mset_eq_imp_distinct_iff by blast
  have U: "set (concat ?mss) = set (candidate_ids b)" using ids by (metis set_mset_mset)
  then show "\<And>c. c \<in> set (core_clusters core) \<Longrightarrow> set (cl_member_candidate_ids c) \<subseteq> set (candidate_ids b)" by auto
  have "length xs \<le> length (concat xs)" if "\<forall>x \<in> set xs. x \<noteq> []" for xs :: "uuid list list"
    using that by (induction xs) (auto simp: Suc_le_eq neq_Nil_conv)
  moreover have "\<forall>ms \<in> set ?mss. ms \<noteq> []"
    using cluster_members_ok(3) [OF v loop] mset_eq_setD [OF perm] by blast
  ultimately have "length (core_clusters core) \<le> length (concat ?mss)" by fastforce
  also have "\<dots> \<le> 10000" using arg_cong [OF ids, of size] candidate_count [OF v] by simp
  finally show "length (core_clusters core) \<le> 10000" .
  have own: "cl_blocked_match_edge_ids c = map be_blocked_edge_id (filter (touching prs (set (cl_member_candidate_ids c))) (blocked_of sel))"
    if "c \<in> set (core_clusters core)" for c
    using core that by (simp add: core_ok_def cluster_ok_def)
  have "\<exists>c \<in> set (core_clusters core). be_blocked_edge_id item \<in> set (cl_blocked_match_edge_ids c)"
    if item: "item \<in> set (blocked_of sel)" for item
  proof -
    have "loop_result (separated b) (accepted_edges prs) (start b) s sel" using core by (simp add: core_ok_def)
    then have "be_attempted_pair_id item \<in> pair_id_of ` set prs"
      using blocked_known(1) item unfolding attempted_known_def by blast
    then have "List.find (\<lambda>p. pair_id_of p = be_attempted_pair_id item) prs \<noteq> None" unfolding find_None_iff by auto
    then obtain p where p: "List.find (\<lambda>p. pair_id_of p = be_attempted_pair_id item) prs = Some p" by blast
    then have "p \<in> set prs" by (auto simp: find_Some_iff)
    then have "resolved_ok b p" using core by (simp add: core_ok_def)
    then have "fst (edge_of p) \<in> set (candidate_ids b)"
      using batch_pair_candidates(2) [OF v, of "fst (edge_of p)" "snd (edge_of p)"] by (simp add: resolved_ok_def)
    then obtain c where "c \<in> set (core_clusters core)" "fst (edge_of p) \<in> set (cl_member_candidate_ids c)" using U by auto
    then show ?thesis using own item p by (intro bexI [of _ c]) (auto simp: touching_def)
  qed
  then have all: "(\<Union>c \<in> set (core_clusters core). set (cl_blocked_match_edge_ids c)) = set (map be_blocked_edge_id (blocked_of sel))"
    using own by auto
  show "check_clusters (map be_blocked_edge_id (blocked_of sel)) {} {} (core_clusters core) = Inr ()"
    by (rule check_clusters_ok) (use dist all in auto)
qed

lemma market_area_valid: "valid_resolution_batch b \<Longrightarrow> res_require_token n (rb_market_area_revision b) = Inr ()"
  "valid_resolution_batch b \<Longrightarrow> res_require_digest n (rb_market_area_digest b) = Inr ()"
  by (rule batch_market_area, assumption)+

lemma pending_checked:
  assumes core: "core_ok b prs s sel core" and ids: "distinct (map pair_id_of prs)"
  shows "res_require_sorted_unique_strings n (core_pending_review_pair_ids core) = Inr ()"
    and "length (core_pending_review_pair_ids core) \<le> 1000000"
    and "\<And>p. p \<in> set (core_pending_review_pair_ids core) \<Longrightarrow>
      map_of (dict_of pair_id_of pr_features prs) p \<noteq> None \<and> sha256_pattern p"
proof -
  let ?P = "\<lambda>p. pr_disposition p = REVIEW_REQUIRED"
  have pending: "core_pending_review_pair_ids core = map pair_id_of (filter ?P prs)" and "length prs \<le> 1000000"
    and sorted: "sorted (map pair_id_of prs)"
    using core by (simp_all add: core_ok_def)
  then show "length (core_pending_review_pair_ids core) \<le> 1000000"
    using length_filter_le [of ?P prs] by (metis length_map order_trans)
  have digest: "sha256_pattern (pair_id_of p)" if "p \<in> set prs" for p
    using core that by (auto simp: core_ok_def resolved_ok_def)
  then show "res_require_sorted_unique_strings n (core_pending_review_pair_ids core) = Inr ()"
    unfolding pending using sorted_filter_ids [OF sorted ids, of ?P] by (intro sorted_unique_digests) auto
  show "map_of (dict_of pair_id_of pr_features prs) p \<noteq> None \<and> sha256_pattern p"
    if "p \<in> set (core_pending_review_pair_ids core)" for p
    using that digest dict_of_lookup [OF ids, of _ pr_features] unfolding pending by auto
qed

text \<open>The digest of a snapshot is not part of what its validator and its JSON read.\<close>

lemma snapshot_digest_irrelevant:
  "validate_snapshot (snap\<lparr>rs_snapshot_digest := d\<rparr>) = validate_snapshot snap"
  "snapshot_json (snap\<lparr>rs_snapshot_digest := d\<rparr>) = snapshot_json snap"
  by (simp_all add: validate_snapshot_def snapshot_json_def)

lemma seal_snapshot_ok:
  assumes "validate_snapshot snap = Inr ()"
  shows "\<exists>d. seal_resolution_snapshot snap = Inr (snap\<lparr>rs_snapshot_digest := d\<rparr>)
    \<and> verify_resolution_snapshot (snap\<lparr>rs_snapshot_digest := d\<rparr>) = Inr ()"
  using assms
  by (simp add: seal_resolution_snapshot_def verify_resolution_snapshot_def snapshot_digest_irrelevant
      res_require_digest_def)

definition payload_of :: "resolution_batch \<Rightarrow> resolution_core_result \<Rightarrow> cluster_quality_assessment list
    \<Rightarrow> resolution_diagnostic list \<Rightarrow> resolution_snapshot" where
  "payload_of b core quality items =
     \<lparr>rs_batch_id = rb_batch_id b, rs_batch_digest = rb_batch_digest b,
      rs_market_area_revision = rb_market_area_revision b, rs_market_area_digest = rb_market_area_digest b,
      rs_pair_resolutions = core_pair_resolutions core, rs_blocked_match_edges = core_blocked_match_edges core,
      rs_clusters = core_clusters core, rs_quality_assessments = quality,
      rs_pending_review_pair_ids = core_pending_review_pair_ids core, rs_diagnostics = items, rs_snapshot_digest = []\<rparr>"

lemma payload_valid:
  assumes v: "valid_resolution_batch b" and core: "core_ok b prs s sel core" and ids: "distinct (map pair_id_of prs)"
    and dist: "distinct (map be_blocked_edge_id (blocked_of sel))" and clusters: "distinct (map cl_cluster_id (core_clusters core))"
    and digest: "sha256_pattern (rb_batch_digest b)" and as: "list_all2 assessment_ok (core_clusters core) as"
    and ds: "length ds = 5" "\<forall>d \<in> set ds. validate_diagnostic d = Inr ()"
      "res_require_sorted_unique_strings ''diagnostic codes'' (map rd_code ds) = Inr ()"
  shows "validate_snapshot (payload_of b core as ds) = Inr ()"
proof -
  have loop: "loop_result (separated b) (accepted_edges prs) (start b) s sel" and prs: "core_pair_resolutions core = prs"
    and blocked: "core_blocked_match_edges core = blocked_of sel" and plen: "length prs \<le> 1000000"
    and pend: "core_pending_review_pair_ids core = map pair_id_of (filter (\<lambda>p. pr_disposition p = REVIEW_REQUIRED) prs)"
    using core by (simp_all add: core_ok_def)
  have assessments: "length as = length (core_clusters core)" "map qa_cluster_id as = map cl_cluster_id (core_clusters core)"
      "\<forall>a \<in> set as. checks (map validate_issue (qa_issues a) @ [validate_assessment a]) = Inr ()"
    using as by (induction rule: list_all2_induct) (auto simp: assessment_ok_def)
  have pairs: "\<forall>r \<in> set prs. checks [validate_pair (pr_features r), validate_reasons r] = Inr ()"
    using core by (simp add: core_ok_def resolved_ok_def)
  have valid_clusters: "\<forall>c \<in> set (core_clusters core). validate_resolved_cluster c = Inr ()"
    using core by (simp add: core_ok_def cluster_ok_def)
  have pair_ids: "res_require_sorted_unique_strings n (map pair_id_of prs) = Inr ()" for n
    using core ids by (intro sorted_unique_digests) (auto simp: core_ok_def resolved_ok_def)
  have blocked_ids: "res_require_sorted_unique_strings n (map be_blocked_edge_id (blocked_of sel)) = Inr ()" for n
    using dist blocked_digests by (intro sorted_unique_digests) (auto simp: blocked_of_def)
  have cluster_ids: "res_require_sorted_unique_uuids n (map cl_cluster_id (core_clusters core)) = Inr ()" for n
    using core clusters unfolding res_require_sorted_unique_uuids_def sorted_unique_iff by (simp add: core_ok_def)
  have "length (blocked_of sel) \<le> 1000000" using blocked_known(2) [OF loop] plen by simp
  then have lengths: "length (core_clusters core) \<le> 10000" "length (blocked_of sel) \<le> 1000000"
    "length (core_pending_review_pair_ids core) \<le> 1000000"
    using clusters_checked(2) [OF v core] pending_checked(2) [OF core ids] by simp_all
  show ?thesis
    unfolding validate_snapshot_def Let_def checks_append checks_map payload_of_def resolution_snapshot.simps prs blocked
      assessments(2)
    using pairs valid_clusters pair_ids blocked_ids cluster_ids lengths plen assessments(1,3) ds
      blocked_edges_checked [OF core ids] clusters_checked(1) [OF v core] pending_checked(1) [OF core ids]
      market_area_valid [OF v] digest
    by (simp add: max_length_def res_require_digest_def pend checks_append checks_map)
qed

text \<open>
  With distinct cluster identities and few enough issues the whole snapshot is built, sealed and
  verifies, and it holds what resolution returned.
\<close>

lemma snapshot_built:
  assumes run: "resolve_entities frames b = returns core" and free: "collision_free b"
    and clusters: "distinct (map cl_cluster_id (core_clusters core))"
    and few: "length (core_pending_review_pair_ids core) + length (core_blocked_match_edges core) \<le> 241"
  shows "\<exists>snap. build_resolution_snapshot frames b = returns snap \<and> verify_resolution_snapshot snap = Inr ()
    \<and> rs_clusters snap = core_clusters core \<and> rs_pair_resolutions snap = core_pair_resolutions core
    \<and> list_all2 assessment_ok (core_clusters core) (rs_quality_assessments snap)"
proof -
  obtain prs s sel where v: "valid_resolution_batch b" and core: "core_ok b prs s sel core"
    using resolve_entities_returnsE [OF run] by blast
  have prs_ok: "\<And>p. p \<in> set prs \<Longrightarrow> resolved_ok b p" and prs: "core_pair_resolutions core = prs"
    and blocked: "core_blocked_match_edges core = blocked_of sel" and sorted: "sorted (map cl_cluster_id (core_clusters core))"
    and loop: "loop_result (separated b) (accepted_edges prs) (start b) s sel"
    and cok: "\<And>c. c \<in> set (core_clusters core) \<Longrightarrow> cluster_ok prs (blocked_of sel) c"
    using core by (simp_all add: core_ok_def)
  have ids: "distinct (map pair_id_of prs)" using pair_ids_distinct [OF free _ prs_ok] core by (simp add: core_ok_def)
  note pending = pending_checked [OF core ids]
  have assess: "\<exists>a. assess_cluster b prs (core_pending_review_pair_ids core) c = returns a \<and> assessment_ok c a"
    if c: "c \<in> set (core_clusters core)" for c
  proof (rule assess_cluster_ok [OF v clusters_checked(3) [OF v core c] pending(3)])
    show "sha256_pattern e" if "e \<in> set (cl_blocked_match_edge_ids c)" for e
      using cok [OF c] that blocked_digests by (auto simp: cluster_ok_def)
    have "length (cl_blocked_match_edge_ids c) \<le> length (blocked_of sel)" using cok [OF c] by (simp add: cluster_ok_def)
    then show "15 + length (core_pending_review_pair_ids core) + length (cl_blocked_match_edge_ids c) \<le> 256"
      using few unfolding blocked by linarith
  qed
  obtain as where as: "evaluate_cluster_quality b (core_clusters core) prs (core_pending_review_pair_ids core) = returns as"
      "list_all2 assessment_ok (core_clusters core) as"
    using evaluate_ok [OF assess sorted] by blast
  obtain ds where ds: "diagnostics b core = Inr ds" "length ds = 5" "\<forall>d \<in> set ds. validate_diagnostic d = Inr ()"
      "res_require_sorted_unique_strings ''diagnostic codes'' (map rd_code ds) = Inr ()"
    using diagnostics_ok .
  have "sha256_pattern (rb_batch_digest b)"
    using run by (auto simp: resolve_entities_def seq_eq_returns checked_value_returns verify_resolution_batch_def checks_append)
  then have payload: "validate_snapshot (payload_of b core as ds) = Inr ()"
    using payload_valid [OF v core ids blocked_ids_distinct [OF free ids prs_ok loop] clusters _ as(2) ds(2-4)] by blast
  obtain d where d: "seal_resolution_snapshot (payload_of b core as ds) = Inr (payload_of b core as ds\<lparr>rs_snapshot_digest := d\<rparr>)"
      "verify_resolution_snapshot (payload_of b core as ds\<lparr>rs_snapshot_digest := d\<rparr>) = Inr ()"
    using seal_snapshot_ok [OF payload] by blast
  have "build_resolution_snapshot frames b = returns (payload_of b core as ds\<lparr>rs_snapshot_digest := d\<rparr>)"
    unfolding build_resolution_snapshot_def run seq_simps prs as(1) ds(1) Let_def payload_of_def [symmetric, unfolded prs]
    using payload d(1) by (simp add: payload_of_def prs checked_value_def returns_def)
  then show ?thesis using d(2) as(2) by (intro exI [of _ "payload_of b core as ds\<lparr>rs_snapshot_digest := d\<rparr>"]) (simp add: payload_of_def)
qed

end
