(* ===== verification/Snapshot_Properties.thy ===== *)
theory Snapshot_Properties
  imports Snapshot_Validity Resolution_Scenario
begin

text \<open>Resolution, quality evaluation and the snapshot contract together.\<close>

section \<open>The scenario\<close>

lemma demo_resolution:
  obtains p core where "resolve_entities 2 (demo_batch []) = returns core" and "core_pair_resolutions core = [p]"
    and "edge_of p = (UUID 1, UUID 2)" and "pr_disposition p = AUTO_MATCH"
proof -
  let ?b = "demo_batch []"
  have run: "verify_resolution_batch ?b = Inr ()" "rb_market_area_readiness ?b = Area_READY"
      "generate_pairs ?b = Inr [(UUID 1, UUID 2)]" "collision_free ?b"
    using demo_verified [of "[]"] demo_pairs [of "[]"] by (simp_all add: demo_batch_def demo_payload_def)
  have b: "rb_candidates ?b = [demo_left, demo_right]" "rb_manual_decisions ?b = []" "rb_thresholds ?b = demo_thresholds"
    by (simp_all add: demo_batch_def demo_payload_def)
  have ids: "rc_candidate_id demo_left = UUID 1" "rc_candidate_id demo_right = UUID 2" by code_simp+
  have less: "rc_candidate_id demo_left < rc_candidate_id demo_right" by code_simp
  have t: "validate_thresholds (rb_thresholds ?b) = Inr ()" using demo_thresholds_valid b(3) by simp
  obtain p lh rh where p: "resolve_pair demo_left demo_right ?b None = Inr p"
      "pf_left_candidate_id (pr_features p) = UUID 1" "pf_right_candidate_id (pr_features p) = UUID 2"
      "pr_disposition p = fst (disposition_of (pr_features p) demo_left demo_right ?b None)"
      "pr_features p = pair_features_of demo_left demo_right (pair_id_of p) lh rh"
    using resolve_pair_ok [OF demo_candidates_valid less t, where d = None] ids by metis
  have "rc_phones demo_left = rc_phones demo_right" "rc_phones demo_right \<noteq> []"
      "rc_entity_kind demo_left = rc_entity_kind demo_right" "geography_compatible demo_left demo_right" by code_simp+
  then have "pr_disposition p = AUTO_MATCH"
    unfolding p(4) disposition_of_def Let_def p(5) pair_features_of_def by simp
  moreover have "edge_of p = (UUID 1, UUID 2)" using p(2,3) by (simp add: edge_of_def)
  moreover obtain core where core: "resolve_entities 2 ?b = returns core" using resolve_entities_total [OF run demo_frames] by blast
  moreover have "resolve_pairs ?b [(UUID 1, UUID 2)] = returns [p]"
    using p(1) by (simp add: resolve_pairs_def b dict_of_def ids checked_value_def)
  then have "core_pair_resolutions core = [p]"
    using core resolve_entities_eq [OF run(1-3)] by (auto simp: seq_eq_returns)
  ultimately show thesis using that by blast
qed

lemma demo_one_cluster:
  assumes "resolve_entities 2 (demo_batch []) = returns core" and "core_pair_resolutions core = [p]"
    and "edge_of p = (UUID 1, UUID 2)" and "pr_disposition p = AUTO_MATCH"
  shows "length (core_clusters core) \<le> 1"
proof -
  obtain prs s sel where v: "valid_resolution_batch (demo_batch [])" and ok: "core_ok (demo_batch []) prs s sel core"
    using resolve_entities_returnsE [OF assms(1)] by blast
  have loop: "loop_result (separated (demo_batch [])) (accepted_edges prs) (start (demo_batch [])) s sel" and "prs = [p]"
    using ok assms(2) by (simp_all add: core_ok_def)
  have "separated (demo_batch []) = {}" by (simp add: separated_def demo_batch_def demo_payload_def)
  then have "sel = []" using loop by (cases sel) (auto simp: loop_result_def crosses_def)
  moreover have "p \<in> set (accepted_edges prs)" using \<open>prs = [p]\<close> assms(4) by (simp add: set_accepted_edges)
  ultimately have linked: "(UUID 1, UUID 2) \<in> uf.linked s" using loop assms(3) by (force simp: loop_result_def)
  obtain c where c: "c \<in> set (core_clusters core)" "UUID 1 \<in> set (cl_member_candidate_ids c)" "UUID 2 \<in> set (cl_member_candidate_ids c)"
    using together_iff [OF v ok] linked by blast
  have "candidate_ids (demo_batch []) = [UUID 1, UUID 2]"
    by (simp add: demo_batch_def demo_payload_def demo_left_def demo_right_def demo_candidate_def)
  then have U: "mset (concat (map cl_member_candidate_ids (core_clusters core))) = {#UUID 1, UUID 2#}"
    using cluster_members_mset [of s "candidate_ids (demo_batch [])"] ok loop_start(1) [OF v]
    unfolding core_ok_def loop_result_def start_def by (metis mset.simps(1,2) candidate_ids_distinct [OF v] mset_concat mset_map sum_mset_sum_list)
  obtain xs ys where split: "core_clusters core = xs @ c # ys" using split_list [OF c(1)] by blast
  have "card {UUID 1, UUID 2} \<le> card (set (cl_member_candidate_ids c))" using c(2,3) by (intro card_mono) auto
  then have "2 \<le> length (cl_member_candidate_ids c)" using card_length [of "cl_member_candidate_ids c"] by simp
  moreover have "length (concat (map cl_member_candidate_ids (core_clusters core))) = 2"
    using arg_cong [OF U, of size] by simp
  ultimately have "length (concat (map cl_member_candidate_ids (xs @ ys))) = 0"
    unfolding split map_append list.map concat_append concat.simps length_append by linarith
  then have "concat (map cl_member_candidate_ids (xs @ ys)) = []" unfolding length_0_conv .
  moreover have "cl_member_candidate_ids d \<noteq> []" if "d \<in> set (xs @ ys)" for d
  proof -
    have "d \<in> set (core_clusters core)" unfolding split using that by auto
    then have "cluster_ok prs (blocked_of sel) d" using ok by (simp add: core_ok_def)
    then have "1 \<le> length (cl_member_candidate_ids d)" by (simp add: cluster_ok_def validate_resolved_cluster_def)
    then show ?thesis by auto
  qed
  ultimately have "xs @ ys = []" by (cases "xs @ ys") auto
  then show ?thesis using split by simp
qed

section \<open>The property\<close>

text \<open>
  \<^bold>\<open>C39.\<close> Resolution, quality evaluation and the snapshot contract fit together within the limits of the
  contract. When a batch is resolved, no two pairs and no two possible blocked edges of it share a digest,
  the identities of its clusters are distinct and its pending reviews and blocked edges are at most 241
  together, the snapshot is built with the frames resolution had, is sealed and verifies; it holds the
  clusters and pairs of the resolution, and it marks a cluster as exportable exactly when the evaluator
  raised no issue for it. An assessment has room for 256 issues, of which 15 do not depend on reviews and
  blocked edges, so more of these can make the snapshot fail.
\<close>

theorem snapshot_is_sealed:
  assumes "resolve_entities frames b = returns core" and "collision_free b" and "distinct (map cl_cluster_id (core_clusters core))"
    and "length (core_pending_review_pair_ids core) + length (core_blocked_match_edges core) \<le> 241"
  shows "\<exists>snap. build_resolution_snapshot frames b = returns snap \<and> verify_resolution_snapshot snap = Inr ()
    \<and> rs_clusters snap = core_clusters core \<and> rs_pair_resolutions snap = core_pair_resolutions core
    \<and> map qa_cluster_id (rs_quality_assessments snap) = map cl_cluster_id (core_clusters core)
    \<and> (\<forall>a \<in> set (rs_quality_assessments snap). qa_export_eligible a \<longleftrightarrow> qa_issues a = [])"
proof -
  obtain snap where snap: "build_resolution_snapshot frames b = returns snap" "verify_resolution_snapshot snap = Inr ()"
      "rs_clusters snap = core_clusters core" "rs_pair_resolutions snap = core_pair_resolutions core"
      "list_all2 assessment_ok (core_clusters core) (rs_quality_assessments snap)"
    using snapshot_built [OF assms] by blast
  from snap(5) have "map qa_cluster_id (rs_quality_assessments snap) = map cl_cluster_id (core_clusters core)
      \<and> (\<forall>a \<in> set (rs_quality_assessments snap). qa_export_eligible a \<longleftrightarrow> qa_issues a = [])"
    by (induction rule: list_all2_induct) (auto simp: assessment_ok_def)
  then show ?thesis using snap(1-4) by blast
qed

theorem snapshot_is_sealed_witness:
  "\<exists>snap. build_resolution_snapshot 2 (demo_batch []) = returns snap \<and> verify_resolution_snapshot snap = Inr ()
    \<and> map (\<lambda>p. (edge_of p, pr_disposition p)) (rs_pair_resolutions snap) = [((UUID 1, UUID 2), AUTO_MATCH)]"
proof -
  obtain p core where core: "resolve_entities 2 (demo_batch []) = returns core" "core_pair_resolutions core = [p]"
      "edge_of p = (UUID 1, UUID 2)" "pr_disposition p = AUTO_MATCH"
    using demo_resolution .
  obtain prs s sel where ok: "core_ok (demo_batch []) prs s sel core" using resolve_entities_returnsE [OF core(1)] by blast
  have "length (core_clusters core) \<le> 1" by (rule demo_one_cluster [OF core])
  then have "distinct (map cl_cluster_id (core_clusters core))" by (cases "core_clusters core") auto
  moreover have "length (blocked_of sel) \<le> length prs" "prs = [p]"
    using blocked_known(2) ok core(2) by (auto simp: core_ok_def)
  then have "length (core_pending_review_pair_ids core) + length (core_blocked_match_edges core) \<le> 241"
    using ok by (simp add: core_ok_def)
  ultimately show ?thesis
    using snapshot_is_sealed [OF core(1) demo_pairs(3) [of "[]"]] core by fastforce
qed

end
