(* ===== verification/Review_Contracts.thy ===== *)
theory Review_Contracts
  imports Py_Text
begin

text \<open>
  \<^verbatim>\<open>review_contracts/contracts.py\<close>: the candidate revisions, cases, decisions, manual observations and
  suppressions of the review workflow, their identities and digests, and the validators of the Pydantic
  models. Constructing a model is a function \<open>make_\<dots>\<close>: it checks the fields, moves the timestamps to
  UTC, runs the model validator and returns the model or the error.
\<close>

section \<open>Field types\<close>

datatype candidate_resolution_state = Candidate_RESOLVED | Candidate_REVIEW | Candidate_BLOCKED

fun resolution_state_value :: "candidate_resolution_state \<Rightarrow> string" where
  "resolution_state_value Candidate_RESOLVED = ''resolved''"
| "resolution_state_value Candidate_REVIEW = ''review''"
| "resolution_state_value Candidate_BLOCKED = ''blocked''"

datatype review_case_state = Case_OPEN | Case_DECIDED

datatype review_outcome = ACCEPT_CANDIDATE | REJECT_CANDIDATE | APPROVE_MERGE | REJECT_MERGE
  | REQUEST_RECOLLECTION | BLOCK_EXPORT

fun outcome_value :: "review_outcome \<Rightarrow> string" where
  "outcome_value ACCEPT_CANDIDATE = ''accept_candidate''"
| "outcome_value REJECT_CANDIDATE = ''reject_candidate''"
| "outcome_value APPROVE_MERGE = ''approve_merge''"
| "outcome_value REJECT_MERGE = ''reject_merge''"
| "outcome_value REQUEST_RECOLLECTION = ''request_recollection''"
| "outcome_value BLOCK_EXPORT = ''block_export''"

datatype suppression_state = Suppression_ACTIVE | Suppression_RESOLVED

datatype suppression_scope = Scope_DISCOVERY | Scope_NORMALIZATION | Scope_EXPORT

fun scope_value :: "suppression_scope \<Rightarrow> string" where
  "scope_value Scope_DISCOVERY = ''discovery''"
| "scope_value Scope_NORMALIZATION = ''normalization''"
| "scope_value Scope_EXPORT = ''export''"

datatype suppression_target_kind = Target_CANDIDATE | Target_SOURCE_OBSERVATION | Target_ARTIFACT | Target_SOURCE

fun target_kind_value :: "suppression_target_kind \<Rightarrow> string" where
  "target_kind_value Target_CANDIDATE = ''candidate''"
| "target_kind_value Target_SOURCE_OBSERVATION = ''source_observation''"
| "target_kind_value Target_ARTIFACT = ''artifact''"
| "target_kind_value Target_SOURCE = ''source''"

datatype evidence_kind = Evidence_SOURCE_OBSERVATION | Evidence_MANUAL_OBSERVATION | Evidence_ARTIFACT

fun evidence_kind_value :: "evidence_kind \<Rightarrow> string" where
  "evidence_kind_value Evidence_SOURCE_OBSERVATION = ''source_observation''"
| "evidence_kind_value Evidence_MANUAL_OBSERVATION = ''manual_observation''"
| "evidence_kind_value Evidence_ARTIFACT = ''artifact''"

definition rv_digest :: "string \<Rightarrow> unit checked" where
  "rv_digest s = guard (sha256_pattern s) (ValueError ''String should match pattern'')"

definition rv_code :: "string \<Rightarrow> unit checked" where
  "rv_code s = guard (code_pattern s) (ValueError ''String should match pattern'')"

text \<open>\<open>Key\<close>: \<open>^[a-z][a-z0-9_]*$\<close> with at most 100 characters.\<close>

definition review_key_pattern :: "string \<Rightarrow> bool" where
  "review_key_pattern = head_tail_pattern is_lower (\<lambda>c. is_lower c \<or> is_digit c \<or> c = CHR ''_'') 99"

definition rv_key :: "string \<Rightarrow> unit checked" where
  "rv_key s = guard (review_key_pattern s) (ValueError ''String should match pattern'')"

definition rv_length :: "nat \<Rightarrow> string \<Rightarrow> unit checked" where
  "rv_length n s = guard (1 \<le> length s \<and> length s \<le> n) (ValueError ''String should have at least 1 and at most characters'')"

definition rv_at_least :: "int \<Rightarrow> int \<Rightarrow> unit checked" where
  "rv_at_least lo n = guard (lo \<le> n) (ValueError ''Input should be greater than or equal'')"

definition rv_require_aware_utc :: "datetime \<Rightarrow> datetime checked" where
  "rv_require_aware_utc v =
     (if utcoffset v = None then Inl (ValueError ''timestamp must be timezone-aware'')
      else Inr (utc (instant v)))"

definition rv_optional_aware_utc :: "datetime option \<Rightarrow> datetime option checked" where
  "rv_optional_aware_utc v =
     (case v of None \<Rightarrow> Inr None | Some t \<Rightarrow> result_bind (rv_require_aware_utc t) (\<lambda>t'. Inr (Some t')))"

definition rv_require_plain_text :: "string \<Rightarrow> unit checked" where
  "rv_require_plain_text s = checks
     [guard (CHR ''<'' \<notin> set s \<and> CHR ''>'' \<notin> set s) (ValueError ''plain text must not contain markup delimiters''),
      guard (\<not> list_ex (\<lambda>c. (of_char c :: nat) < 32 \<and> (of_char c :: nat) \<notin> {10, 13, 9}) s)
        (ValueError ''plain text contains a forbidden control character'')]"

text \<open>\<open>PlainText\<close> with the validator of its field.\<close>

definition rv_plain_text :: "string \<Rightarrow> unit checked" where
  "rv_plain_text s = checks [rv_length 4000 s, rv_require_plain_text s]"

definition canonical_strings :: "string list \<Rightarrow> string list" where
  "canonical_strings xs = sorted_list_of_set (set xs)"

definition require_canonical :: "string \<Rightarrow> string list \<Rightarrow> unit checked" where
  "require_canonical message values =
     guard (canonical_strings values \<noteq> [] \<and> values = canonical_strings values) (ValueError message)"

section \<open>Identities\<close>

text \<open>\<open>canonical_digest\<close> is \<^const>\<open>json_digest\<close>; \<open>default=str\<close> writes a timestamp as its text.\<close>

definition CASE_NAMESPACE :: uuid where
  "CASE_NAMESPACE = UUID 0x01cf920c9a4f4fd39cb039e4475d24f5"

definition DECISION_NAMESPACE :: uuid where
  "DECISION_NAMESPACE = UUID 0xca22a3d10be544768834d3b13938bb93"

definition OBSERVATION_NAMESPACE :: uuid where
  "OBSERVATION_NAMESPACE = UUID 0xa91821fd353743e4b2a405fc01ff7786"

definition SUPPRESSION_NAMESPACE :: uuid where
  "SUPPRESSION_NAMESPACE = UUID 0x8d4d7db5f64144de8606fe2976495957"

definition deterministic_case_id :: "uuid \<Rightarrow> int \<Rightarrow> string list \<Rightarrow> uuid checked" where
  "deterministic_case_id candidate_id candidate_revision reason_codes =
     (let canonical = canonical_strings reason_codes
      in if canonical = [] then Inl (ValueError ''a review case requires at least one reason'')
         else Inr (uuid5 CASE_NAMESPACE (uuid_str candidate_id @ '':'' @ int_decimal candidate_revision
                     @ '':'' @ json_digest (JList (map JStr canonical)))))"

definition deterministic_decision_id :: "uuid \<Rightarrow> int \<Rightarrow> string \<Rightarrow> uuid" where
  "deterministic_decision_id case_id case_revision command_digest =
     uuid5 DECISION_NAMESPACE (uuid_str case_id @ '':'' @ int_decimal case_revision @ '':'' @ command_digest)"

definition deterministic_manual_observation_id :: "uuid \<Rightarrow> string \<Rightarrow> string \<Rightarrow> string \<Rightarrow> uuid" where
  "deterministic_manual_observation_id candidate_id field_key value_digest command_digest =
     uuid5 OBSERVATION_NAMESPACE
       (uuid_str candidate_id @ '':'' @ field_key @ '':'' @ value_digest @ '':'' @ command_digest)"

definition deterministic_suppression_id ::
  "suppression_target_kind \<Rightarrow> string \<Rightarrow> suppression_scope list \<Rightarrow> string \<Rightarrow> uuid checked" where
  "deterministic_suppression_id target_kind target_id scopes reason_code =
     (let canonical_scopes = canonical_strings (map scope_value scopes)
      in if canonical_scopes = [] then Inl (ValueError ''a suppression requires at least one scope'')
         else Inr (uuid5 SUPPRESSION_NAMESPACE (target_kind_value target_kind @ '':'' @ target_id @ '':''
                     @ json_digest (JList (map JStr canonical_scopes)) @ '':'' @ reason_code)))"

section \<open>Candidate revisions and quality records\<close>

record candidate_evidence =
  ev_position :: int
  ev_kind :: evidence_kind
  ev_digest :: string

definition make_candidate_evidence :: "candidate_evidence \<Rightarrow> candidate_evidence checked" where
  "make_candidate_evidence e =
     result_bind (checks [rv_at_least 0 (ev_position e), rv_digest (ev_digest e)]) (\<lambda>_. Inr e)"

definition evidence_json :: "candidate_evidence \<Rightarrow> json" where
  "evidence_json e = JObj [(''position'', JInt (ev_position e)),
     (''evidence_kind'', JStr (evidence_kind_value (ev_kind e))), (''evidence_digest'', JStr (ev_digest e))]"

text \<open>The normalized payload is a JSON object; the numbers of the model are integers.\<close>

definition candidate_snapshot_digest :: "uuid \<Rightarrow> int \<Rightarrow> string \<Rightarrow> uuid \<Rightarrow> candidate_resolution_state
    \<Rightarrow> (string \<times> json) list \<Rightarrow> candidate_evidence list \<Rightarrow> string \<Rightarrow> string" where
  "candidate_snapshot_digest candidate_id revision entity_kind cluster_id resolution_state normalized_payload evidence
       source_lineage_digest =
     json_digest (JObj [(''candidateId'', JStr (uuid_str candidate_id)), (''clusterId'', JStr (uuid_str cluster_id)),
       (''entityKind'', JStr entity_kind), (''evidence'', JList (map evidence_json evidence)),
       (''normalizedPayload'', JObj normalized_payload),
       (''resolutionState'', JStr (resolution_state_value resolution_state)), (''revision'', JInt revision),
       (''sourceLineageDigest'', JStr source_lineage_digest)])"

record candidate_revision =
  cdv_candidate_id :: uuid
  cdv_revision :: int
  cdv_entity_kind :: string
  cdv_cluster_id :: uuid
  cdv_resolution_state :: candidate_resolution_state
  cdv_snapshot_digest :: string
  cdv_source_lineage_digest :: string
  cdv_normalized_payload :: "(string \<times> json) list"
  cdv_evidence :: "candidate_evidence list"
  cdv_recorded_at_utc :: datetime
  cdv_correlation_id :: string

definition require_canonical_evidence :: "candidate_revision \<Rightarrow> unit checked" where
  "require_canonical_evidence c = checks
     [guard (map ev_position (cdv_evidence c) = map int [0..<length (cdv_evidence c)])
        (ValueError ''candidate evidence positions must be contiguous''),
      guard (distinct (map ev_digest (cdv_evidence c))) (ValueError ''candidate evidence digests must be unique''),
      guard (cdv_snapshot_digest c = candidate_snapshot_digest (cdv_candidate_id c) (cdv_revision c) (cdv_entity_kind c)
          (cdv_cluster_id c) (cdv_resolution_state c) (cdv_normalized_payload c) (cdv_evidence c) (cdv_source_lineage_digest c))
        (ValueError ''snapshot_digest does not match candidate revision content'')]"

definition make_candidate_revision :: "candidate_revision \<Rightarrow> candidate_revision checked" where
  "make_candidate_revision c =
     result_bind (checks [rv_at_least 0 (cdv_revision c), rv_key (cdv_entity_kind c), rv_digest (cdv_snapshot_digest c),
        rv_digest (cdv_source_lineage_digest c), rv_length 200 (cdv_correlation_id c)]) (\<lambda>_.
     result_bind (rv_require_aware_utc (cdv_recorded_at_utc c)) (\<lambda>recorded.
       let c' = c\<lparr>cdv_recorded_at_utc := recorded\<rparr>
       in result_bind (require_canonical_evidence c') (\<lambda>_. Inr c')))"

record quality_record =
  qr_evaluation_id :: uuid
  qr_candidate_id :: uuid
  qr_candidate_revision :: int
  qr_policy_digest :: string
  qr_export_eligible :: bool
  qr_blockers :: "string list"
  qr_evaluation_digest :: string
  qr_evaluated_at_utc :: datetime
  qr_correlation_id :: string

definition require_canonical_result :: "quality_record \<Rightarrow> unit checked" where
  "require_canonical_result q = checks
     [guard (qr_blockers q = canonical_strings (qr_blockers q)) (ValueError ''quality blockers must be unique and ordered''),
      guard (qr_export_eligible q \<noteq> (qr_blockers q \<noteq> []))
        (ValueError ''export eligibility must be inverse of blocker presence'')]"

definition make_quality_record :: "quality_record \<Rightarrow> quality_record checked" where
  "make_quality_record q =
     result_bind (checks ([rv_at_least 0 (qr_candidate_revision q), rv_digest (qr_policy_digest q)]
        @ map rv_code (qr_blockers q) @ [rv_digest (qr_evaluation_digest q), rv_length 200 (qr_correlation_id q)])) (\<lambda>_.
     result_bind (rv_require_aware_utc (qr_evaluated_at_utc q)) (\<lambda>evaluated.
       let q' = q\<lparr>qr_evaluated_at_utc := evaluated\<rparr>
       in result_bind (require_canonical_result q') (\<lambda>_. Inr q')))"

section \<open>Cases and decisions\<close>

record review_case =
  rvc_case_id :: uuid
  rvc_candidate_id :: uuid
  rvc_candidate_revision :: int
  rvc_revision :: int
  rvc_state :: review_case_state
  rvc_reason_codes :: "string list"
  rvc_current_decision_id :: "uuid option"
  rvc_opened_at_utc :: datetime
  rvc_recorded_at_utc :: datetime
  rvc_correlation_id :: string

definition require_case_shape :: "review_case \<Rightarrow> unit checked" where
  "require_case_shape c = checks
     [require_canonical ''review reasons must be non-empty, unique, and ordered'' (rvc_reason_codes c),
      result_bind (deterministic_case_id (rvc_candidate_id c) (rvc_candidate_revision c) (rvc_reason_codes c))
        (\<lambda>expected. guard (rvc_case_id c = expected) (ValueError ''case_id does not match deterministic case identity'')),
      guard ((rvc_state c = Case_OPEN) = (rvc_current_decision_id c = None))
        (ValueError ''open cases cannot reference a decision and decided cases must''),
      guard (instant (rvc_opened_at_utc c) \<le> instant (rvc_recorded_at_utc c))
        (ValueError ''case revision cannot predate case opening'')]"

definition make_review_case :: "review_case \<Rightarrow> review_case checked" where
  "make_review_case c =
     result_bind (checks ([rv_at_least 0 (rvc_candidate_revision c), rv_at_least 0 (rvc_revision c)]
        @ map rv_code (rvc_reason_codes c) @ [rv_length 200 (rvc_correlation_id c)])) (\<lambda>_.
     result_bind (rv_require_aware_utc (rvc_opened_at_utc c)) (\<lambda>opened.
     result_bind (rv_require_aware_utc (rvc_recorded_at_utc c)) (\<lambda>recorded.
       let c' = c\<lparr>rvc_opened_at_utc := opened, rvc_recorded_at_utc := recorded\<rparr>
       in result_bind (require_case_shape c') (\<lambda>_. Inr c'))))"

definition review_decision_command_digest ::
  "uuid \<Rightarrow> int \<Rightarrow> review_outcome \<Rightarrow> string \<Rightarrow> string \<Rightarrow> string list \<Rightarrow> uuid option \<Rightarrow> string" where
  "review_decision_command_digest case_id expected_case_revision outcome actor_id rationale evidence_references
       supersedes_decision_id =
     json_digest (JObj [(''actorId'', JStr actor_id), (''caseId'', JStr (uuid_str case_id)),
       (''evidenceReferences'', JList (map JStr evidence_references)),
       (''expectedCaseRevision'', JInt expected_case_revision), (''outcome'', JStr (outcome_value outcome)),
       (''rationale'', JStr rationale),
       (''supersedesDecisionId'', case supersedes_decision_id of None \<Rightarrow> JNull | Some d \<Rightarrow> JStr (uuid_str d))])"

record review_decision_command =
  dc_case_id :: uuid
  dc_expected_case_revision :: int
  dc_outcome :: review_outcome
  dc_actor_id :: string
  dc_rationale :: string
  dc_evidence_references :: "string list"
  dc_supersedes_decision_id :: "uuid option"
  dc_command_digest :: string
  dc_correlation_id :: string

definition make_review_decision_command :: "review_decision_command \<Rightarrow> review_decision_command checked" where
  "make_review_decision_command c =
     result_bind (checks ([rv_at_least 0 (dc_expected_case_revision c), rv_length 200 (dc_actor_id c),
        rv_plain_text (dc_rationale c)] @ map rv_digest (dc_evidence_references c) @
        [require_canonical ''decision evidence must be non-empty, unique, and ordered'' (dc_evidence_references c),
        rv_digest (dc_command_digest c), rv_length 200 (dc_correlation_id c)])) (\<lambda>_.
     result_bind (guard (dc_command_digest c = review_decision_command_digest (dc_case_id c) (dc_expected_case_revision c)
          (dc_outcome c) (dc_actor_id c) (dc_rationale c) (dc_evidence_references c) (dc_supersedes_decision_id c))
        (ValueError ''command_digest does not match decision command'')) (\<lambda>_. Inr c))"

record review_decision =
  rd_decision_id :: uuid
  rd_case_id :: uuid
  rd_case_revision :: int
  rd_outcome :: review_outcome
  rd_actor_id :: string
  rd_rationale :: string
  rd_evidence_references :: "string list"
  rd_supersedes_decision_id :: "uuid option"
  rd_command_digest :: string
  rd_decided_at_utc :: datetime
  rd_correlation_id :: string

definition make_review_decision :: "review_decision \<Rightarrow> review_decision checked" where
  "make_review_decision d =
     result_bind (checks ([rv_at_least 1 (rd_case_revision d), rv_length 200 (rd_actor_id d), rv_plain_text (rd_rationale d)]
        @ map rv_digest (rd_evidence_references d) @ [rv_digest (rd_command_digest d), rv_length 200 (rd_correlation_id d)])) (\<lambda>_.
     result_bind (rv_require_aware_utc (rd_decided_at_utc d)) (\<lambda>decided.
     result_bind (guard (rd_decision_id d = deterministic_decision_id (rd_case_id d) (rd_case_revision d) (rd_command_digest d))
        (ValueError ''decision_id does not match deterministic decision identity'')) (\<lambda>_.
       Inr (d\<lparr>rd_decided_at_utc := decided\<rparr>))))"

section \<open>Manual observations\<close>

definition manual_observation_command_digest ::
  "uuid \<Rightarrow> int \<Rightarrow> string \<Rightarrow> string \<Rightarrow> string \<Rightarrow> string \<Rightarrow> uuid option \<Rightarrow> string" where
  "manual_observation_command_digest candidate_id candidate_revision field_key value_text actor_id reason_code
       supersedes_observation_id =
     json_digest (JObj [(''actorId'', JStr actor_id), (''candidateId'', JStr (uuid_str candidate_id)),
       (''candidateRevision'', JInt candidate_revision), (''fieldKey'', JStr field_key), (''reasonCode'', JStr reason_code),
       (''supersedesObservationId'', case supersedes_observation_id of None \<Rightarrow> JNull | Some d \<Rightarrow> JStr (uuid_str d)),
       (''value'', JStr value_text)])"

record manual_observation_command =
  oc_candidate_id :: uuid
  oc_candidate_revision :: int
  oc_field_key :: string
  oc_value_text :: string
  oc_actor_id :: string
  oc_reason_code :: string
  oc_supersedes_observation_id :: "uuid option"
  oc_command_digest :: string
  oc_correlation_id :: string

definition make_manual_observation_command :: "manual_observation_command \<Rightarrow> manual_observation_command checked" where
  "make_manual_observation_command c =
     result_bind (checks [rv_at_least 0 (oc_candidate_revision c), rv_key (oc_field_key c), rv_plain_text (oc_value_text c),
        rv_length 200 (oc_actor_id c), rv_code (oc_reason_code c), rv_digest (oc_command_digest c),
        rv_length 200 (oc_correlation_id c)]) (\<lambda>_.
     result_bind (guard (oc_command_digest c = manual_observation_command_digest (oc_candidate_id c) (oc_candidate_revision c)
          (oc_field_key c) (oc_value_text c) (oc_actor_id c) (oc_reason_code c) (oc_supersedes_observation_id c))
        (ValueError ''command_digest does not match manual observation command'')) (\<lambda>_. Inr c))"

record manual_observation =
  mo_observation_id :: uuid
  mo_candidate_id :: uuid
  mo_candidate_revision :: int
  mo_field_key :: string
  mo_value_text :: string
  mo_value_digest :: string
  mo_actor_id :: string
  mo_reason_code :: string
  mo_supersedes_observation_id :: "uuid option"
  mo_command_digest :: string
  mo_recorded_at_utc :: datetime
  mo_correlation_id :: string

definition value_digest_of :: "string \<Rightarrow> string" where
  "value_digest_of value_text = json_digest (JObj [(''value'', JStr value_text)])"

definition make_manual_observation :: "manual_observation \<Rightarrow> manual_observation checked" where
  "make_manual_observation ob =
     result_bind (checks [rv_at_least 0 (mo_candidate_revision ob), rv_key (mo_field_key ob), rv_plain_text (mo_value_text ob),
        rv_digest (mo_value_digest ob), rv_length 200 (mo_actor_id ob), rv_code (mo_reason_code ob),
        rv_digest (mo_command_digest ob), rv_length 200 (mo_correlation_id ob)]) (\<lambda>_.
     result_bind (rv_require_aware_utc (mo_recorded_at_utc ob)) (\<lambda>recorded.
     result_bind (checks
       [guard (mo_value_digest ob = value_digest_of (mo_value_text ob)) (ValueError ''value_digest does not match manual observation value''),
        guard (mo_observation_id ob = deterministic_manual_observation_id (mo_candidate_id ob) (mo_field_key ob)
            (mo_value_digest ob) (mo_command_digest ob)) (ValueError ''observation_id does not match deterministic identity'')]) (\<lambda>_.
       Inr (ob\<lparr>mo_recorded_at_utc := recorded\<rparr>))))"

section \<open>Suppressions\<close>

definition suppression_command_digest :: "suppression_target_kind \<Rightarrow> string \<Rightarrow> suppression_scope list \<Rightarrow> string \<Rightarrow> string
    \<Rightarrow> string \<Rightarrow> int option \<Rightarrow> datetime option \<Rightarrow> string" where
  "suppression_command_digest target_kind target_id scopes reason_code actor_id evidence_reference expected_revision
       expires_at_utc =
     json_digest (JObj [(''actorId'', JStr actor_id), (''evidenceReference'', JStr evidence_reference),
       (''expectedRevision'', case expected_revision of None \<Rightarrow> JNull | Some n \<Rightarrow> JInt n),
       (''expiresAtUtc'', case expires_at_utc of None \<Rightarrow> JNull | Some t \<Rightarrow> JStr (datetime_str t)),
       (''reasonCode'', JStr reason_code), (''scopes'', JList (map (\<lambda>s. JStr (scope_value s)) scopes)),
       (''targetId'', JStr target_id), (''targetKind'', JStr (target_kind_value target_kind))])"

record suppression_command =
  spc_target_kind :: suppression_target_kind
  spc_target_id :: string
  spc_scopes :: "suppression_scope list"
  spc_reason_code :: string
  spc_actor_id :: string
  spc_evidence_reference :: string
  spc_expected_revision :: "int option"
  spc_expires_at_utc :: "datetime option"
  spc_command_digest :: string
  spc_correlation_id :: string

definition make_suppression_command :: "suppression_command \<Rightarrow> suppression_command checked" where
  "make_suppression_command c =
     result_bind (checks [rv_length 500 (spc_target_id c),
        require_canonical ''suppression scopes must be non-empty, unique, and ordered'' (map scope_value (spc_scopes c)),
        rv_code (spc_reason_code c), rv_length 200 (spc_actor_id c), rv_digest (spc_evidence_reference c),
        (case spc_expected_revision c of None \<Rightarrow> Inr () | Some n \<Rightarrow> rv_at_least 0 n),
        rv_digest (spc_command_digest c), rv_length 200 (spc_correlation_id c)]) (\<lambda>_.
     result_bind (rv_optional_aware_utc (spc_expires_at_utc c)) (\<lambda>expires.
     result_bind (guard (spc_command_digest c = suppression_command_digest (spc_target_kind c) (spc_target_id c) (spc_scopes c)
          (spc_reason_code c) (spc_actor_id c) (spc_evidence_reference c) (spc_expected_revision c) expires)
        (ValueError ''command_digest does not match suppression command'')) (\<lambda>_.
       Inr (c\<lparr>spc_expires_at_utc := expires\<rparr>))))"

record suppression_revision =
  sv_suppression_id :: uuid
  sv_revision :: int
  sv_state :: suppression_state
  sv_target_kind :: suppression_target_kind
  sv_target_id :: string
  sv_scopes :: "suppression_scope list"
  sv_reason_code :: string
  sv_actor_id :: string
  sv_evidence_reference :: string
  sv_starts_at_utc :: datetime
  sv_expires_at_utc :: "datetime option"
  sv_resolved_at_utc :: "datetime option"
  sv_command_digest :: string
  sv_correlation_id :: string

definition require_suppression_shape :: "suppression_revision \<Rightarrow> unit checked" where
  "require_suppression_shape s = checks
     [require_canonical ''suppression scopes must be non-empty, unique, and ordered'' (map scope_value (sv_scopes s)),
      result_bind (deterministic_suppression_id (sv_target_kind s) (sv_target_id s) (sv_scopes s) (sv_reason_code s))
        (\<lambda>expected. guard (sv_suppression_id s = expected) (ValueError ''suppression_id does not match deterministic identity'')),
      guard (\<not> (sv_state s = Suppression_ACTIVE \<and> sv_resolved_at_utc s \<noteq> None)) (ValueError ''active suppression cannot be resolved''),
      guard (\<not> (sv_state s = Suppression_RESOLVED \<and> sv_resolved_at_utc s = None)) (ValueError ''resolved suppression requires resolved_at_utc''),
      guard (case sv_expires_at_utc s of None \<Rightarrow> True | Some t \<Rightarrow> instant (sv_starts_at_utc s) < instant t)
        (ValueError ''suppression expiry must follow activation'')]"

definition make_suppression_revision :: "suppression_revision \<Rightarrow> suppression_revision checked" where
  "make_suppression_revision s =
     result_bind (checks [rv_at_least 0 (sv_revision s), rv_length 500 (sv_target_id s), rv_code (sv_reason_code s),
        rv_length 200 (sv_actor_id s), rv_digest (sv_evidence_reference s), rv_digest (sv_command_digest s),
        rv_length 200 (sv_correlation_id s)]) (\<lambda>_.
     result_bind (rv_require_aware_utc (sv_starts_at_utc s)) (\<lambda>starts.
     result_bind (rv_optional_aware_utc (sv_expires_at_utc s)) (\<lambda>expires.
     result_bind (rv_optional_aware_utc (sv_resolved_at_utc s)) (\<lambda>resolved.
       let s' = s\<lparr>sv_starts_at_utc := starts, sv_expires_at_utc := expires, sv_resolved_at_utc := resolved\<rparr>
       in result_bind (require_suppression_shape s') (\<lambda>_. Inr s')))))"

end
