(* ===== verification/Review_Transitions.thy ===== *)
theory Review_Transitions
  imports Review_Contracts
begin

text \<open>
  \<^verbatim>\<open>review_core/transitions.py\<close>: opening and deciding a review case, recording a manual observation,
  activating and resolving a suppression, and when a suppression applies.
\<close>

text \<open>
  The exceptions: the three transition errors, and the \<open>ValueError\<close> of the timestamp check and of the
  models.
\<close>

datatype review_error =
    ReviewValueError string
  | StaleReviewRevision string
  | ReviewDecisionConflict string
  | SuppressionTransitionError string

type_synonym 'a reviewed = "review_error + 'a"

fun review_error_of :: "value_error \<Rightarrow> review_error" where
  "review_error_of (ValueError message) = ReviewValueError message"

definition of_model :: "'a checked \<Rightarrow> 'a reviewed" where
  "of_model r = map_error review_error_of r"

lemma of_model_simps [simp]:
  "of_model (Inr x) = Inr x" "of_model (Inl e) = Inl (review_error_of e)" "of_model r = Inr y \<longleftrightarrow> r = Inr y"
  by (simp_all add: of_model_def)

definition review_utc :: "datetime \<Rightarrow> datetime reviewed" where
  "review_utc v =
     (if utcoffset v = None then Inl (ReviewValueError ''timestamp must be timezone-aware'')
      else Inr (utc (instant v)))"

section \<open>Cases\<close>

definition open_review_case :: "candidate_revision \<Rightarrow> string list \<Rightarrow> datetime \<Rightarrow> string \<Rightarrow> review_case reviewed" where
  "open_review_case candidate reason_codes now_utc correlation_id =
     (let canonical_reasons = canonical_strings reason_codes
      in result_bind (of_model (deterministic_case_id (cdv_candidate_id candidate) (cdv_revision candidate) canonical_reasons)) (\<lambda>case_id.
         result_bind (review_utc now_utc) (\<lambda>now.
           of_model (make_review_case \<lparr>rvc_case_id = case_id, rvc_candidate_id = cdv_candidate_id candidate,
             rvc_candidate_revision = cdv_revision candidate, rvc_revision = 0, rvc_state = Case_OPEN,
             rvc_reason_codes = canonical_reasons, rvc_current_decision_id = None, rvc_opened_at_utc = now,
             rvc_recorded_at_utc = now, rvc_correlation_id = correlation_id\<rparr>))))"

definition check_decision :: "review_case \<Rightarrow> review_decision_command \<Rightarrow> unit reviewed" where
  "check_decision review_case command =
     (if dc_case_id command \<noteq> rvc_case_id review_case
      then Inl (ReviewDecisionConflict ''decision command targets another review case'')
      else if dc_expected_case_revision command \<noteq> rvc_revision review_case
      then Inl (StaleReviewRevision (''expected review revision '' @ int_decimal (dc_expected_case_revision command)
                  @ '', actual '' @ int_decimal (rvc_revision review_case)))
      else if rvc_state review_case = Case_OPEN
      then guard (dc_supersedes_decision_id command = None)
             (ReviewDecisionConflict ''an initial decision cannot supersede another decision'')
      else checks
        [guard (rvc_current_decision_id review_case \<noteq> None) (ReviewDecisionConflict ''decided case is missing its current decision''),
         guard (dc_supersedes_decision_id command = rvc_current_decision_id review_case)
           (ReviewDecisionConflict ''a replacement decision must supersede the current decision'')])"

definition decide_review_case ::
  "review_case \<Rightarrow> review_decision_command \<Rightarrow> datetime \<Rightarrow> (review_case \<times> review_decision) reviewed" where
  "decide_review_case review_case command now_utc =
     result_bind (check_decision review_case command) (\<lambda>_.
       let next_revision = rvc_revision review_case + 1;
           decision_id = deterministic_decision_id (rvc_case_id review_case) next_revision (dc_command_digest command)
       in result_bind (review_utc now_utc) (\<lambda>now.
          result_bind (of_model (make_review_decision \<lparr>rd_decision_id = decision_id, rd_case_id = rvc_case_id review_case,
            rd_case_revision = next_revision, rd_outcome = dc_outcome command, rd_actor_id = dc_actor_id command,
            rd_rationale = dc_rationale command, rd_evidence_references = dc_evidence_references command,
            rd_supersedes_decision_id = dc_supersedes_decision_id command, rd_command_digest = dc_command_digest command,
            rd_decided_at_utc = now, rd_correlation_id = dc_correlation_id command\<rparr>)) (\<lambda>decision.
          result_bind (of_model (make_review_case \<lparr>rvc_case_id = rvc_case_id review_case, rvc_candidate_id = rvc_candidate_id review_case,
            rvc_candidate_revision = rvc_candidate_revision review_case, rvc_revision = next_revision, rvc_state = Case_DECIDED,
            rvc_reason_codes = rvc_reason_codes review_case, rvc_current_decision_id = Some decision_id,
            rvc_opened_at_utc = rvc_opened_at_utc review_case, rvc_recorded_at_utc = now,
            rvc_correlation_id = dc_correlation_id command\<rparr>)) (\<lambda>revision.
            Inr (revision, decision)))))"

section \<open>Manual observations\<close>

definition create_manual_observation :: "manual_observation_command \<Rightarrow> datetime \<Rightarrow> manual_observation reviewed" where
  "create_manual_observation command now_utc =
     (let value_digest = value_digest_of (oc_value_text command)
      in result_bind (review_utc now_utc) (\<lambda>now.
         of_model (make_manual_observation \<lparr>mo_observation_id = deterministic_manual_observation_id (oc_candidate_id command)
             (oc_field_key command) value_digest (oc_command_digest command),
           mo_candidate_id = oc_candidate_id command, mo_candidate_revision = oc_candidate_revision command,
           mo_field_key = oc_field_key command, mo_value_text = oc_value_text command, mo_value_digest = value_digest,
           mo_actor_id = oc_actor_id command, mo_reason_code = oc_reason_code command,
           mo_supersedes_observation_id = oc_supersedes_observation_id command,
           mo_command_digest = oc_command_digest command, mo_recorded_at_utc = now,
           mo_correlation_id = oc_correlation_id command\<rparr>)))"

section \<open>Suppressions\<close>

definition command_suppression_id :: "suppression_command \<Rightarrow> uuid checked" where
  "command_suppression_id command =
     deterministic_suppression_id (spc_target_kind command) (spc_target_id command) (spc_scopes command) (spc_reason_code command)"

definition activate_suppression :: "suppression_command \<Rightarrow> datetime \<Rightarrow> suppression_revision reviewed" where
  "activate_suppression command now_utc =
     result_bind (guard (spc_expected_revision command = None)
       (StaleReviewRevision ''initial suppression activation requires no revision'')) (\<lambda>_.
     result_bind (of_model (command_suppression_id command)) (\<lambda>suppression_id.
     result_bind (review_utc now_utc) (\<lambda>now.
       of_model (make_suppression_revision \<lparr>sv_suppression_id = suppression_id, sv_revision = 0,
         sv_state = Suppression_ACTIVE, sv_target_kind = spc_target_kind command, sv_target_id = spc_target_id command,
         sv_scopes = spc_scopes command, sv_reason_code = spc_reason_code command, sv_actor_id = spc_actor_id command,
         sv_evidence_reference = spc_evidence_reference command, sv_starts_at_utc = now,
         sv_expires_at_utc = spc_expires_at_utc command, sv_resolved_at_utc = None,
         sv_command_digest = spc_command_digest command, sv_correlation_id = spc_correlation_id command\<rparr>))))"

text \<open>Timestamps are equal when they denote the same instant.\<close>

definition same_expiry :: "datetime option \<Rightarrow> datetime option \<Rightarrow> bool" where
  "same_expiry s t \<longleftrightarrow> map_option instant s = map_option instant t"

definition shown_revision :: "int option \<Rightarrow> string" where
  "shown_revision r = (case r of None \<Rightarrow> ''None'' | Some n \<Rightarrow> int_decimal n)"

definition resolve_suppression :: "suppression_revision \<Rightarrow> suppression_command \<Rightarrow> datetime \<Rightarrow> suppression_revision reviewed" where
  "resolve_suppression current command now_utc =
     result_bind (checks
       [guard (spc_expected_revision command = Some (sv_revision current))
          (StaleReviewRevision (''expected suppression revision '' @ shown_revision (spc_expected_revision command)
             @ '', actual '' @ int_decimal (sv_revision current))),
        guard (sv_state current = Suppression_ACTIVE)
          (SuppressionTransitionError ''only an active suppression can be resolved'')]) (\<lambda>_.
     result_bind (of_model (command_suppression_id command)) (\<lambda>identity.
     result_bind (checks
       [guard (identity = sv_suppression_id current)
          (SuppressionTransitionError ''suppression identity cannot change on resolution''),
        guard (same_expiry (spc_expires_at_utc command) (sv_expires_at_utc current))
          (SuppressionTransitionError ''suppression expiry cannot change on resolution'')]) (\<lambda>_.
     result_bind (review_utc now_utc) (\<lambda>now.
       of_model (make_suppression_revision \<lparr>sv_suppression_id = sv_suppression_id current,
         sv_revision = sv_revision current + 1, sv_state = Suppression_RESOLVED, sv_target_kind = sv_target_kind current,
         sv_target_id = sv_target_id current, sv_scopes = sv_scopes current, sv_reason_code = sv_reason_code current,
         sv_actor_id = spc_actor_id command, sv_evidence_reference = spc_evidence_reference command,
         sv_starts_at_utc = sv_starts_at_utc current, sv_expires_at_utc = sv_expires_at_utc current,
         sv_resolved_at_utc = Some now, sv_command_digest = spc_command_digest command,
         sv_correlation_id = spc_correlation_id command\<rparr>)))))"

definition suppression_applies :: "suppression_revision \<Rightarrow> suppression_scope \<Rightarrow> datetime \<Rightarrow> bool reviewed" where
  "suppression_applies suppression scope at_utc =
     result_bind (review_utc at_utc) (\<lambda>current_time.
       Inr (sv_state suppression = Suppression_ACTIVE \<and> scope \<in> set (sv_scopes suppression)
         \<and> instant (sv_starts_at_utc suppression) \<le> instant current_time
         \<and> (case sv_expires_at_utc suppression of None \<Rightarrow> True | Some t \<Rightarrow> instant current_time < instant t)))"

end
