(* ===== verification/Review_Schema.thy ===== *)
theory Review_Schema
  imports Review_Transitions Store_Tables
begin

text \<open>
  The tables of \<^verbatim>\<open>20260814_0010_candidate_review_foundation.py\<close> as lists of records and their
  constraints as predicates. The tables are append-only: triggers refuse every update and deletion, and
  the repository only inserts. The two foreign keys between case revisions and decisions are deferred to
  the end of the transaction; every other constraint is checked by the statement.
\<close>

section \<open>Tables\<close>

record candidate_row =
  cd_candidate_id :: uuid
  cd_entity_kind :: string
  cd_created_at_utc :: datetime
  cd_correlation_id :: string

record candidate_revision_row =
  cdr_candidate_id :: uuid
  cdr_revision :: int
  cdr_cluster_id :: uuid
  cdr_resolution_state :: candidate_resolution_state
  cdr_snapshot_digest :: string
  cdr_source_lineage_digest :: string
  cdr_normalized_payload :: "(string \<times> json) list"
  cdr_recorded_at_utc :: datetime
  cdr_correlation_id :: string

record candidate_evidence_row =
  cde_candidate_id :: uuid
  cde_candidate_revision :: int
  cde_position :: int
  cde_evidence_kind :: evidence_kind
  cde_evidence_digest :: string

record review_case_row =
  rcs_case_id :: uuid
  rcs_candidate_id :: uuid
  rcs_candidate_revision :: int
  rcs_opened_at_utc :: datetime
  rcs_correlation_id :: string

record review_case_revision_row =
  rcr_case_id :: uuid
  rcr_revision :: int
  rcr_state :: review_case_state
  rcr_reason_codes :: "string list"
  rcr_current_decision_id :: "uuid option"
  rcr_recorded_at_utc :: datetime
  rcr_correlation_id :: string

record suppression_row =
  spr_suppression_id :: uuid
  spr_revision :: int
  spr_state :: suppression_state
  spr_target_kind :: suppression_target_kind
  spr_target_id :: string
  spr_suppress_discovery :: bool
  spr_suppress_normalization :: bool
  spr_suppress_export :: bool
  spr_reason_code :: string
  spr_actor_id :: string
  spr_evidence_reference :: string
  spr_starts_at_utc :: datetime
  spr_expires_at_utc :: "datetime option"
  spr_resolved_at_utc :: "datetime option"
  spr_command_digest :: string
  spr_correlation_id :: string

text \<open>The columns of evaluations, decisions and observations are the fields of their models.\<close>

record review_db =
  candidates :: "candidate_row list"
  candidate_revisions :: "candidate_revision_row list"
  candidate_revision_evidence :: "candidate_evidence_row list"
  quality_evaluations :: "quality_record list"
  review_cases :: "review_case_row list"
  review_case_revisions :: "review_case_revision_row list"
  review_decisions :: "review_decision list"
  manual_observations :: "manual_observation list"
  suppression_revisions :: "suppression_row list"

section \<open>Constraints\<close>

definition text_between :: "nat \<Rightarrow> nat \<Rightarrow> string \<Rightarrow> bool" where
  "text_between lo hi s \<longleftrightarrow> lo \<le> length s \<and> length s \<le> hi"

definition no_markup :: "string \<Rightarrow> bool" where
  "no_markup s \<longleftrightarrow> CHR ''<'' \<notin> set s \<and> CHR ''>'' \<notin> set s"

definition candidate_checks :: "candidate_row \<Rightarrow> bool" where
  "candidate_checks r \<longleftrightarrow> review_key_pattern (cd_entity_kind r) \<and> text_between 1 200 (cd_correlation_id r)"

definition candidate_revision_checks :: "candidate_revision_row \<Rightarrow> bool" where
  "candidate_revision_checks r \<longleftrightarrow> 0 \<le> cdr_revision r
     \<and> sha256_pattern (cdr_snapshot_digest r) \<and> sha256_pattern (cdr_source_lineage_digest r)"

definition candidate_evidence_checks :: "candidate_evidence_row \<Rightarrow> bool" where
  "candidate_evidence_checks r \<longleftrightarrow> 0 \<le> cde_position r \<and> sha256_pattern (cde_evidence_digest r)"

definition quality_evaluation_checks :: "quality_record \<Rightarrow> bool" where
  "quality_evaluation_checks r \<longleftrightarrow> sha256_pattern (qr_policy_digest r) \<and> sha256_pattern (qr_evaluation_digest r)
     \<and> qr_export_eligible r = (qr_blockers r = [])"

definition case_revision_checks :: "review_case_revision_row \<Rightarrow> bool" where
  "case_revision_checks r \<longleftrightarrow> 0 \<le> rcr_revision r \<and> rcr_reason_codes r \<noteq> []
     \<and> (rcr_state r = Case_OPEN \<and> rcr_current_decision_id r = None
        \<or> rcr_state r = Case_DECIDED \<and> rcr_current_decision_id r \<noteq> None)"

definition decision_checks :: "review_decision \<Rightarrow> bool" where
  "decision_checks r \<longleftrightarrow> text_between 1 200 (rd_actor_id r) \<and> text_between 1 4000 (rd_rationale r)
     \<and> no_markup (rd_rationale r) \<and> rd_evidence_references r \<noteq> [] \<and> sha256_pattern (rd_command_digest r)"

definition observation_checks :: "manual_observation \<Rightarrow> bool" where
  "observation_checks r \<longleftrightarrow> review_key_pattern (mo_field_key r) \<and> text_between 1 4000 (mo_value_text r)
     \<and> no_markup (mo_value_text r) \<and> sha256_pattern (mo_value_digest r) \<and> sha256_pattern (mo_command_digest r)
     \<and> code_pattern (mo_reason_code r)"

definition suppression_checks :: "suppression_row \<Rightarrow> bool" where
  "suppression_checks r \<longleftrightarrow> 0 \<le> spr_revision r
     \<and> (spr_suppress_discovery r \<or> spr_suppress_normalization r \<or> spr_suppress_export r)
     \<and> code_pattern (spr_reason_code r) \<and> sha256_pattern (spr_evidence_reference r) \<and> sha256_pattern (spr_command_digest r)
     \<and> (spr_state r = Suppression_ACTIVE \<and> spr_resolved_at_utc r = None
        \<or> spr_state r = Suppression_RESOLVED \<and> spr_resolved_at_utc r \<noteq> None)
     \<and> (case spr_expires_at_utc r of None \<Rightarrow> True | Some t \<Rightarrow> instant (spr_starts_at_utc r) < instant t)"

definition review_checks :: "review_db \<Rightarrow> bool" where
  "review_checks d \<longleftrightarrow> list_all candidate_checks (candidates d) \<and> list_all candidate_revision_checks (candidate_revisions d)
     \<and> list_all candidate_evidence_checks (candidate_revision_evidence d)
     \<and> list_all quality_evaluation_checks (quality_evaluations d)
     \<and> list_all case_revision_checks (review_case_revisions d) \<and> list_all decision_checks (review_decisions d)
     \<and> list_all observation_checks (manual_observations d) \<and> list_all suppression_checks (suppression_revisions d)"

definition revision_key :: "candidate_revision_row \<Rightarrow> uuid \<times> int" where
  "revision_key r = (cdr_candidate_id r, cdr_revision r)"

definition case_revision_key :: "review_case_revision_row \<Rightarrow> uuid \<times> int" where
  "case_revision_key r = (rcr_case_id r, rcr_revision r)"

definition decision_key :: "review_decision \<Rightarrow> uuid \<times> int" where
  "decision_key d = (rd_case_id d, rd_case_revision d)"

definition suppression_key :: "suppression_row \<Rightarrow> uuid \<times> int" where
  "suppression_key r = (spr_suppression_id r, spr_revision r)"

text \<open>Primary keys and unique constraints.\<close>

definition candidate_tables_unique :: "review_db \<Rightarrow> bool" where
  "candidate_tables_unique d \<longleftrightarrow> distinct (map cd_candidate_id (candidates d))
     \<and> distinct (map revision_key (candidate_revisions d))
     \<and> distinct (map (\<lambda>r. (cdr_candidate_id r, cdr_snapshot_digest r)) (candidate_revisions d))
     \<and> distinct (map (\<lambda>r. (cde_candidate_id r, cde_candidate_revision r, cde_position r)) (candidate_revision_evidence d))
     \<and> distinct (map (\<lambda>r. (cde_candidate_id r, cde_candidate_revision r, cde_evidence_digest r)) (candidate_revision_evidence d))
     \<and> distinct (map qr_evaluation_id (quality_evaluations d))
     \<and> distinct (map (\<lambda>r. (qr_candidate_id r, qr_candidate_revision r, qr_policy_digest r)) (quality_evaluations d))"

definition review_tables_unique :: "review_db \<Rightarrow> bool" where
  "review_tables_unique d \<longleftrightarrow> distinct (map rcs_case_id (review_cases d))
     \<and> distinct (map (\<lambda>r. (rcs_candidate_id r, rcs_candidate_revision r)) (review_cases d))
     \<and> distinct (map case_revision_key (review_case_revisions d))
     \<and> distinct (map rd_decision_id (review_decisions d)) \<and> distinct (map rd_command_digest (review_decisions d))
     \<and> distinct (map decision_key (review_decisions d))
     \<and> distinct (map mo_observation_id (manual_observations d)) \<and> distinct (map mo_command_digest (manual_observations d))
     \<and> distinct (map suppression_key (suppression_revisions d)) \<and> distinct (map spr_command_digest (suppression_revisions d))"

definition references_some :: "'k option \<Rightarrow> 'k set \<Rightarrow> bool" where
  "references_some k K = (case k of None \<Rightarrow> True | Some x \<Rightarrow> x \<in> K)"

definition review_references :: "review_db \<Rightarrow> bool" where
  "review_references d \<longleftrightarrow>
     list_all (\<lambda>r. cdr_candidate_id r \<in> cd_candidate_id ` set (candidates d)) (candidate_revisions d)
     \<and> list_all (\<lambda>r. (cde_candidate_id r, cde_candidate_revision r) \<in> revision_key ` set (candidate_revisions d))
         (candidate_revision_evidence d)
     \<and> list_all (\<lambda>r. (qr_candidate_id r, qr_candidate_revision r) \<in> revision_key ` set (candidate_revisions d))
         (quality_evaluations d)
     \<and> list_all (\<lambda>r. (rcs_candidate_id r, rcs_candidate_revision r) \<in> revision_key ` set (candidate_revisions d))
         (review_cases d)
     \<and> list_all (\<lambda>r. rcr_case_id r \<in> rcs_case_id ` set (review_cases d)) (review_case_revisions d)
     \<and> list_all (\<lambda>r. references_some (rd_supersedes_decision_id r) (rd_decision_id ` set (review_decisions d)))
         (review_decisions d)
     \<and> list_all (\<lambda>r. (mo_candidate_id r, mo_candidate_revision r) \<in> revision_key ` set (candidate_revisions d))
         (manual_observations d)
     \<and> list_all (\<lambda>r. references_some (mo_supersedes_observation_id r) (mo_observation_id ` set (manual_observations d)))
         (manual_observations d)"

definition immediate_constraints :: "review_db \<Rightarrow> bool" where
  "immediate_constraints d \<longleftrightarrow> review_checks d \<and> candidate_tables_unique d \<and> review_tables_unique d \<and> review_references d"

definition deferred_constraints :: "review_db \<Rightarrow> bool" where
  "deferred_constraints d \<longleftrightarrow>
     list_all (\<lambda>r. decision_key r \<in> case_revision_key ` set (review_case_revisions d)) (review_decisions d)
     \<and> list_all (\<lambda>r. references_some (rcr_current_decision_id r) (rd_decision_id ` set (review_decisions d)))
         (review_case_revisions d)"

section \<open>Columns\<close>

text \<open>
  What a column can hold: \<open>Integer\<close> columns 32-bit numbers, text columns no NUL character. A
  \<open>timestamptz\<close> column holds an instant, read back in UTC.
\<close>

definition case_revision_columns :: "review_case_revision_row \<Rightarrow> bool" where
  "case_revision_columns r \<longleftrightarrow> int4 (rcr_revision r) \<and> list_all storable (rcr_reason_codes r)
     \<and> is_aware_utc (rcr_recorded_at_utc r) \<and> storable (rcr_correlation_id r)"

definition decision_columns :: "review_decision \<Rightarrow> bool" where
  "decision_columns r \<longleftrightarrow> int4 (rd_case_revision r) \<and> storable (rd_actor_id r) \<and> storable (rd_rationale r)
     \<and> list_all storable (rd_evidence_references r) \<and> storable (rd_command_digest r)
     \<and> is_aware_utc (rd_decided_at_utc r) \<and> storable (rd_correlation_id r)"

definition observation_columns :: "manual_observation \<Rightarrow> bool" where
  "observation_columns r \<longleftrightarrow> int4 (mo_candidate_revision r) \<and> storable (mo_field_key r) \<and> storable (mo_value_text r)
     \<and> storable (mo_value_digest r) \<and> storable (mo_actor_id r) \<and> storable (mo_reason_code r)
     \<and> storable (mo_command_digest r) \<and> is_aware_utc (mo_recorded_at_utc r) \<and> storable (mo_correlation_id r)"

definition suppression_columns :: "suppression_row \<Rightarrow> bool" where
  "suppression_columns r \<longleftrightarrow> int4 (spr_revision r) \<and> storable (spr_target_id r) \<and> storable (spr_reason_code r)
     \<and> storable (spr_actor_id r) \<and> storable (spr_evidence_reference r) \<and> is_aware_utc (spr_starts_at_utc r)
     \<and> pred_option is_aware_utc (spr_expires_at_utc r) \<and> pred_option is_aware_utc (spr_resolved_at_utc r)
     \<and> storable (spr_command_digest r) \<and> storable (spr_correlation_id r)"

definition review_columns :: "review_db \<Rightarrow> bool" where
  "review_columns d \<longleftrightarrow> list_all case_revision_columns (review_case_revisions d)
     \<and> list_all decision_columns (review_decisions d) \<and> list_all observation_columns (manual_observations d)
     \<and> list_all suppression_columns (suppression_revisions d)
     \<and> list_all (\<lambda>r. int4 (rcs_candidate_revision r) \<and> is_aware_utc (rcs_opened_at_utc r)) (review_cases d)
     \<and> list_all (\<lambda>r. int4 (cdr_revision r) \<and> is_aware_utc (cdr_recorded_at_utc r)) (candidate_revisions d)
     \<and> list_all (\<lambda>r. int4 (qr_candidate_revision r) \<and> is_aware_utc (qr_evaluated_at_utc r)) (quality_evaluations d)"

text \<open>The states a committed transaction leaves.\<close>

definition review_store_ok :: "review_db \<Rightarrow> bool" where
  "review_store_ok d \<longleftrightarrow> review_columns d \<and> immediate_constraints d \<and> deferred_constraints d"

end
