(* ===== verification/Review_Store.thy ===== *)
theory Review_Store
  imports Review_Schema
begin

text \<open>
  \<^verbatim>\<open>review_infrastructure/postgres.py\<close>, \<open>PostgresReviewRepository\<close>: every query and every transaction.
  \<open>FOR UPDATE\<close> and \<open>FOR SHARE\<close> make concurrent transactions wait and have no effect on one run alone.
  A transaction either commits its inserts or leaves the database as it was.
\<close>

section \<open>Exceptions and statements\<close>

text \<open>The errors of \<^verbatim>\<open>review_application/errors.py\<close>, and a transition error nothing translated.\<close>

datatype review_exception =
    ReviewNotFound string string
  | ReviewConflict string string
  | ReviewForbidden string string
  | ReviewInputInvalid string string
  | TransitionError review_error

type_synonym 'a stored = "review_exception store_exn + 'a"

fun transition_exn :: "review_error \<Rightarrow> review_exception store_exn" where
  "transition_exn (ReviewValueError m) = StoreValueError (ValueError m)"
| "transition_exn e = Conflict (TransitionError e)"

definition of_transition :: "'a reviewed \<Rightarrow> 'a stored" where
  "of_transition r = map_error transition_exn r"

definition not_found :: "string \<Rightarrow> string \<Rightarrow> 'a stored" where
  "not_found message action = raise_conflict (ReviewNotFound message action)"

definition review_execute :: "(review_db \<Rightarrow> review_db) \<Rightarrow> review_db \<Rightarrow> review_db stored" where
  "review_execute statement d =
     (let d' = statement d
      in if \<not> review_columns d' then Inl (SQLAlchemyError ''DataError'')
         else if \<not> immediate_constraints d' then Inl (SQLAlchemyError ''IntegrityError'')
         else Inr d')"

definition check_deferred :: "review_db \<Rightarrow> review_db stored" where
  "check_deferred d = (if deferred_constraints d then Inr d else Inl (SQLAlchemyError ''IntegrityError''))"

text \<open>\<open>with self._engine.begin()\<close> inside \<open>try \<dots> except IntegrityError\<close>.\<close>

definition review_transaction ::
  "string \<Rightarrow> string \<Rightarrow> (review_db \<Rightarrow> ('a \<times> review_db) stored) \<Rightarrow> review_db \<Rightarrow> 'a stored \<times> review_db" where
  "review_transaction message action body d =
     (case body d of
        Inr (x, d') \<Rightarrow> (Inr x, d')
      | Inl e \<Rightarrow> (Inl (if e = SQLAlchemyError ''IntegrityError'' then Conflict (ReviewConflict message action) else e), d))"

section \<open>Rows\<close>

definition case_of_rows :: "review_case_row \<Rightarrow> review_case_revision_row \<Rightarrow> review_case stored" where
  "case_of_rows c r = of_checked (make_review_case \<lparr>rvc_case_id = rcs_case_id c, rvc_candidate_id = rcs_candidate_id c,
     rvc_candidate_revision = rcs_candidate_revision c, rvc_revision = rcr_revision r, rvc_state = rcr_state r,
     rvc_reason_codes = rcr_reason_codes r, rvc_current_decision_id = rcr_current_decision_id r,
     rvc_opened_at_utc = rcs_opened_at_utc c, rvc_recorded_at_utc = rcr_recorded_at_utc r,
     rvc_correlation_id = rcr_correlation_id r\<rparr>)"

definition decision_of_row :: "review_decision \<Rightarrow> review_decision stored" where
  "decision_of_row r = of_checked (make_review_decision r)"

definition observation_of_row :: "manual_observation \<Rightarrow> manual_observation stored" where
  "observation_of_row r = of_checked (make_manual_observation r)"

definition suppression_scopes :: "suppression_row \<Rightarrow> suppression_scope list" where
  "suppression_scopes r = (if spr_suppress_discovery r then [Scope_DISCOVERY] else [])
     @ (if spr_suppress_export r then [Scope_EXPORT] else [])
     @ (if spr_suppress_normalization r then [Scope_NORMALIZATION] else [])"

definition suppression_of_row :: "suppression_row \<Rightarrow> suppression_revision stored" where
  "suppression_of_row r = of_checked (make_suppression_revision \<lparr>sv_suppression_id = spr_suppression_id r,
     sv_revision = spr_revision r, sv_state = spr_state r, sv_target_kind = spr_target_kind r, sv_target_id = spr_target_id r,
     sv_scopes = suppression_scopes r, sv_reason_code = spr_reason_code r, sv_actor_id = spr_actor_id r,
     sv_evidence_reference = spr_evidence_reference r, sv_starts_at_utc = spr_starts_at_utc r,
     sv_expires_at_utc = spr_expires_at_utc r, sv_resolved_at_utc = spr_resolved_at_utc r,
     sv_command_digest = spr_command_digest r, sv_correlation_id = spr_correlation_id r\<rparr>)"

section \<open>Queries\<close>

text \<open>\<open>ORDER BY revision DESC LIMIT 1\<close> and \<open>DISTINCT ON (key) \<dots> ORDER BY key, revision DESC\<close>.\<close>

definition latest :: "('r \<Rightarrow> int) \<Rightarrow> 'r list \<Rightarrow> 'r list" where
  "latest revision rs = take 1 (sort_key (\<lambda>r. - revision r) rs)"

definition latest_of_each :: "('r \<Rightarrow> 'k::linorder) \<Rightarrow> ('r \<Rightarrow> int) \<Rightarrow> 'r list \<Rightarrow> 'r list" where
  "latest_of_each key revision rs =
     concat (map (\<lambda>k. latest revision (filter (\<lambda>r. key r = k) rs)) (sorted_list_of_set (key ` set rs)))"

definition case_join :: "review_db \<Rightarrow> (review_case_row \<times> review_case_revision_row) list" where
  "case_join d = [(c, r). c \<leftarrow> review_cases d, r \<leftarrow> review_case_revisions d, rcr_case_id r = rcs_case_id c]"

definition load_case :: "uuid \<Rightarrow> review_db \<Rightarrow> review_case stored" where
  "load_case case_id d =
     result_bind (one_or_none (latest (\<lambda>(c, r). rcr_revision r)
        (filter (\<lambda>(c, r). rcs_case_id c = case_id) (case_join d)))) (\<lambda>row.
       case row of
         None \<Rightarrow> not_found (''Review case '' @ uuid_str case_id @ '' does not exist.'')
                  ''Refresh the review queue and select an existing case.''
       | Some (c, r) \<Rightarrow> case_of_rows c r)"

record review_queue_cursor =
  cur_recorded_at_utc :: datetime
  cur_case_id :: uuid

record review_case_summary =
  sum_case_id :: uuid
  sum_candidate_id :: uuid
  sum_candidate_revision :: int
  sum_revision :: int
  sum_state :: review_case_state
  sum_reason_codes :: "string list"
  sum_current_decision_id :: "uuid option"
  sum_recorded_at_utc :: datetime

record review_queue_page =
  page_items :: "review_case_summary list"
  page_next_cursor :: "review_queue_cursor option"

definition summary_of :: "review_case_row \<times> review_case_revision_row \<Rightarrow> review_case_summary" where
  "summary_of = (\<lambda>(c, r). \<lparr>sum_case_id = rcs_case_id c, sum_candidate_id = rcs_candidate_id c,
     sum_candidate_revision = rcs_candidate_revision c, sum_revision = rcr_revision r, sum_state = rcr_state r,
     sum_reason_codes = rcr_reason_codes r, sum_current_decision_id = rcr_current_decision_id r,
     sum_recorded_at_utc = rcr_recorded_at_utc r\<rparr>)"

definition queue_key :: "review_case_row \<times> review_case_revision_row \<Rightarrow> int \<times> uuid" where
  "queue_key = (\<lambda>(c, r). (instant (rcr_recorded_at_utc r), rcr_case_id r))"

definition queue_rows :: "review_case_state \<Rightarrow> review_queue_cursor option \<Rightarrow> review_db
    \<Rightarrow> (review_case_row \<times> review_case_revision_row) list" where
  "queue_rows state cursor d =
     rev (sort_key queue_key [(c, r). r \<leftarrow> latest_of_each rcr_case_id rcr_revision (review_case_revisions d),
       c \<leftarrow> review_cases d, rcs_case_id c = rcr_case_id r \<and> rcr_state r = state
         \<and> (case cursor of None \<Rightarrow> True | Some cu \<Rightarrow> queue_key (c, r) < (instant (cur_recorded_at_utc cu), cur_case_id cu))])"

definition list_cases :: "review_case_state \<Rightarrow> nat \<Rightarrow> review_queue_cursor option \<Rightarrow> review_db \<Rightarrow> review_queue_page" where
  "list_cases state limit cursor d =
     (let rows = take (limit + 1) (queue_rows state cursor d);
          visible = take limit rows
      in \<lparr>page_items = map summary_of visible,
          page_next_cursor = (if limit < length rows \<and> visible \<noteq> []
            then Some \<lparr>cur_recorded_at_utc = rcr_recorded_at_utc (snd (last visible)), cur_case_id = rcs_case_id (fst (last visible))\<rparr>
            else None)\<rparr>)"

definition load_candidate :: "uuid \<Rightarrow> int \<Rightarrow> review_db \<Rightarrow> candidate_revision stored" where
  "load_candidate candidate_id revision d =
     result_bind (one_or_none [(c, r). c \<leftarrow> candidates d, r \<leftarrow> candidate_revisions d,
        cdr_candidate_id r = cd_candidate_id c \<and> cd_candidate_id c = candidate_id \<and> cdr_revision r = revision]) (\<lambda>row.
       case row of
         None \<Rightarrow> not_found (''Candidate revision '' @ uuid_str candidate_id @ ''/'' @ int_decimal revision @ '' does not exist.'')
                  ''Rebuild the review case from a persisted candidate revision.''
       | Some (c, r) \<Rightarrow>
           result_bind (of_checked (traverse (\<lambda>e. make_candidate_evidence \<lparr>ev_position = cde_position e,
               ev_kind = cde_evidence_kind e, ev_digest = cde_evidence_digest e\<rparr>)
             (sort_key cde_position (filter (\<lambda>e. cde_candidate_id e = candidate_id \<and> cde_candidate_revision e = revision)
                (candidate_revision_evidence d))))) (\<lambda>evidence.
           of_checked (make_candidate_revision \<lparr>cdv_candidate_id = cd_candidate_id c, cdv_revision = cdr_revision r,
             cdv_entity_kind = cd_entity_kind c, cdv_cluster_id = cdr_cluster_id r,
             cdv_resolution_state = cdr_resolution_state r, cdv_snapshot_digest = cdr_snapshot_digest r,
             cdv_source_lineage_digest = cdr_source_lineage_digest r, cdv_normalized_payload = cdr_normalized_payload r,
             cdv_evidence = evidence, cdv_recorded_at_utc = cdr_recorded_at_utc r, cdv_correlation_id = cdr_correlation_id r\<rparr>)))"

definition load_quality :: "uuid \<Rightarrow> int \<Rightarrow> review_db \<Rightarrow> quality_record option stored" where
  "load_quality candidate_id revision d =
     (case rev (sort_key (\<lambda>q. (instant (qr_evaluated_at_utc q), qr_evaluation_id q))
        (filter (\<lambda>q. qr_candidate_id q = candidate_id \<and> qr_candidate_revision q = revision) (quality_evaluations d))) of
        [] \<Rightarrow> Inr None
      | q # _ \<Rightarrow> result_bind (of_checked (make_quality_record q)) (\<lambda>r. Inr (Some r)))"

definition require_candidate_revision :: "uuid \<Rightarrow> int \<Rightarrow> review_db \<Rightarrow> unit stored" where
  "require_candidate_revision candidate_id revision d =
     result_bind (select_one revision_key (candidate_id, revision) (candidate_revisions d)) (\<lambda>row.
       if row = None
       then not_found (''Candidate revision '' @ uuid_str candidate_id @ ''/'' @ int_decimal revision @ '' does not exist.'')
              ''Reload candidate state before adding manual evidence.''
       else Inr ())"

definition load_suppression :: "uuid \<Rightarrow> review_db \<Rightarrow> suppression_revision stored" where
  "load_suppression suppression_id d =
     result_bind (one_or_none (latest spr_revision
        (filter (\<lambda>r. spr_suppression_id r = suppression_id) (suppression_revisions d)))) (\<lambda>row.
       case row of
         None \<Rightarrow> not_found (''Suppression '' @ uuid_str suppression_id @ '' does not exist.'')
                  ''Refresh suppression state and select an existing suppression.''
       | Some r \<Rightarrow> suppression_of_row r)"

definition get_suppression :: "uuid \<Rightarrow> review_db \<Rightarrow> suppression_revision stored" where
  "get_suppression = load_suppression"

record review_case_detail =
  det_case :: review_case
  det_candidate :: candidate_revision
  det_quality :: "quality_record option"
  det_decisions :: "review_decision list"
  det_manual_observations :: "manual_observation list"
  det_active_suppressions :: "suppression_revision list"

text \<open>The rows of active suppressions of a candidate at the database's \<open>CURRENT_TIMESTAMP\<close>.\<close>

definition active_suppression_rows :: "uuid \<Rightarrow> int \<Rightarrow> review_db \<Rightarrow> suppression_row list" where
  "active_suppression_rows candidate_id current_timestamp d =
     filter (\<lambda>r. spr_state r = Suppression_ACTIVE
         \<and> (case spr_expires_at_utc r of None \<Rightarrow> True | Some t \<Rightarrow> current_timestamp < instant t))
       (latest_of_each spr_suppression_id spr_revision
         (filter (\<lambda>r. spr_target_kind r = Target_CANDIDATE \<and> spr_target_id r = uuid_str candidate_id)
           (suppression_revisions d)))"

definition get_case :: "uuid \<Rightarrow> int \<Rightarrow> review_db \<Rightarrow> review_case_detail stored" where
  "get_case case_id current_timestamp d =
     result_bind (load_case case_id d) (\<lambda>review_case.
     result_bind (load_candidate (rvc_candidate_id review_case) (rvc_candidate_revision review_case) d) (\<lambda>candidate.
     result_bind (load_quality (rvc_candidate_id review_case) (rvc_candidate_revision review_case) d) (\<lambda>quality.
     result_bind (traverse decision_of_row (sort_key (\<lambda>r. (rd_case_revision r, rd_decision_id r))
        (filter (\<lambda>r. rd_case_id r = case_id) (review_decisions d)))) (\<lambda>decisions.
     result_bind (traverse observation_of_row (sort_key (\<lambda>r. (instant (mo_recorded_at_utc r), mo_observation_id r))
        (filter (\<lambda>r. mo_candidate_id r = rvc_candidate_id review_case) (manual_observations d)))) (\<lambda>observations.
     result_bind (traverse suppression_of_row (active_suppression_rows (rvc_candidate_id review_case) current_timestamp d)) (\<lambda>suppressions.
       Inr \<lparr>det_case = review_case, det_candidate = candidate, det_quality = quality, det_decisions = decisions,
         det_manual_observations = observations, det_active_suppressions = suppressions\<rparr>))))))"

section \<open>Replays\<close>

definition verify_decision_replay :: "review_decision \<Rightarrow> review_decision_command \<Rightarrow> unit stored" where
  "verify_decision_replay decision command =
     (if rd_case_id decision \<noteq> dc_case_id command \<or> rd_case_revision decision \<noteq> dc_expected_case_revision command + 1
         \<or> rd_outcome decision \<noteq> dc_outcome command \<or> rd_actor_id decision \<noteq> dc_actor_id command
         \<or> rd_rationale decision \<noteq> dc_rationale command
         \<or> rd_evidence_references decision \<noteq> dc_evidence_references command
         \<or> rd_supersedes_decision_id decision \<noteq> dc_supersedes_decision_id command
      then raise_conflict (ReviewConflict ''A review command digest is already bound to different immutable content.''
             ''Investigate the command identity collision before retrying.'')
      else Inr ())"

definition verify_observation_replay :: "manual_observation \<Rightarrow> manual_observation_command \<Rightarrow> unit stored" where
  "verify_observation_replay observation command =
     (if mo_candidate_id observation \<noteq> oc_candidate_id command
         \<or> mo_candidate_revision observation \<noteq> oc_candidate_revision command
         \<or> mo_field_key observation \<noteq> oc_field_key command \<or> mo_value_text observation \<noteq> oc_value_text command
         \<or> mo_actor_id observation \<noteq> oc_actor_id command \<or> mo_reason_code observation \<noteq> oc_reason_code command
         \<or> mo_supersedes_observation_id observation \<noteq> oc_supersedes_observation_id command
      then raise_conflict (ReviewConflict ''A manual-observation command digest is bound to different immutable content.''
             ''Investigate the command identity collision before retrying.'')
      else Inr ())"

definition verify_suppression_replay :: "suppression_revision \<Rightarrow> suppression_command \<Rightarrow> unit stored" where
  "verify_suppression_replay suppression command =
     (let expected_revision = (case spc_expected_revision command of None \<Rightarrow> 0 | Some n \<Rightarrow> n + 1)
      in if sv_revision suppression \<noteq> expected_revision \<or> sv_target_kind suppression \<noteq> spc_target_kind command
            \<or> sv_target_id suppression \<noteq> spc_target_id command \<or> sv_scopes suppression \<noteq> spc_scopes command
            \<or> sv_reason_code suppression \<noteq> spc_reason_code command \<or> sv_actor_id suppression \<noteq> spc_actor_id command
            \<or> sv_evidence_reference suppression \<noteq> spc_evidence_reference command
            \<or> \<not> same_expiry (sv_expires_at_utc suppression) (spc_expires_at_utc command)
         then raise_conflict (ReviewConflict ''A suppression command digest is bound to different immutable content.''
                ''Investigate the command identity collision before retrying.'')
         else Inr ())"

definition decision_replay :: "review_decision_command \<Rightarrow> review_db \<Rightarrow> (review_case \<times> review_decision) option stored" where
  "decision_replay command d =
     result_bind (select_one rd_command_digest (dc_command_digest command) (review_decisions d)) (\<lambda>row.
       case row of
         None \<Rightarrow> Inr None
       | Some r \<Rightarrow>
           result_bind (decision_of_row r) (\<lambda>decision.
           result_bind (verify_decision_replay decision command) (\<lambda>_.
           result_bind (one_or_none (filter (\<lambda>(c, v). rcs_case_id c = rd_case_id decision \<and> rcr_revision v = rd_case_revision decision)
               (case_join d))) (\<lambda>case_row.
             case case_row of
               None \<Rightarrow> Inl (SQLAlchemyError ''NoResultFound'')
             | Some (c, v) \<Rightarrow> result_bind (case_of_rows c v) (\<lambda>review_case. Inr (Some (review_case, decision)))))))"

definition suppression_replay :: "suppression_command \<Rightarrow> review_db \<Rightarrow> suppression_revision option stored" where
  "suppression_replay command d =
     result_bind (select_one spr_command_digest (spc_command_digest command) (suppression_revisions d)) (\<lambda>row.
       case row of
         None \<Rightarrow> Inr None
       | Some r \<Rightarrow>
           result_bind (suppression_of_row r) (\<lambda>suppression.
           result_bind (verify_suppression_replay suppression command) (\<lambda>_. Inr (Some suppression))))"

section \<open>Inserts\<close>

definition case_revision_row :: "review_case \<Rightarrow> review_case_revision_row" where
  "case_revision_row c = \<lparr>rcr_case_id = rvc_case_id c, rcr_revision = rvc_revision c, rcr_state = rvc_state c,
     rcr_reason_codes = rvc_reason_codes c, rcr_current_decision_id = rvc_current_decision_id c,
     rcr_recorded_at_utc = rvc_recorded_at_utc c, rcr_correlation_id = rvc_correlation_id c\<rparr>"

definition insert_case_revision :: "review_case \<Rightarrow> review_db \<Rightarrow> review_db stored" where
  "insert_case_revision c = review_execute (review_case_revisions_update (insert_rows [case_revision_row c]))"

definition insert_decision :: "review_decision \<Rightarrow> review_db \<Rightarrow> review_db stored" where
  "insert_decision decision = review_execute (review_decisions_update (insert_rows [decision]))"

definition insert_observation :: "manual_observation \<Rightarrow> review_db \<Rightarrow> review_db stored" where
  "insert_observation observation = review_execute (manual_observations_update (insert_rows [observation]))"

definition suppression_row_of :: "suppression_revision \<Rightarrow> suppression_row" where
  "suppression_row_of s = \<lparr>spr_suppression_id = sv_suppression_id s, spr_revision = sv_revision s, spr_state = sv_state s,
     spr_target_kind = sv_target_kind s, spr_target_id = sv_target_id s,
     spr_suppress_discovery = (Scope_DISCOVERY \<in> set (sv_scopes s)),
     spr_suppress_normalization = (Scope_NORMALIZATION \<in> set (sv_scopes s)),
     spr_suppress_export = (Scope_EXPORT \<in> set (sv_scopes s)), spr_reason_code = sv_reason_code s,
     spr_actor_id = sv_actor_id s, spr_evidence_reference = sv_evidence_reference s, spr_starts_at_utc = sv_starts_at_utc s,
     spr_expires_at_utc = sv_expires_at_utc s, spr_resolved_at_utc = sv_resolved_at_utc s,
     spr_command_digest = sv_command_digest s, spr_correlation_id = sv_correlation_id s\<rparr>"

definition insert_suppression :: "suppression_revision \<Rightarrow> review_db \<Rightarrow> review_db stored" where
  "insert_suppression s = review_execute (suppression_revisions_update (insert_rows [suppression_row_of s]))"

section \<open>Transactions\<close>

text \<open>
  The transition errors a handler turns into a \<open>ReviewConflict\<close>. Each handler names the two of them its
  transition raises; a decision raises no suppression error and a resolution no decision conflict.
\<close>

definition caught_transition :: "string \<Rightarrow> 'a reviewed \<Rightarrow> 'a stored" where
  "caught_transition action r = map_error (\<lambda>e. case e of
       ReviewValueError m \<Rightarrow> StoreValueError (ValueError m)
     | StaleReviewRevision m \<Rightarrow> Conflict (ReviewConflict m action)
     | ReviewDecisionConflict m \<Rightarrow> Conflict (ReviewConflict m action)
     | SuppressionTransitionError m \<Rightarrow> Conflict (ReviewConflict m action)) r"

definition submit_decision_tx ::
  "review_decision_command \<Rightarrow> datetime \<Rightarrow> review_db \<Rightarrow> ((review_case \<times> review_decision) \<times> review_db) stored" where
  "submit_decision_tx command now_utc d =
     result_bind (decision_replay command d) (\<lambda>replay.
       case replay of
         Some answer \<Rightarrow> Inr (answer, d)
       | None \<Rightarrow>
           result_bind (load_case (dc_case_id command) d) (\<lambda>review_case.
           result_bind (caught_transition ''Reload the review case and retry against its current revision.''
               (decide_review_case review_case command now_utc)) (\<lambda>(next_case, decision).
           result_bind (insert_case_revision next_case d) (\<lambda>d1.
           result_bind (insert_decision decision d1) (\<lambda>d2.
           result_bind (check_deferred d2) (\<lambda>d3. Inr ((next_case, decision), d3)))))))"

definition submit_decision ::
  "review_decision_command \<Rightarrow> datetime \<Rightarrow> review_db \<Rightarrow> (review_case \<times> review_decision) stored \<times> review_db" where
  "submit_decision command now_utc =
     review_transaction ''The review decision conflicts with persisted immutable history.''
       ''Reload the case and retry the exact command against current state.'' (submit_decision_tx command now_utc)"

definition check_superseded :: "manual_observation_command \<Rightarrow> review_db \<Rightarrow> unit stored" where
  "check_superseded command d =
     (case oc_supersedes_observation_id command of
        None \<Rightarrow> Inr ()
      | Some observation_id \<Rightarrow>
          result_bind (select_one mo_observation_id observation_id (manual_observations d)) (\<lambda>superseded.
            case superseded of
              None \<Rightarrow> not_found ''The superseded manual observation does not exist.''
                       ''Reload candidate evidence before creating a replacement observation.''
            | Some s \<Rightarrow>
                if mo_candidate_id s \<noteq> oc_candidate_id command \<or> mo_field_key s \<noteq> oc_field_key command
                then raise_conflict (ReviewConflict ''A manual observation can supersede only the same candidate field.''
                       ''Select the current observation for the exact candidate field.'')
                else Inr ()))"

definition add_manual_observation_tx ::
  "manual_observation_command \<Rightarrow> datetime \<Rightarrow> review_db \<Rightarrow> (manual_observation \<times> review_db) stored" where
  "add_manual_observation_tx command now_utc d =
     result_bind (select_one mo_command_digest (oc_command_digest command) (manual_observations d)) (\<lambda>replay.
       case replay of
         Some r \<Rightarrow>
           result_bind (observation_of_row r) (\<lambda>observation.
           result_bind (verify_observation_replay observation command) (\<lambda>_. Inr (observation, d)))
       | None \<Rightarrow>
           result_bind (require_candidate_revision (oc_candidate_id command) (oc_candidate_revision command) d) (\<lambda>_.
           result_bind (check_superseded command d) (\<lambda>_.
           result_bind (of_transition (create_manual_observation command now_utc)) (\<lambda>observation.
           result_bind (insert_observation observation d) (\<lambda>d'. Inr (observation, d'))))))"

definition add_manual_observation ::
  "manual_observation_command \<Rightarrow> datetime \<Rightarrow> review_db \<Rightarrow> manual_observation stored \<times> review_db" where
  "add_manual_observation command now_utc =
     review_transaction ''The manual observation conflicts with persisted immutable history.''
       ''Reload candidate evidence and retry the exact command.'' (add_manual_observation_tx command now_utc)"

definition activate_suppression_tx ::
  "uuid \<Rightarrow> suppression_command \<Rightarrow> datetime \<Rightarrow> review_db \<Rightarrow> (suppression_revision \<times> review_db) stored" where
  "activate_suppression_tx suppression_id command now_utc d =
     result_bind (suppression_replay command d) (\<lambda>replay.
       case replay of
         Some answer \<Rightarrow> Inr (answer, d)
       | None \<Rightarrow>
           if suppression_id \<in> spr_suppression_id ` set (suppression_revisions d)
           then raise_conflict (ReviewConflict ''The suppression identity already has immutable history.''
                  ''Resolve or inspect the existing suppression instead of reactivating it.'')
           else result_bind (of_transition (activate_suppression command now_utc)) (\<lambda>suppression.
                result_bind (insert_suppression suppression d) (\<lambda>d'. Inr (suppression, d'))))"

definition store_activate_suppression ::
  "suppression_command \<Rightarrow> datetime \<Rightarrow> review_db \<Rightarrow> suppression_revision stored \<times> review_db" where
  "store_activate_suppression command now_utc d =
     (case command_suppression_id command of
        Inl e \<Rightarrow> (Inl (StoreValueError e), d)
      | Inr suppression_id \<Rightarrow>
          review_transaction ''The suppression conflicts with persisted immutable history.''
            ''Reload suppression state and retry the exact command.''
            (activate_suppression_tx suppression_id command now_utc) d)"

definition resolve_suppression_tx ::
  "uuid \<Rightarrow> suppression_command \<Rightarrow> datetime \<Rightarrow> review_db \<Rightarrow> (suppression_revision \<times> review_db) stored" where
  "resolve_suppression_tx suppression_id command now_utc d =
     result_bind (suppression_replay command d) (\<lambda>replay.
       case replay of
         Some answer \<Rightarrow> Inr (answer, d)
       | None \<Rightarrow>
           result_bind (load_suppression suppression_id d) (\<lambda>current.
           result_bind (caught_transition ''Reload the suppression and retry against its current revision.''
               (resolve_suppression current command now_utc)) (\<lambda>resolved.
           result_bind (insert_suppression resolved d) (\<lambda>d'. Inr (resolved, d')))))"

definition store_resolve_suppression ::
  "suppression_command \<Rightarrow> datetime \<Rightarrow> review_db \<Rightarrow> suppression_revision stored \<times> review_db" where
  "store_resolve_suppression command now_utc d =
     (case command_suppression_id command of
        Inl e \<Rightarrow> (Inl (StoreValueError e), d)
      | Inr suppression_id \<Rightarrow>
          review_transaction ''The suppression resolution conflicts with immutable history.''
            ''Reload suppression state and retry the exact command.''
            (resolve_suppression_tx suppression_id command now_utc) d)"

end
