(* ===== verification/Review_Models.thy ===== *)
theory Review_Models
  imports Review_Store
begin

text \<open>
  What a model that was constructed satisfies: its checks hold, its timestamps are in UTC, and
  constructing it again from its own fields returns it. The reads of the repository rest on these facts.
\<close>

lemma rv_require_aware_utc_Inr [simp]: "rv_require_aware_utc v = Inr w \<longleftrightarrow> utcoffset v \<noteq> None \<and> w = utc (instant v)"
  by (auto simp: rv_require_aware_utc_def)

lemma review_utc_Inr [simp]: "review_utc v = Inr w \<longleftrightarrow> utcoffset v \<noteq> None \<and> w = utc (instant v)"
  by (auto simp: review_utc_def)

lemma aware_utcD: "is_aware_utc t \<Longrightarrow> utc (instant t) = t" "is_aware_utc t \<Longrightarrow> utcoffset t = Some 0"
  using aware_utc_iff [of t] by (simp_all add: is_aware_utc_def)

lemma make_review_caseD:
  assumes "make_review_case c = Inr c'"
  shows "c' = c\<lparr>rvc_opened_at_utc := utc (instant (rvc_opened_at_utc c)), rvc_recorded_at_utc := utc (instant (rvc_recorded_at_utc c))\<rparr>"
    and "require_case_shape c' = Inr ()" and "make_review_case c' = Inr c'"
  using assms by (auto simp: make_review_case_def Let_def result_bind_eq_Inr)

lemma make_review_case_fields:
  assumes "make_review_case c = Inr c'"
  shows "rvc_case_id c' = rvc_case_id c" "rvc_candidate_id c' = rvc_candidate_id c"
    "rvc_candidate_revision c' = rvc_candidate_revision c" "rvc_revision c' = rvc_revision c" "rvc_state c' = rvc_state c"
    "rvc_reason_codes c' = rvc_reason_codes c" "rvc_current_decision_id c' = rvc_current_decision_id c"
    "rvc_correlation_id c' = rvc_correlation_id c"
  using make_review_caseD(1) [OF assms] by simp_all

lemma make_review_decisionD:
  assumes "make_review_decision x = Inr x'"
  shows "x' = x\<lparr>rd_decided_at_utc := utc (instant (rd_decided_at_utc x))\<rparr>" and "1 \<le> rd_case_revision x"
    and "make_review_decision x' = Inr x'"
  using assms by (auto simp: make_review_decision_def result_bind_eq_Inr checks_append rv_at_least_def)

lemma case_shapeD:
  assumes "require_case_shape c = Inr ()"
  shows "rvc_state c = Case_OPEN \<longleftrightarrow> rvc_current_decision_id c = None"
  using assms by (auto simp: require_case_shape_def)

text \<open>A decision that is accepted, with the case it leaves.\<close>

lemma decide_review_caseD:
  assumes "decide_review_case c command now = Inr (c', x)" and "require_case_shape c = Inr ()"
  shows "dc_case_id command = rvc_case_id c" and "dc_expected_case_revision command = rvc_revision c"
    and "dc_supersedes_decision_id command = rvc_current_decision_id c"
    and "x = \<lparr>rd_decision_id = deterministic_decision_id (rvc_case_id c) (rvc_revision c + 1) (dc_command_digest command),
      rd_case_id = rvc_case_id c, rd_case_revision = rvc_revision c + 1, rd_outcome = dc_outcome command,
      rd_actor_id = dc_actor_id command, rd_rationale = dc_rationale command,
      rd_evidence_references = dc_evidence_references command, rd_supersedes_decision_id = rvc_current_decision_id c,
      rd_command_digest = dc_command_digest command, rd_decided_at_utc = utc (instant now),
      rd_correlation_id = dc_correlation_id command\<rparr>"
    and "c' = c\<lparr>rvc_revision := rvc_revision c + 1, rvc_state := Case_DECIDED, rvc_current_decision_id := Some (rd_decision_id x),
      rvc_opened_at_utc := utc (instant (rvc_opened_at_utc c)), rvc_recorded_at_utc := utc (instant now),
      rvc_correlation_id := dc_correlation_id command\<rparr>"
    and "make_review_case c' = Inr c'" and "make_review_decision x = Inr x" and "0 < rd_case_revision x"
proof -
  have check: "check_decision c command = Inr ()"
    using assms(1) by (auto simp: decide_review_case_def result_bind_eq_Inr)
  then show "dc_case_id command = rvc_case_id c" "dc_expected_case_revision command = rvc_revision c"
    by (auto simp: check_decision_def split: if_splits)
  show super: "dc_supersedes_decision_id command = rvc_current_decision_id c"
    using check case_shapeD [OF assms(2)] by (auto simp: check_decision_def split: if_splits)
  from assms(1) obtain w w' where
    w: "make_review_decision w = Inr x" "make_review_case w' = Inr c'"
    and weq: "w = \<lparr>rd_decision_id = deterministic_decision_id (rvc_case_id c) (rvc_revision c + 1) (dc_command_digest command),
      rd_case_id = rvc_case_id c, rd_case_revision = rvc_revision c + 1, rd_outcome = dc_outcome command,
      rd_actor_id = dc_actor_id command, rd_rationale = dc_rationale command,
      rd_evidence_references = dc_evidence_references command, rd_supersedes_decision_id = dc_supersedes_decision_id command,
      rd_command_digest = dc_command_digest command, rd_decided_at_utc = utc (instant now),
      rd_correlation_id = dc_correlation_id command\<rparr>"
    and weq': "w' = \<lparr>rvc_case_id = rvc_case_id c, rvc_candidate_id = rvc_candidate_id c,
      rvc_candidate_revision = rvc_candidate_revision c, rvc_revision = rvc_revision c + 1, rvc_state = Case_DECIDED,
      rvc_reason_codes = rvc_reason_codes c,
      rvc_current_decision_id = Some (deterministic_decision_id (rvc_case_id c) (rvc_revision c + 1) (dc_command_digest command)),
      rvc_opened_at_utc = rvc_opened_at_utc c, rvc_recorded_at_utc = utc (instant now),
      rvc_correlation_id = dc_correlation_id command\<rparr>"
    unfolding decide_review_case_def Let_def by (auto simp: result_bind_eq_Inr)
  show x: "x = \<lparr>rd_decision_id = deterministic_decision_id (rvc_case_id c) (rvc_revision c + 1) (dc_command_digest command),
      rd_case_id = rvc_case_id c, rd_case_revision = rvc_revision c + 1, rd_outcome = dc_outcome command,
      rd_actor_id = dc_actor_id command, rd_rationale = dc_rationale command,
      rd_evidence_references = dc_evidence_references command, rd_supersedes_decision_id = rvc_current_decision_id c,
      rd_command_digest = dc_command_digest command, rd_decided_at_utc = utc (instant now),
      rd_correlation_id = dc_correlation_id command\<rparr>"
    using make_review_decisionD(1) [OF w(1)] super by (simp add: weq)
  show "c' = c\<lparr>rvc_revision := rvc_revision c + 1, rvc_state := Case_DECIDED, rvc_current_decision_id := Some (rd_decision_id x),
      rvc_opened_at_utc := utc (instant (rvc_opened_at_utc c)), rvc_recorded_at_utc := utc (instant now),
      rvc_correlation_id := dc_correlation_id command\<rparr>"
    using make_review_caseD(1) [OF w(2)] by (simp add: weq' x)
  show "make_review_case c' = Inr c'" by (rule make_review_caseD(3) [OF w(2)])
  show "make_review_decision x = Inr x" by (rule make_review_decisionD(3) [OF w(1)])
  show "0 < rd_case_revision x" using make_review_decisionD(2) [OF w(1)] by (simp add: weq x)
qed

end
