(* ===== verification/Review_Service.thy ===== *)
theory Review_Service
  imports Review_Store
begin

text \<open>
  \<^verbatim>\<open>review_application/service.py\<close>, \<open>ReviewService\<close>: permissions, the digest and validation of each
  command, and the call of the repository. The clock reading is an argument.
\<close>

datatype permission = Review_READ | Review_DECIDE | Review_OBSERVE | Review_SUPPRESS

fun permission_value :: "permission \<Rightarrow> string" where
  "permission_value Review_READ = ''review:read''"
| "permission_value Review_DECIDE = ''review:decide''"
| "permission_value Review_OBSERVE = ''review:observe''"
| "permission_value Review_SUPPRESS = ''review:suppress''"

record reviewer_principal =
  rp_actor_id :: string
  rp_permissions :: "permission set"

definition require_permission :: "reviewer_principal \<Rightarrow> permission \<Rightarrow> unit stored" where
  "require_permission reviewer permission =
     (if permission \<in> rp_permissions reviewer then Inr ()
      else raise_conflict (ReviewForbidden (''Reviewer '' @ rp_actor_id reviewer @ '' lacks '' @ permission_value permission @ ''.'')
             ''Use a principal with the required review permission.''))"

definition service_now :: "datetime \<Rightarrow> datetime stored" where
  "service_now reading =
     (if utcoffset reading = None then Inl (UncaughtError ''review application clock must be timezone-aware'')
      else Inr (utc (instant reading)))"

text \<open>A step that raises before the repository is called leaves the database as it is.\<close>

definition before_store :: "'a stored \<Rightarrow> ('a \<Rightarrow> review_db \<Rightarrow> 'b stored \<times> review_db) \<Rightarrow> review_db \<Rightarrow> 'b stored \<times> review_db" where
  "before_store r f d = (case r of Inl e \<Rightarrow> (Inl e, d) | Inr x \<Rightarrow> f x d)"

definition service_list_cases ::
  "reviewer_principal \<Rightarrow> string \<Rightarrow> int \<Rightarrow> review_queue_cursor option \<Rightarrow> review_db \<Rightarrow> review_queue_page stored" where
  "service_list_cases reviewer state limit cursor d =
     result_bind (require_permission reviewer Review_READ) (\<lambda>_.
     result_bind (if state = ''open'' then Inr Case_OPEN else if state = ''decided'' then Inr Case_DECIDED
        else raise_conflict (ReviewInputInvalid ''Review state must be open or decided.'' ''Use a supported review queue state.'')) (\<lambda>queue.
     if \<not> (1 \<le> limit \<and> limit \<le> 100)
     then raise_conflict (ReviewInputInvalid ''Review page size must be between 1 and 100.'' ''Use a supported page size.'')
     else Inr (list_cases queue (nat limit) cursor d)))"

definition service_get_case :: "reviewer_principal \<Rightarrow> uuid \<Rightarrow> int \<Rightarrow> review_db \<Rightarrow> review_case_detail stored" where
  "service_get_case reviewer case_id current_timestamp d =
     result_bind (require_permission reviewer Review_READ) (\<lambda>_. get_case case_id current_timestamp d)"

definition decision_command :: "reviewer_principal \<Rightarrow> uuid \<Rightarrow> int \<Rightarrow> review_outcome \<Rightarrow> string \<Rightarrow> string list \<Rightarrow> uuid option
    \<Rightarrow> string \<Rightarrow> review_decision_command" where
  "decision_command reviewer case_id expected_revision outcome rationale evidence_references supersedes_decision_id
       correlation_id =
     \<lparr>dc_case_id = case_id, dc_expected_case_revision = expected_revision, dc_outcome = outcome,
      dc_actor_id = rp_actor_id reviewer, dc_rationale = rationale, dc_evidence_references = evidence_references,
      dc_supersedes_decision_id = supersedes_decision_id,
      dc_command_digest = review_decision_command_digest case_id expected_revision outcome (rp_actor_id reviewer) rationale
        evidence_references supersedes_decision_id,
      dc_correlation_id = correlation_id\<rparr>"

definition service_submit_decision :: "reviewer_principal \<Rightarrow> uuid \<Rightarrow> int \<Rightarrow> review_outcome \<Rightarrow> string \<Rightarrow> string list
    \<Rightarrow> uuid option \<Rightarrow> string \<Rightarrow> datetime \<Rightarrow> review_db \<Rightarrow> (review_case \<times> review_decision) stored \<times> review_db" where
  "service_submit_decision reviewer case_id expected_revision outcome rationale evidence_references supersedes_decision_id
       correlation_id clock =
     before_store (require_permission reviewer Review_DECIDE) (\<lambda>_.
     before_store (of_checked (make_review_decision_command (decision_command reviewer case_id expected_revision outcome
        rationale evidence_references supersedes_decision_id correlation_id))) (\<lambda>command.
     before_store (service_now clock) (\<lambda>now. submit_decision command now)))"

definition service_add_manual_observation :: "reviewer_principal \<Rightarrow> uuid \<Rightarrow> int \<Rightarrow> string \<Rightarrow> string \<Rightarrow> string \<Rightarrow> uuid option
    \<Rightarrow> string \<Rightarrow> datetime \<Rightarrow> review_db \<Rightarrow> manual_observation stored \<times> review_db" where
  "service_add_manual_observation reviewer candidate_id candidate_revision field_key value_text reason_code
       supersedes_observation_id correlation_id clock =
     before_store (require_permission reviewer Review_OBSERVE) (\<lambda>_.
     before_store (of_checked (make_manual_observation_command \<lparr>oc_candidate_id = candidate_id,
        oc_candidate_revision = candidate_revision, oc_field_key = field_key, oc_value_text = value_text,
        oc_actor_id = rp_actor_id reviewer, oc_reason_code = reason_code,
        oc_supersedes_observation_id = supersedes_observation_id,
        oc_command_digest = manual_observation_command_digest candidate_id candidate_revision field_key value_text
          (rp_actor_id reviewer) reason_code supersedes_observation_id,
        oc_correlation_id = correlation_id\<rparr>)) (\<lambda>command.
     before_store (service_now clock) (\<lambda>now. add_manual_observation command now)))"

definition suppression_request :: "reviewer_principal \<Rightarrow> suppression_target_kind \<Rightarrow> string \<Rightarrow> suppression_scope list \<Rightarrow> string
    \<Rightarrow> string \<Rightarrow> int option \<Rightarrow> datetime option \<Rightarrow> string \<Rightarrow> suppression_command" where
  "suppression_request reviewer target_kind target_id scopes reason_code evidence_reference expected_revision
       expires_at_utc correlation_id =
     \<lparr>spc_target_kind = target_kind, spc_target_id = target_id, spc_scopes = scopes, spc_reason_code = reason_code,
      spc_actor_id = rp_actor_id reviewer, spc_evidence_reference = evidence_reference,
      spc_expected_revision = expected_revision, spc_expires_at_utc = expires_at_utc,
      spc_command_digest = suppression_command_digest target_kind target_id scopes reason_code (rp_actor_id reviewer)
        evidence_reference expected_revision expires_at_utc,
      spc_correlation_id = correlation_id\<rparr>"

definition service_activate_suppression :: "reviewer_principal \<Rightarrow> suppression_target_kind \<Rightarrow> string \<Rightarrow> suppression_scope list
    \<Rightarrow> string \<Rightarrow> string \<Rightarrow> datetime option \<Rightarrow> string \<Rightarrow> datetime \<Rightarrow> review_db \<Rightarrow> suppression_revision stored \<times> review_db" where
  "service_activate_suppression reviewer target_kind target_id scopes reason_code evidence_reference expires_at_utc
       correlation_id clock =
     before_store (require_permission reviewer Review_SUPPRESS) (\<lambda>_.
     before_store (of_checked (make_suppression_command (suppression_request reviewer target_kind target_id scopes
        reason_code evidence_reference None expires_at_utc correlation_id))) (\<lambda>command.
     before_store (service_now clock) (\<lambda>now. store_activate_suppression command now)))"

definition service_resolve_suppression :: "reviewer_principal \<Rightarrow> uuid \<Rightarrow> int \<Rightarrow> string \<Rightarrow> string \<Rightarrow> datetime \<Rightarrow> review_db
    \<Rightarrow> suppression_revision stored \<times> review_db" where
  "service_resolve_suppression reviewer suppression_id expected_revision evidence_reference correlation_id clock d =
     before_store (require_permission reviewer Review_SUPPRESS) (\<lambda>_.
     before_store (get_suppression suppression_id d) (\<lambda>current.
     before_store (of_checked (make_suppression_command (suppression_request reviewer (sv_target_kind current)
        (sv_target_id current) (sv_scopes current) (sv_reason_code current) evidence_reference (Some expected_revision)
        (sv_expires_at_utc current) correlation_id))) (\<lambda>command.
     before_store (service_now clock) (\<lambda>now. store_resolve_suppression command now)))) d"

end
