(* ===== verification/Review_History.thy ===== *)
theory Review_History
  imports Review_Models Review_Service
begin

text \<open>
  The history of the review tables. Every operation of the repository keeps the constraints, only
  appends rows and keeps the decisions of a case one chain; the interface \<open>review_operation\<close> states
  that contract, and the four operations and the service calls around them are interpretations of it.
\<close>

section \<open>Statements and queries\<close>

lemma review_execute_Inr [simp]:
  "review_execute f d = Inr d' \<longleftrightarrow> d' = f d \<and> review_columns (f d) \<and> immediate_constraints (f d)"
  by (auto simp: review_execute_def Let_def)

lemma insert_updates:
  "review_case_revisions_update (insert_rows rs) d = d\<lparr>review_case_revisions := review_case_revisions d @ rs\<rparr>"
  "review_decisions_update (insert_rows xs) d = d\<lparr>review_decisions := review_decisions d @ xs\<rparr>"
  "manual_observations_update (insert_rows obs) d = d\<lparr>manual_observations := manual_observations d @ obs\<rparr>"
  "suppression_revisions_update (insert_rows ss) d = d\<lparr>suppression_revisions := suppression_revisions d @ ss\<rparr>"
  by (cases d; simp add: insert_rows_def)+

lemma check_deferred_Inr [simp]: "check_deferred d = Inr d' \<longleftrightarrow> d' = d \<and> deferred_constraints d"
  by (auto simp: check_deferred_def)

lemma caught_transition_Inr [simp]: "caught_transition action r = Inr x \<longleftrightarrow> r = Inr x"
  by (simp add: caught_transition_def)

lemma of_transition_Inr [simp]: "of_transition r = Inr x \<longleftrightarrow> r = Inr x"
  by (simp add: of_transition_def)

lemma not_found_neq [simp]: "not_found m a \<noteq> Inr x"
  by (simp add: not_found_def)

lemma latest_Nil [simp]: "latest f [] = []"
  by (simp add: latest_def)

lemma latest_greatest:
  assumes "rs \<noteq> []"
  obtains r where "latest f rs = [r]" and "r \<in> set rs" and "\<And>s. s \<in> set rs \<Longrightarrow> f s \<le> f r"
proof -
  obtain r rest where s: "sort_key (\<lambda>r. - f r) rs = r # rest"
    using assms by (cases "sort_key (\<lambda>r. - f r) rs") (auto dest: arg_cong [where f = length])
  then have mem: "set rs = insert r (set rest)" using set_sort [of "\<lambda>r. - f r" rs] by simp
  have "sorted (map (\<lambda>r. - f r) (r # rest))" using sorted_sort_key [of "\<lambda>r. - f r" rs] s by simp
  then have "f s \<le> f r" if "s \<in> set rs" for s using that mem by auto
  then show thesis using that [of r] s mem by (simp add: latest_def)
qed

lemma latest_eq:
  assumes "r \<in> set rs" and "\<And>s. s \<in> set rs \<Longrightarrow> s \<noteq> r \<Longrightarrow> f s < f r"
  shows "latest f rs = [r]"
proof -
  have "rs \<noteq> []" using assms(1) by auto
  then obtain q where q: "latest f rs = [q]" "q \<in> set rs" "\<And>s. s \<in> set rs \<Longrightarrow> f s \<le> f q"
    by (rule latest_greatest [where f = f]) blast
  then show ?thesis using assms by force
qed

lemma set_case_join: "(c, r) \<in> set (case_join d) \<longleftrightarrow>
    c \<in> set (review_cases d) \<and> r \<in> set (review_case_revisions d) \<and> rcr_case_id r = rcs_case_id c"
  by (auto simp: case_join_def)

lemma load_caseE:
  assumes "load_case case_id d = Inr review_case"
  obtains c r where "c \<in> set (review_cases d)" and "r \<in> set (review_case_revisions d)" and "rcs_case_id c = case_id"
    and "rcr_case_id r = case_id" and "case_of_rows c r = Inr review_case"
    and "\<And>c' r'. c' \<in> set (review_cases d) \<Longrightarrow> r' \<in> set (review_case_revisions d) \<Longrightarrow> rcs_case_id c' = case_id
      \<Longrightarrow> rcr_case_id r' = case_id \<Longrightarrow> rcr_revision r' \<le> rcr_revision r"
proof -
  let ?rows = "filter (\<lambda>(c, r). rcs_case_id c = case_id) (case_join d)"
  obtain c r where one: "one_or_none (latest (\<lambda>(c, r). rcr_revision r) ?rows)
        = (Inr (Some (c, r)) :: (review_case_row \<times> review_case_revision_row) option stored)"
    and of: "case_of_rows c r = Inr review_case"
    using assms by (auto simp: load_case_def result_bind_eq_Inr split: option.splits)
  have "?rows \<noteq> []" using one by (auto simp: one_or_none_def)
  then obtain q where q: "latest (\<lambda>(c, r). rcr_revision r) ?rows = [q]" "q \<in> set ?rows"
    "\<And>s. s \<in> set ?rows \<Longrightarrow> (\<lambda>(c, r). rcr_revision r) s \<le> (\<lambda>(c, r). rcr_revision r) q"
    by (rule latest_greatest [where f = "\<lambda>(c, r). rcr_revision r"]) blast
  then have "q = (c, r)" using one by simp
  then show thesis using q(2,3) of that [of c r] by (fastforce simp: set_case_join)
qed

text \<open>The key constraints of the review tables.\<close>

lemma store_keys:
  assumes "review_store_ok d"
  shows "distinct (map rcs_case_id (review_cases d))" "distinct (map case_revision_key (review_case_revisions d))"
    "distinct (map rd_command_digest (review_decisions d))" "distinct (map decision_key (review_decisions d))"
    "distinct (map rd_decision_id (review_decisions d))"
  using assms by (simp_all add: review_store_ok_def immediate_constraints_def review_tables_unique_def)

lemma store_references:
  assumes "review_store_ok d"
  shows "r \<in> set (review_case_revisions d) \<Longrightarrow> \<exists>c \<in> set (review_cases d). rcs_case_id c = rcr_case_id r"
    and "x \<in> set (review_decisions d) \<Longrightarrow> \<exists>r \<in> set (review_case_revisions d). case_revision_key r = decision_key x"
proof -
  assume "r \<in> set (review_case_revisions d)"
  moreover have "list_all (\<lambda>r. rcr_case_id r \<in> rcs_case_id ` set (review_cases d)) (review_case_revisions d)"
    using assms by (simp add: review_store_ok_def immediate_constraints_def review_references_def)
  ultimately have "rcr_case_id r \<in> rcs_case_id ` set (review_cases d)" by (simp add: list_all_iff)
  then show "\<exists>c \<in> set (review_cases d). rcs_case_id c = rcr_case_id r" by force
next
  assume "x \<in> set (review_decisions d)"
  moreover have "list_all (\<lambda>r. decision_key r \<in> case_revision_key ` set (review_case_revisions d)) (review_decisions d)"
    using assms by (simp add: review_store_ok_def deferred_constraints_def)
  ultimately have "decision_key x \<in> case_revision_key ` set (review_case_revisions d)" by (simp add: list_all_iff)
  then show "\<exists>r \<in> set (review_case_revisions d). case_revision_key r = decision_key x" by force
qed

lemma store_columns:
  assumes "review_store_ok d"
  shows "c \<in> set (review_cases d) \<Longrightarrow> is_aware_utc (rcs_opened_at_utc c)"
    and "r \<in> set (review_case_revisions d) \<Longrightarrow> is_aware_utc (rcr_recorded_at_utc r) \<and> 0 \<le> rcr_revision r"
  using assms by (auto simp: review_store_ok_def review_columns_def case_revision_columns_def list_all_iff
      immediate_constraints_def review_checks_def case_revision_checks_def)

text \<open>The current state of a case is its revision with the greatest number.\<close>

lemma load_case_eq:
  assumes "review_store_ok d" and "c \<in> set (review_cases d)" and "r \<in> set (review_case_revisions d)"
    and "rcr_case_id r = rcs_case_id c"
    and "\<And>s. s \<in> set (review_case_revisions d) \<Longrightarrow> rcr_case_id s = rcr_case_id r \<Longrightarrow> rcr_revision s \<le> rcr_revision r"
  shows "load_case (rcs_case_id c) d = case_of_rows c r"
proof -
  let ?rows = "filter (\<lambda>(k, s). rcs_case_id k = rcs_case_id c) (case_join d)"
  have "latest (\<lambda>(k, s). rcr_revision s) ?rows = [(c, r)]"
  proof (rule latest_eq)
    show "(c, r) \<in> set ?rows" using assms(2,3,4) by (simp add: set_case_join)
    fix p assume p: "p \<in> set ?rows" "p \<noteq> (c, r)"
    obtain k s where ks: "p = (k, s)" by force
    have ks': "k \<in> set (review_cases d)" "s \<in> set (review_case_revisions d)" "rcs_case_id k = rcs_case_id c" "rcr_case_id s = rcs_case_id c"
      using p(1) by (auto simp: ks set_case_join)
    then have "k = c" using distinct_key_unique [OF store_keys(1) [OF assms(1)] _ assms(2)] by blast
    then have "s \<noteq> r" using p(2) ks by blast
    then have "rcr_revision s \<noteq> rcr_revision r"
      using distinct_key_unique [OF store_keys(2) [OF assms(1)] ks'(2) assms(3)] ks'(4) assms(4) by (auto simp: case_revision_key_def)
    moreover have "rcr_revision s \<le> rcr_revision r" using assms(5) [OF ks'(2)] ks'(4) assms(4) by simp
    ultimately show "(case p of (k, s) \<Rightarrow> rcr_revision s) < (case (c, r) of (k, s) \<Rightarrow> rcr_revision s)" by (simp add: ks)
  qed
  then show ?thesis by (simp add: load_case_def)
qed

lemma revision_row_eq:
  assumes "review_store_ok d" and "c \<in> set (review_cases d)" and "r \<in> set (review_case_revisions d)"
    and "rcr_case_id r = rcs_case_id c"
  shows "filter (\<lambda>(k, s). rcs_case_id k = rcs_case_id c \<and> rcr_revision s = rcr_revision r) (case_join d) = [(c, r)]"
proof -
  have inner: "filter (\<lambda>s. rcr_case_id s = rcs_case_id c \<and> rcr_revision s = rcr_revision r) (review_case_revisions d) = [r]"
    using filter_key_eq [OF store_keys(2) [OF assms(1)] assms(3)] assms(4) by (simp add: case_revision_key_def)
  have outer: "filter (\<lambda>k. rcs_case_id k = rcs_case_id c) (review_cases d) = [c]"
    using filter_key_eq [OF store_keys(1) [OF assms(1)] assms(2)] by simp
  have join: "filter (\<lambda>(k, s). rcs_case_id k = i \<and> rcr_revision s = n)
       (concat (map (\<lambda>k. concat (map (\<lambda>s. if rcr_case_id s = rcs_case_id k then [(k, s)] else []) rs)) ks))
     = concat (map (\<lambda>k. map (Pair k) (filter (\<lambda>s. rcr_case_id s = i \<and> rcr_revision s = n) rs)) (filter (\<lambda>k. rcs_case_id k = i) ks))"
    for i n rs ks
  proof (induction ks)
    case (Cons k ks)
    have "filter (\<lambda>(k, s). rcs_case_id k = i \<and> rcr_revision s = n)
        (concat (map (\<lambda>s. if rcr_case_id s = rcs_case_id k then [(k, s)] else []) rs))
      = (if rcs_case_id k = i then map (Pair k) (filter (\<lambda>s. rcr_case_id s = i \<and> rcr_revision s = n) rs) else [])"
      by (induction rs) auto
    then show ?case using Cons by simp
  qed simp
  show ?thesis unfolding case_join_def join inner outer by simp
qed

section \<open>The contract of the operations\<close>

text \<open>Rows are only appended, and only to the four tables the repository writes.\<close>

definition review_extends :: "review_db \<Rightarrow> review_db \<Rightarrow> bool" where
  "review_extends d d' \<longleftrightarrow> (\<exists>rs xs os ss. d' = d\<lparr>review_case_revisions := review_case_revisions d @ rs,
     review_decisions := review_decisions d @ xs, manual_observations := manual_observations d @ os,
     suppression_revisions := suppression_revisions d @ ss\<rparr>)"

lemma review_extends_refl [simp]: "review_extends d d"
  unfolding review_extends_def by (intro exI [of _ "[]"]) simp

lemma review_extends_trans: "review_extends d e \<Longrightarrow> review_extends e f \<Longrightarrow> review_extends d f"
  unfolding review_extends_def by force

text \<open>
  The decisions of a case form one chain: revision 0 is open, and every later revision was made by a
  decision on the revision before it, which supersedes the decision that was current there.
\<close>

definition linear_history :: "review_db \<Rightarrow> bool" where
  "linear_history d \<longleftrightarrow>
     (\<forall>r \<in> set (review_case_revisions d). (rcr_revision r = 0 \<longrightarrow> rcr_state r = Case_OPEN) \<and>
        (0 < rcr_revision r \<longrightarrow> (\<exists>p \<in> set (review_case_revisions d). \<exists>x \<in> set (review_decisions d).
           rcr_case_id p = rcr_case_id r \<and> rcr_revision p = rcr_revision r - 1 \<and> decision_key x = case_revision_key r
           \<and> rcr_current_decision_id r = Some (rd_decision_id x) \<and> rd_supersedes_decision_id x = rcr_current_decision_id p)))
     \<and> (\<forall>x \<in> set (review_decisions d). 0 < rd_case_revision x)"

definition review_inv :: "review_db \<Rightarrow> bool" where
  "review_inv d \<longleftrightarrow> review_store_ok d \<and> linear_history d"

locale review_operation =
  fixes run :: "review_db \<Rightarrow> 'a stored \<times> review_db"
  assumes keeps_inv: "review_inv d \<Longrightarrow> review_inv (snd (run d))"
    and extends: "review_extends d (snd (run d))"
    and rolls_back: "fst (run d) = Inl e \<Longrightarrow> snd (run d) = d"
begin

lemma kept_rows:
  "set (review_decisions d) \<subseteq> set (review_decisions (snd (run d)))"
  "set (review_case_revisions d) \<subseteq> set (review_case_revisions (snd (run d)))"
  "review_cases (snd (run d)) = review_cases d"
  using extends [of d] by (auto simp: review_extends_def)

end

text \<open>An operation that depends on a value computed first, as the service calls do.\<close>

lemma review_operation_before:
  assumes "\<And>x. review_operation (f x)"
  shows "review_operation (before_store r f)"
proof (cases r)
  case (Inl e)
  then show ?thesis by unfold_locales (auto simp: before_store_def)
next
  case (Inr x)
  then have "before_store r f = f x" by (auto simp: before_store_def)
  then show ?thesis using assms by simp
qed

text \<open>A transaction that extends the tables and keeps the invariant is an operation.\<close>

lemma review_operation_transaction:
  assumes "\<And>d x d'. body d = Inr (x, d') \<Longrightarrow> review_extends d d' \<and> (review_inv d \<longrightarrow> review_inv d')"
  shows "review_operation (review_transaction m a body)"
  using assms by unfold_locales (auto simp: review_transaction_def split: sum.splits prod.splits if_splits)

section \<open>Decisions\<close>

lemma submit_decision_txE:
  assumes "submit_decision_tx command now d = Inr ((c', x), d')"
  obtains (Replayed) "decision_replay command d = Inr (Some (c', x))" and "d' = d"
    | (Applied) c where "decision_replay command d = Inr None" and "load_case (dc_case_id command) d = Inr c"
      and "decide_review_case c command now = Inr (c', x)"
      and "d' = d\<lparr>review_case_revisions := review_case_revisions d @ [case_revision_row c'], review_decisions := review_decisions d @ [x]\<rparr>"
      and "review_store_ok d'"
proof -
  from assms obtain replay where "decision_replay command d = Inr replay" by (auto simp: submit_decision_tx_def result_bind_eq_Inr)
  then show thesis
  proof (cases replay)
    case None
    then have none: "decision_replay command d = Inr None" using \<open>decision_replay command d = Inr replay\<close> by simp
    then have "\<exists>c. load_case (dc_case_id command) d = Inr c \<and> decide_review_case c command now = Inr (c', x)
        \<and> d' = d\<lparr>review_case_revisions := review_case_revisions d @ [case_revision_row c'], review_decisions := review_decisions d @ [x]\<rparr>
        \<and> review_store_ok d'"
      using assms by (simp add: submit_decision_tx_def result_bind_eq_Inr insert_case_revision_def insert_decision_def
          insert_updates review_store_ok_def) (elim exE conjE, simp add: result_bind_eq_Inr insert_updates split: prod.splits)
    then show thesis using Applied none by blast
  next
    case (Some answer)
    then have answered: "decision_replay command d = Inr (Some answer)" using \<open>decision_replay command d = Inr replay\<close> by simp
    then have "submit_decision_tx command now d = Inr (answer, d)" by (simp add: submit_decision_tx_def)
    then have "answer = (c', x)" "d' = d" using assms by simp_all
    then show thesis using answered by (intro Replayed) simp_all
  qed
qed

text \<open>A case that is loaded carries the fields of its latest revision.\<close>

lemma case_of_rows_Inr:
  assumes "case_of_rows c r = Inr v"
  shows "rvc_case_id v = rcs_case_id c" "rvc_candidate_id v = rcs_candidate_id c"
    "rvc_candidate_revision v = rcs_candidate_revision c" "rvc_revision v = rcr_revision r"
    "rvc_current_decision_id v = rcr_current_decision_id r" "rvc_reason_codes v = rcr_reason_codes r"
    "rvc_opened_at_utc v = utc (instant (rcs_opened_at_utc c))" "require_case_shape v = Inr ()" "rvc_state v = rcr_state r"
proof -
  note made = assms [unfolded case_of_rows_def of_checked_simps]
  show "rvc_case_id v = rcs_case_id c" "rvc_candidate_id v = rcs_candidate_id c"
    "rvc_candidate_revision v = rcs_candidate_revision c" "rvc_revision v = rcr_revision r"
    "rvc_current_decision_id v = rcr_current_decision_id r" "rvc_reason_codes v = rcr_reason_codes r"
    "rvc_opened_at_utc v = utc (instant (rcs_opened_at_utc c))" "rvc_state v = rcr_state r"
    unfolding make_review_caseD(1) [OF made] by simp_all
  show "require_case_shape v = Inr ()" by (rule make_review_caseD(2) [OF made])
qed

lemma decided_history:
  assumes "linear_history d" and "load_case (dc_case_id command) d = Inr c" and "decide_review_case c command now = Inr (c', x)"
    and "review_store_ok d"
  shows "linear_history (d\<lparr>review_case_revisions := review_case_revisions d @ [case_revision_row c'], review_decisions := review_decisions d @ [x]\<rparr>)"
proof -
  obtain k p where p: "p \<in> set (review_case_revisions d)" "rcs_case_id k = dc_case_id command" "rcr_case_id p = dc_case_id command"
      "case_of_rows k p = Inr c"
    using load_caseE [OF assms(2)] by metis
  note decided = decide_review_caseD [OF assms(3) case_of_rows_Inr(8) [OF p(4)]]
  let ?r = "case_revision_row c'"
  have new: "rcr_case_id ?r = rcr_case_id p" "rcr_revision ?r = rcr_revision p + 1" "rcr_current_decision_id ?r = Some (rd_decision_id x)"
      "decision_key x = case_revision_key ?r" "rd_supersedes_decision_id x = rcr_current_decision_id p"
    using decided(1,2) p case_of_rows_Inr [OF p(4)]
    by (simp_all add: case_revision_row_def decision_key_def case_revision_key_def decided(4,5))
  have "0 \<le> rcr_revision p" using store_columns(2) [OF assms(4) p(1)] by simp
  let ?d = "d\<lparr>review_case_revisions := review_case_revisions d @ [?r], review_decisions := review_decisions d @ [x]\<rparr>"
  have chain: "(rcr_revision r = 0 \<longrightarrow> rcr_state r = Case_OPEN) \<and>
      (0 < rcr_revision r \<longrightarrow> (\<exists>q \<in> set (review_case_revisions ?d). \<exists>y \<in> set (review_decisions ?d).
         rcr_case_id q = rcr_case_id r \<and> rcr_revision q = rcr_revision r - 1 \<and> decision_key y = case_revision_key r
         \<and> rcr_current_decision_id r = Some (rd_decision_id y) \<and> rd_supersedes_decision_id y = rcr_current_decision_id q))"
    if "r \<in> set (review_case_revisions d) \<or> r = ?r" for r
    using that
  proof
    assume "r \<in> set (review_case_revisions d)"
    then show ?thesis using assms(1) unfolding linear_history_def by auto
  next
    assume "r = ?r"
    moreover have "p \<in> set (review_case_revisions ?d)" "x \<in> set (review_decisions ?d)" using p(1) by simp_all
    ultimately show ?thesis using new \<open>0 \<le> rcr_revision p\<close> by force
  qed
  have "0 < rd_case_revision y" if "y \<in> set (review_decisions d) \<or> y = x" for y
    using that assms(1) decided(8) unfolding linear_history_def by blast
  then have positive: "\<forall>y \<in> set (review_decisions ?d). 0 < rd_case_revision y" by auto
  show ?thesis unfolding linear_history_def
  proof (rule conjI [OF _ positive], rule ballI)
    fix r assume "r \<in> set (review_case_revisions ?d)"
    then have "r \<in> set (review_case_revisions d) \<or> r = ?r" by auto
    then show "(rcr_revision r = 0 \<longrightarrow> rcr_state r = Case_OPEN) \<and>
      (0 < rcr_revision r \<longrightarrow> (\<exists>q \<in> set (review_case_revisions ?d). \<exists>y \<in> set (review_decisions ?d).
         rcr_case_id q = rcr_case_id r \<and> rcr_revision q = rcr_revision r - 1 \<and> decision_key y = case_revision_key r
         \<and> rcr_current_decision_id r = Some (rd_decision_id y) \<and> rd_supersedes_decision_id y = rcr_current_decision_id q))"
      by (rule chain)
  qed
qed

lemma submit_decision_op: "review_operation (submit_decision command now)"
  unfolding submit_decision_def
proof (rule review_operation_transaction)
  fix d y d' assume "submit_decision_tx command now d = Inr (y, d')"
  then obtain c' x where "submit_decision_tx command now d = Inr ((c', x), d')" by (cases y) auto
  then show "review_extends d d' \<and> (review_inv d \<longrightarrow> review_inv d')"
  proof (cases rule: submit_decision_txE)
    case (Applied c)
    have "review_extends d d'"
      unfolding review_extends_def Applied(4)
      by (intro exI [of _ "[case_revision_row c']"] exI [of _ "[x]"] exI [of _ "[]"]) simp
    then show ?thesis using decided_history [OF _ Applied(2,3)] Applied(4,5) by (auto simp: review_inv_def)
  qed simp
qed

section \<open>Observations and suppressions\<close>

lemma other_tables:
  assumes "d' = d\<lparr>manual_observations := manual_observations d @ os, suppression_revisions := suppression_revisions d @ ss\<rparr>"
    and "review_columns d'" and "immediate_constraints d'"
  shows "review_extends d d' \<and> (review_inv d \<longrightarrow> review_inv d')"
proof -
  have "review_extends d d'" unfolding review_extends_def assms(1)
    by (intro exI [of _ "[]"] exI [of _ os] exI [of _ ss]) simp
  moreover have "review_inv d'" if "review_inv d"
    using that assms(2,3) by (simp add: review_inv_def review_store_ok_def linear_history_def deferred_constraints_def assms(1))
  ultimately show ?thesis by blast
qed

lemma insert_observation_ok:
  assumes "insert_observation ob d = Inr d'"
  shows "review_extends d d' \<and> (review_inv d \<longrightarrow> review_inv d')"
  using assms by (intro other_tables [where os = "[ob]" and ss = "[]"]) (auto simp: insert_observation_def insert_updates)

lemma insert_suppression_ok:
  assumes "insert_suppression prior d = Inr d'"
  shows "review_extends d d' \<and> (review_inv d \<longrightarrow> review_inv d')"
  using assms by (intro other_tables [where os = "[]" and ss = "[suppression_row_of prior]"]) (auto simp: insert_suppression_def insert_updates)

lemma add_manual_observation_op: "review_operation (add_manual_observation command now)"
  unfolding add_manual_observation_def
proof (rule review_operation_transaction)
  fix d y d' assume "add_manual_observation_tx command now d = Inr (y, d')"
  then have "d' = d \<or> (\<exists>ob. insert_observation ob d = Inr d')"
    by (auto simp: add_manual_observation_tx_def result_bind_eq_Inr split: option.splits)
  then show "review_extends d d' \<and> (review_inv d \<longrightarrow> review_inv d')" using insert_observation_ok by auto
qed

lemma review_operation_failed: "review_operation (\<lambda>d. (Inl e, d))"
  by unfold_locales simp_all

lemma store_activate_suppression_op: "review_operation (store_activate_suppression command now)"
proof (cases "command_suppression_id command")
  case (Inl e)
  then have "store_activate_suppression command now = (\<lambda>d. (Inl (StoreValueError e), d))"
    by (auto simp: store_activate_suppression_def)
  then show ?thesis using review_operation_failed by simp
next
  case (Inr i)
  have "review_extends d d' \<and> (review_inv d \<longrightarrow> review_inv d')" if "activate_suppression_tx i command now d = Inr (y, d')" for d y d'
  proof -
    from that have "d' = d \<or> (\<exists>s. insert_suppression s d = Inr d')"
      by (auto simp: activate_suppression_tx_def result_bind_eq_Inr split: option.splits if_splits)
    then show ?thesis using insert_suppression_ok by auto
  qed
  then have "review_operation (review_transaction m a (activate_suppression_tx i command now))" for m a
    by (rule review_operation_transaction)
  then show ?thesis by (simp add: store_activate_suppression_def [abs_def] Inr)
qed

lemma store_resolve_suppression_op: "review_operation (store_resolve_suppression command now)"
proof (cases "command_suppression_id command")
  case (Inl e)
  then have "store_resolve_suppression command now = (\<lambda>d. (Inl (StoreValueError e), d))"
    by (auto simp: store_resolve_suppression_def)
  then show ?thesis using review_operation_failed by simp
next
  case (Inr i)
  have "review_extends d d' \<and> (review_inv d \<longrightarrow> review_inv d')" if "resolve_suppression_tx i command now d = Inr (y, d')" for d y d'
  proof -
    from that have "d' = d \<or> (\<exists>s. insert_suppression s d = Inr d')"
      by (auto simp: resolve_suppression_tx_def result_bind_eq_Inr split: option.splits)
    then show ?thesis using insert_suppression_ok by auto
  qed
  then have "review_operation (review_transaction m a (resolve_suppression_tx i command now))" for m a
    by (rule review_operation_transaction)
  then show ?thesis by (simp add: store_resolve_suppression_def [abs_def] Inr)
qed

section \<open>The calls of the service\<close>

lemma review_operation_pointwise:
  assumes "\<And>d. \<exists>op. review_operation op \<and> run d = op d"
  shows "review_operation run"
proof unfold_locales
  fix d
  obtain op where op: "review_operation op" "run d = op d" using assms by blast
  show "review_inv d \<Longrightarrow> review_inv (snd (run d))" "review_extends d (snd (run d))" "\<And>e. fst (run d) = Inl e \<Longrightarrow> snd (run d) = d"
    using review_operation.keeps_inv [OF op(1)] review_operation.extends [OF op(1)] review_operation.rolls_back [OF op(1)]
    by (simp_all add: op(2))
qed

interpretation decide: review_operation "service_submit_decision p c n out words ev prior corr clock"
  for p c n out words ev prior corr clock
  unfolding service_submit_decision_def by (intro review_operation_before submit_decision_op)

interpretation observe: review_operation "service_add_manual_observation p c n key words reason prior corr clock"
  for p c n key words reason prior corr clock
  unfolding service_add_manual_observation_def by (intro review_operation_before add_manual_observation_op)

interpretation activate: review_operation "service_activate_suppression p kind target scopes reason ev expiry corr clock"
  for p kind target scopes reason ev expiry corr clock
  unfolding service_activate_suppression_def by (intro review_operation_before store_activate_suppression_op)

interpretation resolve: review_operation "service_resolve_suppression p i n ev corr clock" for p i n ev corr clock
proof (rule review_operation_pointwise)
  fix d
  show "\<exists>op. review_operation op \<and> service_resolve_suppression p i n ev corr clock d = op d"
    unfolding service_resolve_suppression_def
    by (rule exI, rule conjI [rotated], rule refl) (intro review_operation_before store_resolve_suppression_op)
qed

text \<open>Any order of calls by any reviewers.\<close>

inductive review_step :: "review_db \<Rightarrow> review_db \<Rightarrow> bool" where
  Decide: "review_step d (snd (service_submit_decision p c n out words ev prior corr clock d))"
| Observe: "review_step d (snd (service_add_manual_observation p c n key words reason prior corr clock d))"
| Activate: "review_step d (snd (service_activate_suppression p kind target scopes reason ev expiry corr clock d))"
| Resolve: "review_step d (snd (service_resolve_suppression p i n ev corr clock d))"

lemma review_step_ok:
  assumes "review_step d d'"
  shows "review_extends d d' \<and> (review_inv d \<longrightarrow> review_inv d')"
  using assms
proof cases
  case (Decide p c n out words ev prior corr clock)
  then show ?thesis using decide.extends decide.keeps_inv by blast
next
  case (Observe p c n key words reason prior corr clock)
  then show ?thesis using observe.extends observe.keeps_inv by blast
next
  case (Activate p kind target scopes reason ev expiry corr clock)
  then show ?thesis using activate.extends activate.keeps_inv by blast
next
  case (Resolve p i n ev corr clock)
  then show ?thesis using resolve.extends resolve.keeps_inv by blast
qed

lemma review_steps_ok:
  assumes "review_step\<^sup>*\<^sup>* d d'"
  shows "review_extends d d' \<and> (review_inv d \<longrightarrow> review_inv d')"
  using assms by (induction rule: rtranclp_induct) (use review_step_ok review_extends_trans in \<open>simp, blast\<close>)

end
