(* ===== verification/Review_Chains.thy ===== *)
theory Review_Chains
  imports Review_History
begin

text \<open>
  What the invariant means for one case: its revisions are numbered without gaps and its decisions, in
  the order the repository reads them, are one chain. Then a decision applied: which rows it adds, that
  it is accepted under the conditions the code checks, and what a repetition of it reads back.
\<close>

section \<open>The decisions of a case\<close>

lemma traverse_list_all2: "traverse f xs = Inr ys \<Longrightarrow> list_all2 (\<lambda>x y. f x = Inr y) xs ys"
  by (induction xs arbitrary: ys) (auto simp: result_bind_eq_Inr)

definition case_decisions :: "uuid \<Rightarrow> review_db \<Rightarrow> review_decision list" where
  "case_decisions case_id d = sort_key (\<lambda>r. (rd_case_revision r, rd_decision_id r))
     (filter (\<lambda>r. rd_case_id r = case_id) (review_decisions d))"

lemma set_case_decisions: "set (case_decisions i d) = {x \<in> set (review_decisions d). rd_case_id x = i}"
  by (auto simp: case_decisions_def)

lemma sorted_fst: "sorted (map (\<lambda>x. (f x, g x)) xs) \<Longrightarrow> sorted (map f xs)"
  by (induction xs) (auto simp: less_eq_prod_def less_imp_le)

lemma case_decisions_sorted:
  assumes "review_store_ok d"
  shows "sorted (map rd_case_revision (case_decisions i d))" "distinct (map rd_case_revision (case_decisions i d))"
proof -
  show "sorted (map rd_case_revision (case_decisions i d))"
    unfolding case_decisions_def by (rule sorted_fst [where g = rd_decision_id]) (rule sorted_sort_key)
  have "distinct (map decision_key (filter (\<lambda>r. rd_case_id r = i) (review_decisions d)))"
    using store_keys(4) [OF assms] by (rule distinct_map_filter)
  then have "distinct (map decision_key (case_decisions i d))" by (simp add: case_decisions_def distinct_map)
  moreover have "map decision_key (case_decisions i d) = map (Pair i) (map rd_case_revision (case_decisions i d))"
    using set_case_decisions [of i d] by (auto simp: decision_key_def)
  ultimately have "distinct (map (Pair i) (map rd_case_revision (case_decisions i d)))" by metis
  then show "distinct (map rd_case_revision (case_decisions i d))" unfolding distinct_map [of "Pair i"] by blast
qed

text \<open>Below every revision are all the earlier ones.\<close>

lemma revisions_below:
  assumes "linear_history d" and "r \<in> set (review_case_revisions d)" and "0 \<le> k" and "k \<le> rcr_revision r"
  obtains q where "q \<in> set (review_case_revisions d)" and "rcr_case_id q = rcr_case_id r" and "rcr_revision q = k"
proof -
  have "\<exists>q \<in> set (review_case_revisions d). rcr_case_id q = rcr_case_id r \<and> rcr_revision q = k"
    using assms(2,4)
  proof (induction "nat (rcr_revision r - k)" arbitrary: r)
    case 0
    then show ?case by auto
  next
    case (Suc n)
    then have "0 < rcr_revision r" using assms(3) by simp
    then obtain p where p: "p \<in> set (review_case_revisions d)" "rcr_case_id p = rcr_case_id r" "rcr_revision p = rcr_revision r - 1"
      using assms(1) Suc.prems(1) unfolding linear_history_def by metis
    then show ?case using Suc.hyps(1) [of p] Suc.hyps(2) Suc.prems(2) by auto
  qed
  then show thesis using that by blast
qed

text \<open>The decision behind a revision, and the one it supersedes.\<close>

lemma revision_decision:
  assumes "linear_history d" and "r \<in> set (review_case_revisions d)" and "0 < rcr_revision r"
  obtains p x where "p \<in> set (review_case_revisions d)" and "x \<in> set (review_decisions d)" and "rcr_case_id p = rcr_case_id r"
    and "rcr_revision p = rcr_revision r - 1" and "decision_key x = case_revision_key r"
    and "rcr_current_decision_id r = Some (rd_decision_id x)" and "rd_supersedes_decision_id x = rcr_current_decision_id p"
  using assms unfolding linear_history_def by metis

lemma first_revision_open:
  assumes "review_inv d" and "r \<in> set (review_case_revisions d)" and "rcr_revision r = 0"
  shows "rcr_current_decision_id r = None"
proof -
  have "rcr_state r = Case_OPEN" using assms unfolding review_inv_def linear_history_def by blast
  moreover have "case_revision_checks r"
    using assms(1,2) by (simp add: review_inv_def review_store_ok_def immediate_constraints_def review_checks_def list_all_iff)
  ultimately show ?thesis by (simp add: case_revision_checks_def)
qed

lemma decision_numbers:
  assumes "review_inv d" and "r \<in> set (review_case_revisions d)"
    and "\<And>s. s \<in> set (review_case_revisions d) \<Longrightarrow> rcr_case_id s = rcr_case_id r \<Longrightarrow> rcr_revision s \<le> rcr_revision r"
  shows "map rd_case_revision (case_decisions (rcr_case_id r) d) = [1..rcr_revision r]"
proof -
  have ok: "review_store_ok d" and lin: "linear_history d" using assms(1) by (simp_all add: review_inv_def)
  have "set (map rd_case_revision (case_decisions (rcr_case_id r) d)) = {1..rcr_revision r}"
  proof (intro set_eqI iffI)
    fix k assume "k \<in> set (map rd_case_revision (case_decisions (rcr_case_id r) d))"
    then obtain x where x: "x \<in> set (review_decisions d)" "rd_case_id x = rcr_case_id r" "k = rd_case_revision x"
      by (auto simp: set_case_decisions)
    obtain s where "s \<in> set (review_case_revisions d)" "case_revision_key s = decision_key x"
      using store_references(2) [OF ok x(1)] by blast
    then have "k \<le> rcr_revision r" using assms(3) [of s] x by (simp add: case_revision_key_def decision_key_def)
    moreover have "0 < k" using lin x by (simp add: linear_history_def)
    ultimately show "k \<in> {1..rcr_revision r}" by simp
  next
    fix k assume k: "k \<in> {1..rcr_revision r}"
    then obtain q where q: "q \<in> set (review_case_revisions d)" "rcr_case_id q = rcr_case_id r" "rcr_revision q = k"
      using revisions_below [OF lin assms(2), of k] by auto
    obtain p x where "x \<in> set (review_decisions d)" "decision_key x = case_revision_key q"
      using revision_decision [OF lin q(1)] q(3) k by auto
    then show "k \<in> set (map rd_case_revision (case_decisions (rcr_case_id r) d))"
      using q by (force simp: set_case_decisions decision_key_def case_revision_key_def)
  qed
  then show ?thesis
    using sorted_distinct_set_unique [OF case_decisions_sorted(1,2) [OF ok] _ _, of "[1..rcr_revision r]"] by simp
qed

text \<open>The n-th decision of a case made its n-th revision.\<close>

lemma nth_decision:
  assumes "review_store_ok d" and "map rd_case_revision (case_decisions i d) = [1..n]" and "x \<in> set (review_decisions d)"
    and "decision_key x = (i, k)"
  shows "0 < k" "k \<le> n" "case_decisions i d ! nat (k - 1) = x"
proof -
  let ?ds = "case_decisions i d"
  have mem: "x \<in> set ?ds" and k: "rd_case_revision x = k" using assms(3,4) by (auto simp: set_case_decisions decision_key_def)
  then have "k \<in> set [1..n]" using assms(2) by (metis image_eqI set_map)
  then show *: "0 < k" "k \<le> n" by simp_all
  obtain j where j: "j < length ?ds" "?ds ! j = x" using mem by (auto simp: in_set_conv_nth)
  have "length ?ds = nat n" using arg_cong [OF assms(2), of length] by simp
  then have "k = 1 + int j" using arg_cong [OF assms(2), of "\<lambda>l. l ! j"] j k by (simp add: nth_upto)
  then show "?ds ! nat (k - 1) = x" using j by simp
qed

text \<open>The current decision of revision k is the k-th decision.\<close>

lemma current_decision:
  assumes "review_inv d" and "map rd_case_revision (case_decisions i d) = [1..n]"
    and q: "q \<in> set (review_case_revisions d)" "rcr_case_id q = i"
  shows "rcr_current_decision_id q = (None # map (\<lambda>x. Some (rd_decision_id x)) (case_decisions i d)) ! nat (rcr_revision q)"
proof -
  have ok: "review_store_ok d" and lin: "linear_history d" using assms(1) by (simp_all add: review_inv_def)
  have len: "length (case_decisions i d) = nat n" using arg_cong [OF assms(2), of length] by simp
  show ?thesis
  proof (cases "rcr_revision q = 0")
    case True
    then show ?thesis using first_revision_open [OF assms(1) q(1)] by simp
  next
    case False
    then have pos: "0 < rcr_revision q" using store_columns(2) [OF ok q(1)] by simp
    then obtain x where x: "x \<in> set (review_decisions d)" "decision_key x = case_revision_key q" "rcr_current_decision_id q = Some (rd_decision_id x)"
      using revision_decision [OF lin q(1)] by blast
    then have "decision_key x = (i, rcr_revision q)" using q(2) by (simp add: case_revision_key_def)
    then have nth: "case_decisions i d ! nat (rcr_revision q - 1) = x" "rcr_revision q \<le> n"
      using nth_decision [OF ok assms(2) x(1)] by blast+
    then have "nat (rcr_revision q - 1) < length (case_decisions i d)" using len pos by simp
    then have "map (\<lambda>x. Some (rd_decision_id x)) (case_decisions i d) ! nat (rcr_revision q - 1) = Some (rd_decision_id x)" using nth(1) by simp
    then have "(None # map (\<lambda>x. Some (rd_decision_id x)) (case_decisions i d)) ! Suc (nat (rcr_revision q - 1)) = Some (rd_decision_id x)" by simp
    moreover have "nat (rcr_revision q) = Suc (nat (rcr_revision q - 1))" using pos by simp
    ultimately show ?thesis using x(3) by metis
  qed
qed

lemma decision_chain:
  assumes "review_inv d" and "r \<in> set (review_case_revisions d)"
    and "\<And>s. s \<in> set (review_case_revisions d) \<Longrightarrow> rcr_case_id s = rcr_case_id r \<Longrightarrow> rcr_revision s \<le> rcr_revision r"
  defines "ds \<equiv> case_decisions (rcr_case_id r) d"
  shows "map rd_supersedes_decision_id ds = butlast (None # map (\<lambda>x. Some (rd_decision_id x)) ds)"
    and "rcr_current_decision_id r = last (None # map (\<lambda>x. Some (rd_decision_id x)) ds)"
proof -
  let ?i = "rcr_case_id r" and ?n = "rcr_revision r"
  have ok: "review_store_ok d" and lin: "linear_history d" using assms(1) by (simp_all add: review_inv_def)
  have numbers: "map rd_case_revision ds = [1..?n]" unfolding ds_def by (rule decision_numbers [OF assms(1,2,3)])
  have "0 \<le> ?n" using store_columns(2) [OF ok assms(2)] by simp
  then have len: "int (length ds) = ?n" using arg_cong [OF numbers, of length] by simp
  note current = current_decision [OF assms(1) numbers [unfolded ds_def], folded ds_def]
  have "nat ?n = length ds" using len by simp
  then show "rcr_current_decision_id r = last (None # map (\<lambda>x. Some (rd_decision_id x)) ds)"
    using current [OF assms(2)] by (simp add: last_conv_nth)
  show "map rd_supersedes_decision_id ds = butlast (None # map (\<lambda>x. Some (rd_decision_id x)) ds)"
  proof (rule nth_equalityI)
    show "length (map rd_supersedes_decision_id ds) = length (butlast (None # map (\<lambda>x. Some (rd_decision_id x)) ds))" by simp
    fix j assume "j < length (map rd_supersedes_decision_id ds)"
    then have j: "j < length ds" by simp
    then have rev: "rd_case_revision (ds ! j) = int j + 1"
      using arg_cong [OF numbers, of "\<lambda>l. l ! j"] len by (simp add: nth_upto)
    have x: "ds ! j \<in> set (review_decisions d)" "rd_case_id (ds ! j) = ?i"
      using nth_mem [OF j] unfolding ds_def set_case_decisions by simp_all
    obtain q where q: "q \<in> set (review_case_revisions d)" "case_revision_key q = decision_key (ds ! j)"
      using store_references(2) [OF ok x(1)] by blast
    then have qk: "rcr_case_id q = ?i" "rcr_revision q = int j + 1" using rev x(2) by (simp_all add: case_revision_key_def decision_key_def)
    have "0 < rcr_revision q" using qk(2) by simp
    then obtain p y where py: "p \<in> set (review_case_revisions d)" "y \<in> set (review_decisions d)" "rcr_case_id p = rcr_case_id q"
        "rcr_revision p = rcr_revision q - 1" "decision_key y = case_revision_key q" "rd_supersedes_decision_id y = rcr_current_decision_id p"
      using revision_decision [OF lin q(1)] by metis
    then have p: "p \<in> set (review_case_revisions d)" "rcr_case_id p = ?i" "rcr_revision p = int j"
        "y \<in> set (review_decisions d)" "decision_key y = decision_key (ds ! j)" "rd_supersedes_decision_id y = rcr_current_decision_id p"
      using q(2) qk by simp_all
    then have "y = ds ! j" using distinct_key_unique [OF store_keys(4) [OF ok] _ x(1)] by blast
    then have "rd_supersedes_decision_id (ds ! j) = (None # map (\<lambda>x. Some (rd_decision_id x)) ds) ! j"
      using current [OF p(1,2)] p(3,6) by simp
    moreover have "butlast (None # map (\<lambda>x. Some (rd_decision_id x)) ds) ! j = (None # map (\<lambda>x. Some (rd_decision_id x)) ds) ! j"
      using j by (intro nth_butlast) auto
    ultimately show "map rd_supersedes_decision_id ds ! j = butlast (None # map (\<lambda>x. Some (rd_decision_id x)) ds) ! j"
      using j by (metis nth_map)
  qed
qed

text \<open>The same for the detail of a case as the repository returns it.\<close>

lemma get_case_chain:
  assumes "review_inv d" and "get_case i t d = Inr det"
  shows "map rd_case_revision (det_decisions det) = [1..rvc_revision (det_case det)]"
    and "map rd_supersedes_decision_id (det_decisions det) = butlast (None # map (\<lambda>x. Some (rd_decision_id x)) (det_decisions det))"
    and "rvc_current_decision_id (det_case det) = last (None # map (\<lambda>x. Some (rd_decision_id x)) (det_decisions det))"
proof -
  have load: "load_case i d = Inr (det_case det)" and dec: "traverse decision_of_row (case_decisions i d) = Inr (det_decisions det)"
    using assms(2) by (auto simp: get_case_def result_bind_eq_Inr case_decisions_def)
  obtain c r where r: "c \<in> set (review_cases d)" "r \<in> set (review_case_revisions d)" "rcs_case_id c = i" "rcr_case_id r = i"
      "case_of_rows c r = Inr (det_case det)"
      "\<And>c' r'. c' \<in> set (review_cases d) \<Longrightarrow> r' \<in> set (review_case_revisions d) \<Longrightarrow> rcs_case_id c' = i
        \<Longrightarrow> rcr_case_id r' = i \<Longrightarrow> rcr_revision r' \<le> rcr_revision r"
    using load_caseE [OF load] by metis
  have greatest: "rcr_revision s \<le> rcr_revision r" if "s \<in> set (review_case_revisions d)" "rcr_case_id s = rcr_case_id r" for s
    using r(6) [OF r(1) that(1) r(3)] that(2) r(4) by simp
  have same: "map f (det_decisions det) = map f (case_decisions i d)"
    if f: "\<And>x t. f (x\<lparr>rd_decided_at_utc := t\<rparr>) = f x" for f :: "review_decision \<Rightarrow> 'b"
    using traverse_list_all2 [OF dec]
  proof (induction rule: list_all2_induct)
    case (Cons x xs y ys)
    then show ?case using make_review_decisionD(1) [of x y] f by (simp add: decision_of_row_def)
  qed simp
  note chain = decision_chain [OF assms(1) r(2) greatest] and numbers = decision_numbers [OF assms(1) r(2) greatest]
  show "map rd_case_revision (det_decisions det) = [1..rvc_revision (det_case det)]"
    using numbers same [of rd_case_revision] case_of_rows_Inr(4) [OF r(5)] r(4) by simp
  have ids: "map (\<lambda>x. Some (rd_decision_id x)) (det_decisions det) = map (\<lambda>x. Some (rd_decision_id x)) (case_decisions i d)"
    by (rule same) simp
  show "map rd_supersedes_decision_id (det_decisions det) = butlast (None # map (\<lambda>x. Some (rd_decision_id x)) (det_decisions det))"
    using chain(1) same [of rd_supersedes_decision_id] r(4) unfolding ids by simp
  show "rvc_current_decision_id (det_case det) = last (None # map (\<lambda>x. Some (rd_decision_id x)) (det_decisions det))"
    using chain(2) case_of_rows_Inr(5) [OF r(5)] r(4) unfolding ids by simp
qed

end
