(* ===== verification/Review_Decisions.thy ===== *)
theory Review_Decisions
  imports Review_Chains
begin

text \<open>
  A decision of the repository: the conditions under which it is accepted, the rows it adds, what a
  repetition reads back, and that a second decision on the same revision is refused.
\<close>

section \<open>What is read back\<close>

text \<open>The row of a constructed case gives back the case.\<close>

lemma case_of_new_row:
  assumes "make_review_case v = Inr v" and "rcs_case_id c = rvc_case_id v" and "rcs_candidate_id c = rvc_candidate_id v"
    and "rcs_candidate_revision c = rvc_candidate_revision v" and "rcs_opened_at_utc c = rvc_opened_at_utc v"
  shows "case_of_rows c (case_revision_row v) = Inr v"
  using assms by (cases v) (simp add: case_of_rows_def case_revision_row_def)

lemma decision_replay_found:
  assumes "review_store_ok d" and "c \<in> set (review_cases d)" and "r \<in> set (review_case_revisions d)"
    and "x \<in> set (review_decisions d)" and "rcr_case_id r = rcs_case_id c" and "case_revision_key r = decision_key x"
    and "case_of_rows c r = Inr v" and "make_review_decision x = Inr x" and "verify_decision_replay x command = Inr ()"
    and "dc_command_digest command = rd_command_digest x"
  shows "decision_replay command d = Inr (Some (v, x))"
proof -
  have "select_one rd_command_digest (dc_command_digest command) (review_decisions d) = (Inr (Some x) :: review_decision option stored)"
    unfolding assms(10) by (rule select_one_key [OF store_keys(3) [OF assms(1)] assms(4)])
  moreover have "rd_case_id x = rcs_case_id c" "rd_case_revision x = rcr_revision r"
    using assms(5,6) by (simp_all add: case_revision_key_def decision_key_def)
  then have "filter (\<lambda>(k, s). rcs_case_id k = rd_case_id x \<and> rcr_revision s = rd_case_revision x) (case_join d) = [(c, r)]"
    using revision_row_eq [OF assms(1,2,3,5)] by simp
  ultimately show ?thesis using assms(7,8,9) by (simp add: decision_replay_def decision_of_row_def)
qed

section \<open>A decision applied\<close>

text \<open>The rows behind a decision: the case, its latest revision, and the new revision and decision.\<close>

lemma decision_rows:
  assumes "review_store_ok d" and "load_case (dc_case_id command) d = Inr v" and "decide_review_case v command now = Inr (v', x)"
  obtains c p where "c \<in> set (review_cases d)" and "p \<in> set (review_case_revisions d)" and "rcr_case_id p = rcs_case_id c"
    and "rcs_case_id c = dc_case_id command" and "case_of_rows c p = Inr v" and "rvc_revision v = rcr_revision p"
    and "\<And>s. s \<in> set (review_case_revisions d) \<Longrightarrow> rcr_case_id s = dc_case_id command \<Longrightarrow> rcr_revision s \<le> rcr_revision p"
    and "case_of_rows c (case_revision_row v') = Inr v'" and "rcr_case_id (case_revision_row v') = rcs_case_id c"
    and "rcr_revision (case_revision_row v') = rcr_revision p + 1"
    and "case_revision_key (case_revision_row v') = decision_key x"
proof -
  obtain c p where cp: "c \<in> set (review_cases d)" "p \<in> set (review_case_revisions d)" "rcs_case_id c = dc_case_id command"
      "rcr_case_id p = dc_case_id command" "case_of_rows c p = Inr v"
      "\<And>c' r'. c' \<in> set (review_cases d) \<Longrightarrow> r' \<in> set (review_case_revisions d) \<Longrightarrow> rcs_case_id c' = dc_case_id command
        \<Longrightarrow> rcr_case_id r' = dc_case_id command \<Longrightarrow> rcr_revision r' \<le> rcr_revision p"
    using load_caseE [OF assms(2)] by metis
  note read = case_of_rows_Inr [OF cp(5)]
  note decided = decide_review_caseD [OF assms(3) read(8)]
  have "rcs_opened_at_utc c = rvc_opened_at_utc v'"
    using store_columns(1) [OF assms(1) cp(1)] read(7) by (simp add: decided(5) aware_utcD)
  then have "case_of_rows c (case_revision_row v') = Inr v'"
    using decided(6) read by (intro case_of_new_row) (simp_all add: decided(5))
  moreover have "rcr_case_id (case_revision_row v') = rcs_case_id c" "rcr_revision (case_revision_row v') = rcr_revision p + 1"
      "case_revision_key (case_revision_row v') = decision_key x"
    using read by (simp_all add: case_revision_row_def case_revision_key_def decision_key_def decided(4,5))
  moreover have "rcr_revision s \<le> rcr_revision p" if "s \<in> set (review_case_revisions d)" "rcr_case_id s = dc_case_id command" for s
    using cp(1,3,6) that by blast
  ultimately show thesis using cp(1-5) read(4) by (intro that [of c p]) simp_all
qed

lemma verify_own_replay:
  assumes "decide_review_case v command now = Inr (v', x)" and "require_case_shape v = Inr ()"
  shows "verify_decision_replay x command = Inr ()"
  using decide_review_caseD(1,2,3) [OF assms] by (simp add: verify_decision_replay_def decide_review_caseD(4) [OF assms])

lemma applied_reads_back:
  assumes "review_store_ok d" and "load_case (dc_case_id command) d = Inr v" and "decide_review_case v command now = Inr (v', x)"
    and "d' = d\<lparr>review_case_revisions := review_case_revisions d @ [case_revision_row v'], review_decisions := review_decisions d @ [x]\<rparr>"
    and "review_store_ok d'"
  shows "load_case (dc_case_id command) d' = Inr v'" and "decision_replay command d' = Inr (Some (v', x))"
proof -
  obtain c p where cp: "c \<in> set (review_cases d)" "p \<in> set (review_case_revisions d)" "rcr_case_id p = rcs_case_id c"
      "rcs_case_id c = dc_case_id command" "case_of_rows c p = Inr v" "rvc_revision v = rcr_revision p"
      "\<And>s. s \<in> set (review_case_revisions d) \<Longrightarrow> rcr_case_id s = dc_case_id command \<Longrightarrow> rcr_revision s \<le> rcr_revision p"
      "case_of_rows c (case_revision_row v') = Inr v'" "rcr_case_id (case_revision_row v') = rcs_case_id c"
      "rcr_revision (case_revision_row v') = rcr_revision p + 1" "case_revision_key (case_revision_row v') = decision_key x"
    using decision_rows [OF assms(1-3)] by metis
  let ?r = "case_revision_row v'"
  have mem: "c \<in> set (review_cases d')" "?r \<in> set (review_case_revisions d')" "x \<in> set (review_decisions d')"
    using cp(1) by (simp_all add: assms(4))
  have "rcr_revision s \<le> rcr_revision ?r" if s: "s \<in> set (review_case_revisions d')" "rcr_case_id s = rcr_case_id ?r" for s
  proof -
    have "s \<in> set (review_case_revisions d) \<or> s = ?r" using s(1) by (auto simp: assms(4))
    then show ?thesis using cp(4,7,9,10) s(2) by fastforce
  qed
  then show "load_case (dc_case_id command) d' = Inr v'"
    using load_case_eq [OF assms(5) mem(1,2) cp(9)] cp(4,8) by simp
  note shape = case_of_rows_Inr(8) [OF cp(5)]
  have "rd_command_digest x = dc_command_digest command" by (simp add: decide_review_caseD(4) [OF assms(3) shape])
  then show "decision_replay command d' = Inr (Some (v', x))"
    using decision_replay_found [OF assms(5) mem cp(9,11,8) decide_review_caseD(7) [OF assms(3) shape] verify_own_replay [OF assms(3) shape]]
    by simp
qed

lemma submit_decision_Inr:
  "submit_decision command now d = (Inr y, d') \<longleftrightarrow> submit_decision_tx command now d = Inr (y, d')"
  by (auto simp: submit_decision_def review_transaction_def split: sum.splits prod.splits)

lemma submit_decision_replayed:
  assumes "decision_replay command d = Inr (Some y)"
  shows "submit_decision command now d = (Inr y, d)"
  using assms by (simp add: submit_decision_Inr submit_decision_tx_def)

text \<open>A command against another revision than the current one.\<close>

lemma submit_decision_stale:
  assumes "load_case (dc_case_id command) d = Inr v" and "dc_expected_case_revision command \<noteq> rvc_revision v"
    and "dc_command_digest command \<notin> rd_command_digest ` set (review_decisions d)" and "rvc_case_id v = dc_case_id command"
  shows "submit_decision command now d =
    (Inl (Conflict (ReviewConflict (''expected review revision '' @ int_decimal (dc_expected_case_revision command)
       @ '', actual '' @ int_decimal (rvc_revision v)) ''Reload the review case and retry against its current revision.'')), d)"
proof -
  have "select_one rd_command_digest (dc_command_digest command) (review_decisions d) = (Inr None :: review_decision option stored)"
    using assms(3) by (intro select_one_absent) (metis imageI)
  then have "decision_replay command d = Inr None" by (simp add: decision_replay_def)
  moreover have "decide_review_case v command now = Inl (StaleReviewRevision (''expected review revision ''
      @ int_decimal (dc_expected_case_revision command) @ '', actual '' @ int_decimal (rvc_revision v)))"
    using assms(2,4) by (simp add: decide_review_case_def check_decision_def)
  ultimately show ?thesis using assms(1)
    by (simp add: submit_decision_def review_transaction_def submit_decision_tx_def caught_transition_def)
qed

section \<open>A decision accepted\<close>

lemma plain_text_storable: "rv_require_plain_text s = Inr u \<Longrightarrow> storable s"
  by (auto simp: rv_require_plain_text_def storable_def list_all_iff list_ex_iff)

text \<open>What a validated command guarantees of the row written for it.\<close>

lemma decision_command_valid:
  assumes "make_review_decision_command raw = Inr command"
  shows "make_review_decision_command command = Inr command" "0 \<le> dc_expected_case_revision command"
    "rv_length 200 (dc_actor_id command) = Inr ()" "rv_plain_text (dc_rationale command) = Inr ()"
    "list_all sha256_pattern (dc_evidence_references command)" "dc_evidence_references command \<noteq> []"
    "sha256_pattern (dc_command_digest command)" "rv_length 200 (dc_correlation_id command) = Inr ()"
  using assms
  by (auto simp: make_review_decision_command_def result_bind_eq_Inr checks_append checks_map rv_at_least_def rv_digest_def
      require_canonical_def canonical_strings_def list_all_iff)

lemma decide_review_case_total:
  assumes "make_review_decision_command raw = Inr command" and "make_review_case v = Inr v" and "dc_case_id command = rvc_case_id v"
    and "dc_expected_case_revision command = rvc_revision v" and "dc_supersedes_decision_id command = rvc_current_decision_id v"
    and "utcoffset now \<noteq> None" and "instant (rvc_opened_at_utc v) \<le> instant now"
  obtains v' x where "decide_review_case v command now = Inr (v', x)"
proof -
  note valid = decision_command_valid [OF assms(1)]
  have shape: "require_case_shape v = Inr ()" by (rule make_review_caseD(2) [OF assms(2)])
  have "check_decision v command = Inr ()"
    using assms(3-5) case_shapeD [OF shape] by (cases "rvc_state v") (auto simp: check_decision_def)
  moreover define n where "n = rvc_revision v + 1"
  moreover have "1 \<le> n" using assms(4) valid(2) by (simp add: n_def)
  then have "make_review_decision \<lparr>rd_decision_id = deterministic_decision_id (rvc_case_id v) n (dc_command_digest command),
      rd_case_id = rvc_case_id v, rd_case_revision = n, rd_outcome = dc_outcome command, rd_actor_id = dc_actor_id command,
      rd_rationale = dc_rationale command, rd_evidence_references = dc_evidence_references command,
      rd_supersedes_decision_id = dc_supersedes_decision_id command, rd_command_digest = dc_command_digest command,
      rd_decided_at_utc = utc (instant now), rd_correlation_id = dc_correlation_id command\<rparr> = Inr \<lparr>rd_decision_id =
        deterministic_decision_id (rvc_case_id v) n (dc_command_digest command),
      rd_case_id = rvc_case_id v, rd_case_revision = n, rd_outcome = dc_outcome command, rd_actor_id = dc_actor_id command,
      rd_rationale = dc_rationale command, rd_evidence_references = dc_evidence_references command,
      rd_supersedes_decision_id = dc_supersedes_decision_id command, rd_command_digest = dc_command_digest command,
      rd_decided_at_utc = utc (instant now), rd_correlation_id = dc_correlation_id command\<rparr>"
    using valid by (auto simp: make_review_decision_def result_bind_eq_Inr checks_append checks_map rv_at_least_def rv_digest_def
        list_all_iff)
  moreover have "make_review_case \<lparr>rvc_case_id = rvc_case_id v, rvc_candidate_id = rvc_candidate_id v,
      rvc_candidate_revision = rvc_candidate_revision v, rvc_revision = n, rvc_state = Case_DECIDED,
      rvc_reason_codes = rvc_reason_codes v, rvc_current_decision_id = Some i, rvc_opened_at_utc = rvc_opened_at_utc v,
      rvc_recorded_at_utc = utc (instant now), rvc_correlation_id = dc_correlation_id command\<rparr> = Inr (v\<lparr>rvc_revision := n,
      rvc_state := Case_DECIDED, rvc_current_decision_id := Some i, rvc_opened_at_utc := utc (instant (rvc_opened_at_utc v)),
      rvc_recorded_at_utc := utc (instant now), rvc_correlation_id := dc_correlation_id command\<rparr>)" for i
    using assms(2,7) shape valid(8) \<open>1 \<le> n\<close>
    by (cases v) (auto simp: make_review_case_def Let_def result_bind_eq_Inr checks_append checks_map rv_at_least_def
        require_case_shape_def)
  ultimately show thesis using assms(6) that by (simp add: decide_review_case_def Let_def review_utc_def)
qed

text \<open>The new rows keep every constraint of the tables.\<close>

lemma decision_constraints:
  assumes "review_store_ok d" and "make_review_decision_command raw = Inr command" and "load_case (dc_case_id command) d = Inr v"
    and "decide_review_case v command now = Inr (v', x)"
    and "dc_command_digest command \<notin> rd_command_digest ` set (review_decisions d)"
    and "rd_decision_id x \<notin> rd_decision_id ` set (review_decisions d)"
    and "rvc_revision v + 1 < 2 ^ 31" and "storable (dc_actor_id command)" and "storable (dc_correlation_id command)"
  defines "d1 \<equiv> d\<lparr>review_case_revisions := review_case_revisions d @ [case_revision_row v']\<rparr>"
    and "d2 \<equiv> d\<lparr>review_case_revisions := review_case_revisions d @ [case_revision_row v'], review_decisions := review_decisions d @ [x]\<rparr>"
  shows "review_columns d1" "immediate_constraints d1" "review_columns d2" "immediate_constraints d2" "deferred_constraints d2"
proof -
  obtain c p where cp: "c \<in> set (review_cases d)" "p \<in> set (review_case_revisions d)" "rcr_case_id p = rcs_case_id c"
      "rcs_case_id c = dc_case_id command" "case_of_rows c p = Inr v" "rvc_revision v = rcr_revision p"
      "\<And>s. s \<in> set (review_case_revisions d) \<Longrightarrow> rcr_case_id s = dc_case_id command \<Longrightarrow> rcr_revision s \<le> rcr_revision p"
      "case_of_rows c (case_revision_row v') = Inr v'" "rcr_case_id (case_revision_row v') = rcs_case_id c"
      "rcr_revision (case_revision_row v') = rcr_revision p + 1" "case_revision_key (case_revision_row v') = decision_key x"
    using decision_rows [OF assms(1,3,4)] by metis
  let ?r = "case_revision_row v'"
  note read = case_of_rows_Inr [OF cp(5)]
  note valid = decision_command_valid [OF assms(2)] and decided = decide_review_caseD [OF assms(4) read(8)]
  have old: "review_columns d" "review_checks d" "candidate_tables_unique d" "review_tables_unique d" "review_references d" "deferred_constraints d"
    using assms(1) by (simp_all add: review_store_ok_def immediate_constraints_def)
  have p: "case_revision_columns p" "case_revision_checks p" "references_some (rcr_current_decision_id p) (rd_decision_id ` set (review_decisions d))"
    using old cp(2) by (simp_all add: review_columns_def review_checks_def deferred_constraints_def list_all_iff)
  have columns: "case_revision_columns ?r" "decision_columns x"
    using p(1,2) read valid assms(7,8,9) cp(6)
    by (auto simp: case_revision_columns_def decision_columns_def case_revision_row_def decided(4,5) int4_def case_revision_checks_def
        rv_plain_text_def plain_text_storable sha256_storable list_all_iff is_aware_utc_def)
  have checks: "case_revision_checks ?r" "decision_checks x"
    using p(2) read valid cp(6)
    by (auto simp: case_revision_checks_def decision_checks_def case_revision_row_def decided(4,5) text_between_def no_markup_def
        rv_length_def rv_plain_text_def rv_require_plain_text_def)
  have "rcr_revision s \<noteq> rcr_revision ?r" if "s \<in> set (review_case_revisions d)" "rcr_case_id s = rcr_case_id ?r" for s
    using cp(7) [OF that(1)] that(2) cp(4,9,10) by simp
  then have new_key: "case_revision_key ?r \<notin> case_revision_key ` set (review_case_revisions d)"
    unfolding case_revision_key_def image_iff prod.inject by metis
  have new_decision: "decision_key x \<notin> decision_key ` set (review_decisions d)"
  proof
    assume "decision_key x \<in> decision_key ` set (review_decisions d)"
    then obtain y where "y \<in> set (review_decisions d)" "decision_key x = decision_key y" by blast
    then obtain s where "s \<in> set (review_case_revisions d)" "case_revision_key s = case_revision_key ?r"
      using store_references(2) [OF assms(1)] cp(11) by metis
    then show False using new_key by (metis image_eqI)
  qed
  have digest: "rd_command_digest x = dc_command_digest command" and prior: "rd_supersedes_decision_id x = rcr_current_decision_id p"
    and link: "rcr_current_decision_id ?r = Some (rd_decision_id x)"
    using read(5) by (simp_all add: decided(4,5) case_revision_row_def)
  have case_ref: "rcr_case_id ?r \<in> rcs_case_id ` set (review_cases d)" using cp(1,9) by simp
  have wider: "references_some k K \<Longrightarrow> references_some k (insert y K)" for k :: "uuid option" and y K
    by (cases k) (simp_all add: references_some_def)
  show "review_columns d1" "review_columns d2" using old(1) columns by (simp_all add: d1_def d2_def review_columns_def)
  show "immediate_constraints d1"
    using old(2-5) checks new_key case_ref
    by (simp add: d1_def immediate_constraints_def review_checks_def candidate_tables_unique_def review_tables_unique_def review_references_def)
  have "list_all (\<lambda>r. references_some (rd_supersedes_decision_id r) (rd_decision_id ` set (review_decisions d))) (review_decisions d)"
    using old(5) by (simp add: review_references_def)
  then have supersedes: "list_all (\<lambda>r. references_some (rd_supersedes_decision_id r) (insert (rd_decision_id x) (rd_decision_id ` set (review_decisions d))))
      (review_decisions d @ [x])"
    using wider p(3) prior by (auto simp: list_all_iff)
  show "immediate_constraints d2"
    using old(2-5) checks new_key new_decision case_ref supersedes assms(5,6) digest
    by (simp add: d2_def immediate_constraints_def review_checks_def candidate_tables_unique_def review_tables_unique_def review_references_def)
  show "deferred_constraints d2"
    using old(6) wider cp(11) link by (auto simp: d2_def deferred_constraints_def list_all_iff references_some_def)
qed

lemma submit_decision_accepted:
  assumes "review_store_ok d" and "make_review_decision_command raw = Inr command" and "load_case (dc_case_id command) d = Inr v"
    and "decide_review_case v command now = Inr (v', x)"
    and "dc_command_digest command \<notin> rd_command_digest ` set (review_decisions d)"
    and "rd_decision_id x \<notin> rd_decision_id ` set (review_decisions d)"
    and "rvc_revision v + 1 < 2 ^ 31" and "storable (dc_actor_id command)" and "storable (dc_correlation_id command)"
  shows "submit_decision command now d = (Inr (v', x),
    d\<lparr>review_case_revisions := review_case_revisions d @ [case_revision_row v'], review_decisions := review_decisions d @ [x]\<rparr>)"
proof -
  have "select_one rd_command_digest (dc_command_digest command) (review_decisions d) = (Inr None :: review_decision option stored)"
    using assms(5) by (intro select_one_absent) (metis imageI)
  then have "decision_replay command d = Inr None" by (simp add: decision_replay_def)
  then show ?thesis using assms(3,4) decision_constraints [OF assms]
    by (simp add: submit_decision_Inr submit_decision_tx_def caught_transition_def insert_case_revision_def insert_decision_def
        result_bind_eq_Inr insert_updates)
qed

end
