(* ===== verification/Review_Properties.thy ===== *)
theory Review_Properties
  imports Review_Decisions
begin

text \<open>The properties of the review workflow, and a small database with one open case they are applied to.\<close>

section \<open>One open case\<close>

definition demo_reviewer :: reviewer_principal where
  "demo_reviewer = \<lparr>rp_actor_id = ''ann'', rp_permissions = {Review_READ, Review_DECIDE}\<rparr>"

definition demo_reasons :: "string list" where
  "demo_reasons = [''AMBIGUOUS'']"

definition demo_case_id :: uuid where
  "demo_case_id = uuid5 CASE_NAMESPACE (uuid_str (UUID 1) @ '':'' @ int_decimal 0 @ '':''
     @ json_digest (JList (map JStr demo_reasons)))"

definition demo_evidence :: string where
  "demo_evidence = json_digest JNull"

definition demo_review_db :: review_db where
  "demo_review_db = \<lparr>
     candidates = [\<lparr>cd_candidate_id = UUID 1, cd_entity_kind = ''place'', cd_created_at_utc = utc 0, cd_correlation_id = ''r0''\<rparr>],
     candidate_revisions = [\<lparr>cdr_candidate_id = UUID 1, cdr_revision = 0, cdr_cluster_id = UUID 2,
       cdr_resolution_state = Candidate_REVIEW,
       cdr_snapshot_digest = candidate_snapshot_digest (UUID 1) 0 ''place'' (UUID 2) Candidate_REVIEW [] [] demo_evidence,
       cdr_source_lineage_digest = demo_evidence, cdr_normalized_payload = [], cdr_recorded_at_utc = utc 0,
       cdr_correlation_id = ''r0''\<rparr>],
     candidate_revision_evidence = [], quality_evaluations = [],
     review_cases = [\<lparr>rcs_case_id = demo_case_id, rcs_candidate_id = UUID 1, rcs_candidate_revision = 0,
       rcs_opened_at_utc = utc 5, rcs_correlation_id = ''r0''\<rparr>],
     review_case_revisions = [\<lparr>rcr_case_id = demo_case_id, rcr_revision = 0, rcr_state = Case_OPEN,
       rcr_reason_codes = demo_reasons, rcr_current_decision_id = None, rcr_recorded_at_utc = utc 5, rcr_correlation_id = ''r0''\<rparr>],
     review_decisions = [], manual_observations = [], suppression_revisions = []\<rparr>"

definition demo_case :: review_case where
  "demo_case = \<lparr>rvc_case_id = demo_case_id, rvc_candidate_id = UUID 1, rvc_candidate_revision = 0, rvc_revision = 0,
     rvc_state = Case_OPEN, rvc_reason_codes = demo_reasons, rvc_current_decision_id = None, rvc_opened_at_utc = utc 5,
     rvc_recorded_at_utc = utc 5, rvc_correlation_id = ''r0''\<rparr>"

definition demo_command :: "review_outcome \<Rightarrow> review_decision_command" where
  "demo_command outcome = decision_command demo_reviewer demo_case_id 0 outcome ''fine'' [demo_evidence] None ''r1''"

lemma demo_texts: "code_pattern ''AMBIGUOUS''" "review_key_pattern ''place''" "storable ''AMBIGUOUS''" "storable ''ann''"
    "storable ''r0''" "storable ''r1''" "rv_plain_text ''fine'' = Inr ()"
  by code_simp+

lemma demo_evidence_ok [simp]: "sha256_pattern demo_evidence"
  by (simp add: demo_evidence_def)

lemma demo_case_made: "make_review_case demo_case = Inr demo_case"
  using demo_texts
  by (simp add: demo_case_def demo_reasons_def make_review_case_def Let_def result_bind_def rv_at_least_def rv_code_def
      rv_length_def rv_require_aware_utc_def require_case_shape_def require_canonical_def canonical_strings_def
      deterministic_case_id_def demo_case_id_def)

lemma demo_command_made: "make_review_decision_command (demo_command outcome) = Inr (demo_command outcome)"
  using demo_texts
  by (simp add: demo_command_def decision_command_def make_review_decision_command_def result_bind_def rv_at_least_def
      rv_length_def demo_reviewer_def rv_digest_def require_canonical_def canonical_strings_def review_decision_command_digest_def)

lemma demo_store_ok: "review_store_ok demo_review_db"
proof -
  have digest: "sha256_pattern (candidate_snapshot_digest (UUID 1) 0 ''place'' (UUID 2) Candidate_REVIEW [] [] demo_evidence)"
    by (simp add: candidate_snapshot_digest_def)
  have "review_columns demo_review_db"
    using demo_texts by (simp add: demo_review_db_def review_columns_def case_revision_columns_def demo_reasons_def int4_def)
  moreover have "immediate_constraints demo_review_db" using demo_texts(2) digest
    by (simp add: demo_review_db_def immediate_constraints_def review_checks_def candidate_checks_def candidate_revision_checks_def
        case_revision_checks_def text_between_def demo_reasons_def candidate_tables_unique_def review_tables_unique_def
        review_references_def revision_key_def)
  moreover have "deferred_constraints demo_review_db"
    by (simp add: demo_review_db_def deferred_constraints_def references_some_def)
  ultimately show ?thesis by (simp add: review_store_ok_def)
qed

lemma demo_load: "load_case demo_case_id demo_review_db = Inr demo_case"
proof -
  have "one_or_none (latest (\<lambda>(c, r). rcr_revision r) (filter (\<lambda>(c, r). rcs_case_id c = demo_case_id) (case_join demo_review_db)))
      = (Inr (Some (hd (review_cases demo_review_db), hd (review_case_revisions demo_review_db))) :: _ stored)"
    by (simp add: demo_review_db_def case_join_def latest_def)
  moreover have "case_of_rows (hd (review_cases demo_review_db)) (hd (review_case_revisions demo_review_db)) = Inr demo_case"
    using demo_case_made by (simp add: case_of_rows_def demo_review_db_def demo_case_def)
  ultimately show ?thesis by (simp add: load_case_def)
qed

lemma demo_decided:
  obtains v' x where "decide_review_case demo_case (demo_command outcome) (utc 9) = Inr (v', x)"
proof (rule decide_review_case_total [OF demo_command_made demo_case_made])
  show "utcoffset (utc 9) \<noteq> None" by simp
qed (auto simp: demo_command_def decision_command_def demo_case_def)

lemma demo_submitted:
  obtains v' x where "decide_review_case demo_case (demo_command outcome) (utc 9) = Inr (v', x)"
    and "submit_decision (demo_command outcome) (utc 9) demo_review_db = (Inr (v', x),
      demo_review_db\<lparr>review_case_revisions := review_case_revisions demo_review_db @ [case_revision_row v'], review_decisions := [x]\<rparr>)"
proof -
  obtain v' x where decided: "decide_review_case demo_case (demo_command outcome) (utc 9) = Inr (v', x)" by (rule demo_decided)
  have none: "review_decisions demo_review_db = []" by (simp add: demo_review_db_def)
  have "load_case (dc_case_id (demo_command outcome)) demo_review_db = Inr demo_case"
    using demo_load by (simp add: demo_command_def decision_command_def)
  from submit_decision_accepted [OF demo_store_ok demo_command_made this decided]
  have "submit_decision (demo_command outcome) (utc 9) demo_review_db = (Inr (v', x), demo_review_db\<lparr>review_case_revisions :=
      review_case_revisions demo_review_db @ [case_revision_row v'], review_decisions := review_decisions demo_review_db @ [x]\<rparr>)"
    using demo_texts by (simp add: none demo_case_def demo_command_def decision_command_def demo_reviewer_def)
  then show thesis using that decided by (simp add: none)
qed

section \<open>The properties\<close>

text \<open>
  \<^bold>\<open>C40.\<close> The history of a case is one chain. Start from a database in which every case is open and
  undecided and let reviewers decide, observe, activate and resolve in any order, successfully or not:
  the decisions \<open>get_case\<close> returns are numbered 1, 2, \<open>\<dots>\<close> up to the revision of the case, each one
  supersedes the one before it, the case names the last one as current, and no row was ever changed.
\<close>

theorem decision_history_is_a_chain:
  assumes "review_store_ok d0" and "review_decisions d0 = []"
    and "\<forall>r \<in> set (review_case_revisions d0). rcr_revision r = 0 \<and> rcr_state r = Case_OPEN"
    and "review_step\<^sup>*\<^sup>* d0 d" and "get_case i t d = Inr det"
  shows "map rd_case_revision (det_decisions det) = [1..rvc_revision (det_case det)]
    \<and> map rd_supersedes_decision_id (det_decisions det) = butlast (None # map (\<lambda>x. Some (rd_decision_id x)) (det_decisions det))
    \<and> rvc_current_decision_id (det_case det) = last (None # map (\<lambda>x. Some (rd_decision_id x)) (det_decisions det))
    \<and> review_extends d0 d"
proof -
  have "linear_history d0" using assms(2,3) by (simp add: linear_history_def)
  then have "review_inv d0" using assms(1) by (simp add: review_inv_def)
  then have "review_inv d" "review_extends d0 d" using review_steps_ok [OF assms(4)] by simp_all
  then show ?thesis using get_case_chain [OF _ assms(5)] by simp
qed

theorem decision_history_is_a_chain_witness:
  "\<exists>d det. review_step\<^sup>*\<^sup>* demo_review_db d \<and> get_case demo_case_id 20 d = Inr det \<and> rvc_revision (det_case det) = 1
    \<and> map rd_case_revision (det_decisions det) = [1] \<and> map rd_supersedes_decision_id (det_decisions det) = [None]"
proof -
  obtain v' x where decided: "decide_review_case demo_case (demo_command ACCEPT_CANDIDATE) (utc 9) = Inr (v', x)"
    and sub: "submit_decision (demo_command ACCEPT_CANDIDATE) (utc 9) demo_review_db = (Inr (v', x), demo_review_db\<lparr>review_case_revisions :=
      review_case_revisions demo_review_db @ [case_revision_row v'], review_decisions := [x]\<rparr>)" (is "_ = (_, ?d)")
    by (rule demo_submitted)
  have "service_submit_decision demo_reviewer demo_case_id 0 ACCEPT_CANDIDATE ''fine'' [demo_evidence] None ''r1'' (utc 9) demo_review_db
      = submit_decision (demo_command ACCEPT_CANDIDATE) (utc 9) demo_review_db"
    using demo_command_made [of ACCEPT_CANDIDATE]
    by (simp add: service_submit_decision_def before_store_def require_permission_def demo_reviewer_def service_now_def demo_command_def)
  then have "review_step demo_review_db ?d" using review_step.Decide sub by (metis snd_conv)
  then have steps: "review_step\<^sup>*\<^sup>* demo_review_db ?d" by (rule r_into_rtranclp)
  have load0: "load_case (dc_case_id (demo_command ACCEPT_CANDIDATE)) demo_review_db = Inr demo_case"
    using demo_load by (simp add: demo_command_def decision_command_def)
  have open_start: "review_decisions demo_review_db = []"
      "\<forall>r \<in> set (review_case_revisions demo_review_db). rcr_revision r = 0 \<and> rcr_state r = Case_OPEN"
    by (simp_all add: demo_review_db_def)
  have "review_inv demo_review_db" using demo_store_ok open_start by (simp add: review_inv_def linear_history_def)
  then have "review_store_ok ?d" using review_steps_ok [OF steps] by (simp add: review_inv_def)
  then have load: "load_case demo_case_id ?d = Inr v'"
    using applied_reads_back(1) [OF demo_store_ok load0 decided] by (simp add: open_start(1) demo_command_def decision_command_def)
  note made = decide_review_caseD [OF decided make_review_caseD(2) [OF demo_case_made]]
  have "rvc_candidate_id v' = UUID 1" "rvc_candidate_revision v' = 0" "rvc_revision v' = 1" by (simp_all add: made(5) demo_case_def)
  moreover have "load_candidate (UUID 1) 0 ?d = of_checked (make_candidate_revision \<lparr>cdv_candidate_id = UUID 1, cdv_revision = 0,
      cdv_entity_kind = ''place'', cdv_cluster_id = UUID 2, cdv_resolution_state = Candidate_REVIEW,
      cdv_snapshot_digest = candidate_snapshot_digest (UUID 1) 0 ''place'' (UUID 2) Candidate_REVIEW [] [] demo_evidence,
      cdv_source_lineage_digest = demo_evidence, cdv_normalized_payload = [], cdv_evidence = [], cdv_recorded_at_utc = utc 0,
      cdv_correlation_id = ''r0''\<rparr>)"
    by (simp add: load_candidate_def demo_review_db_def result_bind_def)
  moreover have "load_quality (UUID 1) 0 ?d = Inr None" by (simp add: load_quality_def demo_review_db_def)
  moreover have "traverse decision_of_row (sort_key (\<lambda>r. (rd_case_revision r, rd_decision_id r))
      (filter (\<lambda>r. rd_case_id r = demo_case_id) (review_decisions ?d))) = Inr [x]"
    using made(7) by (simp add: decision_of_row_def made(4) demo_case_def)
  moreover have "manual_observations ?d = []" "active_suppression_rows (UUID 1) 20 ?d = []"
    by (simp_all add: demo_review_db_def active_suppression_rows_def latest_of_each_def)
  ultimately have "\<exists>det. get_case demo_case_id 20 ?d = Inr det \<and> rvc_revision (det_case det) = 1"
    using load demo_texts(2)
    by (simp add: get_case_def result_bind_def make_candidate_revision_def Let_def rv_at_least_def rv_key_def rv_digest_def rv_length_def
        rv_require_aware_utc_def require_canonical_evidence_def candidate_snapshot_digest_def)
  then obtain det where det: "get_case demo_case_id 20 ?d = Inr det" "rvc_revision (det_case det) = 1" by blast
  have "map rd_case_revision (det_decisions det) = [1]"
    using decision_history_is_a_chain [OF demo_store_ok open_start steps det(1)] det(2) by simp
  moreover from this obtain y where "det_decisions det = [y]" by auto
  ultimately show ?thesis
    using decision_history_is_a_chain [OF demo_store_ok open_start steps det(1)] steps det by auto
qed

text \<open>
  \<^bold>\<open>C23.\<close> A decision a permitted reviewer makes on the current revision of a case, superseding its current
  decision, is accepted whatever the state of the case: one revision and one decision are added, the
  case read afterwards is the one answered, with the next revision and this decision as current, and the
  constraints hold. The digest and the identity of the decision must be new, the revision must fit its
  column and the texts must hold no NUL character.
\<close>

theorem decision_applied:
  assumes "review_store_ok d" and "load_case i d = Inr v" and "Review_DECIDE \<in> rp_permissions reviewer"
    and "make_review_decision_command (decision_command reviewer i (rvc_revision v) outcome rationale evidence
      (rvc_current_decision_id v) corr) = Inr command"
    and "utcoffset clock \<noteq> None" and "instant (rvc_opened_at_utc v) \<le> instant clock"
    and "dc_command_digest command \<notin> rd_command_digest ` set (review_decisions d)"
    and "deterministic_decision_id i (rvc_revision v + 1) (dc_command_digest command) \<notin> rd_decision_id ` set (review_decisions d)"
    and "rvc_revision v + 1 < 2 ^ 31" and "storable (rp_actor_id reviewer)" and "storable corr"
  shows "\<exists>v' x d'. service_submit_decision reviewer i (rvc_revision v) outcome rationale evidence (rvc_current_decision_id v)
      corr clock d = (Inr (v', x), d')
    \<and> d' = d\<lparr>review_case_revisions := review_case_revisions d @ [case_revision_row v'], review_decisions := review_decisions d @ [x]\<rparr>
    \<and> load_case i d' = Inr v' \<and> rvc_revision v' = rvc_revision v + 1 \<and> rvc_state v' = Case_DECIDED
    \<and> rvc_current_decision_id v' = Some (rd_decision_id x) \<and> rd_outcome x = outcome
    \<and> rd_actor_id x = rp_actor_id reviewer \<and> rd_supersedes_decision_id x = rvc_current_decision_id v \<and> review_store_ok d'"
proof -
  have command: "command = decision_command reviewer i (rvc_revision v) outcome rationale evidence (rvc_current_decision_id v) corr"
    using assms(4) by (auto simp: make_review_decision_command_def result_bind_eq_Inr)
  have fields: "dc_case_id command = i" "dc_expected_case_revision command = rvc_revision v"
      "dc_supersedes_decision_id command = rvc_current_decision_id v" "dc_actor_id command = rp_actor_id reviewer"
      "dc_correlation_id command = corr" "dc_outcome command = outcome"
    by (simp_all add: command decision_command_def)
  obtain c p where cp: "rcs_case_id c = i" "case_of_rows c p = Inr v" using load_caseE [OF assms(2)] by metis
  have made: "make_review_case v = Inr v" and id: "rvc_case_id v = i"
    using make_review_caseD(3) cp(2) case_of_rows_Inr(1) [OF cp(2)] cp(1) by (auto simp: case_of_rows_def)
  have now: "utcoffset (utc (instant clock)) \<noteq> None" "instant (rvc_opened_at_utc v) \<le> instant (utc (instant clock))"
    using assms(6) by simp_all
  obtain v' x where decided: "decide_review_case v command (utc (instant clock)) = Inr (v', x)"
    using decide_review_case_total [OF assms(4) made _ fields(2,3) now] fields(1) id by auto
  note d = decide_review_caseD [OF decided make_review_caseD(2) [OF made]]
  have load: "load_case (dc_case_id command) d = Inr v" using assms(2) fields(1) by simp
  have fresh: "rd_decision_id x \<notin> rd_decision_id ` set (review_decisions d)" using assms(8) id by (simp add: d(4))
  note conditions = assms(1,4) load decided assms(7) fresh assms(9)
  let ?d = "d\<lparr>review_case_revisions := review_case_revisions d @ [case_revision_row v'], review_decisions := review_decisions d @ [x]\<rparr>"
  have sub: "submit_decision command (utc (instant clock)) d = (Inr (v', x), ?d)"
    using submit_decision_accepted [OF conditions] assms(10,11) fields by simp
  have ok: "review_store_ok ?d" using decision_constraints [OF conditions] assms(10,11) fields by (simp add: review_store_ok_def)
  have "service_submit_decision reviewer i (rvc_revision v) outcome rationale evidence (rvc_current_decision_id v) corr clock d
      = submit_decision command (utc (instant clock)) d"
    using assms(3,4,5) by (auto simp: service_submit_decision_def before_store_def require_permission_def service_now_def)
  moreover have "load_case i ?d = Inr v'" using applied_reads_back(1) [OF assms(1) load decided refl ok] fields(1) by simp
  ultimately show ?thesis using sub ok fields by (simp add: d(4,5))
qed

theorem decision_applied_witness:
  "\<exists>v' x d'. service_submit_decision demo_reviewer demo_case_id 0 BLOCK_EXPORT ''fine'' [demo_evidence] None ''r1'' (utc 9) demo_review_db
    = (Inr (v', x), d') \<and> rvc_revision v' = 1 \<and> rd_outcome x = BLOCK_EXPORT"
proof -
  have demo: "rvc_revision demo_case = 0" "rvc_current_decision_id demo_case = None" "instant (rvc_opened_at_utc demo_case) \<le> instant (utc 9)"
      "review_decisions demo_review_db = []" "Review_DECIDE \<in> rp_permissions demo_reviewer" "storable (rp_actor_id demo_reviewer)"
    using demo_texts by (simp_all add: demo_case_def demo_review_db_def demo_reviewer_def)
  have "make_review_decision_command (decision_command demo_reviewer demo_case_id (rvc_revision demo_case) BLOCK_EXPORT ''fine''
      [demo_evidence] (rvc_current_decision_id demo_case) ''r1'') = Inr (demo_command BLOCK_EXPORT)"
    using demo_command_made [of BLOCK_EXPORT] by (simp add: demo(1,2) demo_command_def)
  from decision_applied [OF demo_store_ok demo_load demo(5) this _ demo(3)] show ?thesis
    using demo_texts by (auto simp: demo)
qed

text \<open>
  \<^bold>\<open>C24.\<close> A decision is applied once. Repeating a command that was accepted, at any later time, is answered
  with the same case and the same decision and writes nothing. After it was applied, every other command
  that expects the revision it was made on is refused with a conflict that names the current revision.
\<close>

theorem decision_applied_once:
  assumes "review_store_ok d" and "submit_decision command now d = (Inr (v', x), d')"
  shows "submit_decision command later d' = (Inr (v', x), d')
    \<and> (d' \<noteq> d \<and> dc_case_id other = dc_case_id command \<and> dc_expected_case_revision other = dc_expected_case_revision command
        \<and> dc_command_digest other \<notin> rd_command_digest ` set (review_decisions d')
       \<longrightarrow> submit_decision other later d' = (Inl (Conflict (ReviewConflict (''expected review revision ''
             @ int_decimal (dc_expected_case_revision other) @ '', actual '' @ int_decimal (dc_expected_case_revision other + 1))
             ''Reload the review case and retry against its current revision.'')), d'))"
proof -
  have "submit_decision_tx command now d = Inr ((v', x), d')" using assms(2) by (simp add: submit_decision_Inr)
  then show ?thesis
  proof (cases rule: submit_decision_txE)
    case Replayed
    then show ?thesis using submit_decision_replayed by blast
  next
    case (Applied v)
    have reads: "load_case (dc_case_id command) d' = Inr v'" "decision_replay command d' = Inr (Some (v', x))"
      using applied_reads_back [OF assms(1) Applied(2) Applied(3) Applied(4) Applied(5)] by blast+
    obtain c p where read: "case_of_rows c p = Inr v" using load_caseE [OF Applied(2)] by metis
    note made = decide_review_caseD [OF Applied(3) case_of_rows_Inr(8) [OF read]]
    have v': "rvc_case_id v' = dc_case_id command" "rvc_revision v' = dc_expected_case_revision command + 1"
      using made(1,2) by (simp_all add: made(5))
    show ?thesis
    proof (intro conjI impI)
      show "submit_decision command later d' = (Inr (v', x), d')" by (rule submit_decision_replayed [OF reads(2)])
      assume other: "d' \<noteq> d \<and> dc_case_id other = dc_case_id command \<and> dc_expected_case_revision other = dc_expected_case_revision command
          \<and> dc_command_digest other \<notin> rd_command_digest ` set (review_decisions d')"
      then show "submit_decision other later d' = (Inl (Conflict (ReviewConflict (''expected review revision ''
          @ int_decimal (dc_expected_case_revision other) @ '', actual '' @ int_decimal (dc_expected_case_revision other + 1))
          ''Reload the review case and retry against its current revision.'')), d')"
        using submit_decision_stale [of other d' v' later] reads(1) v' by simp
    qed
  qed
qed

theorem decision_applied_once_witness:
  "\<exists>v' x d'. submit_decision (demo_command ACCEPT_CANDIDATE) (utc 9) demo_review_db = (Inr (v', x), d')
    \<and> submit_decision (demo_command ACCEPT_CANDIDATE) (utc 30) d' = (Inr (v', x), d')"
proof -
  obtain v' x where "submit_decision (demo_command ACCEPT_CANDIDATE) (utc 9) demo_review_db = (Inr (v', x), demo_review_db\<lparr>review_case_revisions :=
      review_case_revisions demo_review_db @ [case_revision_row v'], review_decisions := [x]\<rparr>)"
    using demo_submitted by metis
  then show ?thesis using decision_applied_once [OF demo_store_ok] by blast
qed

text \<open>
  The digest of an activation is taken over the expiry as it was given and compared with the digest over
  the expiry in UTC: when the two texts have different digests the activation is always refused.
\<close>

lemma non_utc_expiry_refused:
  assumes "suppression_command_digest kind target scopes reason (rp_actor_id reviewer) evidence None (Some t)
      \<noteq> suppression_command_digest kind target scopes reason (rp_actor_id reviewer) evidence None (Some (utc (instant t)))"
  shows "\<exists>e. service_activate_suppression reviewer kind target scopes reason evidence (Some t) corr clock d = (Inl e, d)"
proof -
  have "make_suppression_command (suppression_request reviewer kind target scopes reason evidence None (Some t) corr) \<noteq> Inr command" for command
    using assms by (auto simp: make_suppression_command_def suppression_request_def result_bind_eq_Inr rv_optional_aware_utc_def)
  then obtain e where "make_suppression_command (suppression_request reviewer kind target scopes reason evidence None (Some t) corr) = Inl e"
    by (cases "make_suppression_command (suppression_request reviewer kind target scopes reason evidence None (Some t) corr)") auto
  then show ?thesis
    by (cases "require_permission reviewer Review_SUPPRESS") (simp_all add: service_activate_suppression_def before_store_def)
qed

end
