(* ===== verification/Pipeline_Contracts.thy ===== *)
theory Pipeline_Contracts
  imports Run_Status Store_Tables
begin

text \<open>
  \<^verbatim>\<open>collection_application/pipeline_advancement.py\<close>: the data of pipeline advancement with the
  checks of their constructors, the registry that plans the transition of a successful work output,
  and the canonical digest that identifies a plan. A constructor that raises is a \<open>checked\<close> value.
\<close>

section \<open>Formats\<close>

text \<open>\<open>^[A-Za-z0-9][A-Za-z0-9._:@+/-]{0,199}$\<close>\<close>

definition pipeline_token :: "string \<Rightarrow> bool" where
  "pipeline_token = head_tail_pattern is_alnum (\<lambda>c. token_char c \<or> c = CHR ''/'') 199"

definition pl_require_token :: "string \<Rightarrow> string \<Rightarrow> unit checked" where
  "pl_require_token name v = guard (pipeline_token v) (ValueError (name @ '' has an invalid token format''))"

definition pl_require_sha256 :: "string \<Rightarrow> string \<Rightarrow> unit checked" where
  "pl_require_sha256 name v = guard (sha256_pattern v) (ValueError (name @ '' must be canonical SHA-256''))"

definition pl_require_aware_utc :: "string \<Rightarrow> datetime \<Rightarrow> unit checked" where
  "pl_require_aware_utc name v = guard (is_aware_utc v) (ValueError (name @ '' must be timezone-aware UTC''))"

section \<open>Values of a blocker context\<close>

text \<open>
  A context maps text to Python objects; which of them have a canonical form is decided when the
  context is encoded. \<open>PySequence\<close> is a sequence that is neither a list nor a tuple, \<open>PyOther\<close> any
  object of another type, both with the name of their type.
\<close>

datatype py_object = PyNone | PyBool bool | PyInt int | PyStr string | PyUuid uuid | PyEnum string
  | PyDict "(string \<times> py_object) list" | PyList "py_object list"
  | PySequence string "py_object list" | PyOther string

declare traverse_cong [fundef_cong]

function canonical_value :: "py_object \<Rightarrow> string + json" where
  "canonical_value (PyUuid u) = Inr (JStr (uuid_str u))"
| "canonical_value (PyEnum s) = Inr (JStr s)"
| "canonical_value (PyDict kvs) =
     result_bind (traverse (\<lambda>kv. result_bind (canonical_value (snd kv)) (\<lambda>j. Inr (fst kv, j))) (sort_key fst kvs))
       (\<lambda>js. Inr (JObj js))"
| "canonical_value (PyList xs) = result_bind (traverse canonical_value xs) (\<lambda>js. Inr (JList js))"
| "canonical_value (PySequence _ xs) = result_bind (traverse canonical_value xs) (\<lambda>js. Inr (JList js))"
| "canonical_value PyNone = Inr JNull"
| "canonical_value (PyStr s) = Inr (JStr s)"
| "canonical_value (PyInt n) = Inr (JInt n)"
| "canonical_value (PyBool b) = Inr (JBool b)"
| "canonical_value (PyOther t) = Inl t"
  by pat_completeness auto
termination
proof (relation "measure size", goal_cases)
  case (2 kvs kv)
  then have "kv \<in> set kvs" by simp
  then show ?case
    by (induction kvs) (auto simp: less_Suc_eq prod.size)
qed (auto simp: less_Suc_eq_le size_list_estimation' simp del: size_list_estimation)

type_synonym py_mapping = "(string \<times> py_object) list"

definition canonical_mapping :: "py_mapping \<Rightarrow> string + json" where
  "canonical_mapping m = canonical_value (PyDict m)"

section \<open>Artifacts and successful work\<close>

datatype pipeline_advancement_state = Advancement_PENDING | Advancement_LEASED | Advancement_APPLIED | Advancement_BLOCKED

fun advancement_state_value :: "pipeline_advancement_state \<Rightarrow> string" where
  "advancement_state_value Advancement_PENDING = ''pending''"
| "advancement_state_value Advancement_LEASED = ''leased''"
| "advancement_state_value Advancement_APPLIED = ''applied''"
| "advancement_state_value Advancement_BLOCKED = ''blocked''"

datatype pipeline_transition_disposition = Disposition_APPLY | Disposition_BLOCK

fun transition_disposition_value :: "pipeline_transition_disposition \<Rightarrow> string" where
  "transition_disposition_value Disposition_APPLY = ''apply''"
| "transition_disposition_value Disposition_BLOCK = ''block''"

record artifact_identity =
  ai_artifact_id :: uuid
  ai_role :: string
  ai_content_digest :: string
  ai_size_bytes :: int
  ai_content_type :: string

definition make_artifact_identity :: "artifact_identity \<Rightarrow> artifact_identity checked" where
  "make_artifact_identity a = result_bind (checks
     [pl_require_token ''artifact role'' (ai_role a),
      pl_require_sha256 ''artifact content digest'' (ai_content_digest a),
      guard (0 \<le> ai_size_bytes a) (ValueError ''artifact size cannot be negative''),
      require_plain_text ''artifact content type'' (ai_content_type a) 200]) (\<lambda>_. Inr a)"

record succeeded_work_output =
  so_source_work_unit_id :: uuid
  so_run_id :: uuid
  so_stage_run_id :: uuid
  so_stage :: work_stage
  so_capability :: string
  so_output_contract :: string
  so_output_digest :: string
  so_output_artifact :: artifact_identity
  so_input_artifacts :: "artifact_identity list"

definition make_succeeded_work_output :: "succeeded_work_output \<Rightarrow> succeeded_work_output checked" where
  "make_succeeded_work_output s = result_bind (checks
     [pl_require_token ''work capability'' (so_capability s),
      pl_require_token ''work output contract'' (so_output_contract s),
      pl_require_sha256 ''work output digest'' (so_output_digest s),
      guard (distinct (map ai_artifact_id (so_input_artifacts s)))
        (ValueError ''work input artifacts contain duplicate artifact identities''),
      guard (distinct (map ai_role (so_input_artifacts s)))
        (ValueError ''work input artifacts contain duplicate roles'')]) (\<lambda>_. Inr s)"

section \<open>Plans\<close>

record pipeline_blocker =
  pb_owner :: string
  pb_code :: string
  pb_message :: string
  pb_required_action :: string
  pb_context :: py_mapping

definition make_pipeline_blocker :: "pipeline_blocker \<Rightarrow> pipeline_blocker checked" where
  "make_pipeline_blocker b = result_bind (checks
     [pl_require_token ''pipeline blocker owner'' (pb_owner b),
      guard (code_pattern (pb_code b)) (ValueError ''pipeline blocker code must use canonical upper snake case''),
      require_plain_text ''pipeline blocker message'' (pb_message b) 1000,
      require_plain_text ''pipeline blocker required action'' (pb_required_action b) 1000]) (\<lambda>_. Inr b)"

record pipeline_transition_plan =
  tp_source_work_unit_id :: uuid
  tp_transition_key :: string
  tp_disposition :: pipeline_transition_disposition
  tp_plan_digest :: string
  tp_blocker :: "pipeline_blocker option"

definition make_transition_plan :: "pipeline_transition_plan \<Rightarrow> pipeline_transition_plan checked" where
  "make_transition_plan p = result_bind (checks
     [pl_require_token ''pipeline transition key'' (tp_transition_key p),
      pl_require_sha256 ''pipeline transition plan digest'' (tp_plan_digest p),
      guard (\<not> (tp_disposition p = Disposition_APPLY \<and> tp_blocker p \<noteq> None))
        (ValueError ''applicable pipeline transition cannot contain a blocker''),
      guard (\<not> (tp_disposition p = Disposition_BLOCK \<and> tp_blocker p = None))
        (ValueError ''blocked pipeline transition requires a blocker'')]) (\<lambda>_. Inr p)"

section \<open>Leases and statuses\<close>

record pipeline_advancement_lease =
  pll_advancement_id :: uuid
  pll_source_work_unit_id :: uuid
  pll_lease_id :: uuid
  pll_lease_token :: string
  pll_worker_id :: string
  pll_dagster_execution_id :: string
  pll_dagster_build_id :: string
  pll_transition_key :: string
  pll_transition_plan_digest :: string
  pll_revision :: int
  pll_attempt_number :: int
  pll_issued_at_utc :: datetime
  pll_expires_at_utc :: datetime

definition make_advancement_lease :: "pipeline_advancement_lease \<Rightarrow> pipeline_advancement_lease checked" where
  "make_advancement_lease l = result_bind (checks
     [pl_require_token ''pipeline lease token'' (pll_lease_token l),
      pl_require_token ''pipeline worker id'' (pll_worker_id l),
      pl_require_token ''Dagster execution id'' (pll_dagster_execution_id l),
      pl_require_token ''Dagster build id'' (pll_dagster_build_id l),
      pl_require_token ''pipeline transition key'' (pll_transition_key l),
      pl_require_sha256 ''pipeline transition plan digest'' (pll_transition_plan_digest l),
      guard (0 \<le> pll_revision l) (ValueError ''pipeline advancement revision cannot be negative''),
      guard (1 \<le> pll_attempt_number l) (ValueError ''pipeline advancement attempt number must be positive''),
      pl_require_aware_utc ''pipeline lease issued_at_utc'' (pll_issued_at_utc l),
      pl_require_aware_utc ''pipeline lease expires_at_utc'' (pll_expires_at_utc l),
      guard (instant (pll_issued_at_utc l) < instant (pll_expires_at_utc l))
        (ValueError ''pipeline lease expiry must follow issuance'')]) (\<lambda>_. Inr l)"

record pipeline_advancement_status =
  ps_advancement_id :: uuid
  ps_source_work_unit_id :: uuid
  ps_run_id :: uuid
  ps_state :: pipeline_advancement_state
  ps_transition_key :: string
  ps_transition_plan_digest :: string
  ps_revision :: int
  ps_attempt_count :: int
  ps_result_digest :: "string option"
  ps_blocker :: "pipeline_blocker option"
  ps_created_at_utc :: datetime
  ps_updated_at_utc :: datetime

definition require_terminal_shape :: "pipeline_advancement_status \<Rightarrow> unit checked" where
  "require_terminal_shape s =
     (case ps_state s of
        Advancement_APPLIED \<Rightarrow> guard (ps_result_digest s \<noteq> None \<and> ps_blocker s = None)
          (ValueError ''applied pipeline advancement requires only a result digest'')
      | Advancement_BLOCKED \<Rightarrow> guard (ps_blocker s \<noteq> None \<and> ps_result_digest s = None)
          (ValueError ''blocked pipeline advancement requires only a blocker'')
      | _ \<Rightarrow> guard (ps_result_digest s = None \<and> ps_blocker s = None)
          (ValueError ''non-terminal pipeline advancement cannot contain a terminal result''))"

definition make_advancement_status :: "pipeline_advancement_status \<Rightarrow> pipeline_advancement_status checked" where
  "make_advancement_status s = result_bind (checks
     [pl_require_token ''pipeline transition key'' (ps_transition_key s),
      pl_require_sha256 ''pipeline transition plan digest'' (ps_transition_plan_digest s),
      guard (0 \<le> ps_revision s) (ValueError ''pipeline advancement revision cannot be negative''),
      guard (0 \<le> ps_attempt_count s) (ValueError ''pipeline advancement attempt count cannot be negative''),
      (case ps_result_digest s of None \<Rightarrow> Inr ()
       | Some digest \<Rightarrow> pl_require_sha256 ''pipeline advancement result digest'' digest),
      pl_require_aware_utc ''pipeline advancement created_at_utc'' (ps_created_at_utc s),
      pl_require_aware_utc ''pipeline advancement updated_at_utc'' (ps_updated_at_utc s),
      guard (instant (ps_created_at_utc s) \<le> instant (ps_updated_at_utc s))
        (ValueError ''pipeline advancement update cannot precede creation''),
      require_terminal_shape s]) (\<lambda>_. Inr s)"

section \<open>Commands\<close>

record claim_pipeline_advancement =
  cl_worker_id :: string
  cl_dagster_execution_id :: string
  cl_dagster_build_id :: string
  cl_lease_duration :: timedelta
  cl_correlation_id :: string

definition make_claim :: "claim_pipeline_advancement \<Rightarrow> claim_pipeline_advancement checked" where
  "make_claim c = result_bind (checks
     [pl_require_token ''pipeline worker id'' (cl_worker_id c),
      pl_require_token ''Dagster execution id'' (cl_dagster_execution_id c),
      pl_require_token ''Dagster build id'' (cl_dagster_build_id c),
      pl_require_token ''correlation_id'' (cl_correlation_id c),
      guard (seconds 30 \<le> cl_lease_duration c \<and> cl_lease_duration c \<le> seconds 1800)
        (ValueError ''pipeline lease duration must be between 30 seconds and 30 minutes'')]) (\<lambda>_. Inr c)"

record apply_pipeline_advancement =
  ap_advancement_id :: uuid
  ap_expected_revision :: int
  ap_lease_id :: uuid
  ap_lease_token :: string
  ap_dagster_execution_id :: string
  ap_transition_plan_digest :: string
  ap_result_digest :: string
  ap_correlation_id :: string

definition make_apply :: "apply_pipeline_advancement \<Rightarrow> apply_pipeline_advancement checked" where
  "make_apply c = result_bind (checks
     [guard (0 \<le> ap_expected_revision c) (ValueError ''expected pipeline advancement revision cannot be negative''),
      pl_require_token ''pipeline lease token'' (ap_lease_token c),
      pl_require_token ''Dagster execution id'' (ap_dagster_execution_id c),
      pl_require_sha256 ''pipeline transition plan digest'' (ap_transition_plan_digest c),
      pl_require_sha256 ''pipeline advancement result digest'' (ap_result_digest c),
      pl_require_token ''correlation_id'' (ap_correlation_id c)]) (\<lambda>_. Inr c)"

record block_pipeline_advancement =
  bp_advancement_id :: uuid
  bp_expected_revision :: int
  bp_lease_id :: uuid
  bp_lease_token :: string
  bp_dagster_execution_id :: string
  bp_transition_plan_digest :: string
  bp_blocker :: pipeline_blocker
  bp_correlation_id :: string

definition make_block :: "block_pipeline_advancement \<Rightarrow> block_pipeline_advancement checked" where
  "make_block c = result_bind (checks
     [guard (0 \<le> bp_expected_revision c) (ValueError ''expected pipeline advancement revision cannot be negative''),
      pl_require_token ''pipeline lease token'' (bp_lease_token c),
      pl_require_token ''Dagster execution id'' (bp_dagster_execution_id c),
      pl_require_sha256 ''pipeline transition plan digest'' (bp_transition_plan_digest c),
      pl_require_token ''correlation_id'' (bp_correlation_id c)]) (\<lambda>_. Inr c)"

section \<open>The digest of a plan\<close>

definition artifact_payload :: "artifact_identity \<Rightarrow> json" where
  "artifact_payload a = JObj [(''artifactId'', JStr (uuid_str (ai_artifact_id a))), (''role'', JStr (ai_role a)),
     (''contentDigest'', JStr (ai_content_digest a)), (''sizeBytes'', JInt (ai_size_bytes a)),
     (''contentType'', JStr (ai_content_type a))]"

text \<open>\<open>sorted(source.input_artifacts, key=lambda value: (value.role, str(value.artifact_id)))\<close>\<close>

definition sorted_inputs :: "succeeded_work_output \<Rightarrow> artifact_identity list" where
  "sorted_inputs s = sort_key (\<lambda>a. (ai_role a, uuid_str (ai_artifact_id a))) (so_input_artifacts s)"

text \<open>An object without a canonical form is a \<open>TypeError\<close> of the encoder.\<close>

datatype planning_error = PlanValueError value_error | PlanTypeError string

definition of_plan_check :: "'a checked \<Rightarrow> planning_error + 'a" where
  "of_plan_check r = map_error PlanValueError r"

definition blocker_json :: "pipeline_blocker option \<Rightarrow> planning_error + json" where
  "blocker_json blocker =
     (case blocker of
        None \<Rightarrow> Inr JNull
      | Some b \<Rightarrow>
          map_error (\<lambda>t. PlanTypeError (''unsupported canonical pipeline value: '' @ t))
            (result_bind (canonical_mapping (pb_context b)) (\<lambda>context.
              Inr (JObj [(''owner'', JStr (pb_owner b)), (''code'', JStr (pb_code b)), (''message'', JStr (pb_message b)),
                (''requiredAction'', JStr (pb_required_action b)), (''context'', context)]))))"

definition transition_plan_digest :: "succeeded_work_output \<Rightarrow> string \<Rightarrow> pipeline_transition_disposition
    \<Rightarrow> pipeline_blocker option \<Rightarrow> planning_error + string" where
  "transition_plan_digest s transition_key disposition blocker =
     result_bind (blocker_json blocker) (\<lambda>b.
       Inr (json_digest (JObj
         [(''sourceWorkUnitId'', JStr (uuid_str (so_source_work_unit_id s))), (''runId'', JStr (uuid_str (so_run_id s))),
          (''stageRunId'', JStr (uuid_str (so_stage_run_id s))), (''stage'', JStr (work_stage_value (so_stage s))),
          (''capability'', JStr (so_capability s)), (''outputContract'', JStr (so_output_contract s)),
          (''outputDigest'', JStr (so_output_digest s)), (''outputArtifact'', artifact_payload (so_output_artifact s)),
          (''inputArtifacts'', JList (map artifact_payload (sorted_inputs s))),
          (''transitionKey'', JStr transition_key), (''disposition'', JStr (transition_disposition_value disposition)),
          (''blocker'', b)])))"

section \<open>The registry\<close>

definition plan_of :: "succeeded_work_output \<Rightarrow> string \<Rightarrow> pipeline_transition_disposition
    \<Rightarrow> pipeline_blocker option \<Rightarrow> planning_error + pipeline_transition_plan" where
  "plan_of s transition_key disposition blocker =
     result_bind (transition_plan_digest s transition_key disposition blocker) (\<lambda>digest.
       of_plan_check (make_transition_plan \<lparr>tp_source_work_unit_id = so_source_work_unit_id s,
         tp_transition_key = transition_key, tp_disposition = disposition, tp_plan_digest = digest,
         tp_blocker = blocker\<rparr>))"

definition blocked_plan :: "succeeded_work_output \<Rightarrow> string \<Rightarrow> string \<Rightarrow> string \<Rightarrow> string \<Rightarrow> py_mapping
    \<Rightarrow> planning_error + pipeline_transition_plan" where
  "blocked_plan s transition_key code message required_action context =
     result_bind (of_plan_check (make_pipeline_blocker \<lparr>pb_owner = ''PipelineAdvancement'', pb_code = code,
         pb_message = message, pb_required_action = required_action,
         pb_context = (''sourceWorkUnitId'', PyStr (uuid_str (so_source_work_unit_id s))) # context\<rparr>)) (\<lambda>blocker.
       plan_of s transition_key Disposition_BLOCK (Some blocker))"

text \<open>\<open>^manual_source:(csv|json|jsonl):(atomic|partial)$\<close> and the same after \<open>manual_import_source\<close>.\<close>

definition manual_source_roles :: "string list" where
  "manual_source_roles = [prefix @ '':'' @ format @ '':'' @ mode. prefix \<leftarrow> [''manual_source'', ''manual_import_source''],
     format \<leftarrow> [''csv'', ''json'', ''jsonl''], mode \<leftarrow> [''atomic'', ''partial'']]"

definition manual_sources :: "succeeded_work_output \<Rightarrow> artifact_identity list" where
  "manual_sources s = filter (\<lambda>a. ai_role a \<in> set manual_source_roles) (so_input_artifacts s)"

definition manual_import_plan :: "succeeded_work_output \<Rightarrow> planning_error + pipeline_transition_plan" where
  "manual_import_plan s =
     (let parents = manual_sources s
      in if ai_role (so_output_artifact s) \<noteq> ''manual_import_plan''
         then blocked_plan s ''manual-import-plan-admission'' ''PIPELINE_OUTPUT_ARTIFACT_CONFLICT''
                ''The manual-import plan output role does not match its contract.''
                ''Re-run the exact manual-import work with the canonical output role.''
                [(''expectedRole'', PyStr ''manual_import_plan''), (''actualRole'', PyStr (ai_role (so_output_artifact s)))]
         else if parents = []
         then blocked_plan s ''manual-import-plan-admission'' ''PIPELINE_INPUT_ARTIFACT_MISSING''
                ''The manual-import plan has no canonical source artifact binding.''
                ''Bind exactly one canonical manual source artifact and re-run the source work.''
                [(''requiredRolePattern'', PyStr ''manual[_import]_source:<format>:<atomic|partial>'')]
         else if length parents \<noteq> 1
         then blocked_plan s ''manual-import-plan-admission'' ''PIPELINE_INPUT_ARTIFACT_CONFLICT''
                ''The manual-import plan has multiple canonical source artifact bindings.''
                (''Repair the source work so exactly one canonical '' @ ''manual source artifact is bound.'')
                [(''matchingArtifactIds'', PyList (map (\<lambda>a. PyStr (uuid_str (ai_artifact_id a))) parents))]
         else plan_of s ''manual-import-plan-admission'' Disposition_APPLY None)"

definition manual_record :: "succeeded_work_output \<Rightarrow> planning_error + pipeline_transition_plan" where
  "manual_record s =
     (if ai_role (so_output_artifact s) \<noteq> ''manual_import_record''
      then blocked_plan s ''manual-record-routing'' ''PIPELINE_OUTPUT_ARTIFACT_CONFLICT''
             ''The manual-record output role does not match its contract.''
             ''Re-run the exact manual-record work with the canonical output role.''
             [(''expectedRole'', PyStr ''manual_import_record''), (''actualRole'', PyStr (ai_role (so_output_artifact s)))]
      else blocked_plan s ''manual-record-routing'' ''MANUAL_RECORD_DOWNSTREAM_SOURCE_UNAVAILABLE''
             ''The manual record has no approved downstream source owner in this campaign.''
             (''Publish exact website or OSM source bindings in a new campaign snapshot before ''
                @ ''creating acquisition work.'')
             [(''campaignRunId'', PyStr (uuid_str (so_run_id s)))])"

definition registry_plan :: "succeeded_work_output \<Rightarrow> planning_error + pipeline_transition_plan" where
  "registry_plan s =
     (if so_stage s = Stage_DISCOVERY \<and> so_capability s = ''manual_import''
         \<and> so_output_contract s = ''manual-import-plan@1''
      then manual_import_plan s
      else if so_stage s = Stage_DISCOVERY \<and> so_capability s = ''manual_record''
         \<and> so_output_contract s = ''manual-import-record@1''
      then manual_record s
      else blocked_plan s ''unsupported-transition'' ''PIPELINE_TRANSITION_UNSUPPORTED''
             ''No pipeline transition owns the successful work output contract.''
             ''Implement and register an exact owner transition before this output may advance.''
             [(''stage'', PyStr (work_stage_value (so_stage s))), (''capability'', PyStr (so_capability s)),
              (''outputContract'', PyStr (so_output_contract s)), (''outputRole'', PyStr (ai_role (so_output_artifact s)))])"

end
