(* ===== verification/Pipeline_Schema.thy ===== *)
theory Pipeline_Schema
  imports Pipeline_Contracts
begin

text \<open>
  The tables of pipeline advancement: \<^verbatim>\<open>postgres/pipeline_advancement_metadata.py\<close> with the
  constraints that migration \<^verbatim>\<open>20260815_0013_pipeline_advancement.py\<close> adds, next to the tables
  of the engine they refer to. The thirteen columns copied from the source, the five columns of a
  blocker and the seven columns of a lease are records of their own. A JSONB column is a JSON value; in a
  nullable one \<open>None\<close> is SQL NULL, which is not the JSON value \<open>null\<close>.
\<close>

section \<open>Rows\<close>

record source_columns =
  sw_source_work_unit_id :: uuid
  sw_run_id :: uuid
  sw_stage_run_id :: uuid
  sw_source_stage :: string
  sw_source_capability :: string
  sw_source_output_contract :: string
  sw_source_output_digest :: string
  sw_source_output_artifact_id :: uuid
  sw_source_output_artifact_role :: string
  sw_source_output_artifact_digest :: string
  sw_source_output_artifact_size_bytes :: int
  sw_source_output_artifact_content_type :: string
  sw_source_input_artifacts :: "json list"

record blocker_columns =
  bk_owner :: "string option"
  bk_code :: "string option"
  bk_message :: "string option"
  bk_required_action :: "string option"
  bk_context :: "json option"

record lease_columns =
  ls_active_lease_id :: "uuid option"
  ls_active_lease_token_digest :: "string option"
  ls_leased_by_worker_id :: "string option"
  ls_dagster_execution_id :: "string option"
  ls_dagster_build_id :: "string option"
  ls_lease_issued_at_utc :: "int option"
  ls_lease_expires_at_utc :: "int option"

record advancement_row =
  pa_advancement_id :: uuid
  pa_source :: source_columns
  pa_transition_key :: string
  pa_transition_plan_digest :: string
  pa_state :: pipeline_advancement_state
  pa_revision :: int
  pa_attempt_count :: int
  pa_result_digest :: "string option"
  pa_blocker :: blocker_columns
  pa_lease :: lease_columns
  pa_created_at_utc :: int
  pa_updated_at_utc :: int
  pa_correlation_id :: string

datatype advancement_event_kind = Event_REGISTERED_BLOCK | Event_LEASED | Event_EXPIRED | Event_APPLIED | Event_BLOCKED

record advancement_event_row =
  pe_event_id :: uuid
  pe_advancement_id :: uuid
  pe_attempt_number :: int
  pe_event_kind :: advancement_event_kind
  pe_lease_id :: "uuid option"
  pe_lease_token_digest :: "string option"
  pe_worker_id :: "string option"
  pe_dagster_execution_id :: "string option"
  pe_dagster_build_id :: "string option"
  pe_transition_plan_digest :: string
  pe_lease_expires_at_utc :: "int option"
  pe_result_digest :: "string option"
  pe_blocker :: blocker_columns
  pe_occurred_at_utc :: int
  pe_correlation_id :: string

definition no_blocker :: blocker_columns where
  "no_blocker = \<lparr>bk_owner = None, bk_code = None, bk_message = None, bk_required_action = None, bk_context = None\<rparr>"

definition no_lease :: lease_columns where
  "no_lease = \<lparr>ls_active_lease_id = None, ls_active_lease_token_digest = None, ls_leased_by_worker_id = None,
     ls_dagster_execution_id = None, ls_dagster_build_id = None, ls_lease_issued_at_utc = None,
     ls_lease_expires_at_utc = None\<rparr>"

record pipeline_db =
  pl_work :: db
  pipeline_advancements :: "advancement_row list"
  pipeline_advancement_attempts :: "advancement_event_row list"

section \<open>Columns\<close>

fun json_storable :: "json \<Rightarrow> bool" where
  "json_storable (JStr s) \<longleftrightarrow> storable s"
| "json_storable (JList xs) \<longleftrightarrow> (\<forall>x \<in> set xs. json_storable x)"
| "json_storable (JObj kvs) \<longleftrightarrow> (\<forall>kv \<in> set kvs. storable (fst kv) \<and> json_storable (snd kv))"
| "json_storable _ \<longleftrightarrow> True"

definition blocker_storable :: "blocker_columns \<Rightarrow> bool" where
  "blocker_storable b \<longleftrightarrow> optional storable (bk_owner b) \<and> optional storable (bk_code b)
     \<and> optional storable (bk_message b) \<and> optional storable (bk_required_action b) \<and> optional json_storable (bk_context b)"

definition source_storable :: "source_columns \<Rightarrow> bool" where
  "source_storable s \<longleftrightarrow> storable (sw_source_stage s) \<and> storable (sw_source_capability s)
     \<and> storable (sw_source_output_contract s) \<and> storable (sw_source_output_digest s)
     \<and> storable (sw_source_output_artifact_role s) \<and> storable (sw_source_output_artifact_digest s)
     \<and> int8 (sw_source_output_artifact_size_bytes s) \<and> storable (sw_source_output_artifact_content_type s)
     \<and> list_all json_storable (sw_source_input_artifacts s)"

definition lease_storable :: "lease_columns \<Rightarrow> bool" where
  "lease_storable l \<longleftrightarrow> optional storable (ls_active_lease_token_digest l) \<and> optional storable (ls_leased_by_worker_id l)
     \<and> optional storable (ls_dagster_execution_id l) \<and> optional storable (ls_dagster_build_id l)"

definition advancement_columns :: "advancement_row \<Rightarrow> bool" where
  "advancement_columns r \<longleftrightarrow> source_storable (pa_source r) \<and> storable (pa_transition_key r)
     \<and> storable (pa_transition_plan_digest r) \<and> int8 (pa_revision r) \<and> int8 (pa_attempt_count r)
     \<and> optional storable (pa_result_digest r) \<and> blocker_storable (pa_blocker r) \<and> lease_storable (pa_lease r)
     \<and> storable (pa_correlation_id r)"

definition event_columns :: "advancement_event_row \<Rightarrow> bool" where
  "event_columns e \<longleftrightarrow> int8 (pe_attempt_number e) \<and> optional storable (pe_lease_token_digest e)
     \<and> optional storable (pe_worker_id e) \<and> optional storable (pe_dagster_execution_id e)
     \<and> optional storable (pe_dagster_build_id e) \<and> storable (pe_transition_plan_digest e)
     \<and> optional storable (pe_result_digest e) \<and> blocker_storable (pe_blocker e) \<and> storable (pe_correlation_id e)"

definition pipeline_columns :: "pipeline_db \<Rightarrow> bool" where
  "pipeline_columns d \<longleftrightarrow> columns_in_range (pl_work d) \<and> list_all advancement_columns (pipeline_advancements d)
     \<and> list_all event_columns (pipeline_advancement_attempts d)"

section \<open>Constraints\<close>

text \<open>\<open>ck_pipeline_advancements_lease_payload\<close>\<close>

definition lease_payload :: "lease_columns \<Rightarrow> bool" where
  "lease_payload l \<longleftrightarrow> l = no_lease
     \<or> (ls_active_lease_id l \<noteq> None \<and> ls_active_lease_token_digest l \<noteq> None \<and> ls_leased_by_worker_id l \<noteq> None
        \<and> ls_dagster_execution_id l \<noteq> None \<and> ls_dagster_build_id l \<noteq> None
        \<and> (case (ls_lease_issued_at_utc l, ls_lease_expires_at_utc l) of
             (Some issued, Some expires) \<Rightarrow> issued < expires | _ \<Rightarrow> False))"

text \<open>\<open>ck_pipeline_advancements_blocker_payload\<close> and the same constraint on the events.\<close>

definition blocker_payload :: "blocker_columns \<Rightarrow> bool" where
  "blocker_payload b \<longleftrightarrow> b = no_blocker
     \<or> (bk_owner b \<noteq> None \<and> bk_code b \<noteq> None \<and> bk_message b \<noteq> None \<and> bk_required_action b \<noteq> None \<and> bk_context b \<noteq> None)"

text \<open>\<open>ck_pipeline_advancements_terminal_payload\<close>\<close>

definition terminal_payload :: "advancement_row \<Rightarrow> bool" where
  "terminal_payload r \<longleftrightarrow> (case pa_state r of
       Advancement_APPLIED \<Rightarrow> pa_result_digest r \<noteq> None \<and> bk_code (pa_blocker r) = None
     | Advancement_BLOCKED \<Rightarrow> pa_result_digest r = None \<and> bk_code (pa_blocker r) \<noteq> None
     | _ \<Rightarrow> pa_result_digest r = None \<and> bk_code (pa_blocker r) = None)"

definition advancement_check :: "advancement_row \<Rightarrow> bool" where
  "advancement_check r \<longleftrightarrow> sha256_pattern (sw_source_output_digest (pa_source r))
     \<and> sha256_pattern (sw_source_output_artifact_digest (pa_source r)) \<and> sha256_pattern (pa_transition_plan_digest r)
     \<and> optional sha256_pattern (pa_result_digest r) \<and> 0 \<le> sw_source_output_artifact_size_bytes (pa_source r)
     \<and> 0 \<le> pa_revision r \<and> 0 \<le> pa_attempt_count r
     \<and> (pa_state r = Advancement_LEASED) = (ls_active_lease_id (pa_lease r) \<noteq> None)
     \<and> lease_payload (pa_lease r) \<and> blocker_payload (pa_blocker r) \<and> terminal_payload r"

text \<open>\<open>ck_pipeline_advancement_attempts_event_payload\<close>\<close>

definition event_payload :: "advancement_event_row \<Rightarrow> bool" where
  "event_payload e \<longleftrightarrow> (case pe_event_kind e of
       Event_REGISTERED_BLOCK \<Rightarrow> pe_attempt_number e = 0 \<and> pe_lease_id e = None \<and> bk_code (pe_blocker e) \<noteq> None
     | Event_LEASED \<Rightarrow> 0 < pe_attempt_number e \<and> pe_lease_id e \<noteq> None \<and> pe_lease_token_digest e \<noteq> None
         \<and> pe_worker_id e \<noteq> None \<and> pe_dagster_execution_id e \<noteq> None \<and> pe_dagster_build_id e \<noteq> None
         \<and> pe_lease_expires_at_utc e \<noteq> None \<and> pe_result_digest e = None \<and> bk_code (pe_blocker e) = None
     | Event_EXPIRED \<Rightarrow> 0 < pe_attempt_number e \<and> pe_lease_id e \<noteq> None \<and> pe_result_digest e = None
         \<and> bk_code (pe_blocker e) = None
     | Event_APPLIED \<Rightarrow> 0 < pe_attempt_number e \<and> pe_lease_id e \<noteq> None \<and> pe_result_digest e \<noteq> None
         \<and> bk_code (pe_blocker e) = None
     | Event_BLOCKED \<Rightarrow> 0 < pe_attempt_number e \<and> pe_lease_id e \<noteq> None \<and> pe_result_digest e = None
         \<and> bk_code (pe_blocker e) \<noteq> None)"

definition event_check :: "advancement_event_row \<Rightarrow> bool" where
  "event_check e \<longleftrightarrow> 0 \<le> pe_attempt_number e \<and> sha256_pattern (pe_transition_plan_digest e)
     \<and> optional sha256_pattern (pe_lease_token_digest e) \<and> optional sha256_pattern (pe_result_digest e)
     \<and> blocker_payload (pe_blocker e) \<and> event_payload e"

definition event_key :: "advancement_event_row \<Rightarrow> uuid \<times> int \<times> advancement_event_kind" where
  "event_key e = (pe_advancement_id e, pe_attempt_number e, pe_event_kind e)"

abbreviation source_id :: "advancement_row \<Rightarrow> uuid" where
  "source_id r \<equiv> sw_source_work_unit_id (pa_source r)"

definition pipeline_unique :: "pipeline_db \<Rightarrow> bool" where
  "pipeline_unique d \<longleftrightarrow> distinct (map pa_advancement_id (pipeline_advancements d))
     \<and> distinct (map source_id (pipeline_advancements d))
     \<and> distinct (map pe_event_id (pipeline_advancement_attempts d))
     \<and> distinct (map event_key (pipeline_advancement_attempts d))"

definition pipeline_references :: "pipeline_db \<Rightarrow> bool" where
  "pipeline_references d \<longleftrightarrow>
     list_all (\<lambda>r. source_id r \<in> wu_work_id ` set (work_units (pl_work d))
         \<and> sw_run_id (pa_source r) \<in> cr_run_id ` set (collection_runs (pl_work d))
         \<and> sw_stage_run_id (pa_source r) \<in> sr_stage_run_id ` set (stage_runs (pl_work d))) (pipeline_advancements d)
     \<and> list_all (\<lambda>e. pe_advancement_id e \<in> pa_advancement_id ` set (pipeline_advancements d))
         (pipeline_advancement_attempts d)"

definition pipeline_constraints :: "pipeline_db \<Rightarrow> bool" where
  "pipeline_constraints d \<longleftrightarrow> schema_ok (pl_work d) \<and> list_all advancement_check (pipeline_advancements d)
     \<and> list_all event_check (pipeline_advancement_attempts d) \<and> pipeline_unique d \<and> pipeline_references d"

definition pipeline_store_ok :: "pipeline_db \<Rightarrow> bool" where
  "pipeline_store_ok d \<longleftrightarrow> pipeline_columns d \<and> pipeline_constraints d"

end
