(* ===== verification/Pipeline_Store.thy ===== *)
theory Pipeline_Store
  imports Pipeline_Schema
begin

text \<open>
  \<^verbatim>\<open>postgres/pipeline_advancement.py\<close>, \<open>PostgresPipelineAdvancementRepository\<close>, statement by
  statement. The reader of canonical work and the appliers of transitions are injected into the
  repository and are arguments here. What one call takes from its surroundings is the record
  \<open>call_context\<close>: the clock, the successive UUIDs, the lease token and the advancements that
  concurrent transactions hold, which \<open>SKIP LOCKED\<close> passes over. Any other lock only delays. A
  transaction commits or leaves the database as it was. Leases that expire at the same instant are
  visited in the order of the table; the order decides nothing but which UUID an event gets.
\<close>

section \<open>Conflicts\<close>

datatype pipeline_conflict =
    PIPELINE_SOURCE_PLAN_CONFLICT uuid uuid
  | PIPELINE_CLAIM_CONFLICT uuid
  | PIPELINE_APPLIER_UNAVAILABLE uuid string
  | PIPELINE_RESULT_DIGEST_CONFLICT uuid string string
  | PIPELINE_LEASE_STALE uuid "pipeline_advancement_state option"
  | PIPELINE_REVISION_CONFLICT uuid "(int \<times> int) option"
  | PIPELINE_LEASE_TOKEN_INVALID uuid
  | PIPELINE_DAGSTER_EXECUTION_CONFLICT uuid string string
  | PIPELINE_PLAN_DIGEST_CONFLICT uuid string string
  | PIPELINE_LEASE_EXPIRED uuid
  | PIPELINE_ADVANCEMENT_NOT_FOUND uuid
  | PIPELINE_SOURCE_OUTPUT_CONFLICT uuid bool
  | PIPELINE_REGISTRATION_CONFLICT uuid string string
  | PIPELINE_STORAGE_FAILED "uuid option" string
  | PIPELINE_CATALOG_CONFLICT string string uuid string
  | PIPELINE_OUTPUT_ARTIFACT_CARDINALITY uuid nat
  | PIPELINE_DISCOVERY_STORAGE_FAILED string

type_synonym pipeline_exn = "pipeline_conflict store_exn"

record pipeline_conflict_data =
  pcd_code :: string
  pcd_message :: string
  pcd_context :: "(string \<times> json) list"
  pcd_required_action :: string

abbreviation juuid :: "uuid \<Rightarrow> json" where
  "juuid u \<equiv> JStr (uuid_str u)"

definition conflict_data :: "string \<Rightarrow> string \<Rightarrow> (string \<times> json) list \<Rightarrow> string \<Rightarrow> pipeline_conflict_data" where
  "conflict_data code message context action =
     \<lparr>pcd_code = code, pcd_message = message, pcd_context = context, pcd_required_action = action\<rparr>"

definition pipeline_conflict_details :: "pipeline_conflict \<Rightarrow> pipeline_conflict_data" where
  "pipeline_conflict_details c = (case c of
    PIPELINE_SOURCE_PLAN_CONFLICT source plan \<Rightarrow> conflict_data ''PIPELINE_SOURCE_PLAN_CONFLICT''
      ''The transition plan belongs to a different source work unit.''
      [(''sourceWorkUnitId'', juuid source), (''planSourceWorkUnitId'', juuid plan)]
      ''Recompute the transition plan from the exact successful output.''
  | PIPELINE_CLAIM_CONFLICT a \<Rightarrow> conflict_data ''PIPELINE_CLAIM_CONFLICT''
      ''The pipeline advancement changed during lease acquisition.''
      [(''advancementId'', juuid a)] ''Retry claim from the canonical pending queue.''
  | PIPELINE_APPLIER_UNAVAILABLE a key \<Rightarrow> conflict_data ''PIPELINE_APPLIER_UNAVAILABLE''
      ''The registered pipeline transition has no runtime applier.''
      [(''advancementId'', juuid a), (''transitionKey'', JStr key)]
      ''Install the exact transition applier before leasing this advancement.''
  | PIPELINE_RESULT_DIGEST_CONFLICT a requested actual \<Rightarrow> conflict_data ''PIPELINE_RESULT_DIGEST_CONFLICT''
      ''The transition result digest differs from the requested completion.''
      [(''advancementId'', juuid a), (''requestedDigest'', JStr requested), (''actualDigest'', JStr actual)]
      ''Re-read the exact transition result and complete with its canonical digest.''
  | PIPELINE_LEASE_STALE a (Some state) \<Rightarrow> conflict_data ''PIPELINE_LEASE_STALE''
      ''The pipeline advancement no longer has an active lease.''
      [(''advancementId'', juuid a), (''state'', JStr (advancement_state_value state))]
      ''Discard the stale completion and claim pending work again.''
  | PIPELINE_LEASE_STALE a None \<Rightarrow> conflict_data ''PIPELINE_LEASE_STALE''
      ''The pipeline lease identity is stale.'' [(''advancementId'', juuid a)]
      ''Discard the stale completion and use the current lease only.''
  | PIPELINE_REVISION_CONFLICT a (Some (expected, actual)) \<Rightarrow> conflict_data ''PIPELINE_REVISION_CONFLICT''
      ''The pipeline advancement changed after it was leased.''
      [(''advancementId'', juuid a), (''expectedRevision'', JInt expected), (''actualRevision'', JInt actual)]
      ''Discard the stale completion and reload canonical state.''
  | PIPELINE_REVISION_CONFLICT a None \<Rightarrow> conflict_data ''PIPELINE_REVISION_CONFLICT''
      ''The pipeline advancement changed during terminal completion.'' [(''advancementId'', juuid a)]
      ''Discard the stale result and reload canonical state.''
  | PIPELINE_LEASE_TOKEN_INVALID a \<Rightarrow> conflict_data ''PIPELINE_LEASE_TOKEN_INVALID''
      ''The pipeline lease token is invalid.'' [(''advancementId'', juuid a)]
      ''Use only the token issued with the current lease.''
  | PIPELINE_DAGSTER_EXECUTION_CONFLICT a expected actual \<Rightarrow> conflict_data ''PIPELINE_DAGSTER_EXECUTION_CONFLICT''
      ''The completion belongs to a different Dagster execution.''
      [(''advancementId'', juuid a), (''expectedExecutionId'', JStr expected), (''actualExecutionId'', JStr actual)]
      ''Complete only from the execution that owns the current lease.''
  | PIPELINE_PLAN_DIGEST_CONFLICT a expected actual \<Rightarrow> conflict_data ''PIPELINE_PLAN_DIGEST_CONFLICT''
      ''The pipeline transition plan changed or was substituted.''
      [(''advancementId'', juuid a), (''expectedDigest'', JStr expected), (''actualDigest'', JStr actual)]
      ''Reload and execute the exact registered transition plan.''
  | PIPELINE_LEASE_EXPIRED a \<Rightarrow> conflict_data ''PIPELINE_LEASE_EXPIRED''
      ''The pipeline advancement lease expired before completion.'' [(''advancementId'', juuid a)]
      ''Discard the result and claim the advancement again.''
  | PIPELINE_ADVANCEMENT_NOT_FOUND a \<Rightarrow> conflict_data ''PIPELINE_ADVANCEMENT_NOT_FOUND''
      ''The requested pipeline advancement does not exist.'' [(''advancementId'', juuid a)]
      ''Refresh pipeline state and select an existing advancement.''
  | PIPELINE_SOURCE_OUTPUT_CONFLICT source requested \<Rightarrow> conflict_data ''PIPELINE_SOURCE_OUTPUT_CONFLICT''
      (if requested then ''The requested successful output differs from canonical work evidence.''
       else ''Canonical successful work evidence changed after registration.'')
      [(''sourceWorkUnitId'', juuid source)]
      (if requested then ''Reload the exact successful work output and recompute its transition.''
       else ''Stop advancement and repair immutable source evidence ownership.'')
  | PIPELINE_REGISTRATION_CONFLICT source registered requested \<Rightarrow> conflict_data ''PIPELINE_REGISTRATION_CONFLICT''
      ''The successful work already has a different advancement plan.''
      [(''sourceWorkUnitId'', juuid source), (''registeredTransitionKey'', JStr registered),
       (''requestedTransitionKey'', JStr requested)]
      ''Use the immutable registered plan or repair its owner explicitly.''
  | PIPELINE_STORAGE_FAILED identity cause \<Rightarrow> conflict_data ''PIPELINE_STORAGE_FAILED''
      ''The Pipeline Advancement database operation did not complete.''
      ((''causeType'', JStr cause) # case_option [] (\<lambda>u. [(''identity'', juuid u)]) identity)
      ''Inspect PostgreSQL owner state and retry the exact operation.''
  | PIPELINE_CATALOG_CONFLICT code message source action \<Rightarrow>
      conflict_data code message [(''sourceWorkUnitId'', juuid source)] action
  | PIPELINE_OUTPUT_ARTIFACT_CARDINALITY source n \<Rightarrow> conflict_data ''PIPELINE_OUTPUT_ARTIFACT_CARDINALITY''
      ''Successful work must bind exactly one canonical output artifact.''
      [(''sourceWorkUnitId'', juuid source), (''outputArtifactCount'', JInt (int n))]
      ''Repair work completion so the exact output contract has one canonical artifact.''
  | PIPELINE_DISCOVERY_STORAGE_FAILED cause \<Rightarrow> conflict_data ''PIPELINE_DISCOVERY_STORAGE_FAILED''
      ''Successful work discovery did not complete.'' [(''causeType'', JStr cause)]
      ''Inspect PostgreSQL owner state and retry exact discovery.'')"

section \<open>Surroundings\<close>

record call_context =
  cc_clock :: datetime
  cc_uuids :: "nat \<Rightarrow> uuid"
  cc_lease_token :: string
  cc_locked :: "uuid set"

type_synonym source_reader = "pipeline_db \<Rightarrow> uuid \<Rightarrow> pipeline_exn + succeeded_work_output"

type_synonym transition_applier =
  "succeeded_work_output \<Rightarrow> pipeline_transition_plan \<Rightarrow> string \<Rightarrow> pipeline_db \<Rightarrow> pipeline_exn + (string \<times> pipeline_db)"

type_synonym transition_appliers = "string \<Rightarrow> transition_applier option"

definition pl_now_utc :: "call_context \<Rightarrow> pipeline_exn + int" where
  "pl_now_utc ctx = (if is_aware_utc (cc_clock ctx) then Inr (instant (cc_clock ctx))
     else Inl (StoreValueError (ValueError ''Pipeline Advancement clock must return timezone-aware UTC'')))"

definition pl_execute :: "(pipeline_db \<Rightarrow> pipeline_db) \<Rightarrow> pipeline_db \<Rightarrow> pipeline_exn + pipeline_db" where
  "pl_execute statement d =
     (let d' = statement d
      in if \<not> pipeline_columns d' then Inl (SQLAlchemyError ''DataError'')
         else if \<not> pipeline_constraints d' then Inl (SQLAlchemyError ''IntegrityError'')
         else Inr d')"

definition storage_conflict :: "uuid option \<Rightarrow> pipeline_exn \<Rightarrow> pipeline_exn" where
  "storage_conflict identity e =
     (case e of SQLAlchemyError cause \<Rightarrow> Conflict (PIPELINE_STORAGE_FAILED identity cause) | _ \<Rightarrow> e)"

text \<open>\<open>with self._engine.begin()\<close> inside \<open>try \<dots> except SQLAlchemyError\<close>, after the clock was read.\<close>

definition pl_transaction :: "call_context \<Rightarrow> uuid option
    \<Rightarrow> (int \<Rightarrow> pipeline_db \<Rightarrow> pipeline_exn + ('a \<times> pipeline_db)) \<Rightarrow> pipeline_db \<Rightarrow> (pipeline_exn + 'a) \<times> pipeline_db" where
  "pl_transaction ctx identity body d =
     (case pl_now_utc ctx of
        Inl e \<Rightarrow> (Inl e, d)
      | Inr now \<Rightarrow>
          (case body now d of
             Inr (x, d') \<Rightarrow> (Inr x, d')
           | Inl e \<Rightarrow> (Inl (storage_conflict identity e), d)))"

section \<open>Columns and values\<close>

definition pl_source_values :: "succeeded_work_output \<Rightarrow> source_columns" where
  "pl_source_values s = \<lparr>sw_source_work_unit_id = so_source_work_unit_id s, sw_run_id = so_run_id s,
     sw_stage_run_id = so_stage_run_id s, sw_source_stage = work_stage_value (so_stage s),
     sw_source_capability = so_capability s, sw_source_output_contract = so_output_contract s,
     sw_source_output_digest = so_output_digest s, sw_source_output_artifact_id = ai_artifact_id (so_output_artifact s),
     sw_source_output_artifact_role = ai_role (so_output_artifact s),
     sw_source_output_artifact_digest = ai_content_digest (so_output_artifact s),
     sw_source_output_artifact_size_bytes = ai_size_bytes (so_output_artifact s),
     sw_source_output_artifact_content_type = ai_content_type (so_output_artifact s),
     sw_source_input_artifacts = map artifact_payload (sorted_inputs s)\<rparr>"

function json_value :: "py_object \<Rightarrow> string + json" where
  "json_value (PyUuid u) = Inr (JStr (uuid_str u))"
| "json_value (PyEnum s) = Inr (JStr s)"
| "json_value (PyDict kvs) =
     result_bind (traverse (\<lambda>kv. result_bind (json_value (snd kv)) (\<lambda>j. Inr (fst kv, j))) (sort_key fst kvs))
       (\<lambda>js. Inr (JObj js))"
| "json_value (PyList xs) = result_bind (traverse json_value xs) (\<lambda>js. Inr (JList js))"
| "json_value (PySequence t _) = Inl t"
| "json_value PyNone = Inr JNull"
| "json_value (PyStr s) = Inr (JStr s)"
| "json_value (PyInt n) = Inr (JInt n)"
| "json_value (PyBool b) = Inr (JBool b)"
| "json_value (PyOther t) = Inl t"
  by pat_completeness auto
termination
proof (relation "measure size", goal_cases)
  case (2 kvs kv)
  then have "kv \<in> set kvs" by simp
  then show ?case
    by (induction kvs) (auto simp: less_Suc_eq prod.size)
qed (auto simp: less_Suc_eq_le size_list_estimation' simp del: size_list_estimation)

text \<open>
  The columns of an absent blocker. SQLAlchemy stores the Python value \<open>None\<close> in a JSON column as the
  JSON value \<open>null\<close> unless the column is declared with \<open>none_as_null\<close>, which \<open>blocker_context\<close> is not.
\<close>

definition absent_blocker :: blocker_columns where
  "absent_blocker = no_blocker\<lparr>bk_context := Some JNull\<rparr>"

definition pl_blocker_values :: "pipeline_blocker option \<Rightarrow> pipeline_exn + blocker_columns" where
  "pl_blocker_values blocker =
     (case blocker of
        None \<Rightarrow> Inr absent_blocker
      | Some b \<Rightarrow>
          map_error (\<lambda>t. UncaughtError (''unsupported pipeline JSON value: '' @ t))
            (result_bind (json_value (PyDict (pb_context b))) (\<lambda>context.
              Inr \<lparr>bk_owner = Some (pb_owner b), bk_code = Some (pb_code b), bk_message = Some (pb_message b),
                bk_required_action = Some (pb_required_action b), bk_context = Some context\<rparr>)))"

text \<open>The Python value of a JSON value, and \<open>str\<close> of a nullable text column.\<close>

fun py_of_json :: "json \<Rightarrow> py_object" where
  "py_of_json JNull = PyNone"
| "py_of_json (JBool b) = PyBool b"
| "py_of_json (JInt n) = PyInt n"
| "py_of_json (JStr s) = PyStr s"
| "py_of_json (JList xs) = PyList (map py_of_json xs)"
| "py_of_json (JObj kvs) = PyDict (map (\<lambda>kv. (fst kv, py_of_json (snd kv))) kvs)"

definition str_of :: "string option \<Rightarrow> string" where
  "str_of x = (case x of None \<Rightarrow> ''None'' | Some s \<Rightarrow> s)"

definition required_column :: "string \<Rightarrow> 'a option \<Rightarrow> pipeline_exn + 'a" where
  "required_column name x =
     (case x of None \<Rightarrow> Inl (UncaughtError (''persisted '' @ name @ '' is null'')) | Some v \<Rightarrow> Inr v)"

definition blocker_from_row :: "advancement_row \<Rightarrow> pipeline_exn + pipeline_blocker option" where
  "blocker_from_row r =
     (let b = pa_blocker r
      in if bk_code b = None then Inr None
         else case bk_context b of
           Some (JObj context) \<Rightarrow>
             result_bind (of_checked (make_pipeline_blocker \<lparr>pb_owner = str_of (bk_owner b), pb_code = str_of (bk_code b),
               pb_message = str_of (bk_message b), pb_required_action = str_of (bk_required_action b),
               pb_context = map (\<lambda>kv. (fst kv, py_of_json (snd kv))) context\<rparr>)) (\<lambda>blocker. Inr (Some blocker))
         | _ \<Rightarrow> Inl (UncaughtError ''persisted blocker context is not an object''))"

definition pl_status :: "advancement_row \<Rightarrow> pipeline_exn + pipeline_advancement_status" where
  "pl_status r =
     result_bind (blocker_from_row r) (\<lambda>blocker.
       of_checked (make_advancement_status \<lparr>ps_advancement_id = pa_advancement_id r, ps_source_work_unit_id = source_id r,
         ps_run_id = sw_run_id (pa_source r), ps_state = pa_state r, ps_transition_key = pa_transition_key r,
         ps_transition_plan_digest = pa_transition_plan_digest r, ps_revision = pa_revision r,
         ps_attempt_count = pa_attempt_count r, ps_result_digest = pa_result_digest r, ps_blocker = blocker,
         ps_created_at_utc = utc (pa_created_at_utc r), ps_updated_at_utc = utc (pa_updated_at_utc r)\<rparr>))"

definition secret_digest :: "string \<Rightarrow> string" where
  "secret_digest token = ''sha256:'' @ sha256_hexdigest (utf8_encode token)"

section \<open>Source evidence\<close>

definition assert_source_equal :: "succeeded_work_output \<Rightarrow> succeeded_work_output \<Rightarrow> pipeline_exn + unit" where
  "assert_source_equal requested canonical =
     guard (pl_source_values requested = pl_source_values canonical)
       (Conflict (PIPELINE_SOURCE_OUTPUT_CONFLICT (so_source_work_unit_id requested) True))"

definition assert_source_row_equal :: "advancement_row \<Rightarrow> succeeded_work_output \<Rightarrow> pipeline_exn + unit" where
  "assert_source_row_equal row source =
     guard (pa_source row = pl_source_values source)
       (Conflict (PIPELINE_SOURCE_OUTPUT_CONFLICT (so_source_work_unit_id source) False))"

definition assert_registration_equal ::
    "advancement_row \<Rightarrow> succeeded_work_output \<Rightarrow> pipeline_transition_plan \<Rightarrow> pipeline_exn + unit" where
  "assert_registration_equal row source plan =
     result_bind (assert_source_row_equal row source) (\<lambda>_.
       guard (pa_transition_key row = tp_transition_key plan \<and> pa_transition_plan_digest row = tp_plan_digest plan)
         (Conflict (PIPELINE_REGISTRATION_CONFLICT (so_source_work_unit_id source) (pa_transition_key row)
            (tp_transition_key plan))))"

section \<open>Rows and events\<close>

definition find_by_source :: "uuid \<Rightarrow> pipeline_db \<Rightarrow> pipeline_exn + advancement_row option" where
  "find_by_source source d = select_one source_id source (pipeline_advancements d)"

definition get_locked :: "uuid \<Rightarrow> pipeline_db \<Rightarrow> pipeline_exn + advancement_row" where
  "get_locked advancement_id d =
     result_bind (select_one pa_advancement_id advancement_id (pipeline_advancements d)) (\<lambda>row.
       case row of None \<Rightarrow> raise_conflict (PIPELINE_ADVANCEMENT_NOT_FOUND advancement_id) | Some r \<Rightarrow> Inr r)"

definition insert_event ::
    "pipeline_blocker option \<Rightarrow> advancement_event_row \<Rightarrow> pipeline_db \<Rightarrow> pipeline_exn + pipeline_db" where
  "insert_event blocker e d =
     result_bind (pl_blocker_values blocker) (\<lambda>b.
       pl_execute (pipeline_advancement_attempts_update (insert_rows [e\<lparr>pe_blocker := b\<rparr>])) d)"

text \<open>The values \<open>_expire_leases\<close>, \<open>apply\<close> and \<open>block\<close> give the event from the leased row.\<close>

definition event_of_lease :: "uuid \<Rightarrow> advancement_row \<Rightarrow> advancement_event_kind \<Rightarrow> uuid \<Rightarrow> string \<Rightarrow> string option
    \<Rightarrow> int \<Rightarrow> string \<Rightarrow> advancement_event_row" where
  "event_of_lease event_id row kind lease_id plan_digest result now correlation_id =
     \<lparr>pe_event_id = event_id, pe_advancement_id = pa_advancement_id row, pe_attempt_number = pa_attempt_count row,
      pe_event_kind = kind, pe_lease_id = Some lease_id,
      pe_lease_token_digest = Some (str_of (ls_active_lease_token_digest (pa_lease row))),
      pe_worker_id = Some (str_of (ls_leased_by_worker_id (pa_lease row))),
      pe_dagster_execution_id = Some (str_of (ls_dagster_execution_id (pa_lease row))),
      pe_dagster_build_id = Some (str_of (ls_dagster_build_id (pa_lease row))),
      pe_transition_plan_digest = plan_digest, pe_lease_expires_at_utc = ls_lease_expires_at_utc (pa_lease row),
      pe_result_digest = result, pe_blocker = no_blocker, pe_occurred_at_utc = now, pe_correlation_id = correlation_id\<rparr>"

section \<open>Registration\<close>

definition registered_row :: "uuid \<Rightarrow> succeeded_work_output \<Rightarrow> pipeline_transition_plan \<Rightarrow> blocker_columns \<Rightarrow> int
    \<Rightarrow> string \<Rightarrow> advancement_row" where
  "registered_row advancement_id canonical plan blocker now correlation_id =
     \<lparr>pa_advancement_id = advancement_id, pa_source = pl_source_values canonical,
      pa_transition_key = tp_transition_key plan, pa_transition_plan_digest = tp_plan_digest plan,
      pa_state = (if tp_disposition plan = Disposition_BLOCK then Advancement_BLOCKED else Advancement_PENDING),
      pa_revision = 0, pa_attempt_count = 0, pa_result_digest = None, pa_blocker = blocker, pa_lease = no_lease,
      pa_created_at_utc = now, pa_updated_at_utc = now, pa_correlation_id = correlation_id\<rparr>"

definition registration_event :: "uuid \<Rightarrow> uuid \<Rightarrow> pipeline_transition_plan \<Rightarrow> int \<Rightarrow> string \<Rightarrow> advancement_event_row" where
  "registration_event event_id advancement_id plan now correlation_id =
     \<lparr>pe_event_id = event_id, pe_advancement_id = advancement_id, pe_attempt_number = 0,
      pe_event_kind = Event_REGISTERED_BLOCK, pe_lease_id = None, pe_lease_token_digest = None, pe_worker_id = None,
      pe_dagster_execution_id = None, pe_dagster_build_id = None, pe_transition_plan_digest = tp_plan_digest plan,
      pe_lease_expires_at_utc = None, pe_result_digest = None, pe_blocker = no_blocker, pe_occurred_at_utc = now,
      pe_correlation_id = correlation_id\<rparr>"

definition insert_registration :: "call_context \<Rightarrow> succeeded_work_output \<Rightarrow> pipeline_transition_plan \<Rightarrow> string \<Rightarrow> int
    \<Rightarrow> pipeline_db \<Rightarrow> pipeline_exn + (pipeline_advancement_status \<times> pipeline_db)" where
  "insert_registration ctx canonical plan correlation_id now d =
     (let advancement_id = cc_uuids ctx 0 in
      result_bind (pl_blocker_values (tp_blocker plan)) (\<lambda>blocker.
      result_bind (pl_execute (pipeline_advancements_update (insert_rows
          [registered_row advancement_id canonical plan blocker now correlation_id])) d) (\<lambda>d1.
      result_bind (if tp_disposition plan = Disposition_BLOCK
                   then insert_event (tp_blocker plan)
                     (registration_event (cc_uuids ctx 1) advancement_id plan now correlation_id) d1
                   else Inr d1) (\<lambda>d2.
      result_bind (get_locked advancement_id d2) (\<lambda>row.
      result_bind (pl_status row) (\<lambda>status. Inr (status, d2)))))))"

definition register_tx :: "source_reader \<Rightarrow> call_context \<Rightarrow> succeeded_work_output \<Rightarrow> pipeline_transition_plan \<Rightarrow> string
    \<Rightarrow> int \<Rightarrow> pipeline_db \<Rightarrow> pipeline_exn + (pipeline_advancement_status \<times> pipeline_db)" where
  "register_tx reader ctx source plan correlation_id now d =
     result_bind (reader d (so_source_work_unit_id source)) (\<lambda>canonical.
     result_bind (assert_source_equal source canonical) (\<lambda>_.
     result_bind (find_by_source (so_source_work_unit_id source) d) (\<lambda>existing.
       case existing of
         Some row \<Rightarrow>
           result_bind (assert_registration_equal row canonical plan) (\<lambda>_.
           result_bind (pl_status row) (\<lambda>status. Inr (status, d)))
       | None \<Rightarrow> insert_registration ctx canonical plan correlation_id now d)))"

definition pl_register :: "source_reader \<Rightarrow> call_context \<Rightarrow> succeeded_work_output \<Rightarrow> pipeline_transition_plan \<Rightarrow> string
    \<Rightarrow> pipeline_db \<Rightarrow> (pipeline_exn + pipeline_advancement_status) \<times> pipeline_db" where
  "pl_register reader ctx source plan correlation_id d =
     (if so_source_work_unit_id source \<noteq> tp_source_work_unit_id plan
      then (Inl (Conflict (PIPELINE_SOURCE_PLAN_CONFLICT (so_source_work_unit_id source) (tp_source_work_unit_id plan))), d)
      else pl_transaction ctx (Some (so_source_work_unit_id source))
             (register_tx reader ctx source plan correlation_id) d)"

section \<open>Leases\<close>

definition expired_advancement_row :: "int \<Rightarrow> string \<Rightarrow> advancement_row \<Rightarrow> advancement_row" where
  "expired_advancement_row now correlation_id r = r\<lparr>pa_state := Advancement_PENDING, pa_revision := pa_revision r + 1,
     pa_lease := no_lease, pa_updated_at_utc := now, pa_correlation_id := correlation_id\<rparr>"

definition holds_active_lease :: "advancement_row \<Rightarrow> uuid \<Rightarrow> advancement_row \<Rightarrow> bool" where
  "holds_active_lease row lease_id r \<longleftrightarrow> pa_advancement_id r = pa_advancement_id row \<and> pa_revision r = pa_revision row
     \<and> ls_active_lease_id (pa_lease r) = Some lease_id"

definition expire_lease :: "int \<Rightarrow> string \<Rightarrow> uuid \<Rightarrow> advancement_row \<Rightarrow> pipeline_db \<Rightarrow> pipeline_exn + pipeline_db" where
  "expire_lease now correlation_id event_id row d =
     result_bind (required_column ''active_lease_id'' (ls_active_lease_id (pa_lease row))) (\<lambda>lease_id.
     result_bind (insert_event None (event_of_lease event_id row Event_EXPIRED lease_id (pa_transition_plan_digest row)
          None now correlation_id) d) (\<lambda>d1.
     pl_execute (pipeline_advancements_update (update_rows (holds_active_lease row lease_id) (expired_advancement_row now correlation_id))) d1))"

fun expire_rows :: "int \<Rightarrow> string \<Rightarrow> (nat \<Rightarrow> uuid) \<Rightarrow> nat \<Rightarrow> advancement_row list \<Rightarrow> pipeline_db
    \<Rightarrow> pipeline_exn + pipeline_db" where
  "expire_rows now correlation_id uuids n [] d = Inr d"
| "expire_rows now correlation_id uuids n (row # rows) d =
     result_bind (expire_lease now correlation_id (uuids n) row d)
       (expire_rows now correlation_id uuids (n + 1) rows)"

definition due_lease :: "int \<Rightarrow> advancement_row \<Rightarrow> bool" where
  "due_lease now r \<longleftrightarrow> pa_state r = Advancement_LEASED
     \<and> (case ls_lease_expires_at_utc (pa_lease r) of None \<Rightarrow> False | Some t \<Rightarrow> t \<le> now)"

definition due_rows :: "call_context \<Rightarrow> int \<Rightarrow> pipeline_db \<Rightarrow> advancement_row list" where
  "due_rows ctx now d = sort_key (\<lambda>r. the (ls_lease_expires_at_utc (pa_lease r)))
     (filter (\<lambda>r. due_lease now r \<and> pa_advancement_id r \<notin> cc_locked ctx) (pipeline_advancements d))"

definition pl_expire_leases :: "call_context \<Rightarrow> int \<Rightarrow> string \<Rightarrow> pipeline_db \<Rightarrow> pipeline_exn + pipeline_db" where
  "pl_expire_leases ctx now correlation_id d = expire_rows now correlation_id (cc_uuids ctx) 0 (due_rows ctx now d) d"

definition claim_order :: "advancement_row \<Rightarrow> int \<times> uuid" where
  "claim_order r = (pa_created_at_utc r, pa_advancement_id r)"

definition pending_rows :: "call_context \<Rightarrow> pipeline_db \<Rightarrow> advancement_row list" where
  "pending_rows ctx d = sort_key claim_order
     (filter (\<lambda>r. pa_state r = Advancement_PENDING \<and> pa_advancement_id r \<notin> cc_locked ctx) (pipeline_advancements d))"

definition granted_lease :: "claim_pipeline_advancement \<Rightarrow> uuid \<Rightarrow> string \<Rightarrow> int \<Rightarrow> lease_columns" where
  "granted_lease c lease_id token now = \<lparr>ls_active_lease_id = Some lease_id,
     ls_active_lease_token_digest = Some (secret_digest token), ls_leased_by_worker_id = Some (cl_worker_id c),
     ls_dagster_execution_id = Some (cl_dagster_execution_id c), ls_dagster_build_id = Some (cl_dagster_build_id c),
     ls_lease_issued_at_utc = Some now, ls_lease_expires_at_utc = Some (now + cl_lease_duration c)\<rparr>"

definition leased_row :: "claim_pipeline_advancement \<Rightarrow> uuid \<Rightarrow> string \<Rightarrow> int \<Rightarrow> advancement_row \<Rightarrow> advancement_row" where
  "leased_row c lease_id token now row = row\<lparr>pa_state := Advancement_LEASED, pa_revision := pa_revision row + 1,
     pa_attempt_count := pa_attempt_count row + 1, pa_lease := granted_lease c lease_id token now,
     pa_updated_at_utc := now, pa_correlation_id := cl_correlation_id c\<rparr>"

definition lease_event :: "uuid \<Rightarrow> advancement_row \<Rightarrow> claim_pipeline_advancement \<Rightarrow> uuid \<Rightarrow> string \<Rightarrow> int
    \<Rightarrow> advancement_event_row" where
  "lease_event event_id row c lease_id token now =
     \<lparr>pe_event_id = event_id, pe_advancement_id = pa_advancement_id row, pe_attempt_number = pa_attempt_count row + 1,
      pe_event_kind = Event_LEASED, pe_lease_id = Some lease_id, pe_lease_token_digest = Some (secret_digest token),
      pe_worker_id = Some (cl_worker_id c), pe_dagster_execution_id = Some (cl_dagster_execution_id c),
      pe_dagster_build_id = Some (cl_dagster_build_id c), pe_transition_plan_digest = pa_transition_plan_digest row,
      pe_lease_expires_at_utc = Some (now + cl_lease_duration c), pe_result_digest = None, pe_blocker = no_blocker,
      pe_occurred_at_utc = now, pe_correlation_id = cl_correlation_id c\<rparr>"

definition lease_of_row :: "claim_pipeline_advancement \<Rightarrow> uuid \<Rightarrow> string \<Rightarrow> int \<Rightarrow> advancement_row
    \<Rightarrow> pipeline_advancement_lease" where
  "lease_of_row c lease_id token now row = \<lparr>pll_advancement_id = pa_advancement_id row,
     pll_source_work_unit_id = source_id row, pll_lease_id = lease_id, pll_lease_token = token,
     pll_worker_id = cl_worker_id c, pll_dagster_execution_id = cl_dagster_execution_id c,
     pll_dagster_build_id = cl_dagster_build_id c, pll_transition_key = pa_transition_key row,
     pll_transition_plan_digest = pa_transition_plan_digest row, pll_revision = pa_revision row + 1,
     pll_attempt_number = pa_attempt_count row + 1, pll_issued_at_utc = utc now,
     pll_expires_at_utc = utc (now + cl_lease_duration c)\<rparr>"

definition lease_pending :: "call_context \<Rightarrow> nat \<Rightarrow> claim_pipeline_advancement \<Rightarrow> int \<Rightarrow> advancement_row \<Rightarrow> pipeline_db
    \<Rightarrow> pipeline_exn + (pipeline_advancement_lease option \<times> pipeline_db)" where
  "lease_pending ctx n c now row d =
     (let lease_id = cc_uuids ctx n;
          token = cc_lease_token ctx;
          current = (\<lambda>r. pa_advancement_id r = pa_advancement_id row \<and> pa_revision r = pa_revision row
            \<and> pa_state r = Advancement_PENDING) in
      result_bind (pl_execute (pipeline_advancements_update
          (update_rows current (leased_row c lease_id token now))) d) (\<lambda>d1.
      if count_rows current (pipeline_advancements d) \<noteq> 1
      then raise_conflict (PIPELINE_CLAIM_CONFLICT (pa_advancement_id row))
      else result_bind (insert_event None (lease_event (cc_uuids ctx (n + 1)) row c lease_id token now) d1) (\<lambda>d2.
           result_bind (of_checked (make_advancement_lease (lease_of_row c lease_id token now row))) (\<lambda>lease.
             Inr (Some lease, d2)))))"

definition claim_tx :: "call_context \<Rightarrow> claim_pipeline_advancement \<Rightarrow> int \<Rightarrow> pipeline_db
    \<Rightarrow> pipeline_exn + (pipeline_advancement_lease option \<times> pipeline_db)" where
  "claim_tx ctx c now d =
     result_bind (pl_expire_leases ctx now (cl_correlation_id c) d) (\<lambda>d1.
     result_bind (one_or_none (take 1 (pending_rows ctx d1))) (\<lambda>row.
       case row of
         None \<Rightarrow> Inr (None, d1)
       | Some r \<Rightarrow> lease_pending ctx (length (due_rows ctx now d)) c now r d1))"

definition pl_claim :: "call_context \<Rightarrow> claim_pipeline_advancement \<Rightarrow> pipeline_db
    \<Rightarrow> (pipeline_exn + pipeline_advancement_lease option) \<times> pipeline_db" where
  "pl_claim ctx c = pl_transaction ctx None (claim_tx ctx c)"

section \<open>Completion\<close>

definition pl_validate_lease :: "advancement_row \<Rightarrow> int \<Rightarrow> uuid \<Rightarrow> string \<Rightarrow> string \<Rightarrow> string \<Rightarrow> int \<Rightarrow> pipeline_exn + unit" where
  "pl_validate_lease row expected_revision lease_id lease_token dagster_execution_id plan_digest now =
     (let a = pa_advancement_id row; lease = pa_lease row in
      if pa_state row \<noteq> Advancement_LEASED then raise_conflict (PIPELINE_LEASE_STALE a (Some (pa_state row)))
      else if pa_revision row \<noteq> expected_revision
      then raise_conflict (PIPELINE_REVISION_CONFLICT a (Some (expected_revision, pa_revision row)))
      else result_bind (required_column ''active_lease_id'' (ls_active_lease_id lease)) (\<lambda>active.
        if active \<noteq> lease_id then raise_conflict (PIPELINE_LEASE_STALE a None)
        else if str_of (ls_active_lease_token_digest lease) \<noteq> secret_digest lease_token
        then raise_conflict (PIPELINE_LEASE_TOKEN_INVALID a)
        else if str_of (ls_dagster_execution_id lease) \<noteq> dagster_execution_id
        then raise_conflict (PIPELINE_DAGSTER_EXECUTION_CONFLICT a (str_of (ls_dagster_execution_id lease)) dagster_execution_id)
        else if pa_transition_plan_digest row \<noteq> plan_digest
        then raise_conflict (PIPELINE_PLAN_DIGEST_CONFLICT a (pa_transition_plan_digest row) plan_digest)
        else case ls_lease_expires_at_utc lease of
               None \<Rightarrow> Inl (UncaughtError ''persisted lease_expires_at_utc is not a datetime'')
             | Some t \<Rightarrow> if t \<le> now then raise_conflict (PIPELINE_LEASE_EXPIRED a) else Inr ()))"

definition terminal_row :: "pipeline_advancement_state \<Rightarrow> int \<Rightarrow> string option \<Rightarrow> blocker_columns \<Rightarrow> int \<Rightarrow> string
    \<Rightarrow> advancement_row \<Rightarrow> advancement_row" where
  "terminal_row state next_revision result blocker now correlation_id r =
     r\<lparr>pa_state := state, pa_revision := next_revision, pa_result_digest := result, pa_blocker := blocker,
       pa_lease := no_lease, pa_updated_at_utc := now, pa_correlation_id := correlation_id\<rparr>"

definition update_terminal :: "advancement_row \<Rightarrow> pipeline_advancement_state \<Rightarrow> int \<Rightarrow> string option
    \<Rightarrow> pipeline_blocker option \<Rightarrow> int \<Rightarrow> string \<Rightarrow> pipeline_db \<Rightarrow> pipeline_exn + pipeline_db" where
  "update_terminal row state next_revision result blocker now correlation_id d =
     result_bind (required_column ''active_lease_id'' (ls_active_lease_id (pa_lease row))) (\<lambda>lease_id.
     result_bind (pl_blocker_values blocker) (\<lambda>b.
     result_bind (pl_execute (pipeline_advancements_update (update_rows (holds_active_lease row lease_id)
         (terminal_row state next_revision result b now correlation_id))) d) (\<lambda>d1.
     if count_rows (holds_active_lease row lease_id) (pipeline_advancements d) \<noteq> 1
     then raise_conflict (PIPELINE_REVISION_CONFLICT (pa_advancement_id row) None)
     else Inr d1)))"

definition run_applier :: "transition_appliers \<Rightarrow> apply_pipeline_advancement \<Rightarrow> advancement_row \<Rightarrow> succeeded_work_output
    \<Rightarrow> pipeline_db \<Rightarrow> pipeline_exn + (string \<times> pipeline_db)" where
  "run_applier appliers c row source d =
     result_bind (of_checked (make_transition_plan \<lparr>tp_source_work_unit_id = so_source_work_unit_id source,
         tp_transition_key = pa_transition_key row, tp_disposition = Disposition_APPLY,
         tp_plan_digest = pa_transition_plan_digest row, tp_blocker = None\<rparr>)) (\<lambda>plan.
       case appliers (tp_transition_key plan) of
         None \<Rightarrow> raise_conflict (PIPELINE_APPLIER_UNAVAILABLE (ap_advancement_id c) (tp_transition_key plan))
       | Some applier \<Rightarrow>
           result_bind (applier source plan (ap_correlation_id c) d) (\<lambda>(actual, d1).
             if actual \<noteq> ap_result_digest c
             then raise_conflict (PIPELINE_RESULT_DIGEST_CONFLICT (ap_advancement_id c) (ap_result_digest c) actual)
             else Inr (actual, d1)))"

definition apply_tx :: "source_reader \<Rightarrow> transition_appliers \<Rightarrow> call_context \<Rightarrow> apply_pipeline_advancement \<Rightarrow> int
    \<Rightarrow> pipeline_db \<Rightarrow> pipeline_exn + (pipeline_advancement_status \<times> pipeline_db)" where
  "apply_tx reader appliers ctx c now d =
     result_bind (get_locked (ap_advancement_id c) d) (\<lambda>row.
     result_bind (pl_validate_lease row (ap_expected_revision c) (ap_lease_id c) (ap_lease_token c)
         (ap_dagster_execution_id c) (ap_transition_plan_digest c) now) (\<lambda>_.
     result_bind (reader d (source_id row)) (\<lambda>source.
     result_bind (assert_source_row_equal row source) (\<lambda>_.
     result_bind (run_applier appliers c row source d) (\<lambda>(result, d1).
     result_bind (update_terminal row Advancement_APPLIED (ap_expected_revision c + 1) (Some result) None now
         (ap_correlation_id c) d1) (\<lambda>d2.
     result_bind (insert_event None (event_of_lease (cc_uuids ctx 0) row Event_APPLIED (ap_lease_id c)
         (ap_transition_plan_digest c) (Some result) now (ap_correlation_id c)) d2) (\<lambda>d3.
     result_bind (get_locked (ap_advancement_id c) d3) (\<lambda>row'.
     result_bind (pl_status row') (\<lambda>status. Inr (status, d3))))))))))"

definition pl_apply :: "source_reader \<Rightarrow> transition_appliers \<Rightarrow> call_context \<Rightarrow> apply_pipeline_advancement
    \<Rightarrow> pipeline_db \<Rightarrow> (pipeline_exn + pipeline_advancement_status) \<times> pipeline_db" where
  "pl_apply reader appliers ctx c =
     pl_transaction ctx (Some (ap_advancement_id c)) (apply_tx reader appliers ctx c)"

definition block_tx :: "source_reader \<Rightarrow> call_context \<Rightarrow> block_pipeline_advancement \<Rightarrow> int
    \<Rightarrow> pipeline_db \<Rightarrow> pipeline_exn + (pipeline_advancement_status \<times> pipeline_db)" where
  "block_tx reader ctx c now d =
     result_bind (get_locked (bp_advancement_id c) d) (\<lambda>row.
     result_bind (pl_validate_lease row (bp_expected_revision c) (bp_lease_id c) (bp_lease_token c)
         (bp_dagster_execution_id c) (bp_transition_plan_digest c) now) (\<lambda>_.
     result_bind (reader d (source_id row)) (\<lambda>source.
     result_bind (assert_source_row_equal row source) (\<lambda>_.
     result_bind (update_terminal row Advancement_BLOCKED (bp_expected_revision c + 1) None (Some (bp_blocker c)) now
         (bp_correlation_id c) d) (\<lambda>d1.
     result_bind (insert_event (Some (bp_blocker c)) (event_of_lease (cc_uuids ctx 0) row Event_BLOCKED (bp_lease_id c)
         (bp_transition_plan_digest c) None now (bp_correlation_id c)) d1) (\<lambda>d2.
     result_bind (get_locked (bp_advancement_id c) d2) (\<lambda>row'.
     result_bind (pl_status row') (\<lambda>status. Inr (status, d2)))))))))"

definition pl_block :: "source_reader \<Rightarrow> call_context \<Rightarrow> block_pipeline_advancement
    \<Rightarrow> pipeline_db \<Rightarrow> (pipeline_exn + pipeline_advancement_status) \<times> pipeline_db" where
  "pl_block reader ctx c = pl_transaction ctx (Some (bp_advancement_id c)) (block_tx reader ctx c)"

end
