(* ===== verification/Pipeline_Catalog.thy ===== *)
theory Pipeline_Catalog
  imports Pipeline_Store
begin

text \<open>
  \<^verbatim>\<open>postgres/succeeded_work_catalog.py\<close>, \<open>PostgresSucceededWorkCatalog\<close>: it reads the output of
  a succeeded work unit back from the tables of the engine and lists the succeeded units without an
  advancement. The repository gets it as its reader: \<open>canonical_reader\<close> is the part of that contract
  the repository's callers rely on. The query takes a share lock, which only delays.
\<close>

section \<open>Bound artifacts\<close>

definition catalog_conflict :: "string \<Rightarrow> string \<Rightarrow> uuid \<Rightarrow> string \<Rightarrow> pipeline_exn + 'a" where
  "catalog_conflict code message source action = raise_conflict (PIPELINE_CATALOG_CONFLICT code message source action)"

definition text_value :: "string \<Rightarrow> string option \<Rightarrow> pipeline_exn + string" where
  "text_value meaning v =
     (case v of Some (c # cs) \<Rightarrow> Inr (c # cs)
      | _ \<Rightarrow> Inl (UncaughtError (''persisted '' @ meaning @ '' is not non-empty text'')))"

definition non_negative_int :: "string \<Rightarrow> int \<Rightarrow> pipeline_exn + int" where
  "non_negative_int meaning v =
     (if v < 0 then Inl (UncaughtError (''persisted '' @ meaning @ '' is not a non-negative integer'')) else Inr v)"

text \<open>The join of a binding table with the records and objects, in the order of the query.\<close>

definition artifact_statement :: "work_artifact_binding_row list \<Rightarrow> uuid \<Rightarrow> db
    \<Rightarrow> (work_artifact_binding_row \<times> artifact_record_row \<times> artifact_object_row) list" where
  "artifact_statement binding source d = sort_key (\<lambda>(b, r, ob). (wb_position b, ar_artifact_id r))
     [(b, r, ob). b \<leftarrow> binding, r \<leftarrow> artifact_records d, ob \<leftarrow> artifact_objects d,
        wb_work_id b = source \<and> wb_artifact_id b = ar_artifact_id r \<and> ar_object_id r = ao_object_id ob]"

definition bound_artifact ::
    "work_artifact_binding_row \<times> artifact_record_row \<times> artifact_object_row \<Rightarrow> pipeline_exn + artifact_identity" where
  "bound_artifact = (\<lambda>(b, r, ob).
     if wb_position b < 0 then Inl (UncaughtError ''persisted artifact binding position is invalid'')
     else
       result_bind (text_value ''artifact binding role'' (Some (wb_role b))) (\<lambda>role.
       result_bind (text_value ''artifact digest'' (Some (ao_content_digest ob))) (\<lambda>digest.
       result_bind (non_negative_int ''artifact size'' (ao_size_bytes ob)) (\<lambda>size.
       result_bind (text_value ''artifact content type'' (Some (ar_content_type r))) (\<lambda>content_type.
         of_checked (make_artifact_identity \<lparr>ai_artifact_id = ar_artifact_id r, ai_role = role,
           ai_content_digest = digest, ai_size_bytes = size, ai_content_type = content_type\<rparr>))))))"

definition load_artifacts ::
    "work_artifact_binding_row list \<Rightarrow> uuid \<Rightarrow> db \<Rightarrow> pipeline_exn + artifact_identity list" where
  "load_artifacts binding source d =
     result_bind (traverse bound_artifact (artifact_statement binding source d)) (\<lambda>result.
       if \<not> distinct (map ai_artifact_id result)
       then catalog_conflict ''PIPELINE_ARTIFACT_BINDING_DUPLICATE''
              ''Successful work contains duplicate artifact bindings.'' source
              ''Repair duplicate immutable bindings before advancement.''
       else if \<not> distinct (map ai_role result)
       then catalog_conflict ''PIPELINE_ARTIFACT_ROLE_DUPLICATE''
              ''Successful work contains duplicate artifact roles.'' source
              ''Repair duplicate immutable roles before advancement.''
       else Inr result)"

section \<open>Successful work\<close>

definition output_of_work :: "work_unit_row \<Rightarrow> stage_run_row \<Rightarrow> artifact_identity list \<Rightarrow> artifact_identity list
    \<Rightarrow> pipeline_exn + succeeded_work_output" where
  "output_of_work work stage inputs outputs =
     (let source = wu_work_id work in
      case outputs of
        [output_artifact] \<Rightarrow>
          if ai_artifact_id output_artifact \<in> ai_artifact_id ` set inputs
          then catalog_conflict ''PIPELINE_ARTIFACT_DIRECTION_CONFLICT''
                 ''One artifact is bound as both pipeline input and output.'' source
                 ''Repair immutable artifact bindings before advancement.''
          else result_bind (text_value ''output_digest'' (wu_output_digest work)) (\<lambda>digest.
               result_bind (text_value ''output_contract'' (wu_output_contract work)) (\<lambda>contract.
               of_checked (make_succeeded_work_output \<lparr>so_source_work_unit_id = source, so_run_id = wu_run_id work,
                 so_stage_run_id = wu_stage_run_id work, so_stage = sr_stage stage,
                 so_capability = work_capability_value (wu_capability work), so_output_contract = contract,
                 so_output_digest = digest, so_output_artifact = output_artifact, so_input_artifacts = inputs\<rparr>)))
      | _ \<Rightarrow> raise_conflict (PIPELINE_OUTPUT_ARTIFACT_CARDINALITY source (length outputs)))"

definition read_work :: "db \<Rightarrow> uuid \<Rightarrow> pipeline_exn + succeeded_work_output" where
  "read_work d source =
     result_bind (select_one wu_work_id source (work_units d)) (\<lambda>found.
       case found of
         None \<Rightarrow> catalog_conflict ''PIPELINE_SOURCE_WORK_NOT_FOUND'' ''The source work unit does not exist.'' source
                  ''Refresh canonical work state and select an existing work unit.''
       | Some work \<Rightarrow>
           if wu_state work \<noteq> Unit_SUCCEEDED
           then catalog_conflict ''PIPELINE_SOURCE_WORK_NOT_SUCCEEDED''
                  ''Pipeline advancement accepts only successfully completed work.'' source
                  ''Wait for canonical successful completion before registering advancement.''
           else result_bind (select_one sr_stage_run_id (wu_stage_run_id work) (stage_runs d)) (\<lambda>owner.
             case owner of
               None \<Rightarrow> catalog_conflict ''PIPELINE_STAGE_OWNER_NOT_FOUND''
                        ''The successful work has no canonical stage owner.'' source
                        ''Repair stage ownership before advancing the successful output.''
             | Some stage \<Rightarrow>
                 if sr_run_id stage \<noteq> wu_run_id work
                 then catalog_conflict ''PIPELINE_STAGE_RUN_CONFLICT''
                        ''The work and stage owners belong to different collection runs.'' source
                        ''Repair the corrupted run/stage ownership before advancement.''
                 else result_bind (load_artifacts (work_input_artifacts d) source d) (\<lambda>inputs.
                      result_bind (load_artifacts (work_output_artifacts d) source d) (\<lambda>outputs.
                      output_of_work work stage inputs outputs))))"

definition catalog_read :: source_reader where
  "catalog_read d source = read_work (pl_work d) source"

definition unregistered_succeeded :: "nat \<Rightarrow> pipeline_db \<Rightarrow> uuid list" where
  "unregistered_succeeded limit d = take limit (map wu_work_id (sort_key (\<lambda>w. (wu_updated_at_utc w, wu_work_id w))
     (filter (\<lambda>w. wu_state w = Unit_SUCCEEDED \<and> wu_work_id w \<notin> source_id ` set (pipeline_advancements d))
       (work_units (pl_work d)))))"

definition list_unregistered_succeeded :: "int \<Rightarrow> pipeline_db \<Rightarrow> pipeline_exn + succeeded_work_output list" where
  "list_unregistered_succeeded limit d =
     (if \<not> (1 \<le> limit \<and> limit \<le> 1000)
      then Inl (StoreValueError (ValueError ''successful work discovery limit must be between 1 and 1000''))
      else map_error (\<lambda>e. case e of SQLAlchemyError cause \<Rightarrow> Conflict (PIPELINE_DISCOVERY_STORAGE_FAILED cause) | _ \<Rightarrow> e)
             (traverse (catalog_read d) (unregistered_succeeded (nat limit) d)))"

end
