(* ===== verification/Pipeline_Checkpoint.thy ===== *)
theory Pipeline_Checkpoint
  imports Pipeline_Catalog
begin

text \<open>
  What the calls of the repository do to the checkpoint. A row or event without a blocker carries the
  JSON value \<open>null\<close> in \<open>blocker_context\<close>, which the constraint on the blocker columns refuses, so the only
  statement that succeeds is the one that writes a blocked advancement. Every call is a sequence of moves
  of an abstract machine that appends blocked advancements with the event that explains them.
\<close>

section \<open>Statements\<close>

lemma pl_execute_eq_Inr [simp, result_simps]:
  "pl_execute f d = Inr d' \<longleftrightarrow> d' = f d \<and> pipeline_store_ok (f d)"
  by (auto simp: pl_execute_def Let_def pipeline_store_ok_def)

lemma pl_execute_refused: "\<not> pipeline_store_ok (f d) \<Longrightarrow> \<exists>cause. pl_execute f d = Inl (SQLAlchemyError cause)"
  by (auto simp: pl_execute_def Let_def pipeline_store_ok_def)

lemma pipeline_ids_distinct: "pipeline_store_ok d \<Longrightarrow> distinct (map pa_advancement_id (pipeline_advancements d))"
  by (simp add: pipeline_store_ok_def pipeline_constraints_def pipeline_unique_def)

lemma pipeline_sources_distinct: "pipeline_store_ok d \<Longrightarrow> distinct (map source_id (pipeline_advancements d))"
  by (simp add: pipeline_store_ok_def pipeline_constraints_def pipeline_unique_def)

lemma get_locked_eq_Inr:
  assumes "pipeline_store_ok d"
  shows "get_locked a d = Inr r \<longleftrightarrow> r \<in> set (pipeline_advancements d) \<and> pa_advancement_id r = a"
proof
  assume "get_locked a d = Inr r"
  then have "select_one pa_advancement_id a (pipeline_advancements d) = (Inr (Some r) :: pipeline_exn + _)"
    by (auto simp: get_locked_def result_bind_eq_Inr split: option.splits)
  then show "r \<in> set (pipeline_advancements d) \<and> pa_advancement_id r = a" using select_one_SomeD by metis
next
  assume "r \<in> set (pipeline_advancements d) \<and> pa_advancement_id r = a"
  then have "select_one pa_advancement_id a (pipeline_advancements d) = (Inr (Some r) :: pipeline_exn + _)"
    using select_one_key [OF pipeline_ids_distinct [OF assms], of r] by auto
  then show "get_locked a d = Inr r" by (simp add: get_locked_def)
qed

lemma find_by_source_row:
  assumes "pipeline_store_ok d" and "r \<in> set (pipeline_advancements d)"
  shows "find_by_source (source_id r) d = Inr (Some r)"
  using select_one_key [OF pipeline_sources_distinct [OF assms(1)] assms(2)] by (simp add: find_by_source_def)

lemma find_by_source_absent:
  assumes "u \<notin> source_id ` set (pipeline_advancements d)"
  shows "find_by_source u d = Inr None"
proof -
  have "filter (\<lambda>r. source_id r = u) (pipeline_advancements d) = []" using assms by (auto simp: filter_empty_conv)
  then show ?thesis by (simp add: find_by_source_def select_one_def)
qed

lemma pl_transaction_cases:
  assumes "pl_transaction ctx identity body d = (res, d')"
  obtains "d' = d" "\<exists>e. res = Inl e"
    | x where "is_aware_utc (cc_clock ctx)" "body (instant (cc_clock ctx)) d = Inr (x, d')" "res = Inr x"
  using assms by (auto simp: pl_transaction_def pl_now_utc_def split: sum.splits if_splits prod.splits)

lemma insert_event_Inr:
  "insert_event b e d = Inr d' \<longleftrightarrow> (\<exists>c. pl_blocker_values b = Inr c
     \<and> d' = d\<lparr>pipeline_advancement_attempts := pipeline_advancement_attempts d @ [e\<lparr>pe_blocker := c\<rparr>]\<rparr> \<and> pipeline_store_ok d')"
  by (auto simp: insert_event_def result_bind_eq_Inr insert_rows_def cong: pipeline_db.fold_congs)

section \<open>A missing blocker\<close>

lemma absent_blocker_refused: "\<not> blocker_payload absent_blocker"
  by (simp add: blocker_payload_def absent_blocker_def no_blocker_def)

lemma event_without_blocker: "insert_event None e d \<noteq> Inr d'"
  using absent_blocker_refused
  by (auto simp: insert_event_Inr pl_blocker_values_def pipeline_store_ok_def pipeline_constraints_def event_check_def)

lemma registration_without_blocker:
  assumes "tp_blocker plan = None"
  shows "\<exists>cause. insert_registration ctx canonical plan correlation now d = Inl (SQLAlchemyError cause)"
proof -
  have "\<not> pipeline_store_ok (pipeline_advancements_update
      (insert_rows [registered_row (cc_uuids ctx 0) canonical plan absent_blocker now correlation]) d)"
    using absent_blocker_refused
    by (simp add: pipeline_store_ok_def pipeline_constraints_def advancement_check_def registered_row_def insert_rows_def)
  from pl_execute_refused [of "pipeline_advancements_update
      (insert_rows [registered_row (cc_uuids ctx 0) canonical plan absent_blocker now correlation])", OF this]
  show ?thesis using assms by (auto simp: insert_registration_def pl_blocker_values_def Let_def)
qed

lemma expire_lease_refused: "expire_lease now correlation u r d \<noteq> Inr d'"
  by (auto simp: expire_lease_def result_bind_eq_Inr event_without_blocker)

lemma claim_tx_Inr:
  assumes "claim_tx ctx c now d = Inr (answer, d')"
  shows "answer = None" and "d' = d"
proof -
  obtain d1 where d1: "pl_expire_leases ctx now (cl_correlation_id c) d = Inr d1"
    using assms by (auto simp: claim_tx_def result_bind_eq_Inr)
  then have "d1 = d"
    by (cases "due_rows ctx now d") (auto simp: pl_expire_leases_def result_bind_eq_Inr expire_lease_refused)
  moreover have "lease_pending ctx n c now r d1 \<noteq> Inr x" for n r x
    by (auto simp: lease_pending_def Let_def result_bind_eq_Inr event_without_blocker split: if_splits)
  ultimately show "answer = None" "d' = d"
    using assms d1 by (auto simp: claim_tx_def result_bind_eq_Inr split: option.splits)
qed

lemma apply_tx_refused: "apply_tx reader appliers ctx c now d \<noteq> Inr x"
  by (auto simp: apply_tx_def result_bind_eq_Inr event_without_blocker)

lemma claim_answers:
  assumes "pl_claim ctx c d = (res, d')"
  shows "d' = d" and "res = Inr None \<or> (\<exists>e. res = Inl e)"
  using assms claim_tx_Inr by (auto simp: pl_claim_def elim!: pl_transaction_cases)

lemma apply_answers:
  assumes "pl_apply reader appliers ctx c d = (res, d')"
  shows "d' = d" and "\<exists>e. res = Inl e"
  using assms apply_tx_refused by (auto simp: pl_apply_def elim!: pl_transaction_cases)

section \<open>Moves\<close>

definition blocked_entry :: "advancement_row \<Rightarrow> advancement_event_row \<Rightarrow> bool" where
  "blocked_entry r e \<longleftrightarrow> pa_state r = Advancement_BLOCKED \<and> pa_revision r = 0 \<and> pa_attempt_count r = 0
     \<and> pa_lease r = no_lease \<and> pa_result_digest r = None \<and> pe_event_kind e = Event_REGISTERED_BLOCK
     \<and> pe_attempt_number e = 0 \<and> pe_advancement_id e = pa_advancement_id r
     \<and> pe_transition_plan_digest e = pa_transition_plan_digest r \<and> pe_blocker e = pa_blocker r"

definition register_db :: "advancement_row \<Rightarrow> advancement_event_row \<Rightarrow> pipeline_db \<Rightarrow> pipeline_db" where
  "register_db r e d = d\<lparr>pipeline_advancements := pipeline_advancements d @ [r],
     pipeline_advancement_attempts := pipeline_advancement_attempts d @ [e]\<rparr>"

lemma register_db_simps [simp]:
  "pl_work (register_db r e d) = pl_work d"
  "pipeline_advancements (register_db r e d) = pipeline_advancements d @ [r]"
  "pipeline_advancement_attempts (register_db r e d) = pipeline_advancement_attempts d @ [e]"
  by (simp_all add: register_db_def)

inductive checkpoint_move :: "pipeline_db \<Rightarrow> pipeline_db \<Rightarrow> bool" where
  Register: "blocked_entry r e \<Longrightarrow> pipeline_store_ok (register_db r e d) \<Longrightarrow> checkpoint_move d (register_db r e d)"
| Work: "pipeline_store_ok (d\<lparr>pl_work := w\<rparr>) \<Longrightarrow> checkpoint_move d (d\<lparr>pl_work := w\<rparr>)"

inductive_cases checkpoint_moveE: "checkpoint_move d d'"

abbreviation checkpoint_moves :: "pipeline_db \<Rightarrow> pipeline_db \<Rightarrow> bool" where
  "checkpoint_moves \<equiv> checkpoint_move\<^sup>*\<^sup>*"

lemma checkpoint_moves_ok: "checkpoint_moves d d' \<Longrightarrow> pipeline_store_ok d \<Longrightarrow> pipeline_store_ok d'"
  by (erule rtranclp_induct) (auto elim: checkpoint_moveE)

lemma moves_append:
  assumes "checkpoint_moves d d'"
  shows "\<exists>rs es. pipeline_advancements d' = pipeline_advancements d @ rs
    \<and> pipeline_advancement_attempts d' = pipeline_advancement_attempts d @ es"
  using assms by (induction rule: rtranclp_induct) (auto elim!: checkpoint_moveE)

section \<open>Registration\<close>

lemma insert_registration_Inr:
  assumes "insert_registration ctx canonical plan correlation now d = Inr (status, d')"
  obtains r e where "blocked_entry r e" "d' = register_db r e d" "pipeline_store_ok d'" "pl_status r = Inr status"
    "pa_source r = pl_source_values canonical" "pa_transition_key r = tp_transition_key plan"
    "pa_transition_plan_digest r = tp_plan_digest plan"
proof -
  obtain b d1 row where b: "pl_blocker_values (tp_blocker plan) = Inr b"
    and d1: "d1 = pipeline_advancements_update (insert_rows [registered_row (cc_uuids ctx 0) canonical plan b now correlation]) d"
      "pipeline_store_ok d1"
    and d2: "(if tp_disposition plan = Disposition_BLOCK then insert_event (tp_blocker plan)
       (registration_event (cc_uuids ctx 1) (cc_uuids ctx 0) plan now correlation) d1 else Inr d1) = Inr d'"
    and row: "get_locked (cc_uuids ctx 0) d' = Inr row" "pl_status row = Inr status"
    using assms by (auto simp: insert_registration_def Let_def result_bind_eq_Inr)
  let ?r = "registered_row (cc_uuids ctx 0) canonical plan b now correlation"
  let ?e = "(registration_event (cc_uuids ctx 1) (cc_uuids ctx 0) plan now correlation)\<lparr>pe_blocker := b\<rparr>"
  have "tp_blocker plan \<noteq> None" using registration_without_blocker [of plan ctx canonical correlation now d] assms by auto
  then have "bk_code b \<noteq> None" using b by (auto simp: pl_blocker_values_def map_error_eq_Inr result_bind_eq_Inr)
  moreover have "advancement_check ?r"
    using d1 by (simp add: pipeline_store_ok_def pipeline_constraints_def insert_rows_def)
  ultimately have block: "tp_disposition plan = Disposition_BLOCK"
    by (auto simp: advancement_check_def terminal_payload_def registered_row_def split: if_splits)
  then have d': "d' = register_db ?r ?e d" "pipeline_store_ok d'"
    using d2 d1 b by (auto simp: insert_event_Inr insert_rows_def intro!: pipeline_db.equality)
  have "?r \<in> set (pipeline_advancements d')" "pa_advancement_id ?r = cc_uuids ctx 0"
    by (simp_all add: d'(1) registered_row_def)
  then have "get_locked (cc_uuids ctx 0) d' = Inr ?r" using get_locked_eq_Inr [OF d'(2)] by blast
  then have "row = ?r" using row(1) by simp
  moreover have "blocked_entry ?r ?e" using block by (simp add: blocked_entry_def registered_row_def registration_event_def)
  ultimately show thesis
    using d' row(2) by (intro that [of ?r ?e]) (simp_all add: registered_row_def)
qed

lemma register_tx_Inr:
  assumes "register_tx reader ctx source plan correlation now d = Inr (status, d')" and "pipeline_store_ok d"
  obtains r canonical where "reader d (so_source_work_unit_id source) = Inr canonical"
    "pl_source_values source = pl_source_values canonical" "pipeline_store_ok d'" "r \<in> set (pipeline_advancements d')"
    "pa_source r = pl_source_values canonical" "pa_transition_key r = tp_transition_key plan"
    "pa_transition_plan_digest r = tp_plan_digest plan" "pl_status r = Inr status"
    "d' = d \<or> (\<exists>e. blocked_entry r e \<and> d' = register_db r e d)"
proof -
  obtain canonical found where c: "reader d (so_source_work_unit_id source) = Inr canonical"
    "pl_source_values source = pl_source_values canonical"
    and f: "find_by_source (so_source_work_unit_id source) d = Inr found"
    using assms(1) by (auto simp: register_tx_def result_bind_eq_Inr assert_source_equal_def)
  show thesis
  proof (cases found)
    case None
    then have "insert_registration ctx canonical plan correlation now d = Inr (status, d')"
      using assms(1) c f by (simp add: register_tx_def assert_source_equal_def)
    then obtain r e where "blocked_entry r e" "d' = register_db r e d" "pipeline_store_ok d'" "pl_status r = Inr status"
      "pa_source r = pl_source_values canonical" "pa_transition_key r = tp_transition_key plan"
      "pa_transition_plan_digest r = tp_plan_digest plan" by (rule insert_registration_Inr)
    then show thesis using c by (intro that [of canonical r]) auto
  next
    case (Some r)
    then have r: "r \<in> set (pipeline_advancements d)"
      using f select_one_SomeD(1) [of source_id] unfolding find_by_source_def by metis
    have "pa_source r = pl_source_values canonical" "pa_transition_key r = tp_transition_key plan"
      "pa_transition_plan_digest r = tp_plan_digest plan" "pl_status r = Inr status" "d' = d"
      using assms(1) c f Some by (auto simp: register_tx_def assert_source_equal_def result_bind_eq_Inr
          assert_registration_equal_def assert_source_row_equal_def)
    then show thesis using that c r assms(2) by blast
  qed
qed

lemma register_moves:
  assumes "pl_register reader ctx source plan correlation d = (res, d')" and "pipeline_store_ok d"
  shows "checkpoint_moves d d'" and "pl_work d' = pl_work d"
    and "source_id ` set (pipeline_advancements d') \<subseteq> insert (so_source_work_unit_id source) (source_id ` set (pipeline_advancements d))"
proof -
  have "checkpoint_moves d d' \<and> pl_work d' = pl_work d \<and> source_id ` set (pipeline_advancements d')
      \<subseteq> insert (so_source_work_unit_id source) (source_id ` set (pipeline_advancements d))"
    if tx: "register_tx reader ctx source plan correlation now d = Inr (x, d')" for now x
  proof -
    obtain r canonical where r: "pl_source_values source = pl_source_values canonical" "pa_source r = pl_source_values canonical"
      "pipeline_store_ok d'" "d' = d \<or> (\<exists>e. blocked_entry r e \<and> d' = register_db r e d)"
      by (rule register_tx_Inr [OF tx assms(2)]) blast
    have id: "source_id r = so_source_work_unit_id source"
      using arg_cong [OF r(1), of sw_source_work_unit_id] r(2) by (simp add: pl_source_values_def)
    show ?thesis using r(3,4) id by (auto intro: checkpoint_move.Register)
  qed
  then have "checkpoint_moves d d' \<and> pl_work d' = pl_work d \<and> source_id ` set (pipeline_advancements d')
      \<subseteq> insert (so_source_work_unit_id source) (source_id ` set (pipeline_advancements d))"
    using assms by (auto simp: pl_register_def split: if_splits elim!: pl_transaction_cases)
  then show "checkpoint_moves d d'" "pl_work d' = pl_work d"
    "source_id ` set (pipeline_advancements d') \<subseteq> insert (so_source_work_unit_id source) (source_id ` set (pipeline_advancements d))"
    by blast+
qed

section \<open>Histories\<close>

definition events_of :: "pipeline_db \<Rightarrow> advancement_row \<Rightarrow> advancement_event_row set" where
  "events_of d r = {e \<in> set (pipeline_advancement_attempts d). pe_advancement_id e = pa_advancement_id r}"

definition checkpoint_sound :: "pipeline_db \<Rightarrow> bool" where
  "checkpoint_sound d \<longleftrightarrow> pipeline_store_ok d
     \<and> (\<forall>r \<in> set (pipeline_advancements d). \<exists>e. events_of d r = {e} \<and> blocked_entry r e)"

lemma move_keeps_sound:
  assumes "checkpoint_move d d'" and d: "checkpoint_sound d"
  shows "checkpoint_sound d'"
  using assms(1)
proof cases
  case (Register r e)
  have ids: "distinct (map pa_advancement_id (pipeline_advancements d @ [r]))"
    using pipeline_ids_distinct [OF Register(3)] by simp
  have e: "pe_advancement_id e = pa_advancement_id r" using Register(2) by (simp add: blocked_entry_def)
  have "pe_advancement_id x \<in> pa_advancement_id ` set (pipeline_advancements d)"
    if "x \<in> set (pipeline_advancement_attempts d)" for x
    using d that by (auto simp: checkpoint_sound_def pipeline_store_ok_def pipeline_constraints_def
        pipeline_references_def list_all_iff)
  moreover have "pa_advancement_id r \<notin> pa_advancement_id ` set (pipeline_advancements d)" using ids by auto
  ultimately have "pe_advancement_id x \<noteq> pa_advancement_id r" if "x \<in> set (pipeline_advancement_attempts d)" for x
    using that by metis
  then have new: "events_of d' r = {e}" using e by (auto simp: events_of_def Register(1))
  have old: "events_of d' x = events_of d x" if "x \<in> set (pipeline_advancements d)" for x
  proof -
    have "pa_advancement_id r \<notin> pa_advancement_id ` set (pipeline_advancements d)" using ids by auto
    then have "pa_advancement_id x \<noteq> pa_advancement_id r" using that by (metis imageI)
    then show ?thesis using e by (auto simp: events_of_def Register(1))
  qed
  show ?thesis
    using d Register(1,2,3) new old by (auto simp: checkpoint_sound_def)
next
  case (Work w)
  then show ?thesis using d by (simp add: checkpoint_sound_def events_of_def)
qed

lemma moves_keep_sound: "checkpoint_moves d d' \<Longrightarrow> checkpoint_sound d \<Longrightarrow> checkpoint_sound d'"
  by (induction rule: rtranclp_induct) (auto intro: move_keeps_sound)

lemma empty_checkpoint_sound: "pipeline_store_ok d \<Longrightarrow> pipeline_advancements d = [] \<Longrightarrow> checkpoint_sound d"
  by (simp add: checkpoint_sound_def)

lemma block_answers:
  assumes "pl_block reader ctx c d = (res, d')" and "checkpoint_sound d"
  shows "d' = d" and "\<exists>e. res = Inl e"
proof -
  have "block_tx reader ctx c now d \<noteq> Inr x" for now x
  proof
    assume "block_tx reader ctx c now d = Inr x"
    then obtain r where r: "get_locked (bp_advancement_id c) d = Inr r"
      and v: "pl_validate_lease r (bp_expected_revision c) (bp_lease_id c) (bp_lease_token c)
        (bp_dagster_execution_id c) (bp_transition_plan_digest c) now = Inr ()"
      by (auto simp: block_tx_def result_bind_eq_Inr)
    have "pa_state r = Advancement_BLOCKED"
      using r assms(2) get_locked_eq_Inr [of d] by (auto simp: checkpoint_sound_def blocked_entry_def)
    then show False using v by (simp add: pl_validate_lease_def Let_def)
  qed
  then show "d' = d" "\<exists>e. res = Inl e" using assms(1) by (auto simp: pl_block_def elim!: pl_transaction_cases)
qed

end
