(* ===== verification/Pipeline_Supervision.thy ===== *)
theory Pipeline_Supervision
  imports Pipeline_Catalog Run_Control
begin

text \<open>
  The services over the repository: \<open>PipelineAdvancementService\<close> of
  \<^verbatim>\<open>collection_application/pipeline_advancement.py\<close>, the supervisor of
  \<^verbatim>\<open>collection_application/pipeline_supervision.py\<close> and the coverage report of
  \<^verbatim>\<open>postgres/pipeline_run_control.py\<close>. The previewers of transitions are injected and arguments here.
  One tick of the supervisor makes several calls; the n-th of them has the n-th \<open>call_context\<close>.
\<close>

section \<open>The service\<close>

datatype pipeline_service_error =
    PipelineOwnerError service_error
  | PipelineValueError value_error
  | PipelineConflictError pipeline_conflict
  | PipelineUncaught string

definition uncaught_error :: "pipeline_exn \<Rightarrow> pipeline_service_error" where
  "uncaught_error e = (case e of
       Conflict c \<Rightarrow> PipelineConflictError c
     | StoreValueError v \<Rightarrow> PipelineValueError v
     | SQLAlchemyError cause \<Rightarrow> PipelineUncaught cause
     | UncaughtError m \<Rightarrow> PipelineUncaught m)"

definition invoke_error :: "string \<Rightarrow> pipeline_exn \<Rightarrow> pipeline_service_error" where
  "invoke_error correlation_id e = (case e of
       Conflict c \<Rightarrow> (let data = pipeline_conflict_details c
         in PipelineOwnerError (owner_error (conflict_error_type (pcd_code data)) ''PipelineAdvancement'' (pcd_code data)
              (pcd_message data) (pcd_context data) (pcd_required_action data) correlation_id))
     | _ \<Rightarrow> uncaught_error e)"

definition pipeline_invoke :: "string \<Rightarrow> (pipeline_db \<Rightarrow> (pipeline_exn + 'a) \<times> pipeline_db) \<Rightarrow> pipeline_db
    \<Rightarrow> (pipeline_service_error + 'a) \<times> pipeline_db" where
  "pipeline_invoke correlation_id operation d =
     (case pl_require_token ''correlation_id'' correlation_id of
        Inl e \<Rightarrow> (Inl (PipelineValueError e), d)
      | Inr _ \<Rightarrow> (case operation d of (r, d') \<Rightarrow> (map_error (invoke_error correlation_id) r, d')))"

definition planning_failure :: "planning_error \<Rightarrow> pipeline_service_error" where
  "planning_failure e = (case e of PlanValueError v \<Rightarrow> PipelineValueError v | PlanTypeError m \<Rightarrow> PipelineUncaught m)"

definition service_register :: "source_reader \<Rightarrow> call_context \<Rightarrow> succeeded_work_output \<Rightarrow> string \<Rightarrow> pipeline_db
    \<Rightarrow> (pipeline_service_error + pipeline_advancement_status) \<times> pipeline_db" where
  "service_register reader ctx source correlation_id d =
     (case pl_require_token ''correlation_id'' correlation_id of
        Inl e \<Rightarrow> (Inl (PipelineValueError e), d)
      | Inr _ \<Rightarrow>
          (case registry_plan source of
             Inl e \<Rightarrow> (Inl (planning_failure e), d)
           | Inr plan \<Rightarrow> pipeline_invoke correlation_id (pl_register reader ctx source plan correlation_id) d))"

definition service_claim :: "call_context \<Rightarrow> claim_pipeline_advancement \<Rightarrow> pipeline_db
    \<Rightarrow> (pipeline_service_error + pipeline_advancement_lease option) \<times> pipeline_db" where
  "service_claim ctx c = pipeline_invoke (cl_correlation_id c) (pl_claim ctx c)"

definition service_apply :: "source_reader \<Rightarrow> transition_appliers \<Rightarrow> call_context \<Rightarrow> apply_pipeline_advancement
    \<Rightarrow> pipeline_db \<Rightarrow> (pipeline_service_error + pipeline_advancement_status) \<times> pipeline_db" where
  "service_apply reader appliers ctx c = pipeline_invoke (ap_correlation_id c) (pl_apply reader appliers ctx c)"

definition service_block :: "source_reader \<Rightarrow> call_context \<Rightarrow> block_pipeline_advancement
    \<Rightarrow> pipeline_db \<Rightarrow> (pipeline_service_error + pipeline_advancement_status) \<times> pipeline_db" where
  "service_block reader ctx c = pipeline_invoke (bp_correlation_id c) (pl_block reader ctx c)"

section \<open>The supervisor\<close>

datatype preview = PreviewDigest string | PreviewBlocked pipeline_blocker | PreviewFailed string

type_synonym transition_previewers = "string \<Rightarrow> (uuid \<Rightarrow> string \<Rightarrow> string \<Rightarrow> preview) option"

record pipeline_supervisor_tick =
  tk_registered_count :: nat
  tk_claimed_advancement_id :: "uuid option"
  tk_terminal_status :: "pipeline_advancement_status option"

definition make_supervisor_tick :: "pipeline_supervisor_tick \<Rightarrow> pipeline_supervisor_tick checked" where
  "make_supervisor_tick t = result_bind (checks
     [guard (\<not> (tk_claimed_advancement_id t = None \<and> tk_terminal_status t \<noteq> None))
        (ValueError ''unclaimed supervisor tick cannot contain terminal status''),
      (case tk_terminal_status t of None \<Rightarrow> Inr ()
       | Some s \<Rightarrow> checks
           [guard (Some (ps_advancement_id s) = tk_claimed_advancement_id t)
              (ValueError ''supervisor terminal status belongs to another advancement''),
            guard (ps_state s \<in> {Advancement_APPLIED, Advancement_BLOCKED})
              (ValueError ''supervisor terminal status must be applied or blocked'')])]) (\<lambda>_. Inr t)"

text \<open>Each registration is a transaction of its own: those made before one that fails stay.\<close>

fun register_all :: "source_reader \<Rightarrow> (nat \<Rightarrow> call_context) \<Rightarrow> nat \<Rightarrow> succeeded_work_output list \<Rightarrow> string \<Rightarrow> pipeline_db
    \<Rightarrow> (pipeline_service_error + pipeline_advancement_status list) \<times> pipeline_db" where
  "register_all reader calls n [] correlation_id d = (Inr [], d)"
| "register_all reader calls n (source # sources) correlation_id d =
     (case service_register reader (calls n) source correlation_id d of
        (Inl e, d1) \<Rightarrow> (Inl e, d1)
      | (Inr status, d1) \<Rightarrow>
          (case register_all reader calls (n + 1) sources correlation_id d1 of
             (Inl e, d2) \<Rightarrow> (Inl e, d2)
           | (Inr statuses, d2) \<Rightarrow> (Inr (status # statuses), d2)))"

definition synchronize :: "(nat \<Rightarrow> call_context) \<Rightarrow> int \<Rightarrow> string \<Rightarrow> pipeline_db
    \<Rightarrow> (pipeline_service_error + pipeline_advancement_status list) \<times> pipeline_db" where
  "synchronize calls limit correlation_id d =
     (if \<not> (1 \<le> limit \<and> limit \<le> 1000)
      then (Inl (PipelineValueError (ValueError ''pipeline registration limit must be between 1 and 1000'')), d)
      else case list_unregistered_succeeded limit d of
             Inl e \<Rightarrow> (Inl (uncaught_error e), d)
           | Inr sources \<Rightarrow>
               if limit < int (length sources)
               then (Inl (PipelineValueError (ValueError ''successful work discovery exceeded its requested limit'')), d)
               else if \<not> distinct (map so_source_work_unit_id sources)
               then (Inl (PipelineValueError (ValueError ''successful work discovery returned duplicate work identities'')), d)
               else register_all catalog_read calls 0 sources correlation_id d)"

definition previewer_unavailable :: "string \<Rightarrow> pipeline_blocker" where
  "previewer_unavailable transition_key = \<lparr>pb_owner = ''PipelineAdvancement'', pb_code = ''PIPELINE_PREVIEWER_UNAVAILABLE'',
     pb_message = ''The leased transition has no deterministic preview owner.'',
     pb_required_action = ''Install the exact transition previewer before leasing this route.'',
     pb_context = [(''transitionKey'', PyStr transition_key)]\<rparr>"

definition block_of_lease :: "pipeline_advancement_lease \<Rightarrow> pipeline_blocker \<Rightarrow> string \<Rightarrow> block_pipeline_advancement" where
  "block_of_lease lease blocker correlation_id = \<lparr>bp_advancement_id = pll_advancement_id lease,
     bp_expected_revision = pll_revision lease, bp_lease_id = pll_lease_id lease, bp_lease_token = pll_lease_token lease,
     bp_dagster_execution_id = pll_dagster_execution_id lease,
     bp_transition_plan_digest = pll_transition_plan_digest lease, bp_blocker = blocker,
     bp_correlation_id = correlation_id\<rparr>"

definition apply_of_lease :: "pipeline_advancement_lease \<Rightarrow> string \<Rightarrow> string \<Rightarrow> apply_pipeline_advancement" where
  "apply_of_lease lease result_digest correlation_id = \<lparr>ap_advancement_id = pll_advancement_id lease,
     ap_expected_revision = pll_revision lease, ap_lease_id = pll_lease_id lease, ap_lease_token = pll_lease_token lease,
     ap_dagster_execution_id = pll_dagster_execution_id lease,
     ap_transition_plan_digest = pll_transition_plan_digest lease, ap_result_digest = result_digest,
     ap_correlation_id = correlation_id\<rparr>"

definition block_lease :: "call_context \<Rightarrow> pipeline_advancement_lease \<Rightarrow> pipeline_blocker \<Rightarrow> string \<Rightarrow> pipeline_db
    \<Rightarrow> (pipeline_service_error + pipeline_advancement_status) \<times> pipeline_db" where
  "block_lease ctx lease blocker correlation_id d =
     (case make_block (block_of_lease lease blocker correlation_id) of
        Inl e \<Rightarrow> (Inl (PipelineValueError e), d)
      | Inr c \<Rightarrow> service_block catalog_read ctx c d)"

text \<open>The terminal call for a claimed lease: what the previewer of its transition decides.\<close>

definition complete_lease :: "transition_appliers \<Rightarrow> transition_previewers \<Rightarrow> call_context \<Rightarrow> pipeline_advancement_lease
    \<Rightarrow> string \<Rightarrow> pipeline_db \<Rightarrow> (pipeline_service_error + pipeline_advancement_status) \<times> pipeline_db" where
  "complete_lease appliers previewers ctx lease correlation_id d =
     (case previewers (pll_transition_key lease) of
        None \<Rightarrow>
          (case make_pipeline_blocker (previewer_unavailable (pll_transition_key lease)) of
             Inl e \<Rightarrow> (Inl (PipelineValueError e), d)
           | Inr blocker \<Rightarrow> block_lease ctx lease blocker correlation_id d)
      | Some previewer \<Rightarrow>
          (case previewer (pll_source_work_unit_id lease) (pll_transition_plan_digest lease) correlation_id of
             PreviewFailed m \<Rightarrow> (Inl (PipelineUncaught m), d)
           | PreviewBlocked blocker \<Rightarrow> block_lease ctx lease blocker correlation_id d
           | PreviewDigest digest \<Rightarrow>
               (case make_apply (apply_of_lease lease digest correlation_id) of
                  Inl e \<Rightarrow> (Inl (PipelineValueError e), d)
                | Inr c \<Rightarrow> service_apply catalog_read appliers ctx c d)))"

definition tick_result :: "nat \<Rightarrow> uuid option \<Rightarrow> pipeline_advancement_status option \<Rightarrow> pipeline_db
    \<Rightarrow> (pipeline_service_error + pipeline_supervisor_tick) \<times> pipeline_db" where
  "tick_result registered claimed status d =
     (map_error PipelineValueError (make_supervisor_tick \<lparr>tk_registered_count = registered,
        tk_claimed_advancement_id = claimed, tk_terminal_status = status\<rparr>), d)"

definition run_once :: "transition_appliers \<Rightarrow> transition_previewers \<Rightarrow> (nat \<Rightarrow> call_context) \<Rightarrow> int
    \<Rightarrow> claim_pipeline_advancement \<Rightarrow> pipeline_db \<Rightarrow> (pipeline_service_error + pipeline_supervisor_tick) \<times> pipeline_db" where
  "run_once appliers previewers calls registration_limit c d =
     (case synchronize calls registration_limit (cl_correlation_id c) d of
        (Inl e, d1) \<Rightarrow> (Inl e, d1)
      | (Inr registered, d1) \<Rightarrow>
          let n = length registered in
          (case make_claim c of
             Inl e \<Rightarrow> (Inl (PipelineValueError e), d1)
           | Inr c' \<Rightarrow>
               (case service_claim (calls n) c' d1 of
                  (Inl e, d2) \<Rightarrow> (Inl e, d2)
                | (Inr None, d2) \<Rightarrow> tick_result n None None d2
                | (Inr (Some lease), d2) \<Rightarrow>
                    (case complete_lease appliers previewers (calls (n + 1)) lease (cl_correlation_id c) d2 of
                       (Inl e, d3) \<Rightarrow> (Inl e, d3)
                     | (Inr status, d3) \<Rightarrow> tick_result n (Some (pll_advancement_id lease)) (Some status) d3))))"

section \<open>Coverage with advancements\<close>

text \<open>The columns of the group and their order; a stage or a code is compared as text.\<close>

type_synonym coverage_group = "string \<times> pipeline_advancement_state \<times> blocker_columns"

definition coverage_group :: "advancement_row \<Rightarrow> coverage_group" where
  "coverage_group r = (sw_source_stage (pa_source r), pa_state r, pa_blocker r)"

definition blocking_rows :: "uuid \<Rightarrow> pipeline_db \<Rightarrow> advancement_row list" where
  "blocking_rows run_id d = filter (\<lambda>r. sw_run_id (pa_source r) = run_id
     \<and> pa_state r \<in> {Advancement_PENDING, Advancement_LEASED, Advancement_BLOCKED}) (pipeline_advancements d)"

definition coverage_groups :: "uuid \<Rightarrow> pipeline_db \<Rightarrow> (coverage_group \<times> int) list" where
  "coverage_groups run_id d =
     sort_key (\<lambda>((stage, state, b), _). (stage, advancement_state_value state, str_of (bk_code b)))
       (map (\<lambda>g. (g, count_rows (\<lambda>r. coverage_group r = g) (blocking_rows run_id d)))
         (remdups (map coverage_group (blocking_rows run_id d))))"

definition stage_of_value :: "string \<Rightarrow> run_exn + work_stage" where
  "stage_of_value s =
     (case filter (\<lambda>stage. work_stage_value stage = s) [Stage_DISCOVERY, Stage_ACQUISITION, Stage_EXTRACTION,
          Stage_NORMALIZATION, Stage_GEOGRAPHY, Stage_ENTITY_RESOLUTION, Stage_QUALITY, Stage_EXPORT] of
        stage # _ \<Rightarrow> Inr stage
      | [] \<Rightarrow> Inl (StoreValueError (ValueError (s @ '' is not a valid WorkStage''))))"

definition coverage_text :: "string \<Rightarrow> string option \<Rightarrow> run_exn + string" where
  "coverage_text key v =
     (case v of Some (c # cs) \<Rightarrow> Inr (c # cs)
      | _ \<Rightarrow> Inl (UncaughtError (''persisted '' @ key @ '' is not non-empty text'')))"

definition pipeline_coverage_blocker :: "coverage_group \<times> int \<Rightarrow> run_exn + run_coverage_blocker" where
  "pipeline_coverage_blocker = (\<lambda>((stage, state, b), count).
     result_bind (stage_of_value stage) (\<lambda>stage.
     result_bind (case state of
         Advancement_PENDING \<Rightarrow> Inr (''PIPELINE_ADVANCEMENT_PENDING'',
           ''Successful work is waiting for durable pipeline advancement.'',
           ''Run the pipeline supervisor until the pending queue is empty.'')
       | Advancement_LEASED \<Rightarrow> Inr (''PIPELINE_ADVANCEMENT_LEASED'',
           ''Successful work is held by active pipeline advancement leases.'',
           ''Wait for the owning execution or reclaim the work after lease expiry.'')
       | Advancement_BLOCKED \<Rightarrow>
           result_bind (coverage_text ''blocker_code'' (bk_code b)) (\<lambda>code.
           result_bind (coverage_text ''blocker_message'' (bk_message b)) (\<lambda>message.
           result_bind (coverage_text ''blocker_required_action'' (bk_required_action b)) (\<lambda>action.
             Inr (code, message, action))))
       | Advancement_APPLIED \<Rightarrow> Inr (''PIPELINE_ADVANCEMENT_APPLIED'',
           ''Pipeline advancement completed but is still included in a blocker query.'',
           ''Repair the coverage query because applied advancement is not a blocker.'')) (\<lambda>(code, message, action).
       of_checked (make_run_coverage_blocker \<lparr>bl_code = code, bl_stage = Some stage, bl_count = count,
         bl_message = message, bl_required_action = action\<rparr>))))"

definition pipeline_coverage :: "uuid \<Rightarrow> pipeline_db \<Rightarrow> run_exn + run_coverage_report" where
  "pipeline_coverage run_id d =
     result_bind (run_coverage run_id (pl_work d)) (\<lambda>base.
     result_bind (traverse pipeline_coverage_blocker (coverage_groups run_id d)) (\<lambda>blockers.
       of_checked (make_run_coverage_report (base\<lparr>cv_blockers := cv_blockers base @ blockers\<rparr>))))"

end
