(* ===== verification/Pipeline_Steps.thy ===== *)
theory Pipeline_Steps
  imports Pipeline_Checkpoint Pipeline_Supervision Run_Reports "HOL-Library.Multiset"
begin

text \<open>
  The calls of the repository and the ticks of the supervisor in any order, the planning of transitions
  and the coverage report. The reader the repository is given enters through the locale
  \<open>canonical_reader\<close>, which the catalog satisfies.
\<close>

section \<open>The supervisor\<close>

lemma invoke_cases:
  assumes "pipeline_invoke correlation operation d = (res, d')"
  obtains "d' = d" "\<exists>e. res = Inl e" | x where "operation d = (x, d')" "res = map_error (invoke_error correlation) x"
  using assms by (auto simp: pipeline_invoke_def split: sum.splits prod.splits)

lemma service_register_moves:
  assumes "service_register reader ctx source correlation d = (res, d')" and "pipeline_store_ok d"
  shows "checkpoint_moves d d'" and "pl_work d' = pl_work d"
    and "source_id ` set (pipeline_advancements d') \<subseteq> insert (so_source_work_unit_id source) (source_id ` set (pipeline_advancements d))"
proof -
  consider "d' = d" | plan x where "pl_register reader ctx source plan correlation d = (x, d')"
    using assms(1) by (auto simp: service_register_def split: sum.splits elim!: invoke_cases)
  then have "checkpoint_moves d d' \<and> pl_work d' = pl_work d \<and> source_id ` set (pipeline_advancements d')
      \<subseteq> insert (so_source_work_unit_id source) (source_id ` set (pipeline_advancements d))"
  proof cases
    case (2 plan x)
    then show ?thesis using register_moves [OF 2 assms(2)] by blast
  qed blast
  then show "checkpoint_moves d d'" "pl_work d' = pl_work d"
    "source_id ` set (pipeline_advancements d') \<subseteq> insert (so_source_work_unit_id source) (source_id ` set (pipeline_advancements d))"
    by blast+
qed

lemma register_all_Cons:
  assumes "service_register reader (calls n) source correlation d = (r1, d1)"
  shows "register_all reader calls n (source # sources) correlation d = (case r1 of
      Inl e \<Rightarrow> (Inl e, d1)
    | Inr status \<Rightarrow> (case register_all reader calls (n + 1) sources correlation d1 of (r2, d2) \<Rightarrow>
        (case r2 of Inl e \<Rightarrow> (Inl e, d2) | Inr statuses \<Rightarrow> (Inr (status # statuses), d2))))"
  using assms by (auto split: sum.splits prod.splits)

lemma register_all_moves:
  assumes "pipeline_store_ok d"
  shows "checkpoint_moves d (snd (register_all reader calls n sources correlation d))"
  using assms
proof (induction sources arbitrary: n d)
  case (Cons source sources)
  obtain r1 d1 where first: "service_register reader (calls n) source correlation d = (r1, d1)" by fastforce
  have m: "checkpoint_moves d d1" by (rule service_register_moves(1) [OF first Cons.prems])
  have "checkpoint_moves d1 (snd (register_all reader calls (n + 1) sources correlation d1))"
    by (rule Cons.IH [OF checkpoint_moves_ok [OF m Cons.prems]])
  then show ?case
    using m unfolding register_all_Cons [where calls = calls and n = n, OF first] by (auto split: sum.splits prod.splits)
qed simp

lemma synchronize_moves:
  assumes "pipeline_store_ok d"
  shows "checkpoint_moves d (snd (synchronize calls limit correlation d))"
  using register_all_moves [OF assms] by (auto simp: synchronize_def split: if_splits sum.splits)

text \<open>A tick registers, and never gets a lease.\<close>

lemma service_claim_answers:
  assumes "service_claim ctx c d = (res, d')"
  shows "d' = d" and "res \<noteq> Inr (Some lease)"
proof -
  have "d' = d \<and> res \<noteq> Inr (Some lease)"
    using assms claim_answers [of ctx c d] unfolding service_claim_def
    by (elim invoke_cases) (auto simp: map_error_def split: sum.splits)
  then show "d' = d" "res \<noteq> Inr (Some lease)" by blast+
qed

lemma run_once_synchronizes:
  "snd (run_once appliers previewers calls limit c d) = snd (synchronize calls limit (cl_correlation_id c) d)"
  and run_once_claims_nothing: "fst (run_once appliers previewers calls limit c d) = Inr tick \<Longrightarrow>
    tk_claimed_advancement_id tick = None
    \<and> fst (synchronize calls limit (cl_correlation_id c) d) \<in> range Inr"
proof -
  obtain r1 d1 where s: "synchronize calls limit (cl_correlation_id c) d = (r1, d1)" by fastforce
  obtain r2 d2 where cl: "service_claim (calls (length (projr r1))) (projr (make_claim c)) d1 = (r2, d2)" by fastforce
  have "d2 = d1" "r2 \<noteq> Inr (Some lease)" for lease using service_claim_answers [OF cl] by blast+
  then show "snd (run_once appliers previewers calls limit c d) = snd (synchronize calls limit (cl_correlation_id c) d)"
    "fst (run_once appliers previewers calls limit c d) = Inr tick \<Longrightarrow> tk_claimed_advancement_id tick = None
      \<and> fst (synchronize calls limit (cl_correlation_id c) d) \<in> range Inr"
    using s cl by (cases r1; cases "make_claim c"; cases r2;
        auto simp: run_once_def Let_def tick_result_def make_supervisor_tick_def map_error_eq_Inr result_bind_eq_Inr
          split: option.splits)+
qed

section \<open>Any order of calls\<close>

text \<open>A call of the repository, a tick of the supervisor, or anything else that changes the tables of the engine.\<close>

inductive pipeline_step :: "source_reader \<Rightarrow> transition_appliers \<Rightarrow> pipeline_db \<Rightarrow> pipeline_db \<Rightarrow> bool"
  for reader :: source_reader and appliers :: transition_appliers where
  Step_register: "pl_register reader ctx source plan correlation d = (res, d') \<Longrightarrow> pipeline_step reader appliers d d'"
| Step_claim: "pl_claim ctx claim d = (lease, d') \<Longrightarrow> pipeline_step reader appliers d d'"
| Step_apply: "pl_apply reader appliers ctx completion d = (res, d') \<Longrightarrow> pipeline_step reader appliers d d'"
| Step_block: "pl_block reader ctx blocking d = (res, d') \<Longrightarrow> pipeline_step reader appliers d d'"
| Step_tick: "run_once appliers previewers calls limit claim d = (tick, d') \<Longrightarrow> pipeline_step reader appliers d d'"
| Step_work: "pipeline_store_ok (d\<lparr>pl_work := w\<rparr>) \<Longrightarrow> pipeline_step reader appliers d (d\<lparr>pl_work := w\<rparr>)"

lemma step_moves:
  assumes "pipeline_step reader appliers d d'" and "checkpoint_sound d"
  shows "checkpoint_moves d d'"
proof -
  have ok: "pipeline_store_ok d" using assms(2) by (simp add: checkpoint_sound_def)
  from assms(1) show ?thesis
  proof cases
    case (Step_register ctx source plan correlation res)
    then show ?thesis using register_moves(1) ok by blast
  next
    case (Step_claim ctx claim lease)
    then show ?thesis using claim_answers(1) by blast
  next
    case (Step_apply ctx completion res)
    then show ?thesis using apply_answers(1) by blast
  next
    case (Step_block ctx blocking res)
    then show ?thesis using block_answers(1) assms(2) by blast
  next
    case (Step_tick previewers calls limit claim tick)
    then have "d' = snd (synchronize calls limit (cl_correlation_id claim) d)"
      using run_once_synchronizes [of appliers previewers calls limit claim d] by simp
    then show ?thesis using synchronize_moves [OF ok] by simp
  next
    case (Step_work w)
    then show ?thesis by (auto intro: checkpoint_move.Work)
  qed
qed

lemma steps_moves:
  assumes "(pipeline_step reader appliers)\<^sup>*\<^sup>* d d'" and "checkpoint_sound d"
  shows "checkpoint_moves d d'"
  using assms(1)
proof (induction rule: rtranclp_induct)
  case (step x y)
  then show ?case
    using step_moves [OF step.hyps(2) moves_keep_sound [OF step.IH assms(2)]] by simp
qed simp

section \<open>The reader\<close>

locale canonical_reader =
  fixes reader :: source_reader
  assumes reads_work: "pl_work d = pl_work d' \<Longrightarrow> reader d = reader d'"
    and reads_source: "reader d u = Inr s \<Longrightarrow> so_source_work_unit_id s = u"
begin

lemma registered_later:
  assumes ok: "pipeline_store_ok d" "pipeline_store_ok d2"
    and first: "register_tx reader ctx s plan correlation now d = Inr (status, d1)"
    and kept: "set (pipeline_advancements d1) \<subseteq> set (pipeline_advancements d2)"
    and evidence: "reader d2 (so_source_work_unit_id s) = reader d (so_source_work_unit_id s)"
  shows "register_tx reader ctx' s plan correlation' later d2 = Inr (status, d2)"
proof -
  obtain r canonical where c: "reader d (so_source_work_unit_id s) = Inr canonical" "pl_source_values s = pl_source_values canonical"
    and r: "r \<in> set (pipeline_advancements d1)" "pa_source r = pl_source_values canonical"
      "pa_transition_key r = tp_transition_key plan" "pa_transition_plan_digest r = tp_plan_digest plan" "pl_status r = Inr status"
    by (rule register_tx_Inr [OF first ok(1)]) blast
  have "source_id r = so_source_work_unit_id s"
    using arg_cong [OF c(2), of sw_source_work_unit_id] r(2) by (simp add: pl_source_values_def)
  then have "find_by_source (so_source_work_unit_id s) d2 = Inr (Some r)"
    using find_by_source_row [OF ok(2), of r] r(1) kept by auto
  then show ?thesis
    using c r evidence by (simp add: register_tx_def assert_source_equal_def assert_registration_equal_def
        assert_source_row_equal_def)
qed

lemma unblocked_refused:
  assumes "reader d (so_source_work_unit_id s) = Inr s" and "tp_blocker plan = None"
    and "so_source_work_unit_id s \<notin> source_id ` set (pipeline_advancements d)"
  shows "\<exists>cause. register_tx reader ctx s plan correlation now d = Inl (SQLAlchemyError cause)"
  using registration_without_blocker [OF assms(2), of ctx s correlation now d] assms(1) find_by_source_absent [OF assms(3)]
  by (simp add: register_tx_def assert_source_equal_def)

lemma service_refuses:
  assumes "reader d (so_source_work_unit_id s) = Inr s" and "registry_plan s = Inr plan"
    and "tp_source_work_unit_id plan = so_source_work_unit_id s" and "tp_blocker plan = None"
    and "so_source_work_unit_id s \<notin> source_id ` set (pipeline_advancements d)"
    and "is_aware_utc (cc_clock ctx)" and "pipeline_token correlation"
  shows "\<exists>cause. service_register reader ctx s correlation d
    = (Inl (invoke_error correlation (Conflict (PIPELINE_STORAGE_FAILED (Some (so_source_work_unit_id s)) cause))), d)"
proof -
  obtain cause where "register_tx reader ctx s plan correlation (instant (cc_clock ctx)) d = Inl (SQLAlchemyError cause)"
    using unblocked_refused [OF assms(1,4,5)] by blast
  then have "pl_register reader ctx s plan correlation d
      = (Inl (Conflict (PIPELINE_STORAGE_FAILED (Some (so_source_work_unit_id s)) cause)), d)"
    using assms(3,6) by (simp add: pl_register_def pl_transaction_def pl_now_utc_def storage_conflict_def)
  then show ?thesis
    using assms(2,7) by (intro exI [of _ cause]) (simp add: service_register_def pipeline_invoke_def pl_require_token_def)
qed

text \<open>In a list with a source that cannot be stored the registrations do not all succeed.\<close>

lemma register_all_refused:
  assumes "pipeline_store_ok d" and "s \<in> set sources" and "distinct (map so_source_work_unit_id sources)"
    and "reader d (so_source_work_unit_id s) = Inr s" and "registry_plan s = Inr plan" and "tp_blocker plan = None"
    and "so_source_work_unit_id s \<notin> source_id ` set (pipeline_advancements d)"
  shows "fst (register_all reader calls n sources correlation d) \<noteq> Inr statuses"
  using assms
proof (induction sources arbitrary: n d statuses)
  case (Cons x sources)
  obtain r1 d1 where first: "service_register reader (calls n) x correlation d = (r1, d1)" by fastforce
  note m = service_register_moves [OF first Cons.prems(1)]
  show ?case
  proof (cases "x = s")
    case True
    have "r1 \<noteq> Inr status" for status
    proof
      assume "r1 = Inr status"
      then obtain now where "register_tx reader (calls n) s plan correlation now d = Inr (status, d1)"
        using first True Cons.prems(5)
        by (auto simp: service_register_def pl_register_def map_error_eq_Inr split: sum.splits if_splits
            elim!: invoke_cases pl_transaction_cases)
      then show False using unblocked_refused [OF Cons.prems(4,6,7), of "calls n" correlation now] by auto
    qed
    then show ?thesis unfolding register_all_Cons [where calls = calls and n = n, OF first] by (auto split: sum.splits)
  next
    case False
    then have other: "so_source_work_unit_id x \<noteq> so_source_work_unit_id s" "s \<in> set sources"
      using Cons.prems(2,3) by auto
    have "fst (register_all reader calls (n + 1) sources correlation d1) \<noteq> Inr ys" for ys
    proof (rule Cons.IH)
      show "pipeline_store_ok d1" by (rule checkpoint_moves_ok [OF m(1) Cons.prems(1)])
      show "reader d1 (so_source_work_unit_id s) = Inr s" using Cons.prems(4) reads_work [OF m(2)] by simp
      show "so_source_work_unit_id s \<notin> source_id ` set (pipeline_advancements d1)" using m(3) Cons.prems(7) other(1) by auto
    qed (use other Cons.prems in auto)
    then show ?thesis
      unfolding register_all_Cons [where calls = calls and n = n, OF first] by (auto split: sum.splits prod.splits) (metis fst_conv)
  qed
qed simp

end

interpretation catalog: canonical_reader catalog_read
proof
  show "catalog_read d = catalog_read d'" if "pl_work d = pl_work d'" for d d'
    using that by (simp add: catalog_read_def fun_eq_iff)
  show "so_source_work_unit_id s = u" if read: "catalog_read d u = Inr s" for d u s
  proof -
    obtain found where f: "select_one wu_work_id u (work_units (pl_work d)) = (Inr found :: pipeline_exn + _)"
      using read by (auto simp: catalog_read_def read_work_def result_bind_eq_Inr)
    obtain w where w: "select_one wu_work_id u (work_units (pl_work d)) = (Inr (Some w) :: pipeline_exn + _)"
      using read f by (cases found) (auto simp: catalog_read_def read_work_def catalog_conflict_def)
    obtain stage inputs outputs where out: "output_of_work w stage inputs outputs = Inr s"
      using read by (auto simp: catalog_read_def read_work_def w result_bind_eq_Inr catalog_conflict_def split: option.splits if_splits)
    have "so_source_work_unit_id s = wu_work_id w"
      using out by (auto simp: output_of_work_def Let_def catalog_conflict_def make_succeeded_work_output_def result_bind_eq_Inr
          split: list.splits if_splits)
    then show ?thesis using select_one_SomeD(2) [OF w] by simp
  qed
qed

section \<open>Planning\<close>

lemma traverse_total: "(\<And>x. x \<in> set xs \<Longrightarrow> \<exists>y. f x = Inr y) \<Longrightarrow> \<exists>ys. traverse f xs = Inr ys"
proof (induction xs)
  case (Cons x xs)
  obtain y ys where "f x = Inr y" "traverse f xs = Inr ys" using Cons by fastforce
  then show ?case by simp
qed simp

lemma canonical_mapping_total:
  assumes "\<And>k v. (k, v) \<in> set m \<Longrightarrow> \<exists>j. canonical_value v = Inr j"
  shows "\<exists>j. canonical_mapping m = Inr j"
proof -
  have "\<exists>js. traverse (\<lambda>kv. result_bind (canonical_value (snd kv)) (\<lambda>j. Inr (fst kv, j))) (sort_key fst m) = Inr js"
  proof (rule traverse_total)
    fix kv assume "kv \<in> set (sort_key fst m)"
    then obtain j where "canonical_value (snd kv) = Inr j" using assms [of "fst kv" "snd kv"] by auto
    then show "\<exists>y. result_bind (canonical_value (snd kv)) (\<lambda>j. Inr (fst kv, j)) = Inr y" by simp
  qed
  then show ?thesis by (auto simp: canonical_mapping_def)
qed

lemma blocked_plan_total:
  assumes "code_pattern code" and "\<And>name. require_plain_text name message 1000 = Inr ()"
    and "\<And>name. require_plain_text name action 1000 = Inr ()" and "pipeline_token key"
    and "\<And>k v. (k, v) \<in> set context \<Longrightarrow> \<exists>j. canonical_value v = Inr j"
  shows "\<exists>p b. blocked_plan s key code message action context = Inr p \<and> tp_source_work_unit_id p = so_source_work_unit_id s
     \<and> tp_transition_key p = key \<and> tp_disposition p = Disposition_BLOCK \<and> tp_blocker p = Some b \<and> pb_code b = code"
proof -
  have "pipeline_token ''PipelineAdvancement''" by code_simp
  moreover have "\<exists>j. canonical_mapping ((''sourceWorkUnitId'', PyStr (uuid_str (so_source_work_unit_id s))) # context) = Inr j"
    by (rule canonical_mapping_total) (use assms(5) in \<open>fastforce\<close>)
  then obtain j where "canonical_mapping ((''sourceWorkUnitId'', PyStr (uuid_str (so_source_work_unit_id s))) # context) = Inr j" by blast
  ultimately show ?thesis
    using assms(1-4)
    by (simp add: blocked_plan_def make_pipeline_blocker_def pl_require_token_def plan_of_def transition_plan_digest_def
        blocker_json_def make_transition_plan_def pl_require_sha256_def of_plan_check_def)
qed

lemma plain_text_any_name: "require_plain_text [] v n = Inr () \<Longrightarrow> require_plain_text name v n = Inr ()"
  by (simp add: require_plain_text_def)

lemma blocked_plan_blocks:
  assumes "\<And>k v. (k, v) \<in> set context \<Longrightarrow> \<exists>j. canonical_value v = Inr j" and "pipeline_token key"
    and "code_pattern code" and "require_plain_text [] message 1000 = Inr ()" and "require_plain_text [] action 1000 = Inr ()"
  shows "\<exists>p. blocked_plan s key code message action context = Inr p \<and> tp_source_work_unit_id p = so_source_work_unit_id s
    \<and> tp_disposition p = Disposition_BLOCK"
proof -
  have "\<exists>p b. blocked_plan s key code message action context = Inr p \<and> tp_source_work_unit_id p = so_source_work_unit_id s
     \<and> tp_transition_key p = key \<and> tp_disposition p = Disposition_BLOCK \<and> tp_blocker p = Some b \<and> pb_code b = code"
    by (rule blocked_plan_total [OF assms(3) plain_text_any_name [OF assms(4)] plain_text_any_name [OF assms(5)] assms(2)])
      (rule assms(1))
  then show ?thesis by blast
qed

text \<open>The only output that advances by itself: a manual-import plan with exactly one manual source.\<close>

definition admissible_import :: "succeeded_work_output \<Rightarrow> bool" where
  "admissible_import s \<longleftrightarrow> so_stage s = Stage_DISCOVERY \<and> so_capability s = ''manual_import''
     \<and> so_output_contract s = ''manual-import-plan@1'' \<and> ai_role (so_output_artifact s) = ''manual_import_plan''
     \<and> (\<exists>a. filter (\<lambda>a. ai_role a \<in> set manual_source_roles) (so_input_artifacts s) = [a])"

lemma plan_of_total:
  assumes "pipeline_token key"
  obtains p where "plan_of s key Disposition_APPLY None = Inr p" "tp_source_work_unit_id p = so_source_work_unit_id s"
    "tp_disposition p = Disposition_APPLY"
  using assms that by (simp add: plan_of_def transition_plan_digest_def blocker_json_def of_plan_check_def
      make_transition_plan_def pl_require_token_def pl_require_sha256_def)

lemma import_plan_total:
  "\<exists>p. manual_import_plan s = Inr p \<and> tp_source_work_unit_id p = so_source_work_unit_id s
     \<and> (tp_disposition p = Disposition_APPLY \<longleftrightarrow> ai_role (so_output_artifact s) = ''manual_import_plan'' \<and> (\<exists>a. manual_sources s = [a]))"
proof -
  have key: "pipeline_token ''manual-import-plan-admission''" by code_simp
  have strs: "\<exists>js. traverse canonical_value (map (\<lambda>a. PyStr (f a)) xs) = Inr js"
    for f :: "artifact_identity \<Rightarrow> string" and xs by (rule traverse_total) auto
  consider (role) "ai_role (so_output_artifact s) \<noteq> ''manual_import_plan''"
    | (none) "ai_role (so_output_artifact s) = ''manual_import_plan''" "manual_sources s = []"
    | (one) a where "ai_role (so_output_artifact s) = ''manual_import_plan''" "manual_sources s = [a]"
    | (many) a b xs where "ai_role (so_output_artifact s) = ''manual_import_plan''" "manual_sources s = a # b # xs"
    by (metis neq_Nil_conv)
  then show ?thesis
  proof cases
    case role
    have "\<exists>p. blocked_plan s ''manual-import-plan-admission'' ''PIPELINE_OUTPUT_ARTIFACT_CONFLICT''
        ''The manual-import plan output role does not match its contract.''
        ''Re-run the exact manual-import work with the canonical output role.''
        [(''expectedRole'', PyStr ''manual_import_plan''), (''actualRole'', PyStr (ai_role (so_output_artifact s)))] = Inr p
        \<and> tp_source_work_unit_id p = so_source_work_unit_id s \<and> tp_disposition p = Disposition_BLOCK"
      by (rule blocked_plan_blocks) (force | code_simp)+
    then show ?thesis using role by (auto simp: manual_import_plan_def Let_def)
  next
    case none
    have "\<exists>p. blocked_plan s ''manual-import-plan-admission'' ''PIPELINE_INPUT_ARTIFACT_MISSING''
        ''The manual-import plan has no canonical source artifact binding.''
        ''Bind exactly one canonical manual source artifact and re-run the source work.''
        [(''requiredRolePattern'', PyStr ''manual[_import]_source:<format>:<atomic|partial>'')] = Inr p
        \<and> tp_source_work_unit_id p = so_source_work_unit_id s \<and> tp_disposition p = Disposition_BLOCK"
      by (rule blocked_plan_blocks) (force | code_simp)+
    then show ?thesis using none by (auto simp: manual_import_plan_def Let_def)
  next
    case one
    obtain p where "plan_of s ''manual-import-plan-admission'' Disposition_APPLY None = Inr p"
      "tp_source_work_unit_id p = so_source_work_unit_id s" "tp_disposition p = Disposition_APPLY"
      by (rule plan_of_total [OF key])
    then show ?thesis using one by (simp add: manual_import_plan_def Let_def)
  next
    case many
    let ?ids = "PyList (map (\<lambda>a. PyStr (uuid_str (ai_artifact_id a))) (manual_sources s))"
    have ids: "\<exists>j. canonical_value ?ids = Inr j"
      using strs [of "\<lambda>a. uuid_str (ai_artifact_id a)" "manual_sources s"] by auto
    have "\<exists>p. blocked_plan s ''manual-import-plan-admission'' ''PIPELINE_INPUT_ARTIFACT_CONFLICT''
        ''The manual-import plan has multiple canonical source artifact bindings.''
        (''Repair the source work so exactly one canonical '' @ ''manual source artifact is bound.'')
        [(''matchingArtifactIds'', ?ids)] = Inr p
        \<and> tp_source_work_unit_id p = so_source_work_unit_id s \<and> tp_disposition p = Disposition_BLOCK"
    proof (rule blocked_plan_blocks)
      show "\<exists>j. canonical_value v = Inr j" if "(k, v) \<in> set [(''matchingArtifactIds'', ?ids)]" for k v
        using that ids by auto
    qed code_simp+
    then show ?thesis using many by (auto simp: manual_import_plan_def Let_def)
  qed
qed

lemma record_plan_total:
  "\<exists>p. manual_record s = Inr p \<and> tp_source_work_unit_id p = so_source_work_unit_id s \<and> tp_disposition p = Disposition_BLOCK"
proof -
  have "\<exists>p. blocked_plan s ''manual-record-routing'' ''PIPELINE_OUTPUT_ARTIFACT_CONFLICT''
       ''The manual-record output role does not match its contract.''
       ''Re-run the exact manual-record work with the canonical output role.''
       [(''expectedRole'', PyStr ''manual_import_record''), (''actualRole'', PyStr (ai_role (so_output_artifact s)))] = Inr p
      \<and> tp_source_work_unit_id p = so_source_work_unit_id s \<and> tp_disposition p = Disposition_BLOCK"
    by (rule blocked_plan_blocks) (force | code_simp)+
  moreover have "\<exists>q. blocked_plan s ''manual-record-routing'' ''MANUAL_RECORD_DOWNSTREAM_SOURCE_UNAVAILABLE''
       ''The manual record has no approved downstream source owner in this campaign.''
       (''Publish exact website or OSM source bindings in a new campaign snapshot before '' @ ''creating acquisition work.'')
       [(''campaignRunId'', PyStr (uuid_str (so_run_id s)))] = Inr q
      \<and> tp_source_work_unit_id q = so_source_work_unit_id s \<and> tp_disposition q = Disposition_BLOCK"
    by (rule blocked_plan_blocks) (force | code_simp)+
  ultimately show ?thesis
    by (cases "ai_role (so_output_artifact s) = ''manual_import_record''") (auto simp: manual_record_def)
qed

lemma registry_plan_total:
  "\<exists>p. registry_plan s = Inr p \<and> tp_source_work_unit_id p = so_source_work_unit_id s
     \<and> (tp_disposition p = Disposition_APPLY \<longleftrightarrow> admissible_import s)"
proof -
  have "\<exists>p. blocked_plan s ''unsupported-transition'' ''PIPELINE_TRANSITION_UNSUPPORTED''
       ''No pipeline transition owns the successful work output contract.''
       ''Implement and register an exact owner transition before this output may advance.''
       [(''stage'', PyStr (work_stage_value (so_stage s))), (''capability'', PyStr (so_capability s)),
        (''outputContract'', PyStr (so_output_contract s)), (''outputRole'', PyStr (ai_role (so_output_artifact s)))] = Inr p
      \<and> tp_source_work_unit_id p = so_source_work_unit_id s \<and> tp_disposition p = Disposition_BLOCK"
    by (rule blocked_plan_blocks) (force | code_simp)+
  then show ?thesis
    using import_plan_total [of s] record_plan_total [of s]
    by (auto simp: registry_plan_def admissible_import_def manual_sources_def)
qed

text \<open>A plan the registry returns passed its validator, so it carries a blocker exactly when it blocks.\<close>

lemma plan_of_checked: "plan_of s key disposition blocker = Inr p \<Longrightarrow> make_transition_plan p = Inr p"
  by (auto simp: plan_of_def of_plan_check_def result_bind_eq_Inr map_error_eq_Inr make_transition_plan_def)

lemma blocked_plan_checked: "blocked_plan s key code message action context = Inr p \<Longrightarrow> make_transition_plan p = Inr p"
  by (auto simp: blocked_plan_def result_bind_eq_Inr intro: plan_of_checked)

lemma registry_plan_blocker:
  assumes "registry_plan s = Inr p"
  shows "make_transition_plan p = Inr p" and "tp_blocker p = None \<longleftrightarrow> tp_disposition p = Disposition_APPLY"
proof -
  show "make_transition_plan p = Inr p"
    using assms by (auto simp: registry_plan_def manual_import_plan_def manual_record_def Let_def
        intro: plan_of_checked blocked_plan_checked split: if_splits list.splits)
  then show "tp_blocker p = None \<longleftrightarrow> tp_disposition p = Disposition_APPLY"
    by (cases "tp_disposition p") (auto simp: make_transition_plan_def result_bind_eq_Inr)
qed

section \<open>Listed and registered outputs\<close>

lemma traverse_origin: "traverse f xs = Inr ys \<Longrightarrow> y \<in> set ys \<Longrightarrow> \<exists>x \<in> set xs. f x = Inr y"
  by (induction xs arbitrary: ys) (auto simp: result_bind_eq_Inr)

lemma listed_source:
  assumes "list_unregistered_succeeded limit d = Inr sources" and "s \<in> set sources"
  shows "catalog_read d (so_source_work_unit_id s) = Inr s"
    and "so_source_work_unit_id s \<notin> source_id ` set (pipeline_advancements d)"
proof -
  obtain u where u: "u \<in> set (unregistered_succeeded (nat limit) d)" "catalog_read d u = Inr s"
    using assms traverse_origin [of "catalog_read d"]
    by (auto simp: list_unregistered_succeeded_def map_error_eq_Inr split: if_splits)
  have id: "so_source_work_unit_id s = u" by (rule catalog.reads_source [OF u(2)])
  then show "catalog_read d (so_source_work_unit_id s) = Inr s" using u(2) by simp
  show "so_source_work_unit_id s \<notin> source_id ` set (pipeline_advancements d)"
    using u(1) unfolding id unregistered_succeeded_def by (auto dest!: in_set_takeD) (metis imageI)
qed

lemma only_key: "distinct (map f xs) \<Longrightarrow> x \<in> set xs \<Longrightarrow> length (filter (\<lambda>y. f y = f x) xs) = 1"
  by (induction xs) (auto simp: filter_empty_conv, metis imageI)

lemma only_source_row:
  assumes "pipeline_store_ok d" and "r \<in> set (pipeline_advancements d)"
  shows "length (filter (\<lambda>x. source_id x = source_id r) (pipeline_advancements d)) = 1"
  by (rule only_key [of source_id, OF pipeline_sources_distinct [OF assms(1)] assms(2)])

lemma registered_row_facts:
  assumes "register_tx reader ctx s plan correlation now d = Inr (status, d1)" and "pipeline_store_ok d" and "checkpoint_sound d1"
  obtains r where "r \<in> set (pipeline_advancements d1)" "source_id r = so_source_work_unit_id s" "ps_state status = Advancement_BLOCKED"
proof -
  obtain r canonical where same: "pl_source_values s = pl_source_values canonical"
    and r: "r \<in> set (pipeline_advancements d1)" "pa_source r = pl_source_values canonical" "pl_status r = Inr status"
    by (rule register_tx_Inr [OF assms(1,2)]) blast
  have "source_id r = so_source_work_unit_id s"
    using arg_cong [OF same, of sw_source_work_unit_id] r(2) by (simp add: pl_source_values_def)
  moreover have "pa_state r = Advancement_BLOCKED" using assms(3) r(1) by (auto simp: checkpoint_sound_def blocked_entry_def)
  moreover have "ps_state status = pa_state r"
    using r(3) by (auto simp: pl_status_def result_bind_eq_Inr of_checked_def map_error_eq_Inr make_advancement_status_def)
  ultimately show thesis using that r(1) by simp
qed

section \<open>Coverage\<close>

lemma traverse_nth:
  "traverse f xs = Inr ys \<Longrightarrow> length ys = length xs \<and> (\<forall>i < length xs. f (xs ! i) = Inr (ys ! i))"
proof (induction xs arbitrary: ys)
  case (Cons x xs)
  then obtain z zs where "f x = Inr z" "traverse f xs = Inr zs" "ys = z # zs" by (auto simp: result_bind_eq_Inr)
  then show ?case using Cons.IH by (auto simp: less_Suc_eq_0_disj)
qed simp

lemma coverage_groups_facts:
  "distinct (map fst (coverage_groups run d))"
  "sum_list (map snd (coverage_groups run d)) = int (length (blocking_rows run d))"
  "r \<in> set (blocking_rows run d) \<Longrightarrow> coverage_group r \<in> fst ` set (coverage_groups run d)"
proof -
  let ?rows = "blocking_rows run d"
  let ?pairs = "map (\<lambda>g. (g, count_rows (\<lambda>r. coverage_group r = g) ?rows)) (remdups (map coverage_group ?rows))"
  have m: "mset (coverage_groups run d) = mset ?pairs" by (simp add: coverage_groups_def)
  have "mset (map fst (coverage_groups run d)) = mset (map fst ?pairs)"
    using m by (simp only: mset_map)
  moreover have "distinct (map fst ?pairs)" by (simp add: comp_def)
  ultimately show "distinct (map fst (coverage_groups run d))" using mset_eq_imp_distinct_iff by blast
  have "sum_list (map snd (coverage_groups run d)) = sum_list (map snd ?pairs)"
  proof -
    have "mset (map snd (coverage_groups run d)) = mset (map snd ?pairs)" using m by (simp only: mset_map)
    then show ?thesis by (simp only: sum_mset_sum_list [symmetric])
  qed
  also have "\<dots> = (\<Sum>g \<leftarrow> remdups (map coverage_group ?rows). count_rows (\<lambda>r. coverage_group r = g \<and> True) ?rows)"
    by (simp add: comp_def)
  also have "\<dots> = count_rows (\<lambda>_. True) ?rows" by (rule sum_count_partition) simp_all
  finally show "sum_list (map snd (coverage_groups run d)) = int (length ?rows)" by (simp add: count_rows_def)
  show "coverage_group r \<in> fst ` set (coverage_groups run d)" if "r \<in> set ?rows"
  proof -
    have "set_mset (mset (coverage_groups run d)) = set_mset (mset ?pairs)" by (simp only: m)
    then have "fst ` set (coverage_groups run d) = coverage_group ` set ?rows" by (simp add: image_image)
    then show ?thesis using that by simp
  qed
qed

lemma coverage_blocker_count: "pipeline_coverage_blocker (g, n) = Inr b \<Longrightarrow> bl_count b = n"
  by (auto simp: pipeline_coverage_blocker_def result_bind_eq_Inr make_run_coverage_blocker_def split: prod.splits)

lemma coverage_blocker_key:
  assumes "pipeline_coverage_blocker ((stage, Advancement_BLOCKED, c), n) = Inr b"
  shows "bk_code c = Some (bl_code b)" and "stage_of_value stage = Inr (the (bl_stage b))" and "bl_stage b \<noteq> None"
  using assms by (auto simp: pipeline_coverage_blocker_def result_bind_eq_Inr make_run_coverage_blocker_def coverage_text_def
      split: prod.splits option.splits list.splits)

lemma coverage_report_facts:
  assumes "pipeline_coverage run d = Inr report"
  obtains base blockers where "run_coverage run (pl_work d) = Inr base" "report = base\<lparr>cv_blockers := cv_blockers base @ blockers\<rparr>"
    "traverse pipeline_coverage_blocker (coverage_groups run d) = Inr blockers" "distinct (map blocker_key blockers)"
proof -
  obtain base blockers where b: "run_coverage run (pl_work d) = Inr base"
    "traverse pipeline_coverage_blocker (coverage_groups run d) = Inr blockers"
    "make_run_coverage_report (base\<lparr>cv_blockers := cv_blockers base @ blockers\<rparr>) = Inr report"
    using assms by (auto simp: pipeline_coverage_def result_bind_eq_Inr)
  then have r: "report = base\<lparr>cv_blockers := cv_blockers base @ blockers\<rparr>"
    and "length (map blocker_key (cv_blockers base @ blockers)) = card (set (map blocker_key (cv_blockers base @ blockers)))"
    by (auto simp: make_run_coverage_report_def result_bind_eq_Inr)
  then have "distinct (map blocker_key (cv_blockers base @ blockers))" unfolding length_card_distinct by simp
  then show thesis using that b r by simp
qed

lemma traverse_counts:
  assumes "traverse pipeline_coverage_blocker groups = Inr blockers"
  shows "map bl_count blockers = map snd groups"
proof (rule nth_equalityI)
  show "length (map bl_count blockers) = length (map snd groups)" using traverse_nth [OF assms] by simp
  fix i assume i: "i < length (map bl_count blockers)"
  then show "map bl_count blockers ! i = map snd groups ! i"
    using traverse_nth [OF assms] coverage_blocker_count [of "fst (groups ! i)" "snd (groups ! i)" "blockers ! i"] by simp
qed

text \<open>Two blocked advancements with one stage and one code but different details are two groups with one key.\<close>

lemma blocked_groups_agree:
  assumes t: "traverse pipeline_coverage_blocker (coverage_groups run d) = Inr blockers" and u: "distinct (map blocker_key blockers)"
    and r: "r \<in> set (blocking_rows run d)" "pa_state r = Advancement_BLOCKED"
    and s: "s \<in> set (blocking_rows run d)" "pa_state s = Advancement_BLOCKED"
    and same: "sw_source_stage (pa_source r) = sw_source_stage (pa_source s)" "bk_code (pa_blocker r) = bk_code (pa_blocker s)"
  shows "pa_blocker r = pa_blocker s"
proof -
  obtain i where i: "i < length (coverage_groups run d)" "fst (coverage_groups run d ! i) = coverage_group r"
    using coverage_groups_facts(3) [OF r(1)] by (metis imageE in_set_conv_nth)
  obtain j where j: "j < length (coverage_groups run d)" "fst (coverage_groups run d ! j) = coverage_group s"
    using coverage_groups_facts(3) [OF s(1)] by (metis imageE in_set_conv_nth)
  have b: "pipeline_coverage_blocker ((sw_source_stage (pa_source r), Advancement_BLOCKED, pa_blocker r), snd (coverage_groups run d ! i)) = Inr (blockers ! i)"
      "pipeline_coverage_blocker ((sw_source_stage (pa_source s), Advancement_BLOCKED, pa_blocker s), snd (coverage_groups run d ! j)) = Inr (blockers ! j)"
    using traverse_nth [OF t] i j r(2) s(2) by (metis coverage_group_def prod.collapse)+
  have "blocker_key (blockers ! i) = blocker_key (blockers ! j)"
    using coverage_blocker_key [OF b(1)] coverage_blocker_key [OF b(2)] same by (auto simp: option.expand)
  then have "i = j"
    using u i(1) j(1) traverse_nth [OF t] by (simp add: distinct_conv_nth) (metis length_map nth_map)
  then show ?thesis using i j by (simp add: coverage_group_def)
qed

end
