(* ===== verification/Pipeline_Properties.thy ===== *)
theory Pipeline_Properties
  imports Pipeline_Steps Engine_Scenario
begin

text \<open>
  What the checkpoint guarantees, with two succeeded imports as concrete inputs: one without a manual
  source, whose output is registered as blocked, and one that could advance and cannot be stored.
\<close>

section \<open>Succeeded imports\<close>

definition demo_import_unit :: work_unit_row where
  "demo_import_unit = demo_unit\<lparr>wu_stage := Stage_DISCOVERY, wu_capability := Cap_MANUAL_IMPORT,
     wu_expected_output_contract := ''manual-import-plan@1'', wu_state := Unit_SUCCEEDED, wu_attempt_count := 1,
     wu_output_contract := Some ''manual-import-plan@1'', wu_output_digest := Some one_digest,
     wu_completed_at_utc := Some 50, wu_updated_at_utc := 50\<rparr>"

definition demo_object :: "uuid \<Rightarrow> string \<Rightarrow> string \<Rightarrow> artifact_object_row" where
  "demo_object u digest reference = \<lparr>ao_object_id = u, ao_artifact_kind = DERIVED_ARTIFACT, ao_content_digest = digest,
     ao_size_bytes = 10, ao_storage_reference = reference, ao_verified_at_utc = 1, ao_recorded_at_utc = 1,
     ao_correlation_id = ''c''\<rparr>"

definition demo_record :: "uuid \<Rightarrow> uuid \<Rightarrow> artifact_record_row" where
  "demo_record u object_id = \<lparr>ar_artifact_id = u, ar_object_id = object_id, ar_upload_id = None, ar_work_id = None,
     ar_attempt_id = None, ar_worker_id = None, ar_producer_kind = Producer_CONTROL_PLANE,
     ar_producer_identity = ''publisher'', ar_owner_operation_id = Some u, ar_content_type = ''text/csv'',
     ar_source_policy_digest = None, ar_recorded_at_utc = 1, ar_correlation_id = ''c''\<rparr>"

definition demo_import_db :: "work_artifact_binding_row list \<Rightarrow> db" where
  "demo_import_db inputs = demo_db\<lparr>stage_runs := map (\<lambda>s. s\<lparr>sr_stage := Stage_DISCOVERY\<rparr>) (stage_runs demo_db),
     work_units := [demo_import_unit],
     artifact_objects := [demo_object (UUID 20) zero_digest ''a/0'', demo_object (UUID 21) one_digest ''a/1''],
     artifact_records := [demo_record (UUID 22) (UUID 20), demo_record (UUID 23) (UUID 21)],
     work_input_artifacts := inputs,
     work_output_artifacts := [\<lparr>wb_work_id = UUID 3, wb_position = 0, wb_artifact_id = UUID 23, wb_role = ''manual_import_plan''\<rparr>]\<rparr>"

definition demo_pipeline :: pipeline_db where
  "demo_pipeline = \<lparr>pl_work = demo_import_db [], pipeline_advancements = [], pipeline_advancement_attempts = []\<rparr>"

definition demo_sourced :: pipeline_db where
  "demo_sourced = \<lparr>pl_work = demo_import_db [\<lparr>wb_work_id = UUID 3, wb_position = 0, wb_artifact_id = UUID 22,
     wb_role = ''manual_source:csv:atomic''\<rparr>], pipeline_advancements = [], pipeline_advancement_attempts = []\<rparr>"

definition demo_output :: "artifact_identity list \<Rightarrow> succeeded_work_output" where
  "demo_output inputs = \<lparr>so_source_work_unit_id = UUID 3, so_run_id = UUID 1, so_stage_run_id = UUID 2, so_stage = Stage_DISCOVERY,
     so_capability = ''manual_import'', so_output_contract = ''manual-import-plan@1'', so_output_digest = one_digest,
     so_output_artifact = \<lparr>ai_artifact_id = UUID 23, ai_role = ''manual_import_plan'', ai_content_digest = one_digest,
       ai_size_bytes = 10, ai_content_type = ''text/csv''\<rparr>,
     so_input_artifacts = inputs\<rparr>"

definition demo_source :: artifact_identity where
  "demo_source = \<lparr>ai_artifact_id = UUID 22, ai_role = ''manual_source:csv:atomic'', ai_content_digest = zero_digest,
     ai_size_bytes = 10, ai_content_type = ''text/csv''\<rparr>"

definition demo_call :: "int \<Rightarrow> nat \<Rightarrow> call_context" where
  "demo_call now k = \<lparr>cc_clock = utc now, cc_uuids = (\<lambda>n. UUID (word_of_nat (k + n))), cc_lease_token = ''t1'', cc_locked = {}\<rparr>"

lemma demo_pipeline_ok: "pipeline_store_ok demo_pipeline" and demo_sourced_ok: "pipeline_store_ok demo_sourced"
proof -
  have "columns_in_range (pl_work demo_pipeline)" "schema_ok (pl_work demo_pipeline)"
    "columns_in_range (pl_work demo_sourced)" "schema_ok (pl_work demo_sourced)" by code_simp+
  then show "pipeline_store_ok demo_pipeline" "pipeline_store_ok demo_sourced"
    by (simp_all add: demo_pipeline_def demo_sourced_def pipeline_store_ok_def pipeline_columns_def pipeline_constraints_def
        pipeline_unique_def pipeline_references_def)
qed

lemma demo_read: "catalog_read demo_pipeline (UUID 3) = Inr (demo_output [])"
  and demo_sourced_read: "list_unregistered_succeeded 10 demo_sourced = Inr [demo_output [demo_source]]"
  by code_simp+

lemma uuid_storable: "storable (uuid_str u)"
proof -
  have "storable (uuid_hex u)"
    by (auto simp: uuid_hex_def storable_def list_all_iff hex_digit_def)
  then have "storable (take m (drop n (uuid_hex u)))" "storable (drop n (uuid_hex u))" for m n
    by (auto simp: storable_def list_all_iff dest: in_set_takeD in_set_dropD)
  from this(1) [of _ 0] this show ?thesis by (simp add: uuid_str_def Let_def) (simp add: storable_def)
qed

text \<open>The blocked plan of an import without a manual source, the columns of its blocker, its row and event.\<close>

definition demo_blocker :: pipeline_blocker where
  "demo_blocker = \<lparr>pb_owner = ''PipelineAdvancement'', pb_code = ''PIPELINE_INPUT_ARTIFACT_MISSING'',
     pb_message = ''The manual-import plan has no canonical source artifact binding.'',
     pb_required_action = ''Bind exactly one canonical manual source artifact and re-run the source work.'',
     pb_context = [(''sourceWorkUnitId'', PyStr (uuid_str (UUID 3))),
       (''requiredRolePattern'', PyStr ''manual[_import]_source:<format>:<atomic|partial>'')]\<rparr>"

definition demo_columns :: blocker_columns where
  "demo_columns = \<lparr>bk_owner = Some ''PipelineAdvancement'', bk_code = Some ''PIPELINE_INPUT_ARTIFACT_MISSING'',
     bk_message = Some ''The manual-import plan has no canonical source artifact binding.'',
     bk_required_action = Some ''Bind exactly one canonical manual source artifact and re-run the source work.'',
     bk_context = Some (JObj [(''requiredRolePattern'', JStr ''manual[_import]_source:<format>:<atomic|partial>''),
       (''sourceWorkUnitId'', JStr (uuid_str (UUID 3)))])\<rparr>"

definition demo_plan :: "string \<Rightarrow> pipeline_transition_plan" where
  "demo_plan g = \<lparr>tp_source_work_unit_id = UUID 3, tp_transition_key = ''manual-import-plan-admission'',
     tp_disposition = Disposition_BLOCK, tp_plan_digest = g, tp_blocker = Some demo_blocker\<rparr>"

definition demo_row :: "string \<Rightarrow> advancement_row" where
  "demo_row g = registered_row (UUID 30) (demo_output []) (demo_plan g) demo_columns 60 ''sync''"

definition demo_event :: "string \<Rightarrow> advancement_event_row" where
  "demo_event g = (registration_event (UUID 31) (UUID 30) (demo_plan g) 60 ''sync'')\<lparr>pe_blocker := demo_columns\<rparr>"

lemma demo_blocker_made: "make_pipeline_blocker demo_blocker = Inr demo_blocker"
proof -
  have "pipeline_token ''PipelineAdvancement''" "code_pattern ''PIPELINE_INPUT_ARTIFACT_MISSING''"
    "require_plain_text ''pipeline blocker message'' ''The manual-import plan has no canonical source artifact binding.'' 1000 = Inr ()"
    "require_plain_text ''pipeline blocker required action''
       ''Bind exactly one canonical manual source artifact and re-run the source work.'' 1000 = Inr ()"
    by code_simp+
  then show ?thesis by (simp add: make_pipeline_blocker_def demo_blocker_def pl_require_token_def)
qed

lemma demo_keys_sorted:
  "sort_key fst [(''sourceWorkUnitId'', x), (''requiredRolePattern'', y)] = [(''requiredRolePattern'', y), (''sourceWorkUnitId'', x)]"
proof -
  have "\<not> ''sourceWorkUnitId'' \<le> ''requiredRolePattern''" by code_simp
  then show ?thesis by simp
qed

lemma demo_columns_made: "pl_blocker_values (Some demo_blocker) = Inr demo_columns"
  by (simp add: pl_blocker_values_def demo_blocker_def demo_columns_def demo_keys_sorted del: sort_key_simps)

lemma demo_planned: obtains g where "sha256_pattern g" "registry_plan (demo_output []) = Inr (demo_plan g)"
proof -
  have key: "pipeline_token ''manual-import-plan-admission''" by code_simp
  have plan: "registry_plan (demo_output []) = plan_of (demo_output []) ''manual-import-plan-admission'' Disposition_BLOCK (Some demo_blocker)"
    using demo_blocker_made by (simp add: registry_plan_def manual_import_plan_def manual_sources_def blocked_plan_def
        of_plan_check_def demo_output_def demo_blocker_def)
  obtain j where j: "canonical_mapping (pb_context demo_blocker) = Inr j"
    using canonical_mapping_total [of "pb_context demo_blocker"] by (force simp: demo_blocker_def)
  obtain g where g: "transition_plan_digest (demo_output []) ''manual-import-plan-admission'' Disposition_BLOCK (Some demo_blocker) = Inr g"
    "sha256_pattern g"
    using j by (simp add: transition_plan_digest_def blocker_json_def)
  have "so_source_work_unit_id (demo_output []) = UUID 3" by (simp add: demo_output_def)
  then show thesis
    using that [OF g(2)] plan g key
    by (simp add: plan_of_def of_plan_check_def make_transition_plan_def pl_require_token_def pl_require_sha256_def demo_plan_def)
qed

lemma demo_row_ok:
  assumes "sha256_pattern g"
  shows "pipeline_store_ok (demo_pipeline\<lparr>pipeline_advancements := [demo_row g]\<rparr>)"
    and "pipeline_store_ok (register_db (demo_row g) (demo_event g) demo_pipeline)"
    and "\<exists>status. pl_status (demo_row g) = Inr status"
proof -
  have texts: "storable ''discovery''" "storable ''manual_import''" "storable ''manual-import-plan@1''" "storable one_digest"
    "storable ''manual_import_plan''" "storable ''text/csv''" "storable ''manual-import-plan-admission''" "storable ''sync''"
    "sha256_pattern one_digest" "pipeline_token ''manual-import-plan-admission''" by code_simp+
  have "storable ''PipelineAdvancement''" "storable ''PIPELINE_INPUT_ARTIFACT_MISSING''" "storable ''requiredRolePattern''"
    "storable ''sourceWorkUnitId''" "storable ''manual[_import]_source:<format>:<atomic|partial>''"
    "storable ''The manual-import plan has no canonical source artifact binding.''"
    "storable ''Bind exactly one canonical manual source artifact and re-run the source work.''" by code_simp+
  then have blocker: "blocker_storable demo_columns"
    by (simp add: blocker_storable_def demo_columns_def optional_def uuid_storable)
  have source: "source_storable (pl_source_values (demo_output []))"
    using texts by (simp add: source_storable_def pl_source_values_def demo_output_def sorted_inputs_def int8_def)
  have refs: "UUID 3 \<in> wu_work_id ` set (work_units (demo_import_db []))"
    "UUID 1 \<in> cr_run_id ` set (collection_runs (demo_import_db []))"
    "UUID 2 \<in> sr_stage_run_id ` set (stage_runs (demo_import_db []))" by code_simp+
  have cols: "advancement_columns (demo_row g)" "event_columns (demo_event g)"
    using texts blocker source sha256_storable [OF assms]
    by (simp_all add: advancement_columns_def event_columns_def demo_row_def demo_event_def registered_row_def registration_event_def
        demo_plan_def int8_def optional_def lease_storable_def no_lease_def)
  have "blocker_payload demo_columns" "bk_code demo_columns \<noteq> None" by (simp_all add: blocker_payload_def demo_columns_def)
  then have check: "advancement_check (demo_row g)" "event_check (demo_event g)"
    using texts assms
    by (simp_all add: advancement_check_def event_check_def event_payload_def terminal_payload_def demo_row_def demo_event_def
        registered_row_def registration_event_def demo_plan_def optional_def no_lease_def lease_payload_def pl_source_values_def demo_output_def)
  have ids: "source_id (demo_row g) = UUID 3" "sw_run_id (pa_source (demo_row g)) = UUID 1" "sw_stage_run_id (pa_source (demo_row g)) = UUID 2"
    "pe_advancement_id (demo_event g) = pa_advancement_id (demo_row g)"
    by (simp_all add: demo_row_def demo_event_def registered_row_def registration_event_def pl_source_values_def demo_output_def)
  show "pipeline_store_ok (demo_pipeline\<lparr>pipeline_advancements := [demo_row g]\<rparr>)"
    "pipeline_store_ok (register_db (demo_row g) (demo_event g) demo_pipeline)"
    using demo_pipeline_ok cols check refs ids
    by (simp_all add: pipeline_store_ok_def pipeline_columns_def pipeline_constraints_def pipeline_unique_def pipeline_references_def
        demo_pipeline_def)
  have "make_pipeline_blocker (demo_blocker\<lparr>pb_context := c\<rparr>) = Inr (demo_blocker\<lparr>pb_context := c\<rparr>)" for c
    using demo_blocker_made by (auto simp: make_pipeline_blocker_def result_bind_eq_Inr)
  from this [of "map (\<lambda>kv. (fst kv, py_of_json (snd kv))) [(''requiredRolePattern'', JStr ''manual[_import]_source:<format>:<atomic|partial>''),
       (''sourceWorkUnitId'', JStr (uuid_str (UUID 3)))]"]
  obtain b where "blocker_from_row (demo_row g) = Inr (Some b)"
    by (simp add: blocker_from_row_def demo_row_def registered_row_def demo_columns_def demo_blocker_def str_of_def of_checked_def)
  then show "\<exists>status. pl_status (demo_row g) = Inr status"
    using texts(10) assms by (simp add: pl_status_def make_advancement_status_def of_checked_def pl_require_token_def
        pl_require_sha256_def pl_require_aware_utc_def require_terminal_shape_def demo_row_def registered_row_def demo_plan_def)
qed

lemma demo_registered:
  obtains g status where "service_register catalog_read (demo_call 60 30) (demo_output []) ''sync'' demo_pipeline
     = (Inr status, register_db (demo_row g) (demo_event g) demo_pipeline)"
proof -
  obtain g where g: "sha256_pattern g" "registry_plan (demo_output []) = Inr (demo_plan g)" by (rule demo_planned)
  note ok = demo_row_ok [OF g(1)]
  obtain status where status: "pl_status (demo_row g) = Inr status" using ok(3) by blast
  let ?d = "register_db (demo_row g) (demo_event g) demo_pipeline"
  have id: "so_source_work_unit_id (demo_output []) = UUID 3" by (simp add: demo_output_def)
  have none: "find_by_source (UUID 3) demo_pipeline = Inr None"
    by (simp add: find_by_source_def select_one_def demo_pipeline_def)
  have "pl_execute (pipeline_advancements_update (insert_rows [demo_row g])) demo_pipeline
      = Inr (demo_pipeline\<lparr>pipeline_advancements := [demo_row g]\<rparr>)"
    using ok(1) by (simp add: insert_rows_def demo_pipeline_def)
  moreover have "insert_event (Some demo_blocker) (registration_event (UUID 31) (UUID 30) (demo_plan g) 60 ''sync'')
      (demo_pipeline\<lparr>pipeline_advancements := [demo_row g]\<rparr>) = Inr ?d"
    using ok(2) by (auto simp: insert_event_Inr demo_columns_made demo_event_def register_db_def demo_pipeline_def)
  moreover have "get_locked (UUID 30) ?d = Inr (demo_row g)"
    by (simp add: get_locked_eq_Inr [OF ok(2)]) (simp add: demo_row_def registered_row_def)
  ultimately have "insert_registration (demo_call 60 30) (demo_output []) (demo_plan g) ''sync'' 60 demo_pipeline = Inr (status, ?d)"
    using status by (simp add: insert_registration_def demo_columns_made demo_call_def Let_def demo_row_def demo_plan_def
        del: pl_execute_eq_Inr)
  then have "register_tx catalog_read (demo_call 60 30) (demo_output []) (demo_plan g) ''sync'' 60 demo_pipeline = Inr (status, ?d)"
    using demo_read none by (simp add: register_tx_def id assert_source_equal_def)
  moreover have "pipeline_token ''sync''" by code_simp
  ultimately show thesis
    using that g by (simp add: service_register_def pl_require_token_def pipeline_invoke_def pl_register_def id pl_transaction_def
        pl_now_utc_def demo_call_def demo_plan_def)
qed

section \<open>The history of the checkpoint\<close>

text \<open>
  \<^bold>\<open>C17.\<close> The checkpoint holds blocked outputs only, and keeps them. Start from a database without
  advancements and let executions register, claim, apply, block and tick in any order, successfully or
  not, while the engine works on its own tables. Every advancement is then blocked, at revision and
  attempt zero, with no lease and no result, and exactly one event explains it, with the same blocker and
  plan; no claim grants a lease, no application and no block of a lease succeeds; and from then on rows
  and events are only appended, so nothing recorded changes or is lost.
\<close>

theorem checkpoint_history:
  assumes "pipeline_store_ok d0" and "pipeline_advancements d0 = []"
    and "(pipeline_step catalog_read appliers)\<^sup>*\<^sup>* d0 d" and "(pipeline_step catalog_read appliers)\<^sup>*\<^sup>* d d'"
  shows "(\<forall>r \<in> set (pipeline_advancements d). pa_state r = Advancement_BLOCKED \<and> pa_revision r = 0
        \<and> pa_attempt_count r = 0 \<and> pa_lease r = no_lease \<and> pa_result_digest r = None
        \<and> (\<exists>e. {e \<in> set (pipeline_advancement_attempts d). pe_advancement_id e = pa_advancement_id r} = {e}
             \<and> pe_event_kind e = Event_REGISTERED_BLOCK \<and> pe_blocker e = pa_blocker r
             \<and> pe_transition_plan_digest e = pa_transition_plan_digest r))
     \<and> (\<forall>ctx c lease. fst (pl_claim ctx c d) \<noteq> Inr (Some lease))
     \<and> (\<forall>ctx c status. fst (pl_apply catalog_read appliers ctx c d) \<noteq> Inr status)
     \<and> (\<forall>ctx c status. fst (pl_block catalog_read ctx c d) \<noteq> Inr status)
     \<and> (\<exists>rs es. pipeline_advancements d' = pipeline_advancements d @ rs
          \<and> pipeline_advancement_attempts d' = pipeline_advancement_attempts d @ es)"
proof -
  have d0: "checkpoint_sound d0" by (rule empty_checkpoint_sound [OF assms(1,2)])
  have d: "checkpoint_sound d" by (rule moves_keep_sound [OF steps_moves [OF assms(3) d0] d0])
  have rows: "\<exists>e. {e \<in> set (pipeline_advancement_attempts d). pe_advancement_id e = pa_advancement_id r} = {e} \<and> blocked_entry r e"
    if "r \<in> set (pipeline_advancements d)" for r
    using d that by (simp add: checkpoint_sound_def events_of_def)
  have claim: "fst (pl_claim ctx c d) \<noteq> Inr (Some lease)" for ctx c lease
    using claim_answers(2) [of ctx c d "fst (pl_claim ctx c d)" "snd (pl_claim ctx c d)"] by auto
  have complete: "fst (pl_apply catalog_read appliers ctx c d) \<noteq> Inr status" for ctx c status
    using apply_answers(2) [of catalog_read appliers ctx c d "fst (pl_apply catalog_read appliers ctx c d)"
        "snd (pl_apply catalog_read appliers ctx c d)"] by auto
  have block: "fst (pl_block catalog_read ctx c d) \<noteq> Inr status" for ctx c status
    using block_answers(2) [OF _ d, of catalog_read ctx c "fst (pl_block catalog_read ctx c d)"
        "snd (pl_block catalog_read ctx c d)"] by auto
  have "\<exists>rs es. pipeline_advancements d' = pipeline_advancements d @ rs
      \<and> pipeline_advancement_attempts d' = pipeline_advancement_attempts d @ es"
    by (rule moves_append [OF steps_moves [OF assms(4) d]])
  then show ?thesis using claim complete block rows unfolding blocked_entry_def by blast
qed

lemma register_step:
  "service_register catalog_read ctx s correlation d = (Inr status, d') \<Longrightarrow> pipeline_step catalog_read appliers d d'"
  by (auto simp: service_register_def pipeline_invoke_def split: sum.splits prod.splits intro: pipeline_step.Step_register)

theorem checkpoint_history_witness:
  "\<exists>g. pa_state (demo_row g) = Advancement_BLOCKED
     \<and> {e \<in> {demo_event g}. pe_advancement_id e = pa_advancement_id (demo_row g)} \<noteq> {}
     \<and> (\<forall>ctx c lease. fst (pl_claim ctx c (register_db (demo_row g) (demo_event g) demo_pipeline)) \<noteq> Inr (Some lease))"
proof -
  obtain g status where "service_register catalog_read (demo_call 60 30) (demo_output []) ''sync'' demo_pipeline
      = (Inr status, register_db (demo_row g) (demo_event g) demo_pipeline)" by (rule demo_registered)
  from register_step [OF this]
  have "(pipeline_step catalog_read Map.empty)\<^sup>*\<^sup>* demo_pipeline (register_db (demo_row g) (demo_event g) demo_pipeline)" by blast
  let ?d = "register_db (demo_row g) (demo_event g) demo_pipeline"
  note \<open>(pipeline_step catalog_read Map.empty)\<^sup>*\<^sup>* demo_pipeline ?d\<close>
  moreover have empty: "pipeline_advancements demo_pipeline = []" by (simp add: demo_pipeline_def)
  ultimately have h: "\<forall>r \<in> set (pipeline_advancements ?d). pa_state r = Advancement_BLOCKED
      \<and> {e \<in> set (pipeline_advancement_attempts ?d). pe_advancement_id e = pa_advancement_id r} \<noteq> {}"
    "\<forall>ctx c lease. fst (pl_claim ctx c ?d) \<noteq> Inr (Some lease)"
    using checkpoint_history [OF demo_pipeline_ok _ _ rtranclp.rtrancl_refl, of Map.empty ?d] by (fast, fast)
  have "pipeline_advancement_attempts demo_pipeline = []" by (simp add: demo_pipeline_def)
  then show ?thesis using h(1) h(2) empty by (intro exI [of _ g]) simp
qed

section \<open>Registration\<close>

text \<open>
  \<^bold>\<open>C18.\<close> An output is registered once. In any state the calls reach from an empty checkpoint, when the
  service registers the output of a work unit, then after any further calls, as long as the unit's work
  evidence is what it was, the service answers a registration of that output at any UTC time and under any
  correlation id with the same status and writes nothing; the status is blocked, and the unit has exactly
  one advancement.
\<close>

theorem output_registered_once:
  assumes "pipeline_store_ok d0" and "pipeline_advancements d0 = []"
    and "(pipeline_step catalog_read appliers)\<^sup>*\<^sup>* d0 d"
    and "service_register catalog_read ctx s correlation d = (Inr status, d1)"
    and "(pipeline_step catalog_read appliers)\<^sup>*\<^sup>* d1 d2"
    and "catalog_read d2 (so_source_work_unit_id s) = catalog_read d (so_source_work_unit_id s)"
    and "is_aware_utc (cc_clock ctx')" and "pipeline_token correlation'"
  shows "service_register catalog_read ctx' s correlation' d2 = (Inr status, d2) \<and> ps_state status = Advancement_BLOCKED
     \<and> length (filter (\<lambda>r. source_id r = so_source_work_unit_id s) (pipeline_advancements d2)) = 1"
proof -
  obtain plan where plan: "registry_plan s = Inr plan" "tp_source_work_unit_id plan = so_source_work_unit_id s"
    using registry_plan_total by blast
  have d: "checkpoint_sound d"
    by (rule moves_keep_sound [OF steps_moves [OF assms(3)]]) (rule empty_checkpoint_sound [OF assms(1,2)])+
  then have ok: "pipeline_store_ok d" by (simp add: checkpoint_sound_def)
  have d1: "checkpoint_sound d1" by (rule moves_keep_sound [OF service_register_moves(1) [OF assms(4) ok] d])
  have moved: "checkpoint_moves d1 d2" by (rule steps_moves [OF assms(5) d1])
  have d2: "checkpoint_sound d2" by (rule moves_keep_sound [OF moved d1])
  then have ok2: "pipeline_store_ok d2" by (simp add: checkpoint_sound_def)
  have "pl_register catalog_read ctx s plan correlation d = (Inr status, d1)"
    using assms(4) plan by (auto simp: service_register_def pipeline_invoke_def split: sum.splits prod.splits)
  then obtain now where tx: "register_tx catalog_read ctx s plan correlation now d = Inr (status, d1)"
    using plan(2) by (auto simp: pl_register_def elim!: pl_transaction_cases)
  have kept: "set (pipeline_advancements d1) \<subseteq> set (pipeline_advancements d2)" using moves_append [OF moved] by auto
  have again: "register_tx catalog_read ctx' s plan correlation' later d2 = Inr (status, d2)" for later
    by (rule catalog.registered_later [OF ok ok2 tx kept assms(6)])
  obtain r where r: "r \<in> set (pipeline_advancements d1)" "source_id r = so_source_work_unit_id s" "ps_state status = Advancement_BLOCKED"
    by (rule registered_row_facts [OF tx ok d1])
  have "length (filter (\<lambda>r. source_id r = so_source_work_unit_id s) (pipeline_advancements d2)) = 1"
    using only_source_row [OF ok2, of r] r(1,2) kept by auto
  then show ?thesis
    using plan again r(3) assms(7,8)
    by (simp add: service_register_def pl_require_token_def pipeline_invoke_def pl_register_def pl_transaction_def pl_now_utc_def)
qed

theorem output_registered_once_witness:
  "\<exists>g status. service_register catalog_read (demo_call 70 40) (demo_output []) ''sync-2'' (register_db (demo_row g) (demo_event g) demo_pipeline)
     = (Inr status, register_db (demo_row g) (demo_event g) demo_pipeline) \<and> ps_state status = Advancement_BLOCKED"
proof -
  obtain g status where g: "service_register catalog_read (demo_call 60 30) (demo_output []) ''sync'' demo_pipeline
      = (Inr status, register_db (demo_row g) (demo_event g) demo_pipeline)" by (rule demo_registered)
  have empty: "pipeline_advancements demo_pipeline = []" by (simp add: demo_pipeline_def)
  have same: "catalog_read (register_db (demo_row g) (demo_event g) demo_pipeline) u = catalog_read demo_pipeline u" for u
    by (simp add: catalog_read_def)
  have utc: "is_aware_utc (cc_clock (demo_call 70 40))" by (simp add: demo_call_def)
  have token: "pipeline_token ''sync-2''" by code_simp
  show ?thesis
    using output_registered_once [OF demo_pipeline_ok empty rtranclp.rtrancl_refl g rtranclp.rtrancl_refl same utc token] by blast
qed

section \<open>Outputs that could advance\<close>

text \<open>
  \<^bold>\<open>C19.\<close> An output that could advance stops the pipeline. While the oldest unregistered outputs the
  supervisor finds include a manual-import plan with exactly one manual source, every registration of it,
  at any UTC time and under any correlation id, is refused by the database and leaves it unchanged,
  because a row without a blocker carries the JSON value \<open>null\<close>, which the constraint on the blocker
  columns excludes; and no tick of the supervisor succeeds.
\<close>

theorem admissible_import_stalls:
  assumes "pipeline_store_ok d" and "list_unregistered_succeeded limit d = Inr sources"
    and "s \<in> set sources" and "admissible_import s"
  shows "(\<forall>ctx correlation. is_aware_utc (cc_clock ctx) \<and> pipeline_token correlation \<longrightarrow>
       (\<exists>cause. service_register catalog_read ctx s correlation d
          = (Inl (invoke_error correlation (Conflict (PIPELINE_STORAGE_FAILED (Some (so_source_work_unit_id s)) cause))), d)))
     \<and> (\<forall>appliers previewers calls c tick. fst (run_once appliers previewers calls limit c d) \<noteq> Inr tick)"
proof -
  obtain plan where plan: "registry_plan s = Inr plan" "tp_source_work_unit_id plan = so_source_work_unit_id s" "tp_blocker plan = None"
    using registry_plan_total registry_plan_blocker assms(4) by metis
  note listed = listed_source [OF assms(2,3)]
  have "\<exists>cause. service_register catalog_read ctx s correlation d
      = (Inl (invoke_error correlation (Conflict (PIPELINE_STORAGE_FAILED (Some (so_source_work_unit_id s)) cause))), d)"
    if "is_aware_utc (cc_clock ctx)" "pipeline_token correlation" for ctx correlation
    by (rule catalog.service_refuses [OF listed(1) plan listed(2) that])
  moreover have "fst (run_once appliers previewers calls limit c d) \<noteq> Inr tick" for appliers previewers calls c tick
  proof
    assume "fst (run_once appliers previewers calls limit c d) = Inr tick"
    then have "fst (synchronize calls limit (cl_correlation_id c) d) \<in> range Inr" using run_once_claims_nothing by blast
    then show False
      using catalog.register_all_refused [OF assms(1,3) _ listed(1) plan(1,3) listed(2), of calls 0 "cl_correlation_id c"]
      by (auto simp: synchronize_def assms(2) split: if_splits)
  qed
  ultimately show ?thesis by blast
qed

theorem admissible_import_stalls_witness:
  "\<exists>cause. service_register catalog_read (demo_call 60 30) (demo_output [demo_source]) ''sync'' demo_sourced
     = (Inl (invoke_error ''sync'' (Conflict (PIPELINE_STORAGE_FAILED (Some (UUID 3)) cause))), demo_sourced)"
proof -
  have "admissible_import (demo_output [demo_source])"
    by (simp add: admissible_import_def demo_output_def demo_source_def manual_source_roles_def)
  moreover have "pipeline_token ''sync''" by code_simp
  moreover have "is_aware_utc (cc_clock (demo_call 60 30))" by (simp add: demo_call_def)
  moreover have "so_source_work_unit_id (demo_output [demo_source]) = UUID 3" by (simp add: demo_output_def)
  ultimately show ?thesis
    using admissible_import_stalls [OF demo_sourced_ok demo_sourced_read, of "demo_output [demo_source]"] by auto
qed

text \<open>
  \<^bold>\<open>C21.\<close> Every output of succeeded work has a plan. The registry always answers, with a valid plan for
  that work unit; the plan applies the output exactly when it is a manual-import plan with exactly one
  manual source, and carries a blocker in every other case.
\<close>

theorem every_output_is_planned:
  "\<exists>plan. registry_plan s = Inr plan \<and> make_transition_plan plan = Inr plan
     \<and> tp_source_work_unit_id plan = so_source_work_unit_id s
     \<and> (tp_disposition plan = Disposition_APPLY \<longleftrightarrow> admissible_import s) \<and> (tp_blocker plan = None \<longleftrightarrow> admissible_import s)"
  using registry_plan_total [of s] registry_plan_blocker [of s] by blast

section \<open>Coverage\<close>

text \<open>
  \<^bold>\<open>C22.\<close> The coverage report of a run accounts for the outputs that did not advance. When the report
  is produced, it is the report of run control with further blockers whose counts add up to the pending,
  leased and blocked advancements of the run. The report carries one blocker for a stage and a code, so
  it exists only if the advancements blocked with one code in one stage carry equal blockers; as their
  contexts name the work unit, two outputs blocked for the same reason leave the run without a report.
\<close>

theorem open_advancements_reported:
  assumes "pipeline_coverage run d = Inr report"
  shows "\<exists>base blockers. run_coverage run (pl_work d) = Inr base \<and> report = base\<lparr>cv_blockers := cv_blockers base @ blockers\<rparr>
     \<and> sum_list (map bl_count blockers) = int (length (blocking_rows run d))
     \<and> (\<forall>r s. r \<in> set (blocking_rows run d) \<and> s \<in> set (blocking_rows run d)
          \<and> pa_state r = Advancement_BLOCKED \<and> pa_state s = Advancement_BLOCKED
          \<and> sw_source_stage (pa_source r) = sw_source_stage (pa_source s) \<and> bk_code (pa_blocker r) = bk_code (pa_blocker s)
          \<longrightarrow> pa_blocker r = pa_blocker s)"
proof -
  obtain base blockers where b: "run_coverage run (pl_work d) = Inr base" "report = base\<lparr>cv_blockers := cv_blockers base @ blockers\<rparr>"
    and t: "traverse pipeline_coverage_blocker (coverage_groups run d) = Inr blockers" and u: "distinct (map blocker_key blockers)"
    by (rule coverage_report_facts [OF assms])
  have "sum_list (map bl_count blockers) = int (length (blocking_rows run d))"
    using traverse_counts [OF t] coverage_groups_facts(2) by simp
  then show ?thesis using b blocked_groups_agree [OF t u] by blast
qed

definition waiting_row :: "uuid \<Rightarrow> advancement_row" where
  "waiting_row u = \<lparr>pa_advancement_id = u,
     pa_source = \<lparr>sw_source_work_unit_id = UUID 3, sw_run_id = UUID 1, sw_stage_run_id = UUID 2, sw_source_stage = ''discovery'',
       sw_source_capability = ''manual_import'', sw_source_output_contract = ''manual-import-plan@1'',
       sw_source_output_digest = one_digest, sw_source_output_artifact_id = UUID 23,
       sw_source_output_artifact_role = ''manual_import_plan'', sw_source_output_artifact_digest = one_digest,
       sw_source_output_artifact_size_bytes = 10, sw_source_output_artifact_content_type = ''text/csv'',
       sw_source_input_artifacts = []\<rparr>,
     pa_transition_key = ''manual-import-plan-admission'', pa_transition_plan_digest = zero_digest,
     pa_state = Advancement_PENDING, pa_revision = 0, pa_attempt_count = 0, pa_result_digest = None,
     pa_blocker = no_blocker, pa_lease = no_lease, pa_created_at_utc = 60, pa_updated_at_utc = 60, pa_correlation_id = ''sync''\<rparr>"

definition refused_row :: "uuid \<Rightarrow> string \<Rightarrow> advancement_row" where
  "refused_row u work = (waiting_row u)\<lparr>pa_state := Advancement_BLOCKED,
     pa_blocker := \<lparr>bk_owner = Some ''PipelineAdvancement'', bk_code = Some ''PIPELINE_INPUT_ARTIFACT_MISSING'',
       bk_message = Some ''The manual-import plan has no canonical source artifact binding.'',
       bk_required_action = Some ''Bind exactly one canonical manual source artifact and re-run the source work.'',
       bk_context = Some (JObj [(''sourceWorkUnitId'', JStr work)])\<rparr>\<rparr>"

theorem open_advancements_reported_witness:
  "\<exists>report base blockers. pipeline_coverage (UUID 1) (demo_pipeline\<lparr>pipeline_advancements := [refused_row (UUID 30) ''00000000'']\<rparr>) = Inr report
     \<and> report = base\<lparr>cv_blockers := cv_blockers base @ blockers\<rparr> \<and> sum_list (map bl_count blockers) = 1"
proof -
  let ?d = "demo_pipeline\<lparr>pipeline_advancements := [refused_row (UUID 30) ''00000000'']\<rparr>"
  have "case_sum (\<lambda>_. False) (\<lambda>_. True) (pipeline_coverage (UUID 1) ?d)" by code_simp
  then obtain report where "pipeline_coverage (UUID 1) ?d = Inr report" by (cases "pipeline_coverage (UUID 1) ?d") auto
  moreover have "length (blocking_rows (UUID 1) ?d) = 1" by code_simp
  ultimately show ?thesis using open_advancements_reported by fastforce
qed

lemma equal_refusals_hide_the_run:
  "pipeline_coverage (UUID 1)
     (demo_pipeline\<lparr>pipeline_advancements := [refused_row (UUID 30) ''00000000'', refused_row (UUID 31) ''00000001'']\<rparr>)
   = Inl (StoreValueError (ValueError ''run coverage contains duplicate blockers''))"
  by code_simp

end
