(* ===== verification/Spec2Isabelle.thy ===== *)
theory Spec2Isabelle
  imports Engine_Properties Engine_Repeats Domain_Properties Run_Properties Resolution_Properties Snapshot_Properties
    Review_Properties Pipeline_Properties
begin

text \<open>
  A verification library for the data collection platform: the durable Work Engine that plans, leases,
  retries and completes the work of a collection run, the checkpoint that advances completed work through
  the pipeline, the control of runs, the resolution of candidates into clusters with their quality, and
  the review of candidates by people.

  \<^bold>\<open>The program.\<close> The control plane creates a collection run from a configuration bundle, opens stage
  runs in it and enqueues work units. Workers register the capabilities and output contracts they
  support, ask for a lease, renew it while they work and finish it by completing, failing or releasing
  it; a sweep expires the leases nobody renewed. A unit that needs an external source takes one request
  of that source's capacity with its lease. All of that is one class, \<open>PostgresWorkEngine\<close>, whose
  commands each run in one transaction. Operators read the status and coverage of a run and pause,
  resume or cancel it (\<open>PostgresRunControlRepository\<close>), which takes waiting work from the engine. A
  supervisor registers the output of every succeeded unit once, leases one registered output at a time
  and applies or blocks its transition (\<open>PostgresPipelineAdvancementRepository\<close>). The
  resolution worker takes a sealed batch of candidates, compares the pairs that share a blocking key,
  merges accepted pairs into clusters without ever joining what an operator separated, evaluates each
  cluster and seals a snapshot. Reviewers decide the cases of ambiguous candidates, add observations and
  suppress records (\<open>ReviewService\<close> over \<open>PostgresReviewRepository\<close>) in append-only tables.

  \<^bold>\<open>Shared theories.\<close>
  \<^item> \<open>Py_Prelude\<close>: what the source uses of Python: exceptions as sums, UUIDs as 128-bit words, aware
    datetimes as microseconds with an offset, the regular expressions, integer column ranges.
  \<^item> \<open>Canonical_Digest\<close>, \<open>Py_Text\<close>: \<open>json.dumps(sort_keys, separators)\<close>, UTF-8, SHA-256 and SHA-1 over
    32-bit words, \<open>uuid5\<close>, \<open>urlsplit\<close>, case folding and the text of a datetime.

  \<^bold>\<open>The Work Engine\<close> (\<open>collection_domain\<close>, \<open>collection_application\<close>, \<open>collection_infrastructure\<close>).
  \<^item> \<open>Lifecycles\<close>, \<open>Work_Units\<close>, \<open>Runs\<close>: the transition tables; the contract the three lifecycle classes
    share is a locale interpreted for each.
  \<^item> \<open>Work_Retry\<close>, \<open>Source_Capacity\<close>, \<open>Work_Leases\<close>: the retry policy, the capacity of a source and
    the lease value object.
  \<^item> \<open>Engine_Commands\<close>, \<open>Artifacts\<close>: the command and result objects with their \<open>__post_init__\<close> checks,
    the error envelope and the service wrapper.
  \<^item> \<open>Work_Schema\<close>, \<open>Store_Tables\<close>: every table the engine touches as a list of records, every CHECK,
    UNIQUE and FOREIGN KEY constraint as the predicate \<open>schema_ok\<close>, the statements, and the locale of a
    table with a unique key, interpreted for each table.
  \<^item> \<open>Engine_Conflicts\<close>, \<open>Work_Engine\<close>, \<open>Engine_Leases\<close>: the conflicts, the transaction wrapper, which
    commits, rolls back or commits and raises, and the handlers \<open>_register_worker\<close> to \<open>_expire_leases\<close>,
    statement by statement. \<open>acquire_lease_between\<close> has what other transactions commit before the lock on a
    source as an argument, \<open>acquire_lease_tx\<close> is the transaction without such commits. A clock reading,
    the UUIDs drawn and the set of rows other transactions hold locked (\<open>FOR UPDATE SKIP LOCKED\<close>) are
    arguments of the handlers.
  \<^item> \<open>Engine_Invariant\<close>, \<open>Engine_Preservation\<close>, \<open>Engine_Issue\<close>, \<open>Engine_Steps\<close>: the invariant
    \<open>engine_inv\<close> (leases and LEASED attempts in bijection, attempts counted and numbered, worker and
    source counters equal to the leases they stand for, a failure budget for leasable work, dead letters
    for exactly the dead work), that every handler preserves it, and the step relation.
  \<^item> \<open>Engine_Calls\<close>, \<open>Engine_Frames\<close>, \<open>Unit_Evolution\<close>, \<open>Engine_Integrity\<close>: calls with their errors and
    roll back, what each call leaves alone, the moves of one unit, and the alarms that cannot go off.
  \<^item> \<open>Engine_Scenario\<close>, \<open>Engine_Properties\<close>, \<open>Engine_Behaviour\<close>, \<open>Engine_Outputs\<close>, \<open>Engine_Refinement\<close>,
    \<open>Engine_Repeats\<close>, \<open>Domain_Properties\<close>: a concrete database and the properties: consistency,
    exclusivity and limits of leases, the effect of every command, the outputs of completed work, the
    refinement of the lease and capacity value objects by rows, and repeated commands.

  \<^bold>\<open>Run control\<close> (\<^verbatim>\<open>run_control.py\<close> of both packages).
  \<^item> \<open>Run_Status\<close>, \<open>Run_Control\<close>: status, coverage and blockers, the transitions with audit rows.
  \<^item> \<open>Run_Reports\<close>, \<open>Run_Transitions\<close>, \<open>Platform_Steps\<close>, \<open>Run_Properties\<close>: the reports count the rows,
    a transition is recorded once against the revision it expects, and engine and operators interleaved
    in any order keep the invariant.

  \<^bold>\<open>Pipeline advancement\<close> (\<^verbatim>\<open>pipeline_advancement.py\<close> of both packages, \<^verbatim>\<open>pipeline_supervision.py\<close>,
  \<^verbatim>\<open>succeeded_work_catalog.py\<close>, \<^verbatim>\<open>pipeline_run_control.py\<close>, migration 0013).
  \<^item> \<open>Pipeline_Contracts\<close>, \<open>Pipeline_Schema\<close>: the data with their checks, the registry that plans the
    transition of an output, and the two tables next to those of the engine.
  \<^item> \<open>Pipeline_Store\<close>, \<open>Pipeline_Catalog\<close>, \<open>Pipeline_Supervision\<close>: registration, claim, completion and
    expiry statement by statement, the catalog that reads the output of a unit back, the tick of the
    supervisor and the coverage report with open advancements. The appliers and previewers of transitions
    are injected into the code and arguments of the model; one call's clock, UUIDs, token and the rows
    other transactions lock are its \<open>call_context\<close>.
    A missing blocker is \<open>absent_blocker\<close>: SQLAlchemy stores the Python value \<open>None\<close> in a JSON column
    without \<open>none_as_null\<close> as the JSON value \<open>null\<close>, which the constraint on the blocker columns refuses.
    So of all statements that write an advancement or an event only the registration of a blocked output
    succeeds.
  \<^item> \<open>Pipeline_Checkpoint\<close>: the checkpoint as an abstract machine that appends blocked advancements with
    the event that explains them, and that every call is a sequence of its moves.
  \<^item> \<open>Pipeline_Steps\<close>, \<open>Pipeline_Properties\<close>: the contract of the reader as a locale, interpreted for the
    catalog; the step relation of calls, ticks and the engine interleaved; the registry plans every
    output; an output is registered once, an output that could advance stops the supervisor; what the
    coverage report counts.

  \<^bold>\<open>Resolution and quality\<close> (\<open>resolution_contracts\<close>, \<open>entity_resolution_core\<close>, \<open>quality_core\<close>,
  \<^verbatim>\<open>resolution_worker/snapshot.py\<close>).
  \<^item> \<open>Resolution_Models\<close>, \<open>Resolution_Snapshots\<close>: the models with their validators, canonical JSON and seals.
  \<^item> \<open>Edit_Distance\<close>, \<open>Union_Find\<close>: the row-by-row distance against its specification by edit steps, and
    the union-find with path compression as an instance of the locale of a partition, within the calls the
    interpreter admits.
  \<^item> \<open>Resolution_Engine\<close>, \<open>Quality_Evaluator\<close>: pairs, features, dispositions, merging with separations,
    lineage, the quality rules and the snapshot builder.
  \<^item> \<open>Resolution_Validity\<close>, \<open>Resolution_Pairs\<close>, \<open>Resolution_Clusters\<close>, \<open>Resolution_Results\<close>,
    \<open>Resolution_Quality\<close>, \<open>Snapshot_Validity\<close>: every value built passes its validators, the generated pairs
    are exact, the merge loop keeps separated candidates apart, verified batches are resolved.
  \<^item> \<open>Resolution_Scenario\<close>, \<open>Resolution_Properties\<close>, \<open>Snapshot_Properties\<close>: a small batch and the properties.

  \<^bold>\<open>Review\<close> (\<open>review_contracts\<close>, \<open>review_core\<close>, \<open>review_infrastructure\<close>, \<open>review_application\<close>).
  \<^item> \<open>Review_Contracts\<close>, \<open>Review_Transitions\<close>: the models with their validators and identities, and the
    transitions of cases and suppressions.
  \<^item> \<open>Review_Schema\<close>, \<open>Review_Store\<close>, \<open>Review_Service\<close>: the tables with immediate and deferred constraints,
    the queries and transactions of the repository, the permissions and commands of the service.
  \<^item> \<open>Review_Models\<close>, \<open>Review_History\<close>, \<open>Review_Chains\<close>, \<open>Review_Decisions\<close>, \<open>Review_Properties\<close>: what is
    written is read back; every call of the service satisfies the contract \<open>review_operation\<close>; the
    decisions of a case are one chain; a decision is accepted once.

  \<^bold>\<open>Bounds.\<close> Every loop of the code runs over a list or counts down. The one recursion that is not bounded
  by its argument is \<open>find\<close> of the union-find: \<open>frames\<close> is the number of nested calls of it the interpreter
  still admits, and a deeper recursion is \<open>RecursionError\<close>, as in Python. One frame for each identity is
  enough, and with more frames every result is the same or was a \<open>RecursionError\<close> before; the properties
  of resolution hold for every number of frames. Integers are unbounded as in Python and the widths of
  \<open>Integer\<close> and \<open>BigInteger\<close> columns are part of every statement. Strings are lists of the 256 characters
  of HOL, which are the code points of Latin-1; the patterns of the source admit ASCII only. Digests are
  computed, and where a property needs two digests or identities to differ it says so as a hypothesis.

  \<^bold>\<open>Not modelled.\<close> Input and output around the parts above: HTTP routes, Pydantic parsing of JSON text,
  object storage with the stores that stream artifacts to it, the appliers and previewers that decode
  artifacts, connectors to external sources and the tools of the repository. Normalization
  rests on Unicode tables beyond Latin-1 and on third-party parsers. The cursors of the review queue are
  parsed client input. Advisory locks and row locks only order transactions and have no effect on a
  transaction run alone. Under READ COMMITTED each statement sees what was committed before it; the model
  gives all statements of a transaction one state, also to the queries of one read such as the review of a
  case, except for the lease request above.
\<close>

end
